(* ===== verification/Wabt_Prelude.thy ===== *)
theory Wabt_Prelude
  imports Main "HOL-Library.Word"
begin

text \<open>
  Shared vocabulary of the development: names for the machine integers of the C sources
  (\<open>uint8_t\<close>, \<open>uint32_t\<close>, \<open>uint64_t\<close>), the collections of rewrite rules the component
  proofs use, and the generic facts on lists, words and bytes that several components need.

  Conventions. A C \<open>uintN_t\<close> or \<open>intN_t\<close> is an \<open>N word\<close> (signed readings by
  \<open>sint\<close>). A \<open>size_t\<close> is a \<open>nat\<close>: it only counts bytes and elements of objects in
  memory. Where the code narrows a size to \<open>uint32_t\<close> the narrowing is written
  \<open>u32_of_nat\<close>.
\<close>

unbundle bit_operations_syntax

type_synonym byte = "8 word"
type_synonym u32 = "32 word"
type_synonym u64 = "64 word"

named_theorems enc_simps \<open>unfolding rules of the byte encoders\<close>
named_theorems reader_simps \<open>unfolding rules of the primitive readers\<close>
named_theorems stream_simps \<open>what the stream operations do to a stream\<close>

abbreviation u32_of_nat :: "nat \<Rightarrow> u32" where
  "u32_of_nat n \<equiv> word_of_nat n"

text \<open>\<open>WasmResult\<close> of \<^verbatim>\<open>common.h\<close>, used by every component.\<close>

datatype WasmResult = WASM_OK | WASM_ERROR

subsection \<open>Words\<close>

lemma unat_u32_of_nat [simp]: "n < 2 ^ 32 \<Longrightarrow> unat (u32_of_nat n) = n"
  by (simp add: unat_of_nat take_bit_nat_eq_self)

lemma drop_bit_word_less:
  fixes w :: "'a::len word"
  assumes "w \<noteq> 0" "0 < n"
  shows "unat (drop_bit n w) < unat w"
proof -
  have "unat (drop_bit n w) = unat w div 2 ^ n"
    unfolding unat_drop_bit_eq by (simp add: drop_bit_eq_div)
  moreover have "0 < unat w" using assms(1) by (simp add: unat_gt_0)
  moreover have "(1::nat) < 2 ^ n" by (rule one_less_power [OF _ assms(2)]) simp
  ultimately show ?thesis by simp
qed

lemma take_bit_chunk:
  fixes w :: "'a::len word"
  shows "push_bit n (take_bit m (drop_bit n w)) OR take_bit n w = take_bit (n + m) w"
  by (rule bit_word_eqI) (auto simp: bit_simps)

lemma drop_bit_eq_0_imp_take_bit:
  fixes w :: "'a::len word"
  assumes "drop_bit n w = 0"
  shows "take_bit n w = w"
proof (rule bit_word_eqI)
  fix i assume i: "i < LENGTH('a)"
  have "\<not> bit w i" if "n \<le> i"
  proof -
    have "bit (drop_bit n w) (i - n) = bit w i" using that by (simp add: bit_simps)
    then show ?thesis using assms by simp
  qed
  then show "bit (take_bit n w) i = bit w i"
    by (auto simp: bit_simps not_le [symmetric])
qed

lemma uint_drop_bit: "uint (drop_bit n w) = drop_bit n (uint w)"
  by (rule bit_eqI) (auto simp: bit_simps dest: bit_imp_le_length)

lemma and_0x7f_take_bit: "(v :: 'a::ring_bit_operations) AND 0x7f = take_bit 7 v"
proof -
  have "mask 7 = (0x7f :: 'a)" by (simp add: mask_eq_exp_minus_1)
  then show ?thesis unfolding take_bit_eq_mask by simp
qed

subsection \<open>Lists\<close>

lemma take_drop_at:
  assumes "xs = pre @ mid @ post"
  shows "take (length mid) (drop (length pre) xs) = mid"
  using assms by simp

text \<open>\<open>memcpy\<close> of \<open>data\<close> to position \<open>off\<close> of a byte array.\<close>

definition overwrite :: "'a list \<Rightarrow> nat \<Rightarrow> 'a list \<Rightarrow> 'a list" where
  "overwrite xs off data = take off xs @ data @ drop (off + length data) xs"

lemma overwrite_end [simp]: "overwrite xs (length xs) data = xs @ data"
  by (simp add: overwrite_def)

lemma overwrite_append [simp]:
  "length mid = length data \<Longrightarrow> overwrite (pre @ mid @ post) (length pre) data = pre @ data @ post"
  by (simp add: overwrite_def)

lemma take_overwrite:
  "off + length data \<le> n \<Longrightarrow> n \<le> length xs \<Longrightarrow> take n (overwrite xs off data) = overwrite (take n xs) off data"
  by (cases "n = off") (auto simp: overwrite_def take_drop min_def)

lemma length_overwrite:
  "off \<le> length xs \<Longrightarrow> length (overwrite xs off data) = max (length xs) (off + length data)"
  by (simp add: overwrite_def max_def)

text \<open>Little-endian bytes of a word, as \<open>memcpy\<close> from a variable gives them.\<close>

definition le_bytes :: "nat \<Rightarrow> 'a::len word \<Rightarrow> byte list" where
  "le_bytes n w = map (\<lambda>i. ucast (drop_bit (8 * i) w)) [0..<n]"

primrec le_word :: "nat \<Rightarrow> byte list \<Rightarrow> 'a::len word" where
  "le_word 0 bs = 0"
| "le_word (Suc k) bs = push_bit (8 * k) (ucast (bs ! k)) OR le_word k bs"

lemma length_le_bytes [simp]: "length (le_bytes n w) = n"
  by (simp add: le_bytes_def)

lemma le_word_le_bytes: "k \<le> n \<Longrightarrow> le_word k (le_bytes n w @ rest) = take_bit (8 * k) w"
proof (induction k)
  case 0
  show ?case by simp
next
  case (Suc k)
  then have "(le_bytes n w @ rest) ! k = ucast (drop_bit (8 * k) w)"
    by (simp add: le_bytes_def nth_append)
  then have "le_word (Suc k) (le_bytes n w @ rest)
      = push_bit (8 * k) (ucast (ucast (drop_bit (8 * k) w) :: byte)) OR take_bit (8 * k) w"
    using Suc by simp
  also have "ucast (ucast (drop_bit (8 * k) w) :: byte) = take_bit 8 (drop_bit (8 * k) w)"
    by (rule bit_word_eqI) (auto simp: bit_simps)
  finally show ?case by (simp add: take_bit_chunk add.commute)
qed

lemma le_word_le_bytes_full:
  fixes w :: "'a::len word"
  assumes "LENGTH('a) = 8 * n"
  shows "le_word n (le_bytes n w @ rest) = w"
  using le_word_le_bytes [of n n w rest] by (simp flip: assms)

end
