(* ===== verification/Wabt_Common.thy ===== *)
theory Wabt_Common
  imports Wabt_Prelude
begin

text \<open>
  The types every part of the toolkit shares (\<^verbatim>\<open>common.h\<close>, \<^verbatim>\<open>common.c\<close>, \<^verbatim>\<open>binary.h\<close>):
  value types with their binary codes, external kinds, limits, string slices, and the opcode
  table with the queries on it.
\<close>

subsection \<open>Value types\<close>

text \<open>
  \<open>WasmType\<close> is a C enum, so a variable of that type can hold an \<open>int\<close> that is no enumerator
  (the binary reader stores whatever it decoded before checking it); \<open>WASM_TYPE_OTHER\<close> is such
  a value.
\<close>

datatype WasmType =
    WASM_TYPE_I32 | WASM_TYPE_I64 | WASM_TYPE_F32 | WASM_TYPE_F64
  | WASM_TYPE_ANYFUNC | WASM_TYPE_FUNC | WASM_TYPE_VOID | WASM_TYPE_ANY
  | WASM_TYPE_OTHER int

fun wasm_type_code :: "WasmType \<Rightarrow> int" where
  "wasm_type_code WASM_TYPE_I32 = - 0x01"
| "wasm_type_code WASM_TYPE_I64 = - 0x02"
| "wasm_type_code WASM_TYPE_F32 = - 0x03"
| "wasm_type_code WASM_TYPE_F64 = - 0x04"
| "wasm_type_code WASM_TYPE_ANYFUNC = - 0x10"
| "wasm_type_code WASM_TYPE_FUNC = - 0x20"
| "wasm_type_code WASM_TYPE_VOID = - 0x40"
| "wasm_type_code WASM_TYPE_ANY = 0"
| "wasm_type_code (WASM_TYPE_OTHER n) = n"

definition wasm_type_of_code :: "int \<Rightarrow> WasmType" where
  "wasm_type_of_code n =
     (if n = - 0x01 then WASM_TYPE_I32 else if n = - 0x02 then WASM_TYPE_I64
      else if n = - 0x03 then WASM_TYPE_F32 else if n = - 0x04 then WASM_TYPE_F64
      else if n = - 0x10 then WASM_TYPE_ANYFUNC else if n = - 0x20 then WASM_TYPE_FUNC
      else if n = - 0x40 then WASM_TYPE_VOID else if n = 0 then WASM_TYPE_ANY
      else WASM_TYPE_OTHER n)"

lemma wasm_type_code_of_code [simp]: "wasm_type_code (wasm_type_of_code n) = n"
  by (simp add: wasm_type_of_code_def)

text \<open>The enumerators, as opposed to stray integers.\<close>

definition is_enumerator :: "WasmType \<Rightarrow> bool" where
  "is_enumerator t \<longleftrightarrow> wasm_type_of_code (wasm_type_code t) = t"

lemma is_enumerator_simps [simp]:
  "is_enumerator WASM_TYPE_I32" "is_enumerator WASM_TYPE_I64"
  "is_enumerator WASM_TYPE_F32" "is_enumerator WASM_TYPE_F64"
  "is_enumerator WASM_TYPE_ANYFUNC" "is_enumerator WASM_TYPE_FUNC"
  "is_enumerator WASM_TYPE_VOID" "is_enumerator WASM_TYPE_ANY"
  by (simp_all add: is_enumerator_def wasm_type_of_code_def)

fun wasm_get_type_name :: "WasmType \<Rightarrow> string option" where
  "wasm_get_type_name WASM_TYPE_I32 = Some ''i32''"
| "wasm_get_type_name WASM_TYPE_I64 = Some ''i64''"
| "wasm_get_type_name WASM_TYPE_F32 = Some ''f32''"
| "wasm_get_type_name WASM_TYPE_F64 = Some ''f64''"
| "wasm_get_type_name WASM_TYPE_ANYFUNC = Some ''anyfunc''"
| "wasm_get_type_name WASM_TYPE_FUNC = Some ''func''"
| "wasm_get_type_name WASM_TYPE_VOID = Some ''void''"
| "wasm_get_type_name WASM_TYPE_ANY = Some ''any''"
| "wasm_get_type_name (WASM_TYPE_OTHER n) = None"

subsection \<open>External kinds, limits, string slices\<close>

datatype WasmExternalKind =
    WASM_EXTERNAL_KIND_FUNC | WASM_EXTERNAL_KIND_TABLE
  | WASM_EXTERNAL_KIND_MEMORY | WASM_EXTERNAL_KIND_GLOBAL

fun external_kind_code :: "WasmExternalKind \<Rightarrow> nat" where
  "external_kind_code WASM_EXTERNAL_KIND_FUNC = 0"
| "external_kind_code WASM_EXTERNAL_KIND_TABLE = 1"
| "external_kind_code WASM_EXTERNAL_KIND_MEMORY = 2"
| "external_kind_code WASM_EXTERNAL_KIND_GLOBAL = 3"

definition external_kind_of_code :: "nat \<Rightarrow> WasmExternalKind option" where
  "external_kind_of_code n =
     (if n = 0 then Some WASM_EXTERNAL_KIND_FUNC else if n = 1 then Some WASM_EXTERNAL_KIND_TABLE
      else if n = 2 then Some WASM_EXTERNAL_KIND_MEMORY
      else if n = 3 then Some WASM_EXTERNAL_KIND_GLOBAL else None)"

lemma external_kind_of_code_code [simp]: "external_kind_of_code (external_kind_code k) = Some k"
  by (cases k) (simp_all add: external_kind_of_code_def)

record WasmLimits =
  limits_initial :: u64
  limits_max :: u64
  limits_has_max :: bool

text \<open>
  \<open>WasmStringSlice\<close>: a start pointer and a length. \<open>None\<close> is a slice whose \<open>start\<close> is
  NULL; otherwise the slice is the bytes it spans.
\<close>

type_synonym WasmStringSlice = "byte list option"

definition slice_bytes :: "WasmStringSlice \<Rightarrow> byte list" where
  "slice_bytes s = (case s of None \<Rightarrow> [] | Some bs \<Rightarrow> bs)"

lemma slice_bytes_Some [simp]: "slice_bytes (Some bs) = bs"
  by (simp add: slice_bytes_def)

text \<open>A C string literal as the bytes before its terminator.\<close>

definition cstr :: "string \<Rightarrow> byte list" where
  "cstr s = map (\<lambda>c. word_of_nat (of_char c)) s"

definition wasm_string_slice_is_empty :: "WasmStringSlice \<Rightarrow> bool" where
  "wasm_string_slice_is_empty str = (case str of None \<Rightarrow> True | Some bs \<Rightarrow> length bs = 0)"

definition wasm_string_slices_are_equal :: "WasmStringSlice \<Rightarrow> WasmStringSlice \<Rightarrow> bool" where
  "wasm_string_slices_are_equal a b =
     (case (a, b) of (Some x, Some y) \<Rightarrow> length x = length y \<and> x = y | _ \<Rightarrow> False)"

text \<open>An argument of a formatted message. Messages are kept as their format and arguments.\<close>

datatype ErrorArg = ArgInt int | ArgStr string

subsection \<open>Opcodes\<close>

text \<open>
  A \<open>WasmOpcode\<close> is its code, as in the C enum. The named opcodes are abbreviations of the
  codes; \<open>wasm_opcode_table\<close> is \<open>WASM_FOREACH_OPCODE\<close> row by row: result type, parameter
  types, memory size and text of every opcode.
\<close>

type_synonym WasmOpcode = nat

abbreviation (input) WASM_OPCODE_UNREACHABLE :: WasmOpcode where "WASM_OPCODE_UNREACHABLE \<equiv> 0x00"
abbreviation (input) WASM_OPCODE_NOP :: WasmOpcode where "WASM_OPCODE_NOP \<equiv> 0x01"
abbreviation (input) WASM_OPCODE_BLOCK :: WasmOpcode where "WASM_OPCODE_BLOCK \<equiv> 0x02"
abbreviation (input) WASM_OPCODE_LOOP :: WasmOpcode where "WASM_OPCODE_LOOP \<equiv> 0x03"
abbreviation (input) WASM_OPCODE_IF :: WasmOpcode where "WASM_OPCODE_IF \<equiv> 0x04"
abbreviation (input) WASM_OPCODE_ELSE :: WasmOpcode where "WASM_OPCODE_ELSE \<equiv> 0x05"
abbreviation (input) WASM_OPCODE_END :: WasmOpcode where "WASM_OPCODE_END \<equiv> 0x0b"
abbreviation (input) WASM_OPCODE_BR :: WasmOpcode where "WASM_OPCODE_BR \<equiv> 0x0c"
abbreviation (input) WASM_OPCODE_BR_IF :: WasmOpcode where "WASM_OPCODE_BR_IF \<equiv> 0x0d"
abbreviation (input) WASM_OPCODE_BR_TABLE :: WasmOpcode where "WASM_OPCODE_BR_TABLE \<equiv> 0x0e"
abbreviation (input) WASM_OPCODE_RETURN :: WasmOpcode where "WASM_OPCODE_RETURN \<equiv> 0x0f"
abbreviation (input) WASM_OPCODE_CALL :: WasmOpcode where "WASM_OPCODE_CALL \<equiv> 0x10"
abbreviation (input) WASM_OPCODE_CALL_INDIRECT :: WasmOpcode where "WASM_OPCODE_CALL_INDIRECT \<equiv> 0x11"
abbreviation (input) WASM_OPCODE_DROP :: WasmOpcode where "WASM_OPCODE_DROP \<equiv> 0x1a"
abbreviation (input) WASM_OPCODE_SELECT :: WasmOpcode where "WASM_OPCODE_SELECT \<equiv> 0x1b"
abbreviation (input) WASM_OPCODE_GET_LOCAL :: WasmOpcode where "WASM_OPCODE_GET_LOCAL \<equiv> 0x20"
abbreviation (input) WASM_OPCODE_SET_LOCAL :: WasmOpcode where "WASM_OPCODE_SET_LOCAL \<equiv> 0x21"
abbreviation (input) WASM_OPCODE_TEE_LOCAL :: WasmOpcode where "WASM_OPCODE_TEE_LOCAL \<equiv> 0x22"
abbreviation (input) WASM_OPCODE_GET_GLOBAL :: WasmOpcode where "WASM_OPCODE_GET_GLOBAL \<equiv> 0x23"
abbreviation (input) WASM_OPCODE_SET_GLOBAL :: WasmOpcode where "WASM_OPCODE_SET_GLOBAL \<equiv> 0x24"
abbreviation (input) WASM_OPCODE_I32_LOAD :: WasmOpcode where "WASM_OPCODE_I32_LOAD \<equiv> 0x28"
abbreviation (input) WASM_OPCODE_I64_LOAD :: WasmOpcode where "WASM_OPCODE_I64_LOAD \<equiv> 0x29"
abbreviation (input) WASM_OPCODE_F32_LOAD :: WasmOpcode where "WASM_OPCODE_F32_LOAD \<equiv> 0x2a"
abbreviation (input) WASM_OPCODE_F64_LOAD :: WasmOpcode where "WASM_OPCODE_F64_LOAD \<equiv> 0x2b"
abbreviation (input) WASM_OPCODE_I32_LOAD8_S :: WasmOpcode where "WASM_OPCODE_I32_LOAD8_S \<equiv> 0x2c"
abbreviation (input) WASM_OPCODE_I32_LOAD8_U :: WasmOpcode where "WASM_OPCODE_I32_LOAD8_U \<equiv> 0x2d"
abbreviation (input) WASM_OPCODE_I32_LOAD16_S :: WasmOpcode where "WASM_OPCODE_I32_LOAD16_S \<equiv> 0x2e"
abbreviation (input) WASM_OPCODE_I32_LOAD16_U :: WasmOpcode where "WASM_OPCODE_I32_LOAD16_U \<equiv> 0x2f"
abbreviation (input) WASM_OPCODE_I64_LOAD8_S :: WasmOpcode where "WASM_OPCODE_I64_LOAD8_S \<equiv> 0x30"
abbreviation (input) WASM_OPCODE_I64_LOAD8_U :: WasmOpcode where "WASM_OPCODE_I64_LOAD8_U \<equiv> 0x31"
abbreviation (input) WASM_OPCODE_I64_LOAD16_S :: WasmOpcode where "WASM_OPCODE_I64_LOAD16_S \<equiv> 0x32"
abbreviation (input) WASM_OPCODE_I64_LOAD16_U :: WasmOpcode where "WASM_OPCODE_I64_LOAD16_U \<equiv> 0x33"
abbreviation (input) WASM_OPCODE_I64_LOAD32_S :: WasmOpcode where "WASM_OPCODE_I64_LOAD32_S \<equiv> 0x34"
abbreviation (input) WASM_OPCODE_I64_LOAD32_U :: WasmOpcode where "WASM_OPCODE_I64_LOAD32_U \<equiv> 0x35"
abbreviation (input) WASM_OPCODE_I32_STORE :: WasmOpcode where "WASM_OPCODE_I32_STORE \<equiv> 0x36"
abbreviation (input) WASM_OPCODE_I64_STORE :: WasmOpcode where "WASM_OPCODE_I64_STORE \<equiv> 0x37"
abbreviation (input) WASM_OPCODE_F32_STORE :: WasmOpcode where "WASM_OPCODE_F32_STORE \<equiv> 0x38"
abbreviation (input) WASM_OPCODE_F64_STORE :: WasmOpcode where "WASM_OPCODE_F64_STORE \<equiv> 0x39"
abbreviation (input) WASM_OPCODE_I32_STORE8 :: WasmOpcode where "WASM_OPCODE_I32_STORE8 \<equiv> 0x3a"
abbreviation (input) WASM_OPCODE_I32_STORE16 :: WasmOpcode where "WASM_OPCODE_I32_STORE16 \<equiv> 0x3b"
abbreviation (input) WASM_OPCODE_I64_STORE8 :: WasmOpcode where "WASM_OPCODE_I64_STORE8 \<equiv> 0x3c"
abbreviation (input) WASM_OPCODE_I64_STORE16 :: WasmOpcode where "WASM_OPCODE_I64_STORE16 \<equiv> 0x3d"
abbreviation (input) WASM_OPCODE_I64_STORE32 :: WasmOpcode where "WASM_OPCODE_I64_STORE32 \<equiv> 0x3e"
abbreviation (input) WASM_OPCODE_CURRENT_MEMORY :: WasmOpcode where "WASM_OPCODE_CURRENT_MEMORY \<equiv> 0x3f"
abbreviation (input) WASM_OPCODE_GROW_MEMORY :: WasmOpcode where "WASM_OPCODE_GROW_MEMORY \<equiv> 0x40"
abbreviation (input) WASM_OPCODE_I32_CONST :: WasmOpcode where "WASM_OPCODE_I32_CONST \<equiv> 0x41"
abbreviation (input) WASM_OPCODE_I64_CONST :: WasmOpcode where "WASM_OPCODE_I64_CONST \<equiv> 0x42"
abbreviation (input) WASM_OPCODE_F32_CONST :: WasmOpcode where "WASM_OPCODE_F32_CONST \<equiv> 0x43"
abbreviation (input) WASM_OPCODE_F64_CONST :: WasmOpcode where "WASM_OPCODE_F64_CONST \<equiv> 0x44"
abbreviation (input) WASM_OPCODE_I32_EQZ :: WasmOpcode where "WASM_OPCODE_I32_EQZ \<equiv> 0x45"
abbreviation (input) WASM_OPCODE_I32_EQ :: WasmOpcode where "WASM_OPCODE_I32_EQ \<equiv> 0x46"
abbreviation (input) WASM_OPCODE_I32_NE :: WasmOpcode where "WASM_OPCODE_I32_NE \<equiv> 0x47"
abbreviation (input) WASM_OPCODE_I32_LT_S :: WasmOpcode where "WASM_OPCODE_I32_LT_S \<equiv> 0x48"
abbreviation (input) WASM_OPCODE_I32_LT_U :: WasmOpcode where "WASM_OPCODE_I32_LT_U \<equiv> 0x49"
abbreviation (input) WASM_OPCODE_I32_GT_S :: WasmOpcode where "WASM_OPCODE_I32_GT_S \<equiv> 0x4a"
abbreviation (input) WASM_OPCODE_I32_GT_U :: WasmOpcode where "WASM_OPCODE_I32_GT_U \<equiv> 0x4b"
abbreviation (input) WASM_OPCODE_I32_LE_S :: WasmOpcode where "WASM_OPCODE_I32_LE_S \<equiv> 0x4c"
abbreviation (input) WASM_OPCODE_I32_LE_U :: WasmOpcode where "WASM_OPCODE_I32_LE_U \<equiv> 0x4d"
abbreviation (input) WASM_OPCODE_I32_GE_S :: WasmOpcode where "WASM_OPCODE_I32_GE_S \<equiv> 0x4e"
abbreviation (input) WASM_OPCODE_I32_GE_U :: WasmOpcode where "WASM_OPCODE_I32_GE_U \<equiv> 0x4f"
abbreviation (input) WASM_OPCODE_I64_EQZ :: WasmOpcode where "WASM_OPCODE_I64_EQZ \<equiv> 0x50"
abbreviation (input) WASM_OPCODE_I64_EQ :: WasmOpcode where "WASM_OPCODE_I64_EQ \<equiv> 0x51"
abbreviation (input) WASM_OPCODE_I64_NE :: WasmOpcode where "WASM_OPCODE_I64_NE \<equiv> 0x52"
abbreviation (input) WASM_OPCODE_I64_LT_S :: WasmOpcode where "WASM_OPCODE_I64_LT_S \<equiv> 0x53"
abbreviation (input) WASM_OPCODE_I64_LT_U :: WasmOpcode where "WASM_OPCODE_I64_LT_U \<equiv> 0x54"
abbreviation (input) WASM_OPCODE_I64_GT_S :: WasmOpcode where "WASM_OPCODE_I64_GT_S \<equiv> 0x55"
abbreviation (input) WASM_OPCODE_I64_GT_U :: WasmOpcode where "WASM_OPCODE_I64_GT_U \<equiv> 0x56"
abbreviation (input) WASM_OPCODE_I64_LE_S :: WasmOpcode where "WASM_OPCODE_I64_LE_S \<equiv> 0x57"
abbreviation (input) WASM_OPCODE_I64_LE_U :: WasmOpcode where "WASM_OPCODE_I64_LE_U \<equiv> 0x58"
abbreviation (input) WASM_OPCODE_I64_GE_S :: WasmOpcode where "WASM_OPCODE_I64_GE_S \<equiv> 0x59"
abbreviation (input) WASM_OPCODE_I64_GE_U :: WasmOpcode where "WASM_OPCODE_I64_GE_U \<equiv> 0x5a"
abbreviation (input) WASM_OPCODE_F32_EQ :: WasmOpcode where "WASM_OPCODE_F32_EQ \<equiv> 0x5b"
abbreviation (input) WASM_OPCODE_F32_NE :: WasmOpcode where "WASM_OPCODE_F32_NE \<equiv> 0x5c"
abbreviation (input) WASM_OPCODE_F32_LT :: WasmOpcode where "WASM_OPCODE_F32_LT \<equiv> 0x5d"
abbreviation (input) WASM_OPCODE_F32_GT :: WasmOpcode where "WASM_OPCODE_F32_GT \<equiv> 0x5e"
abbreviation (input) WASM_OPCODE_F32_LE :: WasmOpcode where "WASM_OPCODE_F32_LE \<equiv> 0x5f"
abbreviation (input) WASM_OPCODE_F32_GE :: WasmOpcode where "WASM_OPCODE_F32_GE \<equiv> 0x60"
abbreviation (input) WASM_OPCODE_F64_EQ :: WasmOpcode where "WASM_OPCODE_F64_EQ \<equiv> 0x61"
abbreviation (input) WASM_OPCODE_F64_NE :: WasmOpcode where "WASM_OPCODE_F64_NE \<equiv> 0x62"
abbreviation (input) WASM_OPCODE_F64_LT :: WasmOpcode where "WASM_OPCODE_F64_LT \<equiv> 0x63"
abbreviation (input) WASM_OPCODE_F64_GT :: WasmOpcode where "WASM_OPCODE_F64_GT \<equiv> 0x64"
abbreviation (input) WASM_OPCODE_F64_LE :: WasmOpcode where "WASM_OPCODE_F64_LE \<equiv> 0x65"
abbreviation (input) WASM_OPCODE_F64_GE :: WasmOpcode where "WASM_OPCODE_F64_GE \<equiv> 0x66"
abbreviation (input) WASM_OPCODE_I32_CLZ :: WasmOpcode where "WASM_OPCODE_I32_CLZ \<equiv> 0x67"
abbreviation (input) WASM_OPCODE_I32_CTZ :: WasmOpcode where "WASM_OPCODE_I32_CTZ \<equiv> 0x68"
abbreviation (input) WASM_OPCODE_I32_POPCNT :: WasmOpcode where "WASM_OPCODE_I32_POPCNT \<equiv> 0x69"
abbreviation (input) WASM_OPCODE_I32_ADD :: WasmOpcode where "WASM_OPCODE_I32_ADD \<equiv> 0x6a"
abbreviation (input) WASM_OPCODE_I32_SUB :: WasmOpcode where "WASM_OPCODE_I32_SUB \<equiv> 0x6b"
abbreviation (input) WASM_OPCODE_I32_MUL :: WasmOpcode where "WASM_OPCODE_I32_MUL \<equiv> 0x6c"
abbreviation (input) WASM_OPCODE_I32_DIV_S :: WasmOpcode where "WASM_OPCODE_I32_DIV_S \<equiv> 0x6d"
abbreviation (input) WASM_OPCODE_I32_DIV_U :: WasmOpcode where "WASM_OPCODE_I32_DIV_U \<equiv> 0x6e"
abbreviation (input) WASM_OPCODE_I32_REM_S :: WasmOpcode where "WASM_OPCODE_I32_REM_S \<equiv> 0x6f"
abbreviation (input) WASM_OPCODE_I32_REM_U :: WasmOpcode where "WASM_OPCODE_I32_REM_U \<equiv> 0x70"
abbreviation (input) WASM_OPCODE_I32_AND :: WasmOpcode where "WASM_OPCODE_I32_AND \<equiv> 0x71"
abbreviation (input) WASM_OPCODE_I32_OR :: WasmOpcode where "WASM_OPCODE_I32_OR \<equiv> 0x72"
abbreviation (input) WASM_OPCODE_I32_XOR :: WasmOpcode where "WASM_OPCODE_I32_XOR \<equiv> 0x73"
abbreviation (input) WASM_OPCODE_I32_SHL :: WasmOpcode where "WASM_OPCODE_I32_SHL \<equiv> 0x74"
abbreviation (input) WASM_OPCODE_I32_SHR_S :: WasmOpcode where "WASM_OPCODE_I32_SHR_S \<equiv> 0x75"
abbreviation (input) WASM_OPCODE_I32_SHR_U :: WasmOpcode where "WASM_OPCODE_I32_SHR_U \<equiv> 0x76"
abbreviation (input) WASM_OPCODE_I32_ROTL :: WasmOpcode where "WASM_OPCODE_I32_ROTL \<equiv> 0x77"
abbreviation (input) WASM_OPCODE_I32_ROTR :: WasmOpcode where "WASM_OPCODE_I32_ROTR \<equiv> 0x78"
abbreviation (input) WASM_OPCODE_I64_CLZ :: WasmOpcode where "WASM_OPCODE_I64_CLZ \<equiv> 0x79"
abbreviation (input) WASM_OPCODE_I64_CTZ :: WasmOpcode where "WASM_OPCODE_I64_CTZ \<equiv> 0x7a"
abbreviation (input) WASM_OPCODE_I64_POPCNT :: WasmOpcode where "WASM_OPCODE_I64_POPCNT \<equiv> 0x7b"
abbreviation (input) WASM_OPCODE_I64_ADD :: WasmOpcode where "WASM_OPCODE_I64_ADD \<equiv> 0x7c"
abbreviation (input) WASM_OPCODE_I64_SUB :: WasmOpcode where "WASM_OPCODE_I64_SUB \<equiv> 0x7d"
abbreviation (input) WASM_OPCODE_I64_MUL :: WasmOpcode where "WASM_OPCODE_I64_MUL \<equiv> 0x7e"
abbreviation (input) WASM_OPCODE_I64_DIV_S :: WasmOpcode where "WASM_OPCODE_I64_DIV_S \<equiv> 0x7f"
abbreviation (input) WASM_OPCODE_I64_DIV_U :: WasmOpcode where "WASM_OPCODE_I64_DIV_U \<equiv> 0x80"
abbreviation (input) WASM_OPCODE_I64_REM_S :: WasmOpcode where "WASM_OPCODE_I64_REM_S \<equiv> 0x81"
abbreviation (input) WASM_OPCODE_I64_REM_U :: WasmOpcode where "WASM_OPCODE_I64_REM_U \<equiv> 0x82"
abbreviation (input) WASM_OPCODE_I64_AND :: WasmOpcode where "WASM_OPCODE_I64_AND \<equiv> 0x83"
abbreviation (input) WASM_OPCODE_I64_OR :: WasmOpcode where "WASM_OPCODE_I64_OR \<equiv> 0x84"
abbreviation (input) WASM_OPCODE_I64_XOR :: WasmOpcode where "WASM_OPCODE_I64_XOR \<equiv> 0x85"
abbreviation (input) WASM_OPCODE_I64_SHL :: WasmOpcode where "WASM_OPCODE_I64_SHL \<equiv> 0x86"
abbreviation (input) WASM_OPCODE_I64_SHR_S :: WasmOpcode where "WASM_OPCODE_I64_SHR_S \<equiv> 0x87"
abbreviation (input) WASM_OPCODE_I64_SHR_U :: WasmOpcode where "WASM_OPCODE_I64_SHR_U \<equiv> 0x88"
abbreviation (input) WASM_OPCODE_I64_ROTL :: WasmOpcode where "WASM_OPCODE_I64_ROTL \<equiv> 0x89"
abbreviation (input) WASM_OPCODE_I64_ROTR :: WasmOpcode where "WASM_OPCODE_I64_ROTR \<equiv> 0x8a"
abbreviation (input) WASM_OPCODE_F32_ABS :: WasmOpcode where "WASM_OPCODE_F32_ABS \<equiv> 0x8b"
abbreviation (input) WASM_OPCODE_F32_NEG :: WasmOpcode where "WASM_OPCODE_F32_NEG \<equiv> 0x8c"
abbreviation (input) WASM_OPCODE_F32_CEIL :: WasmOpcode where "WASM_OPCODE_F32_CEIL \<equiv> 0x8d"
abbreviation (input) WASM_OPCODE_F32_FLOOR :: WasmOpcode where "WASM_OPCODE_F32_FLOOR \<equiv> 0x8e"
abbreviation (input) WASM_OPCODE_F32_TRUNC :: WasmOpcode where "WASM_OPCODE_F32_TRUNC \<equiv> 0x8f"
abbreviation (input) WASM_OPCODE_F32_NEAREST :: WasmOpcode where "WASM_OPCODE_F32_NEAREST \<equiv> 0x90"
abbreviation (input) WASM_OPCODE_F32_SQRT :: WasmOpcode where "WASM_OPCODE_F32_SQRT \<equiv> 0x91"
abbreviation (input) WASM_OPCODE_F32_ADD :: WasmOpcode where "WASM_OPCODE_F32_ADD \<equiv> 0x92"
abbreviation (input) WASM_OPCODE_F32_SUB :: WasmOpcode where "WASM_OPCODE_F32_SUB \<equiv> 0x93"
abbreviation (input) WASM_OPCODE_F32_MUL :: WasmOpcode where "WASM_OPCODE_F32_MUL \<equiv> 0x94"
abbreviation (input) WASM_OPCODE_F32_DIV :: WasmOpcode where "WASM_OPCODE_F32_DIV \<equiv> 0x95"
abbreviation (input) WASM_OPCODE_F32_MIN :: WasmOpcode where "WASM_OPCODE_F32_MIN \<equiv> 0x96"
abbreviation (input) WASM_OPCODE_F32_MAX :: WasmOpcode where "WASM_OPCODE_F32_MAX \<equiv> 0x97"
abbreviation (input) WASM_OPCODE_F32_COPYSIGN :: WasmOpcode where "WASM_OPCODE_F32_COPYSIGN \<equiv> 0x98"
abbreviation (input) WASM_OPCODE_F64_ABS :: WasmOpcode where "WASM_OPCODE_F64_ABS \<equiv> 0x99"
abbreviation (input) WASM_OPCODE_F64_NEG :: WasmOpcode where "WASM_OPCODE_F64_NEG \<equiv> 0x9a"
abbreviation (input) WASM_OPCODE_F64_CEIL :: WasmOpcode where "WASM_OPCODE_F64_CEIL \<equiv> 0x9b"
abbreviation (input) WASM_OPCODE_F64_FLOOR :: WasmOpcode where "WASM_OPCODE_F64_FLOOR \<equiv> 0x9c"
abbreviation (input) WASM_OPCODE_F64_TRUNC :: WasmOpcode where "WASM_OPCODE_F64_TRUNC \<equiv> 0x9d"
abbreviation (input) WASM_OPCODE_F64_NEAREST :: WasmOpcode where "WASM_OPCODE_F64_NEAREST \<equiv> 0x9e"
abbreviation (input) WASM_OPCODE_F64_SQRT :: WasmOpcode where "WASM_OPCODE_F64_SQRT \<equiv> 0x9f"
abbreviation (input) WASM_OPCODE_F64_ADD :: WasmOpcode where "WASM_OPCODE_F64_ADD \<equiv> 0xa0"
abbreviation (input) WASM_OPCODE_F64_SUB :: WasmOpcode where "WASM_OPCODE_F64_SUB \<equiv> 0xa1"
abbreviation (input) WASM_OPCODE_F64_MUL :: WasmOpcode where "WASM_OPCODE_F64_MUL \<equiv> 0xa2"
abbreviation (input) WASM_OPCODE_F64_DIV :: WasmOpcode where "WASM_OPCODE_F64_DIV \<equiv> 0xa3"
abbreviation (input) WASM_OPCODE_F64_MIN :: WasmOpcode where "WASM_OPCODE_F64_MIN \<equiv> 0xa4"
abbreviation (input) WASM_OPCODE_F64_MAX :: WasmOpcode where "WASM_OPCODE_F64_MAX \<equiv> 0xa5"
abbreviation (input) WASM_OPCODE_F64_COPYSIGN :: WasmOpcode where "WASM_OPCODE_F64_COPYSIGN \<equiv> 0xa6"
abbreviation (input) WASM_OPCODE_I32_WRAP_I64 :: WasmOpcode where "WASM_OPCODE_I32_WRAP_I64 \<equiv> 0xa7"
abbreviation (input) WASM_OPCODE_I32_TRUNC_S_F32 :: WasmOpcode where "WASM_OPCODE_I32_TRUNC_S_F32 \<equiv> 0xa8"
abbreviation (input) WASM_OPCODE_I32_TRUNC_U_F32 :: WasmOpcode where "WASM_OPCODE_I32_TRUNC_U_F32 \<equiv> 0xa9"
abbreviation (input) WASM_OPCODE_I32_TRUNC_S_F64 :: WasmOpcode where "WASM_OPCODE_I32_TRUNC_S_F64 \<equiv> 0xaa"
abbreviation (input) WASM_OPCODE_I32_TRUNC_U_F64 :: WasmOpcode where "WASM_OPCODE_I32_TRUNC_U_F64 \<equiv> 0xab"
abbreviation (input) WASM_OPCODE_I64_EXTEND_S_I32 :: WasmOpcode where "WASM_OPCODE_I64_EXTEND_S_I32 \<equiv> 0xac"
abbreviation (input) WASM_OPCODE_I64_EXTEND_U_I32 :: WasmOpcode where "WASM_OPCODE_I64_EXTEND_U_I32 \<equiv> 0xad"
abbreviation (input) WASM_OPCODE_I64_TRUNC_S_F32 :: WasmOpcode where "WASM_OPCODE_I64_TRUNC_S_F32 \<equiv> 0xae"
abbreviation (input) WASM_OPCODE_I64_TRUNC_U_F32 :: WasmOpcode where "WASM_OPCODE_I64_TRUNC_U_F32 \<equiv> 0xaf"
abbreviation (input) WASM_OPCODE_I64_TRUNC_S_F64 :: WasmOpcode where "WASM_OPCODE_I64_TRUNC_S_F64 \<equiv> 0xb0"
abbreviation (input) WASM_OPCODE_I64_TRUNC_U_F64 :: WasmOpcode where "WASM_OPCODE_I64_TRUNC_U_F64 \<equiv> 0xb1"
abbreviation (input) WASM_OPCODE_F32_CONVERT_S_I32 :: WasmOpcode where "WASM_OPCODE_F32_CONVERT_S_I32 \<equiv> 0xb2"
abbreviation (input) WASM_OPCODE_F32_CONVERT_U_I32 :: WasmOpcode where "WASM_OPCODE_F32_CONVERT_U_I32 \<equiv> 0xb3"
abbreviation (input) WASM_OPCODE_F32_CONVERT_S_I64 :: WasmOpcode where "WASM_OPCODE_F32_CONVERT_S_I64 \<equiv> 0xb4"
abbreviation (input) WASM_OPCODE_F32_CONVERT_U_I64 :: WasmOpcode where "WASM_OPCODE_F32_CONVERT_U_I64 \<equiv> 0xb5"
abbreviation (input) WASM_OPCODE_F32_DEMOTE_F64 :: WasmOpcode where "WASM_OPCODE_F32_DEMOTE_F64 \<equiv> 0xb6"
abbreviation (input) WASM_OPCODE_F64_CONVERT_S_I32 :: WasmOpcode where "WASM_OPCODE_F64_CONVERT_S_I32 \<equiv> 0xb7"
abbreviation (input) WASM_OPCODE_F64_CONVERT_U_I32 :: WasmOpcode where "WASM_OPCODE_F64_CONVERT_U_I32 \<equiv> 0xb8"
abbreviation (input) WASM_OPCODE_F64_CONVERT_S_I64 :: WasmOpcode where "WASM_OPCODE_F64_CONVERT_S_I64 \<equiv> 0xb9"
abbreviation (input) WASM_OPCODE_F64_CONVERT_U_I64 :: WasmOpcode where "WASM_OPCODE_F64_CONVERT_U_I64 \<equiv> 0xba"
abbreviation (input) WASM_OPCODE_F64_PROMOTE_F32 :: WasmOpcode where "WASM_OPCODE_F64_PROMOTE_F32 \<equiv> 0xbb"
abbreviation (input) WASM_OPCODE_I32_REINTERPRET_F32 :: WasmOpcode where "WASM_OPCODE_I32_REINTERPRET_F32 \<equiv> 0xbc"
abbreviation (input) WASM_OPCODE_I64_REINTERPRET_F64 :: WasmOpcode where "WASM_OPCODE_I64_REINTERPRET_F64 \<equiv> 0xbd"
abbreviation (input) WASM_OPCODE_F32_REINTERPRET_I32 :: WasmOpcode where "WASM_OPCODE_F32_REINTERPRET_I32 \<equiv> 0xbe"
abbreviation (input) WASM_OPCODE_F64_REINTERPRET_I64 :: WasmOpcode where "WASM_OPCODE_F64_REINTERPRET_I64 \<equiv> 0xbf"

record WasmOpcodeInfo =
  op_name :: string
  op_result_type :: WasmType
  op_param1_type :: WasmType
  op_param2_type :: WasmType
  op_memory_size :: nat

definition opcode_info :: "string \<Rightarrow> WasmType \<Rightarrow> WasmType \<Rightarrow> WasmType \<Rightarrow> nat \<Rightarrow> WasmOpcodeInfo" where
  "opcode_info text rtype type1 type2 mem_size =
     \<lparr>op_name = text, op_result_type = rtype, op_param1_type = type1, op_param2_type = type2,
      op_memory_size = mem_size\<rparr>"

definition wasm_opcode_table :: "(WasmOpcode \<times> WasmOpcodeInfo) list" where
  "wasm_opcode_table =
  [(WASM_OPCODE_UNREACHABLE, opcode_info ''unreachable'' WASM_TYPE_VOID WASM_TYPE_VOID WASM_TYPE_VOID 0),
   (WASM_OPCODE_NOP, opcode_info ''nop'' WASM_TYPE_VOID WASM_TYPE_VOID WASM_TYPE_VOID 0),
   (WASM_OPCODE_BLOCK, opcode_info ''block'' WASM_TYPE_VOID WASM_TYPE_VOID WASM_TYPE_VOID 0),
   (WASM_OPCODE_LOOP, opcode_info ''loop'' WASM_TYPE_VOID WASM_TYPE_VOID WASM_TYPE_VOID 0),
   (WASM_OPCODE_IF, opcode_info ''if'' WASM_TYPE_VOID WASM_TYPE_VOID WASM_TYPE_VOID 0),
   (WASM_OPCODE_ELSE, opcode_info ''else'' WASM_TYPE_VOID WASM_TYPE_VOID WASM_TYPE_VOID 0),
   (WASM_OPCODE_END, opcode_info ''end'' WASM_TYPE_VOID WASM_TYPE_VOID WASM_TYPE_VOID 0),
   (WASM_OPCODE_BR, opcode_info ''br'' WASM_TYPE_VOID WASM_TYPE_VOID WASM_TYPE_VOID 0),
   (WASM_OPCODE_BR_IF, opcode_info ''br_if'' WASM_TYPE_VOID WASM_TYPE_VOID WASM_TYPE_VOID 0),
   (WASM_OPCODE_BR_TABLE, opcode_info ''br_table'' WASM_TYPE_VOID WASM_TYPE_VOID WASM_TYPE_VOID 0),
   (WASM_OPCODE_RETURN, opcode_info ''return'' WASM_TYPE_VOID WASM_TYPE_VOID WASM_TYPE_VOID 0),
   (WASM_OPCODE_CALL, opcode_info ''call'' WASM_TYPE_VOID WASM_TYPE_VOID WASM_TYPE_VOID 0),
   (WASM_OPCODE_CALL_INDIRECT, opcode_info ''call_indirect'' WASM_TYPE_VOID WASM_TYPE_VOID WASM_TYPE_VOID 0),
   (WASM_OPCODE_DROP, opcode_info ''drop'' WASM_TYPE_VOID WASM_TYPE_VOID WASM_TYPE_VOID 0),
   (WASM_OPCODE_SELECT, opcode_info ''select'' WASM_TYPE_VOID WASM_TYPE_VOID WASM_TYPE_VOID 0),
   (WASM_OPCODE_GET_LOCAL, opcode_info ''get_local'' WASM_TYPE_VOID WASM_TYPE_VOID WASM_TYPE_VOID 0),
   (WASM_OPCODE_SET_LOCAL, opcode_info ''set_local'' WASM_TYPE_VOID WASM_TYPE_VOID WASM_TYPE_VOID 0),
   (WASM_OPCODE_TEE_LOCAL, opcode_info ''tee_local'' WASM_TYPE_VOID WASM_TYPE_VOID WASM_TYPE_VOID 0),
   (WASM_OPCODE_GET_GLOBAL, opcode_info ''get_global'' WASM_TYPE_VOID WASM_TYPE_VOID WASM_TYPE_VOID 0),
   (WASM_OPCODE_SET_GLOBAL, opcode_info ''set_global'' WASM_TYPE_VOID WASM_TYPE_VOID WASM_TYPE_VOID 0),
   (WASM_OPCODE_I32_LOAD, opcode_info ''i32.load'' WASM_TYPE_I32 WASM_TYPE_I32 WASM_TYPE_VOID 4),
   (WASM_OPCODE_I64_LOAD, opcode_info ''i64.load'' WASM_TYPE_I64 WASM_TYPE_I32 WASM_TYPE_VOID 8),
   (WASM_OPCODE_F32_LOAD, opcode_info ''f32.load'' WASM_TYPE_F32 WASM_TYPE_I32 WASM_TYPE_VOID 4),
   (WASM_OPCODE_F64_LOAD, opcode_info ''f64.load'' WASM_TYPE_F64 WASM_TYPE_I32 WASM_TYPE_VOID 8),
   (WASM_OPCODE_I32_LOAD8_S, opcode_info ''i32.load8_s'' WASM_TYPE_I32 WASM_TYPE_I32 WASM_TYPE_VOID 1),
   (WASM_OPCODE_I32_LOAD8_U, opcode_info ''i32.load8_u'' WASM_TYPE_I32 WASM_TYPE_I32 WASM_TYPE_VOID 1),
   (WASM_OPCODE_I32_LOAD16_S, opcode_info ''i32.load16_s'' WASM_TYPE_I32 WASM_TYPE_I32 WASM_TYPE_VOID 2),
   (WASM_OPCODE_I32_LOAD16_U, opcode_info ''i32.load16_u'' WASM_TYPE_I32 WASM_TYPE_I32 WASM_TYPE_VOID 2),
   (WASM_OPCODE_I64_LOAD8_S, opcode_info ''i64.load8_s'' WASM_TYPE_I64 WASM_TYPE_I32 WASM_TYPE_VOID 1),
   (WASM_OPCODE_I64_LOAD8_U, opcode_info ''i64.load8_u'' WASM_TYPE_I64 WASM_TYPE_I32 WASM_TYPE_VOID 1),
   (WASM_OPCODE_I64_LOAD16_S, opcode_info ''i64.load16_s'' WASM_TYPE_I64 WASM_TYPE_I32 WASM_TYPE_VOID 2),
   (WASM_OPCODE_I64_LOAD16_U, opcode_info ''i64.load16_u'' WASM_TYPE_I64 WASM_TYPE_I32 WASM_TYPE_VOID 2),
   (WASM_OPCODE_I64_LOAD32_S, opcode_info ''i64.load32_s'' WASM_TYPE_I64 WASM_TYPE_I32 WASM_TYPE_VOID 4),
   (WASM_OPCODE_I64_LOAD32_U, opcode_info ''i64.load32_u'' WASM_TYPE_I64 WASM_TYPE_I32 WASM_TYPE_VOID 4),
   (WASM_OPCODE_I32_STORE, opcode_info ''i32.store'' WASM_TYPE_VOID WASM_TYPE_I32 WASM_TYPE_I32 4),
   (WASM_OPCODE_I64_STORE, opcode_info ''i64.store'' WASM_TYPE_VOID WASM_TYPE_I32 WASM_TYPE_I64 8),
   (WASM_OPCODE_F32_STORE, opcode_info ''f32.store'' WASM_TYPE_VOID WASM_TYPE_I32 WASM_TYPE_F32 4),
   (WASM_OPCODE_F64_STORE, opcode_info ''f64.store'' WASM_TYPE_VOID WASM_TYPE_I32 WASM_TYPE_F64 8),
   (WASM_OPCODE_I32_STORE8, opcode_info ''i32.store8'' WASM_TYPE_VOID WASM_TYPE_I32 WASM_TYPE_I32 1),
   (WASM_OPCODE_I32_STORE16, opcode_info ''i32.store16'' WASM_TYPE_VOID WASM_TYPE_I32 WASM_TYPE_I32 2),
   (WASM_OPCODE_I64_STORE8, opcode_info ''i64.store8'' WASM_TYPE_VOID WASM_TYPE_I32 WASM_TYPE_I64 1),
   (WASM_OPCODE_I64_STORE16, opcode_info ''i64.store16'' WASM_TYPE_VOID WASM_TYPE_I32 WASM_TYPE_I64 2),
   (WASM_OPCODE_I64_STORE32, opcode_info ''i64.store32'' WASM_TYPE_VOID WASM_TYPE_I32 WASM_TYPE_I64 4),
   (WASM_OPCODE_CURRENT_MEMORY, opcode_info ''current_memory'' WASM_TYPE_I32 WASM_TYPE_VOID WASM_TYPE_VOID 0),
   (WASM_OPCODE_GROW_MEMORY, opcode_info ''grow_memory'' WASM_TYPE_I32 WASM_TYPE_I32 WASM_TYPE_VOID 0),
   (WASM_OPCODE_I32_CONST, opcode_info ''i32.const'' WASM_TYPE_I32 WASM_TYPE_VOID WASM_TYPE_VOID 0),
   (WASM_OPCODE_I64_CONST, opcode_info ''i64.const'' WASM_TYPE_I64 WASM_TYPE_VOID WASM_TYPE_VOID 0),
   (WASM_OPCODE_F32_CONST, opcode_info ''f32.const'' WASM_TYPE_F32 WASM_TYPE_VOID WASM_TYPE_VOID 0),
   (WASM_OPCODE_F64_CONST, opcode_info ''f64.const'' WASM_TYPE_F64 WASM_TYPE_VOID WASM_TYPE_VOID 0),
   (WASM_OPCODE_I32_EQZ, opcode_info ''i32.eqz'' WASM_TYPE_I32 WASM_TYPE_I32 WASM_TYPE_VOID 0),
   (WASM_OPCODE_I32_EQ, opcode_info ''i32.eq'' WASM_TYPE_I32 WASM_TYPE_I32 WASM_TYPE_I32 0),
   (WASM_OPCODE_I32_NE, opcode_info ''i32.ne'' WASM_TYPE_I32 WASM_TYPE_I32 WASM_TYPE_I32 0),
   (WASM_OPCODE_I32_LT_S, opcode_info ''i32.lt_s'' WASM_TYPE_I32 WASM_TYPE_I32 WASM_TYPE_I32 0),
   (WASM_OPCODE_I32_LT_U, opcode_info ''i32.lt_u'' WASM_TYPE_I32 WASM_TYPE_I32 WASM_TYPE_I32 0),
   (WASM_OPCODE_I32_GT_S, opcode_info ''i32.gt_s'' WASM_TYPE_I32 WASM_TYPE_I32 WASM_TYPE_I32 0),
   (WASM_OPCODE_I32_GT_U, opcode_info ''i32.gt_u'' WASM_TYPE_I32 WASM_TYPE_I32 WASM_TYPE_I32 0),
   (WASM_OPCODE_I32_LE_S, opcode_info ''i32.le_s'' WASM_TYPE_I32 WASM_TYPE_I32 WASM_TYPE_I32 0),
   (WASM_OPCODE_I32_LE_U, opcode_info ''i32.le_u'' WASM_TYPE_I32 WASM_TYPE_I32 WASM_TYPE_I32 0),
   (WASM_OPCODE_I32_GE_S, opcode_info ''i32.ge_s'' WASM_TYPE_I32 WASM_TYPE_I32 WASM_TYPE_I32 0),
   (WASM_OPCODE_I32_GE_U, opcode_info ''i32.ge_u'' WASM_TYPE_I32 WASM_TYPE_I32 WASM_TYPE_I32 0),
   (WASM_OPCODE_I64_EQZ, opcode_info ''i64.eqz'' WASM_TYPE_I32 WASM_TYPE_I64 WASM_TYPE_VOID 0),
   (WASM_OPCODE_I64_EQ, opcode_info ''i64.eq'' WASM_TYPE_I32 WASM_TYPE_I64 WASM_TYPE_I64 0),
   (WASM_OPCODE_I64_NE, opcode_info ''i64.ne'' WASM_TYPE_I32 WASM_TYPE_I64 WASM_TYPE_I64 0),
   (WASM_OPCODE_I64_LT_S, opcode_info ''i64.lt_s'' WASM_TYPE_I32 WASM_TYPE_I64 WASM_TYPE_I64 0),
   (WASM_OPCODE_I64_LT_U, opcode_info ''i64.lt_u'' WASM_TYPE_I32 WASM_TYPE_I64 WASM_TYPE_I64 0),
   (WASM_OPCODE_I64_GT_S, opcode_info ''i64.gt_s'' WASM_TYPE_I32 WASM_TYPE_I64 WASM_TYPE_I64 0),
   (WASM_OPCODE_I64_GT_U, opcode_info ''i64.gt_u'' WASM_TYPE_I32 WASM_TYPE_I64 WASM_TYPE_I64 0),
   (WASM_OPCODE_I64_LE_S, opcode_info ''i64.le_s'' WASM_TYPE_I32 WASM_TYPE_I64 WASM_TYPE_I64 0),
   (WASM_OPCODE_I64_LE_U, opcode_info ''i64.le_u'' WASM_TYPE_I32 WASM_TYPE_I64 WASM_TYPE_I64 0),
   (WASM_OPCODE_I64_GE_S, opcode_info ''i64.ge_s'' WASM_TYPE_I32 WASM_TYPE_I64 WASM_TYPE_I64 0),
   (WASM_OPCODE_I64_GE_U, opcode_info ''i64.ge_u'' WASM_TYPE_I32 WASM_TYPE_I64 WASM_TYPE_I64 0),
   (WASM_OPCODE_F32_EQ, opcode_info ''f32.eq'' WASM_TYPE_I32 WASM_TYPE_F32 WASM_TYPE_F32 0),
   (WASM_OPCODE_F32_NE, opcode_info ''f32.ne'' WASM_TYPE_I32 WASM_TYPE_F32 WASM_TYPE_F32 0),
   (WASM_OPCODE_F32_LT, opcode_info ''f32.lt'' WASM_TYPE_I32 WASM_TYPE_F32 WASM_TYPE_F32 0),
   (WASM_OPCODE_F32_GT, opcode_info ''f32.gt'' WASM_TYPE_I32 WASM_TYPE_F32 WASM_TYPE_F32 0),
   (WASM_OPCODE_F32_LE, opcode_info ''f32.le'' WASM_TYPE_I32 WASM_TYPE_F32 WASM_TYPE_F32 0),
   (WASM_OPCODE_F32_GE, opcode_info ''f32.ge'' WASM_TYPE_I32 WASM_TYPE_F32 WASM_TYPE_F32 0),
   (WASM_OPCODE_F64_EQ, opcode_info ''f64.eq'' WASM_TYPE_I32 WASM_TYPE_F64 WASM_TYPE_F64 0),
   (WASM_OPCODE_F64_NE, opcode_info ''f64.ne'' WASM_TYPE_I32 WASM_TYPE_F64 WASM_TYPE_F64 0),
   (WASM_OPCODE_F64_LT, opcode_info ''f64.lt'' WASM_TYPE_I32 WASM_TYPE_F64 WASM_TYPE_F64 0),
   (WASM_OPCODE_F64_GT, opcode_info ''f64.gt'' WASM_TYPE_I32 WASM_TYPE_F64 WASM_TYPE_F64 0),
   (WASM_OPCODE_F64_LE, opcode_info ''f64.le'' WASM_TYPE_I32 WASM_TYPE_F64 WASM_TYPE_F64 0),
   (WASM_OPCODE_F64_GE, opcode_info ''f64.ge'' WASM_TYPE_I32 WASM_TYPE_F64 WASM_TYPE_F64 0),
   (WASM_OPCODE_I32_CLZ, opcode_info ''i32.clz'' WASM_TYPE_I32 WASM_TYPE_I32 WASM_TYPE_VOID 0),
   (WASM_OPCODE_I32_CTZ, opcode_info ''i32.ctz'' WASM_TYPE_I32 WASM_TYPE_I32 WASM_TYPE_VOID 0),
   (WASM_OPCODE_I32_POPCNT, opcode_info ''i32.popcnt'' WASM_TYPE_I32 WASM_TYPE_I32 WASM_TYPE_VOID 0),
   (WASM_OPCODE_I32_ADD, opcode_info ''i32.add'' WASM_TYPE_I32 WASM_TYPE_I32 WASM_TYPE_I32 0),
   (WASM_OPCODE_I32_SUB, opcode_info ''i32.sub'' WASM_TYPE_I32 WASM_TYPE_I32 WASM_TYPE_I32 0),
   (WASM_OPCODE_I32_MUL, opcode_info ''i32.mul'' WASM_TYPE_I32 WASM_TYPE_I32 WASM_TYPE_I32 0),
   (WASM_OPCODE_I32_DIV_S, opcode_info ''i32.div_s'' WASM_TYPE_I32 WASM_TYPE_I32 WASM_TYPE_I32 0),
   (WASM_OPCODE_I32_DIV_U, opcode_info ''i32.div_u'' WASM_TYPE_I32 WASM_TYPE_I32 WASM_TYPE_I32 0),
   (WASM_OPCODE_I32_REM_S, opcode_info ''i32.rem_s'' WASM_TYPE_I32 WASM_TYPE_I32 WASM_TYPE_I32 0),
   (WASM_OPCODE_I32_REM_U, opcode_info ''i32.rem_u'' WASM_TYPE_I32 WASM_TYPE_I32 WASM_TYPE_I32 0),
   (WASM_OPCODE_I32_AND, opcode_info ''i32.and'' WASM_TYPE_I32 WASM_TYPE_I32 WASM_TYPE_I32 0),
   (WASM_OPCODE_I32_OR, opcode_info ''i32.or'' WASM_TYPE_I32 WASM_TYPE_I32 WASM_TYPE_I32 0),
   (WASM_OPCODE_I32_XOR, opcode_info ''i32.xor'' WASM_TYPE_I32 WASM_TYPE_I32 WASM_TYPE_I32 0),
   (WASM_OPCODE_I32_SHL, opcode_info ''i32.shl'' WASM_TYPE_I32 WASM_TYPE_I32 WASM_TYPE_I32 0),
   (WASM_OPCODE_I32_SHR_S, opcode_info ''i32.shr_s'' WASM_TYPE_I32 WASM_TYPE_I32 WASM_TYPE_I32 0),
   (WASM_OPCODE_I32_SHR_U, opcode_info ''i32.shr_u'' WASM_TYPE_I32 WASM_TYPE_I32 WASM_TYPE_I32 0),
   (WASM_OPCODE_I32_ROTL, opcode_info ''i32.rotl'' WASM_TYPE_I32 WASM_TYPE_I32 WASM_TYPE_I32 0),
   (WASM_OPCODE_I32_ROTR, opcode_info ''i32.rotr'' WASM_TYPE_I32 WASM_TYPE_I32 WASM_TYPE_I32 0),
   (WASM_OPCODE_I64_CLZ, opcode_info ''i64.clz'' WASM_TYPE_I64 WASM_TYPE_I64 WASM_TYPE_I64 0),
   (WASM_OPCODE_I64_CTZ, opcode_info ''i64.ctz'' WASM_TYPE_I64 WASM_TYPE_I64 WASM_TYPE_I64 0),
   (WASM_OPCODE_I64_POPCNT, opcode_info ''i64.popcnt'' WASM_TYPE_I64 WASM_TYPE_I64 WASM_TYPE_I64 0),
   (WASM_OPCODE_I64_ADD, opcode_info ''i64.add'' WASM_TYPE_I64 WASM_TYPE_I64 WASM_TYPE_I64 0),
   (WASM_OPCODE_I64_SUB, opcode_info ''i64.sub'' WASM_TYPE_I64 WASM_TYPE_I64 WASM_TYPE_I64 0),
   (WASM_OPCODE_I64_MUL, opcode_info ''i64.mul'' WASM_TYPE_I64 WASM_TYPE_I64 WASM_TYPE_I64 0),
   (WASM_OPCODE_I64_DIV_S, opcode_info ''i64.div_s'' WASM_TYPE_I64 WASM_TYPE_I64 WASM_TYPE_I64 0),
   (WASM_OPCODE_I64_DIV_U, opcode_info ''i64.div_u'' WASM_TYPE_I64 WASM_TYPE_I64 WASM_TYPE_I64 0),
   (WASM_OPCODE_I64_REM_S, opcode_info ''i64.rem_s'' WASM_TYPE_I64 WASM_TYPE_I64 WASM_TYPE_I64 0),
   (WASM_OPCODE_I64_REM_U, opcode_info ''i64.rem_u'' WASM_TYPE_I64 WASM_TYPE_I64 WASM_TYPE_I64 0),
   (WASM_OPCODE_I64_AND, opcode_info ''i64.and'' WASM_TYPE_I64 WASM_TYPE_I64 WASM_TYPE_I64 0),
   (WASM_OPCODE_I64_OR, opcode_info ''i64.or'' WASM_TYPE_I64 WASM_TYPE_I64 WASM_TYPE_I64 0),
   (WASM_OPCODE_I64_XOR, opcode_info ''i64.xor'' WASM_TYPE_I64 WASM_TYPE_I64 WASM_TYPE_I64 0),
   (WASM_OPCODE_I64_SHL, opcode_info ''i64.shl'' WASM_TYPE_I64 WASM_TYPE_I64 WASM_TYPE_I64 0),
   (WASM_OPCODE_I64_SHR_S, opcode_info ''i64.shr_s'' WASM_TYPE_I64 WASM_TYPE_I64 WASM_TYPE_I64 0),
   (WASM_OPCODE_I64_SHR_U, opcode_info ''i64.shr_u'' WASM_TYPE_I64 WASM_TYPE_I64 WASM_TYPE_I64 0),
   (WASM_OPCODE_I64_ROTL, opcode_info ''i64.rotl'' WASM_TYPE_I64 WASM_TYPE_I64 WASM_TYPE_I64 0),
   (WASM_OPCODE_I64_ROTR, opcode_info ''i64.rotr'' WASM_TYPE_I64 WASM_TYPE_I64 WASM_TYPE_I64 0),
   (WASM_OPCODE_F32_ABS, opcode_info ''f32.abs'' WASM_TYPE_F32 WASM_TYPE_F32 WASM_TYPE_F32 0),
   (WASM_OPCODE_F32_NEG, opcode_info ''f32.neg'' WASM_TYPE_F32 WASM_TYPE_F32 WASM_TYPE_F32 0),
   (WASM_OPCODE_F32_CEIL, opcode_info ''f32.ceil'' WASM_TYPE_F32 WASM_TYPE_F32 WASM_TYPE_F32 0),
   (WASM_OPCODE_F32_FLOOR, opcode_info ''f32.floor'' WASM_TYPE_F32 WASM_TYPE_F32 WASM_TYPE_F32 0),
   (WASM_OPCODE_F32_TRUNC, opcode_info ''f32.trunc'' WASM_TYPE_F32 WASM_TYPE_F32 WASM_TYPE_F32 0),
   (WASM_OPCODE_F32_NEAREST, opcode_info ''f32.nearest'' WASM_TYPE_F32 WASM_TYPE_F32 WASM_TYPE_F32 0),
   (WASM_OPCODE_F32_SQRT, opcode_info ''f32.sqrt'' WASM_TYPE_F32 WASM_TYPE_F32 WASM_TYPE_F32 0),
   (WASM_OPCODE_F32_ADD, opcode_info ''f32.add'' WASM_TYPE_F32 WASM_TYPE_F32 WASM_TYPE_F32 0),
   (WASM_OPCODE_F32_SUB, opcode_info ''f32.sub'' WASM_TYPE_F32 WASM_TYPE_F32 WASM_TYPE_F32 0),
   (WASM_OPCODE_F32_MUL, opcode_info ''f32.mul'' WASM_TYPE_F32 WASM_TYPE_F32 WASM_TYPE_F32 0),
   (WASM_OPCODE_F32_DIV, opcode_info ''f32.div'' WASM_TYPE_F32 WASM_TYPE_F32 WASM_TYPE_F32 0),
   (WASM_OPCODE_F32_MIN, opcode_info ''f32.min'' WASM_TYPE_F32 WASM_TYPE_F32 WASM_TYPE_F32 0),
   (WASM_OPCODE_F32_MAX, opcode_info ''f32.max'' WASM_TYPE_F32 WASM_TYPE_F32 WASM_TYPE_F32 0),
   (WASM_OPCODE_F32_COPYSIGN, opcode_info ''f32.copysign'' WASM_TYPE_F32 WASM_TYPE_F32 WASM_TYPE_F32 0),
   (WASM_OPCODE_F64_ABS, opcode_info ''f64.abs'' WASM_TYPE_F64 WASM_TYPE_F64 WASM_TYPE_F64 0),
   (WASM_OPCODE_F64_NEG, opcode_info ''f64.neg'' WASM_TYPE_F64 WASM_TYPE_F64 WASM_TYPE_F64 0),
   (WASM_OPCODE_F64_CEIL, opcode_info ''f64.ceil'' WASM_TYPE_F64 WASM_TYPE_F64 WASM_TYPE_F64 0),
   (WASM_OPCODE_F64_FLOOR, opcode_info ''f64.floor'' WASM_TYPE_F64 WASM_TYPE_F64 WASM_TYPE_F64 0),
   (WASM_OPCODE_F64_TRUNC, opcode_info ''f64.trunc'' WASM_TYPE_F64 WASM_TYPE_F64 WASM_TYPE_F64 0),
   (WASM_OPCODE_F64_NEAREST, opcode_info ''f64.nearest'' WASM_TYPE_F64 WASM_TYPE_F64 WASM_TYPE_F64 0),
   (WASM_OPCODE_F64_SQRT, opcode_info ''f64.sqrt'' WASM_TYPE_F64 WASM_TYPE_F64 WASM_TYPE_F64 0),
   (WASM_OPCODE_F64_ADD, opcode_info ''f64.add'' WASM_TYPE_F64 WASM_TYPE_F64 WASM_TYPE_F64 0),
   (WASM_OPCODE_F64_SUB, opcode_info ''f64.sub'' WASM_TYPE_F64 WASM_TYPE_F64 WASM_TYPE_F64 0),
   (WASM_OPCODE_F64_MUL, opcode_info ''f64.mul'' WASM_TYPE_F64 WASM_TYPE_F64 WASM_TYPE_F64 0),
   (WASM_OPCODE_F64_DIV, opcode_info ''f64.div'' WASM_TYPE_F64 WASM_TYPE_F64 WASM_TYPE_F64 0),
   (WASM_OPCODE_F64_MIN, opcode_info ''f64.min'' WASM_TYPE_F64 WASM_TYPE_F64 WASM_TYPE_F64 0),
   (WASM_OPCODE_F64_MAX, opcode_info ''f64.max'' WASM_TYPE_F64 WASM_TYPE_F64 WASM_TYPE_F64 0),
   (WASM_OPCODE_F64_COPYSIGN, opcode_info ''f64.copysign'' WASM_TYPE_F64 WASM_TYPE_F64 WASM_TYPE_F64 0),
   (WASM_OPCODE_I32_WRAP_I64, opcode_info ''i32.wrap/i64'' WASM_TYPE_I32 WASM_TYPE_I64 WASM_TYPE_VOID 0),
   (WASM_OPCODE_I32_TRUNC_S_F32, opcode_info ''i32.trunc_s/f32'' WASM_TYPE_I32 WASM_TYPE_F32 WASM_TYPE_VOID 0),
   (WASM_OPCODE_I32_TRUNC_U_F32, opcode_info ''i32.trunc_u/f32'' WASM_TYPE_I32 WASM_TYPE_F32 WASM_TYPE_VOID 0),
   (WASM_OPCODE_I32_TRUNC_S_F64, opcode_info ''i32.trunc_s/f64'' WASM_TYPE_I32 WASM_TYPE_F64 WASM_TYPE_VOID 0),
   (WASM_OPCODE_I32_TRUNC_U_F64, opcode_info ''i32.trunc_u/f64'' WASM_TYPE_I32 WASM_TYPE_F64 WASM_TYPE_VOID 0),
   (WASM_OPCODE_I64_EXTEND_S_I32, opcode_info ''i64.extend_s/i32'' WASM_TYPE_I64 WASM_TYPE_I32 WASM_TYPE_VOID 0),
   (WASM_OPCODE_I64_EXTEND_U_I32, opcode_info ''i64.extend_u/i32'' WASM_TYPE_I64 WASM_TYPE_I32 WASM_TYPE_VOID 0),
   (WASM_OPCODE_I64_TRUNC_S_F32, opcode_info ''i64.trunc_s/f32'' WASM_TYPE_I64 WASM_TYPE_F32 WASM_TYPE_VOID 0),
   (WASM_OPCODE_I64_TRUNC_U_F32, opcode_info ''i64.trunc_u/f32'' WASM_TYPE_I64 WASM_TYPE_F32 WASM_TYPE_VOID 0),
   (WASM_OPCODE_I64_TRUNC_S_F64, opcode_info ''i64.trunc_s/f64'' WASM_TYPE_I64 WASM_TYPE_F64 WASM_TYPE_VOID 0),
   (WASM_OPCODE_I64_TRUNC_U_F64, opcode_info ''i64.trunc_u/f64'' WASM_TYPE_I64 WASM_TYPE_F64 WASM_TYPE_VOID 0),
   (WASM_OPCODE_F32_CONVERT_S_I32, opcode_info ''f32.convert_s/i32'' WASM_TYPE_F32 WASM_TYPE_I32 WASM_TYPE_VOID 0),
   (WASM_OPCODE_F32_CONVERT_U_I32, opcode_info ''f32.convert_u/i32'' WASM_TYPE_F32 WASM_TYPE_I32 WASM_TYPE_VOID 0),
   (WASM_OPCODE_F32_CONVERT_S_I64, opcode_info ''f32.convert_s/i64'' WASM_TYPE_F32 WASM_TYPE_I64 WASM_TYPE_VOID 0),
   (WASM_OPCODE_F32_CONVERT_U_I64, opcode_info ''f32.convert_u/i64'' WASM_TYPE_F32 WASM_TYPE_I64 WASM_TYPE_VOID 0),
   (WASM_OPCODE_F32_DEMOTE_F64, opcode_info ''f32.demote/f64'' WASM_TYPE_F32 WASM_TYPE_F64 WASM_TYPE_VOID 0),
   (WASM_OPCODE_F64_CONVERT_S_I32, opcode_info ''f64.convert_s/i32'' WASM_TYPE_F64 WASM_TYPE_I32 WASM_TYPE_VOID 0),
   (WASM_OPCODE_F64_CONVERT_U_I32, opcode_info ''f64.convert_u/i32'' WASM_TYPE_F64 WASM_TYPE_I32 WASM_TYPE_VOID 0),
   (WASM_OPCODE_F64_CONVERT_S_I64, opcode_info ''f64.convert_s/i64'' WASM_TYPE_F64 WASM_TYPE_I64 WASM_TYPE_VOID 0),
   (WASM_OPCODE_F64_CONVERT_U_I64, opcode_info ''f64.convert_u/i64'' WASM_TYPE_F64 WASM_TYPE_I64 WASM_TYPE_VOID 0),
   (WASM_OPCODE_F64_PROMOTE_F32, opcode_info ''f64.promote/f32'' WASM_TYPE_F64 WASM_TYPE_F32 WASM_TYPE_VOID 0),
   (WASM_OPCODE_I32_REINTERPRET_F32, opcode_info ''i32.reinterpret/f32'' WASM_TYPE_I32 WASM_TYPE_F32 WASM_TYPE_VOID 0),
   (WASM_OPCODE_I64_REINTERPRET_F64, opcode_info ''i64.reinterpret/f64'' WASM_TYPE_I64 WASM_TYPE_F64 WASM_TYPE_VOID 0),
   (WASM_OPCODE_F32_REINTERPRET_I32, opcode_info ''f32.reinterpret/i32'' WASM_TYPE_F32 WASM_TYPE_I32 WASM_TYPE_VOID 0),
   (WASM_OPCODE_F64_REINTERPRET_I64, opcode_info ''f64.reinterpret/i64'' WASM_TYPE_F64 WASM_TYPE_I64 WASM_TYPE_VOID 0)]"

text \<open>
  \<open>g_wasm_opcode_info\<close>. The array is built with designated initialisers, so a code with no row
  is zero-initialised (type 0 is \<open>WASM_TYPE_ANY\<close>).
\<close>

definition g_wasm_opcode_info :: "WasmOpcode \<Rightarrow> WasmOpcodeInfo" where
  "g_wasm_opcode_info opcode =
     (case map_of wasm_opcode_table opcode of Some info \<Rightarrow> info
      | None \<Rightarrow> opcode_info [] WASM_TYPE_ANY WASM_TYPE_ANY WASM_TYPE_ANY 0)"

definition wasm_get_opcode_name :: "WasmOpcode \<Rightarrow> string" where
  "wasm_get_opcode_name opcode = op_name (g_wasm_opcode_info opcode)"

definition wasm_get_opcode_result_type :: "WasmOpcode \<Rightarrow> WasmType" where
  "wasm_get_opcode_result_type opcode = op_result_type (g_wasm_opcode_info opcode)"

definition wasm_get_opcode_param_type_1 :: "WasmOpcode \<Rightarrow> WasmType" where
  "wasm_get_opcode_param_type_1 opcode = op_param1_type (g_wasm_opcode_info opcode)"

definition wasm_get_opcode_param_type_2 :: "WasmOpcode \<Rightarrow> WasmType" where
  "wasm_get_opcode_param_type_2 opcode = op_param2_type (g_wasm_opcode_info opcode)"

definition wasm_get_opcode_memory_size :: "WasmOpcode \<Rightarrow> nat" where
  "wasm_get_opcode_memory_size opcode = op_memory_size (g_wasm_opcode_info opcode)"

definition WASM_USE_NATURAL_ALIGNMENT :: u32 where
  "WASM_USE_NATURAL_ALIGNMENT = 0xFFFFFFFF"

definition wasm_is_naturally_aligned :: "WasmOpcode \<Rightarrow> u32 \<Rightarrow> bool" where
  "wasm_is_naturally_aligned opcode alignment \<longleftrightarrow>
     alignment = WASM_USE_NATURAL_ALIGNMENT
     \<or> alignment = u32_of_nat (wasm_get_opcode_memory_size opcode)"

definition wasm_get_opcode_alignment :: "WasmOpcode \<Rightarrow> u32 \<Rightarrow> u32" where
  "wasm_get_opcode_alignment opcode alignment =
     (if alignment = WASM_USE_NATURAL_ALIGNMENT
      then u32_of_nat (wasm_get_opcode_memory_size opcode) else alignment)"

subsection \<open>The binary format's constants (\<^verbatim>\<open>binary.h\<close>)\<close>

definition WASM_BINARY_MAGIC :: u32 where "WASM_BINARY_MAGIC = 0x6d736100"
definition WASM_BINARY_VERSION :: u32 where "WASM_BINARY_VERSION = 0x0d"

abbreviation (input) WASM_BINARY_SECTION_CUSTOM :: nat where "WASM_BINARY_SECTION_CUSTOM \<equiv> 0"
abbreviation (input) WASM_BINARY_SECTION_TYPE :: nat where "WASM_BINARY_SECTION_TYPE \<equiv> 1"
abbreviation (input) WASM_BINARY_SECTION_IMPORT :: nat where "WASM_BINARY_SECTION_IMPORT \<equiv> 2"
abbreviation (input) WASM_BINARY_SECTION_FUNCTION :: nat where "WASM_BINARY_SECTION_FUNCTION \<equiv> 3"
abbreviation (input) WASM_BINARY_SECTION_TABLE :: nat where "WASM_BINARY_SECTION_TABLE \<equiv> 4"
abbreviation (input) WASM_BINARY_SECTION_MEMORY :: nat where "WASM_BINARY_SECTION_MEMORY \<equiv> 5"
abbreviation (input) WASM_BINARY_SECTION_GLOBAL :: nat where "WASM_BINARY_SECTION_GLOBAL \<equiv> 6"
abbreviation (input) WASM_BINARY_SECTION_EXPORT :: nat where "WASM_BINARY_SECTION_EXPORT \<equiv> 7"
abbreviation (input) WASM_BINARY_SECTION_START :: nat where "WASM_BINARY_SECTION_START \<equiv> 8"
abbreviation (input) WASM_BINARY_SECTION_ELEM :: nat where "WASM_BINARY_SECTION_ELEM \<equiv> 9"
abbreviation (input) WASM_BINARY_SECTION_CODE :: nat where "WASM_BINARY_SECTION_CODE \<equiv> 10"
abbreviation (input) WASM_BINARY_SECTION_DATA :: nat where "WASM_BINARY_SECTION_DATA \<equiv> 11"
abbreviation (input) WASM_NUM_BINARY_SECTIONS :: nat where "WASM_NUM_BINARY_SECTIONS \<equiv> 12"

end
