(* ===== verification/Wabt_Leb128.thy ===== *)
theory Wabt_Leb128
  imports Wabt_Prelude
begin

text \<open>
  The LEB128 codecs: the encoding loops of \<^verbatim>\<open>binary-writer.c\<close> and the unrolled decoders of
  \<^verbatim>\<open>binary-reader.c\<close>. A decoder takes the bytes from its pointer \<open>p\<close> up to \<open>end\<close> and
  returns the value with the number of bytes read; \<open>None\<close> is the C return value 0.
\<close>

subsection \<open>Encoders\<close>

text \<open>
  \<open>LEB128_LOOP_UNTIL (value == 0)\<close>: the bytes left in \<open>data\<close> by the unsigned loop.
\<close>

function u32_leb128_bytes :: "'a::len word \<Rightarrow> byte list" where
  "u32_leb128_bytes value =
     (let b = (ucast (value AND 0x7f) :: byte); value' = drop_bit 7 value
      in if value' = 0 then [b] else (b OR 0x80) # u32_leb128_bytes value')"
  by pat_completeness auto
termination
  by (relation "measure unat") (auto intro!: drop_bit_word_less)

declare u32_leb128_bytes.simps [simp del]

text \<open>
  The two signed loops. The operand is the value of the C \<open>intN_t\<close>, so that its arithmetic
  shift is \<open>drop_bit\<close> on \<open>int\<close>. The C code chooses the end condition once, from the sign of
  the initial value; an arithmetic shift keeps the sign, so testing it in every round is the
  same choice.
\<close>

definition leb128_end_cond :: "int \<Rightarrow> int \<Rightarrow> byte \<Rightarrow> bool" where
  "leb128_end_cond value value' b =
     (if value < 0 then value' = -1 \<and> b AND 0x40 \<noteq> 0 else value' = 0 \<and> b AND 0x40 = 0)"

lemma leb128_end_cond_small:
  fixes v :: int
  assumes "v = 0 \<or> v = -1"
  shows "leb128_end_cond v (drop_bit 7 v) (word_of_int (v AND 0x7f))"
  using assms by (auto simp: leb128_end_cond_def)

function sleb128_bytes :: "int \<Rightarrow> byte list" where
  "sleb128_bytes value =
     (let b = (word_of_int (value AND 0x7f) :: byte); value' = drop_bit 7 value
      in if leb128_end_cond value value' b then [b]
         else (b OR 0x80) # sleb128_bytes value')"
  by pat_completeness auto
termination
proof (relation "measure (\<lambda>v. nat (if v < 0 then - v - 1 else v))", goal_cases)
  case 1
  show ?case by simp
next
  case (2 v b v')
  then have "v \<noteq> 0" "v \<noteq> -1" using leb128_end_cond_small by auto
  then show ?case using 2(2) by (auto simp: drop_bit_eq_div)
qed

declare sleb128_bytes.simps [simp del]

text \<open>
  \<open>wasm_write_fixed_u32_leb128_raw\<close>: always five bytes (\<open>MAX_U32_LEB128_BYTES\<close>).
  The caller provides five bytes of room, so the early return is not taken.
\<close>

definition fixed_u32_leb128_bytes :: "u32 \<Rightarrow> byte list" where
  "fixed_u32_leb128_bytes value =
     [ucast (value AND 0x7f) OR 0x80,
      ucast (drop_bit 7 value AND 0x7f) OR 0x80,
      ucast (drop_bit 14 value AND 0x7f) OR 0x80,
      ucast (drop_bit 21 value AND 0x7f) OR 0x80,
      ucast (drop_bit 28 value AND 0x0f)]"

text \<open>\<open>size_u32_leb128\<close>: the length the encoding will have.\<close>

function size_u32_leb128 :: "u32 \<Rightarrow> nat" where
  "size_u32_leb128 value =
     (let value' = drop_bit 7 value
      in if value' \<noteq> 0 then Suc (size_u32_leb128 value') else 1)"
  by pat_completeness auto
termination
  by (relation "measure unat") (auto intro!: drop_bit_word_less)

declare size_u32_leb128.simps [simp del]

subsection \<open>Decoders\<close>

text \<open>\<open>BYTE_AT\<close> and \<open>LEB128_1\<close> to \<open>LEB128_10\<close>.\<close>

definition BYTE_AT :: "byte list \<Rightarrow> nat \<Rightarrow> nat \<Rightarrow> 'a::len word" where
  "BYTE_AT p i shift = push_bit shift (ucast (p ! i) AND 0x7f)"

primrec LEB128 :: "nat \<Rightarrow> byte list \<Rightarrow> 'a::len word" where
  "LEB128 0 p = 0"
| "LEB128 (Suc k) p = BYTE_AT p k (7 * k) OR LEB128 k p"

text \<open>\<open>SIGN_EXTEND\<close>: shift the sign bit to the top, then arithmetically back.\<close>

definition SIGN_EXTEND :: "'a::len word \<Rightarrow> nat \<Rightarrow> 'a word" where
  "SIGN_EXTEND value sign_bit =
     signed_drop_bit (LENGTH('a) - 1 - sign_bit) (push_bit (LENGTH('a) - 1 - sign_bit) value)"

text \<open>The guard \<open>p + i < end && (p[i] & 0x80) == 0\<close>.\<close>

definition leb_ends_at :: "byte list \<Rightarrow> nat \<Rightarrow> bool" where
  "leb_ends_at p i \<longleftrightarrow> i < length p \<and> p ! i AND 0x80 = 0"

definition wasm_read_u32_leb128 :: "byte list \<Rightarrow> (u32 \<times> nat) option" where
  "wasm_read_u32_leb128 p =
     (if leb_ends_at p 0 then Some (LEB128 1 p, 1)
      else if leb_ends_at p 1 then Some (LEB128 2 p, 2)
      else if leb_ends_at p 2 then Some (LEB128 3 p, 3)
      else if leb_ends_at p 3 then Some (LEB128 4 p, 4)
      else if leb_ends_at p 4 then
        (if p ! 4 AND 0xf0 \<noteq> 0 then None else Some (LEB128 5 p, 5))
      else None)"

definition wasm_read_i32_leb128 :: "byte list \<Rightarrow> (u32 \<times> nat) option" where
  "wasm_read_i32_leb128 p =
     (if leb_ends_at p 0 then Some (SIGN_EXTEND (LEB128 1 p) 6, 1)
      else if leb_ends_at p 1 then Some (SIGN_EXTEND (LEB128 2 p) 13, 2)
      else if leb_ends_at p 2 then Some (SIGN_EXTEND (LEB128 3 p) 20, 3)
      else if leb_ends_at p 3 then Some (SIGN_EXTEND (LEB128 4 p) 27, 4)
      else if leb_ends_at p 4 then
        (let sign_bit_set = (p ! 4 AND 0x8 \<noteq> 0); top_bits = p ! 4 AND 0xf0
         in if (sign_bit_set \<and> top_bits \<noteq> 0x70) \<or> (\<not> sign_bit_set \<and> top_bits \<noteq> 0)
            then None else Some (LEB128 5 p, 5))
      else None)"

text \<open>
  The body of \<open>in_i64_leb128\<close> up to its \<open>RAISE_ERROR\<close>s: \<open>Inl True\<close> is the error
  "invalid i64 leb128", \<open>Inl False\<close> is "unable to read i64 leb128".
\<close>

definition read_i64_leb128 :: "byte list \<Rightarrow> bool + u64 \<times> nat" where
  "read_i64_leb128 p =
     (if leb_ends_at p 0 then Inr (SIGN_EXTEND (LEB128 1 p) 6, 1)
      else if leb_ends_at p 1 then Inr (SIGN_EXTEND (LEB128 2 p) 13, 2)
      else if leb_ends_at p 2 then Inr (SIGN_EXTEND (LEB128 3 p) 20, 3)
      else if leb_ends_at p 3 then Inr (SIGN_EXTEND (LEB128 4 p) 27, 4)
      else if leb_ends_at p 4 then Inr (SIGN_EXTEND (LEB128 5 p) 34, 5)
      else if leb_ends_at p 5 then Inr (SIGN_EXTEND (LEB128 6 p) 41, 6)
      else if leb_ends_at p 6 then Inr (SIGN_EXTEND (LEB128 7 p) 48, 7)
      else if leb_ends_at p 7 then Inr (SIGN_EXTEND (LEB128 8 p) 55, 8)
      else if leb_ends_at p 8 then Inr (SIGN_EXTEND (LEB128 9 p) 62, 9)
      else if leb_ends_at p 9 then
        (let sign_bit_set = (p ! 9 AND 0x1 \<noteq> 0); top_bits = p ! 9 AND 0xfe
         in if (sign_bit_set \<and> top_bits \<noteq> 0x7e) \<or> (\<not> sign_bit_set \<and> top_bits \<noteq> 0)
            then Inl True else Inr (LEB128 10 p, 10))
      else Inl False)"

subsection \<open>What the encoders write\<close>

text \<open>
  Byte \<open>i\<close> of an encoding is the \<open>i\<close>-th group of seven bits, with the continuation bit
  on every byte but the last.
\<close>

definition leb_byte :: "int \<Rightarrow> nat \<Rightarrow> bool \<Rightarrow> byte" where
  "leb_byte v i more = word_of_int (take_bit 7 (drop_bit (7 * i) v)) OR (if more then 0x80 else 0)"

definition leb_encodes :: "byte list \<Rightarrow> int \<Rightarrow> bool" where
  "leb_encodes bs v \<longleftrightarrow>
     bs \<noteq> [] \<and> (\<forall>i < length bs. bs ! i = leb_byte v i (Suc i < length bs))"

lemma leb_encodes_single: "leb_encodes [word_of_int (take_bit 7 v)] v"
  by (simp add: leb_encodes_def leb_byte_def)

lemma leb_encodes_Cons:
  assumes "leb_encodes bs (drop_bit 7 v)"
  shows "leb_encodes ((word_of_int (take_bit 7 v) OR 0x80) # bs) v"
proof -
  have "leb_byte v (Suc i) more = leb_byte (drop_bit 7 v) i more" for i more
    by (simp add: leb_byte_def drop_bit_drop_bit add.commute)
  then show ?thesis
    using assms by (auto simp: leb_encodes_def nth_Cons leb_byte_def add.commute split: nat.split)
qed

lemma ucast_and_0x7f: "(ucast (w AND 0x7f) :: byte) = word_of_int (take_bit 7 (uint w))"
  by (rule bit_word_eqI) (auto simp: and_0x7f_take_bit bit_simps)

lemma u32_leb128_bytes_encodes: "leb_encodes (u32_leb128_bytes w) (uint w)"
proof (induction w rule: u32_leb128_bytes.induct)
  case (1 w)
  have "uint (drop_bit 7 w) = drop_bit 7 (uint w)"
    by (simp add: uint_drop_bit)
  with 1 show ?case
    by (subst u32_leb128_bytes.simps)
      (auto simp: Let_def ucast_and_0x7f intro: leb_encodes_single leb_encodes_Cons)
qed

lemma sleb128_bytes_encodes: "leb_encodes (sleb128_bytes v) v"
proof (induction v rule: sleb128_bytes.induct)
  case (1 v)
  then show ?case
    by (subst sleb128_bytes.simps)
      (auto simp: Let_def and_0x7f_take_bit intro: leb_encodes_single leb_encodes_Cons)
qed

lemma fixed_u32_leb128_bytes_encodes: "leb_encodes (fixed_u32_leb128_bytes w) (uint w)"
proof -
  have shift: "(ucast (drop_bit n w AND 0x7f) :: byte) = word_of_int (take_bit 7 (drop_bit n (uint w)))"
    for n by (simp add: ucast_and_0x7f uint_drop_bit)
  have top: "(ucast (drop_bit 28 w AND 0x0f) :: byte) = word_of_int (take_bit 7 (drop_bit 28 (uint w)))"
  proof -
    have "drop_bit 28 w AND 0x0f = drop_bit 28 w AND 0x7f"
    proof -
      have "mask 4 = (0x0f :: u32)" by (simp add: mask_eq_exp_minus_1)
      then have "drop_bit 28 w AND 0x0f = take_bit 4 (drop_bit 28 w)"
        by (simp add: take_bit_eq_mask)
      also have "\<dots> = take_bit 7 (drop_bit 28 w)"
        by (rule bit_word_eqI) (auto simp: bit_simps dest: bit_imp_le_length)
      finally show ?thesis by (simp add: and_0x7f_take_bit)
    qed
    then show ?thesis by (simp add: shift)
  qed
  show ?thesis
    using shift [of 0] shift [of 7] shift [of 14] shift [of 21] top
    by (auto simp: leb_encodes_def fixed_u32_leb128_bytes_def leb_byte_def less_Suc_eq numeral_eq_Suc
        simp del: take_bit_numeral_numeral)
qed

subsection \<open>Where the encodings end, and how long they are\<close>

lemma u32_leb128_bytes_end: "drop_bit (7 * length (u32_leb128_bytes w)) (uint w) = 0"
proof (induction w rule: u32_leb128_bytes.induct)
  case (1 w)
  show ?case
  proof (cases "drop_bit 7 w = 0")
    case True
    then have "drop_bit 7 (uint w) = 0" by (simp flip: uint_drop_bit)
    with True show ?thesis by (subst u32_leb128_bytes.simps) (simp add: Let_def)
  next
    case False
    with 1 show ?thesis
      by (subst u32_leb128_bytes.simps)
        (simp add: Let_def uint_drop_bit drop_bit_drop_bit algebra_simps)
  qed
qed

lemma length_u32_leb128_bytes_le:
  "drop_bit (7 * k) w = 0 \<Longrightarrow> 0 < k \<Longrightarrow> length (u32_leb128_bytes w) \<le> k"
proof (induction w arbitrary: k rule: u32_leb128_bytes.induct)
  case (1 w)
  show ?case
  proof (cases "drop_bit 7 w = 0")
    case True
    with 1 show ?thesis by (subst u32_leb128_bytes.simps) (simp add: Let_def)
  next
    case False
    with "1.prems" have "k \<noteq> 1" by auto
    with "1.prems"(2) obtain j where k: "k = Suc j" "0 < j" by (cases k) auto
    from "1.prems"(1) k have "drop_bit (7 * j) (drop_bit 7 w) = 0"
      by (simp add: drop_bit_drop_bit add.commute)
    with False k have "length (u32_leb128_bytes (drop_bit 7 w)) \<le> j" by (intro "1.IH") auto
    with False k show ?thesis by (subst u32_leb128_bytes.simps) (simp add: Let_def)
  qed
qed

lemma drop_bit_beyond: "LENGTH('a::len) \<le> n \<Longrightarrow> drop_bit n (w :: 'a word) = 0"
  by (rule bit_word_eqI) (auto simp: bit_simps dest: bit_imp_le_length)

lemma length_u32_leb128_bytes: "length (u32_leb128_bytes (w :: u32)) \<le> 5"
  by (rule length_u32_leb128_bytes_le) (simp_all add: drop_bit_beyond)

lemma u32_leb128_bytes_not_Nil [simp]: "u32_leb128_bytes w \<noteq> []"
  using u32_leb128_bytes_encodes by (auto simp: leb_encodes_def)

lemma size_u32_leb128_length: "size_u32_leb128 w = length (u32_leb128_bytes w)"
proof (induction w rule: size_u32_leb128.induct)
  case (1 w)
  then show ?case
    by (subst size_u32_leb128.simps, subst u32_leb128_bytes.simps) (simp add: Let_def)
qed

definition sign_fill :: "int \<Rightarrow> int" where
  "sign_fill v = (if v < 0 then -1 else 0)"

lemma sign_fill_drop_bit [simp]: "sign_fill (drop_bit n v) = sign_fill v"
  by (simp add: sign_fill_def)

lemma drop_bit_7_6: "drop_bit 6 v = 2 * drop_bit 7 v + of_bool (bit (v :: int) 6)"
proof -
  have "v div 128 = v div 64 div 2" using zdiv_zmult2_eq [of 2 v 64] by simp
  then have "drop_bit 7 v = drop_bit 6 v div 2" by (simp add: drop_bit_eq_div)
  moreover have "bit v 6 = odd (drop_bit 6 v)" by (simp add: bit_iff_odd_drop_bit)
  ultimately show ?thesis by (cases "even (drop_bit 6 v)") auto
qed

lemma end_cond_iff:
  "leb128_end_cond v (drop_bit 7 v) (word_of_int (v AND 0x7f)) \<longleftrightarrow> drop_bit 6 v = sign_fill v"
proof -
  have "(word_of_int (v AND 0x7f) :: byte) AND 0x40 \<noteq> 0 \<longleftrightarrow> bit v 6"
  proof -
    have "(word_of_int (v AND 0x7f) :: byte) AND 0x40 = (if bit v 6 then 0x40 else 0)"
    proof (rule bit_word_eqI)
      fix n assume "n < LENGTH(8)"
      then have "n \<in> {0,1,2,3,4,5,6,7}" by auto
      then show "bit ((word_of_int (v AND 0x7f) :: byte) AND 0x40) n = bit (if bit v 6 then 0x40 else 0 :: byte) n"
        by (auto simp: bit_simps)
    qed
    then show ?thesis by simp
  qed
  moreover have "2 * drop_bit 7 v + 1 \<noteq> 0" "2 * drop_bit 7 v \<noteq> - 1" by presburger+
  ultimately show ?thesis
    by (auto simp: leb128_end_cond_def drop_bit_7_6 sign_fill_def)
qed

lemma sleb128_bytes_unfold:
  "sleb128_bytes v =
     (if drop_bit 6 v = sign_fill v then [word_of_int (take_bit 7 v)]
      else (word_of_int (take_bit 7 v) OR 0x80) # sleb128_bytes (drop_bit 7 v))"
  by (subst sleb128_bytes.simps) (simp only: Let_def and_0x7f_take_bit end_cond_iff [unfolded and_0x7f_take_bit])

lemma sleb128_bytes_not_Nil [simp]: "sleb128_bytes v \<noteq> []"
  using sleb128_bytes_encodes by (auto simp: leb_encodes_def)

lemma sleb128_bytes_end:
  "drop_bit (7 * length (sleb128_bytes v) - 1) v = sign_fill v"
proof (induction v rule: sleb128_bytes.induct)
  case (1 v)
  show ?case
  proof (cases "drop_bit 6 v = sign_fill v")
    case True
    then show ?thesis by (subst sleb128_bytes_unfold) simp
  next
    case False
    let ?n = "length (sleb128_bytes (drop_bit 7 v))"
    have n: "0 < ?n" by simp
    from False have "drop_bit (7 * ?n - 1) (drop_bit 7 v) = sign_fill v"
      using "1"[OF refl refl] by (simp add: end_cond_iff)
    moreover have "7 * Suc ?n - 1 = (7 * ?n - 1) + 7" using n by simp
    ultimately have "drop_bit (7 * Suc ?n - 1) v = sign_fill v"
      by (simp only: drop_bit_drop_bit)
    with False show ?thesis by (subst sleb128_bytes_unfold) simp
  qed
qed

lemma length_sleb128_bytes_le:
  "drop_bit (7 * k - 1) v = sign_fill v \<Longrightarrow> 0 < k \<Longrightarrow> length (sleb128_bytes v) \<le> k"
proof (induction v arbitrary: k rule: sleb128_bytes.induct)
  case (1 v)
  show ?case
  proof (cases "drop_bit 6 v = sign_fill v")
    case True
    with 1 show ?thesis by (subst sleb128_bytes_unfold) simp
  next
    case False
    with "1.prems" have "k \<noteq> 1" by auto
    with "1.prems"(2) obtain j where k: "k = Suc j" "0 < j" by (cases k) auto
    then have "7 * j - 1 + 7 = 7 * k - 1" by simp
    with "1.prems"(1) have "drop_bit (7 * j - 1) (drop_bit 7 v) = sign_fill (drop_bit 7 v)"
      by (simp add: drop_bit_drop_bit add.commute)
    with False k have "length (sleb128_bytes (drop_bit 7 v)) \<le> j"
      by (intro "1.IH") (auto simp: end_cond_iff)
    with False k show ?thesis by (subst sleb128_bytes_unfold) simp
  qed
qed

lemma drop_bit_sint_sign:
  assumes "LENGTH('a::len) - 1 \<le> n"
  shows "drop_bit n (sint (w :: 'a word)) = sign_fill (sint w)"
proof -
  have "(2::int) ^ (LENGTH('a) - 1) \<le> 2 ^ n" using assms by (simp add: power_increasing)
  with sint_ge [of w] sint_lt [of w] have "- (2 ^ n) \<le> sint w" "sint w < 2 ^ n" by linarith+
  then show ?thesis
    by (cases "sint w < 0")
      (auto simp: drop_bit_eq_div sign_fill_def div_pos_pos_trivial intro!: int_div_pos_eq [of _ _ _ "2 ^ n + sint w"])
qed

subsection \<open>What the decoders return\<close>

lemma ucast_leb_byte:
  "(ucast (leb_byte v i more) AND 0x7f :: 'a::len word) = word_of_int (take_bit 7 (drop_bit (7 * i) v))"
proof -
  have "bit (leb_byte v i more) n = bit v (7 * i + n)" if "n < 7" for n
  proof -
    have "\<not> bit (0x80 :: byte) n"
    proof -
      from that have "n \<in> {0,1,2,3,4,5,6}" by auto
      then show ?thesis by auto
    qed
    with that show ?thesis by (auto simp: leb_byte_def bit_simps)
  qed
  then show ?thesis
    unfolding and_0x7f_take_bit by (intro bit_word_eqI) (auto simp: bit_simps)
qed

lemma LEB128_encodes:
  assumes "leb_encodes bs v" "n \<le> length bs"
  shows "LEB128 n (bs @ rest) = (word_of_int (take_bit (7 * n) v) :: 'a::len word)"
  using assms(2)
proof (induction n)
  case 0
  show ?case by simp
next
  case (Suc n)
  then have "(bs @ rest) ! n = leb_byte v n (Suc n < length bs)"
    using assms(1) by (simp add: leb_encodes_def nth_append)
  then have "LEB128 (Suc n) (bs @ rest) =
      (push_bit (7 * n) (word_of_int (take_bit 7 (drop_bit (7 * n) v))) OR word_of_int (take_bit (7 * n) v) :: 'a word)"
    using Suc by (simp add: BYTE_AT_def ucast_leb_byte)
  also have "\<dots> = word_of_int (take_bit (7 * Suc n) v)"
    by (rule bit_word_eqI) (auto simp: bit_simps)
  finally show ?case .
qed

lemma and_0x80_low: "(word_of_int (take_bit 7 k) :: byte) AND 0x80 = 0"
proof (rule bit_word_eqI)
  fix n assume "n < LENGTH(8)"
  then have "n \<in> {0,1,2,3,4,5,6,7}" by auto
  then show "bit ((word_of_int (take_bit 7 k) :: byte) AND 0x80) n = bit (0 :: byte) n"
    by (auto simp: bit_and_iff bit_word_of_int_iff bit_take_bit_iff)
qed

lemma leb_ends_at_encodes:
  assumes "leb_encodes bs v" "i < length bs"
  shows "leb_ends_at (bs @ rest) i \<longleftrightarrow> Suc i = length bs"
proof -
  have "leb_byte v i more AND 0x80 = 0 \<longleftrightarrow> \<not> more" for more
    unfolding leb_byte_def bit.conj_disj_distrib2 and_0x80_low by simp
  moreover have "(bs @ rest) ! i = leb_byte v i (Suc i < length bs)"
    using assms by (simp add: leb_encodes_def nth_append)
  ultimately have "leb_ends_at (bs @ rest) i \<longleftrightarrow> \<not> Suc i < length bs"
    using assms(2) by (simp add: leb_ends_at_def)
  then show ?thesis using assms(2) by linarith
qed

lemma last_byte_encodes:
  "leb_encodes bs v \<Longrightarrow> Suc i = length bs \<Longrightarrow>
     (bs @ rest) ! i = word_of_int (take_bit 7 (drop_bit (7 * i) v))"
  by (simp add: leb_encodes_def leb_byte_def nth_append)

lemma SIGN_EXTEND_eq:
  assumes "n < LENGTH('a::len)"
  shows "SIGN_EXTEND (w :: 'a word) n = signed_take_bit n w"
proof (rule bit_word_eqI)
  fix i assume i: "i < LENGTH('a)"
  define s where "s = LENGTH('a) - 1 - n"
  have L: "LENGTH('a) = Suc (n + s)" using assms by (simp add: s_def)
  have "bit (SIGN_EXTEND w n) i = bit (signed_drop_bit s (push_bit s w)) i"
    by (simp add: SIGN_EXTEND_def s_def)
  also have "\<dots> = bit (push_bit s w) (if n < i then n + s else s + i)"
    using i by (auto simp: bit_signed_drop_bit_iff L)
  also have "\<dots> = bit w (min n i)"
    using i by (auto simp: bit_push_bit_iff L min_def)
  finally show "bit (SIGN_EXTEND w n) i = bit (signed_take_bit n w) i"
    using i by (simp add: bit_signed_take_bit_iff)
qed

lemma bit_above_sign:
  fixes v :: int
  assumes "drop_bit m v = sign_fill v" "m \<le> i"
  shows "bit v i = bit v m"
proof -
  have "bit v k = (v < 0)" if "m \<le> k" for k
  proof -
    have "bit v k = bit (drop_bit m v) (k - m)" using that by (simp add: bit_simps)
    then show ?thesis using assms(1) by (simp add: sign_fill_def)
  qed
  then show ?thesis using assms(2) by simp
qed

lemma SIGN_EXTEND_encodes:
  assumes "drop_bit m v = sign_fill v" "m < LENGTH('a::len)"
  shows "SIGN_EXTEND (word_of_int (take_bit (Suc m) v) :: 'a word) m = word_of_int v"
proof (rule bit_word_eqI)
  fix i assume i: "i < LENGTH('a)"
  have "bit (SIGN_EXTEND (word_of_int (take_bit (Suc m) v) :: 'a word) m) i
      = bit (word_of_int (take_bit (Suc m) v) :: 'a word) (min m i)"
    unfolding SIGN_EXTEND_eq [OF assms(2)] using i by (simp add: bit_signed_take_bit_iff)
  also have "\<dots> = bit v (min m i)"
    using i assms(2) by (simp add: bit_word_of_int_iff bit_take_bit_iff less_Suc_eq_le min_less_iff_disj)
  also have "\<dots> = bit v i"
    using bit_above_sign [OF assms(1), of i] by (cases "m \<le> i") (simp_all add: min_def)
  finally show "bit (SIGN_EXTEND (word_of_int (take_bit (Suc m) v) :: 'a word) m) i = bit (word_of_int v :: 'a word) i"
    using i by (simp add: bit_word_of_int_iff)
qed
lemma length_cases_5:
  assumes "bs \<noteq> []" "length bs \<le> 5"
  obtains "length bs = 1" | "length bs = 2" | "length bs = 3" | "length bs = 4" | "length bs = 5"
proof -
  from assms(1) have "1 \<le> length bs" by (cases bs) auto
  with assms(2) have "length bs = 1 \<or> length bs = 2 \<or> length bs = 3 \<or> length bs = 4 \<or> length bs = 5"
    by arith
  then show ?thesis using that by blast
qed

lemma wasm_read_u32_leb128_encodes:
  assumes enc: "leb_encodes bs (uint w)" and len: "length bs \<le> 5"
    and last: "drop_bit (7 * length bs) (uint w) = 0"
  shows "wasm_read_u32_leb128 (bs @ rest) = Some (w, length bs)"
proof -
  have "bs \<noteq> []" using enc by (simp add: leb_encodes_def)
  have val: "LEB128 (length bs) (bs @ rest) = w"
  proof -
    have "take_bit (7 * length bs) (uint w) = uint w"
      using bits_ident [of "7 * length bs" "uint w"] last by simp
    then show ?thesis by (simp add: LEB128_encodes [OF enc order_refl])
  qed
  have top: "(bs @ rest) ! 4 AND 0xf0 = 0" if "length bs = 5"
  proof -
    have "drop_bit 28 (uint w) < 16" "0 \<le> drop_bit 28 (uint w)"
      using uint_lt2p [of w] by (auto simp: drop_bit_eq_div pos_imp_zdiv_nonneg_iff)
    then have "drop_bit 28 (uint w) \<in> {0,1,2,3,4,5,6,7,8,9,10,11,12,13,14,15}"
      by (simp only: insert_iff empty_iff) presburger
    moreover have "(bs @ rest) ! 4 = word_of_int (take_bit 7 (drop_bit 28 (uint w)))"
      using last_byte_encodes [OF enc, of 4] that by simp
    ultimately show ?thesis by (auto simp: take_bit_eq_mod)
  qed
  from \<open>bs \<noteq> []\<close> len show ?thesis
    by (cases rule: length_cases_5)
      (use val top in \<open>simp_all add: wasm_read_u32_leb128_def Let_def leb_ends_at_encodes [OF enc] split: if_splits\<close>)
qed

lemma sign_extend_LEB128:
  assumes "leb_encodes bs v" "drop_bit (7 * length bs - 1) v = sign_fill v"
    "7 * length bs \<le> LENGTH('a::len)"
  shows "SIGN_EXTEND (LEB128 (length bs) (bs @ rest) :: 'a word) (7 * length bs - 1) = word_of_int v"
proof -
  have "0 < length bs" using assms(1) by (simp add: leb_encodes_def)
  then have "Suc (7 * length bs - 1) = 7 * length bs" by simp
  then show ?thesis
    using SIGN_EXTEND_encodes [OF assms(2), where 'a = 'a] assms(3)
    by (simp add: LEB128_encodes [OF assms(1) order_refl])
qed

lemma last_LEB128:
  assumes "leb_encodes bs v" "LENGTH('a::len) \<le> 7 * length bs"
  shows "(LEB128 (length bs) (bs @ rest) :: 'a word) = word_of_int v"
  unfolding LEB128_encodes [OF assms(1) order_refl]
  by (rule bit_word_eqI) (use assms(2) in \<open>auto simp: bit_simps\<close>)

lemma wasm_read_i32_leb128_encodes:
  assumes enc: "leb_encodes bs (sint w)" and len: "length bs \<le> 5"
    and last: "drop_bit (7 * length bs - 1) (sint w) = sign_fill (sint w)"
  shows "wasm_read_i32_leb128 (bs @ rest) = Some (w, length bs)"
proof -
  have "bs \<noteq> []" using enc by (simp add: leb_encodes_def)
  have val: "SIGN_EXTEND (LEB128 (length bs) (bs @ rest)) (7 * length bs - 1) = w" if "length bs < 5"
    using sign_extend_LEB128 [OF enc last, where 'a = 32] that by simp
  have top: "(if (bs @ rest) ! 4 AND 0x8 \<noteq> 0 then (bs @ rest) ! 4 AND 0xf0 = 0x70 else (bs @ rest) ! 4 AND 0xf0 = 0)"
    if "length bs = 5"
  proof -
    have "drop_bit 28 (sint w) < 8" "- 8 \<le> drop_bit 28 (sint w)"
      using sint_lt [of w] sint_ge [of w] by (auto simp: drop_bit_eq_div)
    then have "drop_bit 28 (sint w) \<in> {-8,-7,-6,-5,-4,-3,-2,-1,0,1,2,3,4,5,6,7}"
      by (simp only: insert_iff empty_iff) presburger
    moreover have "(bs @ rest) ! 4 = word_of_int (take_bit 7 (drop_bit 28 (sint w)))"
      using last_byte_encodes [OF enc, of 4] that by simp
    ultimately show ?thesis by (auto simp: take_bit_eq_mod)
  qed
  from \<open>bs \<noteq> []\<close> len show ?thesis
    by (cases rule: length_cases_5)
      (use val top last_LEB128 [OF enc, where 'a = 32 and rest = rest] in \<open>simp_all add: wasm_read_i32_leb128_def Let_def leb_ends_at_encodes [OF enc] split: if_splits\<close>)
qed

lemma length_cases_10:
  assumes "bs \<noteq> []" "length bs \<le> 10"
  obtains "length bs \<le> 5" | "length bs = 6" | "length bs = 7" | "length bs = 8" | "length bs = 9" | "length bs = 10"
proof -
  from assms(2) have "length bs \<le> 5 \<or> length bs = 6 \<or> length bs = 7 \<or> length bs = 8
      \<or> length bs = 9 \<or> length bs = 10"
    by arith
  then show ?thesis using that by blast
qed

lemma read_i64_leb128_encodes:
  assumes enc: "leb_encodes bs (sint w)" and len: "length bs \<le> 10"
    and last: "drop_bit (7 * length bs - 1) (sint w) = sign_fill (sint w)"
  shows "read_i64_leb128 (bs @ rest) = Inr (w, length bs)"
proof -
  have ne: "bs \<noteq> []" using enc by (simp add: leb_encodes_def)
  have val: "SIGN_EXTEND (LEB128 (length bs) (bs @ rest)) (7 * length bs - 1) = w" if "length bs < 10"
    using sign_extend_LEB128 [OF enc last, where 'a = 64] that by simp
  have top: "(if (bs @ rest) ! 9 AND 0x1 \<noteq> 0 then (bs @ rest) ! 9 AND 0xfe = 0x7e else (bs @ rest) ! 9 AND 0xfe = 0)"
    if "length bs = 10"
  proof -
    have "drop_bit 63 (sint w) = sign_fill (sint w)" by (rule drop_bit_sint_sign) simp
    then have "drop_bit 63 (sint w) \<in> {-1, 0}" by (simp add: sign_fill_def)
    moreover have "(bs @ rest) ! 9 = word_of_int (take_bit 7 (drop_bit 63 (sint w)))"
      using last_byte_encodes [OF enc, of 9] that by simp
    ultimately show ?thesis by (auto simp: take_bit_eq_mod)
  qed
  note defs = read_i64_leb128_def Let_def leb_ends_at_encodes [OF enc]
  show ?thesis
    using ne len
  proof (cases rule: length_cases_10)
    case 1
    with ne show ?thesis
      by (cases rule: length_cases_5) (use val in \<open>simp_all add: defs\<close>)
  qed (use val top last_LEB128 [OF enc, where 'a = 64 and rest = rest] in
      \<open>simp_all add: defs split: if_splits\<close>)
qed

subsection \<open>The codecs as one interface\<close>

text \<open>
  Every scalar of the binary format is written by an encoder and read back by a decoder that is
  given the rest of the input. The law a reader relies on is that a decoder recognises an
  encoding whatever follows it, and consumes exactly its bytes.
\<close>

locale codec =
  fixes enc :: "'v \<Rightarrow> byte list"
    and dec :: "byte list \<Rightarrow> ('v \<times> nat) option"
  assumes dec_enc: "dec (enc v @ rest) = Some (v, length (enc v))"
begin

lemma dec_enc_Nil: "dec (enc v) = Some (v, length (enc v))"
  using dec_enc [of v "[]"] by simp

lemma enc_inject: "enc v = enc v' \<longleftrightarrow> v = v'"
  using dec_enc_Nil by (metis option.inject prod.inject)

lemma enc_prefix_free: "enc v @ rest = enc v' @ rest' \<Longrightarrow> v = v' \<and> rest = rest'"
  using dec_enc by (metis append_eq_append_conv option.inject prod.inject)

primrec dec_list :: "nat \<Rightarrow> byte list \<Rightarrow> ('v list \<times> nat) option" where
  "dec_list 0 bs = Some ([], 0)"
| "dec_list (Suc n) bs =
     (case dec bs of None \<Rightarrow> None
      | Some (v, k) \<Rightarrow>
          (case dec_list n (drop k bs) of None \<Rightarrow> None
           | Some (vs, l) \<Rightarrow> Some (v # vs, k + l)))"

lemma dec_list_concat:
  "dec_list (length vs) (concat (map enc vs) @ rest) = Some (vs, length (concat (map enc vs)))"
  by (induction vs) (simp_all add: dec_enc)

end

interpretation u32_leb: codec "u32_leb128_bytes :: u32 \<Rightarrow> byte list" wasm_read_u32_leb128
  by unfold_locales
    (rule wasm_read_u32_leb128_encodes [OF u32_leb128_bytes_encodes length_u32_leb128_bytes u32_leb128_bytes_end])

lemma length_fixed_u32_leb128_bytes [simp]: "length (fixed_u32_leb128_bytes w) = 5"
  by (simp add: fixed_u32_leb128_bytes_def)

lemma drop_bit_uint_beyond: "LENGTH('a::len) \<le> n \<Longrightarrow> drop_bit n (uint (w :: 'a word)) = 0"
  by (simp add: drop_bit_beyond flip: uint_drop_bit)

interpretation fixed_leb: codec fixed_u32_leb128_bytes wasm_read_u32_leb128
  by unfold_locales
    (rule wasm_read_u32_leb128_encodes [OF fixed_u32_leb128_bytes_encodes], simp_all add: drop_bit_uint_beyond)

text \<open>The operands of \<open>wasm_write_i32_leb128\<close> and \<open>write_i64_leb128\<close> are signed words.\<close>

definition i32_leb128_bytes :: "u32 \<Rightarrow> byte list" where
  "i32_leb128_bytes value = sleb128_bytes (sint value)"

definition i64_leb128_bytes :: "u64 \<Rightarrow> byte list" where
  "i64_leb128_bytes value = sleb128_bytes (sint value)"

lemma length_i32_leb128_bytes: "length (i32_leb128_bytes w) \<le> 5"
  unfolding i32_leb128_bytes_def
  by (rule length_sleb128_bytes_le) (simp_all add: drop_bit_sint_sign)

lemma length_i64_leb128_bytes: "length (i64_leb128_bytes w) \<le> 10"
  unfolding i64_leb128_bytes_def
  by (rule length_sleb128_bytes_le) (simp_all add: drop_bit_sint_sign)

interpretation i32_leb: codec i32_leb128_bytes wasm_read_i32_leb128
proof
  fix v :: u32 and rest
  show "wasm_read_i32_leb128 (i32_leb128_bytes v @ rest) = Some (v, length (i32_leb128_bytes v))"
    using wasm_read_i32_leb128_encodes [OF sleb128_bytes_encodes _ sleb128_bytes_end]
      length_i32_leb128_bytes [of v] by (simp add: i32_leb128_bytes_def)
qed

lemma read_i64_leb128_bytes: "read_i64_leb128 (i64_leb128_bytes v @ rest) = Inr (v, length (i64_leb128_bytes v))"
  using read_i64_leb128_encodes [OF sleb128_bytes_encodes _ sleb128_bytes_end]
    length_i64_leb128_bytes [of v] by (simp add: i64_leb128_bytes_def)

interpretation i64_leb: codec i64_leb128_bytes "\<lambda>p. case read_i64_leb128 p of Inl _ \<Rightarrow> None | Inr r \<Rightarrow> Some r"
  by unfold_locales (simp add: read_i64_leb128_bytes)

subsection \<open>Bounds of the decoders\<close>

text \<open>A decoder never claims more bytes than lie between \<open>p\<close> and \<open>end\<close>, and at least one.\<close>

lemma wasm_read_u32_leb128_bounds:
  "wasm_read_u32_leb128 p = Some (v, n) \<Longrightarrow> 0 < n \<and> n \<le> 5 \<and> n \<le> length p"
  by (auto simp: wasm_read_u32_leb128_def leb_ends_at_def Suc_le_eq split: if_splits)

lemma wasm_read_i32_leb128_bounds:
  "wasm_read_i32_leb128 p = Some (v, n) \<Longrightarrow> 0 < n \<and> n \<le> 5 \<and> n \<le> length p"
  by (auto simp: wasm_read_i32_leb128_def leb_ends_at_def Let_def Suc_le_eq split: if_splits)

lemma read_i64_leb128_bounds:
  "read_i64_leb128 p = Inr (v, n) \<Longrightarrow> 0 < n \<and> n \<le> 10 \<and> n \<le> length p"
  by (auto simp: read_i64_leb128_def leb_ends_at_def Let_def Suc_le_eq split: if_splits)

subsection \<open>The value a decoder returns\<close>

text \<open>The value of the first \<open>n\<close> groups of seven bits, as an unbounded integer.\<close>

definition leb_value :: "byte list \<Rightarrow> nat \<Rightarrow> int" where
  "leb_value p n = (\<Sum>i<n. take_bit 7 (uint (p ! i)) * 2 ^ (7 * i))"

lemma leb_value_bound: "0 \<le> leb_value p n \<and> leb_value p n < 2 ^ (7 * n)"
proof (induction n)
  case (Suc n)
  let ?d = "take_bit 7 (uint (p ! n))"
  have d: "0 \<le> ?d" "?d \<le> 127" using take_bit_int_less_exp [of 7 "uint (p ! n)"] by simp_all
  have "?d * 2 ^ (7 * n) \<le> 127 * 2 ^ (7 * n)" using d by (intro mult_right_mono) simp_all
  then have "?d * 2 ^ (7 * n) + leb_value p n < 128 * 2 ^ (7 * n)" using Suc by linarith
  with Suc d show ?case by (simp add: leb_value_def power_add add.commute)
qed (simp add: leb_value_def)

lemma LEB128_value: "LEB128 n p = (word_of_int (leb_value p n) :: 'a::len word)"
proof (induction n)
  case (Suc n)
  let ?d = "take_bit 7 (uint (p ! n))"
  have "push_bit (7 * n) ?d OR leb_value p n = push_bit (7 * n) ?d + leb_value p n"
  proof (rule disjunctive_add [symmetric])
    fix k
    have "\<not> bit (leb_value p n) k" if "7 * n \<le> k"
    proof -
      have "take_bit (7 * n) (leb_value p n) = leb_value p n"
        using leb_value_bound by (simp add: take_bit_int_eq_self_iff)
      then show ?thesis using that by (metis bit_take_bit_iff linorder_not_less)
    qed
    then show "\<not> bit (push_bit (7 * n) ?d) k \<or> \<not> bit (leb_value p n) k"
      by (auto simp: bit_push_bit_iff)
  qed
  moreover have "(ucast (p ! n) AND 0x7f :: 'a word) = word_of_int ?d"
    unfolding and_0x7f_take_bit by (rule bit_word_eqI) (auto simp: bit_simps)
  moreover have "push_bit (7 * n) (word_of_int ?d) OR word_of_int (leb_value p n)
      = (word_of_int (push_bit (7 * n) ?d OR leb_value p n) :: 'a word)"
    by (rule bit_word_eqI) (auto simp: bit_simps)
  ultimately show ?case using Suc
    by (simp add: BYTE_AT_def leb_value_def push_bit_eq_mult add.commute)
qed (simp add: leb_value_def)

lemma and_0xf0_top: "b AND 0xf0 = 0 \<Longrightarrow> take_bit 7 (uint (b :: byte)) < 16"
proof -
  assume b: "b AND 0xf0 = 0"
  have "drop_bit 4 b = 0"
  proof (rule bit_word_eqI)
    fix n assume n: "n < LENGTH(8)"
    then have "n \<in> {0,1,2,3,4,5,6,7}" by auto
    moreover have "\<not> bit (b AND 0xf0) (n + 4)" using b by simp
    ultimately show "bit (drop_bit 4 b) n = bit (0 :: byte) n"
      by (auto simp: bit_simps dest: bit_imp_le_length)
  qed
  then have "drop_bit 4 (uint b) = 0" by (simp flip: uint_drop_bit)
  then have "uint b < 16" by (simp add: drop_bit_eq_div div_eq_0_iff)
  then show ?thesis by (simp add: take_bit_eq_mod)
qed

lemma wasm_read_u32_leb128_value:
  assumes "wasm_read_u32_leb128 p = Some (v, n)"
  shows "uint v = leb_value p n"
proof -
  have v: "v = word_of_int (leb_value p n)"
    using assms by (auto simp: wasm_read_u32_leb128_def simp flip: LEB128_value split: if_splits)
  have "leb_value p n < 2 ^ 32"
  proof (cases "n = 5")
    case True
    with assms have "take_bit 7 (uint (p ! 4)) < 16"
      by (auto simp: wasm_read_u32_leb128_def and_0xf0_top split: if_splits)
    moreover have "leb_value p 5 = leb_value p 4 + take_bit 7 (uint (p ! 4)) * 2 ^ 28"
      by (simp add: leb_value_def eval_nat_numeral)
    ultimately show ?thesis using True leb_value_bound [of p 4] by simp
  next
    case False
    with wasm_read_u32_leb128_bounds [OF assms] have "7 * n \<le> 28" by simp
    then have "(2 :: int) ^ (7 * n) \<le> 2 ^ 28" by (intro power_increasing) simp_all
    moreover have "(2 :: int) ^ 28 < 2 ^ 32" by simp
    ultimately show ?thesis using leb_value_bound [of p n] by linarith
  qed
  with leb_value_bound [of p n] show ?thesis by (simp add: v uint_word_of_int)
qed

end
