(* ===== verification/Wabt_Writer.thy ===== *)
theory Wabt_Writer
  imports Wabt_Leb128 Wabt_Common
begin

text \<open>
  Writers and streams (\<^verbatim>\<open>writer.c\<close>, \<^verbatim>\<open>stream.c\<close>). A \<open>WasmWriter\<close> is a record of function
  pointers over its \<open>user_data\<close>; the memory writer implements it on a growing output buffer,
  and a \<open>WasmStream\<close> writes through it at a running offset. The contract a stream needs of its
  writer is the locale \<open>byte_writer\<close>, interpreted for the memory writer.
  The optional log stream only receives a textual dump of what is written and is not modelled.
\<close>

subsection \<open>Writers\<close>

record 'w WasmWriter =
  user_data :: 'w
  write_data :: "(nat \<Rightarrow> byte list \<Rightarrow> 'w \<Rightarrow> WasmResult \<times> 'w) option"
  move_data :: "nat \<Rightarrow> nat \<Rightarrow> nat \<Rightarrow> 'w \<Rightarrow> WasmResult \<times> 'w"

text \<open>
  \<open>WasmOutputBuffer\<close>: \<open>buf_start\<close> is the allocated block, \<open>buf_capacity\<close> bytes long.
  \<open>buf_junk\<close> is what freshly allocated memory happens to hold at each position.
\<close>

record WasmOutputBuffer =
  buf_start :: "byte list"
  buf_size :: nat
  buf_capacity :: nat
  buf_junk :: "nat \<Rightarrow> byte"

definition wasm_init_output_buffer :: "(nat \<Rightarrow> byte) \<Rightarrow> nat \<Rightarrow> WasmOutputBuffer" where
  "wasm_init_output_buffer junk initial_capacity =
     \<lparr>buf_start = map junk [0..<initial_capacity], buf_size = 0, buf_capacity = initial_capacity,
      buf_junk = junk\<rparr>"

text \<open>
  The doubling loop \<open>while (new_capacity < ensure_capacity) new_capacity *= 2\<close>. The callers
  start it at a positive value (the assertion \<open>capacity != 0\<close>).
\<close>

function double_until :: "nat \<Rightarrow> nat \<Rightarrow> nat" where
  "double_until new_capacity want =
     (if 0 < new_capacity \<and> new_capacity < want then double_until (new_capacity * 2) want
      else new_capacity)"
  by pat_completeness auto
termination
  by (relation "measure (\<lambda>(c, want). want - c)") auto

declare double_until.simps [simp del]

definition ensure_output_buffer_capacity :: "WasmOutputBuffer \<Rightarrow> nat \<Rightarrow> WasmOutputBuffer" where
  "ensure_output_buffer_capacity buf ensure_capacity =
     (if ensure_capacity > buf_capacity buf then
        let new_capacity = double_until (buf_capacity buf * 2) ensure_capacity
        in buf\<lparr>buf_start := buf_start buf @ map (buf_junk buf) [buf_capacity buf..<new_capacity],
               buf_capacity := new_capacity\<rparr>
      else buf)"

definition write_data_to_output_buffer ::
    "nat \<Rightarrow> byte list \<Rightarrow> WasmOutputBuffer \<Rightarrow> WasmResult \<times> WasmOutputBuffer" where
  "write_data_to_output_buffer offset src buf =
     (let end' = offset + length src;
          buf' = ensure_output_buffer_capacity buf end'
      in (WASM_OK,
          buf'\<lparr>buf_start := overwrite (buf_start buf') offset src,
               buf_size := (if end' > buf_size buf' then end' else buf_size buf')\<rparr>))"

definition move_data_in_output_buffer ::
    "nat \<Rightarrow> nat \<Rightarrow> nat \<Rightarrow> WasmOutputBuffer \<Rightarrow> WasmResult \<times> WasmOutputBuffer" where
  "move_data_in_output_buffer dst_offset src_offset n buf =
     (let src_end = src_offset + n; dst_end = dst_offset + n;
          end' = (if src_end > dst_end then src_end else dst_end);
          buf' = ensure_output_buffer_capacity buf end'
      in (WASM_OK,
          buf'\<lparr>buf_start := overwrite (buf_start buf') dst_offset
                              (take n (drop src_offset (buf_start buf'))),
               buf_size := (if end' > buf_size buf' then end' else buf_size buf')\<rparr>))"

definition INITIAL_OUTPUT_BUFFER_CAPACITY :: nat where
  "INITIAL_OUTPUT_BUFFER_CAPACITY = 64 * 1024"

definition mem_writer_of :: "WasmOutputBuffer \<Rightarrow> WasmOutputBuffer WasmWriter" where
  "mem_writer_of buf =
     \<lparr>user_data = buf, write_data = Some write_data_to_output_buffer,
      move_data = move_data_in_output_buffer\<rparr>"

definition wasm_init_mem_writer :: "(nat \<Rightarrow> byte) \<Rightarrow> WasmOutputBuffer WasmWriter" where
  "wasm_init_mem_writer junk =
     mem_writer_of (wasm_init_output_buffer junk INITIAL_OUTPUT_BUFFER_CAPACITY)"

text \<open>What the buffer's owner sees: the first \<open>buf_size\<close> bytes.\<close>

definition buf_contents :: "WasmOutputBuffer \<Rightarrow> byte list" where
  "buf_contents buf = take (buf_size buf) (buf_start buf)"

definition buf_wf :: "WasmOutputBuffer \<Rightarrow> bool" where
  "buf_wf buf \<longleftrightarrow> 0 < buf_capacity buf \<and> length (buf_start buf) = buf_capacity buf
     \<and> buf_size buf \<le> buf_capacity buf"

lemma double_until_ge: "0 < c \<Longrightarrow> want \<le> double_until c want \<and> c \<le> double_until c want"
proof (induction c want rule: double_until.induct)
  case (1 c want)
  then show ?case by (subst (1 2) double_until.simps) auto
qed

lemma ensure_capacity_wf:
  assumes "buf_wf buf"
  shows "buf_wf (ensure_output_buffer_capacity buf n)"
    and "n \<le> buf_capacity (ensure_output_buffer_capacity buf n)"
    and "buf_size (ensure_output_buffer_capacity buf n) = buf_size buf"
    and "\<exists>pad. buf_start (ensure_output_buffer_capacity buf n) = buf_start buf @ pad"
  using assms double_until_ge [of "buf_capacity buf * 2" n]
  by (auto simp: ensure_output_buffer_capacity_def buf_wf_def Let_def)

lemma buf_contents_ensure:
  "buf_wf buf \<Longrightarrow> buf_contents (ensure_output_buffer_capacity buf n) = buf_contents buf"
  using ensure_capacity_wf(3,4) [of buf n] by (auto simp: buf_contents_def buf_wf_def)

subsection \<open>The writer contract\<close>

text \<open>
  What a stream relies on: writing at or before the end of the contents replaces the bytes there
  and extends the contents if needed; moving a range within the contents copies it.
\<close>

locale byte_writer =
  fixes wd :: "nat \<Rightarrow> byte list \<Rightarrow> 'w \<Rightarrow> WasmResult \<times> 'w"
    and mv :: "nat \<Rightarrow> nat \<Rightarrow> nat \<Rightarrow> 'w \<Rightarrow> WasmResult \<times> 'w"
    and contents :: "'w \<Rightarrow> byte list"
    and invar :: "'w \<Rightarrow> bool"
  assumes write_law: "invar u \<Longrightarrow> off \<le> length (contents u) \<Longrightarrow>
      \<exists>u'. wd off bs u = (WASM_OK, u') \<and> invar u' \<and> contents u' = overwrite (contents u) off bs"
    and move_law: "invar u \<Longrightarrow> src + n \<le> length (contents u) \<Longrightarrow> dst \<le> length (contents u) \<Longrightarrow>
      \<exists>u'. mv dst src n u = (WASM_OK, u') \<and> invar u'
        \<and> contents u' = overwrite (contents u) dst (take n (drop src (contents u)))"

lemma length_buf_contents: "buf_wf buf \<Longrightarrow> length (buf_contents buf) = buf_size buf"
  by (simp add: buf_contents_def buf_wf_def)

text \<open>Overwriting the block and raising the size overwrites the contents.\<close>

lemma buf_contents_overwrite:
  assumes "buf_wf buf" "off \<le> buf_size buf" "off + length bs \<le> buf_capacity buf"
  shows "buf_contents (buf\<lparr>buf_start := overwrite (buf_start buf) off bs,
                    buf_size := max (buf_size buf) (off + length bs)\<rparr>)
      = overwrite (buf_contents buf) off bs"
proof -
  let ?m = "max (buf_size buf) (off + length bs)"
  have "take ?m (overwrite (buf_start buf) off bs) = overwrite (take ?m (buf_start buf)) off bs"
    using assms by (intro take_overwrite) (auto simp: buf_wf_def)
  also have "\<dots> = overwrite (buf_contents buf) off bs"
    using assms by (simp add: overwrite_def buf_contents_def min_def max_def)
  finally show ?thesis by (simp add: buf_contents_def)
qed

lemma buf_wf_overwrite:
  assumes "buf_wf buf" "off \<le> buf_size buf" "off + length bs \<le> buf_capacity buf"
  shows "buf_wf (buf\<lparr>buf_start := overwrite (buf_start buf) off bs,
                    buf_size := max (buf_size buf) (off + length bs)\<rparr>)"
  using assms by (auto simp: buf_wf_def length_overwrite max_def)

interpretation mem_writer:
  byte_writer write_data_to_output_buffer move_data_in_output_buffer buf_contents buf_wf
proof
  fix u :: WasmOutputBuffer and off :: nat and bs :: "byte list"
  assume wf: "buf_wf u" and off: "off \<le> length (buf_contents u)"
  let ?u = "ensure_output_buffer_capacity u (off + length bs)"
  note ens = ensure_capacity_wf [OF wf, of "off + length bs"]
  have off': "off \<le> buf_size ?u" using off wf by (simp add: ens length_buf_contents)
  have sz: "(if off + length bs > buf_size ?u then off + length bs else buf_size ?u)
      = max (buf_size ?u) (off + length bs)" by simp
  show "\<exists>u'. write_data_to_output_buffer off bs u = (WASM_OK, u') \<and> buf_wf u'
      \<and> buf_contents u' = overwrite (buf_contents u) off bs"
    using buf_contents_overwrite [OF ens(1) off' ens(2)] buf_wf_overwrite [OF ens(1) off' ens(2)]
    by (simp add: write_data_to_output_buffer_def Let_def sz buf_contents_ensure [OF wf])
next
  fix u :: WasmOutputBuffer and src n dst :: nat
  assume wf: "buf_wf u" and src: "src + n \<le> length (buf_contents u)"
    and dst: "dst \<le> length (buf_contents u)"
  let ?stop = "if src + n > dst + n then src + n else dst + n"
  let ?u = "ensure_output_buffer_capacity u ?stop"
  let ?bs = "take n (drop src (buf_start ?u))"
  note ens = ensure_capacity_wf [OF wf, of ?stop]
  have bs: "?bs = take n (drop src (buf_contents u))" and len: "length ?bs = n"
    using src wf ens(4) by (auto simp: buf_contents_def buf_wf_def take_drop)
  have dst': "dst \<le> buf_size ?u" unfolding ens(3) using dst wf by (simp add: length_buf_contents)
  have cap: "dst + length ?bs \<le> buf_capacity ?u" using ens(2) len by (simp split: if_splits)
  have sz: "(if ?stop > buf_size ?u then ?stop else buf_size ?u) = max (buf_size ?u) (dst + length ?bs)"
    unfolding ens(3) using src wf len by (simp add: length_buf_contents)
  show "\<exists>u'. move_data_in_output_buffer dst src n u = (WASM_OK, u') \<and> buf_wf u'
      \<and> buf_contents u' = overwrite (buf_contents u) dst (take n (drop src (buf_contents u)))"
    unfolding move_data_in_output_buffer_def Let_def sz
    using buf_contents_overwrite [OF ens(1) dst' cap] buf_wf_overwrite [OF ens(1) dst' cap]
    unfolding buf_contents_ensure [OF wf] bs by blast
qed

subsection \<open>Streams\<close>

record 'w WasmStream =
  writer :: "'w WasmWriter"
  offset :: nat
  result :: WasmResult

definition wasm_init_stream :: "'w WasmWriter \<Rightarrow> 'w WasmStream" where
  "wasm_init_stream w = \<lparr>writer = w, offset = 0, result = WASM_OK\<rparr>"

definition wasm_write_data_at :: "nat \<Rightarrow> byte list \<Rightarrow> 'w WasmStream \<Rightarrow> 'w WasmStream" where
  "wasm_write_data_at off src stream =
     (if result stream = WASM_ERROR then stream
      else case write_data (writer stream) of
        None \<Rightarrow> stream
      | Some f \<Rightarrow>
          (let (r, u) = f off src (user_data (writer stream))
           in stream\<lparr>writer := (writer stream)\<lparr>user_data := u\<rparr>, result := r\<rparr>))"

definition wasm_write_data :: "byte list \<Rightarrow> 'w WasmStream \<Rightarrow> 'w WasmStream" where
  "wasm_write_data src stream =
     (let stream' = wasm_write_data_at (offset stream) src stream
      in stream'\<lparr>offset := offset stream' + length src\<rparr>)"

definition wasm_move_data :: "nat \<Rightarrow> nat \<Rightarrow> nat \<Rightarrow> 'w WasmStream \<Rightarrow> 'w WasmStream" where
  "wasm_move_data dst_offset src_offset n stream =
     (if result stream = WASM_ERROR then stream
      else case write_data (writer stream) of
        None \<Rightarrow> stream
      | Some _ \<Rightarrow>
          (let (r, u) = move_data (writer stream) dst_offset src_offset n (user_data (writer stream))
           in stream\<lparr>writer := (writer stream)\<lparr>user_data := u\<rparr>, result := r\<rparr>))"

text \<open>
  The scalar writes repeat the pattern of \<open>wasm_write_data\<close>. The bytes of a \<open>uint32_t\<close> or
  \<open>uint64_t\<close> are copied from the variable: little-endian, on the hosts the tool supports.
\<close>

definition wasm_write_u8 :: "u32 \<Rightarrow> 'w WasmStream \<Rightarrow> 'w WasmStream" where
  "wasm_write_u8 v stream =
     (let stream' = wasm_write_data_at (offset stream) [ucast v] stream
      in stream'\<lparr>offset := offset stream' + 1\<rparr>)"

definition wasm_write_u32 :: "u32 \<Rightarrow> 'w WasmStream \<Rightarrow> 'w WasmStream" where
  "wasm_write_u32 v stream =
     (let stream' = wasm_write_data_at (offset stream) (le_bytes 4 v) stream
      in stream'\<lparr>offset := offset stream' + 4\<rparr>)"

definition wasm_write_u64 :: "u64 \<Rightarrow> 'w WasmStream \<Rightarrow> 'w WasmStream" where
  "wasm_write_u64 v stream =
     (let stream' = wasm_write_data_at (offset stream) (le_bytes 8 v) stream
      in stream'\<lparr>offset := offset stream' + 8\<rparr>)"

end
