(* ===== verification/Wabt_Binding_Hash.thy ===== *)
theory Wabt_Binding_Hash
  imports Wabt_Common Wabt_Writer
begin

text \<open>
  The name tables (\<^verbatim>\<open>binding-hash.c\<close>) and the vector growth they use (\<^verbatim>\<open>vector.c\<close>): an
  array of entries in which colliding names are chained through \<open>next\<close> and the unused entries
  form a doubly linked free list. A pointer to an entry is its index in the array.
\<close>

subsection \<open>Vector growth\<close>

definition INITIAL_VECTOR_CAPACITY :: nat where "INITIAL_VECTOR_CAPACITY = 8"

definition wasm_ensure_capacity :: "nat \<Rightarrow> nat \<Rightarrow> nat" where
  "wasm_ensure_capacity capacity desired_size =
     (if desired_size > capacity
      then double_until (if capacity \<noteq> 0 then capacity * 2 else INITIAL_VECTOR_CAPACITY) desired_size
      else capacity)"

lemma wasm_ensure_capacity_ge:
  "desired \<le> wasm_ensure_capacity capacity desired \<and> capacity \<le> wasm_ensure_capacity capacity desired"
  using double_until_ge [of "capacity * 2" desired] double_until_ge [of INITIAL_VECTOR_CAPACITY desired]
  by (auto simp: wasm_ensure_capacity_def INITIAL_VECTOR_CAPACITY_def)

subsection \<open>The table\<close>

record WasmBinding =
  b_name :: WasmStringSlice
  b_index :: int

record WasmBindingHashEntry =
  binding :: WasmBinding
  entry_next :: "nat option"
  entry_prev :: "nat option"

text \<open>\<open>entries\<close> is the whole allocated array (its length is the vector's capacity).\<close>

record WasmBindingHash =
  entries :: "WasmBindingHashEntry list"
  entries_size :: nat
  free_head :: "nat option"

definition empty_hash :: WasmBindingHash where
  "empty_hash = \<lparr>entries = [], entries_size = 0, free_head = None\<rparr>"

abbreviation hash_capacity :: "WasmBindingHash \<Rightarrow> nat" where
  "hash_capacity hash \<equiv> length (entries hash)"

definition INITIAL_HASH_CAPACITY :: nat where "INITIAL_HASH_CAPACITY = 8"

text \<open>FNV-1a on the bytes of the name.\<close>

definition hash_name :: "byte list \<Rightarrow> nat" where
  "hash_name name = unat (fold (\<lambda>b hval. (hval XOR ucast b) * 0x01000193) name (0x811c9dc5 :: u32))"

definition hash_main_entry :: "WasmBindingHash \<Rightarrow> byte list \<Rightarrow> nat" where
  "hash_main_entry hash name = hash_name name mod hash_capacity hash"

definition wasm_hash_entry_is_free :: "WasmBindingHashEntry \<Rightarrow> bool" where
  "wasm_hash_entry_is_free entry \<longleftrightarrow> b_name (binding entry) = None"

definition set_next :: "nat option \<Rightarrow> nat \<Rightarrow> WasmBindingHash \<Rightarrow> WasmBindingHash" where
  "set_next v i hash = hash\<lparr>entries := (entries hash)[i := (entries hash ! i)\<lparr>entry_next := v\<rparr>]\<rparr>"

definition set_prev :: "nat option \<Rightarrow> nat \<Rightarrow> WasmBindingHash \<Rightarrow> WasmBindingHash" where
  "set_prev v i hash = hash\<lparr>entries := (entries hash)[i := (entries hash ! i)\<lparr>entry_prev := v\<rparr>]\<rparr>"

text \<open>
  The search \<open>while (other_entry->next != entry) other_entry = other_entry->next\<close>. \<open>None\<close> is
  running off the chain (a NULL dereference) or walking more entries than there are (a cycle).
\<close>

fun chain_pred :: "nat \<Rightarrow> WasmBindingHash \<Rightarrow> nat \<Rightarrow> nat \<Rightarrow> nat option" where
  "chain_pred 0 hash entry other_entry = None"
| "chain_pred (Suc fuel) hash entry other_entry =
     (case entry_next (entries hash ! other_entry) of
        None \<Rightarrow> None
      | Some n \<Rightarrow> if n = entry then Some other_entry else chain_pred fuel hash entry n)"

text \<open>
  \<open>hash_new_entry\<close>: the new table and the entry claimed for \<open>name\<close>. \<open>None\<close> where the
  C code would fail its assertion \<open>hash->free_head\<close> or run off a chain.
\<close>

definition claim_entry :: "WasmStringSlice \<Rightarrow> nat \<Rightarrow> WasmBindingHash \<Rightarrow> WasmBindingHash" where
  "claim_entry name entry hash =
     hash\<lparr>entries := (entries hash)[entry := (entries hash ! entry)
       \<lparr>binding := \<lparr>b_name = name, b_index = 0\<rparr>, entry_prev := None\<rparr>]\<rparr>"

definition take_free_head :: "nat \<Rightarrow> WasmBindingHash \<Rightarrow> WasmBindingHash" where
  "take_free_head free_entry hash =
     (let next = entry_next (entries hash ! free_entry);
          hash1 = hash\<lparr>free_head := next\<rparr>
      in case next of None \<Rightarrow> hash1 | Some n \<Rightarrow> set_prev None n hash1)"

definition hash_unlink_free :: "nat \<Rightarrow> WasmBindingHash \<Rightarrow> WasmBindingHash" where
  "hash_unlink_free entry hash =
     (let next = entry_next (entries hash ! entry); prev = entry_prev (entries hash ! entry);
          hash1 = (case next of None \<Rightarrow> hash | Some n \<Rightarrow> set_prev prev n hash);
          hash2 = (case prev of Some p \<Rightarrow> set_next next p hash1
                   | None \<Rightarrow> hash1\<lparr>free_head := next\<rparr>)
      in set_next None entry hash2)"

definition hash_new_entry :: "WasmBindingHash \<Rightarrow> WasmStringSlice \<Rightarrow> (WasmBindingHash \<times> nat) option" where
  "hash_new_entry hash name =
     (let entry = hash_main_entry hash (slice_bytes name)
      in if \<not> wasm_hash_entry_is_free (entries hash ! entry) then
           (case free_head hash of
              None \<Rightarrow> None
            | Some free_entry \<Rightarrow>
                (let hash1 = take_free_head free_entry hash;
                     other_entry = hash_main_entry hash1 (slice_bytes (b_name (binding (entries hash1 ! entry))))
                 in if other_entry = entry then
                      (let hash2 = set_next (entry_next (entries hash1 ! entry)) free_entry hash1;
                           hash3 = set_next (Some free_entry) entry hash2
                       in Some (claim_entry name free_entry hash3, free_entry))
                    else
                      (case chain_pred (hash_capacity hash1) hash1 entry other_entry of
                         None \<Rightarrow> None
                       | Some p \<Rightarrow>
                           (let hash2 = set_next (Some free_entry) p hash1;
                                hash3 = hash2\<lparr>entries := (entries hash2)[free_entry := entries hash2 ! entry]\<rparr>;
                                hash4 = set_next None entry hash3
                            in Some (claim_entry name entry hash4, entry)))))
         else Some (claim_entry name entry (hash_unlink_free entry hash), entry))"

text \<open>The loop of \<open>hash_resize\<close> that threads the free list through the new array.\<close>

definition push_free_entry :: "nat \<Rightarrow> WasmBindingHash \<Rightarrow> WasmBindingHash" where
  "push_free_entry i hash =
     (let hash1 = (case free_head hash of None \<Rightarrow> hash | Some f \<Rightarrow> set_prev (Some i) f hash);
          hash2 = hash1\<lparr>entries := (entries hash1)[i := (entries hash1 ! i)
                    \<lparr>binding := (binding (entries hash1 ! i))\<lparr>b_name := None\<rparr>,
                     entry_next := free_head hash1\<rparr>]\<rparr>
      in hash2\<lparr>free_head := Some i\<rparr>)"

text \<open>\<open>junk\<close> is what the freshly allocated array holds.\<close>

definition hash_fresh :: "WasmBindingHashEntry \<Rightarrow> nat \<Rightarrow> WasmBindingHash" where
  "hash_fresh junk desired_capacity =
     (let cap = wasm_ensure_capacity 0 desired_capacity;
          hash = fold push_free_entry [0..<cap]
                   \<lparr>entries = replicate cap junk, entries_size = 0, free_head = None\<rparr>
      in case free_head hash of None \<Rightarrow> hash | Some f \<Rightarrow> set_prev None f hash)"

fun hash_copy :: "WasmBindingHashEntry list \<Rightarrow> WasmBindingHash \<Rightarrow> WasmBindingHash option" where
  "hash_copy [] new_hash = Some new_hash"
| "hash_copy (old_entry # es) new_hash =
     (if wasm_hash_entry_is_free old_entry then hash_copy es new_hash
      else case hash_new_entry new_hash (b_name (binding old_entry)) of
             None \<Rightarrow> None
           | Some (h, new_entry) \<Rightarrow>
               hash_copy es (h\<lparr>entries := (entries h)[new_entry := (entries h ! new_entry)
                                 \<lparr>binding := binding old_entry\<rparr>]\<rparr>))"

definition hash_resize :: "WasmBindingHashEntry \<Rightarrow> WasmBindingHash \<Rightarrow> nat \<Rightarrow> WasmBindingHash option" where
  "hash_resize junk hash desired_capacity = hash_copy (entries hash) (hash_fresh junk desired_capacity)"

definition wasm_insert_binding ::
    "WasmBindingHashEntry \<Rightarrow> WasmBindingHash \<Rightarrow> WasmStringSlice \<Rightarrow> (WasmBindingHash \<times> nat) option" where
  "wasm_insert_binding junk hash name =
     (case (if entries_size hash = 0 then hash_resize junk hash INITIAL_HASH_CAPACITY else Some hash) of
        None \<Rightarrow> None
      | Some hash1 \<Rightarrow>
          (case (if free_head hash1 = None then hash_resize junk hash1 (hash_capacity hash1 * 2) else Some hash1) of
             None \<Rightarrow> None
           | Some hash2 \<Rightarrow>
               (case hash_new_entry hash2 name of
                  None \<Rightarrow> None
                | Some (hash3, entry) \<Rightarrow>
                    Some (hash3\<lparr>entries_size := entries_size hash3 + 1\<rparr>, entry))))"

text \<open>What every caller does with the returned binding: \<open>binding->index = index\<close>.\<close>

definition set_binding_index :: "WasmBindingHash \<Rightarrow> nat \<Rightarrow> int \<Rightarrow> WasmBindingHash" where
  "set_binding_index hash entry index =
     hash\<lparr>entries := (entries hash)[entry := (entries hash ! entry)
       \<lparr>binding := (binding (entries hash ! entry))\<lparr>b_index := index\<rparr>\<rparr>]\<rparr>"

text \<open>
  The search loop of \<open>wasm_find_binding_index_by_name\<close>; a chain has at most \<open>capacity\<close>
  entries, which is the fuel it is given.
\<close>

fun find_in_chain :: "nat \<Rightarrow> WasmBindingHash \<Rightarrow> WasmStringSlice \<Rightarrow> nat \<Rightarrow> int" where
  "find_in_chain 0 hash name entry = - 1"
| "find_in_chain (Suc fuel) hash name entry =
     (if wasm_string_slices_are_equal (b_name (binding (entries hash ! entry))) name
      then b_index (binding (entries hash ! entry))
      else case entry_next (entries hash ! entry) of
             None \<Rightarrow> - 1
           | Some e \<Rightarrow> if wasm_hash_entry_is_free (entries hash ! e) then - 1
                       else find_in_chain fuel hash name e)"

definition wasm_find_binding_index_by_name :: "WasmBindingHash \<Rightarrow> WasmStringSlice \<Rightarrow> int" where
  "wasm_find_binding_index_by_name hash name =
     (if hash_capacity hash = 0 then - 1
      else find_in_chain (hash_capacity hash) hash name (hash_main_entry hash (slice_bytes name)))"

text \<open>
  \<open>wasm_remove_binding\<close>: it uses the \<^emph>\<open>index\<close> stored in the binding as the position of the
  entry to clear.
\<close>

definition wasm_remove_binding :: "WasmBindingHash \<Rightarrow> WasmStringSlice \<Rightarrow> WasmBindingHash" where
  "wasm_remove_binding hash name =
     (let index = wasm_find_binding_index_by_name hash name
      in if index = - 1 then hash
         else hash\<lparr>entries := (entries hash)[nat index :=
                \<lparr>binding = \<lparr>b_name = None, b_index = 0\<rparr>, entry_next = None, entry_prev = None\<rparr>]\<rparr>)"

end
