(* ===== verification/Wabt_Ast.thy ===== *)
theory Wabt_Ast
  imports Wabt_Binding_Hash
begin

text \<open>
  The abstract syntax (\<^verbatim>\<open>ast.h\<close>) and the queries on modules (\<^verbatim>\<open>ast.c\<close>). Source
  locations, which only error messages use, are left out. A linked list of expressions is a
  list; NULL is the empty list.
\<close>

subsection \<open>Expressions\<close>

text \<open>\<open>WasmVar\<close>: an \<open>int64_t\<close> index or a name.\<close>

datatype WasmVar = VarIndex u64 | VarName WasmStringSlice

type_synonym WasmLabel = WasmStringSlice

datatype WasmConst = ConstI32 u32 | ConstI64 u64 | ConstF32 u32 | ConstF64 u64

datatype WasmExpr =
    Binary WasmOpcode
  | Block WasmLabel "WasmType list" "WasmExpr list"
  | Br WasmVar
  | BrIf WasmVar
  | BrTable "WasmVar list" WasmVar
  | Call WasmVar
  | CallIndirect WasmVar
  | Compare WasmOpcode
  | Const WasmConst
  | Convert WasmOpcode
  | CurrentMemory
  | Drop
  | GetGlobal WasmVar
  | GetLocal WasmVar
  | GrowMemory
  | If WasmLabel "WasmType list" "WasmExpr list" "WasmExpr list"
  | Load WasmOpcode u32 u64
  | Loop WasmLabel "WasmType list" "WasmExpr list"
  | Nop
  | Return
  | Select
  | SetGlobal WasmVar
  | SetLocal WasmVar
  | Store WasmOpcode u32 u64
  | TeeLocal WasmVar
  | Unary WasmOpcode
  | Unreachable

subsection \<open>Modules\<close>

record WasmFuncSignature =
  param_types :: "WasmType list"
  result_types :: "WasmType list"

record WasmFuncType =
  ft_name :: WasmStringSlice
  ft_sig :: WasmFuncSignature

text \<open>\<open>has_func_type\<close> is the flag \<open>WASM_FUNC_DECLARATION_FLAG_HAS_FUNC_TYPE\<close>.\<close>

record WasmFuncDeclaration =
  has_func_type :: bool
  type_var :: WasmVar
  decl_sig :: WasmFuncSignature

record WasmFunc =
  func_name :: WasmStringSlice
  func_decl :: WasmFuncDeclaration
  local_types :: "WasmType list"
  param_bindings :: WasmBindingHash
  local_bindings :: WasmBindingHash
  first_expr :: "WasmExpr list"

record WasmGlobal =
  global_name :: WasmStringSlice
  global_type :: WasmType
  global_mutable :: bool
  global_init_expr :: "WasmExpr list"

record WasmTable =
  table_name :: WasmStringSlice
  elem_limits :: WasmLimits

record WasmElemSegment =
  elem_table_var :: WasmVar
  elem_offset :: "WasmExpr list"
  elem_vars :: "WasmVar list"

record WasmMemory =
  memory_name :: WasmStringSlice
  page_limits :: WasmLimits

record WasmDataSegment =
  data_memory_var :: WasmVar
  data_offset :: "WasmExpr list"
  data_bytes :: "byte list"

datatype WasmImportDesc =
    ImportFunc WasmFunc | ImportTable WasmTable | ImportMemory WasmMemory | ImportGlobal WasmGlobal

record WasmImport =
  import_module_name :: WasmStringSlice
  import_field_name :: WasmStringSlice
  import_desc :: WasmImportDesc

record WasmExport =
  export_name :: WasmStringSlice
  export_kind :: WasmExternalKind
  export_var :: WasmVar

record WasmModule =
  num_func_imports :: nat
  num_table_imports :: nat
  num_memory_imports :: nat
  num_global_imports :: nat
  funcs :: "WasmFunc list"
  globals :: "WasmGlobal list"
  imports_vec :: "WasmImport list"
  exports :: "WasmExport list"
  func_types :: "WasmFuncType list"
  tables :: "WasmTable list"
  elem_segments :: "WasmElemSegment list"
  memories :: "WasmMemory list"
  data_segments :: "WasmDataSegment list"
  start :: "WasmVar option"
  func_bindings :: WasmBindingHash
  global_bindings :: WasmBindingHash
  export_bindings :: WasmBindingHash
  func_type_bindings :: WasmBindingHash
  table_bindings :: WasmBindingHash
  memory_bindings :: WasmBindingHash

text \<open>
  The list of fields of the module. The vectors of the module point into the fields, so a field
  is the position of its contents in the vector of its kind; a start field, of which the module
  only keeps the last, carries its variable.
\<close>

datatype WasmModuleField =
    FieldFunc nat | FieldGlobal nat | FieldImport nat | FieldExport nat | FieldFuncType nat
  | FieldTable nat | FieldElemSegment nat | FieldMemory nat | FieldDataSegment nat
  | FieldStart WasmVar

subsection \<open>Queries\<close>

text \<open>A C \<open>int\<close> result is an \<open>int\<close>; \<open>(int) var->index\<close> keeps the low 32 bits, signed.\<close>

fun wasm_get_index_from_var :: "WasmBindingHash \<Rightarrow> WasmVar \<Rightarrow> int" where
  "wasm_get_index_from_var hash (VarName name) = wasm_find_binding_index_by_name hash name"
| "wasm_get_index_from_var hash (VarIndex index) = sint (ucast index :: u32)"

definition wasm_get_func_index_by_var :: "WasmModule \<Rightarrow> WasmVar \<Rightarrow> int" where
  "wasm_get_func_index_by_var module var = wasm_get_index_from_var (func_bindings module) var"

definition wasm_get_global_index_by_var :: "WasmModule \<Rightarrow> WasmVar \<Rightarrow> int" where
  "wasm_get_global_index_by_var module var = wasm_get_index_from_var (global_bindings module) var"

definition wasm_get_table_index_by_var :: "WasmModule \<Rightarrow> WasmVar \<Rightarrow> int" where
  "wasm_get_table_index_by_var module var = wasm_get_index_from_var (table_bindings module) var"

definition wasm_get_memory_index_by_var :: "WasmModule \<Rightarrow> WasmVar \<Rightarrow> int" where
  "wasm_get_memory_index_by_var module var = wasm_get_index_from_var (memory_bindings module) var"

definition wasm_get_func_type_index_by_var :: "WasmModule \<Rightarrow> WasmVar \<Rightarrow> int" where
  "wasm_get_func_type_index_by_var module var = wasm_get_index_from_var (func_type_bindings module) var"

fun wasm_get_local_index_by_var :: "WasmFunc \<Rightarrow> WasmVar \<Rightarrow> int" where
  "wasm_get_local_index_by_var func (VarIndex index) = sint (ucast index :: u32)"
| "wasm_get_local_index_by_var func (VarName name) =
     (let result = wasm_find_binding_index_by_name (param_bindings func) name
      in if result \<noteq> - 1 then result
         else (let result = wasm_find_binding_index_by_name (local_bindings func) name
               in if result = - 1 then result
                  else int (length (param_types (decl_sig (func_decl func)))) + result))"

text \<open>A NULL pointer result is \<open>None\<close>.\<close>

definition nth_ptr :: "'a list \<Rightarrow> int \<Rightarrow> 'a option" where
  "nth_ptr xs index = (if index < 0 \<or> nat index \<ge> length xs then None else Some (xs ! nat index))"

definition wasm_get_func_by_var :: "WasmModule \<Rightarrow> WasmVar \<Rightarrow> WasmFunc option" where
  "wasm_get_func_by_var module var = nth_ptr (funcs module) (wasm_get_index_from_var (func_bindings module) var)"

definition wasm_get_global_by_var :: "WasmModule \<Rightarrow> WasmVar \<Rightarrow> WasmGlobal option" where
  "wasm_get_global_by_var module var = nth_ptr (globals module) (wasm_get_index_from_var (global_bindings module) var)"

definition wasm_get_table_by_var :: "WasmModule \<Rightarrow> WasmVar \<Rightarrow> WasmTable option" where
  "wasm_get_table_by_var module var = nth_ptr (tables module) (wasm_get_index_from_var (table_bindings module) var)"

definition wasm_get_memory_by_var :: "WasmModule \<Rightarrow> WasmVar \<Rightarrow> WasmMemory option" where
  "wasm_get_memory_by_var module var = nth_ptr (memories module) (wasm_get_index_from_var (memory_bindings module) var)"

definition wasm_get_func_type_by_var :: "WasmModule \<Rightarrow> WasmVar \<Rightarrow> WasmFuncType option" where
  "wasm_get_func_type_by_var module var =
     nth_ptr (func_types module) (wasm_get_index_from_var (func_type_bindings module) var)"

definition wasm_get_export_by_name :: "WasmModule \<Rightarrow> WasmStringSlice \<Rightarrow> WasmExport option" where
  "wasm_get_export_by_name module name =
     (let index = wasm_find_binding_index_by_name (export_bindings module) name
      in if index = - 1 then None else Some (exports module ! nat index))"

definition wasm_signatures_are_equal :: "WasmFuncSignature \<Rightarrow> WasmFuncSignature \<Rightarrow> bool" where
  "wasm_signatures_are_equal sig1 sig2 \<longleftrightarrow>
     param_types sig1 = param_types sig2 \<and> result_types sig1 = result_types sig2"

fun func_type_index_from :: "nat \<Rightarrow> WasmFuncType list \<Rightarrow> WasmFuncSignature \<Rightarrow> int" where
  "func_type_index_from i [] sig = - 1"
| "func_type_index_from i (ft # fts) sig =
     (if wasm_signatures_are_equal (ft_sig ft) sig then int i else func_type_index_from (Suc i) fts sig)"

definition wasm_get_func_type_index_by_sig :: "WasmModule \<Rightarrow> WasmFuncSignature \<Rightarrow> int" where
  "wasm_get_func_type_index_by_sig module sig = func_type_index_from 0 (func_types module) sig"

definition wasm_get_func_type_index_by_decl :: "WasmModule \<Rightarrow> WasmFuncDeclaration \<Rightarrow> int" where
  "wasm_get_func_type_index_by_decl module decl =
     (if has_func_type decl then wasm_get_func_type_index_by_var module (type_var decl)
      else wasm_get_func_type_index_by_sig module (decl_sig decl))"

definition wasm_get_num_params :: "WasmFunc \<Rightarrow> nat" where
  "wasm_get_num_params func = length (param_types (decl_sig (func_decl func)))"

definition wasm_get_num_params_and_locals :: "WasmFunc \<Rightarrow> nat" where
  "wasm_get_num_params_and_locals func = wasm_get_num_params func + length (local_types func)"

text \<open>\<open>wasm_make_type_binding_reverse_mapping\<close>: the names by index, empty slices elsewhere.\<close>

fun reverse_mapping_loop :: "WasmBindingHashEntry list \<Rightarrow> WasmStringSlice list \<Rightarrow> WasmStringSlice list" where
  "reverse_mapping_loop [] names = names"
| "reverse_mapping_loop (entry # es) names =
     (if wasm_hash_entry_is_free entry then reverse_mapping_loop es names
      else reverse_mapping_loop es (names[nat (b_index (binding entry)) := b_name (binding entry)]))"

definition wasm_make_type_binding_reverse_mapping :: "WasmType list \<Rightarrow> WasmBindingHash \<Rightarrow> WasmStringSlice list" where
  "wasm_make_type_binding_reverse_mapping types bindings =
     reverse_mapping_loop (entries bindings) (replicate (length types) None)"

lemma length_reverse_mapping [simp]:
  "length (wasm_make_type_binding_reverse_mapping types bindings) = length types"
proof -
  have "length (reverse_mapping_loop es names) = length names" for es names
    by (induction es names rule: reverse_mapping_loop.induct) auto
  then show ?thesis by (simp add: wasm_make_type_binding_reverse_mapping_def)
qed

end
