(* ===== verification/Wabt_Literal.thy ===== *)
theory Wabt_Literal
  imports Wabt_Common Wabt_Ast
begin

text \<open>
  Number literals (\<^verbatim>\<open>literal.c\<close>). A pair of pointers \<open>s\<close>, \<open>end\<close> is the list of the
  characters between them. The functions for \<open>float\<close> and \<open>double\<close> are the same up to the
  constants \<open>F32_...\<close> and \<open>F64_...\<close>, which are gathered in a record.
\<close>

unbundle bit_operations_syntax

subsection \<open>Results\<close>

text \<open>
  The call fails, or stores a value; \<open>Undefined\<close> stands for a failed assertion or a read at or
  past \<open>end\<close>. What a failing call leaves in its result is not kept: no caller reads it.
\<close>

datatype 'a Parsed = Undefined | Failed | Parsed 'a

datatype WasmParseIntType = WASM_PARSE_UNSIGNED_ONLY | WASM_PARSE_SIGNED_AND_UNSIGNED

datatype WasmLiteralType =
    WASM_LITERAL_TYPE_INT | WASM_LITERAL_TYPE_FLOAT | WASM_LITERAL_TYPE_HEXFLOAT
  | WASM_LITERAL_TYPE_INFINITY | WASM_LITERAL_TYPE_NAN

subsection \<open>Integers\<close>

abbreviation chr :: "char \<Rightarrow> byte" where
  "chr c \<equiv> word_of_nat (of_char c)"

text \<open>\<open>(unsigned int)(c - base)\<close>, for a signed character.\<close>

definition char_distance :: "byte \<Rightarrow> char \<Rightarrow> u32" where
  "char_distance c base = word_of_int (sint c - of_char base)"

definition wasm_parse_hexdigit :: "byte \<Rightarrow> u32 option" where
  "wasm_parse_hexdigit c =
     (if char_distance c CHR ''0'' \<le> 9 then Some (char_distance c CHR ''0'')
      else if char_distance c CHR ''a'' \<le> 6 then Some (10 + char_distance c CHR ''a'')
      else if char_distance c CHR ''A'' \<le> 6 then Some (10 + char_distance c CHR ''A'')
      else None)"

fun string_starts_with :: "byte list \<Rightarrow> byte list \<Rightarrow> bool" where
  "string_starts_with (c # cs) (p # ps) = (c = p \<and> string_starts_with cs ps)"
| "string_starts_with cs ps = (ps = [])"

text \<open>The two loops of \<open>wasm_parse_uint64\<close>, with their test for overflow.\<close>

fun parse_hex_digits :: "byte list \<Rightarrow> u64 \<Rightarrow> u64 Parsed" where
  "parse_hex_digits [] v = Parsed v"
| "parse_hex_digits (c # cs) v =
     (case wasm_parse_hexdigit c of
        None \<Rightarrow> Failed
      | Some digit \<Rightarrow> (let v' = v * 16 + ucast digit in if v > v' then Failed else parse_hex_digits cs v'))"

fun parse_dec_digits :: "byte list \<Rightarrow> u64 \<Rightarrow> u64 Parsed" where
  "parse_dec_digits [] v = Parsed v"
| "parse_dec_digits (c # cs) v =
     (let digit = char_distance c CHR ''0''
      in if digit > 9 then Failed
         else (let v' = v * 10 + ucast digit in if v > v' then Failed else parse_dec_digits cs v'))"

definition wasm_parse_uint64 :: "byte list \<Rightarrow> u64 Parsed" where
  "wasm_parse_uint64 s =
     (if s = [] then Failed
      else if s ! 0 = chr CHR ''0'' \<and> 1 < length s \<and> s ! 1 = chr CHR ''x''
      then (let s = drop 2 s in if s = [] then Failed else parse_hex_digits s 0)
      else parse_dec_digits s 0)"

text \<open>The sign, if any, and what follows it; \<open>None\<close> when the first character is past the end.\<close>

definition take_sign :: "byte list \<Rightarrow> (bool \<times> bool \<times> byte list) option" where
  "take_sign s =
     (case s of [] \<Rightarrow> None
      | c # cs \<Rightarrow> if c = chr CHR ''-'' then Some (True, True, cs)
                 else if c = chr CHR ''+'' then Some (True, False, cs) else Some (False, False, s))"

definition wasm_parse_int64 :: "byte list \<Rightarrow> WasmParseIntType \<Rightarrow> u64 Parsed" where
  "wasm_parse_int64 s parse_type =
     (case take_sign s of None \<Rightarrow> Undefined
      | Some (sign, has_sign, s) \<Rightarrow>
          if sign \<and> parse_type = WASM_PARSE_UNSIGNED_ONLY then Failed
          else (case wasm_parse_uint64 s of
                  Parsed v \<Rightarrow>
                    if has_sign then (if v > 0x7fffffffffffffff + 1 then Failed else Parsed (- 1 - v + 1)) else Parsed v
                | r \<Rightarrow> r))"

definition wasm_parse_int32 :: "byte list \<Rightarrow> WasmParseIntType \<Rightarrow> u32 Parsed" where
  "wasm_parse_int32 s parse_type =
     (case take_sign s of None \<Rightarrow> Undefined
      | Some (sign, has_sign, s) \<Rightarrow>
          if sign \<and> parse_type = WASM_PARSE_UNSIGNED_ONLY then Failed
          else (case wasm_parse_uint64 s of
                  Parsed v \<Rightarrow>
                    if has_sign then (if v > 0x7fffffff + 1 then Failed else Parsed (ucast (0xffffffff - v + 1)))
                    else if v > 0xffffffff then Failed else Parsed (ucast v)
                | Failed \<Rightarrow> Failed
                | Undefined \<Rightarrow> Undefined))"

subsection \<open>Floating point\<close>

record 'w FloatFormat =
  SIGN_SHIFT :: nat
  SIG_BITS :: int
  SIG_MASK :: 'w
  SIG_PLUS_ONE_BITS :: int
  SIG_PLUS_ONE_MASK :: 'w
  EXP_MASK :: 'w
  MIN_EXP :: int
  MAX_EXP :: int
  EXP_BIAS :: int
  QUIET_NAN_TAG :: 'w
  WORD_BITS :: int

definition F32 :: "u32 FloatFormat" where
  "F32 = \<lparr>SIGN_SHIFT = 31, SIG_BITS = 23, SIG_MASK = 0x7fffff, SIG_PLUS_ONE_BITS = 24, SIG_PLUS_ONE_MASK = 0xffffff,
     EXP_MASK = 0xff, MIN_EXP = - 127, MAX_EXP = 128, EXP_BIAS = 127, QUIET_NAN_TAG = 0x400000, WORD_BITS = 32\<rparr>"

definition F64 :: "u64 FloatFormat" where
  "F64 = \<lparr>SIGN_SHIFT = 63, SIG_BITS = 52, SIG_MASK = 0xfffffffffffff, SIG_PLUS_ONE_BITS = 53,
     SIG_PLUS_ONE_MASK = 0x1fffffffffffff, EXP_MASK = 0x7ff, MIN_EXP = - 1023, MAX_EXP = 1024, EXP_BIAS = 1023,
     QUIET_NAN_TAG = 0x8000000000000, WORD_BITS = 64\<rparr>"

definition HEX_DIGIT_BITS :: int where
  "HEX_DIGIT_BITS = 4"

text \<open>\<open>make_float\<close> and \<open>make_double\<close>.\<close>

definition make_bits :: "'a :: len word FloatFormat \<Rightarrow> bool \<Rightarrow> int \<Rightarrow> 'a word \<Rightarrow> 'a word Parsed" where
  "make_bits F sign exp sig =
     (if MIN_EXP F \<le> exp \<and> exp \<le> MAX_EXP F \<and> sig \<le> SIG_MASK F
      then Parsed (push_bit (SIGN_SHIFT F) (of_bool sign) OR push_bit (nat (SIG_BITS F)) (word_of_int (exp + EXP_BIAS F)) OR sig)
      else Undefined)"

text \<open>\<open>shift_float_and_round_to_nearest\<close> and \<open>shift_double_and_round_to_nearest\<close>; the shift is positive.\<close>

definition shift_and_round_to_nearest :: "'a :: len word \<Rightarrow> nat \<Rightarrow> 'a word" where
  "shift_and_round_to_nearest significand shift =
     drop_bit shift (if significand AND push_bit shift 1 \<noteq> 0 then significand + push_bit (shift - 1) 1 else significand)"

definition skip_sign :: "byte list \<Rightarrow> (bool \<times> byte list) option" where
  "skip_sign s = map_option (\<lambda>(_, is_neg, s). (is_neg, s)) (take_sign s)"

text \<open>\<open>parse_float_nan\<close> and \<open>parse_double_nan\<close>; only the second tolerates another suffix.\<close>

fun parse_nan_tag :: "'a :: len word FloatFormat \<Rightarrow> byte list \<Rightarrow> 'a word \<Rightarrow> 'a word Parsed" where
  "parse_nan_tag F [] tag = (if tag = 0 then Failed else Parsed tag)"
| "parse_nan_tag F (c # cs) tag =
     (case wasm_parse_hexdigit c of
        None \<Rightarrow> Failed
      | Some digit \<Rightarrow>
          (let tag = tag * 16 + ucast digit in if tag > SIG_MASK F then Failed else parse_nan_tag F cs tag))"

definition parse_nan :: "'a :: len word FloatFormat \<Rightarrow> 'a word Parsed \<Rightarrow> byte list \<Rightarrow> 'a word Parsed" where
  "parse_nan F bad_suffix s =
     (case skip_sign s of None \<Rightarrow> Undefined
      | Some (is_neg, s) \<Rightarrow>
          if \<not> string_starts_with s (cstr ''nan'') then Undefined
          else (let s = drop 3 s
                in if s = [] then make_bits F is_neg (MAX_EXP F) (QUIET_NAN_TAG F)
                   else if \<not> string_starts_with s (cstr '':0x'') then bad_suffix
                   else (case parse_nan_tag F (drop 3 s) 0 of
                           Parsed tag \<Rightarrow> make_bits F is_neg (MAX_EXP F) tag
                         | r \<Rightarrow> r)))"

definition parse_infinity :: "'a :: len word FloatFormat \<Rightarrow> byte list \<Rightarrow> 'a word Parsed" where
  "parse_infinity F s =
     (case skip_sign s of None \<Rightarrow> Undefined
      | Some (is_neg, s) \<Rightarrow>
          if \<not> string_starts_with s (cstr ''infinity'') then Undefined else make_bits F is_neg (MAX_EXP F) 0)"

text \<open>The loop over the significand of a hexadecimal literal, up to the \<open>p\<close>.\<close>

record 'w HexScan =
  seen_dot :: bool
  significand :: 'w
  significand_shift :: int
  significand_bits :: int
  significand_exponent :: int

fun scan_significand :: "'a :: len word FloatFormat \<Rightarrow> byte list \<Rightarrow> 'a word HexScan \<Rightarrow> byte list \<times> 'a word HexScan" where
  "scan_significand F [] h = ([], h)"
| "scan_significand F (c # cs) h =
     (if c = chr CHR ''.''
      then scan_significand F cs (h\<lparr>significand_exponent :=
               (if significand h \<noteq> 0 then significand_exponent h + significand_shift h else significand_exponent h),
             significand_shift := 0, seen_dot := True\<rparr>)
      else (case wasm_parse_hexdigit c of
              None \<Rightarrow> (c # cs, h)
            | Some digit \<Rightarrow>
                (let shift = significand_shift h + HEX_DIGIT_BITS
                 in if digit \<noteq> 0 \<and> (significand h = 0 \<or> significand_bits h + shift \<le> SIG_BITS F + 1 + HEX_DIGIT_BITS)
                    then scan_significand F cs (h\<lparr>
                           significand := (if significand h \<noteq> 0 then push_bit (nat shift) (significand h) else significand h) + ucast digit,
                           significand_exponent := (if seen_dot h then significand_exponent h - shift else significand_exponent h),
                           significand_shift := 0, significand_bits := significand_bits h + HEX_DIGIT_BITS\<rparr>)
                    else scan_significand F cs (h\<lparr>significand_shift := shift\<rparr>))))"

text \<open>The loop over the digits of the exponent, which stops early; \<open>None\<close> is the failed assertion.\<close>

fun scan_exponent :: "int \<Rightarrow> int \<Rightarrow> byte list \<Rightarrow> int \<Rightarrow> int option" where
  "scan_exponent limit add [] exponent = Some exponent"
| "scan_exponent limit add (c # cs) exponent =
     (let digit = char_distance c CHR ''0''
      in if digit > 9 then None
         else (let exponent = exponent * 10 + uint digit
               in if exponent + add \<ge> limit then Some exponent else scan_exponent limit add cs exponent))"

text \<open>\<open>wasm_clz_u32\<close> and \<open>wasm_clz_u64\<close> on a word that is not zero, by way of the bits below the leading zeros.\<close>

fun bit_width :: "nat \<Rightarrow> nat" where
  "bit_width n = (if n = 0 then 0 else Suc (bit_width (n div 2)))"

declare bit_width.simps [simp del]

definition clz :: "'a :: len word \<Rightarrow> int" where
  "clz w = int (LENGTH('a)) - int (bit_width (unat w))"

text \<open>From a significand and its exponent to the representation.\<close>

definition encode_hex :: "'a :: len word FloatFormat \<Rightarrow> bool \<Rightarrow> 'a word \<Rightarrow> int \<Rightarrow> int \<Rightarrow> 'a word Parsed" where
  "encode_hex F is_neg sig bits exponent =
     (if exponent \<ge> MAX_EXP F then make_bits F is_neg (MAX_EXP F) 0
      else if exponent \<le> MIN_EXP F
      then (let sig = (if bits > SIG_BITS F then shift_and_round_to_nearest sig (nat (bits - SIG_BITS F))
                       else if bits < SIG_BITS F then push_bit (nat (SIG_BITS F - bits)) sig else sig);
                shift = MIN_EXP F - exponent
            in if shift < SIG_BITS F
               then (let sig = (if shift \<noteq> 0 then shift_and_round_to_nearest sig (nat shift) AND SIG_MASK F else sig)
                     in if sig \<noteq> 0 then make_bits F is_neg (MIN_EXP F) sig else make_bits F is_neg (MIN_EXP F) 0)
               else make_bits F is_neg (MIN_EXP F) 0)
      else if bits > SIG_PLUS_ONE_BITS F
      then (let sig = shift_and_round_to_nearest sig (nat (bits - SIG_PLUS_ONE_BITS F));
                exponent = (if sig > SIG_PLUS_ONE_MASK F then exponent + 1 else exponent)
            in make_bits F is_neg exponent (sig AND SIG_MASK F))
      else if bits < SIG_PLUS_ONE_BITS F
      then make_bits F is_neg exponent (push_bit (nat (SIG_PLUS_ONE_BITS F - bits)) sig AND SIG_MASK F)
      else make_bits F is_neg exponent (sig AND SIG_MASK F))"

text \<open>The exponent after the \<open>p\<close>, and the result.\<close>

definition read_exponent :: "'a :: len word FloatFormat \<Rightarrow> bool \<Rightarrow> 'a word \<Rightarrow> int \<Rightarrow> byte list \<Rightarrow> 'a word Parsed" where
  "read_exponent F is_neg sig sig_exponent s =
     (case s of [] \<Rightarrow> Undefined
      | c # cs \<Rightarrow>
          (let (exponent_is_neg, add, s) =
                 (if c = chr CHR ''-'' then (True, - sig_exponent, cs)
                  else if c = chr CHR ''+'' then (False, sig_exponent, cs) else (False, 0, s))
           in case scan_exponent (MAX_EXP F) add s 0 of None \<Rightarrow> Undefined
              | Some exponent \<Rightarrow>
                  (let bits = WORD_BITS F - clz sig;
                       exponent = (if exponent_is_neg then - exponent else exponent)
                   in encode_hex F is_neg sig bits (exponent + sig_exponent + bits - 1))))"

text \<open>\<open>parse_float_hex\<close> and \<open>parse_double_hex\<close>.\<close>

definition parse_hex :: "'a :: len word FloatFormat \<Rightarrow> byte list \<Rightarrow> 'a word Parsed" where
  "parse_hex F s =
     (case skip_sign s of None \<Rightarrow> Undefined
      | Some (is_neg, s) \<Rightarrow>
          if \<not> string_starts_with s (cstr ''0x'') then Undefined
          else
     (case scan_significand F (drop 2 s)
             \<lparr>seen_dot = False, significand = 0, significand_shift = 0, significand_bits = 0, significand_exponent = 0\<rparr> of
        ([], h) \<Rightarrow> Undefined
      | (c # s, h) \<Rightarrow>
          (let sig_exponent = (if \<not> seen_dot h then significand_exponent h + significand_shift h else significand_exponent h)
           in if c \<noteq> chr CHR ''p'' then Undefined
              else if significand h = 0 then make_bits F is_neg (MIN_EXP F) 0
              else read_exponent F is_neg (significand h) sig_exponent s)))"

subsection \<open>The entry points\<close>

text \<open>
  The conversion of decimal literals is that of the C library: \<open>strtof\<close> and \<open>strtod\<close> are
  parameters, which give the number of characters they have read, the representation of the value and
  whether \<open>errno\<close> is set. The test on the value is for zero and the infinities.
\<close>

definition parse_decimal :: "'a :: len word FloatFormat \<Rightarrow> (byte list \<Rightarrow> nat \<times> 'a word \<times> bool) \<Rightarrow> byte list \<Rightarrow> 'a word Parsed" where
  "parse_decimal F strto s =
     (case strto s of
        (read, bits, err) \<Rightarrow>
          (let magnitude = take_bit (SIGN_SHIFT F) bits
           in if read \<noteq> length s \<or> (magnitude = 0 \<or> magnitude = push_bit (nat (SIG_BITS F)) (EXP_MASK F)) \<and> err then Failed
              else Parsed bits))"

definition parse_float_nan :: "byte list \<Rightarrow> u32 Parsed" where
  "parse_float_nan = parse_nan F32 Undefined"

definition parse_double_nan :: "byte list \<Rightarrow> u64 Parsed" where
  "parse_double_nan = parse_nan F64 Failed"

definition parse_float_hex :: "byte list \<Rightarrow> u32 Parsed" where
  "parse_float_hex = parse_hex F32"

definition parse_double_hex :: "byte list \<Rightarrow> u64 Parsed" where
  "parse_double_hex = parse_hex F64"

definition parse_float_infinity :: "byte list \<Rightarrow> u32 Parsed" where
  "parse_float_infinity = parse_infinity F32"

definition parse_double_infinity :: "byte list \<Rightarrow> u64 Parsed" where
  "parse_double_infinity = parse_infinity F64"

fun wasm_parse_float :: "(byte list \<Rightarrow> nat \<times> u32 \<times> bool) \<Rightarrow> WasmLiteralType \<Rightarrow> byte list \<Rightarrow> u32 Parsed" where
  "wasm_parse_float strtof WASM_LITERAL_TYPE_INT s = parse_decimal F32 strtof s"
| "wasm_parse_float strtof WASM_LITERAL_TYPE_FLOAT s = parse_decimal F32 strtof s"
| "wasm_parse_float strtof WASM_LITERAL_TYPE_HEXFLOAT s = parse_float_hex s"
| "wasm_parse_float strtof WASM_LITERAL_TYPE_INFINITY s = parse_float_infinity s"
| "wasm_parse_float strtof WASM_LITERAL_TYPE_NAN s = parse_float_nan s"

fun wasm_parse_double :: "(byte list \<Rightarrow> nat \<times> u64 \<times> bool) \<Rightarrow> WasmLiteralType \<Rightarrow> byte list \<Rightarrow> u64 Parsed" where
  "wasm_parse_double strtod WASM_LITERAL_TYPE_INT s = parse_decimal F64 strtod s"
| "wasm_parse_double strtod WASM_LITERAL_TYPE_FLOAT s = parse_decimal F64 strtod s"
| "wasm_parse_double strtod WASM_LITERAL_TYPE_HEXFLOAT s = parse_double_hex s"
| "wasm_parse_double strtod WASM_LITERAL_TYPE_INFINITY s = parse_double_infinity s"
| "wasm_parse_double strtod WASM_LITERAL_TYPE_NAN s = parse_double_nan s"

subsection \<open>Writing\<close>

definition hex_digit :: "'a :: len word \<Rightarrow> byte" where
  "hex_digit nybble = cstr ''0123456789abcdef'' ! unat nybble"

definition top_nybble :: "'a :: len word FloatFormat \<Rightarrow> 'a word \<Rightarrow> 'a word" where
  "top_nybble F sig = drop_bit (nat (WORD_BITS F) - 4) sig AND 0xf"

text \<open>The loops over nybbles: a number of them, and those up to the last that is not zero.\<close>

primrec write_nybbles :: "'a :: len word FloatFormat \<Rightarrow> nat \<Rightarrow> 'a word \<Rightarrow> byte list" where
  "write_nybbles F 0 sig = []"
| "write_nybbles F (Suc n) sig = hex_digit (top_nybble F sig) # write_nybbles F n (push_bit 4 sig)"

fun skip_zero_nybbles :: "'a :: len word FloatFormat \<Rightarrow> nat \<Rightarrow> 'a word \<Rightarrow> nat \<times> 'a word" where
  "skip_zero_nybbles F 0 sig = (0, sig)"
| "skip_zero_nybbles F (Suc n) sig = (if top_nybble F sig = 0 then skip_zero_nybbles F n (push_bit 4 sig) else (Suc n, sig))"

text \<open>
  \<open>while (sig)\<close>: the fuel is the number of nybbles of the word, after which nothing is left; see
  \<open>write_sig_enough\<close>.
\<close>

fun write_sig :: "'a :: len word FloatFormat \<Rightarrow> nat \<Rightarrow> 'a word \<Rightarrow> byte list" where
  "write_sig F 0 sig = []"
| "write_sig F (Suc n) sig = (if sig = 0 then [] else hex_digit (top_nybble F sig) # write_sig F n (push_bit 4 sig))"

definition digit_char :: "int \<Rightarrow> byte" where
  "digit_char n = word_of_int (48 + n)"

definition write_float_exp :: "int \<Rightarrow> byte list" where
  "write_float_exp exp =
     (if exp \<ge> 100 then cstr ''1'' else []) @ (if exp \<ge> 10 then [digit_char (exp div 10 mod 10)] else []) @ [digit_char (exp mod 10)]"

definition write_double_exp :: "int \<Rightarrow> byte list" where
  "write_double_exp exp =
     (if exp \<ge> 1000 then cstr ''1'' else []) @ (if exp \<ge> 100 then [digit_char (exp div 100 mod 10)] else [])
     @ (if exp \<ge> 10 then [digit_char (exp div 10 mod 10)] else []) @ [digit_char (exp mod 10)]"

text \<open>
  The text that \<open>wasm_write_float_hex\<close> and \<open>wasm_write_double_hex\<close> put into their buffer;
  \<open>write_exp\<close> is the last part, in which they differ.
\<close>

definition write_fraction :: "'a :: len word FloatFormat \<Rightarrow> int \<Rightarrow> 'a word \<Rightarrow> byte list \<times> int" where
  "write_fraction F exp sig =
     (if sig \<noteq> 0
      then (let (sig, exp) =
                  (if exp = MIN_EXP F
                   then (let leading_zeroes = clz sig
                         in (if leading_zeroes < WORD_BITS F - 1 then push_bit (nat (leading_zeroes + 1)) sig else 0,
                             exp - leading_zeroes))
                   else (sig, exp))
            in (cstr ''.'' @ write_sig F (nat (WORD_BITS F) div 4) sig, exp))
      else ([], exp))"

definition write_hex_number :: "'a :: len word FloatFormat \<Rightarrow> (int \<Rightarrow> byte list) \<Rightarrow> int \<Rightarrow> 'a word \<Rightarrow> byte list" where
  "write_hex_number F write_exp exp sig =
     (let is_zero = (sig = 0 \<and> exp = MIN_EXP F);
          (digits, exp) = write_fraction F exp (push_bit (nat (WORD_BITS F - SIG_BITS F)) sig)
      in cstr ''0x'' @ (if is_zero then cstr ''0'' else cstr ''1'') @ digits @ cstr ''p''
         @ (if is_zero then cstr ''+0''
            else if exp < 0 then cstr ''-'' @ write_exp (- exp) else cstr ''+'' @ write_exp exp))"

definition write_hex :: "'a :: len word FloatFormat \<Rightarrow> (int \<Rightarrow> byte list) \<Rightarrow> 'a word \<Rightarrow> byte list" where
  "write_hex F write_exp bits =
     (let is_neg = (drop_bit (SIGN_SHIFT F) bits \<noteq> 0);
          exp = uint (drop_bit (nat (SIG_BITS F)) bits AND EXP_MASK F) - EXP_BIAS F;
          sig = bits AND SIG_MASK F
      in (if is_neg then cstr ''-'' else [])
         @ (if exp = MAX_EXP F
            then (if sig = 0 then cstr ''infinity''
                  else cstr ''nan''
                    @ (if sig \<noteq> QUIET_NAN_TAG F
                       then cstr '':0x'' @ (case skip_zero_nybbles F (nat (WORD_BITS F) div 4) sig of (n, sig) \<Rightarrow> write_nybbles F n sig)
                       else []))
            else write_hex_number F write_exp exp sig))"

text \<open>Only as much of the text is given out as fits, and a terminating zero.\<close>

definition copy_out :: "nat \<Rightarrow> byte list \<Rightarrow> byte list" where
  "copy_out room buffer = take (if length buffer \<ge> room then room - 1 else length buffer) buffer @ [0]"

definition wasm_write_float_hex :: "nat \<Rightarrow> u32 \<Rightarrow> byte list" where
  "wasm_write_float_hex room bits = copy_out room (write_hex F32 write_float_exp bits)"

definition wasm_write_double_hex :: "nat \<Rightarrow> u64 \<Rightarrow> byte list" where
  "wasm_write_double_hex room bits = copy_out room (write_hex F64 write_double_exp bits)"

end
