(* ===== verification/Wabt_Binary_Writer.thy ===== *)
theory Wabt_Binary_Writer
  imports Wabt_Ast
begin

text \<open>
  The binary writer (\<^verbatim>\<open>binary-writer.c\<close>): LEB128 scalars and strings on a stream, expressions,
  function bodies, and the sections of a module with their size fix-ups. The functions that only
  touch \<open>ctx->stream\<close> act on the stream; the section functions act on the whole context.
  Writing the human-readable log (\<open>write_header\<close>) is not modelled.
\<close>

text \<open>A sequence of C statements, each a state transformer.\<close>

primrec run :: "('s \<Rightarrow> 's) list \<Rightarrow> 's \<Rightarrow> 's" where
  "run [] s = s"
| "run (f # fs) s = run fs (f s)"

lemma run_append [simp]: "run (fs @ gs) s = run gs (run fs s)"
  by (induction fs arbitrary: s) auto

subsection \<open>Scalars and strings\<close>

function log2_u32 :: "u32 \<Rightarrow> nat" where
  "log2_u32 x = (if x > 1 then Suc (log2_u32 (drop_bit 1 x)) else 0)"
  by pat_completeness auto
termination
  by (relation "measure unat") (auto intro!: drop_bit_word_less)

declare log2_u32.simps [simp del]

definition wasm_write_u32_leb128_at :: "u32 \<Rightarrow> u32 \<Rightarrow> 'w WasmStream \<Rightarrow> 'w WasmStream \<times> nat" where
  "wasm_write_u32_leb128_at off v stream =
     (let data = u32_leb128_bytes v
      in (wasm_write_data_at (unat off) data stream, length data))"

definition wasm_write_fixed_u32_leb128_at :: "u32 \<Rightarrow> u32 \<Rightarrow> 'w WasmStream \<Rightarrow> 'w WasmStream \<times> nat" where
  "wasm_write_fixed_u32_leb128_at off v stream =
     (let data = fixed_u32_leb128_bytes v
      in (wasm_write_data_at (unat off) data stream, length data))"

definition wasm_write_u32_leb128 :: "u32 \<Rightarrow> 'w WasmStream \<Rightarrow> 'w WasmStream" where
  "wasm_write_u32_leb128 v stream =
     (let (stream', len) = wasm_write_u32_leb128_at (u32_of_nat (offset stream)) v stream
      in stream'\<lparr>offset := offset stream' + len\<rparr>)"

definition wasm_write_fixed_u32_leb128 :: "u32 \<Rightarrow> 'w WasmStream \<Rightarrow> 'w WasmStream" where
  "wasm_write_fixed_u32_leb128 v stream =
     (let (stream', len) = wasm_write_fixed_u32_leb128_at (u32_of_nat (offset stream)) v stream
      in stream'\<lparr>offset := offset stream' + len\<rparr>)"

definition wasm_write_i32_leb128 :: "u32 \<Rightarrow> 'w WasmStream \<Rightarrow> 'w WasmStream" where
  "wasm_write_i32_leb128 v stream =
     (let data = i32_leb128_bytes v; stream' = wasm_write_data_at (offset stream) data stream
      in stream'\<lparr>offset := offset stream' + length data\<rparr>)"

definition write_i64_leb128 :: "u64 \<Rightarrow> 'w WasmStream \<Rightarrow> 'w WasmStream" where
  "write_i64_leb128 v stream =
     (let data = i64_leb128_bytes v; stream' = wasm_write_data_at (offset stream) data stream
      in stream'\<lparr>offset := offset stream' + length data\<rparr>)"

definition wasm_write_str :: "WasmStringSlice \<Rightarrow> 'w WasmStream \<Rightarrow> 'w WasmStream" where
  "wasm_write_str str stream =
     (let s = slice_bytes str;
          stream1 = wasm_write_u32_leb128 (u32_of_nat (length s)) stream;
          stream2 = wasm_write_data_at (offset stream1) s stream1
      in stream2\<lparr>offset := offset stream2 + length s\<rparr>)"

definition wasm_write_opcode :: "WasmOpcode \<Rightarrow> 'w WasmStream \<Rightarrow> 'w WasmStream" where
  "wasm_write_opcode opcode = wasm_write_u8 (ucast (word_of_nat opcode :: byte))"

definition wasm_write_type :: "WasmType \<Rightarrow> 'w WasmStream \<Rightarrow> 'w WasmStream" where
  "wasm_write_type type = wasm_write_i32_leb128 (word_of_int (wasm_type_code type))"

fun write_inline_signature_type :: "WasmType list \<Rightarrow> 'w WasmStream \<Rightarrow> 'w WasmStream" where
  "write_inline_signature_type [] = wasm_write_type WASM_TYPE_VOID"
| "write_inline_signature_type [t] = wasm_write_type t"
| "write_inline_signature_type _ = wasm_write_u8 0xff"

subsection \<open>Expressions\<close>

text \<open>
  \<open>get_label_var_depth\<close>. A name here fails the assertion of the source: labels are resolved
  to indices before a module is written.
\<close>

fun get_label_var_depth :: "WasmVar \<Rightarrow> u32" where
  "get_label_var_depth (VarIndex index) = ucast index"
| "get_label_var_depth (VarName _) = 0"

text \<open>
  The index written for a local. Initializer expressions are written with no function; there a
  name would be a NULL dereference.
\<close>

fun local_index :: "WasmFunc option \<Rightarrow> WasmVar \<Rightarrow> int" where
  "local_index (Some func) var = wasm_get_local_index_by_var func var"
| "local_index None (VarIndex index) = sint (ucast index :: u32)"
| "local_index None (VarName _) = - 1"

abbreviation write_index :: "int \<Rightarrow> 'w WasmStream \<Rightarrow> 'w WasmStream" where
  "write_index index \<equiv> wasm_write_u32_leb128 (word_of_int index)"

definition write_const :: "WasmConst \<Rightarrow> 'w WasmStream \<Rightarrow> 'w WasmStream" where
  "write_const c =
     (case c of
        ConstI32 v \<Rightarrow> run [wasm_write_opcode WASM_OPCODE_I32_CONST, wasm_write_i32_leb128 v]
      | ConstI64 v \<Rightarrow> run [wasm_write_opcode WASM_OPCODE_I64_CONST, write_i64_leb128 v]
      | ConstF32 v \<Rightarrow> run [wasm_write_opcode WASM_OPCODE_F32_CONST, wasm_write_u32 v]
      | ConstF64 v \<Rightarrow> run [wasm_write_opcode WASM_OPCODE_F64_CONST, wasm_write_u64 v])"

definition write_memory_access :: "WasmOpcode \<Rightarrow> u32 \<Rightarrow> u64 \<Rightarrow> 'w WasmStream \<Rightarrow> 'w WasmStream" where
  "write_memory_access opcode align off =
     run [wasm_write_opcode opcode,
          wasm_write_u8 (u32_of_nat (log2_u32 (wasm_get_opcode_alignment opcode align))),
          wasm_write_u32_leb128 (ucast off)]"

fun write_expr :: "WasmModule \<Rightarrow> WasmFunc option \<Rightarrow> WasmExpr \<Rightarrow> 'w WasmStream \<Rightarrow> 'w WasmStream"
and write_expr_list :: "WasmModule \<Rightarrow> WasmFunc option \<Rightarrow> WasmExpr list \<Rightarrow> 'w WasmStream \<Rightarrow> 'w WasmStream"
where
  "write_expr m f (Binary opcode) = wasm_write_opcode opcode"
| "write_expr m f (Block label sig es) =
     run [wasm_write_opcode WASM_OPCODE_BLOCK, write_inline_signature_type sig,
          write_expr_list m f es, wasm_write_opcode WASM_OPCODE_END]"
| "write_expr m f (Br var) =
     run [wasm_write_opcode WASM_OPCODE_BR, wasm_write_u32_leb128 (get_label_var_depth var)]"
| "write_expr m f (BrIf var) =
     run [wasm_write_opcode WASM_OPCODE_BR_IF, wasm_write_u32_leb128 (get_label_var_depth var)]"
| "write_expr m f (BrTable targets default_target) =
     run ([wasm_write_opcode WASM_OPCODE_BR_TABLE, wasm_write_u32_leb128 (u32_of_nat (length targets))]
          @ map (\<lambda>var. wasm_write_u32_leb128 (get_label_var_depth var)) targets
          @ [wasm_write_u32_leb128 (get_label_var_depth default_target)])"
| "write_expr m f (Call var) =
     run [wasm_write_opcode WASM_OPCODE_CALL, write_index (wasm_get_func_index_by_var m var)]"
| "write_expr m f (CallIndirect var) =
     run [wasm_write_opcode WASM_OPCODE_CALL_INDIRECT, write_index (wasm_get_func_type_index_by_var m var),
          wasm_write_u32_leb128 0]"
| "write_expr m f (Compare opcode) = wasm_write_opcode opcode"
| "write_expr m f (Const c) = write_const c"
| "write_expr m f (Convert opcode) = wasm_write_opcode opcode"
| "write_expr m f CurrentMemory = run [wasm_write_opcode WASM_OPCODE_CURRENT_MEMORY, wasm_write_u32_leb128 0]"
| "write_expr m f Drop = wasm_write_opcode WASM_OPCODE_DROP"
| "write_expr m f (GetGlobal var) =
     run [wasm_write_opcode WASM_OPCODE_GET_GLOBAL, write_index (wasm_get_global_index_by_var m var)]"
| "write_expr m f (GetLocal var) =
     run [wasm_write_opcode WASM_OPCODE_GET_LOCAL, write_index (local_index f var)]"
| "write_expr m f GrowMemory = run [wasm_write_opcode WASM_OPCODE_GROW_MEMORY, wasm_write_u32_leb128 0]"
| "write_expr m f (If label sig true_es false_es) =
     run ([wasm_write_opcode WASM_OPCODE_IF, write_inline_signature_type sig, write_expr_list m f true_es]
          @ (if false_es \<noteq> [] then [wasm_write_opcode WASM_OPCODE_ELSE, write_expr_list m f false_es] else [])
          @ [wasm_write_opcode WASM_OPCODE_END])"
| "write_expr m f (Load opcode align off) = write_memory_access opcode align off"
| "write_expr m f (Loop label sig es) =
     run [wasm_write_opcode WASM_OPCODE_LOOP, write_inline_signature_type sig,
          write_expr_list m f es, wasm_write_opcode WASM_OPCODE_END]"
| "write_expr m f Nop = wasm_write_opcode WASM_OPCODE_NOP"
| "write_expr m f Return = wasm_write_opcode WASM_OPCODE_RETURN"
| "write_expr m f Select = wasm_write_opcode WASM_OPCODE_SELECT"
| "write_expr m f (SetGlobal var) =
     run [wasm_write_opcode WASM_OPCODE_SET_GLOBAL, write_index (wasm_get_global_index_by_var m var)]"
| "write_expr m f (SetLocal var) =
     run [wasm_write_opcode WASM_OPCODE_SET_LOCAL, write_index (local_index f var)]"
| "write_expr m f (Store opcode align off) = write_memory_access opcode align off"
| "write_expr m f (TeeLocal var) =
     run [wasm_write_opcode WASM_OPCODE_TEE_LOCAL, write_index (local_index f var)]"
| "write_expr m f (Unary opcode) = wasm_write_opcode opcode"
| "write_expr m f Unreachable = wasm_write_opcode WASM_OPCODE_UNREACHABLE"
| "write_expr_list m f [] = run []"
| "write_expr_list m f (e # es) = run [write_expr m f e, write_expr_list m f es]"

definition write_init_expr :: "WasmModule \<Rightarrow> WasmExpr list \<Rightarrow> 'w WasmStream \<Rightarrow> 'w WasmStream" where
  "write_init_expr m expr =
     run ((if expr \<noteq> [] then [write_expr_list m None expr] else []) @ [wasm_write_opcode WASM_OPCODE_END])"

subsection \<open>Function bodies\<close>

text \<open>The first loop of \<open>write_func_locals\<close>: count the runs of equal types.\<close>

fun count_local_decls :: "WasmType \<Rightarrow> nat \<Rightarrow> WasmType list \<Rightarrow> nat" where
  "count_local_decls current_type n [] = n"
| "count_local_decls current_type n (type # types) =
     (if current_type \<noteq> type then count_local_decls type (n + 1) types
      else count_local_decls current_type n types)"

text \<open>The second loop; its extra last iteration sees the type \<open>WASM_TYPE_VOID\<close>.\<close>

fun write_local_decls :: "WasmType \<Rightarrow> nat \<Rightarrow> WasmType list \<Rightarrow> 'w WasmStream \<Rightarrow> 'w WasmStream" where
  "write_local_decls current_type n [] =
     (if current_type = WASM_TYPE_VOID then run []
      else run [wasm_write_u32_leb128 (u32_of_nat n), wasm_write_type current_type])"
| "write_local_decls current_type n (type # types) =
     (if current_type = type then write_local_decls current_type (n + 1) types
      else run [wasm_write_u32_leb128 (u32_of_nat n), wasm_write_type current_type,
                write_local_decls type 1 types])"

fun write_func_locals :: "WasmType list \<Rightarrow> 'w WasmStream \<Rightarrow> 'w WasmStream" where
  "write_func_locals [] = wasm_write_u32_leb128 0"
| "write_func_locals (type # types) =
     run [wasm_write_u32_leb128 (u32_of_nat (count_local_decls type 1 types)),
          write_local_decls type 1 types]"

definition write_func :: "WasmModule \<Rightarrow> WasmFunc \<Rightarrow> 'w WasmStream \<Rightarrow> 'w WasmStream" where
  "write_func m func =
     run [write_func_locals (local_types func), write_expr_list m (Some func) (first_expr func),
          wasm_write_opcode WASM_OPCODE_END]"

definition wasm_write_limits :: "WasmLimits \<Rightarrow> 'w WasmStream \<Rightarrow> 'w WasmStream" where
  "wasm_write_limits limits =
     run ([wasm_write_u32_leb128 (if limits_has_max limits then 1 else 0),
           wasm_write_u32_leb128 (ucast (limits_initial limits))]
          @ (if limits_has_max limits then [wasm_write_u32_leb128 (ucast (limits_max limits))] else []))"

definition write_table :: "WasmTable \<Rightarrow> 'w WasmStream \<Rightarrow> 'w WasmStream" where
  "write_table table = run [wasm_write_type WASM_TYPE_ANYFUNC, wasm_write_limits (elem_limits table)]"

definition write_memory :: "WasmMemory \<Rightarrow> 'w WasmStream \<Rightarrow> 'w WasmStream" where
  "write_memory memory = wasm_write_limits (page_limits memory)"

definition write_global_header :: "WasmGlobal \<Rightarrow> 'w WasmStream \<Rightarrow> 'w WasmStream" where
  "write_global_header global =
     run [wasm_write_type (global_type global), wasm_write_u8 (if global_mutable global then 1 else 0)]"

subsection \<open>Sections\<close>

record WasmWriteBinaryOptions =
  canonicalize_lebs :: bool
  write_debug_names :: bool

record 'w WriteContext =
  ctx_stream :: "'w WasmStream"
  ctx_options :: WasmWriteBinaryOptions
  last_section_offset :: nat
  last_section_leb_size_guess :: nat

definition on_stream :: "('w WasmStream \<Rightarrow> 'w WasmStream) \<Rightarrow> 'w WriteContext \<Rightarrow> 'w WriteContext" where
  "on_stream f ctx = ctx\<lparr>ctx_stream := f (ctx_stream ctx)\<rparr>"

definition MAX_U32_LEB128_BYTES :: nat where "MAX_U32_LEB128_BYTES = 5"

text \<open>Returns the offset of the reserved space.\<close>

definition write_u32_leb128_space :: "nat \<Rightarrow> 'w WriteContext \<Rightarrow> u32 \<times> 'w WriteContext" where
  "write_u32_leb128_space leb_size_guess ctx =
     (let bytes_to_write = (if canonicalize_lebs (ctx_options ctx) then leb_size_guess else MAX_U32_LEB128_BYTES)
      in (u32_of_nat (offset (ctx_stream ctx)), on_stream (wasm_write_data (replicate bytes_to_write 0)) ctx))"

definition write_fixup_u32_leb128_size :: "u32 \<Rightarrow> nat \<Rightarrow> 'w WriteContext \<Rightarrow> 'w WriteContext" where
  "write_fixup_u32_leb128_size off leb_size_guess ctx =
     (if canonicalize_lebs (ctx_options ctx) then
        (let sz = u32_of_nat (offset (ctx_stream ctx)) - off - u32_of_nat leb_size_guess;
             leb_size = size_u32_leb128 sz;
             ctx1 = (if leb_size \<noteq> leb_size_guess
                     then on_stream (wasm_move_data (unat (off + u32_of_nat leb_size))
                                       (unat (off + u32_of_nat leb_size_guess)) (unat sz)) ctx
                     else ctx);
             ctx2 = on_stream (\<lambda>s. fst (wasm_write_u32_leb128_at off sz s)) ctx1
         in on_stream (\<lambda>s. s\<lparr>offset := offset s + unat (u32_of_nat leb_size - u32_of_nat leb_size_guess :: u32)\<rparr>) ctx2)
      else
        (let sz = u32_of_nat (offset (ctx_stream ctx)) - off - u32_of_nat MAX_U32_LEB128_BYTES
         in on_stream (\<lambda>s. fst (wasm_write_fixed_u32_leb128_at off sz s)) ctx))"

definition begin_known_section :: "nat \<Rightarrow> nat \<Rightarrow> 'w WriteContext \<Rightarrow> 'w WriteContext" where
  "begin_known_section section_code leb_size_guess ctx =
     (let ctx1 = on_stream (wasm_write_u8 (u32_of_nat section_code)) ctx;
          (off, ctx2) = write_u32_leb128_space leb_size_guess ctx1
      in ctx2\<lparr>last_section_leb_size_guess := leb_size_guess, last_section_offset := unat off\<rparr>)"

definition begin_custom_section :: "string \<Rightarrow> nat \<Rightarrow> 'w WriteContext \<Rightarrow> 'w WriteContext" where
  "begin_custom_section name leb_size_guess ctx =
     (let ctx1 = on_stream (wasm_write_u8 (u32_of_nat WASM_BINARY_SECTION_CUSTOM)) ctx;
          (off, ctx2) = write_u32_leb128_space leb_size_guess ctx1;
          ctx3 = ctx2\<lparr>last_section_leb_size_guess := leb_size_guess, last_section_offset := unat off\<rparr>
      in on_stream (wasm_write_str (Some (cstr name))) ctx3)"

definition end_section :: "'w WriteContext \<Rightarrow> 'w WriteContext" where
  "end_section ctx =
     (let ctx1 = write_fixup_u32_leb128_size (u32_of_nat (last_section_offset ctx)) (last_section_leb_size_guess ctx) ctx
      in ctx1\<lparr>last_section_leb_size_guess := 0\<rparr>)"

subsection \<open>Modules\<close>

text \<open>
  \<open>write_module\<close>, one definition per section in the order of the source. \<open>leb_size_guess\<close>
  is 1 throughout.
\<close>

definition known_section ::
    "nat \<Rightarrow> ('w WriteContext \<Rightarrow> 'w WriteContext) list \<Rightarrow> 'w WriteContext \<Rightarrow> 'w WriteContext" where
  "known_section section_code body = run ([begin_known_section section_code 1] @ body @ [end_section])"

abbreviation write_count :: "'a list \<Rightarrow> 'w WasmStream \<Rightarrow> 'w WasmStream" where
  "write_count xs \<equiv> wasm_write_u32_leb128 (u32_of_nat (length xs))"

definition write_func_type :: "WasmFuncType \<Rightarrow> 'w WasmStream \<Rightarrow> 'w WasmStream" where
  "write_func_type func_type =
     run ([wasm_write_type WASM_TYPE_FUNC, write_count (param_types (ft_sig func_type))]
          @ map wasm_write_type (param_types (ft_sig func_type))
          @ [write_count (result_types (ft_sig func_type))]
          @ map wasm_write_type (result_types (ft_sig func_type)))"

definition write_type_section :: "WasmModule \<Rightarrow> 'w WriteContext \<Rightarrow> 'w WriteContext" where
  "write_type_section m =
     (if func_types m \<noteq> [] then
        known_section WASM_BINARY_SECTION_TYPE
          [on_stream (write_count (func_types m)), on_stream (run (map write_func_type (func_types m)))]
      else run [])"

definition import_kind :: "WasmImport \<Rightarrow> WasmExternalKind" where
  "import_kind import =
     (case import_desc import of
        ImportFunc _ \<Rightarrow> WASM_EXTERNAL_KIND_FUNC | ImportTable _ \<Rightarrow> WASM_EXTERNAL_KIND_TABLE
      | ImportMemory _ \<Rightarrow> WASM_EXTERNAL_KIND_MEMORY | ImportGlobal _ \<Rightarrow> WASM_EXTERNAL_KIND_GLOBAL)"

definition write_import :: "WasmModule \<Rightarrow> WasmImport \<Rightarrow> 'w WasmStream \<Rightarrow> 'w WasmStream" where
  "write_import m import =
     run [wasm_write_str (import_module_name import), wasm_write_str (import_field_name import),
          wasm_write_u8 (u32_of_nat (external_kind_code (import_kind import))),
          (case import_desc import of
             ImportFunc func \<Rightarrow> write_index (wasm_get_func_type_index_by_decl m (func_decl func))
           | ImportTable table \<Rightarrow> write_table table
           | ImportMemory memory \<Rightarrow> write_memory memory
           | ImportGlobal global \<Rightarrow> write_global_header global)]"

definition write_import_section :: "WasmModule \<Rightarrow> 'w WriteContext \<Rightarrow> 'w WriteContext" where
  "write_import_section m =
     (if imports_vec m \<noteq> [] then
        known_section WASM_BINARY_SECTION_IMPORT
          [on_stream (write_count (imports_vec m)), on_stream (run (map (write_import m) (imports_vec m)))]
      else run [])"

text \<open>The items the module defines itself: everything after its imports.\<close>

definition defined_funcs :: "WasmModule \<Rightarrow> WasmFunc list" where
  "defined_funcs m = drop (num_func_imports m) (funcs m)"

definition defined_tables :: "WasmModule \<Rightarrow> WasmTable list" where
  "defined_tables m = drop (num_table_imports m) (tables m)"

definition defined_memories :: "WasmModule \<Rightarrow> WasmMemory list" where
  "defined_memories m = drop (num_memory_imports m) (memories m)"

definition defined_globals :: "WasmModule \<Rightarrow> WasmGlobal list" where
  "defined_globals m = drop (num_global_imports m) (globals m)"

definition write_function_section :: "WasmModule \<Rightarrow> 'w WriteContext \<Rightarrow> 'w WriteContext" where
  "write_function_section m =
     (if defined_funcs m \<noteq> [] then
        known_section WASM_BINARY_SECTION_FUNCTION
          [on_stream (write_count (defined_funcs m)),
           on_stream (run (map (\<lambda>func. write_index (wasm_get_func_type_index_by_decl m (func_decl func)))
                               (defined_funcs m)))]
      else run [])"

definition write_table_section :: "WasmModule \<Rightarrow> 'w WriteContext \<Rightarrow> 'w WriteContext" where
  "write_table_section m =
     (if defined_tables m \<noteq> [] then
        known_section WASM_BINARY_SECTION_TABLE
          [on_stream (write_count (defined_tables m)), on_stream (run (map write_table (defined_tables m)))]
      else run [])"

definition write_memory_section :: "WasmModule \<Rightarrow> 'w WriteContext \<Rightarrow> 'w WriteContext" where
  "write_memory_section m =
     (if defined_memories m \<noteq> [] then
        known_section WASM_BINARY_SECTION_MEMORY
          [on_stream (write_count (defined_memories m)), on_stream (run (map write_memory (defined_memories m)))]
      else run [])"

definition write_global :: "WasmModule \<Rightarrow> WasmGlobal \<Rightarrow> 'w WasmStream \<Rightarrow> 'w WasmStream" where
  "write_global m global = run [write_global_header global, write_init_expr m (global_init_expr global)]"

definition write_global_section :: "WasmModule \<Rightarrow> 'w WriteContext \<Rightarrow> 'w WriteContext" where
  "write_global_section m =
     (if defined_globals m \<noteq> [] then
        known_section WASM_BINARY_SECTION_GLOBAL
          [on_stream (write_count (defined_globals m)), on_stream (run (map (write_global m) (defined_globals m)))]
      else run [])"

definition export_index :: "WasmModule \<Rightarrow> WasmExport \<Rightarrow> int" where
  "export_index m export =
     (case export_kind export of
        WASM_EXTERNAL_KIND_FUNC \<Rightarrow> wasm_get_func_index_by_var m (export_var export)
      | WASM_EXTERNAL_KIND_TABLE \<Rightarrow> wasm_get_table_index_by_var m (export_var export)
      | WASM_EXTERNAL_KIND_MEMORY \<Rightarrow> wasm_get_memory_index_by_var m (export_var export)
      | WASM_EXTERNAL_KIND_GLOBAL \<Rightarrow> wasm_get_global_index_by_var m (export_var export))"

definition write_export :: "WasmModule \<Rightarrow> WasmExport \<Rightarrow> 'w WasmStream \<Rightarrow> 'w WasmStream" where
  "write_export m export =
     run [wasm_write_str (export_name export),
          wasm_write_u8 (u32_of_nat (external_kind_code (export_kind export))),
          write_index (export_index m export)]"

definition write_export_section :: "WasmModule \<Rightarrow> 'w WriteContext \<Rightarrow> 'w WriteContext" where
  "write_export_section m =
     (if exports m \<noteq> [] then
        known_section WASM_BINARY_SECTION_EXPORT
          [on_stream (write_count (exports m)), on_stream (run (map (write_export m) (exports m)))]
      else run [])"

definition write_start_section :: "WasmModule \<Rightarrow> 'w WriteContext \<Rightarrow> 'w WriteContext" where
  "write_start_section m =
     (case start m of
        None \<Rightarrow> run []
      | Some var \<Rightarrow>
          (let start_func_index = wasm_get_func_index_by_var m var
           in if start_func_index \<noteq> - 1
              then known_section WASM_BINARY_SECTION_START [on_stream (write_index start_func_index)]
              else run []))"

definition write_elem_segment :: "WasmModule \<Rightarrow> WasmElemSegment \<Rightarrow> 'w WasmStream \<Rightarrow> 'w WasmStream" where
  "write_elem_segment m segment =
     run ([write_index (wasm_get_table_index_by_var m (elem_table_var segment)),
           write_init_expr m (elem_offset segment), write_count (elem_vars segment)]
          @ map (\<lambda>var. write_index (wasm_get_func_index_by_var m var)) (elem_vars segment))"

definition write_elem_section :: "WasmModule \<Rightarrow> 'w WriteContext \<Rightarrow> 'w WriteContext" where
  "write_elem_section m =
     (if elem_segments m \<noteq> [] then
        known_section WASM_BINARY_SECTION_ELEM
          [on_stream (write_count (elem_segments m)),
           on_stream (run (map (write_elem_segment m) (elem_segments m)))]
      else run [])"

definition write_func_body :: "WasmModule \<Rightarrow> WasmFunc \<Rightarrow> 'w WriteContext \<Rightarrow> 'w WriteContext" where
  "write_func_body m func ctx =
     (let (body_size_offset, ctx1) = write_u32_leb128_space 1 ctx;
          ctx2 = on_stream (write_func m func) ctx1
      in write_fixup_u32_leb128_size body_size_offset 1 ctx2)"

definition write_code_section :: "WasmModule \<Rightarrow> 'w WriteContext \<Rightarrow> 'w WriteContext" where
  "write_code_section m =
     (if defined_funcs m \<noteq> [] then
        known_section WASM_BINARY_SECTION_CODE
          (on_stream (write_count (defined_funcs m)) # map (write_func_body m) (defined_funcs m))
      else run [])"

definition write_data_segment :: "WasmModule \<Rightarrow> WasmDataSegment \<Rightarrow> 'w WasmStream \<Rightarrow> 'w WasmStream" where
  "write_data_segment m segment =
     run [write_index (wasm_get_memory_index_by_var m (data_memory_var segment)),
          write_init_expr m (data_offset segment), write_count (data_bytes segment),
          wasm_write_data (data_bytes segment)]"

definition write_data_section :: "WasmModule \<Rightarrow> 'w WriteContext \<Rightarrow> 'w WriteContext" where
  "write_data_section m =
     (if data_segments m \<noteq> [] then
        known_section WASM_BINARY_SECTION_DATA
          [on_stream (write_count (data_segments m)),
           on_stream (run (map (write_data_segment m) (data_segments m)))]
      else run [])"

definition write_func_names :: "WasmFunc \<Rightarrow> 'w WasmStream \<Rightarrow> 'w WasmStream" where
  "write_func_names func =
     run ([wasm_write_str (func_name func),
           wasm_write_u32_leb128 (u32_of_nat (wasm_get_num_params_and_locals func))]
          @ (if wasm_get_num_params_and_locals func \<noteq> 0 then
               map wasm_write_str (wasm_make_type_binding_reverse_mapping
                                     (param_types (decl_sig (func_decl func))) (param_bindings func))
               @ map wasm_write_str (wasm_make_type_binding_reverse_mapping
                                       (local_types func) (local_bindings func))
             else []))"

definition write_names_section :: "WasmModule \<Rightarrow> 'w WriteContext \<Rightarrow> 'w WriteContext" where
  "write_names_section m ctx =
     (if write_debug_names (ctx_options ctx) then
        run [begin_custom_section ''name'' 1,
             on_stream (write_count (funcs m)), on_stream (run (map write_func_names (funcs m))),
             end_section] ctx
      else ctx)"

definition write_module :: "WasmModule \<Rightarrow> 'w WriteContext \<Rightarrow> 'w WriteContext" where
  "write_module m =
     run [on_stream (wasm_write_u32 WASM_BINARY_MAGIC), on_stream (wasm_write_u32 WASM_BINARY_VERSION),
          write_type_section m, write_import_section m, write_function_section m,
          write_table_section m, write_memory_section m, write_global_section m,
          write_export_section m, write_start_section m, write_elem_section m,
          write_code_section m, write_data_section m, write_names_section m]"

text \<open>\<open>wasm_write_binary_module\<close>: the stream's result and the writer with what was written.\<close>

definition wasm_write_binary_module ::
    "'w WasmWriter \<Rightarrow> WasmModule \<Rightarrow> WasmWriteBinaryOptions \<Rightarrow> WasmResult \<times> 'w WasmWriter" where
  "wasm_write_binary_module w m opts =
     (let ctx = write_module m \<lparr>ctx_stream = wasm_init_stream w, ctx_options = opts,
                                last_section_offset = 0, last_section_leb_size_guess = 0\<rparr>
      in (result (ctx_stream ctx), writer (ctx_stream ctx)))"

end
