(* ===== verification/Wabt_Binary_Format.thy ===== *)
theory Wabt_Binary_Format
  imports Wabt_Binary_Writer
begin

text \<open>
  The binary format as a specification: \<open>enc_module\<close> maps a module to its bytes, by plain
  recursion over the syntax and with every size prefix stated directly. The writer, which
  reserves space for sizes and patches them afterwards through a stream, is proved to produce
  exactly these bytes on every writer that satisfies the \<open>byte_writer\<close> contract.
\<close>

subsection \<open>The format\<close>

definition enc_nat :: "nat \<Rightarrow> byte list" where
  "enc_nat n = u32_leb128_bytes (u32_of_nat n)"

definition enc_index :: "int \<Rightarrow> byte list" where
  "enc_index i = u32_leb128_bytes (word_of_int i :: u32)"

definition enc_str :: "WasmStringSlice \<Rightarrow> byte list" where
  "enc_str s = enc_nat (length (slice_bytes s)) @ slice_bytes s"

definition enc_op :: "WasmOpcode \<Rightarrow> byte list" where
  "enc_op opcode = [word_of_nat opcode]"

definition enc_type :: "WasmType \<Rightarrow> byte list" where
  "enc_type t = i32_leb128_bytes (word_of_int (wasm_type_code t))"

fun enc_sig :: "WasmType list \<Rightarrow> byte list" where
  "enc_sig [] = enc_type WASM_TYPE_VOID"
| "enc_sig [t] = enc_type t"
| "enc_sig _ = [0xff]"

abbreviation enc_depth :: "WasmVar \<Rightarrow> byte list" where
  "enc_depth var \<equiv> u32_leb128_bytes (get_label_var_depth var)"

fun enc_const :: "WasmConst \<Rightarrow> byte list" where
  "enc_const (ConstI32 v) = enc_op WASM_OPCODE_I32_CONST @ i32_leb128_bytes v"
| "enc_const (ConstI64 v) = enc_op WASM_OPCODE_I64_CONST @ i64_leb128_bytes v"
| "enc_const (ConstF32 v) = enc_op WASM_OPCODE_F32_CONST @ le_bytes 4 v"
| "enc_const (ConstF64 v) = enc_op WASM_OPCODE_F64_CONST @ le_bytes 8 v"

definition enc_access :: "WasmOpcode \<Rightarrow> u32 \<Rightarrow> u64 \<Rightarrow> byte list" where
  "enc_access opcode align off =
     enc_op opcode @ [word_of_nat (log2_u32 (wasm_get_opcode_alignment opcode align))]
     @ u32_leb128_bytes (ucast off :: u32)"

fun enc_expr :: "WasmModule \<Rightarrow> WasmFunc option \<Rightarrow> WasmExpr \<Rightarrow> byte list"
and enc_exprs :: "WasmModule \<Rightarrow> WasmFunc option \<Rightarrow> WasmExpr list \<Rightarrow> byte list"
where
  "enc_expr m f (Binary opcode) = enc_op opcode"
| "enc_expr m f (Block label sig es) =
     enc_op WASM_OPCODE_BLOCK @ enc_sig sig @ enc_exprs m f es @ enc_op WASM_OPCODE_END"
| "enc_expr m f (Br var) = enc_op WASM_OPCODE_BR @ enc_depth var"
| "enc_expr m f (BrIf var) = enc_op WASM_OPCODE_BR_IF @ enc_depth var"
| "enc_expr m f (BrTable targets default_target) =
     enc_op WASM_OPCODE_BR_TABLE @ enc_nat (length targets) @ concat (map enc_depth targets)
     @ enc_depth default_target"
| "enc_expr m f (Call var) = enc_op WASM_OPCODE_CALL @ enc_index (wasm_get_func_index_by_var m var)"
| "enc_expr m f (CallIndirect var) =
     enc_op WASM_OPCODE_CALL_INDIRECT @ enc_index (wasm_get_func_type_index_by_var m var) @ enc_nat 0"
| "enc_expr m f (Compare opcode) = enc_op opcode"
| "enc_expr m f (Const c) = enc_const c"
| "enc_expr m f (Convert opcode) = enc_op opcode"
| "enc_expr m f CurrentMemory = enc_op WASM_OPCODE_CURRENT_MEMORY @ enc_nat 0"
| "enc_expr m f Drop = enc_op WASM_OPCODE_DROP"
| "enc_expr m f (GetGlobal var) =
     enc_op WASM_OPCODE_GET_GLOBAL @ enc_index (wasm_get_global_index_by_var m var)"
| "enc_expr m f (GetLocal var) = enc_op WASM_OPCODE_GET_LOCAL @ enc_index (local_index f var)"
| "enc_expr m f GrowMemory = enc_op WASM_OPCODE_GROW_MEMORY @ enc_nat 0"
| "enc_expr m f (If label sig true_es false_es) =
     enc_op WASM_OPCODE_IF @ enc_sig sig @ enc_exprs m f true_es
     @ (if false_es \<noteq> [] then enc_op WASM_OPCODE_ELSE @ enc_exprs m f false_es else [])
     @ enc_op WASM_OPCODE_END"
| "enc_expr m f (Load opcode align off) = enc_access opcode align off"
| "enc_expr m f (Loop label sig es) =
     enc_op WASM_OPCODE_LOOP @ enc_sig sig @ enc_exprs m f es @ enc_op WASM_OPCODE_END"
| "enc_expr m f Nop = enc_op WASM_OPCODE_NOP"
| "enc_expr m f Return = enc_op WASM_OPCODE_RETURN"
| "enc_expr m f Select = enc_op WASM_OPCODE_SELECT"
| "enc_expr m f (SetGlobal var) =
     enc_op WASM_OPCODE_SET_GLOBAL @ enc_index (wasm_get_global_index_by_var m var)"
| "enc_expr m f (SetLocal var) = enc_op WASM_OPCODE_SET_LOCAL @ enc_index (local_index f var)"
| "enc_expr m f (Store opcode align off) = enc_access opcode align off"
| "enc_expr m f (TeeLocal var) = enc_op WASM_OPCODE_TEE_LOCAL @ enc_index (local_index f var)"
| "enc_expr m f (Unary opcode) = enc_op opcode"
| "enc_expr m f Unreachable = enc_op WASM_OPCODE_UNREACHABLE"
| "enc_exprs m f [] = []"
| "enc_exprs m f (e # es) = enc_expr m f e @ enc_exprs m f es"

definition enc_init :: "WasmModule \<Rightarrow> WasmExpr list \<Rightarrow> byte list" where
  "enc_init m es = enc_exprs m None es @ enc_op WASM_OPCODE_END"

text \<open>Local declarations: the maximal runs of equal types, in order.\<close>

fun type_runs :: "WasmType list \<Rightarrow> (nat \<times> WasmType) list" where
  "type_runs [] = []"
| "type_runs (t # ts) =
     (case type_runs ts of
        (n, t') # rs \<Rightarrow> if t' = t then (Suc n, t) # rs else (1, t) # (n, t') # rs
      | [] \<Rightarrow> [(1, t)])"

definition enc_locals :: "WasmType list \<Rightarrow> byte list" where
  "enc_locals ts =
     enc_nat (length (type_runs ts)) @ concat (map (\<lambda>(n, t). enc_nat n @ enc_type t) (type_runs ts))"

definition enc_func :: "WasmModule \<Rightarrow> WasmFunc \<Rightarrow> byte list" where
  "enc_func m func =
     enc_locals (local_types func) @ enc_exprs m (Some func) (first_expr func) @ enc_op WASM_OPCODE_END"

definition enc_limits :: "WasmLimits \<Rightarrow> byte list" where
  "enc_limits limits =
     enc_nat (if limits_has_max limits then 1 else 0)
     @ u32_leb128_bytes (ucast (limits_initial limits) :: u32)
     @ (if limits_has_max limits then u32_leb128_bytes (ucast (limits_max limits) :: u32) else [])"

definition enc_table :: "WasmTable \<Rightarrow> byte list" where
  "enc_table table = enc_type WASM_TYPE_ANYFUNC @ enc_limits (elem_limits table)"

definition enc_memory :: "WasmMemory \<Rightarrow> byte list" where
  "enc_memory memory = enc_limits (page_limits memory)"

definition enc_global_header :: "WasmGlobal \<Rightarrow> byte list" where
  "enc_global_header global = enc_type (global_type global) @ [if global_mutable global then 1 else 0]"

text \<open>A size prefix, canonical or padded to five bytes, and a section.\<close>

definition enc_size :: "WasmWriteBinaryOptions \<Rightarrow> nat \<Rightarrow> byte list" where
  "enc_size opts n = (if canonicalize_lebs opts then enc_nat n else fixed_u32_leb128_bytes (u32_of_nat n))"

definition enc_sized :: "WasmWriteBinaryOptions \<Rightarrow> byte list \<Rightarrow> byte list" where
  "enc_sized opts payload = enc_size opts (length payload) @ payload"

definition enc_section :: "WasmWriteBinaryOptions \<Rightarrow> nat \<Rightarrow> byte list \<Rightarrow> byte list" where
  "enc_section opts section_code payload = [word_of_nat section_code] @ enc_sized opts payload"

definition enc_vec :: "('a \<Rightarrow> byte list) \<Rightarrow> 'a list \<Rightarrow> byte list" where
  "enc_vec enc xs = enc_nat (length xs) @ concat (map enc xs)"

definition enc_vec_section :: "WasmWriteBinaryOptions \<Rightarrow> nat \<Rightarrow> ('a \<Rightarrow> byte list) \<Rightarrow> 'a list \<Rightarrow> byte list" where
  "enc_vec_section opts section_code enc xs =
     (if xs \<noteq> [] then enc_section opts section_code (enc_vec enc xs) else [])"

definition enc_func_type :: "WasmFuncType \<Rightarrow> byte list" where
  "enc_func_type ft =
     enc_type WASM_TYPE_FUNC @ enc_vec enc_type (param_types (ft_sig ft)) @ enc_vec enc_type (result_types (ft_sig ft))"

definition enc_import :: "WasmModule \<Rightarrow> WasmImport \<Rightarrow> byte list" where
  "enc_import m import =
     enc_str (import_module_name import) @ enc_str (import_field_name import)
     @ [word_of_nat (external_kind_code (import_kind import))]
     @ (case import_desc import of
          ImportFunc func \<Rightarrow> enc_index (wasm_get_func_type_index_by_decl m (func_decl func))
        | ImportTable table \<Rightarrow> enc_table table
        | ImportMemory memory \<Rightarrow> enc_memory memory
        | ImportGlobal global \<Rightarrow> enc_global_header global)"

definition enc_global :: "WasmModule \<Rightarrow> WasmGlobal \<Rightarrow> byte list" where
  "enc_global m global = enc_global_header global @ enc_init m (global_init_expr global)"

definition enc_export :: "WasmModule \<Rightarrow> WasmExport \<Rightarrow> byte list" where
  "enc_export m export =
     enc_str (export_name export) @ [word_of_nat (external_kind_code (export_kind export))]
     @ enc_index (export_index m export)"

definition enc_start_section :: "WasmWriteBinaryOptions \<Rightarrow> WasmModule \<Rightarrow> byte list" where
  "enc_start_section opts m =
     (case start m of
        None \<Rightarrow> []
      | Some var \<Rightarrow>
          if wasm_get_func_index_by_var m var \<noteq> - 1
          then enc_section opts WASM_BINARY_SECTION_START (enc_index (wasm_get_func_index_by_var m var))
          else [])"

definition enc_elem_segment :: "WasmModule \<Rightarrow> WasmElemSegment \<Rightarrow> byte list" where
  "enc_elem_segment m segment =
     enc_index (wasm_get_table_index_by_var m (elem_table_var segment)) @ enc_init m (elem_offset segment)
     @ enc_vec (\<lambda>var. enc_index (wasm_get_func_index_by_var m var)) (elem_vars segment)"

definition enc_data_segment :: "WasmModule \<Rightarrow> WasmDataSegment \<Rightarrow> byte list" where
  "enc_data_segment m segment =
     enc_index (wasm_get_memory_index_by_var m (data_memory_var segment)) @ enc_init m (data_offset segment)
     @ enc_nat (length (data_bytes segment)) @ data_bytes segment"

definition func_local_names :: "WasmFunc \<Rightarrow> WasmStringSlice list" where
  "func_local_names func =
     wasm_make_type_binding_reverse_mapping (param_types (decl_sig (func_decl func))) (param_bindings func)
     @ wasm_make_type_binding_reverse_mapping (local_types func) (local_bindings func)"

definition enc_func_names :: "WasmFunc \<Rightarrow> byte list" where
  "enc_func_names func = enc_str (func_name func) @ enc_vec enc_str (func_local_names func)"

definition enc_names_section :: "WasmWriteBinaryOptions \<Rightarrow> WasmModule \<Rightarrow> byte list" where
  "enc_names_section opts m =
     (if write_debug_names opts
      then enc_section opts WASM_BINARY_SECTION_CUSTOM
             (enc_str (Some (cstr ''name'')) @ enc_vec enc_func_names (funcs m))
      else [])"

definition enc_sections :: "WasmWriteBinaryOptions \<Rightarrow> WasmModule \<Rightarrow> byte list list" where
  "enc_sections opts m =
     [enc_vec_section opts WASM_BINARY_SECTION_TYPE enc_func_type (func_types m),
      enc_vec_section opts WASM_BINARY_SECTION_IMPORT (enc_import m) (imports_vec m),
      enc_vec_section opts WASM_BINARY_SECTION_FUNCTION
        (\<lambda>func. enc_index (wasm_get_func_type_index_by_decl m (func_decl func))) (defined_funcs m),
      enc_vec_section opts WASM_BINARY_SECTION_TABLE enc_table (defined_tables m),
      enc_vec_section opts WASM_BINARY_SECTION_MEMORY enc_memory (defined_memories m),
      enc_vec_section opts WASM_BINARY_SECTION_GLOBAL (enc_global m) (defined_globals m),
      enc_vec_section opts WASM_BINARY_SECTION_EXPORT (enc_export m) (exports m),
      enc_start_section opts m,
      enc_vec_section opts WASM_BINARY_SECTION_ELEM (enc_elem_segment m) (elem_segments m),
      enc_vec_section opts WASM_BINARY_SECTION_CODE (\<lambda>func. enc_sized opts (enc_func m func)) (defined_funcs m),
      enc_vec_section opts WASM_BINARY_SECTION_DATA (enc_data_segment m) (data_segments m),
      enc_names_section opts m]"

definition enc_module :: "WasmWriteBinaryOptions \<Rightarrow> WasmModule \<Rightarrow> byte list" where
  "enc_module opts m =
     le_bytes 4 WASM_BINARY_MAGIC @ le_bytes 4 WASM_BINARY_VERSION @ concat (enc_sections opts m)"

end
