(* ===== verification/Wabt_Writer_Correct.thy ===== *)
theory Wabt_Writer_Correct
  imports Wabt_Binary_Format
begin

text \<open>
  The binary writer implements the format: on a stream over any writer that satisfies the
  \<open>byte_writer\<close> contract, each writing function appends the bytes its encoder specifies, as
  long as the output stays below 4 GiB (the code keeps offsets in \<open>uint32_t\<close>).
\<close>

subsection \<open>Runs of local types\<close>

lemma type_runs_Cons_shape: "\<exists>k rs. type_runs (c # ts) = (Suc k, c) # rs"
  by (auto split: list.splits)

text \<open>The runs of \<open>ts\<close> after \<open>n\<close> occurrences of \<open>c\<close>.\<close>

definition runs_from :: "WasmType \<Rightarrow> nat \<Rightarrow> WasmType list \<Rightarrow> (nat \<times> WasmType) list" where
  "runs_from c n ts = (case type_runs (c # ts) of [] \<Rightarrow> [] | (k, _) # rs \<Rightarrow> (n + k - 1, c) # rs)"

lemma runs_from_simps:
  "runs_from c n [] = [(n, c)]"
  "runs_from c n (c # ts) = runs_from c (n + 1) ts"
  "c \<noteq> t \<Longrightarrow> runs_from c n (t # ts) = (n, c) # runs_from t 1 ts"
  using type_runs_Cons_shape [of c ts] type_runs_Cons_shape [of t ts]
  by (auto simp: runs_from_def simp del: type_runs.simps(2)) (auto simp: type_runs.simps)

lemma runs_from_1: "runs_from c 1 ts = type_runs (c # ts)"
  using type_runs_Cons_shape [of c ts] by (auto simp: runs_from_def simp del: type_runs.simps(2))

lemma count_local_decls_runs: "count_local_decls c n ts + 1 = n + length (runs_from c k ts)"
  by (induction c n ts arbitrary: k rule: count_local_decls.induct) (auto simp: runs_from_simps)

text \<open>The space reserved for a size.\<close>

definition leb_space :: "WasmWriteBinaryOptions \<Rightarrow> byte list" where
  "leb_space opts = replicate (if canonicalize_lebs opts then 1 else MAX_U32_LEB128_BYTES) 0"

context byte_writer
begin

subsection \<open>Streams over a lawful writer\<close>

text \<open>The stream works and its writer holds \<open>bs\<close>; \<open>stream_at\<close> is positioned at the end.\<close>

definition stream_has :: "'w WasmStream \<Rightarrow> byte list \<Rightarrow> bool" where
  "stream_has s bs \<longleftrightarrow>
     result s = WASM_OK \<and> write_data (writer s) = Some wd \<and> move_data (writer s) = mv
     \<and> invar (user_data (writer s)) \<and> contents (user_data (writer s)) = bs"

definition stream_at :: "'w WasmStream \<Rightarrow> byte list \<Rightarrow> bool" where
  "stream_at s bs \<longleftrightarrow> stream_has s bs \<and> offset s = length bs"

text \<open>\<open>f\<close> appends \<open>bs\<close>, as long as the result is shorter than \<open>2 ^ 32\<close>.\<close>

definition appends :: "('w WasmStream \<Rightarrow> 'w WasmStream) \<Rightarrow> byte list \<Rightarrow> bool" where
  "appends f bs \<longleftrightarrow>
     (\<forall>s xs. stream_at s xs \<longrightarrow> length xs + length bs < 2 ^ 32 \<longrightarrow> stream_at (f s) (xs @ bs))"

lemma write_data_at_has:
  assumes "stream_has s bs" "off \<le> length bs"
  shows "stream_has (wasm_write_data_at off src s) (overwrite bs off src)"
    and "offset (wasm_write_data_at off src s) = offset s"
proof -
  from assms(1) have inv: "invar (user_data (writer s))" and c: "contents (user_data (writer s)) = bs"
    and rest: "result s = WASM_OK" "write_data (writer s) = Some wd" "move_data (writer s) = mv"
    by (simp_all add: stream_has_def)
  obtain u' where "wd off src (user_data (writer s)) = (WASM_OK, u')" "invar u'"
    "contents u' = overwrite bs off src"
    using write_law [OF inv, of off src] c assms(2) by auto
  with rest show "stream_has (wasm_write_data_at off src s) (overwrite bs off src)"
    and "offset (wasm_write_data_at off src s) = offset s"
    by (simp_all add: wasm_write_data_at_def stream_has_def)
qed

lemma move_data_has:
  assumes "stream_has s bs" "src + n \<le> length bs" "dst \<le> length bs"
  shows "stream_has (wasm_move_data dst src n s) (overwrite bs dst (take n (drop src bs)))"
    and "offset (wasm_move_data dst src n s) = offset s"
proof -
  from assms(1) have inv: "invar (user_data (writer s))" and c: "contents (user_data (writer s)) = bs"
    and rest: "result s = WASM_OK" "write_data (writer s) = Some wd" "move_data (writer s) = mv"
    by (simp_all add: stream_has_def)
  obtain u' where "mv dst src n (user_data (writer s)) = (WASM_OK, u')" "invar u'"
    "contents u' = overwrite bs dst (take n (drop src bs))"
    using move_law [OF inv, of src n dst] c assms(2,3) by auto
  with rest show "stream_has (wasm_move_data dst src n s) (overwrite bs dst (take n (drop src bs)))"
    and "offset (wasm_move_data dst src n s) = offset s"
    by (simp_all add: wasm_move_data_def stream_has_def)
qed

lemma stream_has_offset [simp]: "stream_has (s\<lparr>offset := n\<rparr>) bs = stream_has s bs"
  by (simp add: stream_has_def)

lemma write_at_end:
  assumes "stream_at s xs"
  shows "stream_at ((wasm_write_data_at (length xs) bs s)\<lparr>offset := length xs + length bs\<rparr>) (xs @ bs)"
  using write_data_at_has [of s xs "length xs" bs] assms by (simp add: stream_at_def)

lemma appends_write_data: "appends (wasm_write_data bs) bs"
  using write_at_end write_data_at_has(2)
  by (auto simp: appends_def wasm_write_data_def Let_def stream_at_def)

lemma appends_u8: "appends (wasm_write_u8 v) [ucast v]"
  using write_at_end [where bs = "[ucast v]"] write_data_at_has(2)
  by (auto simp: appends_def wasm_write_u8_def Let_def stream_at_def)

lemma appends_u32: "appends (wasm_write_u32 v) (le_bytes 4 v)"
  using write_at_end [where bs = "le_bytes 4 v"] write_data_at_has(2)
  by (auto simp: appends_def wasm_write_u32_def Let_def stream_at_def)

lemma appends_u64: "appends (wasm_write_u64 v) (le_bytes 8 v)"
  using write_at_end [where bs = "le_bytes 8 v"] write_data_at_has(2)
  by (auto simp: appends_def wasm_write_u64_def Let_def stream_at_def)

lemma appends_u32_leb128: "appends (wasm_write_u32_leb128 v) (u32_leb128_bytes v)"
  using write_at_end [where bs = "u32_leb128_bytes v"] write_data_at_has(2)
  by (auto simp: appends_def wasm_write_u32_leb128_def wasm_write_u32_leb128_at_def Let_def stream_at_def)

lemma appends_i32_leb128: "appends (wasm_write_i32_leb128 v) (i32_leb128_bytes v)"
  using write_at_end [where bs = "i32_leb128_bytes v"] write_data_at_has(2)
  by (auto simp: appends_def wasm_write_i32_leb128_def Let_def stream_at_def)

lemma appends_i64_leb128: "appends (write_i64_leb128 v) (i64_leb128_bytes v)"
  using write_at_end [where bs = "i64_leb128_bytes v"] write_data_at_has(2)
  by (auto simp: appends_def write_i64_leb128_def Let_def stream_at_def)

subsection \<open>Sequences of writes\<close>

lemma appends_run_Nil: "appends (run []) []"
  by (simp add: appends_def)

lemma appends_run_Cons: "appends f bs \<Longrightarrow> appends (run fs) cs \<Longrightarrow> appends (run (f # fs)) (bs @ cs)"
  unfolding appends_def run.simps by (metis add.assoc add_lessD1 append.assoc length_append)

lemma appends_run_append: "appends (run fs) bs \<Longrightarrow> appends (run gs) cs \<Longrightarrow> appends (run (fs @ gs)) (bs @ cs)"
  unfolding appends_def run_append by (metis add.assoc add_lessD1 append.assoc length_append)

lemma appends_run1: "appends f bs \<Longrightarrow> appends (run [f]) bs"
  using appends_run_Cons [OF _ appends_run_Nil] by simp

lemma appends_run_map:
  "(\<And>x. x \<in> set xs \<Longrightarrow> appends (f x) (enc x)) \<Longrightarrow> appends (run (map f xs)) (concat (map enc xs))"
  by (induction xs) (auto intro: appends_run_Nil appends_run_Cons simp del: run.simps)

lemmas appends_run = appends_run_Nil appends_run_Cons appends_run1

subsection \<open>Strings, types, expressions\<close>

lemma appends_opcode: "appends (wasm_write_opcode opcode) (enc_op opcode)"
  using appends_u8 [of "ucast (word_of_nat opcode :: byte)"]
  by (simp add: wasm_write_opcode_def enc_op_def ucast_up_ucast_id is_up)

lemma appends_type: "appends (wasm_write_type t) (enc_type t)"
  unfolding wasm_write_type_def enc_type_def by (rule appends_i32_leb128)

lemma appends_str: "appends (wasm_write_str str) (enc_str str)"
proof -
  have "(wasm_write_str str :: 'w WasmStream \<Rightarrow> 'w WasmStream) = run [wasm_write_u32_leb128 (u32_of_nat (length (slice_bytes str))),
      wasm_write_data (slice_bytes str)]"
    by (rule ext) (simp add: wasm_write_str_def wasm_write_data_def Let_def)
  moreover have "appends (run [wasm_write_u32_leb128 (u32_of_nat (length (slice_bytes str))),
      wasm_write_data (slice_bytes str)]) (enc_str str)"
    unfolding enc_str_def enc_nat_def
    by (intro appends_run1 appends_run_Cons appends_u32_leb128 appends_write_data)
  ultimately show ?thesis by simp
qed

lemma appends_nat: "appends (wasm_write_u32_leb128 (u32_of_nat n)) (enc_nat n)"
  unfolding enc_nat_def by (rule appends_u32_leb128)

lemma appends_zero: "appends (wasm_write_u32_leb128 0) (enc_nat 0)"
  using appends_nat [of 0] by simp

lemma appends_index: "appends (write_index i) (enc_index i)"
  unfolding enc_index_def by (rule appends_u32_leb128)

lemmas appends_scalar = appends_opcode appends_type appends_str appends_nat appends_zero appends_index
  appends_u32_leb128 appends_i32_leb128 appends_i64_leb128 appends_u32 appends_u64 appends_write_data

lemmas appends_intros = appends_run_Nil appends_run1 appends_run_Cons appends_run_append appends_scalar

lemma appends_sig: "appends (write_inline_signature_type sig) (enc_sig sig)"
  using appends_u8 [of "0xff"]
  by (cases sig rule: enc_sig.cases) (auto intro: appends_type)

lemma appends_const: "appends (write_const c) (enc_const c)"
  unfolding write_const_def by (cases c) (auto simp del: run.simps intro!: appends_intros)

lemma ucast_u32_of_nat_byte: "(ucast (u32_of_nat n) :: byte) = word_of_nat n"
  by (rule bit_word_eqI) (simp add: bit_simps)

lemma appends_access: "appends (write_memory_access opcode align off) (enc_access opcode align off)"
proof -
  have "appends (wasm_write_u8 (u32_of_nat n)) [word_of_nat n]" for n
    using appends_u8 [of "u32_of_nat n"] by (simp only: ucast_u32_of_nat_byte)
  then show ?thesis
    unfolding write_memory_access_def enc_access_def by (intro appends_intros)
qed

lemma appends_expr:
  shows "appends (write_expr m f e) (enc_expr m f e)"
    and "appends (write_expr_list m f es) (enc_exprs m f es)"
proof (induction m f e and m f es rule: enc_expr_enc_exprs.induct)
  case (5 m f targets default_target)
  show ?case
    unfolding write_expr.simps enc_expr.simps append_Cons append_Nil
    by (intro appends_intros appends_run_map)
next
  case (16 m f label sig true_es false_es)
  then show ?case
    unfolding write_expr.simps enc_expr.simps append_Cons append_Nil
    by (cases "false_es = []") (auto simp del: run.simps intro!: appends_intros appends_sig)
qed (simp_all only: write_expr.simps write_expr_list.simps enc_expr.simps enc_exprs.simps;
     intro appends_intros appends_sig appends_const appends_access; assumption?)+

subsection \<open>Function bodies\<close>

lemma appends_local_decls:
  "WASM_TYPE_VOID \<notin> set (c # ts) \<Longrightarrow>
     appends (write_local_decls c n ts) (concat (map (\<lambda>(n, t). enc_nat n @ enc_type t) (runs_from c n ts)))"
proof (induction c n ts rule: write_local_decls.induct)
  case (1 c n)
  then show ?case
    by (auto simp: runs_from_simps simp del: run.simps intro!: appends_intros)
next
  case (2 c n t ts)
  then show ?case
    by (cases "c = t") (auto simp: runs_from_simps simp del: run.simps intro!: appends_run_Cons appends_run1 appends_scalar)
qed

lemma appends_func_locals:
  assumes "WASM_TYPE_VOID \<notin> set ts"
  shows "appends (write_func_locals ts) (enc_locals ts)"
proof (cases ts)
  case Nil
  then show ?thesis by (simp add: enc_locals_def appends_zero)
next
  case (Cons c ts')
  have "count_local_decls c 1 ts' = length (type_runs (c # ts'))"
    using count_local_decls_runs [of c 1 ts' 1] by (simp add: runs_from_1 [unfolded One_nat_def] del: type_runs.simps)
  then show ?thesis
    unfolding Cons enc_locals_def write_func_locals.simps
    using appends_local_decls [of c ts' 1] assms Cons
    by (simp only: runs_from_1) (auto simp del: run.simps type_runs.simps intro!: appends_run_Cons appends_run1 appends_nat)
qed

lemma appends_func:
  "WASM_TYPE_VOID \<notin> set (local_types func) \<Longrightarrow> appends (write_func m func) (enc_func m func)"
  unfolding write_func_def enc_func_def by (intro appends_intros appends_func_locals appends_expr)

lemma appends_init: "appends (write_init_expr m es) (enc_init m es)"
  unfolding write_init_expr_def enc_init_def
  by (cases "es = []") (auto simp del: run.simps intro!: appends_run_Cons appends_run1 appends_expr appends_opcode)

lemma appends_limits: "appends (wasm_write_limits limits) (enc_limits limits)"
  using appends_nat [of 1]
  unfolding wasm_write_limits_def enc_limits_def append_Cons append_Nil
  by (auto simp del: run.simps intro!: appends_run_Cons appends_run1 appends_run_Nil appends_scalar)

lemma appends_table: "appends (write_table table) (enc_table table)"
  unfolding write_table_def enc_table_def by (intro appends_intros appends_limits)

lemma appends_memory: "appends (write_memory memory) (enc_memory memory)"
  unfolding write_memory_def enc_memory_def by (rule appends_limits)

lemma appends_flag: "appends (wasm_write_u8 (if b then 1 else 0)) [if b then 1 else 0]"
  using appends_u8 [of 1] appends_u8 [of 0] by simp

lemma appends_code: "appends (wasm_write_u8 (u32_of_nat n)) [word_of_nat n]"
  using appends_u8 [of "u32_of_nat n"] by (simp only: ucast_u32_of_nat_byte)

lemma appends_global_header: "appends (write_global_header global) (enc_global_header global)"
  unfolding write_global_header_def enc_global_header_def
  by (intro appends_run1 appends_run_Cons appends_type appends_flag)

subsection \<open>Sized blocks and sections\<close>

definition ctx_at :: "WasmWriteBinaryOptions \<Rightarrow> 'w WriteContext \<Rightarrow> byte list \<Rightarrow> bool" where
  "ctx_at opts ctx bs \<longleftrightarrow> stream_at (ctx_stream ctx) bs \<and> ctx_options ctx = opts"

text \<open>\<open>f\<close> appends \<open>bs\<close>; \<open>body_appends\<close>: and it keeps the fields of the open section.\<close>

definition ctx_appends :: "WasmWriteBinaryOptions \<Rightarrow> ('w WriteContext \<Rightarrow> 'w WriteContext) \<Rightarrow> byte list \<Rightarrow> bool" where
  "ctx_appends opts f bs \<longleftrightarrow>
     (\<forall>ctx xs. ctx_at opts ctx xs \<longrightarrow> length xs + length bs < 2 ^ 32 \<longrightarrow> ctx_at opts (f ctx) (xs @ bs))"

definition keeps_section :: "('w WriteContext \<Rightarrow> 'w WriteContext) \<Rightarrow> bool" where
  "keeps_section f \<longleftrightarrow>
     (\<forall>ctx. last_section_offset (f ctx) = last_section_offset ctx
        \<and> last_section_leb_size_guess (f ctx) = last_section_leb_size_guess ctx)"

lemma ctx_appendsD:
  "ctx_appends opts f bs \<Longrightarrow> ctx_at opts ctx xs \<Longrightarrow> length xs + length bs < 2 ^ 32 \<Longrightarrow>
     ctx_at opts (f ctx) (xs @ bs)"
  by (simp add: ctx_appends_def)

lemma ctx_appends_on_stream: "appends f bs \<Longrightarrow> ctx_appends opts (on_stream f) bs"
  by (simp add: ctx_appends_def appends_def ctx_at_def on_stream_def)

lemma keeps_on_stream: "keeps_section (on_stream f)"
  by (simp add: keeps_section_def on_stream_def)

lemma ctx_appends_run_Nil: "ctx_appends opts (run []) []"
  by (simp add: ctx_appends_def)

lemma ctx_appends_run_Cons:
  "ctx_appends opts f bs \<Longrightarrow> ctx_appends opts (run fs) cs \<Longrightarrow> ctx_appends opts (run (f # fs)) (bs @ cs)"
  unfolding ctx_appends_def run.simps by (metis add.assoc add_lessD1 append.assoc length_append)

lemma ctx_appends_run1: "ctx_appends opts f bs \<Longrightarrow> ctx_appends opts (run [f]) bs"
  using ctx_appends_run_Cons [OF _ ctx_appends_run_Nil] by simp

lemma ctx_appends_run_map:
  "(\<And>x. x \<in> set xs \<Longrightarrow> ctx_appends opts (f x) (enc x)) \<Longrightarrow> ctx_appends opts (run (map f xs)) (concat (map enc xs))"
  by (induction xs) (auto intro: ctx_appends_run_Nil ctx_appends_run_Cons simp del: run.simps)

lemma keeps_run: "(\<And>f. f \<in> set fs \<Longrightarrow> keeps_section f) \<Longrightarrow> keeps_section (run fs)"
  by (induction fs) (auto simp: keeps_section_def)

lemma write_space:
  assumes "ctx_at opts ctx xs" "length xs + length (leb_space opts) < 2 ^ 32"
    and "write_u32_leb128_space 1 ctx = (off, ctx')"
  shows "ctx_at opts ctx' (xs @ leb_space opts)" and "off = u32_of_nat (length xs)"
    and "last_section_offset ctx' = last_section_offset ctx"
    and "last_section_leb_size_guess ctx' = last_section_leb_size_guess ctx"
  using assms appends_write_data [of "leb_space opts"]
  by (auto simp: write_u32_leb128_space_def Let_def ctx_at_def leb_space_def on_stream_def appends_def stream_at_def)

lemma leb_long_iff: "length (u32_leb128_bytes w) \<noteq> 1 \<Longrightarrow> 128 \<le> unat (w :: u32)"
proof (rule ccontr)
  assume len: "length (u32_leb128_bytes w) \<noteq> 1" and "\<not> 128 \<le> unat w"
  then have "drop_bit 7 (unat w) = 0" by (simp add: drop_bit_eq_div)
  then have "unat (drop_bit 7 w) = 0" unfolding unat_drop_bit_eq .
  then have "drop_bit 7 w = 0" by (simp only: unat_eq_0)
  with len show False by (subst (asm) u32_leb128_bytes.simps) (simp add: Let_def)
qed

lemma fixup_fixed:
  assumes "ctx_at opts ctx (xs @ leb_space opts @ payload)" "\<not> canonicalize_lebs opts"
    and "length xs + length (enc_sized opts payload) < 2 ^ 32"
  shows "ctx_at opts (write_fixup_u32_leb128_size (u32_of_nat (length xs)) 1 ctx) (xs @ enc_sized opts payload)"
proof -
  have off: "offset (ctx_stream ctx) = length xs + 5 + length payload"
    and has: "stream_has (ctx_stream ctx) (xs @ leb_space opts @ payload)"
    and sp: "length (leb_space opts) = 5"
    using assms(1,2) by (simp_all add: ctx_at_def stream_at_def leb_space_def MAX_U32_LEB128_BYTES_def)
  have len: "length xs + 5 + length payload < 2 ^ 32"
    using assms(2,3) by (simp add: enc_sized_def enc_size_def)
  have "u32_of_nat (offset (ctx_stream ctx)) - u32_of_nat (length xs) - u32_of_nat MAX_U32_LEB128_BYTES
      = u32_of_nat (length payload)"
    by (simp add: off MAX_U32_LEB128_BYTES_def)
  moreover have "stream_has (wasm_write_data_at (length xs) (fixed_u32_leb128_bytes w) (ctx_stream ctx))
      (xs @ fixed_u32_leb128_bytes w @ payload)" for w
    using write_data_at_has(1) [OF has, of "length xs" "fixed_u32_leb128_bytes w"] sp
    by simp
  ultimately show ?thesis
    using assms off len write_data_at_has(2) [OF has, of "length xs"]
    by (simp add: write_fixup_u32_leb128_size_def ctx_at_def stream_at_def on_stream_def Let_def
        wasm_write_fixed_u32_leb128_at_def enc_sized_def enc_size_def)
qed

lemma fixup_canonical:
  assumes "ctx_at opts ctx (xs @ leb_space opts @ payload)" "canonicalize_lebs opts"
    and "length xs + length (enc_sized opts payload) < 2 ^ 32"
  shows "ctx_at opts (write_fixup_u32_leb128_size (u32_of_nat (length xs)) 1 ctx) (xs @ enc_sized opts payload)"
proof -
  let ?s = "ctx_stream ctx"
  let ?sz = "u32_of_nat (length payload)"
  let ?leb = "u32_leb128_bytes ?sz"
  let ?L = "length ?leb"
  have off: "offset ?s = length xs + 1 + length payload"
    and has: "stream_has ?s (xs @ [0] @ payload)" and opts: "ctx_options ctx = opts"
    using assms(1,2) by (simp_all add: ctx_at_def stream_at_def leb_space_def)
  have len: "length xs + ?L + length payload < 2 ^ 32"
    using assms(2,3) by (simp add: enc_sized_def enc_size_def enc_nat_def)
  have L: "0 < ?L" "?L \<le> 5" by (simp_all add: length_u32_leb128_bytes)
  have sz: "unat ?sz = length payload" using len by simp
  have sz_eq: "u32_of_nat (offset ?s) - u32_of_nat (length xs) - u32_of_nat 1 = ?sz"
    by (simp add: off)
  define s1 where "s1 = (if ?L \<noteq> 1 then wasm_move_data (length xs + ?L) (length xs + 1) (length payload) ?s else ?s)"
  have s1: "stream_has s1 (take (length xs + ?L) (xs @ [0] @ payload) @ payload) \<and> offset s1 = offset ?s"
  proof (cases "?L = 1")
    case True
    then show ?thesis using has by (simp add: s1_def)
  next
    case False
    then have "128 \<le> length payload" using leb_long_iff [of ?sz] sz by simp
    moreover have "take (length payload) (drop (length xs + 1) (xs @ [0] @ payload)) = payload"
      by simp
    moreover have "drop (length xs + ?L + length payload) (xs @ [0] @ payload) = []"
      using L by (simp only: drop_eq_Nil length_append length_Cons list.size)
    moreover have "length xs + ?L \<le> length (xs @ [0] @ payload)"
      using L \<open>128 \<le> length payload\<close> by (simp only: length_append length_Cons list.size)
    ultimately show ?thesis
      using False move_data_has [OF has, of "length xs + 1" "length payload" "length xs + ?L"]
      by (simp add: s1_def overwrite_def)
  qed
  have split: "take (length xs + ?L) (xs @ [0] @ payload) @ payload
      = xs @ take ?L (0 # payload) @ payload" by simp
  have mid: "length (take ?L (0 # payload)) = ?L"
    using L leb_long_iff [of ?sz] sz by (cases "?L = 1") (auto simp: min_def)
  have s2: "stream_has (wasm_write_data_at (length xs) ?leb s1) (xs @ ?leb @ payload)"
    and s2_off: "offset (wasm_write_data_at (length xs) ?leb s1) = offset ?s"
    using write_data_at_has [of s1 "xs @ take ?L (0 # payload) @ payload" "length xs" ?leb] s1 mid
    unfolding split by simp_all
  have moved: "unat (u32_of_nat (length xs) + u32_of_nat ?L) = length xs + ?L"
    "unat (u32_of_nat (length xs) + u32_of_nat 1) = length xs + 1"
    using unat_u32_of_nat [of "length xs + ?L"] unat_u32_of_nat [of "length xs + 1"] len
      order.strict_trans1 [OF add_mono [OF order.refl Suc_leI [OF L(1)]], of "length xs" "2 ^ 32"]
    by (simp_all add: add.commute)
  have grow: "unat (u32_of_nat ?L - u32_of_nat 1 :: u32) = ?L - 1"
    using L(2) unat_u32_of_nat [of "?L - 1"] of_nat_diff [OF Suc_leI [OF L(1)], where 'a = "32 word"] by simp
  have fixed: "ctx_stream (write_fixup_u32_leb128_size (u32_of_nat (length xs)) 1 ctx)
      = (wasm_write_data_at (length xs) ?leb s1)\<lparr>offset := offset (wasm_write_data_at (length xs) ?leb s1) + (?L - 1)\<rparr>"
    using assms(2) opts len
    by (simp add: write_fixup_u32_leb128_size_def Let_def on_stream_def sz_eq [simplified] size_u32_leb128_length
        moved [simplified] grow [simplified] sz wasm_write_u32_leb128_at_def s1_def)
  have "offset ?s + (?L - 1) = length xs + ?L + length payload"
    using off L by linarith
  then have "stream_at (ctx_stream (write_fixup_u32_leb128_size (u32_of_nat (length xs)) 1 ctx)) (xs @ ?leb @ payload)"
    unfolding fixed stream_at_def s2_off using s2 by simp
  moreover have "ctx_options (write_fixup_u32_leb128_size (u32_of_nat (length xs)) 1 ctx) = opts"
    using opts by (simp add: write_fixup_u32_leb128_size_def on_stream_def Let_def)
  ultimately show ?thesis
    by (simp add: ctx_at_def enc_sized_def enc_size_def enc_nat_def assms(2))
qed

lemma fixup:
  "ctx_at opts ctx (xs @ leb_space opts @ payload) \<Longrightarrow> length xs + length (enc_sized opts payload) < 2 ^ 32 \<Longrightarrow>
     ctx_at opts (write_fixup_u32_leb128_size (u32_of_nat (length xs)) 1 ctx) (xs @ enc_sized opts payload)"
  using fixup_canonical fixup_fixed by blast

lemma keeps_fixup: "keeps_section (write_fixup_u32_leb128_size off n)"
  by (simp add: keeps_section_def write_fixup_u32_leb128_size_def on_stream_def Let_def)

lemma space_le_sized: "length (leb_space opts) + length payload \<le> length (enc_sized opts payload)"
  by (auto simp: leb_space_def enc_sized_def enc_size_def enc_nat_def MAX_U32_LEB128_BYTES_def Suc_le_eq)

lemma sized_block:
  assumes "ctx_at opts ctx xs" "length xs + length (enc_sized opts payload) < 2 ^ 32"
    and "ctx_appends opts f payload" and "write_u32_leb128_space 1 ctx = (off, ctx1)"
  shows "ctx_at opts (f ctx1) (xs @ leb_space opts @ payload)" and "off = u32_of_nat (length xs)"
proof -
  have len: "length xs + length (leb_space opts) + length payload < 2 ^ 32"
    using assms(2) space_le_sized [of opts payload] by linarith
  then have sp: "ctx_at opts ctx1 (xs @ leb_space opts)" and "off = u32_of_nat (length xs)"
    using write_space [OF assms(1) _ assms(4)] by linarith+
  then show "off = u32_of_nat (length xs)" by simp
  show "ctx_at opts (f ctx1) (xs @ leb_space opts @ payload)"
    using ctx_appendsD [OF assms(3) sp] len by simp
qed

lemma ctx_appends_func_body:
  assumes "WASM_TYPE_VOID \<notin> set (local_types func)"
  shows "ctx_appends opts (write_func_body m func) (enc_sized opts (enc_func m func))"
  unfolding ctx_appends_def
proof (intro allI impI)
  fix ctx xs
  assume at: "ctx_at opts ctx xs" and len: "length xs + length (enc_sized opts (enc_func m func)) < 2 ^ 32"
  obtain off ctx1 where sp: "write_u32_leb128_space 1 ctx = (off, ctx1)" by force
  note body = sized_block [OF at len ctx_appends_on_stream [OF appends_func [OF assms]] sp]
  show "ctx_at opts (write_func_body m func ctx) (xs @ enc_sized opts (enc_func m func))"
    using fixup [OF body(1) len] unfolding write_func_body_def sp body(2) by simp
qed

lemma keeps_func_body: "keeps_section (write_func_body m func)"
  using keeps_fixup
  by (auto simp: keeps_section_def write_func_body_def write_u32_leb128_space_def on_stream_def Let_def)

text \<open>
  A section: the body runs between \<open>begin\<close> and \<open>end_section\<close>, and the size prefix is that of
  what the body wrote. \<open>pre\<close> is what the \<open>begin\<close> function writes after the size (the name of a
  custom section).
\<close>

lemma section_end:
  assumes at: "ctx_at opts ctx xs" and len: "length xs + length (enc_sized opts payload) < 2 ^ 32"
    and body: "ctx_appends opts f payload" and keeps: "keeps_section f"
    and sp: "write_u32_leb128_space 1 ctx = (off, ctx1)"
  shows "ctx_at opts (end_section (f (ctx1\<lparr>last_section_leb_size_guess := 1, last_section_offset := unat off\<rparr>)))
           (xs @ enc_sized opts payload)"
proof -
  let ?ctx2 = "ctx1\<lparr>last_section_leb_size_guess := 1, last_section_offset := unat off\<rparr>"
  have sp_le: "length xs + length (leb_space opts) + length payload < 2 ^ 32"
    using len space_le_sized [of opts payload] by linarith
  have ctx1: "ctx_at opts ctx1 (xs @ leb_space opts)" and off: "off = u32_of_nat (length xs)"
    using write_space [OF at _ sp] sp_le by auto
  from ctx1 have "ctx_at opts ?ctx2 (xs @ leb_space opts)" by (simp add: ctx_at_def)
  from ctx_appendsD [OF body this] sp_le have "ctx_at opts (f ?ctx2) (xs @ leb_space opts @ payload)"
    by simp
  from fixup [OF this len] show ?thesis
    using keeps len by (simp add: end_section_def keeps_section_def Let_def off ctx_at_def)
qed

lemma ctx_appends_known_section:
  assumes "ctx_appends opts (run body) payload" and "\<And>f. f \<in> set body \<Longrightarrow> keeps_section f"
  shows "ctx_appends opts (known_section section_code body) (enc_section opts section_code payload)"
  unfolding ctx_appends_def
proof (intro allI impI)
  fix ctx xs
  assume at: "ctx_at opts ctx xs" and len: "length xs + length (enc_section opts section_code payload) < 2 ^ 32"
  let ?ctx1 = "on_stream (wasm_write_u8 (u32_of_nat section_code)) ctx"
  have ctx1: "ctx_at opts ?ctx1 (xs @ [word_of_nat section_code])"
    using at len ctx_appends_on_stream [OF appends_code [of section_code], of opts]
    by (auto simp: ctx_appends_def enc_section_def)
  obtain off ctx2 where sp: "write_u32_leb128_space 1 ?ctx1 = (off, ctx2)" by force
  have "length (xs @ [word_of_nat section_code]) + length (enc_sized opts payload) < 2 ^ 32"
    using len by (simp add: enc_section_def)
  from section_end [OF ctx1 this assms(1) keeps_run [OF assms(2)] sp]
  show "ctx_at opts (known_section section_code body ctx) (xs @ enc_section opts section_code payload)"
    by (simp add: known_section_def begin_known_section_def sp enc_section_def del: One_nat_def)
qed

lemma ctx_appends_vec:
  assumes "\<And>x. x \<in> set xs \<Longrightarrow> appends (f x) (enc x)"
  shows "ctx_appends opts
      (if xs \<noteq> [] then known_section section_code [on_stream (write_count xs), on_stream (run (map f xs))] else run [])
      (enc_vec_section opts section_code enc xs)"
  unfolding enc_vec_section_def enc_vec_def
  by (auto simp del: run.simps simp: keeps_on_stream intro!: ctx_appends_known_section ctx_appends_run_Nil
      ctx_appends_run_Cons ctx_appends_run1 ctx_appends_on_stream appends_nat appends_run_map assms)

lemma appends_func_type: "appends (write_func_type ft) (enc_func_type ft)"
  unfolding write_func_type_def enc_func_type_def enc_vec_def append.simps append_assoc
  by (intro appends_run_Cons appends_run_append appends_type appends_nat appends_run_map)

lemma appends_import: "appends (write_import m import) (enc_import m import)"
  unfolding write_import_def enc_import_def
  by (intro appends_run_Cons appends_run1 appends_str appends_code)
    (auto split: WasmImportDesc.split
      intro: appends_index appends_table appends_memory appends_global_header)

lemma appends_global: "appends (write_global m global) (enc_global m global)"
  unfolding write_global_def enc_global_def
  by (intro appends_run_Cons appends_run1 appends_global_header appends_init)

lemma appends_export: "appends (write_export m export) (enc_export m export)"
  unfolding write_export_def enc_export_def
  by (intro appends_run_Cons appends_run1 appends_str appends_code appends_index)

lemma appends_elem_segment: "appends (write_elem_segment m segment) (enc_elem_segment m segment)"
  unfolding write_elem_segment_def enc_elem_segment_def enc_vec_def append.simps
  by (intro appends_run_Cons appends_run_append appends_index appends_init appends_nat appends_run_map)

lemma appends_data_segment: "appends (write_data_segment m segment) (enc_data_segment m segment)"
  unfolding write_data_segment_def enc_data_segment_def
  by (intro appends_run_Cons appends_run1 appends_index appends_init appends_nat appends_write_data)

lemma length_func_local_names: "length (func_local_names func) = wasm_get_num_params_and_locals func"
  by (simp add: func_local_names_def wasm_get_num_params_and_locals_def wasm_get_num_params_def)

lemma appends_func_names: "appends (write_func_names func) (enc_func_names func)"
proof -
  have "appends (run ([wasm_write_str (func_name func), wasm_write_u32_leb128 (u32_of_nat (length (func_local_names func)))]
      @ map wasm_write_str (func_local_names func))) (enc_func_names func)"
    unfolding enc_func_names_def enc_vec_def append.simps
    by (intro appends_run_Cons appends_str appends_nat appends_run_map)
  moreover have "func_local_names func = []" if "wasm_get_num_params_and_locals func = 0"
    using that length_func_local_names [of func] by simp
  ultimately show ?thesis
    unfolding write_func_names_def length_func_local_names
    by (cases "wasm_get_num_params_and_locals func = 0") (simp_all only: func_local_names_def map_append, simp_all)
qed

lemma ctx_appends_start: "ctx_appends opts (write_start_section m) (enc_start_section opts m)"
  unfolding write_start_section_def enc_start_section_def Let_def
  by (auto simp del: run.simps simp: keeps_on_stream split: option.split intro!: ctx_appends_run_Nil
      ctx_appends_known_section ctx_appends_run1 ctx_appends_on_stream appends_index)

lemma ctx_appends_code_section:
  assumes "\<forall>func \<in> set (defined_funcs m). WASM_TYPE_VOID \<notin> set (local_types func)"
  shows "ctx_appends opts (write_code_section m)
      (enc_vec_section opts WASM_BINARY_SECTION_CODE (\<lambda>func. enc_sized opts (enc_func m func)) (defined_funcs m))"
  unfolding write_code_section_def enc_vec_section_def enc_vec_def
  using assms
  by (auto simp del: run.simps simp: keeps_on_stream keeps_func_body intro!: ctx_appends_run_Nil
      ctx_appends_known_section ctx_appends_run_Cons ctx_appends_on_stream appends_nat ctx_appends_run_map
      ctx_appends_func_body)

lemma ctx_appends_custom_section:
  assumes body: "ctx_appends opts (run body) payload" and keeps: "\<And>f. f \<in> set body \<Longrightarrow> keeps_section f"
  shows "ctx_appends opts (run (begin_custom_section name 1 # body @ [end_section]))
      (enc_section opts WASM_BINARY_SECTION_CUSTOM (enc_str (Some (cstr name)) @ payload))"
  unfolding ctx_appends_def
proof (intro allI impI)
  fix ctx xs
  let ?name = "on_stream (wasm_write_str (Some (cstr name)))"
  let ?code = "word_of_nat WASM_BINARY_SECTION_CUSTOM :: byte"
  let ?payload = "enc_str (Some (cstr name)) @ payload"
  assume at: "ctx_at opts ctx xs"
    and len: "length xs + length (enc_section opts WASM_BINARY_SECTION_CUSTOM ?payload) < 2 ^ 32"
  let ?ctx1 = "on_stream (wasm_write_u8 (u32_of_nat WASM_BINARY_SECTION_CUSTOM)) ctx"
  have ctx1: "ctx_at opts ?ctx1 (xs @ [?code])"
    using at len ctx_appends_on_stream [OF appends_code [of WASM_BINARY_SECTION_CUSTOM], of opts]
    by (auto simp: ctx_appends_def enc_section_def)
  obtain off ctx2 where sp: "write_u32_leb128_space 1 ?ctx1 = (off, ctx2)" by force
  have len1: "length (xs @ [?code]) + length (enc_sized opts ?payload) < 2 ^ 32"
    using len by (simp add: enc_section_def)
  have all: "ctx_appends opts (run (?name # body)) ?payload"
    by (intro ctx_appends_run_Cons ctx_appends_on_stream appends_str body)
  have "keeps_section (run (?name # body))"
    by (rule keeps_run) (auto simp: keeps_on_stream keeps)
  from section_end [OF ctx1 len1 all this sp]
  show "ctx_at opts (run (begin_custom_section name 1 # body @ [end_section]) ctx)
      (xs @ enc_section opts WASM_BINARY_SECTION_CUSTOM ?payload)"
    unfolding run.simps run_append begin_custom_section_def Let_def sp enc_section_def by simp
qed

lemma keeps_pair: "h \<in> set [on_stream f, on_stream g] \<Longrightarrow> keeps_section h"
  by (auto simp: keeps_on_stream)

lemma ctx_appends_names: "ctx_appends opts (write_names_section m) (enc_names_section opts m)"
proof -
  have "ctx_appends opts (run [on_stream (write_count (funcs m)), on_stream (run (map write_func_names (funcs m)))])
      (enc_vec enc_func_names (funcs m))"
    unfolding enc_vec_def
    by (intro ctx_appends_run_Cons ctx_appends_run1 ctx_appends_on_stream appends_nat appends_run_map appends_func_names)
  from ctx_appends_custom_section [OF this keeps_pair]
  have "ctx_appends opts (run (begin_custom_section ''name'' 1 # [on_stream (write_count (funcs m)),
        on_stream (run (map write_func_names (funcs m)))] @ [end_section]))
      (enc_section opts WASM_BINARY_SECTION_CUSTOM (enc_str (Some (cstr ''name'')) @ enc_vec enc_func_names (funcs m)))"
    by simp
  then show ?thesis
    by (auto simp: ctx_appends_def enc_names_section_def write_names_section_def ctx_at_def)
qed

subsection \<open>The module\<close>

theorem write_module_correct:
  assumes "\<forall>func \<in> set (defined_funcs m). WASM_TYPE_VOID \<notin> set (local_types func)"
  shows "ctx_appends opts (write_module m) (enc_module opts m)"
  unfolding write_module_def enc_module_def enc_sections_def concat.simps append_assoc
  unfolding write_type_section_def write_import_section_def write_function_section_def write_table_section_def
    write_memory_section_def write_global_section_def write_export_section_def write_elem_section_def
    write_data_section_def
  by (intro ctx_appends_run_Cons ctx_appends_run_Nil ctx_appends_on_stream appends_u32 ctx_appends_vec
      ctx_appends_start ctx_appends_names ctx_appends_code_section assms
      appends_func_type appends_import appends_index appends_table appends_memory appends_global appends_export
      appends_elem_segment appends_data_segment)

theorem wasm_write_binary_module_correct:
  assumes "\<forall>func \<in> set (defined_funcs m). WASM_TYPE_VOID \<notin> set (local_types func)"
    and "length (enc_module opts m) < 2 ^ 32"
    and "write_data w = Some wd" "move_data w = mv" "invar (user_data w)" "contents (user_data w) = []"
  shows "fst (wasm_write_binary_module w m opts) = WASM_OK
    \<and> contents (user_data (snd (wasm_write_binary_module w m opts))) = enc_module opts m"
proof -
  let ?ctx = "\<lparr>ctx_stream = wasm_init_stream w, ctx_options = opts,
      last_section_offset = 0, last_section_leb_size_guess = 0\<rparr>"
  have "ctx_at opts ?ctx []"
    using assms(3-) by (simp add: ctx_at_def stream_at_def stream_has_def wasm_init_stream_def)
  from ctx_appendsD [OF write_module_correct [OF assms(1)] this] assms(2)
  show ?thesis
    by (simp add: wasm_write_binary_module_def Let_def ctx_at_def stream_at_def stream_has_def)
qed

end

end
