(* ===== verification/Wabt_Reader_Events.thy ===== *)
theory Wabt_Reader_Events
  imports Wabt_Common
begin

text \<open>
  The callbacks of \<open>WasmBinaryReader\<close> (\<^verbatim>\<open>binary-reader.h\<close>). The struct of function pointers
  is represented by one datatype of calls, grouped as the header groups them: a constructor
  per member, holding the arguments the reader passes. An array argument and its count are
  one list. A reader object is then a function from calls (\<^verbatim>\<open>binary-reader.c\<close>'s \<open>CALLBACK\<close>
  macros) to a \<open>WasmResult\<close>; a NULL member is a call answered \<open>WASM_OK\<close>. Members the
  reader never calls (\<open>begin_function_body_pass\<close>, \<open>end_function_body_pass\<close>,
  \<open>on_call_import_expr\<close>) have no constructor.
\<close>

datatype (plugins only: code) OpcodeEvent =
    On_opcode WasmOpcode | On_opcode_bare | On_opcode_uint32 u32 | On_opcode_uint32_uint32 u32 u32
   | On_opcode_uint64 u64 | On_opcode_f32 u32 | On_opcode_f64 u64
   | On_opcode_block_sig "WasmType list"

datatype (plugins only: code) ExprEvent =
    On_binary_expr WasmOpcode | On_block_expr "WasmType list" | On_br_expr u32 | On_br_if_expr u32
   | On_br_table_expr "u32 list" u32 | On_call_expr u32 | On_call_indirect_expr u32
   | On_compare_expr WasmOpcode | On_convert_expr WasmOpcode | On_drop_expr | On_else_expr
   | On_end_expr | On_f32_const_expr u32 | On_f64_const_expr u64 | On_get_global_expr u32
   | On_get_local_expr u32 | On_grow_memory_expr | On_i32_const_expr u32 | On_i64_const_expr u64
   | On_if_expr "WasmType list" | On_load_expr WasmOpcode u32 u32 | On_loop_expr "WasmType list"
   | On_current_memory_expr | On_nop_expr | On_return_expr | On_select_expr | On_set_global_expr u32
   | On_set_local_expr u32 | On_store_expr WasmOpcode u32 u32 | On_tee_local_expr u32
   | On_unary_expr WasmOpcode | On_unreachable_expr

datatype (plugins only: code) InitExprEvent =
    On_init_expr_f32_const_expr u32 u32 | On_init_expr_f64_const_expr u32 u64
   | On_init_expr_get_global_expr u32 u32 | On_init_expr_i32_const_expr u32 u32
   | On_init_expr_i64_const_expr u32 u64

datatype (plugins only: code) SignatureEvent =
    Begin_signature_section u32 | On_signature_count u32
   | On_signature u32 "WasmType list" "WasmType list" | End_signature_section

datatype (plugins only: code) ImportEvent =
    Begin_import_section u32 | On_import_count u32 | On_import u32 WasmStringSlice WasmStringSlice
   | On_import_func u32 u32 | On_import_table u32 WasmType WasmLimits
   | On_import_memory u32 WasmLimits | On_import_global u32 WasmType bool | End_import_section

datatype (plugins only: code) FunctionEvent =
    Begin_function_signatures_section u32 | On_function_signatures_count u32
   | On_function_signature u32 u32 | End_function_signatures_section

datatype (plugins only: code) TableEvent =
    Begin_table_section u32 | On_table_count u32 | On_table u32 WasmType WasmLimits
   | End_table_section

datatype (plugins only: code) MemoryEvent =
    Begin_memory_section u32 | On_memory_count u32 | On_memory u32 WasmLimits | End_memory_section

datatype (plugins only: code) GlobalEvent =
    Begin_global_section u32 | On_global_count u32 | Begin_global u32 WasmType bool
   | Begin_global_init_expr u32 | End_global_init_expr u32 | End_global u32 | End_global_section

datatype (plugins only: code) ExportEvent =
    Begin_export_section u32 | On_export_count u32
   | On_export u32 WasmExternalKind u32 WasmStringSlice | End_export_section

datatype (plugins only: code) StartEvent =
    Begin_start_section u32 | On_start_function u32 | End_start_section

datatype (plugins only: code) CodeEvent =
    Begin_function_bodies_section u32 | On_function_bodies_count u32 | Begin_function_body u32
   | On_local_decl_count u32 | On_local_decl u32 u32 WasmType | End_function_body u32
   | End_function_bodies_section

datatype (plugins only: code) ElemEvent =
    Begin_elem_section u32 | On_elem_segment_count u32 | Begin_elem_segment u32 u32
   | Begin_elem_segment_init_expr u32 | End_elem_segment_init_expr u32
   | On_elem_segment_function_index_count u32 u32 | On_elem_segment_function_index u32 u32
   | End_elem_segment u32 | End_elem_section

datatype (plugins only: code) DataEvent =
    Begin_data_section u32 | On_data_segment_count u32 | Begin_data_segment u32 u32
   | Begin_data_segment_init_expr u32 | End_data_segment_init_expr u32
   | On_data_segment_data u32 "byte list" | End_data_segment u32 | End_data_section

datatype (plugins only: code) NamesEvent =
    Begin_names_section u32 | On_function_names_count u32 | On_function_name u32 WasmStringSlice
   | On_local_names_count u32 u32 | On_local_name u32 u32 WasmStringSlice | End_names_section

datatype (plugins only: code) WasmReaderEvent =
    Begin_module u32 | End_module | Begin_section nat u32 | Begin_custom_section u32 WasmStringSlice
   | End_custom_section | Opcode_event OpcodeEvent | Expr_event ExprEvent
   | InitExpr_event InitExprEvent | Signature_event SignatureEvent | Import_event ImportEvent
   | Function_event FunctionEvent | Table_event TableEvent | Memory_event MemoryEvent
   | Global_event GlobalEvent | Export_event ExportEvent | Start_event StartEvent
   | Code_event CodeEvent | Elem_event ElemEvent | Data_event DataEvent | Names_event NamesEvent

text \<open>The name of the callback, which the error message of a failed callback quotes.\<close>

primrec opcode_member_name :: "OpcodeEvent \<Rightarrow> string" where
  "opcode_member_name (On_opcode a0) = ''on_opcode''"
| "opcode_member_name On_opcode_bare = ''on_opcode_bare''"
| "opcode_member_name (On_opcode_uint32 a0) = ''on_opcode_uint32''"
| "opcode_member_name (On_opcode_uint32_uint32 a0 a1) = ''on_opcode_uint32_uint32''"
| "opcode_member_name (On_opcode_uint64 a0) = ''on_opcode_uint64''"
| "opcode_member_name (On_opcode_f32 a0) = ''on_opcode_f32''"
| "opcode_member_name (On_opcode_f64 a0) = ''on_opcode_f64''"
| "opcode_member_name (On_opcode_block_sig a0) = ''on_opcode_block_sig''"

primrec expr_member_name :: "ExprEvent \<Rightarrow> string" where
  "expr_member_name (On_binary_expr a0) = ''on_binary_expr''"
| "expr_member_name (On_block_expr a0) = ''on_block_expr''"
| "expr_member_name (On_br_expr a0) = ''on_br_expr''"
| "expr_member_name (On_br_if_expr a0) = ''on_br_if_expr''"
| "expr_member_name (On_br_table_expr a0 a1) = ''on_br_table_expr''"
| "expr_member_name (On_call_expr a0) = ''on_call_expr''"
| "expr_member_name (On_call_indirect_expr a0) = ''on_call_indirect_expr''"
| "expr_member_name (On_compare_expr a0) = ''on_compare_expr''"
| "expr_member_name (On_convert_expr a0) = ''on_convert_expr''"
| "expr_member_name On_drop_expr = ''on_drop_expr''"
| "expr_member_name On_else_expr = ''on_else_expr''"
| "expr_member_name On_end_expr = ''on_end_expr''"
| "expr_member_name (On_f32_const_expr a0) = ''on_f32_const_expr''"
| "expr_member_name (On_f64_const_expr a0) = ''on_f64_const_expr''"
| "expr_member_name (On_get_global_expr a0) = ''on_get_global_expr''"
| "expr_member_name (On_get_local_expr a0) = ''on_get_local_expr''"
| "expr_member_name On_grow_memory_expr = ''on_grow_memory_expr''"
| "expr_member_name (On_i32_const_expr a0) = ''on_i32_const_expr''"
| "expr_member_name (On_i64_const_expr a0) = ''on_i64_const_expr''"
| "expr_member_name (On_if_expr a0) = ''on_if_expr''"
| "expr_member_name (On_load_expr a0 a1 a2) = ''on_load_expr''"
| "expr_member_name (On_loop_expr a0) = ''on_loop_expr''"
| "expr_member_name On_current_memory_expr = ''on_current_memory_expr''"
| "expr_member_name On_nop_expr = ''on_nop_expr''"
| "expr_member_name On_return_expr = ''on_return_expr''"
| "expr_member_name On_select_expr = ''on_select_expr''"
| "expr_member_name (On_set_global_expr a0) = ''on_set_global_expr''"
| "expr_member_name (On_set_local_expr a0) = ''on_set_local_expr''"
| "expr_member_name (On_store_expr a0 a1 a2) = ''on_store_expr''"
| "expr_member_name (On_tee_local_expr a0) = ''on_tee_local_expr''"
| "expr_member_name (On_unary_expr a0) = ''on_unary_expr''"
| "expr_member_name On_unreachable_expr = ''on_unreachable_expr''"

primrec init_expr_member_name :: "InitExprEvent \<Rightarrow> string" where
  "init_expr_member_name (On_init_expr_f32_const_expr a0 a1) = ''on_init_expr_f32_const_expr''"
| "init_expr_member_name (On_init_expr_f64_const_expr a0 a1) = ''on_init_expr_f64_const_expr''"
| "init_expr_member_name (On_init_expr_get_global_expr a0 a1) = ''on_init_expr_get_global_expr''"
| "init_expr_member_name (On_init_expr_i32_const_expr a0 a1) = ''on_init_expr_i32_const_expr''"
| "init_expr_member_name (On_init_expr_i64_const_expr a0 a1) = ''on_init_expr_i64_const_expr''"

primrec signature_member_name :: "SignatureEvent \<Rightarrow> string" where
  "signature_member_name (Begin_signature_section a0) = ''begin_signature_section''"
| "signature_member_name (On_signature_count a0) = ''on_signature_count''"
| "signature_member_name (On_signature a0 a1 a2) = ''on_signature''"
| "signature_member_name End_signature_section = ''end_signature_section''"

primrec import_member_name :: "ImportEvent \<Rightarrow> string" where
  "import_member_name (Begin_import_section a0) = ''begin_import_section''"
| "import_member_name (On_import_count a0) = ''on_import_count''"
| "import_member_name (On_import a0 a1 a2) = ''on_import''"
| "import_member_name (On_import_func a0 a1) = ''on_import_func''"
| "import_member_name (On_import_table a0 a1 a2) = ''on_import_table''"
| "import_member_name (On_import_memory a0 a1) = ''on_import_memory''"
| "import_member_name (On_import_global a0 a1 a2) = ''on_import_global''"
| "import_member_name End_import_section = ''end_import_section''"

primrec function_member_name :: "FunctionEvent \<Rightarrow> string" where
  "function_member_name (Begin_function_signatures_section a0) = ''begin_function_signatures_section''"
| "function_member_name (On_function_signatures_count a0) = ''on_function_signatures_count''"
| "function_member_name (On_function_signature a0 a1) = ''on_function_signature''"
| "function_member_name End_function_signatures_section = ''end_function_signatures_section''"

primrec table_member_name :: "TableEvent \<Rightarrow> string" where
  "table_member_name (Begin_table_section a0) = ''begin_table_section''"
| "table_member_name (On_table_count a0) = ''on_table_count''"
| "table_member_name (On_table a0 a1 a2) = ''on_table''"
| "table_member_name End_table_section = ''end_table_section''"

primrec memory_member_name :: "MemoryEvent \<Rightarrow> string" where
  "memory_member_name (Begin_memory_section a0) = ''begin_memory_section''"
| "memory_member_name (On_memory_count a0) = ''on_memory_count''"
| "memory_member_name (On_memory a0 a1) = ''on_memory''"
| "memory_member_name End_memory_section = ''end_memory_section''"

primrec global_member_name :: "GlobalEvent \<Rightarrow> string" where
  "global_member_name (Begin_global_section a0) = ''begin_global_section''"
| "global_member_name (On_global_count a0) = ''on_global_count''"
| "global_member_name (Begin_global a0 a1 a2) = ''begin_global''"
| "global_member_name (Begin_global_init_expr a0) = ''begin_global_init_expr''"
| "global_member_name (End_global_init_expr a0) = ''end_global_init_expr''"
| "global_member_name (End_global a0) = ''end_global''"
| "global_member_name End_global_section = ''end_global_section''"

primrec export_member_name :: "ExportEvent \<Rightarrow> string" where
  "export_member_name (Begin_export_section a0) = ''begin_export_section''"
| "export_member_name (On_export_count a0) = ''on_export_count''"
| "export_member_name (On_export a0 a1 a2 a3) = ''on_export''"
| "export_member_name End_export_section = ''end_export_section''"

primrec start_member_name :: "StartEvent \<Rightarrow> string" where
  "start_member_name (Begin_start_section a0) = ''begin_start_section''"
| "start_member_name (On_start_function a0) = ''on_start_function''"
| "start_member_name End_start_section = ''end_start_section''"

primrec code_member_name :: "CodeEvent \<Rightarrow> string" where
  "code_member_name (Begin_function_bodies_section a0) = ''begin_function_bodies_section''"
| "code_member_name (On_function_bodies_count a0) = ''on_function_bodies_count''"
| "code_member_name (Begin_function_body a0) = ''begin_function_body''"
| "code_member_name (On_local_decl_count a0) = ''on_local_decl_count''"
| "code_member_name (On_local_decl a0 a1 a2) = ''on_local_decl''"
| "code_member_name (End_function_body a0) = ''end_function_body''"
| "code_member_name End_function_bodies_section = ''end_function_bodies_section''"

primrec elem_member_name :: "ElemEvent \<Rightarrow> string" where
  "elem_member_name (Begin_elem_section a0) = ''begin_elem_section''"
| "elem_member_name (On_elem_segment_count a0) = ''on_elem_segment_count''"
| "elem_member_name (Begin_elem_segment a0 a1) = ''begin_elem_segment''"
| "elem_member_name (Begin_elem_segment_init_expr a0) = ''begin_elem_segment_init_expr''"
| "elem_member_name (End_elem_segment_init_expr a0) = ''end_elem_segment_init_expr''"
| "elem_member_name (On_elem_segment_function_index_count a0 a1) = ''on_elem_segment_function_index_count''"
| "elem_member_name (On_elem_segment_function_index a0 a1) = ''on_elem_segment_function_index''"
| "elem_member_name (End_elem_segment a0) = ''end_elem_segment''"
| "elem_member_name End_elem_section = ''end_elem_section''"

primrec data_member_name :: "DataEvent \<Rightarrow> string" where
  "data_member_name (Begin_data_section a0) = ''begin_data_section''"
| "data_member_name (On_data_segment_count a0) = ''on_data_segment_count''"
| "data_member_name (Begin_data_segment a0 a1) = ''begin_data_segment''"
| "data_member_name (Begin_data_segment_init_expr a0) = ''begin_data_segment_init_expr''"
| "data_member_name (End_data_segment_init_expr a0) = ''end_data_segment_init_expr''"
| "data_member_name (On_data_segment_data a0 a1) = ''on_data_segment_data''"
| "data_member_name (End_data_segment a0) = ''end_data_segment''"
| "data_member_name End_data_section = ''end_data_section''"

primrec names_member_name :: "NamesEvent \<Rightarrow> string" where
  "names_member_name (Begin_names_section a0) = ''begin_names_section''"
| "names_member_name (On_function_names_count a0) = ''on_function_names_count''"
| "names_member_name (On_function_name a0 a1) = ''on_function_name''"
| "names_member_name (On_local_names_count a0 a1) = ''on_local_names_count''"
| "names_member_name (On_local_name a0 a1 a2) = ''on_local_name''"
| "names_member_name End_names_section = ''end_names_section''"

primrec member_name :: "WasmReaderEvent \<Rightarrow> string" where
  "member_name (Begin_module a0) = ''begin_module''"
| "member_name End_module = ''end_module''"
| "member_name (Begin_section a0 a1) = ''begin_section''"
| "member_name (Begin_custom_section a0 a1) = ''begin_custom_section''"
| "member_name End_custom_section = ''end_custom_section''"
| "member_name (Opcode_event ev) = opcode_member_name ev"
| "member_name (Expr_event ev) = expr_member_name ev"
| "member_name (InitExpr_event ev) = init_expr_member_name ev"
| "member_name (Signature_event ev) = signature_member_name ev"
| "member_name (Import_event ev) = import_member_name ev"
| "member_name (Function_event ev) = function_member_name ev"
| "member_name (Table_event ev) = table_member_name ev"
| "member_name (Memory_event ev) = memory_member_name ev"
| "member_name (Global_event ev) = global_member_name ev"
| "member_name (Export_event ev) = export_member_name ev"
| "member_name (Start_event ev) = start_member_name ev"
| "member_name (Code_event ev) = code_member_name ev"
| "member_name (Elem_event ev) = elem_member_name ev"
| "member_name (Data_event ev) = data_member_name ev"
| "member_name (Names_event ev) = names_member_name ev"

end
