(* ===== verification/Wabt_Binary_Reader.thy ===== *)
theory Wabt_Binary_Reader
  imports Wabt_Reader_Events Wabt_Leb128
begin

text \<open>
  The binary reader (\<^verbatim>\<open>binary-reader.c\<close>). The reader walks a byte array and calls the members
  of a \<open>WasmBinaryReader\<close>; \<open>RAISE_ERROR\<close> reports through \<open>on_error\<close> and leaves the whole
  read by \<open>longjmp\<close>. Here a reading function takes the \<open>Context\<close> and returns either a fault
  with the context at that point or a value with the new context.

  Scope. \<open>on_error\<close> is not NULL, as in every reader object of the repository (with a NULL
  member \<open>RAISE_ERROR\<close> does nothing and reading goes on). The data lies in memory, so
  offsets are natural numbers; \<open>uint32_t\<close> values keep their width. \<open>memcpy\<close> of a 32 or
  64 bit value is little-endian. The growable scratch arrays \<open>param_types\<close> and
  \<open>target_depths\<close> appear only as the lists that are read into them. The logging reader
  (\<open>log_stream\<close>), which prints each call before passing it on, is left out.

  A read of a byte outside the data is a fault of its own, \<open>BadAccess\<close>, so that memory safety
  is a theorem about the model and not an assumption of it.
\<close>

subsection \<open>State, errors and sequencing\<close>

record WasmReadBinaryOptions =
  read_debug_names :: bool

record WasmBinaryReaderContext =
  uc_data :: "byte list"
  uc_size :: nat
  uc_offset :: nat

text \<open>The format and the arguments of an error stand for the message \<open>on_error\<close> receives.\<close>

record 'u WasmBinaryReader =
  on_error :: "WasmBinaryReaderContext \<Rightarrow> string \<Rightarrow> ErrorArg list \<Rightarrow> 'u \<Rightarrow> 'u"
  reader_member :: "WasmReaderEvent \<Rightarrow> WasmBinaryReaderContext option \<Rightarrow> 'u \<Rightarrow> WasmResult \<times> 'u"

text \<open>The counters of \<open>Context\<close>, as one record.\<close>

record ContextCounts =
  last_known_section_code :: nat
  c_num_signatures :: u32
  c_num_imports :: u32
  c_num_func_imports :: u32
  c_num_table_imports :: u32
  c_num_memory_imports :: u32
  c_num_global_imports :: u32
  c_num_function_signatures :: u32
  c_num_tables :: u32
  c_num_memories :: u32
  c_num_globals :: u32
  c_num_exports :: u32
  c_num_function_bodies :: u32

record 'u Context =
  c_data :: "byte list"
  c_offset :: nat
  c_read_end :: nat
  c_user_data :: 'u
  c_reader :: "'u WasmBinaryReader"
  c_options :: WasmReadBinaryOptions
  c_counts :: ContextCounts

abbreviation c_data_size :: "'u Context \<Rightarrow> nat" where
  "c_data_size ctx \<equiv> length (c_data ctx)"

datatype Fault = Raised string "ErrorArg list" | BadAccess

type_synonym ('u, 'a) reading = "'u Context \<Rightarrow> Fault \<times> 'u Context + 'a \<times> 'u Context"

definition rret :: "'a \<Rightarrow> ('u, 'a) reading" where
  "rret x ctx = Inr (x, ctx)"

definition rbind :: "('u, 'a) reading \<Rightarrow> ('a \<Rightarrow> ('u, 'b) reading) \<Rightarrow> ('u, 'b) reading" where
  "rbind m k ctx = (case m ctx of Inl f \<Rightarrow> Inl f | Inr (x, ctx') \<Rightarrow> k x ctx')"

abbreviation rthen :: "('u, 'a) reading \<Rightarrow> ('u, 'b) reading \<Rightarrow> ('u, 'b) reading" where
  "rthen m k \<equiv> rbind m (\<lambda>_. k)"

text \<open>Statements in sequence.\<close>

primrec rseq :: "('u, unit) reading list \<Rightarrow> ('u, unit) reading" where
  "rseq [] = rret ()"
| "rseq (m # ms) = rthen m (rseq ms)"

text \<open>\<open>for (i = 0; i < n; ++i)\<close>, without and with an array that the body fills.\<close>

primrec rfor :: "nat \<Rightarrow> nat \<Rightarrow> (u32 \<Rightarrow> ('u, unit) reading) \<Rightarrow> ('u, unit) reading" where
  "rfor i 0 body = rret ()"
| "rfor i (Suc n) body = rthen (body (u32_of_nat i)) (rfor (Suc i) n body)"

primrec rfill :: "nat \<Rightarrow> ('u, 'a) reading \<Rightarrow> ('u, 'a list) reading" where
  "rfill 0 m = rret []"
| "rfill (Suc n) m = rbind m (\<lambda>x. rbind (rfill n m) (\<lambda>xs. rret (x # xs)))"

definition get_user_context :: "'u Context \<Rightarrow> WasmBinaryReaderContext" where
  "get_user_context ctx = \<lparr>uc_data = c_data ctx, uc_size = c_data_size ctx, uc_offset = c_offset ctx\<rparr>"

definition raise_error :: "string \<Rightarrow> ErrorArg list \<Rightarrow> ('u, 'a) reading" where
  "raise_error format args ctx =
     Inl (Raised format args,
          ctx\<lparr>c_user_data := on_error (c_reader ctx) (get_user_context ctx) format args (c_user_data ctx)\<rparr>)"

definition raise_error_unless :: "bool \<Rightarrow> string \<Rightarrow> ErrorArg list \<Rightarrow> ('u, unit) reading" where
  "raise_error_unless cond format args = (if cond then rret () else raise_error format args)"

definition call_member :: "WasmReaderEvent \<Rightarrow> WasmBinaryReaderContext option \<Rightarrow> ('u, unit) reading" where
  "call_member ev uc ctx =
     (case reader_member (c_reader ctx) ev uc (c_user_data ctx) of
        (WASM_OK, u) \<Rightarrow> rret () (ctx\<lparr>c_user_data := u\<rparr>)
      | (WASM_ERROR, u) \<Rightarrow> raise_error (member_name ev @ '' callback failed'') [] (ctx\<lparr>c_user_data := u\<rparr>))"

text \<open>\<open>CALLBACK\<close> and \<open>CALLBACK0\<close> pass the user data, \<open>CALLBACK_CTX\<close> also the position.\<close>

definition callback :: "WasmReaderEvent \<Rightarrow> ('u, unit) reading" where
  "callback ev = call_member ev None"

definition callback_ctx :: "WasmReaderEvent \<Rightarrow> ('u, unit) reading" where
  "callback_ctx ev ctx = call_member ev (Some (get_user_context ctx)) ctx"

definition update_counts :: "(ContextCounts \<Rightarrow> ContextCounts) \<Rightarrow> ('u, unit) reading" where
  "update_counts f ctx = Inr ((), ctx\<lparr>c_counts := f (c_counts ctx)\<rparr>)"

definition get_counts :: "('u, ContextCounts) reading" where
  "get_counts ctx = Inr (c_counts ctx, ctx)"

subsection \<open>Primitive readers\<close>

text \<open>The \<open>IN_SIZE\<close> macro: \<open>n\<close> bytes at the current offset.\<close>

definition in_size :: "nat \<Rightarrow> string \<Rightarrow> string \<Rightarrow> ('u, byte list) reading" where
  "in_size n type desc ctx =
     (if c_read_end ctx < c_offset ctx + n then raise_error (''unable to read '' @ type @ '': %s'') [ArgStr desc] ctx
      else if c_data_size ctx < c_offset ctx + n then Inl (BadAccess, ctx)
      else Inr (take n (drop (c_offset ctx) (c_data ctx)), ctx\<lparr>c_offset := c_offset ctx + n\<rparr>))"

definition in_u8 :: "string \<Rightarrow> ('u, byte) reading" where
  "in_u8 desc = rbind (in_size 1 ''uint8_t'' desc) (\<lambda>bs. rret (le_word 1 bs))"

definition in_u32 :: "string \<Rightarrow> ('u, u32) reading" where
  "in_u32 desc = rbind (in_size 4 ''uint32_t'' desc) (\<lambda>bs. rret (le_word 4 bs))"

definition in_f32 :: "string \<Rightarrow> ('u, u32) reading" where
  "in_f32 desc = rbind (in_size 4 ''float'' desc) (\<lambda>bs. rret (le_word 4 bs))"

definition in_f64 :: "string \<Rightarrow> ('u, u64) reading" where
  "in_f64 desc = rbind (in_size 8 ''double'' desc) (\<lambda>bs. rret (le_word 8 bs))"

text \<open>
  The bytes between \<open>p = data + offset\<close> and \<open>end = data + read_end\<close>, which a LEB128 decoder
  may look at; an \<open>end\<close> outside the data is a bad access.
\<close>

definition window :: "'u Context \<Rightarrow> byte list" where
  "window ctx = take (c_read_end ctx - c_offset ctx) (drop (c_offset ctx) (c_data ctx))"

definition in_leb :: "(byte list \<Rightarrow> string + 'a \<times> nat) \<Rightarrow> string \<Rightarrow> ('u, 'a) reading" where
  "in_leb decode desc ctx =
     (if c_data_size ctx < c_read_end ctx then Inl (BadAccess, ctx)
      else case decode (window ctx) of
        Inl format \<Rightarrow> raise_error format [ArgStr desc] ctx
      | Inr (v, bytes_read) \<Rightarrow> Inr (v, ctx\<lparr>c_offset := c_offset ctx + bytes_read\<rparr>))"

definition in_u32_leb128 :: "string \<Rightarrow> ('u, u32) reading" where
  "in_u32_leb128 = in_leb (\<lambda>p. case wasm_read_u32_leb128 p of
       None \<Rightarrow> Inl ''unable to read u32 leb128: %s'' | Some r \<Rightarrow> Inr r)"

definition in_i32_leb128 :: "string \<Rightarrow> ('u, u32) reading" where
  "in_i32_leb128 = in_leb (\<lambda>p. case wasm_read_i32_leb128 p of
       None \<Rightarrow> Inl ''unable to read i32 leb128: %s'' | Some r \<Rightarrow> Inr r)"

definition in_i64_leb128 :: "string \<Rightarrow> ('u, u64) reading" where
  "in_i64_leb128 = in_leb (\<lambda>p. case read_i64_leb128 p of
       Inl invalid \<Rightarrow> Inl (if invalid then ''invalid i64 leb128: %s'' else ''unable to read i64 leb128: %s'')
     | Inr r \<Rightarrow> Inr r)"

definition in_type :: "string \<Rightarrow> ('u, WasmType) reading" where
  "in_type desc =
     rbind (in_i32_leb128 desc) (\<lambda>type.
     rthen (raise_error_unless (\<not> (sint type < - 128 \<or> 127 < sint type)) ''invalid type: %d'' [ArgInt (sint type)])
       (rret (wasm_type_of_code (sint type))))"

text \<open>\<open>in_str\<close> and \<open>in_bytes\<close> share the length check; the bytes are not copied by the reader.\<close>

definition in_span :: "string \<Rightarrow> string \<Rightarrow> u32 \<Rightarrow> ('u, byte list) reading" where
  "in_span format desc len ctx =
     (if c_read_end ctx < c_offset ctx + unat len then raise_error format [ArgStr desc] ctx
      else if c_data_size ctx < c_offset ctx + unat len then Inl (BadAccess, ctx)
      else Inr (take (unat len) (drop (c_offset ctx) (c_data ctx)), ctx\<lparr>c_offset := c_offset ctx + unat len\<rparr>))"

definition in_str :: "string \<Rightarrow> ('u, WasmStringSlice) reading" where
  "in_str desc =
     rbind (in_u32_leb128 ''string length'') (\<lambda>str_len.
     rbind (in_span ''unable to read string: %s'' desc str_len) (\<lambda>bs. rret (Some bs)))"

definition in_bytes :: "string \<Rightarrow> ('u, byte list) reading" where
  "in_bytes desc =
     rbind (in_u32_leb128 ''data size'') (\<lambda>data_size. in_span ''unable to read data: %s'' desc data_size)"

definition is_valid_external_kind :: "byte \<Rightarrow> bool" where
  "is_valid_external_kind kind \<longleftrightarrow> kind < 4"

definition is_concrete_type :: "WasmType \<Rightarrow> bool" where
  "is_concrete_type type \<longleftrightarrow>
     (case type of WASM_TYPE_I32 \<Rightarrow> True | WASM_TYPE_I64 \<Rightarrow> True | WASM_TYPE_F32 \<Rightarrow> True | WASM_TYPE_F64 \<Rightarrow> True
      | _ \<Rightarrow> False)"

definition is_inline_sig_type :: "WasmType \<Rightarrow> bool" where
  "is_inline_sig_type type \<longleftrightarrow> is_concrete_type type \<or> type = WASM_TYPE_VOID"

definition num_total_funcs :: "ContextCounts \<Rightarrow> u32" where
  "num_total_funcs c = c_num_func_imports c + c_num_function_signatures c"

definition num_total_tables :: "ContextCounts \<Rightarrow> u32" where
  "num_total_tables c = c_num_table_imports c + c_num_tables c"

definition num_total_memories :: "ContextCounts \<Rightarrow> u32" where
  "num_total_memories c = c_num_memory_imports c + c_num_memories c"

definition num_total_globals :: "ContextCounts \<Rightarrow> u32" where
  "num_total_globals c = c_num_global_imports c + c_num_globals c"

subsection \<open>Initializer expressions, tables, memories, globals\<close>

definition init_callback :: "InitExprEvent \<Rightarrow> ('u, unit) reading" where
  "init_callback ev = callback (InitExpr_event ev)"

text \<open>The \<open>switch\<close> of \<open>read_init_expr\<close>, but for END, which returns at once.\<close>

definition read_init_operand :: "u32 \<Rightarrow> WasmOpcode \<Rightarrow> ('u, unit) reading" where
  "read_init_operand index opcode =
     (if opcode = WASM_OPCODE_I32_CONST then
        rbind (in_i32_leb128 ''init_expr i32.const value'') (\<lambda>v. init_callback (On_init_expr_i32_const_expr index v))
      else if opcode = WASM_OPCODE_I64_CONST then
        rbind (in_i64_leb128 ''init_expr i64.const value'') (\<lambda>v. init_callback (On_init_expr_i64_const_expr index v))
      else if opcode = WASM_OPCODE_F32_CONST then
        rbind (in_f32 ''init_expr f32.const value'') (\<lambda>v. init_callback (On_init_expr_f32_const_expr index v))
      else if opcode = WASM_OPCODE_F64_CONST then
        rbind (in_f64 ''init_expr f64.const value'') (\<lambda>v. init_callback (On_init_expr_f64_const_expr index v))
      else if opcode = WASM_OPCODE_GET_GLOBAL then
        rbind (in_u32_leb128 ''init_expr get_global index'')
          (\<lambda>v. init_callback (On_init_expr_get_global_expr index v))
      else raise_error ''unexpected opcode in initializer expression: %d (0x%x)''
             [ArgInt (int opcode), ArgInt (int opcode)])"

definition read_init_expr :: "u32 \<Rightarrow> ('u, unit) reading" where
  "read_init_expr index =
     rbind (in_u8 ''opcode'') (\<lambda>opcode.
       if unat opcode = WASM_OPCODE_END then rret ()
       else rthen (read_init_operand index (unat opcode))
         (rbind (in_u8 ''opcode'') (\<lambda>opcode2.
            raise_error_unless (unat opcode2 = WASM_OPCODE_END)
              ''expected END opcode after initializer expression'' [])))"

definition make_limits :: "bool \<Rightarrow> u32 \<Rightarrow> u32 \<Rightarrow> WasmLimits" where
  "make_limits has_max init max_val = \<lparr>limits_initial = ucast init, limits_max = ucast max_val, limits_has_max = has_max\<rparr>"

definition read_table :: "('u, WasmType \<times> WasmLimits) reading" where
  "read_table =
     rbind (in_type ''table elem type'') (\<lambda>elem_type.
     rthen (raise_error_unless (elem_type = WASM_TYPE_ANYFUNC) ''table elem type must by anyfunc'' [])
     (rbind (in_u32_leb128 ''table flags'') (\<lambda>flags.
      rbind (in_u32_leb128 ''table initial elem count'') (\<lambda>init.
        if flags AND 1 \<noteq> 0 then
          rbind (in_u32_leb128 ''table max elem count'') (\<lambda>max.
          rthen (raise_error_unless (init \<le> max) ''table initial elem count must be <= max elem count'' [])
            (rret (elem_type, make_limits True init max)))
        else rret (elem_type, make_limits False init 0)))))"

definition WASM_MAX_PAGES :: u32 where "WASM_MAX_PAGES = 65536"

definition read_memory :: "('u, WasmLimits) reading" where
  "read_memory =
     rbind (in_u32_leb128 ''memory flags'') (\<lambda>flags.
     rbind (in_u32_leb128 ''memory initial page count'') (\<lambda>init.
     rthen (raise_error_unless (init \<le> WASM_MAX_PAGES) ''invalid memory initial size'' [])
       (if flags AND 1 \<noteq> 0 then
          rbind (in_u32_leb128 ''memory max page count'') (\<lambda>max.
          rthen (raise_error_unless (max \<le> WASM_MAX_PAGES) ''invalid memory max size'' [])
          (rthen (raise_error_unless (init \<le> max) ''memory initial size must be <= max size'' [])
            (rret (make_limits True init max))))
        else rret (make_limits False init 0))))"

definition read_global_header :: "('u, WasmType \<times> bool) reading" where
  "read_global_header =
     rbind (in_type ''global type'') (\<lambda>global_type.
     rthen (raise_error_unless (is_concrete_type global_type) ''expected valid global type'' [])
     (rbind (in_u8 ''global mutability'') (\<lambda>mut.
      rthen (raise_error_unless (mut \<le> 1) ''global mutability must be 0 or 1'' [])
        (rret (global_type, mut \<noteq> 0)))))"

subsection \<open>Function bodies\<close>

text \<open>The opcodes that the \<open>switch\<close> of \<open>read_function_body\<close> treats alike.\<close>

definition load_opcodes :: "WasmOpcode list" where
  "load_opcodes =
    [WASM_OPCODE_I32_LOAD8_S, WASM_OPCODE_I32_LOAD8_U, WASM_OPCODE_I32_LOAD16_S,
     WASM_OPCODE_I32_LOAD16_U, WASM_OPCODE_I64_LOAD8_S, WASM_OPCODE_I64_LOAD8_U,
     WASM_OPCODE_I64_LOAD16_S, WASM_OPCODE_I64_LOAD16_U, WASM_OPCODE_I64_LOAD32_S,
     WASM_OPCODE_I64_LOAD32_U, WASM_OPCODE_I32_LOAD, WASM_OPCODE_I64_LOAD, WASM_OPCODE_F32_LOAD,
     WASM_OPCODE_F64_LOAD]"

definition store_opcodes :: "WasmOpcode list" where
  "store_opcodes =
    [WASM_OPCODE_I32_STORE8, WASM_OPCODE_I32_STORE16, WASM_OPCODE_I64_STORE8, WASM_OPCODE_I64_STORE16,
     WASM_OPCODE_I64_STORE32, WASM_OPCODE_I32_STORE, WASM_OPCODE_I64_STORE, WASM_OPCODE_F32_STORE,
     WASM_OPCODE_F64_STORE]"

definition binary_opcodes :: "WasmOpcode list" where
  "binary_opcodes =
    [WASM_OPCODE_I32_ADD, WASM_OPCODE_I32_SUB, WASM_OPCODE_I32_MUL, WASM_OPCODE_I32_DIV_S,
     WASM_OPCODE_I32_DIV_U, WASM_OPCODE_I32_REM_S, WASM_OPCODE_I32_REM_U, WASM_OPCODE_I32_AND,
     WASM_OPCODE_I32_OR, WASM_OPCODE_I32_XOR, WASM_OPCODE_I32_SHL, WASM_OPCODE_I32_SHR_U,
     WASM_OPCODE_I32_SHR_S, WASM_OPCODE_I32_ROTR, WASM_OPCODE_I32_ROTL, WASM_OPCODE_I64_ADD,
     WASM_OPCODE_I64_SUB, WASM_OPCODE_I64_MUL, WASM_OPCODE_I64_DIV_S, WASM_OPCODE_I64_DIV_U,
     WASM_OPCODE_I64_REM_S, WASM_OPCODE_I64_REM_U, WASM_OPCODE_I64_AND, WASM_OPCODE_I64_OR,
     WASM_OPCODE_I64_XOR, WASM_OPCODE_I64_SHL, WASM_OPCODE_I64_SHR_U, WASM_OPCODE_I64_SHR_S,
     WASM_OPCODE_I64_ROTR, WASM_OPCODE_I64_ROTL, WASM_OPCODE_F32_ADD, WASM_OPCODE_F32_SUB,
     WASM_OPCODE_F32_MUL, WASM_OPCODE_F32_DIV, WASM_OPCODE_F32_MIN, WASM_OPCODE_F32_MAX,
     WASM_OPCODE_F32_COPYSIGN, WASM_OPCODE_F64_ADD, WASM_OPCODE_F64_SUB, WASM_OPCODE_F64_MUL,
     WASM_OPCODE_F64_DIV, WASM_OPCODE_F64_MIN, WASM_OPCODE_F64_MAX, WASM_OPCODE_F64_COPYSIGN]"

definition compare_opcodes :: "WasmOpcode list" where
  "compare_opcodes =
    [WASM_OPCODE_I32_EQ, WASM_OPCODE_I32_NE, WASM_OPCODE_I32_LT_S, WASM_OPCODE_I32_LE_S,
     WASM_OPCODE_I32_LT_U, WASM_OPCODE_I32_LE_U, WASM_OPCODE_I32_GT_S, WASM_OPCODE_I32_GE_S,
     WASM_OPCODE_I32_GT_U, WASM_OPCODE_I32_GE_U, WASM_OPCODE_I64_EQ, WASM_OPCODE_I64_NE,
     WASM_OPCODE_I64_LT_S, WASM_OPCODE_I64_LE_S, WASM_OPCODE_I64_LT_U, WASM_OPCODE_I64_LE_U,
     WASM_OPCODE_I64_GT_S, WASM_OPCODE_I64_GE_S, WASM_OPCODE_I64_GT_U, WASM_OPCODE_I64_GE_U,
     WASM_OPCODE_F32_EQ, WASM_OPCODE_F32_NE, WASM_OPCODE_F32_LT, WASM_OPCODE_F32_LE, WASM_OPCODE_F32_GT,
     WASM_OPCODE_F32_GE, WASM_OPCODE_F64_EQ, WASM_OPCODE_F64_NE, WASM_OPCODE_F64_LT, WASM_OPCODE_F64_LE,
     WASM_OPCODE_F64_GT, WASM_OPCODE_F64_GE]"

definition unary_opcodes :: "WasmOpcode list" where
  "unary_opcodes =
    [WASM_OPCODE_I32_CLZ, WASM_OPCODE_I32_CTZ, WASM_OPCODE_I32_POPCNT, WASM_OPCODE_I64_CLZ,
     WASM_OPCODE_I64_CTZ, WASM_OPCODE_I64_POPCNT, WASM_OPCODE_F32_ABS, WASM_OPCODE_F32_NEG,
     WASM_OPCODE_F32_CEIL, WASM_OPCODE_F32_FLOOR, WASM_OPCODE_F32_TRUNC, WASM_OPCODE_F32_NEAREST,
     WASM_OPCODE_F32_SQRT, WASM_OPCODE_F64_ABS, WASM_OPCODE_F64_NEG, WASM_OPCODE_F64_CEIL,
     WASM_OPCODE_F64_FLOOR, WASM_OPCODE_F64_TRUNC, WASM_OPCODE_F64_NEAREST, WASM_OPCODE_F64_SQRT]"

definition convert_opcodes :: "WasmOpcode list" where
  "convert_opcodes =
    [WASM_OPCODE_I32_TRUNC_S_F32, WASM_OPCODE_I32_TRUNC_S_F64, WASM_OPCODE_I32_TRUNC_U_F32,
     WASM_OPCODE_I32_TRUNC_U_F64, WASM_OPCODE_I32_WRAP_I64, WASM_OPCODE_I64_TRUNC_S_F32,
     WASM_OPCODE_I64_TRUNC_S_F64, WASM_OPCODE_I64_TRUNC_U_F32, WASM_OPCODE_I64_TRUNC_U_F64,
     WASM_OPCODE_I64_EXTEND_S_I32, WASM_OPCODE_I64_EXTEND_U_I32, WASM_OPCODE_F32_CONVERT_S_I32,
     WASM_OPCODE_F32_CONVERT_U_I32, WASM_OPCODE_F32_CONVERT_S_I64, WASM_OPCODE_F32_CONVERT_U_I64,
     WASM_OPCODE_F32_DEMOTE_F64, WASM_OPCODE_F32_REINTERPRET_I32, WASM_OPCODE_F64_CONVERT_S_I32,
     WASM_OPCODE_F64_CONVERT_U_I32, WASM_OPCODE_F64_CONVERT_S_I64, WASM_OPCODE_F64_CONVERT_U_I64,
     WASM_OPCODE_F64_PROMOTE_F32, WASM_OPCODE_F64_REINTERPRET_I64, WASM_OPCODE_I32_REINTERPRET_F32,
     WASM_OPCODE_I64_REINTERPRET_F64, WASM_OPCODE_I32_EQZ, WASM_OPCODE_I64_EQZ]"

definition expr_callback :: "ExprEvent \<Rightarrow> ('u, unit) reading" where
  "expr_callback ev = callback (Expr_event ev)"

definition opcode_callback :: "OpcodeEvent \<Rightarrow> ('u, unit) reading" where
  "opcode_callback ev = callback_ctx (Opcode_event ev)"

text \<open>The recurring forms of a \<open>case\<close>: no operand, one \<open>uint32_t\<close> operand, a block type.\<close>

definition read_bare :: "ExprEvent \<Rightarrow> ('u, unit) reading" where
  "read_bare ev = rseq [expr_callback ev, opcode_callback On_opcode_bare]"

definition read_u32_operand :: "string \<Rightarrow> (u32 \<Rightarrow> ExprEvent) \<Rightarrow> ('u, unit) reading" where
  "read_u32_operand desc ev =
     rbind (in_u32_leb128 desc) (\<lambda>v. rseq [expr_callback (ev v), opcode_callback (On_opcode_uint32 v)])"

definition read_block_sig :: "string \<Rightarrow> (WasmType list \<Rightarrow> ExprEvent) \<Rightarrow> ('u, unit) reading" where
  "read_block_sig desc ev =
     rbind (in_type desc) (\<lambda>sig_type.
     let sig = (if sig_type = WASM_TYPE_VOID then [] else [sig_type])
     in rseq [raise_error_unless (is_inline_sig_type sig_type) ''expected valid block signature type'' [],
              expr_callback (ev sig), opcode_callback (On_opcode_block_sig sig)])"

definition read_memory_access ::
    "string \<Rightarrow> string \<Rightarrow> (u32 \<Rightarrow> u32 \<Rightarrow> ExprEvent) \<Rightarrow> ('u, unit) reading" where
  "read_memory_access align_desc offset_desc ev =
     rbind (in_u32_leb128 align_desc) (\<lambda>alignment_log2.
     rbind (in_u32_leb128 offset_desc) (\<lambda>off.
       rseq [expr_callback (ev alignment_log2 off), opcode_callback (On_opcode_uint32_uint32 alignment_log2 off)]))"

definition read_reserved :: "string \<Rightarrow> string \<Rightarrow> ExprEvent \<Rightarrow> ('u, unit) reading" where
  "read_reserved desc format ev =
     rbind (in_u32_leb128 desc) (\<lambda>reserved.
       rseq [raise_error_unless (reserved = 0) format [], expr_callback ev,
             opcode_callback (On_opcode_uint32 reserved)])"

definition read_br_table :: "('u, unit) reading" where
  "read_br_table =
     rbind (in_u32_leb128 ''br_table target count'') (\<lambda>num_targets.
     rbind (rfill (unat num_targets) (in_u32_leb128 ''br_table target depth'')) (\<lambda>target_depths.
     rbind (in_u32_leb128 ''br_table default target depth'') (\<lambda>default_target_depth.
       callback_ctx (Expr_event (On_br_table_expr target_depths default_target_depth)))))"

definition read_call :: "('u, unit) reading" where
  "read_call =
     rbind (in_u32_leb128 ''call function index'') (\<lambda>func_index.
     rbind get_counts (\<lambda>c.
       rseq [raise_error_unless (func_index < num_total_funcs c) ''invalid call function index'' [],
             expr_callback (On_call_expr func_index), opcode_callback (On_opcode_uint32 func_index)]))"

definition read_call_indirect :: "('u, unit) reading" where
  "read_call_indirect =
     rbind (in_u32_leb128 ''call_indirect signature index'') (\<lambda>sig_index.
     rbind get_counts (\<lambda>c.
     rthen (raise_error_unless (sig_index < c_num_signatures c) ''invalid call_indirect signature index'' [])
     (rbind (in_u32_leb128 ''call_indirect reserved'') (\<lambda>reserved.
       rseq [raise_error_unless (reserved = 0) ''call_indirect reserved value must be 0'' [],
             expr_callback (On_call_indirect_expr sig_index),
             opcode_callback (On_opcode_uint32_uint32 sig_index reserved)]))))"

text \<open>The cases that leave \<open>seen_end_opcode\<close> alone: every opcode but END.\<close>

definition read_plain_instr :: "WasmOpcode \<Rightarrow> ('u, unit) reading" where
  "read_plain_instr opcode =
     (if opcode = WASM_OPCODE_UNREACHABLE then read_bare On_unreachable_expr
      else if opcode = WASM_OPCODE_BLOCK then read_block_sig ''block signature type'' On_block_expr
      else if opcode = WASM_OPCODE_LOOP then read_block_sig ''loop signature type'' On_loop_expr
      else if opcode = WASM_OPCODE_IF then read_block_sig ''if signature type'' On_if_expr
      else if opcode = WASM_OPCODE_ELSE then read_bare On_else_expr
      else if opcode = WASM_OPCODE_SELECT then read_bare On_select_expr
      else if opcode = WASM_OPCODE_BR then read_u32_operand ''br depth'' On_br_expr
      else if opcode = WASM_OPCODE_BR_IF then read_u32_operand ''br_if depth'' On_br_if_expr
      else if opcode = WASM_OPCODE_BR_TABLE then read_br_table
      else if opcode = WASM_OPCODE_RETURN then read_bare On_return_expr
      else if opcode = WASM_OPCODE_NOP then read_bare On_nop_expr
      else if opcode = WASM_OPCODE_DROP then read_bare On_drop_expr
      else if opcode = WASM_OPCODE_I32_CONST then
        rbind (in_i32_leb128 ''i32.const value'')
          (\<lambda>v. rseq [expr_callback (On_i32_const_expr v), opcode_callback (On_opcode_uint32 v)])
      else if opcode = WASM_OPCODE_I64_CONST then
        rbind (in_i64_leb128 ''i64.const value'')
          (\<lambda>v. rseq [expr_callback (On_i64_const_expr v), opcode_callback (On_opcode_uint64 v)])
      else if opcode = WASM_OPCODE_F32_CONST then
        rbind (in_f32 ''f32.const value'')
          (\<lambda>v. rseq [expr_callback (On_f32_const_expr v), opcode_callback (On_opcode_f32 v)])
      else if opcode = WASM_OPCODE_F64_CONST then
        rbind (in_f64 ''f64.const value'')
          (\<lambda>v. rseq [expr_callback (On_f64_const_expr v), opcode_callback (On_opcode_f64 v)])
      else if opcode = WASM_OPCODE_GET_GLOBAL then read_u32_operand ''get_global global index'' On_get_global_expr
      else if opcode = WASM_OPCODE_GET_LOCAL then read_u32_operand ''get_local local index'' On_get_local_expr
      else if opcode = WASM_OPCODE_SET_GLOBAL then read_u32_operand ''set_global global index'' On_set_global_expr
      else if opcode = WASM_OPCODE_SET_LOCAL then read_u32_operand ''set_local local index'' On_set_local_expr
      else if opcode = WASM_OPCODE_CALL then read_call
      else if opcode = WASM_OPCODE_CALL_INDIRECT then read_call_indirect
      else if opcode = WASM_OPCODE_TEE_LOCAL then read_u32_operand ''tee_local local index'' On_tee_local_expr
      else if opcode \<in> set load_opcodes then read_memory_access ''load alignment'' ''load offset'' (On_load_expr opcode)
      else if opcode \<in> set store_opcodes then read_memory_access ''store alignment'' ''store offset'' (On_store_expr opcode)
      else if opcode = WASM_OPCODE_CURRENT_MEMORY then
        read_reserved ''current_memory reserved'' ''current_memory reserved value must be 0'' On_current_memory_expr
      else if opcode = WASM_OPCODE_GROW_MEMORY then
        read_reserved ''grow_memory reserved'' ''grow_memory reserved value must be 0'' On_grow_memory_expr
      else if opcode \<in> set binary_opcodes then read_bare (On_binary_expr opcode)
      else if opcode \<in> set compare_opcodes then read_bare (On_compare_expr opcode)
      else if opcode \<in> set unary_opcodes then read_bare (On_unary_expr opcode)
      else if opcode \<in> set convert_opcodes then read_bare (On_convert_expr opcode)
      else raise_error ''unexpected opcode: %d (0x%x)'' [ArgInt (int opcode), ArgInt (int opcode)])"

definition at_offset :: "u32 \<Rightarrow> ('u, bool) reading" where
  "at_offset end_offset ctx = Inr (c_offset ctx = unat end_offset, ctx)"

text \<open>One turn of the loop; returns whether it set \<open>seen_end_opcode\<close>.\<close>

definition read_instr :: "u32 \<Rightarrow> ('u, bool) reading" where
  "read_instr end_offset =
     rbind (in_u8 ''opcode'') (\<lambda>opcode.
     rthen (opcode_callback (On_opcode (unat opcode)))
       (if unat opcode = WASM_OPCODE_END then
          rbind (at_offset end_offset) (\<lambda>last.
            if last then rret True else rthen (expr_callback On_end_expr) (rret False))
        else rthen (read_plain_instr (unat opcode)) (rret False)))"

subsection \<open>What every reading function keeps\<close>

text \<open>
  \<open>bounded m\<close>: on success \<open>m\<close> keeps the data and the end of the readable range, does not move
  backwards and does not pass that end; and starting inside the data it never makes a bad
  access. The loops terminate because of it, and it is what memory safety rests on.
\<close>

definition wf_ctx :: "'u Context \<Rightarrow> bool" where
  "wf_ctx ctx \<longleftrightarrow> c_offset ctx \<le> c_read_end ctx \<and> c_read_end ctx \<le> c_data_size ctx"

definition bounded :: "('u, 'a) reading \<Rightarrow> bool" where
  "bounded m \<longleftrightarrow> (\<forall>ctx. case m ctx of
       Inl (f, ctx') \<Rightarrow> wf_ctx ctx \<longrightarrow> f \<noteq> BadAccess
     | Inr (x, ctx') \<Rightarrow> c_data ctx' = c_data ctx \<and> c_read_end ctx' = c_read_end ctx
         \<and> c_offset ctx \<le> c_offset ctx' \<and> c_offset ctx' \<le> max (c_offset ctx) (c_read_end ctx))"

lemma boundedD:
  assumes "bounded m" "m ctx = Inr (x, ctx')"
  shows "c_data ctx' = c_data ctx" "c_read_end ctx' = c_read_end ctx" "c_offset ctx \<le> c_offset ctx'"
    "c_offset ctx' \<le> max (c_offset ctx) (c_read_end ctx)" "wf_ctx ctx \<Longrightarrow> wf_ctx ctx'"
  using assms(1) [unfolded bounded_def, rule_format, of ctx] assms(2) by (auto simp: wf_ctx_def)

lemma bounded_fault: "bounded m \<Longrightarrow> m ctx = Inl (f, ctx') \<Longrightarrow> wf_ctx ctx \<Longrightarrow> f \<noteq> BadAccess"
  by (auto simp: bounded_def dest!: spec [of _ ctx])

named_theorems bounded_intros \<open>introduction rules for \<open>bounded\<close>\<close>

lemma bounded_rret [bounded_intros]: "bounded (rret x)"
  by (simp add: bounded_def rret_def)

lemma bounded_rbind [bounded_intros]:
  assumes "bounded m" "\<And>x. bounded (k x)"
  shows "bounded (rbind m k)"
  unfolding bounded_def
proof
  fix ctx
  show "case rbind m k ctx of
       Inl (f, ctx') \<Rightarrow> wf_ctx ctx \<longrightarrow> f \<noteq> BadAccess
     | Inr (x, ctx') \<Rightarrow> c_data ctx' = c_data ctx \<and> c_read_end ctx' = c_read_end ctx
         \<and> c_offset ctx \<le> c_offset ctx' \<and> c_offset ctx' \<le> max (c_offset ctx) (c_read_end ctx)"
  proof (cases "m ctx")
    case (Inl f)
    then show ?thesis using bounded_fault [OF assms(1)] by (cases f) (auto simp: rbind_def)
  next
    case (Inr r)
    then obtain x ctx1 where m: "m ctx = Inr (x, ctx1)" by (cases r) simp
    show ?thesis
    proof (cases "k x ctx1")
      case (Inl f)
      then show ?thesis
        using m boundedD(5) [OF assms(1) m] bounded_fault [OF assms(2)] by (cases f) (auto simp: rbind_def)
    next
      case (Inr r)
      then obtain y ctx2 where k: "k x ctx1 = Inr (y, ctx2)" by (cases r) simp
      from boundedD(1-4) [OF assms(1) m] boundedD(1-4) [OF assms(2) k] show ?thesis
        using m k by (simp add: rbind_def max_def split: if_splits)
    qed
  qed
qed

lemma bounded_rseq [bounded_intros]: "(\<And>m. m \<in> set ms \<Longrightarrow> bounded m) \<Longrightarrow> bounded (rseq ms)"
  by (induction ms) (auto intro!: bounded_intros)

lemma bounded_rfor [bounded_intros]: "(\<And>i. bounded (body i)) \<Longrightarrow> bounded (rfor i n body)"
  by (induction n arbitrary: i) (auto intro!: bounded_intros)

lemma bounded_rfill [bounded_intros]: "bounded m \<Longrightarrow> bounded (rfill n m)"
  by (induction n) (auto intro!: bounded_intros)

lemma bounded_raise_error [bounded_intros]: "bounded (raise_error format args)"
  by (simp add: bounded_def raise_error_def)

lemma bounded_raise_error_unless [bounded_intros]: "bounded (raise_error_unless cond format args)"
  by (simp add: raise_error_unless_def bounded_intros)

lemma bounded_call_member: "bounded (call_member ev uc)"
  by (auto simp: bounded_def call_member_def raise_error_def rret_def split: prod.split WasmResult.split)

lemma bounded_callback [bounded_intros]: "bounded (callback ev)"
  unfolding callback_def by (rule bounded_call_member)

lemma bounded_callback_ctx [bounded_intros]: "bounded (callback_ctx ev)"
  by (auto simp: bounded_def callback_ctx_def call_member_def raise_error_def rret_def
      split: prod.split WasmResult.split)

lemma bounded_update_counts [bounded_intros]: "bounded (update_counts f)"
  by (simp add: bounded_def update_counts_def)

lemma bounded_get_counts [bounded_intros]: "bounded get_counts"
  by (simp add: bounded_def get_counts_def)

lemma bounded_in_size [bounded_intros]: "bounded (in_size n type desc)"
  by (auto simp: bounded_def in_size_def raise_error_def wf_ctx_def)

lemma bounded_in_span [bounded_intros]: "bounded (in_span format desc len)"
  by (auto simp: bounded_def in_span_def raise_error_def wf_ctx_def)

lemma bounded_in_leb:
  assumes "\<And>p v n. decode p = Inr (v, n) \<Longrightarrow> n \<le> length p"
  shows "bounded (in_leb decode desc)"
  using assms
  by (fastforce simp: bounded_def in_leb_def raise_error_def wf_ctx_def window_def split: sum.split)

lemma bounded_leb128 [bounded_intros]:
  "bounded (in_u32_leb128 desc)" "bounded (in_i32_leb128 desc)" "bounded (in_i64_leb128 desc)"
  unfolding in_u32_leb128_def in_i32_leb128_def in_i64_leb128_def
  by (auto intro!: bounded_in_leb split: option.splits sum.splits
      dest: wasm_read_u32_leb128_bounds wasm_read_i32_leb128_bounds read_i64_leb128_bounds)

lemma bounded_scalars [bounded_intros]:
  "bounded (in_u8 desc)" "bounded (in_u32 desc)" "bounded (in_f32 desc)" "bounded (in_f64 desc)"
  "bounded (in_type desc)" "bounded (in_str desc)" "bounded (in_bytes desc)"
  unfolding in_u8_def in_u32_def in_f32_def in_f64_def in_type_def in_str_def in_bytes_def
  by (intro bounded_intros)+

lemma bounded_if [bounded_intros]: "bounded a \<Longrightarrow> bounded b \<Longrightarrow> bounded (if c then a else b)"
  by simp

lemma bounded_items [bounded_intros]:
  "bounded (init_callback iev)" "bounded (expr_callback eev)" "bounded (opcode_callback oev)"
  "bounded read_table" "bounded read_memory" "bounded read_global_header"
  unfolding init_callback_def expr_callback_def opcode_callback_def
    read_table_def read_memory_def read_global_header_def
  by (intro bounded_intros)+

lemma bounded_rseq_simps [bounded_intros]:
  "bounded (rseq [])" "bounded m \<Longrightarrow> bounded (rseq ms) \<Longrightarrow> bounded (rseq (m # ms))"
  by (auto intro!: bounded_intros)

lemma bounded_read_init_expr [bounded_intros]: "bounded (read_init_expr index)"
  unfolding read_init_expr_def read_init_operand_def by (intro bounded_intros)

lemma bounded_operands [bounded_intros]:
  "bounded (read_bare ev)" "bounded (read_u32_operand desc uev)" "bounded (read_block_sig desc sev)"
  "bounded (read_memory_access d1 d2 mev)" "bounded (read_reserved desc format ev)"
  "bounded read_br_table" "bounded read_call" "bounded read_call_indirect"
  unfolding read_bare_def read_u32_operand_def read_block_sig_def read_memory_access_def read_reserved_def
    read_br_table_def read_call_def read_call_indirect_def Let_def
  by (intro bounded_intros)+

lemma bounded_read_plain_instr [bounded_intros]: "bounded (read_plain_instr opcode)"
  unfolding read_plain_instr_def by (intro bounded_intros)

lemma bounded_at_offset [bounded_intros]: "bounded (at_offset end_offset)"
  by (simp add: bounded_def at_offset_def)

lemma bounded_read_instr [bounded_intros]: "bounded (read_instr end_offset)"
  unfolding read_instr_def by (intro bounded_intros)

text \<open>A turn of the loop consumes at least the opcode.\<close>

lemma in_size_consumes: "in_size n type desc ctx = Inr (x, ctx') \<Longrightarrow>
    c_offset ctx' = c_offset ctx + n \<and> c_offset ctx' \<le> c_read_end ctx \<and> c_read_end ctx' = c_read_end ctx"
  by (auto simp: in_size_def raise_error_def split: if_splits)

lemma rbind_Inr_iff: "rbind m k ctx = Inr r \<longleftrightarrow> (\<exists>x ctx1. m ctx = Inr (x, ctx1) \<and> k x ctx1 = Inr r)"
  by (auto simp: rbind_def split: sum.splits)

lemma rbind_Inl_iff:
  "rbind m k ctx = Inl f \<longleftrightarrow> m ctx = Inl f \<or> (\<exists>x ctx1. m ctx = Inr (x, ctx1) \<and> k x ctx1 = Inl f)"
  by (auto simp: rbind_def split: sum.splits)

lemma rbind_bounded_rest:
  assumes "rbind m k ctx = Inr (x, ctx')" "\<And>y. bounded (k y)"
  obtains y ctx1 where "m ctx = Inr (y, ctx1)" "c_offset ctx1 \<le> c_offset ctx'"
    "c_offset ctx' \<le> max (c_offset ctx1) (c_read_end ctx1)" "c_read_end ctx' = c_read_end ctx1"
  using assms(1) boundedD [OF assms(2)] unfolding rbind_Inr_iff by metis

lemma in_u8_consumes: "in_u8 desc ctx = Inr (x, ctx') \<Longrightarrow>
    c_offset ctx' = c_offset ctx + 1 \<and> c_offset ctx' \<le> c_read_end ctx \<and> c_read_end ctx' = c_read_end ctx"
  using in_size_consumes by (fastforce simp: in_u8_def rbind_Inr_iff rret_def)

lemma read_instr_consumes:
  assumes "read_instr end_offset ctx = Inr (x, ctx')"
  shows "c_offset ctx < c_offset ctx' \<and> c_offset ctx' \<le> c_read_end ctx \<and> c_read_end ctx' = c_read_end ctx"
proof -
  from assms obtain opcode ctx1 where "in_u8 ''opcode'' ctx = Inr (opcode, ctx1)"
    "c_offset ctx1 \<le> c_offset ctx'" "c_offset ctx' \<le> max (c_offset ctx1) (c_read_end ctx1)"
    "c_read_end ctx' = c_read_end ctx1"
    unfolding read_instr_def by (rule rbind_bounded_rest) (intro bounded_intros | assumption)+
  with in_u8_consumes show ?thesis by fastforce
qed

text \<open>The \<open>while\<close> loop: \<open>Inr (seen_end_opcode, ctx)\<close> when it ends.\<close>

function read_instrs :: "u32 \<Rightarrow> bool \<Rightarrow> ('u, bool) reading" where
  "read_instrs end_offset seen_end_opcode ctx =
     (if c_offset ctx < unat end_offset then
        (case read_instr end_offset ctx of
           Inl f \<Rightarrow> Inl f
         | Inr (seen, ctx') \<Rightarrow> read_instrs end_offset (seen_end_opcode \<or> seen) ctx')
      else Inr (seen_end_opcode, ctx))"
  by pat_completeness auto
termination
  by (relation "measure (\<lambda>(end_offset, seen, ctx). c_read_end ctx - c_offset ctx)")
    (use read_instr_consumes in fastforce)+

declare read_instrs.simps [simp del]

definition read_function_body :: "u32 \<Rightarrow> ('u, unit) reading" where
  "read_function_body end_offset =
     rbind (read_instrs end_offset False) (\<lambda>seen_end_opcode.
     rbind (at_offset end_offset) (\<lambda>at_end.
       rseq [raise_error_unless at_end ''function body longer than given size'' [],
             raise_error_unless seen_end_opcode ''function body must end with END opcode'' []]))"

lemma read_instrs_bounded:
  fixes ctx :: "'u Context"
  shows "case read_instrs end_offset seen ctx of
     Inl (f, ctx') \<Rightarrow> wf_ctx ctx \<longrightarrow> f \<noteq> BadAccess
   | Inr (x, ctx') \<Rightarrow> c_data ctx' = c_data ctx \<and> c_read_end ctx' = c_read_end ctx
       \<and> c_offset ctx \<le> c_offset ctx' \<and> c_offset ctx' \<le> max (c_offset ctx) (c_read_end ctx)"
proof (induction end_offset seen ctx rule: read_instrs.induct)
  case (1 end_offset seen ctx)
  show ?case
  proof (cases "read_instr end_offset ctx")
    case (Inl f)
    then show ?thesis
      using bounded_fault [OF bounded_read_instr] by (cases f) (auto simp: read_instrs.simps [of _ _ ctx])
  next
    case (Inr r)
    then obtain x ctx1 where step: "read_instr end_offset ctx = Inr (x, ctx1)" by (cases r) simp
    note keeps = boundedD [OF bounded_read_instr step]
    show ?thesis
    proof (cases "c_offset ctx < unat end_offset")
      case True
      from "1.IH" [OF True step refl] keeps show ?thesis
        by (simp add: read_instrs.simps [of _ _ ctx] True step max_def split: sum.splits prod.splits if_splits)
    qed (simp add: read_instrs.simps [of _ _ ctx])
  qed
qed

lemma bounded_read_function_body [bounded_intros]: "bounded (read_function_body end_offset)"
proof -
  have "bounded (read_instrs end_offset False)"
    unfolding bounded_def using read_instrs_bounded by blast
  then show ?thesis unfolding read_function_body_def by (intro bounded_intros)
qed

subsection \<open>Sections\<close>

text \<open>\<open>strncmp (a, b, length a) == 0\<close> for a slice \<open>a\<close> and a C string \<open>b\<close>, given with its NUL.\<close>

fun strncmp_eq :: "byte list \<Rightarrow> byte list \<Rightarrow> bool" where
  "strncmp_eq [] _ = True"
| "strncmp_eq (x # xs) (y # ys) = (x = y \<and> (x = 0 \<or> strncmp_eq xs ys))"
| "strncmp_eq (x # xs) [] = False"

definition skip_to_read_end :: "('u, unit) reading" where
  "skip_to_read_end ctx = Inr ((), ctx\<lparr>c_offset := c_read_end ctx\<rparr>)"

definition names_callback :: "NamesEvent \<Rightarrow> ('u, unit) reading" where
  "names_callback ev = callback (Names_event ev)"

definition read_function_names :: "u32 \<Rightarrow> ('u, unit) reading" where
  "read_function_names i =
     rbind (in_str ''function name'') (\<lambda>function_name.
     rthen (names_callback (On_function_name i function_name))
     (rbind (in_u32_leb128 ''local name count'') (\<lambda>num_locals.
      rthen (names_callback (On_local_names_count i num_locals))
        (rfor 0 (unat num_locals) (\<lambda>j.
           rbind (in_str ''local name'') (\<lambda>local_name. names_callback (On_local_name i j local_name)))))))"

definition read_names :: "u32 \<Rightarrow> ('u, unit) reading" where
  "read_names section_size =
     rthen (callback_ctx (Names_event (Begin_names_section section_size)))
     (rbind (in_u32_leb128 ''function name count'') (\<lambda>num_functions.
      rbind get_counts (\<lambda>c.
        rseq [raise_error_unless (num_functions \<le> num_total_funcs c) ''function name count > function signature count'' [],
              names_callback (On_function_names_count num_functions),
              rfor 0 (unat num_functions) read_function_names,
              names_callback End_names_section])))"

definition get_options :: "('u, WasmReadBinaryOptions) reading" where
  "get_options ctx = Inr (c_options ctx, ctx)"

definition read_custom_section :: "u32 \<Rightarrow> ('u, unit) reading" where
  "read_custom_section section_size =
     rbind (in_str ''section name'') (\<lambda>section_name.
     rthen (callback_ctx (Begin_custom_section section_size section_name))
     (rbind get_counts (\<lambda>c. rbind get_options (\<lambda>opts.
        rseq [if read_debug_names opts \<and> WASM_BINARY_SECTION_IMPORT \<le> last_known_section_code c
                 \<and> strncmp_eq (slice_bytes section_name) (cstr ''name'' @ [0])
              then read_names section_size
              else skip_to_read_end,
              callback_ctx End_custom_section]))))"

definition signature_callback :: "SignatureEvent \<Rightarrow> ('u, unit) reading" where
  "signature_callback ev = callback (Signature_event ev)"

definition in_value_type :: "string \<Rightarrow> string \<Rightarrow> ('u, WasmType) reading" where
  "in_value_type desc format =
     rbind (in_type desc) (\<lambda>type.
     rthen (raise_error_unless (is_concrete_type type) format []) (rret type))"

definition read_signature :: "u32 \<Rightarrow> ('u, unit) reading" where
  "read_signature i =
     rbind (in_type ''type form'') (\<lambda>form.
     rthen (raise_error_unless (form = WASM_TYPE_FUNC) ''unexpected type form'' [])
     (rbind (in_u32_leb128 ''function param count'') (\<lambda>num_params.
      rbind (rfill (unat num_params) (in_value_type ''function param type'' ''expected valid param type'')) (\<lambda>param_types.
      rbind (in_u32_leb128 ''function result count'') (\<lambda>num_results.
      rthen (raise_error_unless (num_results \<le> 1) ''result count must be 0 or 1'' [])
        (if num_results \<noteq> 0 then
           rbind (in_value_type ''function result type'' ''expected valid result type'') (\<lambda>result_type.
             signature_callback (On_signature i param_types [result_type]))
         else signature_callback (On_signature i param_types [])))))))"

definition read_type_section :: "u32 \<Rightarrow> ('u, unit) reading" where
  "read_type_section section_size =
     rthen (callback_ctx (Signature_event (Begin_signature_section section_size)))
     (rbind (in_u32_leb128 ''type count'') (\<lambda>n.
       rseq [update_counts (c_num_signatures_update (\<lambda>_. n)),
             signature_callback (On_signature_count n),
             rfor 0 (unat n) read_signature,
             callback_ctx (Signature_event End_signature_section)]))"

definition import_callback :: "ImportEvent \<Rightarrow> ('u, unit) reading" where
  "import_callback ev = callback (Import_event ev)"

definition read_import_desc :: "u32 \<Rightarrow> u32 \<Rightarrow> ('u, unit) reading" where
  "read_import_desc i kind =
     (case external_kind_of_code (unat kind) of
        Some WASM_EXTERNAL_KIND_FUNC \<Rightarrow>
          rbind (in_u32_leb128 ''import signature index'') (\<lambda>sig_index.
          rbind get_counts (\<lambda>c.
            rseq [raise_error_unless (sig_index < c_num_signatures c) ''invalid import signature index'' [],
                  import_callback (On_import_func i sig_index),
                  update_counts (c_num_func_imports_update (\<lambda>n. n + 1))]))
      | Some WASM_EXTERNAL_KIND_TABLE \<Rightarrow>
          rbind read_table (\<lambda>(elem_type, elem_limits).
            rseq [import_callback (On_import_table i elem_type elem_limits),
                  update_counts (c_num_table_imports_update (\<lambda>n. n + 1))])
      | Some WASM_EXTERNAL_KIND_MEMORY \<Rightarrow>
          rbind read_memory (\<lambda>page_limits.
            rseq [import_callback (On_import_memory i page_limits),
                  update_counts (c_num_memory_imports_update (\<lambda>n. n + 1))])
      | Some WASM_EXTERNAL_KIND_GLOBAL \<Rightarrow>
          rbind read_global_header (\<lambda>(type, mut).
            rseq [import_callback (On_import_global i type mut),
                  update_counts (c_num_global_imports_update (\<lambda>n. n + 1))])
      | None \<Rightarrow> raise_error ''invalid import kind: %d'' [ArgInt (sint kind)])"

definition read_import :: "u32 \<Rightarrow> ('u, unit) reading" where
  "read_import i =
     rbind (in_str ''import module name'') (\<lambda>module_name.
     rbind (in_str ''import field name'') (\<lambda>field_name.
     rthen (import_callback (On_import i module_name field_name))
     (rbind (in_u32_leb128 ''import kind'') (\<lambda>kind. read_import_desc i kind))))"

definition read_import_section :: "u32 \<Rightarrow> ('u, unit) reading" where
  "read_import_section section_size =
     rthen (callback_ctx (Import_event (Begin_import_section section_size)))
     (rbind (in_u32_leb128 ''import count'') (\<lambda>n.
       rseq [update_counts (c_num_imports_update (\<lambda>_. n)),
             import_callback (On_import_count n),
             rfor 0 (unat n) read_import,
             callback_ctx (Import_event End_import_section)]))"

definition function_callback :: "FunctionEvent \<Rightarrow> ('u, unit) reading" where
  "function_callback ev = callback (Function_event ev)"

definition read_function_signature :: "u32 \<Rightarrow> ('u, unit) reading" where
  "read_function_signature i =
     rbind (in_u32_leb128 ''function signature index'') (\<lambda>sig_index.
     rbind get_counts (\<lambda>c.
       rseq [raise_error_unless (sig_index < c_num_signatures c) ''invalid function signature index: %d''
               [ArgInt (sint sig_index)],
             function_callback (On_function_signature i sig_index)]))"

definition read_function_section :: "u32 \<Rightarrow> ('u, unit) reading" where
  "read_function_section section_size =
     rthen (callback_ctx (Function_event (Begin_function_signatures_section section_size)))
     (rbind (in_u32_leb128 ''function signature count'') (\<lambda>n.
       rseq [update_counts (c_num_function_signatures_update (\<lambda>_. n)),
             function_callback (On_function_signatures_count n),
             rfor 0 (unat n) read_function_signature,
             callback_ctx (Function_event End_function_signatures_section)]))"

definition table_callback :: "TableEvent \<Rightarrow> ('u, unit) reading" where
  "table_callback ev = callback (Table_event ev)"

definition read_table_section :: "u32 \<Rightarrow> ('u, unit) reading" where
  "read_table_section section_size =
     rthen (callback_ctx (Table_event (Begin_table_section section_size)))
     (rbind (in_u32_leb128 ''table count'') (\<lambda>n.
       rseq [update_counts (c_num_tables_update (\<lambda>_. n)),
             raise_error_unless (n \<le> 1) ''table count (%d) must be 0 or 1'' [ArgInt (sint n)],
             table_callback (On_table_count n),
             rfor 0 (unat n) (\<lambda>i. rbind read_table (\<lambda>(elem_type, elem_limits).
               table_callback (On_table i elem_type elem_limits))),
             callback_ctx (Table_event End_table_section)]))"

definition memory_callback :: "MemoryEvent \<Rightarrow> ('u, unit) reading" where
  "memory_callback ev = callback (Memory_event ev)"

definition read_memory_section :: "u32 \<Rightarrow> ('u, unit) reading" where
  "read_memory_section section_size =
     rthen (callback_ctx (Memory_event (Begin_memory_section section_size)))
     (rbind (in_u32_leb128 ''memory count'') (\<lambda>n.
       rseq [update_counts (c_num_memories_update (\<lambda>_. n)),
             raise_error_unless (n \<le> 1) ''memory count must be 0 or 1'' [],
             memory_callback (On_memory_count n),
             rfor 0 (unat n) (\<lambda>i. rbind read_memory (\<lambda>page_limits. memory_callback (On_memory i page_limits))),
             callback_ctx (Memory_event End_memory_section)]))"

definition global_callback :: "GlobalEvent \<Rightarrow> ('u, unit) reading" where
  "global_callback ev = callback (Global_event ev)"

definition read_global :: "u32 \<Rightarrow> ('u, unit) reading" where
  "read_global i =
     rbind read_global_header (\<lambda>(global_type, mut).
       rseq [global_callback (Begin_global i global_type mut),
             global_callback (Begin_global_init_expr i),
             read_init_expr i,
             global_callback (End_global_init_expr i),
             global_callback (End_global i)])"

definition read_global_section :: "u32 \<Rightarrow> ('u, unit) reading" where
  "read_global_section section_size =
     rthen (callback_ctx (Global_event (Begin_global_section section_size)))
     (rbind (in_u32_leb128 ''global count'') (\<lambda>n.
       rseq [update_counts (c_num_globals_update (\<lambda>_. n)),
             global_callback (On_global_count n),
             rfor 0 (unat n) read_global,
             callback_ctx (Global_event End_global_section)]))"

definition export_callback :: "ExportEvent \<Rightarrow> ('u, unit) reading" where
  "export_callback ev = callback (Export_event ev)"

text \<open>The bound of the item index and the error, per kind.\<close>

definition export_limit :: "WasmExternalKind \<Rightarrow> ContextCounts \<Rightarrow> u32 \<times> string" where
  "export_limit kind c =
     (case kind of
        WASM_EXTERNAL_KIND_FUNC \<Rightarrow> (num_total_funcs c, ''invalid export func index'')
      | WASM_EXTERNAL_KIND_TABLE \<Rightarrow> (num_total_tables c, ''invalid export table index'')
      | WASM_EXTERNAL_KIND_MEMORY \<Rightarrow> (num_total_memories c, ''invalid export memory index'')
      | WASM_EXTERNAL_KIND_GLOBAL \<Rightarrow> (num_total_globals c, ''invalid export global index''))"

definition read_export :: "u32 \<Rightarrow> ('u, unit) reading" where
  "read_export i =
     rbind (in_str ''export item name'') (\<lambda>name.
     rbind (in_u8 ''export external kind'') (\<lambda>external_kind.
     rthen (raise_error_unless (is_valid_external_kind external_kind) ''invalid export external kind'' [])
     (rbind (in_u32_leb128 ''export item index'') (\<lambda>item_index.
      rbind get_counts (\<lambda>c.
        case external_kind_of_code (unat external_kind) of
          None \<Rightarrow> rret ()
        | Some kind \<Rightarrow>
            rseq [raise_error_unless (item_index < fst (export_limit kind c)) (snd (export_limit kind c)) [],
                  export_callback (On_export i kind item_index name)])))))"

definition read_export_section :: "u32 \<Rightarrow> ('u, unit) reading" where
  "read_export_section section_size =
     rthen (callback_ctx (Export_event (Begin_export_section section_size)))
     (rbind (in_u32_leb128 ''export count'') (\<lambda>n.
       rseq [update_counts (c_num_exports_update (\<lambda>_. n)),
             export_callback (On_export_count n),
             rfor 0 (unat n) read_export,
             callback_ctx (Export_event End_export_section)]))"

definition read_start_section :: "u32 \<Rightarrow> ('u, unit) reading" where
  "read_start_section section_size =
     rthen (callback_ctx (Start_event (Begin_start_section section_size)))
     (rbind (in_u32_leb128 ''start function index'') (\<lambda>func_index.
      rbind get_counts (\<lambda>c.
        rseq [raise_error_unless (func_index < num_total_funcs c) ''invalid start function index'' [],
              callback (Start_event (On_start_function func_index)),
              callback_ctx (Start_event End_start_section)])))"

definition elem_callback :: "ElemEvent \<Rightarrow> ('u, unit) reading" where
  "elem_callback ev = callback (Elem_event ev)"

definition read_elem_segment :: "u32 \<Rightarrow> ('u, unit) reading" where
  "read_elem_segment i =
     rbind (in_u32_leb128 ''elem segment table index'') (\<lambda>table_index.
     rthen (rseq [elem_callback (Begin_elem_segment i table_index),
                  elem_callback (Begin_elem_segment_init_expr i),
                  read_init_expr i,
                  elem_callback (End_elem_segment_init_expr i)])
     (rbind (in_u32_leb128 ''elem segment function index count'') (\<lambda>num_function_indexes.
       rseq [callback_ctx (Elem_event (On_elem_segment_function_index_count i num_function_indexes)),
             rfor 0 (unat num_function_indexes) (\<lambda>j.
               rbind (in_u32_leb128 ''elem segment function index'') (\<lambda>func_index.
                 elem_callback (On_elem_segment_function_index i func_index))),
             elem_callback (End_elem_segment i)])))"

definition read_elem_section :: "u32 \<Rightarrow> ('u, unit) reading" where
  "read_elem_section section_size =
     rthen (callback_ctx (Elem_event (Begin_elem_section section_size)))
     (rbind (in_u32_leb128 ''elem segment count'') (\<lambda>n.
      rthen (elem_callback (On_elem_segment_count n))
      (rbind get_counts (\<lambda>c.
        rseq [raise_error_unless (n = 0 \<or> 0 < num_total_tables c) ''elem section without table section'' [],
              rfor 0 (unat n) read_elem_segment,
              callback_ctx (Elem_event End_elem_section)]))))"

definition code_callback :: "CodeEvent \<Rightarrow> ('u, unit) reading" where
  "code_callback ev = callback (Code_event ev)"

text \<open>The current offset, narrowed to \<open>uint32_t\<close>.\<close>

definition get_offset :: "('u, u32) reading" where
  "get_offset ctx = Inr (u32_of_nat (c_offset ctx), ctx)"

definition read_local_decl :: "u32 \<Rightarrow> ('u, unit) reading" where
  "read_local_decl k =
     rbind (in_u32_leb128 ''local type count'') (\<lambda>num_local_types.
     rbind (in_value_type ''local type'' ''expected valid local type'') (\<lambda>local_type.
       code_callback (On_local_decl k num_local_types local_type)))"

text \<open>\<open>ctx->offset = func_offset\<close> at the start of the body of the loop.\<close>

definition narrow_offset :: "('u, unit) reading" where
  "narrow_offset ctx = Inr ((), ctx\<lparr>c_offset := unat (u32_of_nat (c_offset ctx))\<rparr>)"

definition read_function :: "u32 \<Rightarrow> ('u, unit) reading" where
  "read_function i =
     rthen narrow_offset
     (rthen (code_callback (Begin_function_body i))
     (rbind (in_u32_leb128 ''function body size'') (\<lambda>body_size.
      rbind get_offset (\<lambda>body_start_offset.
      rbind (in_u32_leb128 ''local declaration count'') (\<lambda>num_local_decls.
        rseq [code_callback (On_local_decl_count num_local_decls),
              rfor 0 (unat num_local_decls) read_local_decl,
              read_function_body (body_start_offset + body_size),
              code_callback (End_function_body i)])))))"

definition read_code_section :: "u32 \<Rightarrow> ('u, unit) reading" where
  "read_code_section section_size =
     rthen (callback_ctx (Code_event (Begin_function_bodies_section section_size)))
     (rbind (in_u32_leb128 ''function body count'') (\<lambda>n.
      rthen (update_counts (c_num_function_bodies_update (\<lambda>_. n)))
      (rbind get_counts (\<lambda>c.
        rseq [raise_error_unless (c_num_function_signatures c = n) ''function signature count != function body count'' [],
              code_callback (On_function_bodies_count n),
              rfor 0 (unat n) read_function,
              callback_ctx (Code_event End_function_bodies_section)]))))"

definition data_callback :: "DataEvent \<Rightarrow> ('u, unit) reading" where
  "data_callback ev = callback (Data_event ev)"

definition read_data_segment :: "u32 \<Rightarrow> ('u, unit) reading" where
  "read_data_segment i =
     rbind (in_u32_leb128 ''data segment memory index'') (\<lambda>memory_index.
     rthen (rseq [data_callback (Begin_data_segment i memory_index),
                  data_callback (Begin_data_segment_init_expr i),
                  read_init_expr i,
                  data_callback (End_data_segment_init_expr i)])
     (rbind (in_bytes ''data segment data'') (\<lambda>data.
       rseq [data_callback (On_data_segment_data i data),
             data_callback (End_data_segment i)])))"

definition read_data_section :: "u32 \<Rightarrow> ('u, unit) reading" where
  "read_data_section section_size =
     rthen (callback_ctx (Data_event (Begin_data_section section_size)))
     (rbind (in_u32_leb128 ''data segment count'') (\<lambda>n.
      rthen (data_callback (On_data_segment_count n))
      (rbind get_counts (\<lambda>c.
        rseq [raise_error_unless (n = 0 \<or> 0 < num_total_memories c) ''data section without memory section'' [],
              rfor 0 (unat n) read_data_segment,
              callback_ctx (Data_event End_data_section)]))))"

definition s_section_name :: "string list" where
  "s_section_name =
     [''CUSTOM'', ''TYPE'', ''IMPORT'', ''FUNCTION'', ''TABLE'', ''MEMORY'', ''GLOBAL'', ''EXPORT'',
      ''START'', ''ELEM'', ''CODE'', ''DATA'']"

definition WASM_NUM_BINARY_SECTIONS :: nat where "WASM_NUM_BINARY_SECTIONS = 12"

text \<open>The \<open>switch\<close> over the section code.\<close>

definition read_section_body :: "nat \<Rightarrow> u32 \<Rightarrow> ('u, unit) reading" where
  "read_section_body section_code section_size =
     (if section_code = WASM_BINARY_SECTION_CUSTOM then read_custom_section section_size
      else if section_code = WASM_BINARY_SECTION_TYPE then read_type_section section_size
      else if section_code = WASM_BINARY_SECTION_IMPORT then read_import_section section_size
      else if section_code = WASM_BINARY_SECTION_FUNCTION then read_function_section section_size
      else if section_code = WASM_BINARY_SECTION_TABLE then read_table_section section_size
      else if section_code = WASM_BINARY_SECTION_MEMORY then read_memory_section section_size
      else if section_code = WASM_BINARY_SECTION_GLOBAL then read_global_section section_size
      else if section_code = WASM_BINARY_SECTION_EXPORT then read_export_section section_size
      else if section_code = WASM_BINARY_SECTION_START then read_start_section section_size
      else if section_code = WASM_BINARY_SECTION_ELEM then read_elem_section section_size
      else if section_code = WASM_BINARY_SECTION_CODE then read_code_section section_size
      else if section_code = WASM_BINARY_SECTION_DATA then read_data_section section_size
      else raise_error ''invalid section code: %u; max is %u''
             [ArgInt (int section_code), ArgInt (int WASM_NUM_BINARY_SECTIONS - 1)])"

text \<open>
  The body of the loop in \<open>read_sections\<close>: header, order check, contents, and the check that
  the contents fill the declared size.
\<close>

definition set_read_end_to_data_size :: "('u, unit) reading" where
  "set_read_end_to_data_size ctx = Inr ((), ctx\<lparr>c_read_end := c_data_size ctx\<rparr>)"

definition open_section :: "u32 \<Rightarrow> ('u, unit) reading" where
  "open_section section_size ctx =
     (let ctx1 = ctx\<lparr>c_read_end := c_offset ctx + unat section_size\<rparr>
      in if c_data_size ctx1 < c_read_end ctx1
         then raise_error ''invalid section size: extends past end'' [] ctx1
         else Inr ((), ctx1))"

definition check_section_order :: "nat \<Rightarrow> ('u, unit) reading" where
  "check_section_order section_code =
     rbind get_counts (\<lambda>c.
       raise_error_unless
         (\<not> (last_known_section_code c \<noteq> WASM_NUM_BINARY_SECTIONS
             \<and> section_code \<noteq> WASM_BINARY_SECTION_CUSTOM
             \<and> section_code \<le> last_known_section_code c))
         ''section %s out of order'' [ArgStr (s_section_name ! section_code)])"

definition close_section :: "nat \<Rightarrow> ('u, unit) reading" where
  "close_section section_code ctx =
     (if c_offset ctx \<noteq> c_read_end ctx
      then raise_error ''unfinished section (expected end: 0x%zx)'' [ArgInt (int (c_read_end ctx))] ctx
      else if section_code \<noteq> WASM_BINARY_SECTION_CUSTOM
      then update_counts (last_known_section_code_update (\<lambda>_. section_code)) ctx
      else Inr ((), ctx))"

definition read_section :: "('u, unit) reading" where
  "read_section =
     rthen set_read_end_to_data_size
     (rbind (in_u32_leb128 ''section code'') (\<lambda>section_code.
      rbind (in_u32_leb128 ''section size'') (\<lambda>section_size.
        rseq [open_section section_size,
              check_section_order (unat section_code),
              callback_ctx (Begin_section (unat section_code) section_size),
              read_section_body (unat section_code) section_size,
              close_section (unat section_code)])))"

subsection \<open>Safety of the section readers\<close>

text \<open>
  \<open>safe m\<close> is the part of \<open>bounded\<close> that also holds of \<open>read_function\<close>, which may move the
  offset backwards by narrowing it to 32 bits.
\<close>

definition safe :: "('u, 'a) reading \<Rightarrow> bool" where
  "safe m \<longleftrightarrow> (\<forall>ctx. case m ctx of
       Inl (f, ctx') \<Rightarrow> wf_ctx ctx \<longrightarrow> f \<noteq> BadAccess
     | Inr (x, ctx') \<Rightarrow> c_data ctx' = c_data ctx \<and> c_read_end ctx' = c_read_end ctx
         \<and> (wf_ctx ctx \<longrightarrow> wf_ctx ctx'))"

lemma bounded_safe:
  assumes "bounded m"
  shows "safe m"
  unfolding safe_def
proof
  fix ctx
  show "case m ctx of
       Inl (f, ctx') \<Rightarrow> wf_ctx ctx \<longrightarrow> f \<noteq> BadAccess
     | Inr (x, ctx') \<Rightarrow> c_data ctx' = c_data ctx \<and> c_read_end ctx' = c_read_end ctx
         \<and> (wf_ctx ctx \<longrightarrow> wf_ctx ctx')"
    using boundedD(1,2,5) [OF assms] bounded_fault [OF assms] by (cases "m ctx") (auto, blast)
qed

lemma safeD:
  assumes "safe m" "m ctx = Inr (x, ctx')"
  shows "c_data ctx' = c_data ctx" "c_read_end ctx' = c_read_end ctx" "wf_ctx ctx \<Longrightarrow> wf_ctx ctx'"
  using assms(1) [unfolded safe_def, rule_format, of ctx] assms(2) by auto

lemma safe_fault: "safe m \<Longrightarrow> m ctx = Inl (f, ctx') \<Longrightarrow> wf_ctx ctx \<Longrightarrow> f \<noteq> BadAccess"
  by (auto simp: safe_def dest!: spec [of _ ctx])

lemma safe_rbind:
  assumes "safe m" "\<And>x. safe (k x)"
  shows "safe (rbind m k)"
  unfolding safe_def
proof
  fix ctx
  show "case rbind m k ctx of
       Inl (f, ctx') \<Rightarrow> wf_ctx ctx \<longrightarrow> f \<noteq> BadAccess
     | Inr (x, ctx') \<Rightarrow> c_data ctx' = c_data ctx \<and> c_read_end ctx' = c_read_end ctx
         \<and> (wf_ctx ctx \<longrightarrow> wf_ctx ctx')"
  proof (cases "m ctx")
    case (Inl f)
    then show ?thesis using safe_fault [OF assms(1)] by (cases f) (auto simp: rbind_def)
  next
    case (Inr r)
    then obtain x ctx1 where m: "m ctx = Inr (x, ctx1)" by (cases r) simp
    show ?thesis
    proof (cases "k x ctx1")
      case (Inl f)
      then show ?thesis
        using m safeD(3) [OF assms(1) m] safe_fault [OF assms(2)] by (cases f) (auto simp: rbind_def)
    next
      case (Inr r)
      then obtain y ctx2 where k: "k x ctx1 = Inr (y, ctx2)" by (cases r) simp
      from safeD [OF assms(1) m] safeD [OF assms(2) k] show ?thesis
        using m k by (simp add: rbind_def)
    qed
  qed
qed

lemma safe_rseq_Cons: "safe m \<Longrightarrow> safe (rseq ms) \<Longrightarrow> safe (rseq (m # ms))"
  by (simp add: safe_rbind)

lemma safe_rfor: "(\<And>i. safe (body i)) \<Longrightarrow> safe (rfor i n body)"
  by (induction n arbitrary: i) (auto intro: safe_rbind bounded_safe bounded_intros)

lemma safe_narrow_offset: "safe narrow_offset"
proof -
  have "unat (u32_of_nat n) \<le> n" for n
    by (simp add: unat_of_nat take_bit_eq_mod)
  then show ?thesis
    by (auto simp: safe_def narrow_offset_def wf_ctx_def intro: order.trans)
qed

lemma safe_skip: "safe skip_to_read_end"
  by (simp add: safe_def skip_to_read_end_def wf_ctx_def)

lemma bounded_get [bounded_intros]: "bounded get_options" "bounded get_offset"
  by (simp_all add: bounded_def get_options_def get_offset_def)

lemma bounded_case_prod [bounded_intros]: "(\<And>x y. bounded (f x y)) \<Longrightarrow> bounded (case p of (x, y) \<Rightarrow> f x y)"
  by (cases p) simp

lemma bounded_callbacks [bounded_intros]:
  "bounded (names_callback ev1)" "bounded (signature_callback ev2)" "bounded (import_callback ev3)"
  "bounded (function_callback ev4)" "bounded (table_callback ev5)" "bounded (memory_callback ev6)"
  "bounded (global_callback ev7)" "bounded (export_callback ev8)" "bounded (elem_callback ev9)"
  "bounded (code_callback ev10)" "bounded (data_callback ev11)"
  unfolding names_callback_def signature_callback_def import_callback_def function_callback_def
    table_callback_def memory_callback_def global_callback_def export_callback_def elem_callback_def
    code_callback_def data_callback_def
  by (intro bounded_intros)+

lemma bounded_in_value_type [bounded_intros]: "bounded (in_value_type desc format)"
  unfolding in_value_type_def by (intro bounded_intros)

lemma bounded_import_desc [bounded_intros]: "bounded (read_import_desc i kind)"
  unfolding read_import_desc_def
  by (split option.split, intro conjI allI impI, intro bounded_intros,
      split WasmExternalKind.split, intro conjI allI impI bounded_intros)

lemma bounded_read_export [bounded_intros]: "bounded (read_export i)"
proof -
  have *: "bounded (case k of None \<Rightarrow> rret () | Some kind \<Rightarrow> f kind)" if "\<And>kind. bounded (f kind)"
    for k and f :: "WasmExternalKind \<Rightarrow> ('u, unit) reading"
    using that by (cases k) (auto intro: bounded_intros)
  show ?thesis unfolding read_export_def by (intro bounded_intros *)
qed

lemma bounded_section_items [bounded_intros]:
  "bounded (read_function_names i)" "bounded (read_signature i)" "bounded (read_import i)"
  "bounded (read_function_signature i)" "bounded (read_global i)" "bounded (read_elem_segment i)"
  "bounded (read_local_decl i)" "bounded (read_data_segment i)"
  unfolding read_function_names_def read_signature_def read_import_def read_function_signature_def
    read_global_def read_elem_segment_def read_local_decl_def read_data_segment_def
  by (intro bounded_intros)+

lemma bounded_sections [bounded_intros]:
  "bounded (read_names section_size)"
  "bounded (read_type_section section_size)" "bounded (read_import_section section_size)"
  "bounded (read_function_section section_size)" "bounded (read_table_section section_size)"
  "bounded (read_memory_section section_size)" "bounded (read_global_section section_size)"
  "bounded (read_export_section section_size)" "bounded (read_start_section section_size)"
  "bounded (read_elem_section section_size)" "bounded (read_data_section section_size)"
  unfolding read_names_def read_type_section_def read_import_section_def read_function_section_def
    read_table_section_def read_memory_section_def read_global_section_def read_export_section_def
    read_start_section_def read_elem_section_def read_data_section_def
  by (intro bounded_intros)+

lemma safe_read_function: "safe (read_function i)"
  unfolding read_function_def
  by (rule safe_rbind [OF safe_narrow_offset]) (intro bounded_safe bounded_intros)

lemma safe_read_code_section: "safe (read_code_section section_size)"
  unfolding read_code_section_def
  by (intro safe_rbind safe_rseq_Cons safe_rfor safe_read_function bounded_safe [OF bounded_rseq_simps(1)];
      intro bounded_safe bounded_intros)

lemma safe_if: "safe a \<Longrightarrow> safe b \<Longrightarrow> safe (if c then a else b)"
  by simp

lemma safe_read_custom_section: "safe (read_custom_section section_size)"
  unfolding read_custom_section_def
  by (intro safe_rbind safe_rseq_Cons safe_if safe_skip bounded_safe [OF bounded_rseq_simps(1)];
      intro bounded_safe bounded_intros)

lemma safe_read_section_body: "safe (read_section_body section_code section_size)"
  unfolding read_section_body_def
  by (intro safe_if safe_read_custom_section safe_read_code_section; intro bounded_safe bounded_intros)

lemma bounded_check_section_order [bounded_intros]: "bounded (check_section_order section_code)"
  unfolding check_section_order_def by (intro bounded_intros)

text \<open>A section is consumed completely; the next one starts after it.\<close>

lemma open_section_Inr:
  "open_section section_size ctx = Inr (x, ctx') \<Longrightarrow>
     c_data ctx' = c_data ctx \<and> c_offset ctx' = c_offset ctx \<and> wf_ctx ctx'"
  by (auto simp: open_section_def Let_def raise_error_def wf_ctx_def split: if_splits)

lemma close_section_Inr:
  "close_section section_code ctx = Inr (x, ctx') \<Longrightarrow>
     c_data ctx' = c_data ctx \<and> c_read_end ctx' = c_read_end ctx \<and> c_offset ctx' = c_read_end ctx"
  by (auto simp: close_section_def raise_error_def update_counts_def split: if_splits)

lemma in_u32_leb128_consumes:
  "in_u32_leb128 desc ctx = Inr (x, ctx') \<Longrightarrow>
     c_data ctx' = c_data ctx \<and> c_read_end ctx' = c_read_end ctx \<and> c_offset ctx < c_offset ctx'"
  by (auto simp: in_u32_leb128_def in_leb_def raise_error_def split: if_splits sum.splits option.splits
      dest: wasm_read_u32_leb128_bounds)

lemma rseq_Cons_Inr_iff:
  "rseq (m # ms) ctx = Inr r \<longleftrightarrow> (\<exists>x ctx1. m ctx = Inr (x, ctx1) \<and> rseq ms ctx1 = Inr r)"
  by (simp add: rbind_Inr_iff)

definition section_contents :: "nat \<Rightarrow> u32 \<Rightarrow> ('u, unit) reading" where
  "section_contents section_code section_size =
     rseq [check_section_order section_code, callback_ctx (Begin_section section_code section_size),
           read_section_body section_code section_size]"

lemma safe_section_contents: "safe (section_contents section_code section_size)"
  unfolding section_contents_def
  by (intro safe_rseq_Cons safe_read_section_body; intro bounded_safe bounded_intros)

lemma rbind_assoc: "rbind (rbind m f) g = rbind m (\<lambda>x. rbind (f x) g)"
  by (rule ext) (simp add: rbind_def split: sum.split)

lemma rbind_rret [simp]: "rbind (rret x) f = f x" "rbind m rret = m"
  by (auto simp: rbind_def rret_def fun_eq_iff split: sum.split)

lemma rseq_append: "rseq (xs @ ys) = rthen (rseq xs) (rseq ys)"
  by (induction xs) (simp_all add: rbind_assoc)

lemma read_section_alt:
  "read_section =
     rthen set_read_end_to_data_size
     (rbind (in_u32_leb128 ''section code'') (\<lambda>section_code.
      rbind (in_u32_leb128 ''section size'') (\<lambda>section_size.
      rthen (open_section section_size)
      (rthen (section_contents (unat section_code) section_size) (close_section (unat section_code))))))"
  unfolding read_section_def section_contents_def by (simp add: rbind_assoc)

lemma read_section_consumes:
  assumes "read_section ctx = Inr (x, ctx')"
  shows "c_data ctx' = c_data ctx \<and> c_offset ctx < c_offset ctx' \<and> c_offset ctx' \<le> c_data_size ctx"
proof -
  from assms obtain c sz ctx1 ctx2 ctx3 ctx4 ctx5 u v y where
    1: "set_read_end_to_data_size ctx = Inr (u, ctx1)" and
    2: "in_u32_leb128 ''section code'' ctx1 = Inr (c, ctx2)" and
    3: "in_u32_leb128 ''section size'' ctx2 = Inr (sz, ctx3)" and
    4: "open_section sz ctx3 = Inr (v, ctx4)" and
    5: "section_contents (unat c) sz ctx4 = Inr (y, ctx5)" and
    6: "close_section (unat c) ctx5 = Inr (x, ctx')"
    unfolding read_section_alt rbind_Inr_iff by blast
  have "c_data ctx1 = c_data ctx" "c_offset ctx1 = c_offset ctx"
    using 1 by (auto simp: set_read_end_to_data_size_def)
  moreover note in_u32_leb128_consumes [OF 2] in_u32_leb128_consumes [OF 3] open_section_Inr [OF 4]
    close_section_Inr [OF 6] safeD(1,2) [OF safe_section_contents 5]
  ultimately show ?thesis by (auto simp: wf_ctx_def)
qed

lemma read_section_fault:
  assumes "read_section ctx = Inl (f, ctx')" "c_offset ctx \<le> c_data_size ctx"
  shows "f \<noteq> BadAccess"
proof -
  let ?ctx1 = "ctx\<lparr>c_read_end := c_data_size ctx\<rparr>"
  have wf: "wf_ctx ?ctx1" using assms(2) by (simp add: wf_ctx_def)
  have run: "rbind (in_u32_leb128 ''section code'') (\<lambda>section_code.
      rbind (in_u32_leb128 ''section size'') (\<lambda>section_size.
      rthen (open_section section_size)
      (rthen (section_contents (unat section_code) section_size) (close_section (unat section_code))))) ?ctx1
      = Inl (f, ctx')"
    using assms(1) unfolding read_section_alt by (simp add: rbind_def [of set_read_end_to_data_size] set_read_end_to_data_size_def)
  then consider (code) "in_u32_leb128 ''section code'' ?ctx1 = Inl (f, ctx')"
    | (sz) c ctx2 where "in_u32_leb128 ''section code'' ?ctx1 = Inr (c, ctx2)"
        "in_u32_leb128 ''section size'' ctx2 = Inl (f, ctx')"
    | (early) n ctx3 where "open_section n ctx3 = Inl (f, ctx')"
    | (body) n ctx3 v ctx4 c where "open_section n ctx3 = Inr (v, ctx4)" "section_contents c n ctx4 = Inl (f, ctx')"
    | (late) c ctx5 where "close_section c ctx5 = Inl (f, ctx')"
    unfolding rbind_Inl_iff by metis
  then show ?thesis
  proof cases
    case code
    then show ?thesis using bounded_fault [OF bounded_leb128(1) _ wf] by blast
  next
    case sz
    then show ?thesis using bounded_fault [OF bounded_leb128(1)] boundedD(5) [OF bounded_leb128(1) _ wf] by blast
  next
    case body
    then show ?thesis using safe_fault [OF safe_section_contents] open_section_Inr by blast
  qed (auto simp: open_section_def close_section_def Let_def raise_error_def update_counts_def split: if_splits)
qed

subsection \<open>The module\<close>

text \<open>The loop over the sections ends because each section moves the offset forward.\<close>

function read_sections :: "('u, unit) reading" where
  "read_sections ctx =
     (if c_offset ctx < c_data_size ctx then
        (case read_section ctx of
           Inl f \<Rightarrow> Inl f
         | Inr (_, ctx') \<Rightarrow> read_sections ctx')
      else Inr ((), ctx))"
  by pat_completeness auto
termination
  by (relation "measure (\<lambda>ctx. c_data_size ctx - c_offset ctx)") (use read_section_consumes in fastforce)+

declare read_sections.simps [simp del]

text \<open>The two words of the header, and the first call.\<close>

definition read_header :: "('u, unit) reading" where
  "read_header =
     rbind (in_u32 ''magic'') (\<lambda>magic.
     rthen (raise_error_unless (magic = WASM_BINARY_MAGIC) ''bad magic value'' [])
     (rbind (in_u32 ''version'') (\<lambda>version.
        rseq [raise_error_unless (version = WASM_BINARY_VERSION) ''bad wasm file version: %#x (expected %#x)''
                [ArgInt (uint version), ArgInt (uint WASM_BINARY_VERSION)],
              callback (Begin_module version)])))"

definition read_module :: "('u, unit) reading" where
  "read_module = rseq [read_header, read_sections, callback End_module]"

definition init_counts :: ContextCounts where
  "init_counts =
     \<lparr>last_known_section_code = WASM_NUM_BINARY_SECTIONS, c_num_signatures = 0, c_num_imports = 0,
      c_num_func_imports = 0, c_num_table_imports = 0, c_num_memory_imports = 0, c_num_global_imports = 0,
      c_num_function_signatures = 0, c_num_tables = 0, c_num_memories = 0, c_num_globals = 0,
      c_num_exports = 0, c_num_function_bodies = 0\<rparr>"

definition init_context ::
    "byte list \<Rightarrow> 'u WasmBinaryReader \<Rightarrow> WasmReadBinaryOptions \<Rightarrow> 'u \<Rightarrow> 'u Context" where
  "init_context data reader opts user =
     \<lparr>c_data = data, c_offset = 0, c_read_end = length data, c_user_data = user,
      c_reader = reader, c_options = opts, c_counts = init_counts\<rparr>"

definition wasm_read_binary ::
    "byte list \<Rightarrow> 'u WasmBinaryReader \<Rightarrow> WasmReadBinaryOptions \<Rightarrow> 'u \<Rightarrow> WasmResult \<times> 'u" where
  "wasm_read_binary data reader opts user =
     (case read_module (init_context data reader opts user) of
        Inl (_, ctx) \<Rightarrow> (WASM_ERROR, c_user_data ctx)
      | Inr (_, ctx) \<Rightarrow> (WASM_OK, c_user_data ctx))"

lemma read_sections_result:
  "c_offset ctx \<le> c_data_size ctx \<Longrightarrow>
     (case read_sections ctx of
        Inl (f, ctx') \<Rightarrow> f \<noteq> BadAccess
      | Inr (_, ctx') \<Rightarrow> c_data ctx' = c_data ctx \<and> c_offset ctx' = c_data_size ctx)"
proof (induction ctx rule: read_sections.induct)
  case (1 ctx)
  show ?case
  proof (cases "read_section ctx")
    case (Inl f)
    then show ?thesis
      using read_section_fault [OF _ "1.prems"] "1.prems" by (cases f) (auto simp: read_sections.simps [of ctx])
  next
    case (Inr r)
    then obtain x ctx1 where step: "read_section ctx = Inr (x, ctx1)" by (cases r) simp
    note keeps = read_section_consumes [OF step]
    show ?thesis
    proof (cases "c_offset ctx < c_data_size ctx")
      case True
      from "1.IH" [OF True step refl] keeps show ?thesis
        by (simp add: read_sections.simps [of ctx] True step split: sum.splits prod.splits)
    qed (use "1.prems" in \<open>simp add: read_sections.simps [of ctx]\<close>)
  qed
qed
lemma bounded_read_header: "bounded read_header"
  unfolding read_header_def by (intro bounded_intros)

text \<open>The whole reader makes no bad access, and when it succeeds it has consumed all the data.\<close>

lemma read_module_result:
  assumes "wf_ctx ctx" "c_read_end ctx = c_data_size ctx"
  shows "case read_module ctx of
      Inl (f, _) \<Rightarrow> f \<noteq> BadAccess
    | Inr (_, ctx') \<Rightarrow> c_data ctx' = c_data ctx \<and> c_offset ctx' = c_data_size ctx"
proof (cases "read_header ctx")
  case (Inl f)
  then show ?thesis
    using bounded_fault [OF bounded_read_header _ assms(1)] by (cases f) (auto simp: read_module_def rbind_def)
next
  case (Inr r)
  then obtain x ctx1 where head: "read_header ctx = Inr (x, ctx1)" by (cases r) simp
  have keeps: "c_data ctx1 = c_data ctx" "wf_ctx ctx1"
    using boundedD(1,5) [OF bounded_read_header head] assms(1) by auto
  then have off: "c_offset ctx1 \<le> c_data_size ctx1" by (simp add: wf_ctx_def)
  note sections = read_sections_result [OF off]
  have final: "case callback End_module c of Inl (f, _) \<Rightarrow> f \<noteq> BadAccess
      | Inr (_, ctx') \<Rightarrow> c_data ctx' = c_data c \<and> c_offset ctx' = c_offset c" for c :: "'a Context"
    by (auto simp: callback_def call_member_def raise_error_def rret_def split: prod.split WasmResult.split)
  show ?thesis
  proof (cases "read_sections ctx1")
    case (Inl f)
    then show ?thesis using sections head by (cases f) (simp add: read_module_def rbind_def)
  next
    case (Inr r)
    then obtain y ctx2 where "read_sections ctx1 = Inr (y, ctx2)" by (cases r) simp
    then show ?thesis
      using sections final [of ctx2] head keeps
      by (simp add: read_module_def rbind_def split: sum.splits prod.splits)
  qed
qed

end
