(* ===== verification/Wabt_Reads.thy ===== *)
theory Wabt_Reads
  imports Wabt_Binary_Format Wabt_Binary_Reader
begin

text \<open>
  A calculus for reading what an encoder wrote. \<open>reads\<close> relates a reading function to the bytes
  it consumes and the calls it makes; its rules follow the sequencing operators, so that the
  behaviour of a reading function on encoded data is derived from that of its parts.
\<close>

subsection \<open>Feeding calls to a reader object\<close>

text \<open>
  The state after a sequence of calls, \<open>None\<close> as soon as one fails. The reader objects
  considered here do not look at the position argument.
\<close>

primrec feed :: "(WasmReaderEvent \<Rightarrow> 'u \<Rightarrow> WasmResult \<times> 'u) \<Rightarrow> WasmReaderEvent list \<Rightarrow> 'u \<Rightarrow> 'u option" where
  "feed g [] u = Some u"
| "feed g (ev # evs) u = (case g ev u of (WASM_OK, u') \<Rightarrow> feed g evs u' | (WASM_ERROR, _) \<Rightarrow> None)"

lemma feed_append: "feed g (xs @ ys) u = (case feed g xs u of None \<Rightarrow> None | Some u' \<Rightarrow> feed g ys u')"
  by (induction xs arbitrary: u) (auto split: prod.split WasmResult.split)

lemma feed_append_SomeE:
  assumes "feed g (xs @ ys) u = Some u'"
  obtains u1 where "feed g xs u = Some u1" "feed g ys u1 = Some u'"
  using assms by (auto simp: feed_append split: option.splits)

subsection \<open>The relation\<close>

definition ready ::
    "(WasmReaderEvent \<Rightarrow> 'u \<Rightarrow> WasmResult \<times> 'u) \<Rightarrow> WasmReadBinaryOptions \<Rightarrow> ContextCounts \<Rightarrow> 'u Context \<Rightarrow> bool" where
  "ready g opts c ctx \<longleftrightarrow>
     reader_member (c_reader ctx) = (\<lambda>ev _. g ev) \<and> c_options ctx = opts \<and> c_counts ctx = c
     \<and> wf_ctx ctx \<and> c_data_size ctx < 2 ^ 32"

definition advance :: "nat \<Rightarrow> 'u \<Rightarrow> ContextCounts \<Rightarrow> 'u Context \<Rightarrow> 'u Context" where
  "advance n u c ctx = ctx\<lparr>c_offset := c_offset ctx + n, c_user_data := u, c_counts := c\<rparr>"

text \<open>
  \<open>reads opts c m bs evs x c'\<close>: with counters \<open>c\<close> and \<open>bs\<close> next in the input, \<open>m\<close> consumes
  exactly \<open>bs\<close>, makes the calls \<open>evs\<close>, returns \<open>x\<close> and leaves the counters \<open>c'\<close>.
\<close>

definition reads ::
    "WasmReadBinaryOptions \<Rightarrow> ContextCounts \<Rightarrow> ('u, 'a) reading \<Rightarrow> byte list \<Rightarrow> WasmReaderEvent list
     \<Rightarrow> 'a \<Rightarrow> ContextCounts \<Rightarrow> bool" where
  "reads opts c m bs evs x c' \<longleftrightarrow>
     (\<forall>g ctx rest u. ready g opts c ctx \<longrightarrow> window ctx = bs @ rest \<longrightarrow> feed g evs (c_user_data ctx) = Some u \<longrightarrow>
        m ctx = Inr (x, advance (length bs) u c' ctx))"

lemma readsD:
  "reads opts c m bs evs x c' \<Longrightarrow> ready g opts c ctx \<Longrightarrow> window ctx = bs @ rest \<Longrightarrow>
     feed g evs (c_user_data ctx) = Some u \<Longrightarrow> m ctx = Inr (x, advance (length bs) u c' ctx)"
  unfolding reads_def by blast

lemma window_fits: "window ctx = bs @ rest \<Longrightarrow> wf_ctx ctx \<Longrightarrow> c_offset ctx + length bs \<le> c_read_end ctx"
  by (drule arg_cong [where f = length]) (auto simp: window_def wf_ctx_def)

lemma window_advance:
  assumes "window ctx = bs @ rest"
  shows "window (advance (length bs) u c ctx) = rest"
proof -
  have "window (advance (length bs) u c ctx) = drop (length bs) (window ctx)"
    by (simp add: window_def advance_def drop_take add.commute)
  then show ?thesis using assms by simp
qed

lemma ready_advance:
  "ready g opts c ctx \<Longrightarrow> window ctx = bs @ rest \<Longrightarrow> ready g opts c' (advance (length bs) u c' ctx)"
  using window_fits [of ctx bs rest] by (auto simp: ready_def advance_def wf_ctx_def)

lemma advance_advance [simp]: "advance k v d (advance n u c ctx) = advance (n + k) v d ctx"
  by (simp add: advance_def add.assoc)

lemma advance_user [simp]: "c_user_data (advance n u c ctx) = u"
  by (simp add: advance_def)

lemma window_take:
  assumes "window ctx = bs @ rest" "wf_ctx ctx"
  shows "take (length bs) (drop (c_offset ctx) (c_data ctx)) = bs"
proof -
  have "take (length bs) (window ctx) = take (length bs) (drop (c_offset ctx) (c_data ctx))"
    using window_fits [OF assms] by (simp add: window_def min_def)
  then show ?thesis using assms(1) by simp
qed

subsection \<open>Rules\<close>

named_theorems reads_intros \<open>introduction rules for \<open>reads\<close>\<close>

lemma reads_rret [reads_intros]: "reads opts c (rret x) [] [] x c"
  by (auto simp: reads_def rret_def advance_def ready_def)

lemma reads_rbind [reads_intros]:
  assumes "reads opts c m bs evs x c1" "reads opts c1 (k x) bs' evs' y c2"
  shows "reads opts c (rbind m k) (bs @ bs') (evs @ evs') y c2"
  unfolding reads_def
proof (intro allI impI)
  fix g :: "WasmReaderEvent \<Rightarrow> 'a \<Rightarrow> WasmResult \<times> 'a" and ctx rest u
  assume rd: "ready g opts c ctx" and w: "window ctx = (bs @ bs') @ rest"
    and f: "feed g (evs @ evs') (c_user_data ctx) = Some u"
  from f obtain u1 where f1: "feed g evs (c_user_data ctx) = Some u1" and f2: "feed g evs' u1 = Some u"
    by (rule feed_append_SomeE)
  have w1: "window ctx = bs @ (bs' @ rest)" using w by simp
  show "rbind m k ctx = Inr (y, advance (length (bs @ bs')) u c2 ctx)"
    using readsD [OF assms(1) rd w1 f1]
      readsD [OF assms(2) ready_advance [OF rd w1] window_advance [OF w1], unfolded advance_user, OF f2]
    by (simp add: rbind_def)
qed

text \<open>A first part that reads nothing, or makes no call.\<close>

lemma reads_rbind_silent [reads_intros]:
  "reads opts c m bs [] x c1 \<Longrightarrow> reads opts c1 (k x) bs' evs y c2 \<Longrightarrow> reads opts c (rbind m k) (bs @ bs') evs y c2"
  using reads_rbind [of opts c m bs "[]" x c1 k bs' evs y c2] by simp

lemma reads_rbind_empty:
  "reads opts c m [] evs x c1 \<Longrightarrow> reads opts c1 (k x) bs evs' y c2 \<Longrightarrow> reads opts c (rbind m k) bs (evs @ evs') y c2"
  using reads_rbind [of opts c m "[]" evs x c1 k bs evs' y c2] by simp

lemma reads_raise_error_unless: "cond \<Longrightarrow> reads opts c (raise_error_unless cond format args) [] [] () c"
  by (simp add: raise_error_unless_def reads_rret)

lemma reads_guard:
  "cond \<Longrightarrow> reads opts c k bs evs y c2 \<Longrightarrow> reads opts c (rthen (raise_error_unless cond format args) k) bs evs y c2"
  by (simp add: raise_error_unless_def)

lemma reads_call:
  "reads opts c (callback ev) [] [ev] () c" "reads opts c (callback_ctx ev) [] [ev] () c"
  by (auto simp: reads_def callback_def callback_ctx_def call_member_def ready_def advance_def rret_def
      split: prod.splits WasmResult.splits)

lemma reads_callback:
  "reads opts c k bs evs y c2 \<Longrightarrow> reads opts c (rthen (callback ev) k) bs (ev # evs) y c2"
  "reads opts c k bs evs y c2 \<Longrightarrow> reads opts c (rthen (callback_ctx ev) k) bs (ev # evs) y c2"
  using reads_rbind_empty [OF reads_call(1)] reads_rbind_empty [OF reads_call(2)] by fastforce+

lemma reads_get_counts: "reads opts c (k c) bs evs y c2 \<Longrightarrow> reads opts c (rbind get_counts k) bs evs y c2"
  by (auto simp: reads_def rbind_def get_counts_def ready_def)

lemma reads_get_options: "reads opts c (k opts) bs evs y c2 \<Longrightarrow> reads opts c (rbind get_options k) bs evs y c2"
  by (auto simp: reads_def rbind_def get_options_def ready_def)

lemma reads_update_counts:
  "reads opts (f c) k bs evs y c2 \<Longrightarrow> reads opts c (rthen (update_counts f) k) bs evs y c2"
proof -
  assume k: "reads opts (f c) k bs evs y c2"
  have "reads opts c (update_counts f) [] [] () (f c)"
    by (auto simp: reads_def update_counts_def ready_def advance_def)
  from reads_rbind_empty [OF this k] show ?thesis by simp
qed

lemma reads_update_counts_last: "reads opts c (update_counts f) [] [] () (f c)"
  by (auto simp: reads_def update_counts_def ready_def advance_def)

lemma reads_rfor:
  assumes "\<And>i x. (i, x) \<in> set (enumerate j xs) \<Longrightarrow> reads opts c (body (u32_of_nat i)) (enc x) (evs i x) () c"
  shows "reads opts c (rfor j (length xs) body) (concat (map enc xs)) (concat (map (\<lambda>(i, x). evs i x) (enumerate j xs))) () c"
  using assms
proof (induction xs arbitrary: j)
  case Nil
  then show ?case by (simp add: reads_rret)
next
  case (Cons x xs)
  then show ?case by (auto intro!: reads_rbind)
qed

lemma reads_rfill:
  assumes "\<And>x. x \<in> set xs \<Longrightarrow> reads opts c m (enc x) [] (dec x) c"
  shows "reads opts c (rfill (length xs) m) (concat (map enc xs)) [] (map dec xs) c"
  using assms
proof (induction xs)
  case Nil
  then show ?case by (simp add: reads_rret)
next
  case (Cons x xs)
  then have "reads opts c (rbind (rfill (length xs) m) (\<lambda>xs. rret (dec x # xs))) (concat (map enc xs) @ []) []
      (dec x # map dec xs) c"
    by (intro reads_rbind_silent) (auto intro: reads_rret)
  with Cons.prems show ?case by (auto intro!: reads_rbind_silent)
qed

subsection \<open>Scalars\<close>

lemma reads_in_size:
  assumes "length bs = n"
  shows "reads opts c (in_size n type desc) bs [] bs c"
  unfolding reads_def
proof (intro allI impI)
  fix g :: "WasmReaderEvent \<Rightarrow> 'a \<Rightarrow> WasmResult \<times> 'a" and ctx rest u
  assume rd: "ready g opts c ctx" and w: "window ctx = bs @ rest" and f: "feed g [] (c_user_data ctx) = Some u"
  from rd have wf: "wf_ctx ctx" by (simp add: ready_def)
  show "in_size n type desc ctx = Inr (bs, advance (length bs) u c ctx)"
    using window_fits [OF w wf] window_take [OF w wf] wf rd f assms
    by (simp add: in_size_def advance_def wf_ctx_def ready_def)
qed

lemma reads_in_span:
  assumes "length bs = unat len"
  shows "reads opts c (in_span format desc len) bs [] bs c"
  unfolding reads_def
proof (intro allI impI)
  fix g :: "WasmReaderEvent \<Rightarrow> 'a \<Rightarrow> WasmResult \<times> 'a" and ctx rest u
  assume rd: "ready g opts c ctx" and w: "window ctx = bs @ rest" and f: "feed g [] (c_user_data ctx) = Some u"
  from rd have wf: "wf_ctx ctx" by (simp add: ready_def)
  show "in_span format desc len ctx = Inr (bs, advance (length bs) u c ctx)"
    using window_fits [OF w wf] window_take [OF w wf] wf rd f assms
    by (simp add: in_span_def advance_def wf_ctx_def ready_def)
qed

lemma reads_in_leb:
  assumes "\<And>rest. decode (bs @ rest) = Inr (v, length bs)"
  shows "reads opts c (in_leb decode desc) bs [] v c"
  using assms by (auto simp: reads_def in_leb_def advance_def ready_def wf_ctx_def)

lemma reads_u32_leb128 [reads_intros]: "reads opts c (in_u32_leb128 desc) (u32_leb128_bytes v) [] v c"
  unfolding in_u32_leb128_def by (rule reads_in_leb) (simp add: u32_leb.dec_enc)

lemma reads_fixed_u32_leb128: "reads opts c (in_u32_leb128 desc) (fixed_u32_leb128_bytes v) [] v c"
  unfolding in_u32_leb128_def by (rule reads_in_leb) (simp add: fixed_leb.dec_enc)

lemma reads_i32_leb128 [reads_intros]: "reads opts c (in_i32_leb128 desc) (i32_leb128_bytes v) [] v c"
  unfolding in_i32_leb128_def by (rule reads_in_leb) (simp add: i32_leb.dec_enc)

lemma reads_i64_leb128 [reads_intros]: "reads opts c (in_i64_leb128 desc) (i64_leb128_bytes v) [] v c"
  unfolding in_i64_leb128_def by (rule reads_in_leb) (simp add: read_i64_leb128_bytes)

lemma reads_nat [reads_intros]: "reads opts c (in_u32_leb128 desc) (enc_nat n) [] (u32_of_nat n) c"
  unfolding enc_nat_def by (rule reads_u32_leb128)

lemma reads_index [reads_intros]: "reads opts c (in_u32_leb128 desc) (enc_index i) [] (word_of_int i) c"
  unfolding enc_index_def by (rule reads_u32_leb128)

lemma reads_size: "reads opts c (in_u32_leb128 desc) (enc_size wopts n) [] (u32_of_nat n) c"
  by (simp add: enc_size_def reads_nat reads_fixed_u32_leb128)

text \<open>A single byte below 128 is also a LEB128 number.\<close>

lemma small_byte_leb:
  assumes "n < 128"
  shows "[word_of_nat n :: byte] = enc_nat n"
proof -
  have u: "unat (u32_of_nat n) = n" using assms by simp
  have "unat (drop_bit 7 (u32_of_nat n)) = 0"
    unfolding unat_drop_bit_eq u using assms by (simp add: drop_bit_eq_div)
  then have "drop_bit 7 (u32_of_nat n) = 0" by (simp only: unat_eq_0)
  moreover have "take_bit 7 (u32_of_nat n) = u32_of_nat n"
    by (rule drop_bit_eq_0_imp_take_bit) fact
  moreover have "(ucast (u32_of_nat n) :: byte) = word_of_nat n"
    by (rule bit_word_eqI) (simp add: bit_simps)
  ultimately show ?thesis
    unfolding enc_nat_def
    by (subst u32_leb128_bytes.simps) (simp add: Let_def and_0x7f_take_bit)
qed

lemma reads_code: "n < 128 \<Longrightarrow> reads opts c (in_u32_leb128 desc) [word_of_nat n] [] (u32_of_nat n) c"
  by (simp only: small_byte_leb reads_nat)

lemma le_word_one: "le_word 1 [b] = (b :: byte)"
  by (simp add: ucast_id)

lemma reads_u8 [reads_intros]: "reads opts c (in_u8 desc) [b] [] b c"
proof -
  have "reads opts c (rbind (in_size 1 ''uint8_t'' desc) (\<lambda>bs. rret (le_word 1 bs))) ([b] @ []) [] (le_word 1 [b] :: byte) c"
    by (rule reads_rbind_silent [OF reads_in_size reads_rret]) simp
  then show ?thesis unfolding in_u8_def le_word_one append.simps .
qed

lemma reads_le_bytes:
  "reads opts c (in_u32 desc) (le_bytes 4 w) [] w c"
  "reads opts c (in_f32 desc) (le_bytes 4 w) [] w c"
  "reads opts c (in_f64 desc) (le_bytes 8 w') [] w' c"
proof -
  have w: "le_word 4 (le_bytes 4 w) = w" "le_word 8 (le_bytes 8 w') = w'"
    using le_word_le_bytes_full [of 4 w "[]"] le_word_le_bytes_full [of 8 w' "[]"] by simp_all
  have "reads opts c (rbind (in_size 4 type desc) (\<lambda>bs. rret (le_word 4 bs))) (le_bytes 4 w @ []) [] w c" for type
    by (rule reads_rbind_silent [OF reads_in_size]) (simp_all add: w reads_rret)
  then show "reads opts c (in_u32 desc) (le_bytes 4 w) [] w c" "reads opts c (in_f32 desc) (le_bytes 4 w) [] w c"
    unfolding in_u32_def in_f32_def by simp_all
  have "reads opts c (rbind (in_size 8 ''double'' desc) (\<lambda>bs. rret (le_word 8 bs))) (le_bytes 8 w' @ []) [] w' c"
    by (rule reads_rbind_silent [OF reads_in_size]) (simp_all add: w reads_rret)
  then show "reads opts c (in_f64 desc) (le_bytes 8 w') [] w' c" unfolding in_f64_def by simp
qed

lemma reads_opcode: "opcode < 256 \<Longrightarrow> reads opts c (in_u8 desc) (enc_op opcode) [] (word_of_nat opcode) c"
  unfolding enc_op_def by (rule reads_u8)

text \<open>The types that occur in the format have codes in the range that \<open>in_type\<close> accepts.\<close>

definition readable_type :: "WasmType \<Rightarrow> bool" where
  "readable_type t \<longleftrightarrow> is_enumerator t \<and> - 128 \<le> wasm_type_code t \<and> wasm_type_code t \<le> 127"

lemma reads_type:
  assumes "readable_type t"
  shows "reads opts c (in_type desc) (enc_type t) [] t c"
proof -
  have s: "sint (word_of_int (wasm_type_code t) :: u32) = wasm_type_code t"
    using assms by (simp add: readable_type_def sint_sbintrunc' signed_take_bit_int_eq_self_iff)
  have "wasm_type_of_code (wasm_type_code t) = t"
    using assms by (simp add: readable_type_def is_enumerator_def)
  then have "reads opts c (in_type desc) (enc_type t @ []) [] t c"
    unfolding in_type_def enc_type_def
    by (intro reads_rbind_silent [OF reads_i32_leb128] reads_guard)
      (use assms in \<open>simp_all add: s readable_type_def reads_rret\<close>)
  then show ?thesis by simp
qed

lemma reads_str:
  assumes "length (slice_bytes s) < 2 ^ 32"
  shows "reads opts c (in_str desc) (enc_str s) [] (Some (slice_bytes s)) c"
proof -
  have "reads opts c (in_str desc) (enc_nat (length (slice_bytes s)) @ slice_bytes s @ []) [] (Some (slice_bytes s)) c"
    unfolding in_str_def
    by (intro reads_rbind_silent [OF reads_nat] reads_rbind_silent [OF reads_in_span] reads_rret) (use assms in simp)
  then show ?thesis by (simp add: enc_str_def)
qed

lemma reads_bytes:
  assumes "length bs < 2 ^ 32"
  shows "reads opts c (in_bytes desc) (enc_nat (length bs) @ bs) [] bs c"
  unfolding in_bytes_def
  by (intro reads_rbind_silent [OF reads_nat] reads_in_span) (use assms in simp)

end
