(* ===== verification/Wabt_Round_Expr.thy ===== *)
theory Wabt_Round_Expr
  imports Wabt_Reads
begin

text \<open>
  Reading back expressions: which calls the reader makes for an expression, and that reading the
  encoding of an expression makes exactly these.
\<close>

subsection \<open>The calls of an expression\<close>

definition instr_events :: "WasmOpcode \<Rightarrow> ExprEvent \<Rightarrow> OpcodeEvent \<Rightarrow> WasmReaderEvent list" where
  "instr_events opcode ev operands =
     [Opcode_event (On_opcode opcode), Expr_event ev, Opcode_event operands]"

abbreviation end_events :: "WasmReaderEvent list" where
  "end_events \<equiv> [Opcode_event (On_opcode WASM_OPCODE_END), Expr_event On_end_expr]"

fun const_events :: "WasmConst \<Rightarrow> WasmReaderEvent list" where
  "const_events (ConstI32 v) = instr_events WASM_OPCODE_I32_CONST (On_i32_const_expr v) (On_opcode_uint32 v)"
| "const_events (ConstI64 v) = instr_events WASM_OPCODE_I64_CONST (On_i64_const_expr v) (On_opcode_uint64 v)"
| "const_events (ConstF32 v) = instr_events WASM_OPCODE_F32_CONST (On_f32_const_expr v) (On_opcode_f32 v)"
| "const_events (ConstF64 v) = instr_events WASM_OPCODE_F64_CONST (On_f64_const_expr v) (On_opcode_f64 v)"

abbreviation bare_events :: "WasmOpcode \<Rightarrow> ExprEvent \<Rightarrow> WasmReaderEvent list" where
  "bare_events opcode ev \<equiv> instr_events opcode ev On_opcode_bare"

abbreviation u32_events :: "WasmOpcode \<Rightarrow> (u32 \<Rightarrow> ExprEvent) \<Rightarrow> u32 \<Rightarrow> WasmReaderEvent list" where
  "u32_events opcode ev v \<equiv> instr_events opcode (ev v) (On_opcode_uint32 v)"

abbreviation index_events :: "WasmOpcode \<Rightarrow> (u32 \<Rightarrow> ExprEvent) \<Rightarrow> int \<Rightarrow> WasmReaderEvent list" where
  "index_events opcode ev i \<equiv> u32_events opcode ev (word_of_int i)"

definition access_log2 :: "WasmOpcode \<Rightarrow> u32 \<Rightarrow> u32" where
  "access_log2 opcode align = u32_of_nat (log2_u32 (wasm_get_opcode_alignment opcode align))"

definition access_events ::
    "(WasmOpcode \<Rightarrow> u32 \<Rightarrow> u32 \<Rightarrow> ExprEvent) \<Rightarrow> WasmOpcode \<Rightarrow> u32 \<Rightarrow> u64 \<Rightarrow> WasmReaderEvent list" where
  "access_events ev opcode align off =
     instr_events opcode (ev opcode (access_log2 opcode align) (ucast off))
       (On_opcode_uint32_uint32 (access_log2 opcode align) (ucast off))"

fun expr_events :: "WasmModule \<Rightarrow> WasmFunc option \<Rightarrow> WasmExpr \<Rightarrow> WasmReaderEvent list"
and exprs_events :: "WasmModule \<Rightarrow> WasmFunc option \<Rightarrow> WasmExpr list \<Rightarrow> WasmReaderEvent list"
where
  "expr_events m f (Binary opcode) = bare_events opcode (On_binary_expr opcode)"
| "expr_events m f (Block label sig es) =
     instr_events WASM_OPCODE_BLOCK (On_block_expr sig) (On_opcode_block_sig sig) @ exprs_events m f es @ end_events"
| "expr_events m f (Br var) = u32_events WASM_OPCODE_BR On_br_expr (get_label_var_depth var)"
| "expr_events m f (BrIf var) = u32_events WASM_OPCODE_BR_IF On_br_if_expr (get_label_var_depth var)"
| "expr_events m f (BrTable targets default_target) =
     [Opcode_event (On_opcode WASM_OPCODE_BR_TABLE),
      Expr_event (On_br_table_expr (map get_label_var_depth targets) (get_label_var_depth default_target))]"
| "expr_events m f (Call var) = index_events WASM_OPCODE_CALL On_call_expr (wasm_get_func_index_by_var m var)"
| "expr_events m f (CallIndirect var) =
     (let i = word_of_int (wasm_get_func_type_index_by_var m var)
      in instr_events WASM_OPCODE_CALL_INDIRECT (On_call_indirect_expr i) (On_opcode_uint32_uint32 i 0))"
| "expr_events m f (Compare opcode) = bare_events opcode (On_compare_expr opcode)"
| "expr_events m f (Const c) = const_events c"
| "expr_events m f (Convert opcode) = bare_events opcode (On_convert_expr opcode)"
| "expr_events m f CurrentMemory = u32_events WASM_OPCODE_CURRENT_MEMORY (\<lambda>_. On_current_memory_expr) 0"
| "expr_events m f Drop = bare_events WASM_OPCODE_DROP On_drop_expr"
| "expr_events m f (GetGlobal var) =
     index_events WASM_OPCODE_GET_GLOBAL On_get_global_expr (wasm_get_global_index_by_var m var)"
| "expr_events m f (GetLocal var) = index_events WASM_OPCODE_GET_LOCAL On_get_local_expr (local_index f var)"
| "expr_events m f GrowMemory = u32_events WASM_OPCODE_GROW_MEMORY (\<lambda>_. On_grow_memory_expr) 0"
| "expr_events m f (If label sig true_es false_es) =
     instr_events WASM_OPCODE_IF (On_if_expr sig) (On_opcode_block_sig sig) @ exprs_events m f true_es
     @ (if false_es \<noteq> [] then bare_events WASM_OPCODE_ELSE On_else_expr @ exprs_events m f false_es else [])
     @ end_events"
| "expr_events m f (Load opcode align off) = access_events On_load_expr opcode align off"
| "expr_events m f (Loop label sig es) =
     instr_events WASM_OPCODE_LOOP (On_loop_expr sig) (On_opcode_block_sig sig) @ exprs_events m f es @ end_events"
| "expr_events m f Nop = bare_events WASM_OPCODE_NOP On_nop_expr"
| "expr_events m f Return = bare_events WASM_OPCODE_RETURN On_return_expr"
| "expr_events m f Select = bare_events WASM_OPCODE_SELECT On_select_expr"
| "expr_events m f (SetGlobal var) =
     index_events WASM_OPCODE_SET_GLOBAL On_set_global_expr (wasm_get_global_index_by_var m var)"
| "expr_events m f (SetLocal var) = index_events WASM_OPCODE_SET_LOCAL On_set_local_expr (local_index f var)"
| "expr_events m f (Store opcode align off) = access_events On_store_expr opcode align off"
| "expr_events m f (TeeLocal var) = index_events WASM_OPCODE_TEE_LOCAL On_tee_local_expr (local_index f var)"
| "expr_events m f (Unary opcode) = bare_events opcode (On_unary_expr opcode)"
| "expr_events m f Unreachable = bare_events WASM_OPCODE_UNREACHABLE On_unreachable_expr"
| "exprs_events m f [] = []"
| "exprs_events m f (e # es) = expr_events m f e @ exprs_events m f es"

text \<open>
  What the reader demands of an expression: opcodes of the right class, at most one result type
  per block, and call targets that exist (\<open>nf\<close> functions, \<open>ns\<close> signatures).
\<close>

definition wf_sig :: "WasmType list \<Rightarrow> bool" where
  "wf_sig sig \<longleftrightarrow> length sig \<le> 1 \<and> list_all is_concrete_type sig"

fun wf_expr :: "WasmModule \<Rightarrow> u32 \<Rightarrow> u32 \<Rightarrow> WasmExpr \<Rightarrow> bool" where
  "wf_expr m nf ns (Binary opcode) = (opcode \<in> set binary_opcodes)"
| "wf_expr m nf ns (Compare opcode) = (opcode \<in> set compare_opcodes)"
| "wf_expr m nf ns (Unary opcode) = (opcode \<in> set unary_opcodes)"
| "wf_expr m nf ns (Convert opcode) = (opcode \<in> set convert_opcodes)"
| "wf_expr m nf ns (Load opcode align off) = (opcode \<in> set load_opcodes)"
| "wf_expr m nf ns (Store opcode align off) = (opcode \<in> set store_opcodes)"
| "wf_expr m nf ns (Call var) = (word_of_int (wasm_get_func_index_by_var m var) < nf)"
| "wf_expr m nf ns (CallIndirect var) = (word_of_int (wasm_get_func_type_index_by_var m var) < ns)"
| "wf_expr m nf ns (BrTable targets default_target) = (length targets < 2 ^ 32)"
| "wf_expr m nf ns (Block label sig es) = (wf_sig sig \<and> list_all (wf_expr m nf ns) es)"
| "wf_expr m nf ns (Loop label sig es) = (wf_sig sig \<and> list_all (wf_expr m nf ns) es)"
| "wf_expr m nf ns (If label sig true_es false_es) =
     (wf_sig sig \<and> list_all (wf_expr m nf ns) true_es \<and> list_all (wf_expr m nf ns) false_es)"
| "wf_expr m nf ns _ = True"

subsection \<open>One instruction\<close>

lemma concrete_readable: "is_concrete_type t \<Longrightarrow> readable_type t \<and> t \<noteq> WASM_TYPE_VOID"
  by (cases t) (simp_all add: is_concrete_type_def readable_type_def)

lemma reads_value_type:
  assumes "is_concrete_type t"
  shows "reads opts c (in_value_type desc format) (enc_type t) [] t c"
proof -
  have "reads opts c (in_value_type desc format) (enc_type t @ []) [] t c"
    unfolding in_value_type_def using assms concrete_readable [OF assms]
    by (intro reads_rbind_silent [OF reads_type] reads_guard reads_rret) simp_all
  then show ?thesis by simp
qed

text \<open>Two callbacks after the operands: the shape of nearly every instruction.\<close>

lemma reads_two_calls:
  "reads opts c (rseq [expr_callback ev, opcode_callback oev]) [] [Expr_event ev, Opcode_event oev] () c"
  unfolding rseq.simps expr_callback_def opcode_callback_def
  by (intro reads_callback reads_rret)

lemma reads_operand:
  assumes "reads opts c m bs [] v c"
  shows "reads opts c (rbind m (\<lambda>v. rseq [expr_callback (ev v), opcode_callback (oev v)])) bs
    [Expr_event (ev v), Opcode_event (oev v)] () c"
  using reads_rbind_silent [OF assms, of "\<lambda>v. rseq [expr_callback (ev v), opcode_callback (oev v)]" "[]"]
    reads_two_calls by fastforce

lemma reads_bare: "reads opts c (read_bare ev) [] [Expr_event ev, Opcode_event On_opcode_bare] () c"
  unfolding read_bare_def by (rule reads_two_calls)

lemma reads_u32_operand:
  "reads opts c (read_u32_operand desc ev) (u32_leb128_bytes v) [Expr_event (ev v), Opcode_event (On_opcode_uint32 v)] () c"
  unfolding read_u32_operand_def by (rule reads_operand [OF reads_u32_leb128])

lemma reads_index_operand:
  "reads opts c (read_u32_operand desc ev) (enc_index i)
     [Expr_event (ev (word_of_int i)), Opcode_event (On_opcode_uint32 (word_of_int i))] () c"
  unfolding enc_index_def by (rule reads_u32_operand)

lemma reads_block_sig:
  assumes "wf_sig sig"
  shows "reads opts c (read_block_sig desc ev) (enc_sig sig) [Expr_event (ev sig), Opcode_event (On_opcode_block_sig sig)] () c"
proof -
  obtain t where t: "enc_sig sig = enc_type t" "readable_type t" "is_inline_sig_type t"
    "(if t = WASM_TYPE_VOID then [] else [t]) = sig"
  proof (cases sig)
    case Nil
    then show ?thesis using that [of WASM_TYPE_VOID] by (simp add: readable_type_def is_inline_sig_type_def)
  next
    case (Cons t ts)
    then show ?thesis using that [of t] assms concrete_readable [of t] by (simp add: wf_sig_def is_inline_sig_type_def)
  qed
  have "reads opts c (read_block_sig desc ev) (enc_type t @ [])
      [Expr_event (ev sig), Opcode_event (On_opcode_block_sig sig)] () c"
    unfolding read_block_sig_def
    by (rule reads_rbind_silent [OF reads_type [OF t(2)]])
      (simp only: t(4) Let_def rseq.simps, intro reads_guard t(3) reads_two_calls [unfolded rseq.simps])
  then show ?thesis by (simp add: t(1))
qed

lemma reads_zero: "reads opts c (in_u32_leb128 desc) (enc_nat 0) [] 0 c"
  using reads_nat [of opts c desc 0] by simp

lemma reads_reserved:
  "reads opts c (read_reserved desc format ev) (enc_nat 0) [Expr_event ev, Opcode_event (On_opcode_uint32 0)] () c"
proof -
  have "reads opts c (read_reserved desc format ev) (enc_nat 0 @ []) [Expr_event ev, Opcode_event (On_opcode_uint32 0)] () c"
    unfolding read_reserved_def
    by (rule reads_rbind_silent [OF reads_zero])
      (simp only: rseq.simps, intro reads_guard refl reads_two_calls [unfolded rseq.simps])
  then show ?thesis by simp
qed

lemma log2_u32_less: "log2_u32 x < 32"
proof -
  have "2 ^ log2_u32 x \<le> max 1 (unat x)"
  proof (induction x rule: log2_u32.induct)
    case (1 x)
    show ?case
    proof (cases "x > 1")
      case True
      have half: "unat (drop_bit 1 x) = unat x div 2"
        unfolding unat_drop_bit_eq by (simp add: drop_bit_eq_div)
      have "1 < unat x" using True by (simp add: word_less_nat_alt)
      then have "2 * max 1 (unat x div 2) \<le> unat x" by (simp add: max_def)
      moreover have "2 ^ log2_u32 (drop_bit 1 x) \<le> max 1 (unat x div 2)"
        using "1.IH" [OF True] half by simp
      ultimately show ?thesis
        using True by (subst log2_u32.simps) (simp add: max_def)
    next
      case False
      then show ?thesis by (subst log2_u32.simps) simp
    qed
  qed
  also have "\<dots> < 2 ^ 32" using unsigned_less [of x] by simp
  finally show ?thesis by (simp only: power_strict_increasing_iff one_less_numeral_iff semiring_norm)
qed

lemma reads_memory_access:
  "reads opts c (read_memory_access d1 d2 (ev opcode))
     ([word_of_nat (log2_u32 (wasm_get_opcode_alignment opcode align))] @ u32_leb128_bytes (ucast off :: u32))
     [Expr_event (ev opcode (access_log2 opcode align) (ucast off)),
      Opcode_event (On_opcode_uint32_uint32 (access_log2 opcode align) (ucast off))] () c"
proof -
  have "log2_u32 (wasm_get_opcode_alignment opcode align) < 128"
    using log2_u32_less [of "wasm_get_opcode_alignment opcode align"] by simp
  note align = reads_code [OF this]
  show ?thesis
    unfolding read_memory_access_def
    by (rule reads_rbind_silent [OF align, folded access_log2_def])
      (rule reads_operand [OF reads_u32_leb128, where ev = "ev opcode (access_log2 opcode align)"
          and oev = "On_opcode_uint32_uint32 (access_log2 opcode align)"])
qed

lemma reads_br_table:
  assumes "length targets < 2 ^ 32"
  shows "reads opts c read_br_table
     (enc_nat (length targets) @ concat (map enc_depth targets) @ enc_depth default_target)
     [Expr_event (On_br_table_expr (map get_label_var_depth targets) (get_label_var_depth default_target))] () c"
proof -
  have n: "unat (u32_of_nat (length targets)) = length targets" using assms by simp
  have "reads opts c read_br_table
     (enc_nat (length targets) @ concat (map enc_depth targets) @ enc_depth default_target @ [])
     [Expr_event (On_br_table_expr (map get_label_var_depth targets) (get_label_var_depth default_target))] () c"
    unfolding read_br_table_def
    apply (rule reads_rbind_silent [OF reads_nat])
    apply (unfold n)
    by (intro reads_rbind_silent [OF reads_rfill [where dec = get_label_var_depth]]
        reads_rbind_silent [OF reads_u32_leb128] reads_call reads_u32_leb128)
  then show ?thesis by simp
qed

lemma reads_read_call:
  assumes "word_of_int i < num_total_funcs c"
  shows "reads opts c read_call (enc_index i)
     [Expr_event (On_call_expr (word_of_int i)), Opcode_event (On_opcode_uint32 (word_of_int i))] () c"
proof -
  have "reads opts c read_call (enc_index i @ [])
     [Expr_event (On_call_expr (word_of_int i)), Opcode_event (On_opcode_uint32 (word_of_int i))] () c"
    unfolding read_call_def
    by (rule reads_rbind_silent [OF reads_index], rule reads_get_counts)
      (simp only: rseq.simps, intro reads_guard assms reads_two_calls [unfolded rseq.simps])
  then show ?thesis by simp
qed

lemma reads_read_call_indirect:
  assumes "word_of_int i < c_num_signatures c"
  shows "reads opts c read_call_indirect (enc_index i @ enc_nat 0)
     [Expr_event (On_call_indirect_expr (word_of_int i)), Opcode_event (On_opcode_uint32_uint32 (word_of_int i) 0)] () c"
proof -
  have "reads opts c read_call_indirect (enc_index i @ enc_nat 0 @ [])
     [Expr_event (On_call_indirect_expr (word_of_int i)), Opcode_event (On_opcode_uint32_uint32 (word_of_int i) 0)] () c"
    unfolding read_call_indirect_def
    by (rule reads_rbind_silent [OF reads_index], rule reads_get_counts, rule reads_guard [OF assms],
        rule reads_rbind_silent [OF reads_zero])
      (simp only: rseq.simps, intro reads_guard refl reads_two_calls [unfolded rseq.simps])
  then show ?thesis by simp
qed

subsection \<open>Instruction sequences\<close>

text \<open>
  \<open>steps opts c e bs evs\<close>: inside a function body that ends at \<open>e\<close>, the loop consumes \<open>bs\<close>
  with the calls \<open>evs\<close> and goes on behind them.
\<close>

definition steps ::
    "'u itself \<Rightarrow> WasmReadBinaryOptions \<Rightarrow> ContextCounts \<Rightarrow> u32 \<Rightarrow> byte list \<Rightarrow> WasmReaderEvent list \<Rightarrow> bool" where
  "steps ty opts c e bs evs \<longleftrightarrow>
     (\<forall>g (ctx :: 'u Context) rest u seen. ready g opts c ctx \<longrightarrow> window ctx = bs @ rest \<longrightarrow>
        feed g evs (c_user_data ctx) = Some u \<longrightarrow> c_offset ctx + length bs < unat e \<longrightarrow>
        read_instrs e seen ctx = read_instrs e seen (advance (length bs) u c ctx))"

lemma advance_0: "ready g opts c ctx \<Longrightarrow> advance 0 (c_user_data ctx) c ctx = ctx"
  by (auto simp: advance_def ready_def)

lemma steps_Nil: "steps ty opts c e [] []"
  by (auto simp: steps_def advance_0)

lemma steps_append:
  assumes "steps ty opts c e bs evs" "steps ty opts c e bs' evs'"
  shows "steps ty opts c e (bs @ bs') (evs @ evs')"
  unfolding steps_def
proof (intro allI impI)
  fix g and ctx :: "'a Context" and rest u seen
  assume rd: "ready g opts c ctx" and w: "window ctx = (bs @ bs') @ rest"
    and f: "feed g (evs @ evs') (c_user_data ctx) = Some u" and e: "c_offset ctx + length (bs @ bs') < unat e"
  from f obtain u1 where f1: "feed g evs (c_user_data ctx) = Some u1" and f2: "feed g evs' u1 = Some u"
    by (rule feed_append_SomeE)
  have w1: "window ctx = bs @ (bs' @ rest)" using w by simp
  have "read_instrs e seen ctx = read_instrs e seen (advance (length bs) u1 c ctx)"
    using assms(1) rd w1 f1 e unfolding steps_def by fastforce
  also have "\<dots> = read_instrs e seen (advance (length bs') u c (advance (length bs) u1 c ctx))"
  proof -
    have "c_offset (advance (length bs) u1 c ctx) + length bs' < unat e" using e by (simp add: advance_def)
    with assms(2) ready_advance [OF rd w1] window_advance [OF w1] f2 show ?thesis
      unfolding steps_def by (metis advance_user)
  qed
  finally show "read_instrs e seen ctx = read_instrs e seen (advance (length (bs @ bs')) u c ctx)" by simp
qed

lemma steps_instr:
  assumes "reads opts c (read_instr e :: ('u, bool) reading) bs evs False c" "bs \<noteq> []"
  shows "steps TYPE('u) opts c e bs evs"
  unfolding steps_def
proof (intro allI impI)
  fix g and ctx :: "'u Context" and rest u seen
  assume rd: "ready g opts c ctx" and w: "window ctx = bs @ rest"
    and f: "feed g evs (c_user_data ctx) = Some u" and e: "c_offset ctx + length bs < unat e"
  show "read_instrs e seen ctx = read_instrs e seen (advance (length bs) u c ctx)"
    using readsD [OF assms(1) rd w f] e by (subst read_instrs.simps) simp
qed

lemma unat_opcode_byte: "opcode < 256 \<Longrightarrow> unat (word_of_nat opcode :: byte) = opcode"
  by (simp add: unat_of_nat take_bit_nat_eq_self)

lemma steps_plain:
  assumes "reads opts c (read_plain_instr opcode :: ('u, unit) reading) bs evs () c"
    and "opcode < 256" "opcode \<noteq> WASM_OPCODE_END"
  shows "steps TYPE('u) opts c e (enc_op opcode @ bs) (Opcode_event (On_opcode opcode) # evs)"
proof (rule steps_instr)
  have "reads opts c (rthen (read_plain_instr opcode :: ('u, unit) reading) (rret False)) (bs @ []) (evs @ []) False c"
    by (rule reads_rbind [OF assms(1) reads_rret])
  then show "reads opts c (read_instr e :: ('u, bool) reading) (enc_op opcode @ bs)
      (Opcode_event (On_opcode opcode) # evs) False c"
    unfolding read_instr_def opcode_callback_def using assms(2,3)
    by (intro reads_rbind_silent [OF reads_opcode]) (auto simp: unat_opcode_byte intro!: reads_callback)
qed (simp add: enc_op_def)

lemma in_end_opcode:
  fixes ctx :: "'u Context"
  assumes rd: "ready g opts c ctx" and w: "window ctx = enc_op WASM_OPCODE_END @ rest"
  shows "in_u8 ''opcode'' ctx = Inr (0x0b, advance 1 (c_user_data ctx) c ctx)"
proof -
  have "reads opts c (in_u8 ''opcode'' :: ('u, byte) reading) (enc_op WASM_OPCODE_END) [] 0x0b c"
    using reads_opcode [of WASM_OPCODE_END opts c "''opcode''"] by simp
  from readsD [OF this rd w, of "c_user_data ctx"] show ?thesis by (simp add: enc_op_def)
qed

lemma steps_end: "steps TYPE('u) opts c e (enc_op WASM_OPCODE_END) end_events"
  unfolding steps_def
proof (intro allI impI)
  fix g and ctx :: "'u Context" and rest u seen
  assume rd: "ready g opts c ctx" and w: "window ctx = enc_op WASM_OPCODE_END @ rest"
    and f: "feed g end_events (c_user_data ctx) = Some u"
    and e: "c_offset ctx + length (enc_op WASM_OPCODE_END) < unat e"
  have "read_instr e ctx = Inr (False, advance 1 u c ctx)"
    unfolding read_instr_def rbind_def [of "in_u8 _"] in_end_opcode [OF rd w]
    using f e rd
    by (auto simp: rbind_def opcode_callback_def expr_callback_def callback_def callback_ctx_def call_member_def
        ready_def at_offset_def advance_def rret_def enc_op_def split: prod.splits WasmResult.splits)
  then show "read_instrs e seen ctx = read_instrs e seen (advance (length (enc_op WASM_OPCODE_END)) u c ctx)"
    using e by (subst read_instrs.simps) (simp add: enc_op_def)
qed

text \<open>The END that closes the body.\<close>

lemma last_end:
  fixes ctx :: "'u Context"
  assumes rd: "ready g opts c ctx" and w: "window ctx = enc_op WASM_OPCODE_END @ rest"
    and f: "feed g [Opcode_event (On_opcode WASM_OPCODE_END)] (c_user_data ctx) = Some u"
    and e: "c_offset ctx + 1 = unat e"
  shows "read_instrs e seen ctx = Inr (True, advance 1 u c ctx)"
proof -
  have "read_instr e ctx = Inr (True, advance 1 u c ctx)"
    unfolding read_instr_def rbind_def [of "in_u8 _"] in_end_opcode [OF rd w]
    using f e rd
    by (auto simp: rbind_def opcode_callback_def callback_ctx_def call_member_def
        ready_def at_offset_def advance_def rret_def split: prod.splits WasmResult.splits)
  then show ?thesis
    using e by (subst read_instrs.simps) (simp add: read_instrs.simps advance_def)
qed

subsection \<open>Expressions\<close>

text \<open>The opcodes with a \<open>case\<close> of their own; the classes avoid them and each other.\<close>

definition single_opcodes :: "WasmOpcode list" where
  "single_opcodes =
     [WASM_OPCODE_UNREACHABLE, WASM_OPCODE_BLOCK, WASM_OPCODE_LOOP, WASM_OPCODE_IF, WASM_OPCODE_ELSE,
      WASM_OPCODE_SELECT, WASM_OPCODE_BR, WASM_OPCODE_BR_IF, WASM_OPCODE_BR_TABLE, WASM_OPCODE_RETURN,
      WASM_OPCODE_NOP, WASM_OPCODE_DROP, WASM_OPCODE_END, WASM_OPCODE_I32_CONST, WASM_OPCODE_I64_CONST,
      WASM_OPCODE_F32_CONST, WASM_OPCODE_F64_CONST, WASM_OPCODE_GET_GLOBAL, WASM_OPCODE_GET_LOCAL,
      WASM_OPCODE_SET_GLOBAL, WASM_OPCODE_SET_LOCAL, WASM_OPCODE_CALL, WASM_OPCODE_CALL_INDIRECT,
      WASM_OPCODE_TEE_LOCAL, WASM_OPCODE_CURRENT_MEMORY, WASM_OPCODE_GROW_MEMORY]"

definition disjoint_from :: "WasmOpcode list \<Rightarrow> WasmOpcode list \<Rightarrow> bool" where
  "disjoint_from xs ys \<longleftrightarrow> list_all (\<lambda>x. x < 256 \<and> \<not> list_ex (\<lambda>y. x = y) ys) xs"

lemma disjoint_fromD: "disjoint_from xs ys \<Longrightarrow> x \<in> set xs \<Longrightarrow> x < 256 \<and> x \<notin> set ys"
  by (auto simp: disjoint_from_def list_all_iff list_ex_iff)

lemma opcode_classes_disjoint:
  "disjoint_from load_opcodes single_opcodes"
  "disjoint_from store_opcodes (single_opcodes @ load_opcodes)"
  "disjoint_from binary_opcodes (single_opcodes @ load_opcodes @ store_opcodes)"
  "disjoint_from compare_opcodes (single_opcodes @ load_opcodes @ store_opcodes @ binary_opcodes)"
  "disjoint_from unary_opcodes (single_opcodes @ load_opcodes @ store_opcodes @ binary_opcodes @ compare_opcodes)"
  "disjoint_from convert_opcodes
     (single_opcodes @ load_opcodes @ store_opcodes @ binary_opcodes @ compare_opcodes @ unary_opcodes)"
  by (simp_all add: disjoint_from_def single_opcodes_def load_opcodes_def store_opcodes_def binary_opcodes_def
      compare_opcodes_def unary_opcodes_def convert_opcodes_def)

lemmas opcode_class = opcode_classes_disjoint [THEN disjoint_fromD]

lemma not_single:
  assumes "opcode \<notin> set single_opcodes"
  shows "read_plain_instr opcode =
     (if opcode \<in> set load_opcodes then read_memory_access ''load alignment'' ''load offset'' (On_load_expr opcode)
      else if opcode \<in> set store_opcodes then read_memory_access ''store alignment'' ''store offset'' (On_store_expr opcode)
      else if opcode \<in> set binary_opcodes then read_bare (On_binary_expr opcode)
      else if opcode \<in> set compare_opcodes then read_bare (On_compare_expr opcode)
      else if opcode \<in> set unary_opcodes then read_bare (On_unary_expr opcode)
      else if opcode \<in> set convert_opcodes then read_bare (On_convert_expr opcode)
      else raise_error ''unexpected opcode: %d (0x%x)'' [ArgInt (int opcode), ArgInt (int opcode)])"
  using assms by (simp add: read_plain_instr_def single_opcodes_def)

lemma read_plain_instr_class:
  "opcode \<in> set load_opcodes \<Longrightarrow>
     read_plain_instr opcode = read_memory_access ''load alignment'' ''load offset'' (On_load_expr opcode)"
  "opcode \<in> set store_opcodes \<Longrightarrow>
     read_plain_instr opcode = read_memory_access ''store alignment'' ''store offset'' (On_store_expr opcode)"
  "opcode \<in> set binary_opcodes \<Longrightarrow> read_plain_instr opcode = read_bare (On_binary_expr opcode)"
  "opcode \<in> set compare_opcodes \<Longrightarrow> read_plain_instr opcode = read_bare (On_compare_expr opcode)"
  "opcode \<in> set unary_opcodes \<Longrightarrow> read_plain_instr opcode = read_bare (On_unary_expr opcode)"
  "opcode \<in> set convert_opcodes \<Longrightarrow> read_plain_instr opcode = read_bare (On_convert_expr opcode)"
  by (frule opcode_class, simp add: not_single)+

lemma opcode_class_bounds:
  "opcode \<in> set load_opcodes \<Longrightarrow> opcode < 256 \<and> opcode \<notin> set single_opcodes"
  "opcode \<in> set store_opcodes \<Longrightarrow> opcode < 256 \<and> opcode \<notin> set single_opcodes"
  "opcode \<in> set binary_opcodes \<Longrightarrow> opcode < 256 \<and> opcode \<notin> set single_opcodes"
  "opcode \<in> set compare_opcodes \<Longrightarrow> opcode < 256 \<and> opcode \<notin> set single_opcodes"
  "opcode \<in> set unary_opcodes \<Longrightarrow> opcode < 256 \<and> opcode \<notin> set single_opcodes"
  "opcode \<in> set convert_opcodes \<Longrightarrow> opcode < 256 \<and> opcode \<notin> set single_opcodes"
  by (drule opcode_class, simp)+

lemma end_single: "WASM_OPCODE_END \<in> set single_opcodes"
  by (simp add: single_opcodes_def)

lemma steps_class:
  assumes "opcode < 256 \<and> opcode \<notin> set single_opcodes"
    and "reads opts c (read_plain_instr opcode :: ('u, unit) reading) bs [Expr_event ev, Opcode_event oev] () c"
  shows "steps TYPE('u) opts c e (enc_op opcode @ bs) (instr_events opcode ev oev)"
  unfolding instr_events_def
  by (rule steps_plain [OF assms(2)]) (use assms(1) end_single in auto)

lemma steps_single:
  assumes "reads opts c (read_plain_instr opcode :: ('u, unit) reading) bs [Expr_event ev, Opcode_event oev] () c"
    and "opcode < 256" "opcode \<noteq> WASM_OPCODE_END"
  shows "steps TYPE('u) opts c e (enc_op opcode @ bs) (instr_events opcode ev oev)"
  unfolding instr_events_def by (rule steps_plain [OF assms])

lemma steps_bare:
  assumes "read_plain_instr opcode = (read_bare ev :: ('u, unit) reading)" "opcode < 256" "opcode \<noteq> WASM_OPCODE_END"
  shows "steps TYPE('u) opts c e (enc_op opcode) (bare_events opcode ev)"
proof -
  have "steps TYPE('u) opts c e (enc_op opcode @ []) (bare_events opcode ev)"
    by (rule steps_single [OF _ assms(2,3)]) (simp only: assms(1) reads_bare)
  then show ?thesis by simp
qed

lemma steps_bare_class:
  assumes "opcode < 256 \<and> opcode \<notin> set single_opcodes" "read_plain_instr opcode = (read_bare ev :: ('u, unit) reading)"
  shows "steps TYPE('u) opts c e (enc_op opcode) (bare_events opcode ev)"
  by (rule steps_bare [OF assms(2)]) (use assms(1) end_single in auto)

lemma steps_access:
  assumes "opcode < 256 \<and> opcode \<notin> set single_opcodes"
    and "read_plain_instr opcode = (read_memory_access d1 d2 (ev opcode) :: ('u, unit) reading)"
  shows "steps TYPE('u) opts c e (enc_access opcode align off) (access_events ev opcode align off)"
  unfolding access_events_def enc_access_def
  by (rule steps_class [OF assms(1)]) (simp only: assms(2) reads_memory_access)

lemma steps_const: "steps TYPE('u) opts c e (enc_const k) (const_events k)"
proof (cases k)
  case (ConstI32 v)
  show ?thesis unfolding ConstI32 enc_const.simps const_events.simps
    by (rule steps_single) (simp add: read_plain_instr_def del: rseq.simps, rule reads_operand [OF reads_i32_leb128], simp_all)
next
  case (ConstI64 v)
  show ?thesis unfolding ConstI64 enc_const.simps const_events.simps
    by (rule steps_single) (simp add: read_plain_instr_def del: rseq.simps, rule reads_operand [OF reads_i64_leb128], simp_all)
next
  case (ConstF32 v)
  show ?thesis unfolding ConstF32 enc_const.simps const_events.simps
    by (rule steps_single) (simp add: read_plain_instr_def del: rseq.simps, rule reads_operand [OF reads_le_bytes(2)], simp_all)
next
  case (ConstF64 v)
  show ?thesis unfolding ConstF64 enc_const.simps const_events.simps
    by (rule steps_single) (simp add: read_plain_instr_def del: rseq.simps, rule reads_operand [OF reads_le_bytes(3)], simp_all)
qed

text \<open>An opening instruction, a body, an END.\<close>

lemma steps_block:
  assumes "wf_sig sig" "opcode < 256" "opcode \<noteq> WASM_OPCODE_END"
    and "read_plain_instr opcode = (read_block_sig desc ev :: ('u, unit) reading)"
  shows "steps TYPE('u) opts c e (enc_op opcode @ enc_sig sig) (instr_events opcode (ev sig) (On_opcode_block_sig sig))"
  by (rule steps_single [OF _ assms(2,3)]) (simp only: assms(4) reads_block_sig [OF assms(1)])

lemma steps_u32:
  assumes "read_plain_instr opcode = (read_u32_operand desc ev :: ('u, unit) reading)" "opcode < 256" "opcode \<noteq> WASM_OPCODE_END"
  shows "steps TYPE('u) opts c e (enc_op opcode @ u32_leb128_bytes v) (u32_events opcode ev v)"
  by (rule steps_single [OF _ assms(2,3)]) (simp only: assms(1) reads_u32_operand)

lemma steps_index:
  assumes "read_plain_instr opcode = (read_u32_operand desc ev :: ('u, unit) reading)" "opcode < 256" "opcode \<noteq> WASM_OPCODE_END"
  shows "steps TYPE('u) opts c e (enc_op opcode @ enc_index i) (index_events opcode ev i)"
  unfolding enc_index_def by (rule steps_u32 [OF assms])

lemma steps_reserved:
  assumes "read_plain_instr opcode = (read_reserved desc format ev :: ('u, unit) reading)" "opcode < 256" "opcode \<noteq> WASM_OPCODE_END"
  shows "steps TYPE('u) opts c e (enc_op opcode @ enc_nat 0) (u32_events opcode (\<lambda>_. ev) 0)"
  by (rule steps_single [OF _ assms(2,3)]) (simp only: assms(1) reads_reserved)

lemma read_plain_instr_reserved:
  "read_plain_instr WASM_OPCODE_CURRENT_MEMORY =
     read_reserved ''current_memory reserved'' ''current_memory reserved value must be 0'' On_current_memory_expr"
  "read_plain_instr WASM_OPCODE_GROW_MEMORY =
     read_reserved ''grow_memory reserved'' ''grow_memory reserved value must be 0'' On_grow_memory_expr"
  by (simp_all add: read_plain_instr_def load_opcodes_def store_opcodes_def)

lemma steps_expr:
  fixes c :: ContextCounts
  defines "nf \<equiv> num_total_funcs c" and "ns \<equiv> c_num_signatures c"
  shows "wf_expr m nf ns x \<Longrightarrow> steps TYPE('u) opts c e (enc_expr m f x) (expr_events m f x)"
    and "list_all (wf_expr m nf ns) xs \<Longrightarrow> steps TYPE('u) opts c e (enc_exprs m f xs) (exprs_events m f xs)"
proof (induction m f x and m f xs rule: enc_expr_enc_exprs.induct)
  case (1 m f opcode)
  then show ?case by (simp add: steps_bare_class opcode_class_bounds read_plain_instr_class)
next
  case (2 m f label sig es)
  then have "steps TYPE('u) opts c e ((enc_op WASM_OPCODE_BLOCK @ enc_sig sig) @ enc_exprs m f es @ enc_op WASM_OPCODE_END)
      (instr_events WASM_OPCODE_BLOCK (On_block_expr sig) (On_opcode_block_sig sig) @ exprs_events m f es @ end_events)"
    by (intro steps_append steps_end steps_block) (simp_all add: read_plain_instr_def)
  then show ?case by simp
next
  case (5 m f targets default_target)
  then show ?case
    unfolding enc_expr.simps expr_events.simps
    by (intro steps_plain) (simp_all add: read_plain_instr_def reads_br_table)
next
  case (6 m f var)
  then show ?case
    unfolding enc_expr.simps expr_events.simps
    by (intro steps_single) (simp_all add: read_plain_instr_def reads_read_call nf_def)
next
  case (7 m f var)
  then show ?case
    unfolding enc_expr.simps expr_events.simps Let_def
    by (intro steps_single) (simp_all add: read_plain_instr_def reads_read_call_indirect ns_def)
next
  case (9 m f k)
  then show ?case by (simp add: steps_const)
next
  case (11 m f)
  show ?case by (simp add: steps_reserved [OF read_plain_instr_reserved(1)])
next
  case (15 m f)
  show ?case by (simp add: steps_reserved [OF read_plain_instr_reserved(2)])
next
  case (16 m f label sig true_es false_es)
  have head: "steps TYPE('u) opts c e (enc_op WASM_OPCODE_IF @ enc_sig sig)
      (instr_events WASM_OPCODE_IF (On_if_expr sig) (On_opcode_block_sig sig))"
    using "16.prems" by (intro steps_block) (simp_all add: read_plain_instr_def)
  have els: "steps TYPE('u) opts c e (if false_es \<noteq> [] then enc_op WASM_OPCODE_ELSE @ enc_exprs m f false_es else [])
      (if false_es \<noteq> [] then bare_events WASM_OPCODE_ELSE On_else_expr @ exprs_events m f false_es else [])"
    using "16.prems" "16.IH"
    by (auto intro!: steps_append steps_Nil steps_bare simp: read_plain_instr_def)
  have "steps TYPE('u) opts c e ((enc_op WASM_OPCODE_IF @ enc_sig sig) @ enc_exprs m f true_es
      @ (if false_es \<noteq> [] then enc_op WASM_OPCODE_ELSE @ enc_exprs m f false_es else []) @ enc_op WASM_OPCODE_END)
      (expr_events m f (If label sig true_es false_es))"
    unfolding expr_events.simps using "16.prems" "16.IH" by (intro steps_append steps_end head els) simp_all
  then show ?case by simp
next
  case (18 m f label sig es)
  then have "steps TYPE('u) opts c e ((enc_op WASM_OPCODE_LOOP @ enc_sig sig) @ enc_exprs m f es @ enc_op WASM_OPCODE_END)
      (instr_events WASM_OPCODE_LOOP (On_loop_expr sig) (On_opcode_block_sig sig) @ exprs_events m f es @ end_events)"
    by (intro steps_append steps_end steps_block) (simp_all add: read_plain_instr_def)
  then show ?case by simp
next
  case (29 m f x xs)
  then show ?case by (simp add: steps_append)
qed (simp_all add: steps_Nil opcode_class_bounds read_plain_instr_class steps_bare_class steps_access,
     (intro steps_bare steps_u32 steps_index; simp add: read_plain_instr_def)+)

end
