(* ===== verification/Wabt_Round_Items.thy ===== *)
theory Wabt_Round_Items
  imports Wabt_Round_Expr
begin

text \<open>
  Reading back the items of the sections: for each kind of item the calls that describe it, the
  conditions under which the reader accepts what the writer wrote, and that reading the encoding
  makes exactly these calls.
\<close>

subsection \<open>Initializer expressions, limits, types\<close>

lemma reads_rthen:
  "reads opts c m bs evs x c1 \<Longrightarrow> reads opts c1 k bs' evs' y c2 \<Longrightarrow> reads opts c (rthen m k) (bs @ bs') (evs @ evs') y c2"
  by (rule reads_rbind)

fun wf_init :: "WasmExpr list \<Rightarrow> bool" where
  "wf_init [] = True"
| "wf_init [Const _] = True"
| "wf_init [GetGlobal _] = True"
| "wf_init _ = False"

fun init_const_event :: "u32 \<Rightarrow> WasmConst \<Rightarrow> InitExprEvent" where
  "init_const_event i (ConstI32 v) = On_init_expr_i32_const_expr i v"
| "init_const_event i (ConstI64 v) = On_init_expr_i64_const_expr i v"
| "init_const_event i (ConstF32 v) = On_init_expr_f32_const_expr i v"
| "init_const_event i (ConstF64 v) = On_init_expr_f64_const_expr i v"

fun init_events :: "WasmModule \<Rightarrow> u32 \<Rightarrow> WasmExpr list \<Rightarrow> WasmReaderEvent list" where
  "init_events m i [Const k] = [InitExpr_event (init_const_event i k)]"
| "init_events m i [GetGlobal var] =
     [InitExpr_event (On_init_expr_get_global_expr i (word_of_int (wasm_get_global_index_by_var m var)))]"
| "init_events m i _ = []"

lemma reads_end_guard:
  "reads opts c (rbind (in_u8 ''opcode'') (\<lambda>opcode. raise_error_unless (unat opcode = WASM_OPCODE_END) format []))
     (enc_op WASM_OPCODE_END) [] () c"
proof -
  have "reads opts c (rbind (in_u8 ''opcode'') (\<lambda>opcode. raise_error_unless (unat opcode = WASM_OPCODE_END) format []))
     (enc_op WASM_OPCODE_END @ []) [] () c"
    by (rule reads_rbind_silent [OF reads_opcode]) (simp_all add: reads_raise_error_unless)
  then show ?thesis by simp
qed

lemma reads_init_value:
  assumes "reads opts c r bs [] v c"
  shows "reads opts c (rbind r (\<lambda>v. init_callback (ev v))) bs [InitExpr_event (ev v)] () c"
proof -
  have "reads opts c (rbind r (\<lambda>v. init_callback (ev v))) (bs @ []) [InitExpr_event (ev v)] () c"
    unfolding init_callback_def by (rule reads_rbind_silent [OF assms reads_call(1)])
  then show ?thesis by simp
qed

lemma reads_init_instr:
  assumes "opcode < 256" "opcode \<noteq> WASM_OPCODE_END" "reads opts c (read_init_operand index opcode :: ('u, unit) reading) bs evs () c"
  shows "reads opts c (read_init_expr index :: ('u, unit) reading) (enc_op opcode @ bs @ enc_op WASM_OPCODE_END) evs () c"
proof -
  have tail: "reads opts c (rthen (read_init_operand index opcode :: ('u, unit) reading)
      (rbind (in_u8 ''opcode'') (\<lambda>opcode. raise_error_unless (unat opcode = WASM_OPCODE_END)
        ''expected END opcode after initializer expression'' []))) (bs @ enc_op WASM_OPCODE_END) (evs @ []) () c"
    by (rule reads_rthen [OF assms(3) reads_end_guard])
  show ?thesis
    unfolding read_init_expr_def
    by (rule reads_rbind_silent [OF reads_opcode [OF assms(1)]])
      (use tail in \<open>simp only: unat_opcode_byte [OF assms(1)] assms(2) if_False append_Nil2\<close>)
qed

lemma reads_init_op:
  fixes r :: "('u, 'a) reading"
  assumes "opcode < 256" "opcode \<noteq> WASM_OPCODE_END" "reads opts c r bs [] v c"
    and "read_init_operand i opcode = rbind r (\<lambda>v. init_callback (ev v))"
  shows "reads opts c (read_init_expr i :: ('u, unit) reading) (enc_op opcode @ bs @ enc_op WASM_OPCODE_END)
    [InitExpr_event (ev v)] () c"
  by (rule reads_init_instr [OF assms(1,2)]) (simp only: assms(4) reads_init_value [OF assms(3)])

lemma reads_init_const:
  "reads opts c (read_init_expr i) (enc_const k @ enc_op WASM_OPCODE_END) [InitExpr_event (init_const_event i k)] () c"
proof (cases k)
  case (ConstI32 v)
  then show ?thesis
    by (simp add: reads_init_op [OF _ _ reads_i32_leb128, where ev = "On_init_expr_i32_const_expr i"] read_init_operand_def)
next
  case (ConstI64 v)
  then show ?thesis
    by (simp add: reads_init_op [OF _ _ reads_i64_leb128, where ev = "On_init_expr_i64_const_expr i"] read_init_operand_def)
next
  case (ConstF32 v)
  then show ?thesis
    by (simp add: reads_init_op [OF _ _ reads_le_bytes(2), where ev = "On_init_expr_f32_const_expr i"] read_init_operand_def)
next
  case (ConstF64 v)
  then show ?thesis
    by (simp add: reads_init_op [OF _ _ reads_le_bytes(3), where ev = "On_init_expr_f64_const_expr i"] read_init_operand_def)
qed

lemma reads_init_expr:
  assumes "wf_init es"
  shows "reads opts c (read_init_expr i) (enc_init m es) (init_events m i es) () c"
  using assms
proof (cases es rule: wf_init.cases)
  case 1
  have "reads opts c (read_init_expr i) (enc_op WASM_OPCODE_END @ []) [] () c"
    unfolding read_init_expr_def
    by (rule reads_rbind_silent [OF reads_opcode]) (simp_all add: reads_rret)
  then show ?thesis by (simp add: 1 enc_init_def)
next
  case (2 k)
  then show ?thesis by (simp add: enc_init_def reads_init_const)
next
  case (3 var)
  then show ?thesis
    by (simp add: reads_init_op [OF _ _ reads_index, where ev = "On_init_expr_get_global_expr i"]
        read_init_operand_def enc_init_def)
qed simp_all

text \<open>The limits that the reader reports: narrowed to 32 bits, with no maximum as zero.\<close>

definition limits_back :: "WasmLimits \<Rightarrow> WasmLimits" where
  "limits_back l =
     make_limits (limits_has_max l) (ucast (limits_initial l)) (if limits_has_max l then ucast (limits_max l) else 0)"

definition wf_limits :: "u32 \<Rightarrow> WasmLimits \<Rightarrow> bool" where
  "wf_limits bound l \<longleftrightarrow>
     (let init = ucast (limits_initial l); maximum = ucast (limits_max l)
      in init \<le> bound \<and> (limits_has_max l \<longrightarrow> init \<le> maximum \<and> maximum \<le> bound))"

lemma reads_one: "reads opts c (in_u32_leb128 desc) (enc_nat (Suc 0)) [] 1 c"
  using reads_nat [of opts c desc 1, where ?'a = 'a] by simp

lemma reads_has_max_flag:
  "reads opts c (in_u32_leb128 desc) (enc_nat (if b then 1 else 0)) [] (if b then 1 else 0) c"
  by (cases b) (simp_all add: reads_zero reads_one)

lemma reads_table:
  assumes "wf_limits (- 1) (elem_limits t)"
  shows "reads opts c read_table (enc_table t) [] (WASM_TYPE_ANYFUNC, limits_back (elem_limits t)) c"
proof -
  let ?l = "elem_limits t"
  have tail: "reads opts c (if (if limits_has_max ?l then 1 else 0) AND 1 \<noteq> (0 :: u32) then
        rbind (in_u32_leb128 ''table max elem count'') (\<lambda>max.
          rthen (raise_error_unless (ucast (limits_initial ?l) \<le> max) ''table initial elem count must be <= max elem count'' [])
            (rret (WASM_TYPE_ANYFUNC, make_limits True (ucast (limits_initial ?l)) max)))
        else rret (WASM_TYPE_ANYFUNC, make_limits False (ucast (limits_initial ?l)) 0))
      (if limits_has_max ?l then u32_leb128_bytes (ucast (limits_max ?l) :: u32) else []) []
      (WASM_TYPE_ANYFUNC, limits_back ?l) c"
  proof (cases "limits_has_max ?l")
    case True
    have "reads opts c (rbind (in_u32_leb128 ''table max elem count'') (\<lambda>max.
          rthen (raise_error_unless (ucast (limits_initial ?l) \<le> max) ''table initial elem count must be <= max elem count'' [])
            (rret (WASM_TYPE_ANYFUNC, make_limits True (ucast (limits_initial ?l)) max))))
        (u32_leb128_bytes (ucast (limits_max ?l) :: u32) @ []) [] (WASM_TYPE_ANYFUNC, limits_back ?l) c"
      by (rule reads_rbind_silent [OF reads_u32_leb128], rule reads_guard)
        (use True assms in \<open>simp_all add: wf_limits_def Let_def limits_back_def reads_rret\<close>)
    with True show ?thesis by simp
  qed (simp add: limits_back_def reads_rret)
  show ?thesis
    unfolding read_table_def enc_table_def enc_limits_def
    by (rule reads_rbind_silent [OF reads_type], simp add: readable_type_def, rule reads_guard [OF refl],
        rule reads_rbind_silent [OF reads_has_max_flag], rule reads_rbind_silent [OF reads_u32_leb128], rule tail)
qed

lemma reads_memory:
  assumes "wf_limits WASM_MAX_PAGES (page_limits mem)"
  shows "reads opts c read_memory (enc_memory mem) [] (limits_back (page_limits mem)) c"
proof -
  let ?l = "page_limits mem"
  have tail: "reads opts c (if (if limits_has_max ?l then 1 else 0) AND 1 \<noteq> (0 :: u32) then
        rbind (in_u32_leb128 ''memory max page count'') (\<lambda>max.
          rthen (raise_error_unless (max \<le> WASM_MAX_PAGES) ''invalid memory max size'' [])
          (rthen (raise_error_unless (ucast (limits_initial ?l) \<le> max) ''memory initial size must be <= max size'' [])
            (rret (make_limits True (ucast (limits_initial ?l)) max))))
        else rret (make_limits False (ucast (limits_initial ?l)) 0))
      (if limits_has_max ?l then u32_leb128_bytes (ucast (limits_max ?l) :: u32) else []) [] (limits_back ?l) c"
  proof (cases "limits_has_max ?l")
    case True
    have "reads opts c (rbind (in_u32_leb128 ''memory max page count'') (\<lambda>max.
          rthen (raise_error_unless (max \<le> WASM_MAX_PAGES) ''invalid memory max size'' [])
          (rthen (raise_error_unless (ucast (limits_initial ?l) \<le> max) ''memory initial size must be <= max size'' [])
            (rret (make_limits True (ucast (limits_initial ?l)) max)))))
        (u32_leb128_bytes (ucast (limits_max ?l) :: u32) @ []) [] (limits_back ?l) c"
      by (rule reads_rbind_silent [OF reads_u32_leb128], rule reads_guard, use True assms in \<open>simp add: wf_limits_def Let_def\<close>,
          rule reads_guard) (use True assms in \<open>simp_all add: wf_limits_def Let_def limits_back_def reads_rret\<close>)
    with True show ?thesis by simp
  qed (simp add: limits_back_def reads_rret)
  show ?thesis
    unfolding read_memory_def enc_memory_def enc_limits_def
    by (rule reads_rbind_silent [OF reads_has_max_flag], rule reads_rbind_silent [OF reads_u32_leb128], rule reads_guard)
      (use assms in \<open>simp add: wf_limits_def Let_def\<close>, rule tail)
qed

lemma reads_global_header:
  assumes "is_concrete_type (global_type g)"
  shows "reads opts c read_global_header (enc_global_header g) [] (global_type g, global_mutable g) c"
proof -
  have "reads opts c read_global_header (enc_type (global_type g) @ [if global_mutable g then 1 else 0] @ []) []
      (global_type g, global_mutable g) c"
    unfolding read_global_header_def
    by (rule reads_rbind_silent [OF reads_type], simp add: concrete_readable assms, rule reads_guard [OF assms],
        rule reads_rbind_silent [OF reads_u8], rule reads_guard) (simp_all add: reads_rret)
  then show ?thesis by (simp add: enc_global_header_def)
qed

subsection \<open>The items of each section\<close>

definition str_ok :: "WasmStringSlice \<Rightarrow> bool" where
  "str_ok s \<longleftrightarrow> length (slice_bytes s) < 2 ^ 32"

abbreviation str_back :: "WasmStringSlice \<Rightarrow> WasmStringSlice" where
  "str_back s \<equiv> Some (slice_bytes s)"

definition wf_func_type :: "WasmFuncType \<Rightarrow> bool" where
  "wf_func_type ft \<longleftrightarrow> list_all is_concrete_type (param_types (ft_sig ft)) \<and> length (param_types (ft_sig ft)) < 2 ^ 32
     \<and> wf_sig (result_types (ft_sig ft))"

definition func_type_events :: "u32 \<Rightarrow> WasmFuncType \<Rightarrow> WasmReaderEvent list" where
  "func_type_events i ft = [Signature_event (On_signature i (param_types (ft_sig ft)) (result_types (ft_sig ft)))]"

lemma reads_result_type:
  assumes "wf_sig rs"
  shows "reads opts c (rbind (in_u32_leb128 ''function result count'') (\<lambda>num_results.
      rthen (raise_error_unless (num_results \<le> 1) ''result count must be 0 or 1'' [])
        (if num_results \<noteq> 0 then
           rbind (in_value_type ''function result type'' ''expected valid result type'') (\<lambda>result_type.
             signature_callback (On_signature i ps [result_type]))
         else signature_callback (On_signature i ps []))))
      (enc_vec enc_type rs) [Signature_event (On_signature i ps rs)] () c"
proof (cases rs)
  case Nil
  show ?thesis
    unfolding enc_vec_def Nil list.size list.map concat.simps
    by (rule reads_rbind_silent [OF reads_zero]) (simp add: raise_error_unless_def signature_callback_def reads_call)
next
  case (Cons t ts)
  with assms have t: "is_concrete_type t" "ts = []" by (auto simp: wf_sig_def)
  have tail: "reads opts c (rbind (in_value_type ''function result type'' ''expected valid result type'') (\<lambda>result_type.
      signature_callback (On_signature i ps [result_type]))) (enc_type t @ []) [Signature_event (On_signature i ps [t])] () c"
    unfolding signature_callback_def by (rule reads_rbind_silent [OF reads_value_type [OF t(1)] reads_call(1)])
  have eq: "rs = [t]" "enc_vec enc_type [t] = enc_nat (Suc 0) @ enc_type t" by (simp_all add: enc_vec_def Cons t(2))
  have "reads opts c (rthen (raise_error_unless ((1 :: u32) \<le> 1) ''result count must be 0 or 1'' [])
        (if (1 :: u32) \<noteq> 0 then
           rbind (in_value_type ''function result type'' ''expected valid result type'') (\<lambda>result_type.
             signature_callback (On_signature i ps [result_type]))
         else signature_callback (On_signature i ps []))) (enc_type t) [Signature_event (On_signature i ps [t])] () c"
    by (rule reads_guard) (simp_all, rule tail [unfolded append_Nil2])
  then show ?thesis
    unfolding eq by - (rule reads_rbind_silent [OF reads_one])
qed

lemma reads_signature:
  assumes "wf_func_type ft"
  shows "reads opts c (read_signature i) (enc_func_type ft) (func_type_events i ft) () c"
proof -
  let ?ps = "param_types (ft_sig ft)"
  have n: "unat (u32_of_nat (length ?ps)) = length ?ps" using assms by (simp add: wf_func_type_def)
  have ps: "reads opts c (rfill (unat (u32_of_nat (length ?ps))) (in_value_type ''function param type'' ''expected valid param type''))
      (concat (map enc_type ?ps)) [] ?ps c"
    unfolding n using assms
    by (intro reads_rfill [where dec = "\<lambda>x. x", unfolded list.map_ident] reads_value_type)
      (auto simp: wf_func_type_def list_all_iff)
  show ?thesis
    unfolding read_signature_def enc_func_type_def func_type_events_def enc_vec_def [of _ ?ps] append_assoc
    by (rule reads_rbind_silent [OF reads_type], simp add: readable_type_def, rule reads_guard [OF refl],
        rule reads_rbind_silent [OF reads_nat], rule reads_rbind_silent [OF ps], rule reads_result_type)
      (use assms in \<open>simp add: wf_func_type_def\<close>)
qed

definition wf_import :: "u32 \<Rightarrow> WasmModule \<Rightarrow> WasmImport \<Rightarrow> bool" where
  "wf_import ns m im \<longleftrightarrow> str_ok (import_module_name im) \<and> str_ok (import_field_name im)
     \<and> (case import_desc im of
          ImportFunc func \<Rightarrow> word_of_int (wasm_get_func_type_index_by_decl m (func_decl func)) < ns
        | ImportTable table \<Rightarrow> wf_limits (- 1) (elem_limits table)
        | ImportMemory memory \<Rightarrow> wf_limits WASM_MAX_PAGES (page_limits memory)
        | ImportGlobal global \<Rightarrow> is_concrete_type (global_type global))"

definition import_desc_event :: "WasmModule \<Rightarrow> u32 \<Rightarrow> WasmImportDesc \<Rightarrow> ImportEvent" where
  "import_desc_event m i desc =
     (case desc of
        ImportFunc func \<Rightarrow> On_import_func i (word_of_int (wasm_get_func_type_index_by_decl m (func_decl func)))
      | ImportTable table \<Rightarrow> On_import_table i WASM_TYPE_ANYFUNC (limits_back (elem_limits table))
      | ImportMemory memory \<Rightarrow> On_import_memory i (limits_back (page_limits memory))
      | ImportGlobal global \<Rightarrow> On_import_global i (global_type global) (global_mutable global))"

definition import_events :: "WasmModule \<Rightarrow> u32 \<Rightarrow> WasmImport \<Rightarrow> WasmReaderEvent list" where
  "import_events m i im =
     [Import_event (On_import i (str_back (import_module_name im)) (str_back (import_field_name im))),
      Import_event (import_desc_event m i (import_desc im))]"

definition count_import :: "WasmImport \<Rightarrow> ContextCounts \<Rightarrow> ContextCounts" where
  "count_import im =
     (case import_desc im of
        ImportFunc _ \<Rightarrow> c_num_func_imports_update (\<lambda>n. n + 1)
      | ImportTable _ \<Rightarrow> c_num_table_imports_update (\<lambda>n. n + 1)
      | ImportMemory _ \<Rightarrow> c_num_memory_imports_update (\<lambda>n. n + 1)
      | ImportGlobal _ \<Rightarrow> c_num_global_imports_update (\<lambda>n. n + 1))"

text \<open>An item read, its callback, a counter raised.\<close>

lemma reads_counted:
  "reads opts c (rseq [import_callback ev, update_counts f]) [] [Import_event ev] () (f c)"
proof -
  have "reads opts c (rseq [import_callback ev, update_counts f]) [] ([Import_event ev] @ []) () (f c)"
    unfolding rseq.simps import_callback_def
    by (rule reads_rbind_empty [OF reads_call(1)]) (rule reads_update_counts [OF reads_rret])
  then show ?thesis by simp
qed

lemma reads_import_desc:
  assumes "wf_import (c_num_signatures c) m im"
  shows "reads opts c (read_import_desc i (u32_of_nat (external_kind_code (import_kind im))))
     (case import_desc im of
          ImportFunc func \<Rightarrow> enc_index (wasm_get_func_type_index_by_decl m (func_decl func))
        | ImportTable table \<Rightarrow> enc_table table
        | ImportMemory memory \<Rightarrow> enc_memory memory
        | ImportGlobal global \<Rightarrow> enc_global_header global)
     [Import_event (import_desc_event m i (import_desc im))] () (count_import im c)"
proof (cases "import_desc im")
  case (ImportFunc func)
  let ?i = "word_of_int (wasm_get_func_type_index_by_decl m (func_decl func)) :: u32"
  have lt: "?i < c_num_signatures c" using assms ImportFunc by (simp add: wf_import_def)
  have tail: "reads opts c (rseq [raise_error_unless (?i < c_num_signatures c) ''invalid import signature index'' [],
      import_callback (On_import_func i ?i), update_counts (c_num_func_imports_update (\<lambda>n. n + 1))])
      [] [Import_event (On_import_func i ?i)] () (count_import im c)"
    unfolding rseq.simps(2) [of "raise_error_unless _ _ _"]
    by (rule reads_guard [OF lt]) (simp only: count_import_def ImportFunc WasmImportDesc.case reads_counted)
  have "reads opts c (read_import_desc i 0) (enc_index (wasm_get_func_type_index_by_decl m (func_decl func)) @ [])
     [Import_event (On_import_func i ?i)] () (count_import im c)"
    unfolding read_import_desc_def
    by (simp add: external_kind_of_code_def del: append_Nil2 rseq.simps)
      (rule reads_rbind_silent [OF reads_index], rule reads_get_counts, rule tail)
  then show ?thesis by (simp add: ImportFunc import_kind_def import_desc_event_def)
next
  case (ImportTable t)
  then have wf: "wf_limits (- 1) (elem_limits t)" using assms by (simp add: wf_import_def)
  have "reads opts c (read_import_desc i 1) (enc_table t @ [])
     [Import_event (On_import_table i WASM_TYPE_ANYFUNC (limits_back (elem_limits t)))] () (count_import im c)"
    unfolding read_import_desc_def
    by (simp add: external_kind_of_code_def del: append_Nil2 rseq.simps)
      (rule reads_rbind_silent [OF reads_table [OF wf]],
        simp only: prod.case count_import_def ImportTable WasmImportDesc.case reads_counted)
  then show ?thesis by (simp add: ImportTable import_kind_def import_desc_event_def)
next
  case (ImportMemory t)
  then have wf: "wf_limits WASM_MAX_PAGES (page_limits t)" using assms by (simp add: wf_import_def)
  have "reads opts c (read_import_desc i 2) (enc_memory t @ [])
     [Import_event (On_import_memory i (limits_back (page_limits t)))] () (count_import im c)"
    unfolding read_import_desc_def
    by (simp add: external_kind_of_code_def del: append_Nil2 rseq.simps)
      (rule reads_rbind_silent [OF reads_memory [OF wf]],
        simp only: count_import_def ImportMemory WasmImportDesc.case reads_counted)
  then show ?thesis by (simp add: ImportMemory import_kind_def import_desc_event_def)
next
  case (ImportGlobal t)
  then have wf: "is_concrete_type (global_type t)" using assms by (simp add: wf_import_def)
  have "reads opts c (read_import_desc i 3) (enc_global_header t @ [])
     [Import_event (On_import_global i (global_type t) (global_mutable t))] () (count_import im c)"
    unfolding read_import_desc_def
    by (simp add: external_kind_of_code_def del: append_Nil2 rseq.simps)
      (rule reads_rbind_silent [OF reads_global_header [OF wf]],
        simp only: prod.case count_import_def ImportGlobal WasmImportDesc.case reads_counted)
  then show ?thesis by (simp add: ImportGlobal import_kind_def import_desc_event_def)
qed

lemma reads_import:
  assumes "wf_import (c_num_signatures c) m im"
  shows "reads opts c (read_import i) (enc_import m im) (import_events m i im) () (count_import im c)"
proof -
  have k: "external_kind_code (import_kind im) < 128" by (cases "import_kind im") simp_all
  have s: "length (slice_bytes (import_module_name im)) < 2 ^ 32" "length (slice_bytes (import_field_name im)) < 2 ^ 32"
    using assms by (simp_all add: wf_import_def str_ok_def)
  show ?thesis
    unfolding read_import_def enc_import_def import_events_def import_callback_def
    by (rule reads_rbind_silent [OF reads_str [OF s(1)]], rule reads_rbind_silent [OF reads_str [OF s(2)]],
        rule reads_callback, rule reads_rbind_silent [OF reads_code [OF k]],
        rule reads_import_desc [OF assms, unfolded import_callback_def])
qed

text \<open>A loop whose body changes the counters, keeping those in \<open>P\<close>.\<close>

lemma reads_rfor_counting:
  assumes "\<And>i x c. P c \<Longrightarrow> x \<in> set xs \<Longrightarrow> reads opts c (body i) (enc x) (evs i x) () (f x c) \<and> P (f x c)" and "P c"
  shows "reads opts c (rfor j (length xs) body) (concat (map enc xs))
    (concat (map (\<lambda>(i, x). evs (u32_of_nat i) x) (enumerate j xs))) () (fold f xs c)"
  using assms
proof (induction xs arbitrary: j c)
  case Nil
  then show ?case by (simp add: reads_rret)
next
  case (Cons x xs)
  have 1: "reads opts c (body (u32_of_nat j)) (enc x) (evs (u32_of_nat j) x) () (f x c)" and P: "P (f x c)"
    using Cons.prems by simp_all
  have 2: "reads opts (f x c) (rfor (Suc j) (length xs) body) (concat (map enc xs))
      (concat (map (\<lambda>(i, x). evs (u32_of_nat i) x) (enumerate (Suc j) xs))) () (fold f xs (f x c))"
    using Cons.prems P by (intro Cons.IH) simp_all
  from reads_rthen [OF 1 2] show ?case by simp
qed

lemma reads_rfor_same:
  assumes "\<And>i x. x \<in> set xs \<Longrightarrow> reads opts c (body i) (enc x) (evs i x) () c" and "length xs < 2 ^ 32"
  shows "reads opts c (rfor 0 (unat (u32_of_nat (length xs))) body) (concat (map enc xs))
    (concat (map (\<lambda>(i, x). evs (u32_of_nat i) x) (enumerate 0 xs))) () c"
proof -
  have "reads opts c (rfor 0 (length xs) body) (concat (map enc xs))
    (concat (map (\<lambda>(i, x). evs (u32_of_nat i) x) (enumerate 0 xs))) () c"
    by (rule reads_rfor) (auto simp: in_set_enumerate_eq intro!: assms(1))
  then show ?thesis using assms(2) by simp
qed

abbreviation for_events :: "(u32 \<Rightarrow> 'a \<Rightarrow> WasmReaderEvent list) \<Rightarrow> 'a list \<Rightarrow> WasmReaderEvent list" where
  "for_events evs xs \<equiv> concat (map (\<lambda>(i, x). evs (u32_of_nat i) x) (enumerate 0 xs))"

definition function_sig_events :: "WasmModule \<Rightarrow> u32 \<Rightarrow> WasmFunc \<Rightarrow> WasmReaderEvent list" where
  "function_sig_events m i func =
     [Function_event (On_function_signature i (word_of_int (wasm_get_func_type_index_by_decl m (func_decl func))))]"

lemma reads_function_signature:
  assumes "word_of_int (wasm_get_func_type_index_by_decl m (func_decl func)) < c_num_signatures c"
  shows "reads opts c (read_function_signature i) (enc_index (wasm_get_func_type_index_by_decl m (func_decl func)))
    (function_sig_events m i func) () c"
proof -
  have "reads opts c (read_function_signature i) (enc_index (wasm_get_func_type_index_by_decl m (func_decl func)) @ [])
    (function_sig_events m i func) () c"
    unfolding read_function_signature_def function_sig_events_def function_callback_def rseq.simps
    by (rule reads_rbind_silent [OF reads_index], rule reads_get_counts, rule reads_guard [OF assms],
        rule reads_callback, rule reads_rret)
  then show ?thesis by simp
qed

definition global_events :: "WasmModule \<Rightarrow> u32 \<Rightarrow> WasmGlobal \<Rightarrow> WasmReaderEvent list" where
  "global_events m i g =
     [Global_event (Begin_global i (global_type g) (global_mutable g)), Global_event (Begin_global_init_expr i)]
     @ init_events m i (global_init_expr g)
     @ [Global_event (End_global_init_expr i), Global_event (End_global i)]"

lemma reads_calls_Nil: "reads opts c (rseq []) [] [] () c"
  by (simp add: reads_rret)

lemma reads_rseq_callback:
  "reads opts c (rseq ms) bs evs () c2 \<Longrightarrow> reads opts c (rseq (callback ev # ms)) bs (ev # evs) () c2"
  "reads opts c (rseq ms) bs evs () c2 \<Longrightarrow> reads opts c (rseq (callback_ctx ev # ms)) bs (ev # evs) () c2"
  by (simp_all add: reads_callback)

lemma reads_rseq_Cons:
  "reads opts c m bs evs x c1 \<Longrightarrow> reads opts c1 (rseq ms) bs' evs' y c2 \<Longrightarrow>
     reads opts c (rseq (m # ms)) (bs @ bs') (evs @ evs') y c2"
  by (simp add: reads_rthen)

lemma reads_rseq_guard:
  "cond \<Longrightarrow> reads opts c (rseq ms) bs evs () c2 \<Longrightarrow>
     reads opts c (rseq (raise_error_unless cond format args # ms)) bs evs () c2"
  by (simp add: reads_guard)

lemma reads_rseq_update:
  "reads opts (f c) (rseq ms) bs evs () c2 \<Longrightarrow> reads opts c (rseq (update_counts f # ms)) bs evs () c2"
  by (simp add: reads_update_counts)

lemma reads_rseq_last: "reads opts c m bs evs () c2 \<Longrightarrow> reads opts c (rseq [m]) bs evs () c2"
  by simp

lemmas reads_rseq = reads_rseq_callback reads_rseq_guard reads_rseq_update reads_calls_Nil

lemma reads_global:
  assumes "is_concrete_type (global_type g)" "wf_init (global_init_expr g)"
  shows "reads opts c (read_global i) (enc_global m g) (global_events m i g) () c"
proof -
  have "reads opts c (read_global i) (enc_global_header g @ enc_init m (global_init_expr g) @ []) (global_events m i g) () c"
    unfolding read_global_def global_events_def global_callback_def append.simps(2) append.simps(1)
    by (rule reads_rbind_silent [OF reads_global_header [OF assms(1)]], unfold prod.case)
      (intro reads_rseq_callback reads_rseq_Cons [OF reads_init_expr [OF assms(2)]] reads_calls_Nil)
  then show ?thesis by (simp add: enc_global_def)
qed

definition export_events :: "WasmModule \<Rightarrow> u32 \<Rightarrow> WasmExport \<Rightarrow> WasmReaderEvent list" where
  "export_events m i ex =
     [Export_event (On_export i (export_kind ex) (word_of_int (export_index m ex)) (str_back (export_name ex)))]"

lemma reads_export:
  assumes "str_ok (export_name ex)" "word_of_int (export_index m ex) < fst (export_limit (export_kind ex) c)"
  shows "reads opts c (read_export i) (enc_export m ex) (export_events m i ex) () c"
proof -
  let ?k = "word_of_nat (external_kind_code (export_kind ex)) :: byte"
  have k: "is_valid_external_kind ?k" "external_kind_of_code (unat ?k) = Some (export_kind ex)"
    by (cases "export_kind ex"; simp add: is_valid_external_kind_def external_kind_of_code_def)+
  have tail: "reads opts c (case external_kind_of_code (unat ?k) of None \<Rightarrow> rret ()
        | Some kind \<Rightarrow> rseq [raise_error_unless (word_of_int (export_index m ex) < fst (export_limit kind c)) (snd (export_limit kind c)) [],
                  export_callback (On_export i kind (word_of_int (export_index m ex)) (str_back (export_name ex)))])
      [] (export_events m i ex) () c"
    unfolding k(2) option.case export_callback_def export_events_def
    by (intro reads_rseq_guard assms(2) reads_rseq_callback reads_calls_Nil)
  have "reads opts c (read_export i) (enc_str (export_name ex) @ [?k] @ enc_index (export_index m ex) @ [])
      (export_events m i ex) () c"
    unfolding read_export_def
    by (rule reads_rbind_silent [OF reads_str], use assms(1) in \<open>simp add: str_ok_def\<close>, rule reads_rbind_silent [OF reads_u8],
        rule reads_guard [OF k(1)], rule reads_rbind_silent [OF reads_index], rule reads_get_counts, rule tail)
  then show ?thesis by (simp add: enc_export_def)
qed

definition wf_elem :: "WasmElemSegment \<Rightarrow> bool" where
  "wf_elem seg \<longleftrightarrow> wf_init (elem_offset seg) \<and> length (elem_vars seg) < 2 ^ 32"

definition elem_events :: "WasmModule \<Rightarrow> u32 \<Rightarrow> WasmElemSegment \<Rightarrow> WasmReaderEvent list" where
  "elem_events m i seg =
     [Elem_event (Begin_elem_segment i (word_of_int (wasm_get_table_index_by_var m (elem_table_var seg)))),
      Elem_event (Begin_elem_segment_init_expr i)]
     @ init_events m i (elem_offset seg)
     @ [Elem_event (End_elem_segment_init_expr i),
        Elem_event (On_elem_segment_function_index_count i (u32_of_nat (length (elem_vars seg))))]
     @ for_events (\<lambda>j var. [Elem_event (On_elem_segment_function_index i (word_of_int (wasm_get_func_index_by_var m var)))])
         (elem_vars seg)
     @ [Elem_event (End_elem_segment i)]"

lemma reads_elem_segment:
  assumes "wf_elem seg"
  shows "reads opts c (read_elem_segment i) (enc_elem_segment m seg) (elem_events m i seg) () c"
proof -
  let ?vs = "elem_vars seg"
  have init: "wf_init (elem_offset seg)" and len: "length ?vs < 2 ^ 32" using assms by (simp_all add: wf_elem_def)
  have item: "reads opts c (rbind (in_u32_leb128 ''elem segment function index'') (\<lambda>func_index.
        callback (Elem_event (On_elem_segment_function_index i func_index))))
      (enc_index k) [Elem_event (On_elem_segment_function_index i (word_of_int k))] () c" for k
  proof -
    have "reads opts c (rbind (in_u32_leb128 ''elem segment function index'') (\<lambda>func_index.
        callback (Elem_event (On_elem_segment_function_index i func_index))))
      (enc_index k @ []) [Elem_event (On_elem_segment_function_index i (word_of_int k))] () c"
      by (rule reads_rbind_silent [OF reads_index]) (rule reads_call(1))
    then show ?thesis by simp
  qed
  have loop: "reads opts c (rfor 0 (unat (u32_of_nat (length ?vs))) (\<lambda>j.
      rbind (in_u32_leb128 ''elem segment function index'') (\<lambda>func_index.
        callback (Elem_event (On_elem_segment_function_index i func_index)))))
      (concat (map (\<lambda>var. enc_index (wasm_get_func_index_by_var m var)) ?vs))
      (for_events (\<lambda>j var. [Elem_event (On_elem_segment_function_index i (word_of_int (wasm_get_func_index_by_var m var)))]) ?vs) () c"
    by (rule reads_rfor_same [OF item len])
  let ?head = "[Elem_event (Begin_elem_segment i (word_of_int (wasm_get_table_index_by_var m (elem_table_var seg)))),
      Elem_event (Begin_elem_segment_init_expr i)] @ init_events m i (elem_offset seg) @ [Elem_event (End_elem_segment_init_expr i)]"
  let ?tail = "[Elem_event (On_elem_segment_function_index_count i (u32_of_nat (length ?vs)))]
     @ for_events (\<lambda>j var. [Elem_event (On_elem_segment_function_index i (word_of_int (wasm_get_func_index_by_var m var)))]) ?vs
     @ [Elem_event (End_elem_segment i)]"
  have head: "reads opts c (rseq [callback (Elem_event (Begin_elem_segment i (word_of_int (wasm_get_table_index_by_var m (elem_table_var seg))))),
        callback (Elem_event (Begin_elem_segment_init_expr i)), read_init_expr i,
        callback (Elem_event (End_elem_segment_init_expr i))]) (enc_init m (elem_offset seg) @ []) ?head () c"
    unfolding append.simps
    by (intro reads_rseq_callback reads_rseq_Cons [OF reads_init_expr [OF init]] reads_calls_Nil)
  have tail: "reads opts c (rbind (in_u32_leb128 ''elem segment function index count'') (\<lambda>num_function_indexes.
      rseq [callback_ctx (Elem_event (On_elem_segment_function_index_count i num_function_indexes)),
        rfor 0 (unat num_function_indexes) (\<lambda>j. rbind (in_u32_leb128 ''elem segment function index'') (\<lambda>func_index.
          callback (Elem_event (On_elem_segment_function_index i func_index)))),
        callback (Elem_event (End_elem_segment i))]))
      (enc_nat (length ?vs) @ concat (map (\<lambda>var. enc_index (wasm_get_func_index_by_var m var)) ?vs) @ []) ?tail () c"
    unfolding append.simps
    by (rule reads_rbind_silent [OF reads_nat])
      (intro reads_rseq_callback reads_rseq_Cons [OF loop] reads_calls_Nil)
  have "reads opts c (read_elem_segment i)
      (enc_index (wasm_get_table_index_by_var m (elem_table_var seg)) @ (enc_init m (elem_offset seg) @ [])
       @ enc_nat (length ?vs) @ concat (map (\<lambda>var. enc_index (wasm_get_func_index_by_var m var)) ?vs) @ [])
      (?head @ ?tail) () c"
    unfolding read_elem_segment_def elem_callback_def
    by (rule reads_rbind_silent [OF reads_index], rule reads_rthen [OF head tail])
  then show ?thesis by (simp add: enc_elem_segment_def elem_events_def enc_vec_def)
qed

definition wf_data :: "WasmDataSegment \<Rightarrow> bool" where
  "wf_data seg \<longleftrightarrow> wf_init (data_offset seg) \<and> length (data_bytes seg) < 2 ^ 32"

definition data_events :: "WasmModule \<Rightarrow> u32 \<Rightarrow> WasmDataSegment \<Rightarrow> WasmReaderEvent list" where
  "data_events m i seg =
     [Data_event (Begin_data_segment i (word_of_int (wasm_get_memory_index_by_var m (data_memory_var seg)))),
      Data_event (Begin_data_segment_init_expr i)]
     @ init_events m i (data_offset seg)
     @ [Data_event (End_data_segment_init_expr i), Data_event (On_data_segment_data i (data_bytes seg)),
        Data_event (End_data_segment i)]"

lemma reads_data_segment:
  assumes "wf_data seg"
  shows "reads opts c (read_data_segment i) (enc_data_segment m seg) (data_events m i seg) () c"
proof -
  have init: "wf_init (data_offset seg)" and len: "length (data_bytes seg) < 2 ^ 32" using assms by (simp_all add: wf_data_def)
  let ?head = "[Data_event (Begin_data_segment i (word_of_int (wasm_get_memory_index_by_var m (data_memory_var seg)))),
      Data_event (Begin_data_segment_init_expr i)] @ init_events m i (data_offset seg) @ [Data_event (End_data_segment_init_expr i)]"
  let ?tail = "[Data_event (On_data_segment_data i (data_bytes seg)), Data_event (End_data_segment i)]"
  have head: "reads opts c (rseq [callback (Data_event (Begin_data_segment i (word_of_int (wasm_get_memory_index_by_var m (data_memory_var seg))))),
        callback (Data_event (Begin_data_segment_init_expr i)), read_init_expr i,
        callback (Data_event (End_data_segment_init_expr i))]) (enc_init m (data_offset seg) @ []) ?head () c"
    unfolding append.simps
    by (intro reads_rseq_callback reads_rseq_Cons [OF reads_init_expr [OF init]] reads_calls_Nil)
  have tail: "reads opts c (rbind (in_bytes ''data segment data'') (\<lambda>data.
       rseq [callback (Data_event (On_data_segment_data i data)), callback (Data_event (End_data_segment i))]))
      ((enc_nat (length (data_bytes seg)) @ data_bytes seg) @ []) ?tail () c"
    by (rule reads_rbind_silent [OF reads_bytes [OF len]]) (intro reads_rseq_callback reads_calls_Nil)
  have "reads opts c (read_data_segment i)
      (enc_index (wasm_get_memory_index_by_var m (data_memory_var seg)) @ (enc_init m (data_offset seg) @ [])
       @ (enc_nat (length (data_bytes seg)) @ data_bytes seg) @ []) (?head @ ?tail) () c"
    unfolding read_data_segment_def data_callback_def
    by (rule reads_rbind_silent [OF reads_index], rule reads_rthen [OF head tail])
  then show ?thesis by (simp add: enc_data_segment_def data_events_def)
qed

definition wf_names :: "WasmFunc \<Rightarrow> bool" where
  "wf_names func \<longleftrightarrow> str_ok (func_name func) \<and> list_all str_ok (func_local_names func)
     \<and> length (func_local_names func) < 2 ^ 32"

definition func_names_events :: "u32 \<Rightarrow> WasmFunc \<Rightarrow> WasmReaderEvent list" where
  "func_names_events i func =
     [Names_event (On_function_name i (str_back (func_name func))),
      Names_event (On_local_names_count i (u32_of_nat (length (func_local_names func))))]
     @ for_events (\<lambda>j name. [Names_event (On_local_name i j (str_back name))]) (func_local_names func)"

lemma reads_function_names:
  assumes "wf_names func"
  shows "reads opts c (read_function_names i) (enc_func_names func) (func_names_events i func) () c"
proof -
  let ?ns = "func_local_names func"
  have str: "length (slice_bytes (func_name func)) < 2 ^ 32" and len: "length ?ns < 2 ^ 32"
    and strs: "\<And>x. x \<in> set ?ns \<Longrightarrow> length (slice_bytes x) < 2 ^ 32"
    using assms by (auto simp: wf_names_def str_ok_def list_all_iff)
  have item: "reads opts c (rbind (in_str ''local name'') (\<lambda>local_name. callback (Names_event (On_local_name i j local_name))))
      (enc_str x) [Names_event (On_local_name i j (str_back x))] () c" if "x \<in> set ?ns" for j x
  proof -
    have "reads opts c (rbind (in_str ''local name'') (\<lambda>local_name. callback (Names_event (On_local_name i j local_name))))
      (enc_str x @ []) [Names_event (On_local_name i j (str_back x))] () c"
      by (rule reads_rbind_silent [OF reads_str [OF strs [OF that]]]) (rule reads_call(1))
    then show ?thesis by simp
  qed
  have "reads opts c (read_function_names i) (enc_str (func_name func) @ enc_nat (length ?ns) @ concat (map enc_str ?ns))
      (func_names_events i func) () c"
    unfolding read_function_names_def names_callback_def func_names_events_def append.simps
    by (rule reads_rbind_silent [OF reads_str [OF str]], rule reads_callback, rule reads_rbind_silent [OF reads_nat],
        rule reads_callback, rule reads_rfor_same [OF item len])
  then show ?thesis by (simp add: enc_func_names_def enc_vec_def)
qed

subsection \<open>Function bodies\<close>

definition wf_locals :: "WasmType list \<Rightarrow> bool" where
  "wf_locals ts \<longleftrightarrow> list_all is_concrete_type ts \<and> length ts < 2 ^ 32"

definition local_decl_events :: "u32 \<Rightarrow> nat \<times> WasmType \<Rightarrow> WasmReaderEvent list" where
  "local_decl_events k r = [Code_event (On_local_decl k (u32_of_nat (fst r)) (snd r))]"

lemma type_runs_types: "r \<in> set (type_runs ts) \<Longrightarrow> snd r \<in> set ts"
  by (induction ts arbitrary: r) (fastforce split: list.splits prod.splits if_splits)+

lemma length_type_runs: "length (type_runs ts) \<le> length ts"
  by (induction ts) (auto split: list.splits prod.splits if_splits)

lemma reads_local_decl:
  assumes "is_concrete_type (snd r)"
  shows "reads opts c (read_local_decl k) (case r of (n, t) \<Rightarrow> enc_nat n @ enc_type t) (local_decl_events k r) () c"
proof -
  obtain n t where r: "r = (n, t)" by (cases r)
  have "reads opts c (read_local_decl k) (enc_nat n @ enc_type t @ []) (local_decl_events k r) () c"
    unfolding read_local_decl_def local_decl_events_def code_callback_def r fst_conv snd_conv
    using assms r
    by (intro reads_rbind_silent [OF reads_nat] reads_rbind_silent [OF reads_value_type] reads_call(1)) simp
  then show ?thesis by (simp add: r)
qed

definition locals_events :: "WasmType list \<Rightarrow> WasmReaderEvent list" where
  "locals_events ts =
     [Code_event (On_local_decl_count (u32_of_nat (length (type_runs ts))))] @ for_events local_decl_events (type_runs ts)"

text \<open>The part of a function body before the instructions.\<close>

lemma reads_locals:
  assumes "wf_locals ts" "reads opts c (rseq ms) bs evs () c2"
  shows "reads opts c (rbind (in_u32_leb128 ''local declaration count'') (\<lambda>num_local_decls.
      rseq (code_callback (On_local_decl_count num_local_decls)
        # rfor 0 (unat num_local_decls) read_local_decl # ms)))
     (enc_locals ts @ bs) (locals_events ts @ evs) () c2"
proof -
  let ?rs = "type_runs ts"
  have item: "reads opts c (read_local_decl k) (case r of (n, t) \<Rightarrow> enc_nat n @ enc_type t) (local_decl_events k r) () c"
    if "r \<in> set ?rs" for k r
    using that assms(1) type_runs_types [of r ts] by (intro reads_local_decl) (auto simp: wf_locals_def list_all_iff)
  have len: "length ?rs < 2 ^ 32" using length_type_runs [of ts] assms(1) by (simp add: wf_locals_def)
  show ?thesis
    unfolding enc_locals_def locals_events_def append.simps append_assoc code_callback_def
    by (rule reads_rbind_silent [OF reads_nat])
      (intro reads_rseq_callback reads_rseq_Cons [OF reads_rfor_same [OF item len]] assms(2))
qed

lemma advance_offset [simp]: "c_offset (advance n u c ctx) = c_offset ctx + n"
  by (simp add: advance_def)

lemma rbind_step: "m ctx = Inr (x, ctx') \<Longrightarrow> rbind m k ctx = k x ctx'"
  by (simp add: rbind_def)

lemma read_function_body_reads:
  fixes ctx :: "'u Context"
  assumes rd: "ready g opts c ctx" and w: "window ctx = (enc_exprs m f es @ enc_op WASM_OPCODE_END) @ rest"
    and feed: "feed g (exprs_events m f es @ [Opcode_event (On_opcode WASM_OPCODE_END)]) (c_user_data ctx) = Some u"
    and e: "c_offset ctx + length (enc_exprs m f es @ enc_op WASM_OPCODE_END) = unat e"
    and wf: "list_all (wf_expr m (num_total_funcs c) (c_num_signatures c)) es"
  shows "read_function_body e ctx = Inr ((), advance (length (enc_exprs m f es @ enc_op WASM_OPCODE_END)) u c ctx)"
proof -
  let ?bs = "enc_exprs m f es"
  from feed obtain u1 where f1: "feed g (exprs_events m f es) (c_user_data ctx) = Some u1"
    and f2: "feed g [Opcode_event (On_opcode WASM_OPCODE_END)] u1 = Some u"
    by (rule feed_append_SomeE)
  have w1: "window ctx = ?bs @ (enc_op WASM_OPCODE_END @ rest)" using w by simp
  let ?ctx1 = "advance (length ?bs) u1 c ctx"
  have "c_offset ctx + length ?bs < unat e" using e by (simp add: enc_op_def)
  moreover have "steps TYPE('u) opts c e ?bs (exprs_events m f es)" by (rule steps_expr(2) [OF wf])
  ultimately have "read_instrs e False ctx = read_instrs e False ?ctx1"
    using rd w1 f1 unfolding steps_def by blast
  also have "\<dots> = Inr (True, advance 1 u c ?ctx1)"
    by (rule last_end [OF ready_advance [OF rd w1] window_advance [OF w1]])
      (use f2 e in \<open>simp_all add: advance_def enc_op_def\<close>)
  finally have "read_instrs e False ctx = Inr (True, advance (length (?bs @ enc_op WASM_OPCODE_END)) u c ctx)"
    by (simp add: enc_op_def)
  then show ?thesis
    unfolding read_function_body_def
    by (simp only: rbind_step) (use e in \<open>simp add: rbind_def at_offset_def raise_error_unless_def rret_def advance_def\<close>)
qed

lemma rseq_split:
  "rbind m (\<lambda>n. rseq [a n, b n, x, y]) = rthen (rbind m (\<lambda>n. rseq [a n, b n])) (rthen x y)"
  by (simp add: rbind_assoc)

definition wf_func :: "u32 \<Rightarrow> u32 \<Rightarrow> WasmModule \<Rightarrow> WasmFunc \<Rightarrow> bool" where
  "wf_func nf ns m func \<longleftrightarrow> wf_locals (local_types func) \<and> list_all (wf_expr m nf ns) (first_expr func)
     \<and> word_of_int (wasm_get_func_type_index_by_decl m (func_decl func)) < ns"

definition function_events :: "WasmModule \<Rightarrow> u32 \<Rightarrow> WasmFunc \<Rightarrow> WasmReaderEvent list" where
  "function_events m i func =
     [Code_event (Begin_function_body i)] @ locals_events (local_types func)
     @ exprs_events m (Some func) (first_expr func) @ [Opcode_event (On_opcode WASM_OPCODE_END)]
     @ [Code_event (End_function_body i)]"

lemma reads_function:
  assumes wf: "wf_func (num_total_funcs c) (c_num_signatures c) m func"
  shows "reads opts c (read_function i :: ('u, unit) reading) (enc_sized wopts (enc_func m func)) (function_events m i func) () c"
  unfolding reads_def
proof (intro allI impI)
  fix g and ctx :: "'u Context" and rest u
  let ?body = "enc_func m func" and ?es = "first_expr func" and ?ts = "local_types func"
  let ?size = "enc_size wopts (length ?body)" and ?code = "enc_exprs m (Some func) ?es @ enc_op WASM_OPCODE_END"
  let ?code_events = "exprs_events m (Some func) ?es @ [Opcode_event (On_opcode WASM_OPCODE_END)]"
  assume rd: "ready g opts c ctx" and w: "window ctx = enc_sized wopts ?body @ rest"
    and f: "feed g (function_events m i func) (c_user_data ctx) = Some u"
  have body: "?body = enc_locals ?ts @ ?code" by (simp add: enc_func_def)
  have lt: "c_offset ctx + length (enc_sized wopts ?body) < 2 ^ 32"
    using window_fits [OF w] rd by (simp add: ready_def wf_ctx_def)
  have narrow: "narrow_offset ctx = Inr ((), ctx)"
    using lt by (simp add: narrow_offset_def)
  obtain u1 u2 u3 where f1: "feed g [Code_event (Begin_function_body i)] (c_user_data ctx) = Some u1"
    and f2: "feed g (locals_events ?ts) u1 = Some u2" and f3: "feed g ?code_events u2 = Some u3"
    and f4: "feed g [Code_event (End_function_body i)] u3 = Some u"
  proof -
    have "feed g ([Code_event (Begin_function_body i)] @ locals_events ?ts @ ?code_events @ [Code_event (End_function_body i)])
        (c_user_data ctx) = Some u"
      using f unfolding function_events_def append_assoc .
    with that show ?thesis by (metis feed_append_SomeE)
  qed
  let ?n1 = "length ?size" and ?n2 = "length (enc_locals ?ts)" and ?n3 = "length ?code"
  have w1: "window ctx = ?size @ (enc_locals ?ts @ ?code @ rest)" using w by (simp add: enc_sized_def body)
  note rd1 = ready_advance [OF rd w1, of c u1] and w2 = window_advance [OF w1, of u1 c]
  have start: "rthen (code_callback (Begin_function_body i)) (in_u32_leb128 ''function body size'') ctx
      = Inr (u32_of_nat (length ?body), advance ?n1 u1 c ctx)"
    unfolding code_callback_def
    by (rule readsD [OF reads_callback(1) [OF reads_size] rd w1 f1])
  have locals: "rbind (in_u32_leb128 ''local declaration count'') (\<lambda>num_local_decls.
      rseq [code_callback (On_local_decl_count num_local_decls), rfor 0 (unat num_local_decls) read_local_decl])
      (advance ?n1 u1 c ctx) = Inr ((), advance ?n2 u2 c (advance ?n1 u1 c ctx))"
    using readsD [OF reads_locals [OF _ reads_calls_Nil, of ?ts opts c] rd1, of "?code @ rest" u2] wf f2 w2
    by (simp add: wf_func_def)
  note rd2 = ready_advance [OF rd1 w2, of c u2] and w3 = window_advance [OF w2, of u2 c]
  let ?e = "u32_of_nat (c_offset ctx + ?n1) + u32_of_nat (length ?body) :: u32"
  have "?e = u32_of_nat (c_offset ctx + ?n1 + length ?body)" by simp
  moreover have "c_offset ctx + ?n1 + length ?body < 2 ^ 32" using lt by (simp add: enc_sized_def)
  ultimately have "unat ?e = c_offset ctx + ?n1 + length ?body" by (simp only: unat_u32_of_nat)
  then have e: "unat ?e = c_offset ctx + ?n1 + ?n2 + ?n3"
    using arg_cong [OF body, of length] by (simp only: length_append)
  have code: "read_function_body ?e (advance (?n1 + ?n2) u2 c ctx) = Inr ((), advance (?n1 + ?n2 + ?n3) u3 c ctx)"
  proof -
    have "read_function_body ?e (advance (?n1 + ?n2) u2 c ctx)
        = Inr ((), advance ?n3 u3 c (advance (?n1 + ?n2) u2 c ctx))"
      by (rule read_function_body_reads [OF _ _ _ _ , where opts = opts and rest = rest])
        (use rd2 w3 f3 e wf in \<open>simp_all add: wf_func_def\<close>)
    then show ?thesis by simp
  qed
  show "read_function i ctx = Inr ((), advance (length (enc_sized wopts ?body)) u c ctx)"
  proof -
    have "read_function i ctx = rbind get_offset (\<lambda>off. rbind (in_u32_leb128 ''local declaration count'') (\<lambda>n.
        rseq [code_callback (On_local_decl_count n), rfor 0 (unat n) read_local_decl,
          read_function_body (off + u32_of_nat (length ?body)), code_callback (End_function_body i)])) (advance ?n1 u1 c ctx)"
      unfolding read_function_def rbind_assoc [symmetric]
      by (rule rbind_step) (unfold rbind_assoc, rule trans, rule rbind_step, rule narrow, rule start)
    also have "\<dots> = rbind (in_u32_leb128 ''local declaration count'') (\<lambda>n.
        rseq [code_callback (On_local_decl_count n), rfor 0 (unat n) read_local_decl,
          read_function_body ?e, code_callback (End_function_body i)]) (advance ?n1 u1 c ctx)"
      by (rule rbind_step) (simp add: get_offset_def advance_def)
    also have "\<dots> = rthen (read_function_body ?e) (code_callback (End_function_body i)) (advance (?n1 + ?n2) u2 c ctx)"
      unfolding rseq_split by (rule trans, rule rbind_step, rule locals) (simp only: advance_advance)
    also have "\<dots> = code_callback (End_function_body i) (advance (?n1 + ?n2 + ?n3) u3 c ctx)"
      by (rule rbind_step) (rule code)
    also have "\<dots> = Inr ((), advance (length (enc_sized wopts ?body)) u c ctx)"
      using f4 rd
      by (auto simp: code_callback_def callback_def call_member_def ready_def advance_def rret_def enc_sized_def body
          split: prod.splits WasmResult.splits)
    finally show ?thesis .
  qed
qed

end
