(* ===== verification/Wabt_Round_Trip.thy ===== *)
theory Wabt_Round_Trip
  imports Wabt_Round_Items
begin

text \<open>
  Reading back a module: the calls that describe a module section by section, the conditions
  under which the reader accepts what the writer wrote, and the theorem that reading the encoding
  of a module makes exactly these calls and succeeds.
\<close>

subsection \<open>The loop over the sections\<close>

text \<open>The reader between two sections, with \<open>bs\<close> left to read.\<close>

definition at_sections ::
    "(WasmReaderEvent \<Rightarrow> 'u \<Rightarrow> WasmResult \<times> 'u) \<Rightarrow> WasmReadBinaryOptions \<Rightarrow> ContextCounts \<Rightarrow> byte list
     \<Rightarrow> 'u Context \<Rightarrow> bool" where
  "at_sections g opts c bs ctx \<longleftrightarrow>
     reader_member (c_reader ctx) = (\<lambda>ev _. g ev) \<and> c_options ctx = opts \<and> c_counts ctx = c
     \<and> c_offset ctx \<le> c_data_size ctx \<and> drop (c_offset ctx) (c_data ctx) = bs \<and> c_data_size ctx < 2 ^ 32"

definition order_ok :: "nat \<Rightarrow> ContextCounts \<Rightarrow> bool" where
  "order_ok code c \<longleftrightarrow>
     last_known_section_code c = WASM_NUM_BINARY_SECTIONS \<or> code = 0 \<or> last_known_section_code c < code"

definition after_section :: "nat \<Rightarrow> ContextCounts \<Rightarrow> ContextCounts" where
  "after_section code c = (if code = 0 then c else c\<lparr>last_known_section_code := code\<rparr>)"

lemma window_full:
  assumes "c_read_end ctx = c_data_size ctx" "drop (c_offset ctx) (c_data ctx) = bs"
  shows "window ctx = bs"
proof -
  have "window ctx = take (length bs) bs" using assms by (auto simp: window_def)
  then show ?thesis by simp
qed

lemma rbind_reads:
  "reads opts c m bs evs x c1 \<Longrightarrow> ready g opts c ctx \<Longrightarrow> window ctx = bs @ rest \<Longrightarrow>
     feed g evs (c_user_data ctx) = Some u \<Longrightarrow> rbind m k ctx = k x (advance (length bs) u c1 ctx)"
  using readsD [of opts c m bs evs x c1 g ctx rest u] by (simp add: rbind_def)

text \<open>
  The contents of a section are read with nothing behind them in the window. That is weaker than
  \<open>reads\<close>, and it also covers skipping the contents.
\<close>

definition reads_to_end ::
    "WasmReadBinaryOptions \<Rightarrow> ContextCounts \<Rightarrow> ('u, 'a) reading \<Rightarrow> byte list \<Rightarrow> WasmReaderEvent list
     \<Rightarrow> 'a \<Rightarrow> ContextCounts \<Rightarrow> bool" where
  "reads_to_end opts c m bs evs x c' \<longleftrightarrow>
     (\<forall>g ctx u. ready g opts c ctx \<longrightarrow> window ctx = bs \<longrightarrow> feed g evs (c_user_data ctx) = Some u \<longrightarrow>
        m ctx = Inr (x, advance (length bs) u c' ctx))"

lemma reads_to_endI: "reads opts c m bs evs x c' \<Longrightarrow> reads_to_end opts c m bs evs x c'"
  by (simp add: reads_def reads_to_end_def)

lemma reads_to_endD:
  "reads_to_end opts c m bs evs x c' \<Longrightarrow> ready g opts c ctx \<Longrightarrow> window ctx = bs \<Longrightarrow>
     feed g evs (c_user_data ctx) = Some u \<Longrightarrow> m ctx = Inr (x, advance (length bs) u c' ctx)"
  by (simp add: reads_to_end_def)

lemma reads_to_end_rbind:
  assumes "reads opts c m bs evs x c1" "reads_to_end opts c1 (k x) bs' evs' y c2"
  shows "reads_to_end opts c (rbind m k) (bs @ bs') (evs @ evs') y c2"
  unfolding reads_to_end_def
proof (intro allI impI)
  fix g :: "WasmReaderEvent \<Rightarrow> 'a \<Rightarrow> WasmResult \<times> 'a" and ctx u
  assume rd: "ready g opts c ctx" and w: "window ctx = bs @ bs'" and f: "feed g (evs @ evs') (c_user_data ctx) = Some u"
  from f obtain u1 where f1: "feed g evs (c_user_data ctx) = Some u1" and f2: "feed g evs' u1 = Some u"
    by (rule feed_append_SomeE)
  show "rbind m k ctx = Inr (y, advance (length (bs @ bs')) u c2 ctx)"
    using reads_to_endD [OF assms(2) ready_advance [OF rd w] window_advance [OF w], of u1 u] f2
    by (simp add: rbind_reads [OF assms(1) rd w f1])
qed

lemma reads_to_end_silent:
  "reads opts c m bs [] x c1 \<Longrightarrow> reads_to_end opts c1 (k x) bs' evs y c2 \<Longrightarrow> reads_to_end opts c (rbind m k) (bs @ bs') evs y c2"
  using reads_to_end_rbind [of opts c m bs "[]" x c1 k bs' evs y c2] by simp

lemma reads_to_end_callback:
  assumes "reads_to_end opts c k bs evs y c2"
  shows "reads_to_end opts c (rthen (callback_ctx ev) k) bs (ev # evs) y c2"
proof -
  have "reads_to_end opts c (rthen (callback_ctx ev) k) ([] @ bs) ([ev] @ evs) y c2"
    by (rule reads_to_end_rbind [OF reads_call(2) assms])
  then show ?thesis by simp
qed

lemma reads_to_end_get:
  "reads_to_end opts c (k c) bs evs y c2 \<Longrightarrow> reads_to_end opts c (rbind get_counts k) bs evs y c2"
  "reads_to_end opts c (k' opts) bs evs y c2 \<Longrightarrow> reads_to_end opts c (rbind get_options k') bs evs y c2"
  by (auto simp: reads_to_end_def rbind_def get_counts_def get_options_def ready_def)

lemma reads_to_end_skip: "reads_to_end opts c (rseq [skip_to_read_end, callback_ctx ev]) bs [ev] () c"
proof -
  have "c_read_end ctx = c_offset ctx + length (window ctx)" if "wf_ctx ctx" for ctx :: "'a Context"
    using that by (auto simp: window_def wf_ctx_def min_def)
  then show ?thesis
    by (auto simp: reads_to_end_def rbind_def skip_to_read_end_def callback_ctx_def call_member_def ready_def
        advance_def rret_def split: prod.splits WasmResult.splits)
qed

lemma read_section_reads:
  fixes ctx :: "'u Context"
  assumes at: "at_sections g opts c (enc_section wopts code payload @ rest) ctx"
    and order: "order_ok code c" and code: "code < 12"
    and body: "reads_to_end opts c (read_section_body code (u32_of_nat (length payload)) :: ('u, unit) reading) payload evs () c'"
    and f: "feed g (Begin_section code (u32_of_nat (length payload)) # evs) (c_user_data ctx) = Some u"
  obtains ctx' where "read_section ctx = Inr ((), ctx')" "at_sections g opts (after_section code c') rest ctx'"
    "c_user_data ctx' = u"
proof -
  let ?sz = "u32_of_nat (length payload)" and ?u = "c_user_data ctx"
  let ?h1 = "[word_of_nat code] :: byte list" and ?h2 = "enc_size wopts (length payload)"
  let ?ctx1 = "ctx\<lparr>c_read_end := c_data_size ctx\<rparr>"
  have data: "drop (c_offset ctx) (c_data ctx) = ?h1 @ ?h2 @ payload @ rest"
    using at by (simp add: at_sections_def enc_section_def enc_sized_def)
  have sz: "c_offset ctx \<le> c_data_size ctx" "c_data_size ctx < 2 ^ 32" using at by (simp_all add: at_sections_def)
  have len: "c_offset ctx + length ?h1 + length ?h2 + length payload + length rest = c_data_size ctx"
    using arg_cong [OF data, of length] sz(1) by simp
  have rd1: "ready g opts c ?ctx1" using at by (simp add: at_sections_def ready_def wf_ctx_def)
  have w1: "window ?ctx1 = ?h1 @ (?h2 @ payload @ rest)" by (rule window_full) (simp_all add: data)
  have c128: "code < 128" using code by simp
  note rd2 = ready_advance [OF rd1 w1, of c ?u] and w2 = window_advance [OF w1, of ?u c]
  let ?ctx3 = "advance (length ?h2) ?u c (advance (length ?h1) ?u c ?ctx1)"
  let ?ctx4 = "?ctx3\<lparr>c_read_end := c_offset ?ctx3 + length payload\<rparr>"
  have ucode: "unat (u32_of_nat code) = code" using code by simp
  have "read_section ctx = rseq [open_section ?sz, check_section_order code,
      callback_ctx (Begin_section code ?sz), read_section_body code ?sz, close_section code] ?ctx3"
    unfolding read_section_def
    apply (subst rbind_step [where x = "()" and ctx' = ?ctx1], simp add: set_read_end_to_data_size_def)
    apply (subst rbind_reads [OF reads_code [OF c128] rd1 w1, of ?u], simp)
    apply (subst rbind_reads [OF reads_size rd2 w2, of ?u], simp)
    by (simp only: ucode)
  also have "\<dots> = rseq [check_section_order code, callback_ctx (Begin_section code ?sz),
      read_section_body code ?sz, close_section code] ?ctx4"
    using len sz(2) by (simp add: rbind_def open_section_def Let_def advance_def)
  also have "\<dots> = rseq [callback_ctx (Begin_section code ?sz), read_section_body code ?sz, close_section code] ?ctx4"
    using order by (auto simp: rbind_def check_section_order_def get_counts_def raise_error_unless_def rret_def
        advance_def order_ok_def)
  finally have step: "read_section ctx = rseq [callback_ctx (Begin_section code ?sz), read_section_body code ?sz, close_section code] ?ctx4" .
  have rd4: "ready g opts c ?ctx4" using at len by (simp add: at_sections_def ready_def wf_ctx_def advance_def)
  have d4: "drop (c_offset ?ctx3) (c_data ?ctx3) = payload @ rest"
  proof -
    have "drop (c_offset ?ctx3) (c_data ?ctx3) = drop (length (?h1 @ ?h2)) (drop (c_offset ctx) (c_data ctx))"
      by (simp add: advance_def add.commute)
    then show ?thesis unfolding data by simp
  qed
  have w4: "window ?ctx4 = payload"
    using d4 by (simp add: window_def)
  have f4: "feed g (Begin_section code ?sz # evs) (c_user_data ?ctx4) = Some u" using f by (simp add: advance_def)
  let ?ctx5 = "advance (length payload) u c' ?ctx4"
  have "read_section ctx = close_section code ?ctx5"
    using reads_to_endD [OF reads_to_end_callback [OF body, of "Begin_section code ?sz"] rd4 w4 f4] step
    by (simp add: rbind_assoc [symmetric]) (simp add: rbind_def)
  also have "\<dots> = Inr ((), ?ctx5\<lparr>c_counts := after_section code c'\<rparr>)"
    by (auto simp: close_section_def advance_def update_counts_def after_section_def)
  finally have result: "read_section ctx = Inr ((), ?ctx5\<lparr>c_counts := after_section code c'\<rparr>)" .
  have "drop (c_offset ?ctx5) (c_data ?ctx5) = drop (length payload) (drop (c_offset ?ctx3) (c_data ?ctx3))"
    by (simp add: advance_def add.commute)
  then have "drop (c_offset ?ctx5) (c_data ?ctx5) = rest" unfolding d4 by simp
  with result show ?thesis
    using at len by (intro that) (auto simp: at_sections_def advance_def)
qed

text \<open>
  \<open>secs opts P bs evs Q\<close>: with counters in \<open>P\<close>, the loop consumes the sections \<open>bs\<close> with the
  calls \<open>evs\<close> and goes on with counters in \<open>Q\<close>.
\<close>

definition secs ::
    "'u itself \<Rightarrow> WasmReadBinaryOptions \<Rightarrow> (ContextCounts \<Rightarrow> bool) \<Rightarrow> byte list \<Rightarrow> WasmReaderEvent list
     \<Rightarrow> (ContextCounts \<Rightarrow> bool) \<Rightarrow> bool" where
  "secs ty opts P bs evs Q \<longleftrightarrow>
     (\<forall>g (ctx :: 'u Context) rest u c. P c \<longrightarrow> at_sections g opts c (bs @ rest) ctx \<longrightarrow>
        feed g evs (c_user_data ctx) = Some u \<longrightarrow>
        (\<exists>ctx' c'. Q c' \<and> read_sections ctx = read_sections ctx' \<and> at_sections g opts c' rest ctx'
           \<and> c_user_data ctx' = u))"

lemma secs_append:
  assumes "secs ty opts P a ea Q" "secs ty opts Q b eb R"
  shows "secs ty opts P (a @ b) (ea @ eb) R"
  unfolding secs_def
proof (intro allI impI)
  fix g and ctx :: "'a Context" and rest u c
  assume P: "P c" and at: "at_sections g opts c ((a @ b) @ rest) ctx" and f: "feed g (ea @ eb) (c_user_data ctx) = Some u"
  from f obtain u1 where f1: "feed g ea (c_user_data ctx) = Some u1" and f2: "feed g eb u1 = Some u"
    by (rule feed_append_SomeE)
  obtain ctx1 c1 where 1: "Q c1" "read_sections ctx = read_sections ctx1" "at_sections g opts c1 (b @ rest) ctx1"
    "c_user_data ctx1 = u1"
    using assms(1) [unfolded secs_def, rule_format, OF P _ f1, of "b @ rest"] at by auto
  show "\<exists>ctx' c'. R c' \<and> read_sections ctx = read_sections ctx' \<and> at_sections g opts c' rest ctx' \<and> c_user_data ctx' = u"
    using assms(2) [unfolded secs_def, rule_format, OF 1(1,3)] f2 1(2,4) by auto
qed

lemma secs_empty: "(\<And>c. P c \<Longrightarrow> Q c) \<Longrightarrow> secs ty opts P [] [] Q"
  unfolding secs_def by (metis append_Nil feed.simps(1) option.inject)

lemma secs_section:
  assumes "code < 12" "\<And>c. P c \<Longrightarrow> order_ok code c"
    and "\<And>c. P c \<Longrightarrow> \<exists>c'. reads_to_end opts c (read_section_body code (u32_of_nat (length payload)) :: ('u, unit) reading) payload evs () c'
      \<and> Q (after_section code c')"
  shows "secs TYPE('u) opts P (enc_section wopts code payload)
    (Begin_section code (u32_of_nat (length payload)) # evs) Q"
  unfolding secs_def
proof (intro allI impI)
  fix g and ctx :: "'u Context" and rest u c
  assume P: "P c" and at: "at_sections g opts c (enc_section wopts code payload @ rest) ctx"
    and f: "feed g (Begin_section code (u32_of_nat (length payload)) # evs) (c_user_data ctx) = Some u"
  from assms(3) [OF P] obtain c' where body: "reads_to_end opts c (read_section_body code (u32_of_nat (length payload)) :: ('u, unit) reading) payload evs () c'"
    and Q: "Q (after_section code c')" by blast
  obtain ctx' where ctx': "read_section ctx = Inr ((), ctx')" "at_sections g opts (after_section code c') rest ctx'"
    "c_user_data ctx' = u"
    by (rule read_section_reads [OF at assms(2) [OF P] assms(1) body f])
  have "drop (c_offset ctx) (c_data ctx) \<noteq> []"
    using at by (simp add: at_sections_def enc_section_def)
  then have "c_offset ctx < c_data_size ctx" by (simp add: not_le)
  then have "read_sections ctx = read_sections ctx'"
    using ctx'(1) by (subst read_sections.simps) simp
  with Q ctx' show "\<exists>ctx' c'. Q c' \<and> read_sections ctx = read_sections ctx' \<and> at_sections g opts c' rest ctx' \<and> c_user_data ctx' = u"
    by blast
qed

subsection \<open>The calls of a module\<close>

definition vec_section_events ::
    "nat \<Rightarrow> (u32 \<Rightarrow> WasmReaderEvent) \<Rightarrow> (u32 \<Rightarrow> WasmReaderEvent) \<Rightarrow> WasmReaderEvent
     \<Rightarrow> (u32 \<Rightarrow> 'a \<Rightarrow> WasmReaderEvent list) \<Rightarrow> ('a \<Rightarrow> byte list) \<Rightarrow> 'a list \<Rightarrow> WasmReaderEvent list" where
  "vec_section_events code opens counts closes item enc xs =
     (if xs = [] then []
      else let sz = u32_of_nat (length (enc_vec enc xs))
           in Begin_section code sz # [opens sz, counts (u32_of_nat (length xs))] @ for_events item xs @ [closes])"

definition start_section_events :: "WasmModule \<Rightarrow> WasmReaderEvent list" where
  "start_section_events m =
     (case start m of
        None \<Rightarrow> []
      | Some var \<Rightarrow>
          (let i = wasm_get_func_index_by_var m var; sz = u32_of_nat (length (enc_index i))
           in if i = - 1 then []
              else Begin_section WASM_BINARY_SECTION_START sz
                # [Start_event (Begin_start_section sz), Start_event (On_start_function (word_of_int i)),
                   Start_event End_start_section]))"

definition names_payload :: "WasmModule \<Rightarrow> byte list" where
  "names_payload m = enc_str (Some (cstr ''name'')) @ enc_vec enc_func_names (funcs m)"

definition names_section_events ::
    "WasmWriteBinaryOptions \<Rightarrow> WasmReadBinaryOptions \<Rightarrow> WasmModule \<Rightarrow> WasmReaderEvent list" where
  "names_section_events wopts ropts m =
     (if \<not> write_debug_names wopts then []
      else let sz = u32_of_nat (length (names_payload m))
           in Begin_section WASM_BINARY_SECTION_CUSTOM sz
             # [Begin_custom_section sz (Some (cstr ''name''))]
             @ (if read_debug_names ropts
                then [Names_event (Begin_names_section sz), Names_event (On_function_names_count (u32_of_nat (length (funcs m))))]
                  @ for_events func_names_events (funcs m) @ [Names_event End_names_section]
                else [])
             @ [End_custom_section])"

definition section_events :: "WasmWriteBinaryOptions \<Rightarrow> WasmReadBinaryOptions \<Rightarrow> WasmModule \<Rightarrow> WasmReaderEvent list list" where
  "section_events wopts ropts m =
     [vec_section_events WASM_BINARY_SECTION_TYPE
        (\<lambda>sz. Signature_event (Begin_signature_section sz)) (\<lambda>n. Signature_event (On_signature_count n))
        (Signature_event End_signature_section) func_type_events enc_func_type (func_types m),
      vec_section_events WASM_BINARY_SECTION_IMPORT
        (\<lambda>sz. Import_event (Begin_import_section sz)) (\<lambda>n. Import_event (On_import_count n))
        (Import_event End_import_section) (import_events m) (enc_import m) (imports_vec m),
      vec_section_events WASM_BINARY_SECTION_FUNCTION
        (\<lambda>sz. Function_event (Begin_function_signatures_section sz)) (\<lambda>n. Function_event (On_function_signatures_count n))
        (Function_event End_function_signatures_section) (function_sig_events m)
        (\<lambda>func. enc_index (wasm_get_func_type_index_by_decl m (func_decl func))) (defined_funcs m),
      vec_section_events WASM_BINARY_SECTION_TABLE
        (\<lambda>sz. Table_event (Begin_table_section sz)) (\<lambda>n. Table_event (On_table_count n))
        (Table_event End_table_section)
        (\<lambda>i t. [Table_event (On_table i WASM_TYPE_ANYFUNC (limits_back (elem_limits t)))]) enc_table (defined_tables m),
      vec_section_events WASM_BINARY_SECTION_MEMORY
        (\<lambda>sz. Memory_event (Begin_memory_section sz)) (\<lambda>n. Memory_event (On_memory_count n))
        (Memory_event End_memory_section)
        (\<lambda>i t. [Memory_event (On_memory i (limits_back (page_limits t)))]) enc_memory (defined_memories m),
      vec_section_events WASM_BINARY_SECTION_GLOBAL
        (\<lambda>sz. Global_event (Begin_global_section sz)) (\<lambda>n. Global_event (On_global_count n))
        (Global_event End_global_section) (global_events m) (enc_global m) (defined_globals m),
      vec_section_events WASM_BINARY_SECTION_EXPORT
        (\<lambda>sz. Export_event (Begin_export_section sz)) (\<lambda>n. Export_event (On_export_count n))
        (Export_event End_export_section) (export_events m) (enc_export m) (exports m),
      start_section_events m,
      vec_section_events WASM_BINARY_SECTION_ELEM
        (\<lambda>sz. Elem_event (Begin_elem_section sz)) (\<lambda>n. Elem_event (On_elem_segment_count n))
        (Elem_event End_elem_section) (elem_events m) (enc_elem_segment m) (elem_segments m),
      vec_section_events WASM_BINARY_SECTION_CODE
        (\<lambda>sz. Code_event (Begin_function_bodies_section sz)) (\<lambda>n. Code_event (On_function_bodies_count n))
        (Code_event End_function_bodies_section) (function_events m) (\<lambda>func. enc_sized wopts (enc_func m func)) (defined_funcs m),
      vec_section_events WASM_BINARY_SECTION_DATA
        (\<lambda>sz. Data_event (Begin_data_section sz)) (\<lambda>n. Data_event (On_data_segment_count n))
        (Data_event End_data_section) (data_events m) (enc_data_segment m) (data_segments m),
      names_section_events wopts ropts m]"

definition module_events :: "WasmWriteBinaryOptions \<Rightarrow> WasmReadBinaryOptions \<Rightarrow> WasmModule \<Rightarrow> WasmReaderEvent list" where
  "module_events wopts ropts m =
     [Begin_module WASM_BINARY_VERSION] @ concat (section_events wopts ropts m) @ [End_module]"

subsection \<open>Well-formed modules\<close>

definition total_funcs :: "WasmModule \<Rightarrow> u32" where
  "total_funcs m = u32_of_nat (length (funcs m))"

definition total_sigs :: "WasmModule \<Rightarrow> u32" where
  "total_sigs m = u32_of_nat (length (func_types m))"

definition imports_of :: "WasmExternalKind \<Rightarrow> WasmModule \<Rightarrow> nat" where
  "imports_of kind m = length (filter (\<lambda>im. import_kind im = kind) (imports_vec m))"

definition export_bound :: "WasmModule \<Rightarrow> WasmExternalKind \<Rightarrow> u32" where
  "export_bound m kind =
     (case kind of
        WASM_EXTERNAL_KIND_FUNC \<Rightarrow> u32_of_nat (length (funcs m))
      | WASM_EXTERNAL_KIND_TABLE \<Rightarrow> u32_of_nat (length (tables m))
      | WASM_EXTERNAL_KIND_MEMORY \<Rightarrow> u32_of_nat (length (memories m))
      | WASM_EXTERNAL_KIND_GLOBAL \<Rightarrow> u32_of_nat (length (globals m)))"

text \<open>Sizes fit 32 bits, and the imports come first in the index spaces.\<close>

definition wf_sizes :: "WasmModule \<Rightarrow> bool" where
  "wf_sizes m \<longleftrightarrow>
     length (func_types m) < 2 ^ 32 \<and> length (imports_vec m) < 2 ^ 32 \<and> length (funcs m) < 2 ^ 32
     \<and> length (tables m) < 2 ^ 32 \<and> length (memories m) < 2 ^ 32 \<and> length (globals m) < 2 ^ 32
     \<and> length (exports m) < 2 ^ 32 \<and> length (elem_segments m) < 2 ^ 32 \<and> length (data_segments m) < 2 ^ 32
     \<and> num_func_imports m = imports_of WASM_EXTERNAL_KIND_FUNC m \<and> num_func_imports m \<le> length (funcs m)
     \<and> num_table_imports m = imports_of WASM_EXTERNAL_KIND_TABLE m \<and> num_table_imports m \<le> length (tables m)
     \<and> num_memory_imports m = imports_of WASM_EXTERNAL_KIND_MEMORY m \<and> num_memory_imports m \<le> length (memories m)
     \<and> num_global_imports m = imports_of WASM_EXTERNAL_KIND_GLOBAL m \<and> num_global_imports m \<le> length (globals m)
     \<and> length (defined_tables m) \<le> 1 \<and> length (defined_memories m) \<le> 1
     \<and> (elem_segments m \<noteq> [] \<longrightarrow> tables m \<noteq> []) \<and> (data_segments m \<noteq> [] \<longrightarrow> memories m \<noteq> [])"

definition wf_items :: "WasmModule \<Rightarrow> bool" where
  "wf_items m \<longleftrightarrow>
     list_all wf_func_type (func_types m)
     \<and> list_all (wf_import (total_sigs m) m) (imports_vec m)
     \<and> list_all (wf_func (total_funcs m) (total_sigs m) m) (defined_funcs m)
     \<and> list_all (\<lambda>t. wf_limits (- 1) (elem_limits t)) (defined_tables m)
     \<and> list_all (\<lambda>t. wf_limits WASM_MAX_PAGES (page_limits t)) (defined_memories m)
     \<and> list_all (\<lambda>g. is_concrete_type (global_type g) \<and> wf_init (global_init_expr g)) (defined_globals m)
     \<and> list_all (\<lambda>ex. str_ok (export_name ex) \<and> word_of_int (export_index m ex) < export_bound m (export_kind ex)) (exports m)
     \<and> (case start m of None \<Rightarrow> True
        | Some var \<Rightarrow> wasm_get_func_index_by_var m var = - 1 \<or> word_of_int (wasm_get_func_index_by_var m var) < total_funcs m)
     \<and> list_all wf_elem (elem_segments m) \<and> list_all wf_data (data_segments m)"

definition wf_debug_names :: "WasmWriteBinaryOptions \<Rightarrow> WasmModule \<Rightarrow> bool" where
  "wf_debug_names wopts m \<longleftrightarrow>
     (write_debug_names wopts \<longrightarrow> funcs m \<noteq> [] \<and> list_all wf_names (funcs m))"

definition wf_module :: "WasmWriteBinaryOptions \<Rightarrow> WasmModule \<Rightarrow> bool" where
  "wf_module wopts m \<longleftrightarrow> wf_sizes m \<and> wf_items m \<and> wf_debug_names wopts m"

subsection \<open>The counters between sections\<close>

text \<open>What the counters are before the section with code \<open>k\<close>.\<close>

definition counts_ok :: "WasmModule \<Rightarrow> nat \<Rightarrow> ContextCounts \<Rightarrow> bool" where
  "counts_ok m k c \<longleftrightarrow>
     order_ok k c \<and> (3 < k \<longrightarrow> imports_vec m \<noteq> [] \<or> defined_funcs m \<noteq> [] \<longrightarrow> 2 \<le> last_known_section_code c)
     \<and> c_num_signatures c = (if 1 < k then total_sigs m else 0)
     \<and> c_num_func_imports c = (if 2 < k then u32_of_nat (num_func_imports m) else 0)
     \<and> c_num_table_imports c = (if 2 < k then u32_of_nat (num_table_imports m) else 0)
     \<and> c_num_memory_imports c = (if 2 < k then u32_of_nat (num_memory_imports m) else 0)
     \<and> c_num_global_imports c = (if 2 < k then u32_of_nat (num_global_imports m) else 0)
     \<and> c_num_function_signatures c = (if 3 < k then u32_of_nat (length (defined_funcs m)) else 0)
     \<and> c_num_tables c = (if 4 < k then u32_of_nat (length (defined_tables m)) else 0)
     \<and> c_num_memories c = (if 5 < k then u32_of_nat (length (defined_memories m)) else 0)
     \<and> c_num_globals c = (if 6 < k then u32_of_nat (length (defined_globals m)) else 0)
     \<and> (2 < k \<longrightarrow> imports_vec m \<noteq> [] \<longrightarrow> 2 \<le> last_known_section_code c)
     \<and> (last_known_section_code c = WASM_NUM_BINARY_SECTIONS \<or> last_known_section_code c < 12)"

lemma counts_okD: "counts_ok m k c \<Longrightarrow> order_ok k c"
  by (simp add: counts_ok_def)

lemma total_split: "n \<le> length xs \<Longrightarrow> u32_of_nat n + u32_of_nat (length (drop n xs)) = u32_of_nat (length xs)"
  by (simp flip: of_nat_add)

lemma counts_totals:
  assumes "counts_ok m k c" "6 < k" "wf_sizes m"
  shows "num_total_funcs c = total_funcs m" "num_total_tables c = u32_of_nat (length (tables m))"
    "num_total_memories c = u32_of_nat (length (memories m))" "num_total_globals c = u32_of_nat (length (globals m))"
    "c_num_signatures c = total_sigs m" "c_num_function_signatures c = u32_of_nat (length (defined_funcs m))"
  using assms total_split
  by (simp_all add: counts_ok_def wf_sizes_def num_total_funcs_def num_total_tables_def num_total_memories_def
      num_total_globals_def total_funcs_def defined_funcs_def defined_tables_def defined_memories_def defined_globals_def)

lemma total_funcs_early:
  "counts_ok m k c \<Longrightarrow> 1 < k \<Longrightarrow> c_num_signatures c = total_sigs m"
  by (simp add: counts_ok_def)

text \<open>The sections of a list, by the reader of the section body; \<open>F\<close> is its effect on the counters.\<close>

abbreviation vec_body_events ::
    "WasmReaderEvent \<Rightarrow> (u32 \<Rightarrow> WasmReaderEvent) \<Rightarrow> WasmReaderEvent
     \<Rightarrow> (u32 \<Rightarrow> 'a \<Rightarrow> WasmReaderEvent list) \<Rightarrow> 'a list \<Rightarrow> WasmReaderEvent list" where
  "vec_body_events opens counts closes item xs \<equiv>
     opens # counts (u32_of_nat (length xs)) # for_events item xs @ [closes]"

lemma secs_vec:
  fixes item :: "u32 \<Rightarrow> 'a \<Rightarrow> WasmReaderEvent list"
  assumes "code < 12" "0 < code"
    and "\<And>c. xs = [] \<Longrightarrow> counts_ok m code c \<Longrightarrow> counts_ok m (Suc code) c"
    and "\<And>c sz. xs \<noteq> [] \<Longrightarrow> counts_ok m code c \<Longrightarrow> reads opts c (read_section_body code sz :: ('u, unit) reading)
        (enc_vec enc xs) (vec_body_events (opens sz) counts closes item xs) () (F c)"
    and "\<And>c. xs \<noteq> [] \<Longrightarrow> counts_ok m code c \<Longrightarrow> counts_ok m (Suc code) (after_section code (F c))"
  shows "secs TYPE('u) opts (counts_ok m code) (enc_vec_section wopts code enc xs)
    (vec_section_events code opens counts closes item enc xs) (counts_ok m (Suc code))"
proof (cases "xs = []")
  case True
  then show ?thesis using assms(3) by (simp add: enc_vec_section_def vec_section_events_def secs_empty)
next
  case False
  have "secs TYPE('u) opts (counts_ok m code) (enc_section wopts code (enc_vec enc xs))
      (Begin_section code (u32_of_nat (length (enc_vec enc xs)))
       # vec_body_events (opens (u32_of_nat (length (enc_vec enc xs)))) counts closes item xs) (counts_ok m (Suc code))"
    by (rule secs_section [OF assms(1) counts_okD]) (use False assms(4,5) in \<open>blast intro: reads_to_endI\<close>)+
  with False show ?thesis by (simp add: enc_vec_section_def vec_section_events_def Let_def)
qed

text \<open>The common shape of a section body: count, store the count, calls around a loop.\<close>

lemma reads_vec_body:
  assumes "reads opts (f (u32_of_nat (length xs)) c) (rfor 0 (unat (u32_of_nat (length xs))) body) (concat (map enc xs)) evs () c2"
  shows "reads opts c (rthen (callback_ctx opens) (rbind (in_u32_leb128 desc) (\<lambda>n.
      rseq [update_counts (f n), callback (counts n), rfor 0 (unat n) body, callback_ctx closes])))
    (enc_vec enc xs) (opens # counts (u32_of_nat (length xs)) # evs @ [closes]) () c2"
proof -
  have "reads opts c (rthen (callback_ctx opens) (rbind (in_u32_leb128 desc) (\<lambda>n.
      rseq [update_counts (f n), callback (counts n), rfor 0 (unat n) body, callback_ctx closes])))
    (enc_nat (length xs) @ concat (map enc xs) @ []) (opens # counts (u32_of_nat (length xs)) # evs @ [closes]) () c2"
    by (rule reads_callback, rule reads_rbind_silent [OF reads_nat], rule reads_rseq_update, rule reads_rseq_callback,
        rule reads_rseq_Cons [OF assms], rule reads_rseq_callback, rule reads_calls_Nil)
  then show ?thesis by (simp add: enc_vec_def)
qed

text \<open>With a bound on the count, as tables and memories have it.\<close>

lemma reads_vec_body_bounded:
  assumes "reads opts (f (u32_of_nat (length xs)) c) (rfor 0 (unat (u32_of_nat (length xs))) body) (concat (map enc xs)) evs () c2"
    and "u32_of_nat (length xs) \<le> 1"
  shows "reads opts c (rthen (callback_ctx opens) (rbind (in_u32_leb128 desc) (\<lambda>n.
      rseq [update_counts (f n), raise_error_unless (n \<le> 1) format (args n), callback (counts n), rfor 0 (unat n) body, callback_ctx closes])))
    (enc_vec enc xs) (opens # counts (u32_of_nat (length xs)) # evs @ [closes]) () c2"
proof -
  have "reads opts c (rthen (callback_ctx opens) (rbind (in_u32_leb128 desc) (\<lambda>n.
      rseq [update_counts (f n), raise_error_unless (n \<le> 1) format (args n), callback (counts n), rfor 0 (unat n) body, callback_ctx closes])))
    (enc_nat (length xs) @ concat (map enc xs) @ []) (opens # counts (u32_of_nat (length xs)) # evs @ [closes]) () c2"
    by (rule reads_callback, rule reads_rbind_silent [OF reads_nat], rule reads_rseq_update, rule reads_rseq_guard [OF assms(2)],
        rule reads_rseq_callback, rule reads_rseq_Cons [OF assms(1)], rule reads_rseq_callback, rule reads_calls_Nil)
  then show ?thesis by (simp add: enc_vec_def)
qed

text \<open>With a check of the counters after the count has been reported, as segments have it.\<close>

lemma reads_vec_body_checked:
  assumes "reads opts c (rfor 0 (unat (u32_of_nat (length xs))) body) (concat (map enc xs)) evs () c"
    and "ok (u32_of_nat (length xs)) c"
  shows "reads opts c (rthen (callback_ctx opens) (rbind (in_u32_leb128 desc) (\<lambda>n.
      rthen (callback (counts n)) (rbind get_counts (\<lambda>c.
        rseq [raise_error_unless (ok n c) format [], rfor 0 (unat n) body, callback_ctx closes])))))
    (enc_vec enc xs) (opens # counts (u32_of_nat (length xs)) # evs @ [closes]) () c"
proof -
  have "reads opts c (rthen (callback_ctx opens) (rbind (in_u32_leb128 desc) (\<lambda>n.
      rthen (callback (counts n)) (rbind get_counts (\<lambda>c.
        rseq [raise_error_unless (ok n c) format [], rfor 0 (unat n) body, callback_ctx closes])))))
    (enc_nat (length xs) @ concat (map enc xs) @ []) (opens # counts (u32_of_nat (length xs)) # evs @ [closes]) () c"
    by (rule reads_callback, rule reads_rbind_silent [OF reads_nat], rule reads_callback, rule reads_get_counts,
        rule reads_rseq_guard [OF assms(2)], rule reads_rseq_Cons [OF assms(1)], rule reads_rseq_callback, rule reads_calls_Nil)
  then show ?thesis by (simp add: enc_vec_def)
qed

lemma section_body_cases:
  "read_section_body 1 = read_type_section" "read_section_body 2 = read_import_section"
  "read_section_body 3 = read_function_section" "read_section_body 4 = read_table_section"
  "read_section_body 5 = read_memory_section" "read_section_body 6 = read_global_section"
  "read_section_body 7 = read_export_section" "read_section_body 8 = read_start_section"
  "read_section_body 9 = read_elem_section" "read_section_body 10 = read_code_section"
  "read_section_body 11 = read_data_section" "read_section_body 0 = read_custom_section"
  by (simp_all add: read_section_body_def fun_eq_iff)

lemmas counts_step = counts_ok_def after_section_def order_ok_def WASM_NUM_BINARY_SECTIONS_def

lemma secs_types:
  assumes "wf_sizes m" "wf_items m"
  shows "secs TYPE('u) opts (counts_ok m 1) (enc_vec_section wopts WASM_BINARY_SECTION_TYPE enc_func_type (func_types m))
    (vec_section_events WASM_BINARY_SECTION_TYPE
        (\<lambda>sz. Signature_event (Begin_signature_section sz)) (\<lambda>n. Signature_event (On_signature_count n))
        (Signature_event End_signature_section) func_type_events enc_func_type (func_types m)) (counts_ok m (Suc 1))"
proof (rule secs_vec [where F = "c_num_signatures_update (\<lambda>_. u32_of_nat (length (func_types m)))"])
  fix c sz
  show "reads opts c (read_section_body 1 sz :: ('u, unit) reading) (enc_vec enc_func_type (func_types m))
      (vec_body_events (Signature_event (Begin_signature_section sz)) (\<lambda>n. Signature_event (On_signature_count n))
        (Signature_event End_signature_section) func_type_events (func_types m)) ()
      (c_num_signatures_update (\<lambda>_. u32_of_nat (length (func_types m))) c)"
    unfolding section_body_cases read_type_section_def signature_callback_def
    by (rule reads_vec_body, rule reads_rfor_same, rule reads_signature)
      (use assms in \<open>auto simp: wf_items_def wf_sizes_def list_all_iff\<close>)
qed (auto simp: counts_step total_sigs_def)

text \<open>What the loop over the imports does to the counters.\<close>

lemma fold_count_import:
  "c_num_func_imports (fold count_import ims c) = c_num_func_imports c + u32_of_nat (length (filter (\<lambda>im. import_kind im = WASM_EXTERNAL_KIND_FUNC) ims))"
  "c_num_table_imports (fold count_import ims c) = c_num_table_imports c + u32_of_nat (length (filter (\<lambda>im. import_kind im = WASM_EXTERNAL_KIND_TABLE) ims))"
  "c_num_memory_imports (fold count_import ims c) = c_num_memory_imports c + u32_of_nat (length (filter (\<lambda>im. import_kind im = WASM_EXTERNAL_KIND_MEMORY) ims))"
  "c_num_global_imports (fold count_import ims c) = c_num_global_imports c + u32_of_nat (length (filter (\<lambda>im. import_kind im = WASM_EXTERNAL_KIND_GLOBAL) ims))"
  "last_known_section_code (fold count_import ims c) = last_known_section_code c"
  "c_num_signatures (fold count_import ims c) = c_num_signatures c"
  "c_num_function_signatures (fold count_import ims c) = c_num_function_signatures c"
  "c_num_tables (fold count_import ims c) = c_num_tables c"
  "c_num_memories (fold count_import ims c) = c_num_memories c"
  "c_num_globals (fold count_import ims c) = c_num_globals c"
  by (induction ims arbitrary: c) (simp_all add: count_import_def import_kind_def split: WasmImportDesc.split)

lemma secs_imports:
  assumes "wf_sizes m" "wf_items m"
  shows "secs TYPE('u) opts (counts_ok m 2) (enc_vec_section wopts WASM_BINARY_SECTION_IMPORT (enc_import m) (imports_vec m))
    (vec_section_events WASM_BINARY_SECTION_IMPORT
        (\<lambda>sz. Import_event (Begin_import_section sz)) (\<lambda>n. Import_event (On_import_count n))
        (Import_event End_import_section) (import_events m) (enc_import m) (imports_vec m)) (counts_ok m (Suc 2))"
proof (rule secs_vec [where F = "\<lambda>c. fold count_import (imports_vec m) (c_num_imports_update (\<lambda>_. u32_of_nat (length (imports_vec m))) c)"])
  fix c sz
  assume c: "counts_ok m 2 c"
  let ?c = "c_num_imports_update (\<lambda>_. u32_of_nat (length (imports_vec m))) c"
  have n: "unat (u32_of_nat (length (imports_vec m))) = length (imports_vec m)"
    using assms(1) by (simp add: wf_sizes_def)
  have "reads opts ?c (rfor 0 (unat (u32_of_nat (length (imports_vec m)))) read_import :: ('u, unit) reading)
      (concat (map (enc_import m) (imports_vec m))) (for_events (import_events m) (imports_vec m)) ()
      (fold count_import (imports_vec m) ?c)"
    unfolding n
  proof (rule reads_rfor_counting [where P = "\<lambda>c. c_num_signatures c = total_sigs m"])
    fix i x and c :: ContextCounts
    assume "c_num_signatures c = total_sigs m" "x \<in> set (imports_vec m)"
    then show "reads opts c (read_import i :: ('u, unit) reading) (enc_import m x) (import_events m i x) () (count_import x c)
        \<and> c_num_signatures (count_import x c) = total_sigs m"
      using assms(2)
      by (intro conjI reads_import) (simp_all add: wf_items_def list_all_iff count_import_def split: WasmImportDesc.split)
  qed (use c in \<open>simp add: counts_ok_def\<close>)
  then show "reads opts c (read_section_body 2 sz :: ('u, unit) reading) (enc_vec (enc_import m) (imports_vec m))
      (vec_body_events (Import_event (Begin_import_section sz)) (\<lambda>n. Import_event (On_import_count n))
        (Import_event End_import_section) (import_events m) (imports_vec m)) () (fold count_import (imports_vec m) ?c)"
    unfolding section_body_cases read_import_section_def import_callback_def by (rule reads_vec_body)
next
  fix c
  assume "imports_vec m = []" "counts_ok m 2 c"
  then show "counts_ok m (Suc 2) c"
    using assms(1) by (auto simp: counts_step wf_sizes_def imports_of_def)
next
  fix c
  assume "imports_vec m \<noteq> []" "counts_ok m 2 c"
  then show "counts_ok m (Suc 2) (after_section 2 (fold count_import (imports_vec m) (c_num_imports_update (\<lambda>_. u32_of_nat (length (imports_vec m))) c)))"
    using assms(1) by (auto simp: counts_step fold_count_import wf_sizes_def imports_of_def)
qed simp_all

lemma secs_functions:
  assumes "wf_sizes m" "wf_items m"
  shows "secs TYPE('u) opts (counts_ok m 3) (enc_vec_section wopts WASM_BINARY_SECTION_FUNCTION
      (\<lambda>func. enc_index (wasm_get_func_type_index_by_decl m (func_decl func))) (defined_funcs m))
    (vec_section_events WASM_BINARY_SECTION_FUNCTION
        (\<lambda>sz. Function_event (Begin_function_signatures_section sz)) (\<lambda>n. Function_event (On_function_signatures_count n))
        (Function_event End_function_signatures_section) (function_sig_events m)
        (\<lambda>func. enc_index (wasm_get_func_type_index_by_decl m (func_decl func))) (defined_funcs m)) (counts_ok m (Suc 3))"
proof (rule secs_vec [where F = "c_num_function_signatures_update (\<lambda>_. u32_of_nat (length (defined_funcs m)))"])
  fix c sz
  assume "counts_ok m 3 c"
  then show "reads opts c (read_section_body 3 sz :: ('u, unit) reading)
      (enc_vec (\<lambda>func. enc_index (wasm_get_func_type_index_by_decl m (func_decl func))) (defined_funcs m))
      (vec_body_events (Function_event (Begin_function_signatures_section sz)) (\<lambda>n. Function_event (On_function_signatures_count n))
        (Function_event End_function_signatures_section) (function_sig_events m) (defined_funcs m)) ()
      (c_num_function_signatures_update (\<lambda>_. u32_of_nat (length (defined_funcs m))) c)"
    unfolding section_body_cases read_function_section_def function_callback_def
    using assms
    by (intro reads_vec_body reads_rfor_same reads_function_signature)
      (auto simp: wf_items_def wf_sizes_def wf_func_def list_all_iff counts_ok_def defined_funcs_def)
qed (auto simp: counts_step)

text \<open>One item, one call.\<close>

lemma reads_one_call:
  assumes "reads opts c m bs [] v c"
  shows "reads opts c (rbind m (\<lambda>v. callback (ev v))) bs [ev v] () c"
proof -
  have "reads opts c (rbind m (\<lambda>v. callback (ev v))) (bs @ []) [ev v] () c"
    by (rule reads_rbind_silent [OF assms]) (rule reads_call)
  then show ?thesis by simp
qed

lemma u32_of_nat_le_1: "n \<le> 1 \<Longrightarrow> u32_of_nat n \<le> 1"
  by (cases n) auto

lemma secs_tables:
  assumes "wf_sizes m" "wf_items m"
  shows "secs TYPE('u) opts (counts_ok m 4) (enc_vec_section wopts WASM_BINARY_SECTION_TABLE enc_table (defined_tables m))
    (vec_section_events WASM_BINARY_SECTION_TABLE
        (\<lambda>sz. Table_event (Begin_table_section sz)) (\<lambda>n. Table_event (On_table_count n))
        (Table_event End_table_section)
        (\<lambda>i t. [Table_event (On_table i WASM_TYPE_ANYFUNC (limits_back (elem_limits t)))]) enc_table (defined_tables m))
    (counts_ok m (Suc 4))"
proof (rule secs_vec [where F = "c_num_tables_update (\<lambda>_. u32_of_nat (length (defined_tables m)))"])
  fix c sz
  have item: "reads opts c (rbind read_table (\<lambda>(elem_type, elem_limits). callback (Table_event (On_table i elem_type elem_limits))))
      (enc_table t) [Table_event (On_table i WASM_TYPE_ANYFUNC (limits_back (elem_limits t)))] () c"
    if "t \<in> set (defined_tables m)" for t i c
  proof -
    have wf: "wf_limits (- 1) (elem_limits t)" using that assms(2) by (simp add: wf_items_def list_all_iff)
    have "reads opts c (rbind read_table (\<lambda>(elem_type, elem_limits). callback (Table_event (On_table i elem_type elem_limits))))
      (enc_table t @ []) [Table_event (On_table i WASM_TYPE_ANYFUNC (limits_back (elem_limits t)))] () c"
      by (rule reads_rbind_silent [OF reads_table [OF wf]]) (simp add: reads_call)
    then show ?thesis by simp
  qed
  show "reads opts c (read_section_body 4 sz :: ('u, unit) reading) (enc_vec enc_table (defined_tables m))
      (vec_body_events (Table_event (Begin_table_section sz)) (\<lambda>n. Table_event (On_table_count n)) (Table_event End_table_section)
        (\<lambda>i t. [Table_event (On_table i WASM_TYPE_ANYFUNC (limits_back (elem_limits t)))]) (defined_tables m)) ()
      (c_num_tables_update (\<lambda>_. u32_of_nat (length (defined_tables m))) c)"
    unfolding section_body_cases read_table_section_def table_callback_def
    using assms(1)
    by (intro reads_vec_body_bounded reads_rfor_same item u32_of_nat_le_1) (auto simp: wf_sizes_def)
qed (auto simp: counts_step)

lemma secs_memories:
  assumes "wf_sizes m" "wf_items m"
  shows "secs TYPE('u) opts (counts_ok m 5) (enc_vec_section wopts WASM_BINARY_SECTION_MEMORY enc_memory (defined_memories m))
    (vec_section_events WASM_BINARY_SECTION_MEMORY
        (\<lambda>sz. Memory_event (Begin_memory_section sz)) (\<lambda>n. Memory_event (On_memory_count n))
        (Memory_event End_memory_section)
        (\<lambda>i t. [Memory_event (On_memory i (limits_back (page_limits t)))]) enc_memory (defined_memories m))
    (counts_ok m (Suc 5))"
proof (rule secs_vec [where F = "c_num_memories_update (\<lambda>_. u32_of_nat (length (defined_memories m)))"])
  fix c sz
  have item: "reads opts c (rbind read_memory (\<lambda>page_limits. callback (Memory_event (On_memory i page_limits))))
      (enc_memory t) [Memory_event (On_memory i (limits_back (page_limits t)))] () c"
    if "t \<in> set (defined_memories m)" for t i c
    using that assms(2) by (intro reads_one_call reads_memory) (simp add: wf_items_def list_all_iff)
  show "reads opts c (read_section_body 5 sz :: ('u, unit) reading) (enc_vec enc_memory (defined_memories m))
      (vec_body_events (Memory_event (Begin_memory_section sz)) (\<lambda>n. Memory_event (On_memory_count n)) (Memory_event End_memory_section)
        (\<lambda>i t. [Memory_event (On_memory i (limits_back (page_limits t)))]) (defined_memories m)) ()
      (c_num_memories_update (\<lambda>_. u32_of_nat (length (defined_memories m))) c)"
    unfolding section_body_cases read_memory_section_def memory_callback_def
    using assms(1)
    by (intro reads_vec_body_bounded [where args = "\<lambda>_. []"] reads_rfor_same item u32_of_nat_le_1) (auto simp: wf_sizes_def)
qed (auto simp: counts_step)

lemma secs_globals:
  assumes "wf_sizes m" "wf_items m"
  shows "secs TYPE('u) opts (counts_ok m 6) (enc_vec_section wopts WASM_BINARY_SECTION_GLOBAL (enc_global m) (defined_globals m))
    (vec_section_events WASM_BINARY_SECTION_GLOBAL
        (\<lambda>sz. Global_event (Begin_global_section sz)) (\<lambda>n. Global_event (On_global_count n))
        (Global_event End_global_section) (global_events m) (enc_global m) (defined_globals m)) (counts_ok m (Suc 6))"
proof (rule secs_vec [where F = "c_num_globals_update (\<lambda>_. u32_of_nat (length (defined_globals m)))"])
  fix c sz
  show "reads opts c (read_section_body 6 sz :: ('u, unit) reading) (enc_vec (enc_global m) (defined_globals m))
      (vec_body_events (Global_event (Begin_global_section sz)) (\<lambda>n. Global_event (On_global_count n)) (Global_event End_global_section)
        (global_events m) (defined_globals m)) () (c_num_globals_update (\<lambda>_. u32_of_nat (length (defined_globals m))) c)"
    unfolding section_body_cases read_global_section_def global_callback_def
    using assms
    by (intro reads_vec_body reads_rfor_same reads_global)
      (auto simp: wf_items_def wf_sizes_def list_all_iff defined_globals_def)
qed (auto simp: counts_step)

lemma export_bound_limit:
  "counts_ok m k c \<Longrightarrow> 6 < k \<Longrightarrow> wf_sizes m \<Longrightarrow> fst (export_limit kind c) = export_bound m kind"
  using counts_totals [of m k c] by (simp add: export_limit_def export_bound_def total_funcs_def split: WasmExternalKind.split)

lemma secs_exports:
  assumes "wf_sizes m" "wf_items m"
  shows "secs TYPE('u) opts (counts_ok m 7) (enc_vec_section wopts WASM_BINARY_SECTION_EXPORT (enc_export m) (exports m))
    (vec_section_events WASM_BINARY_SECTION_EXPORT
        (\<lambda>sz. Export_event (Begin_export_section sz)) (\<lambda>n. Export_event (On_export_count n))
        (Export_event End_export_section) (export_events m) (enc_export m) (exports m)) (counts_ok m (Suc 7))"
proof (rule secs_vec [where F = "c_num_exports_update (\<lambda>_. u32_of_nat (length (exports m)))"])
  fix c sz
  assume "counts_ok m 7 c"
  then have c: "counts_ok m 7 (c_num_exports_update (\<lambda>_. u32_of_nat (length (exports m))) c)"
    by (simp add: counts_step)
  show "reads opts c (read_section_body 7 sz :: ('u, unit) reading) (enc_vec (enc_export m) (exports m))
      (vec_body_events (Export_event (Begin_export_section sz)) (\<lambda>n. Export_event (On_export_count n)) (Export_event End_export_section)
        (export_events m) (exports m)) () (c_num_exports_update (\<lambda>_. u32_of_nat (length (exports m))) c)"
    unfolding section_body_cases read_export_section_def export_callback_def
    using assms
    by (intro reads_vec_body reads_rfor_same reads_export)
      (auto simp: wf_items_def wf_sizes_def list_all_iff export_bound_limit [OF c _ assms(1)])
qed (auto simp: counts_step)

lemma secs_start:
  assumes "wf_sizes m" "wf_items m"
  shows "secs TYPE('u) opts (counts_ok m 8) (enc_start_section wopts m) (start_section_events m) (counts_ok m (Suc 8))"
proof -
  have skip: "secs TYPE('u) opts (counts_ok m 8) [] [] (counts_ok m (Suc 8))"
    by (rule secs_empty) (auto simp: counts_step)
  show ?thesis
  proof (cases "start m")
    case None
    then show ?thesis using skip by (simp add: enc_start_section_def start_section_events_def)
  next
    case (Some var)
    let ?i = "wasm_get_func_index_by_var m var"
    let ?sz = "u32_of_nat (length (enc_index ?i))"
    show ?thesis
    proof (cases "?i = - 1")
      case True
      then show ?thesis using skip by (simp add: Some enc_start_section_def start_section_events_def Let_def)
    next
      case False
      with Some assms(2) have lt: "word_of_int ?i < total_funcs m" by (simp add: wf_items_def)
      have "secs TYPE('u) opts (counts_ok m 8) (enc_section wopts WASM_BINARY_SECTION_START (enc_index ?i))
          (Begin_section WASM_BINARY_SECTION_START ?sz
            # [Start_event (Begin_start_section ?sz), Start_event (On_start_function (word_of_int ?i)), Start_event End_start_section])
          (counts_ok m (Suc 8))"
      proof (rule secs_section [OF _ counts_okD], simp, assumption, intro exI conjI reads_to_endI)
        fix c assume c: "counts_ok m 8 c"
        have lt': "word_of_int ?i < num_total_funcs c" using lt counts_totals(1) [OF c _ assms(1)] by simp
        have "reads opts c (read_start_section ?sz :: ('u, unit) reading) (enc_index ?i @ [])
            [Start_event (Begin_start_section ?sz), Start_event (On_start_function (word_of_int ?i)), Start_event End_start_section] () c"
          unfolding read_start_section_def
          by (rule reads_callback, rule reads_rbind_silent [OF reads_index], rule reads_get_counts, rule reads_rseq_guard [OF lt'],
              intro reads_rseq_callback reads_calls_Nil)
        then show "reads opts c (read_section_body WASM_BINARY_SECTION_START ?sz :: ('u, unit) reading) (enc_index ?i)
            [Start_event (Begin_start_section ?sz), Start_event (On_start_function (word_of_int ?i)), Start_event End_start_section] () c"
          by (simp add: section_body_cases)
        show "counts_ok m (Suc 8) (after_section WASM_BINARY_SECTION_START c)" using c by (auto simp: counts_step)
      qed
      with False show ?thesis by (simp add: Some enc_start_section_def start_section_events_def Let_def)
    qed
  qed
qed

lemma u32_of_nat_pos: "0 < n \<Longrightarrow> n < 2 ^ 32 \<Longrightarrow> 0 < u32_of_nat n"
  using unat_u32_of_nat [of n] unsigned_0 [where ?'a = nat and ?'b = 32] by (metis neq0_conv word_gt_0)

lemma secs_elems:
  assumes "wf_sizes m" "wf_items m"
  shows "secs TYPE('u) opts (counts_ok m 9) (enc_vec_section wopts WASM_BINARY_SECTION_ELEM (enc_elem_segment m) (elem_segments m))
    (vec_section_events WASM_BINARY_SECTION_ELEM
        (\<lambda>sz. Elem_event (Begin_elem_section sz)) (\<lambda>n. Elem_event (On_elem_segment_count n))
        (Elem_event End_elem_section) (elem_events m) (enc_elem_segment m) (elem_segments m)) (counts_ok m (Suc 9))"
proof (rule secs_vec [where F = "\<lambda>c. c"])
  fix c sz
  assume ne: "elem_segments m \<noteq> []" and c: "counts_ok m 9 c"
  have tabs: "0 < num_total_tables c"
    using counts_totals(2) [OF c _ assms(1)] ne assms(1) by (simp add: u32_of_nat_pos wf_sizes_def)
  show "reads opts c (read_section_body 9 sz :: ('u, unit) reading) (enc_vec (enc_elem_segment m) (elem_segments m))
      (vec_body_events (Elem_event (Begin_elem_section sz)) (\<lambda>n. Elem_event (On_elem_segment_count n)) (Elem_event End_elem_section)
        (elem_events m) (elem_segments m)) () c"
    unfolding section_body_cases read_elem_section_def elem_callback_def
    using assms tabs
    by (intro reads_vec_body_checked [where ok = "\<lambda>n c. n = 0 \<or> 0 < num_total_tables c"] reads_rfor_same reads_elem_segment)
      (auto simp: wf_items_def wf_sizes_def list_all_iff)
qed (auto simp: counts_step)

lemma secs_data:
  assumes "wf_sizes m" "wf_items m"
  shows "secs TYPE('u) opts (counts_ok m 11) (enc_vec_section wopts WASM_BINARY_SECTION_DATA (enc_data_segment m) (data_segments m))
    (vec_section_events WASM_BINARY_SECTION_DATA
        (\<lambda>sz. Data_event (Begin_data_section sz)) (\<lambda>n. Data_event (On_data_segment_count n))
        (Data_event End_data_section) (data_events m) (enc_data_segment m) (data_segments m)) (counts_ok m (Suc 11))"
proof (rule secs_vec [where F = "\<lambda>c. c"])
  fix c sz
  assume ne: "data_segments m \<noteq> []" and c: "counts_ok m 11 c"
  have mems: "0 < num_total_memories c"
    using counts_totals(3) [OF c _ assms(1)] ne assms(1) by (simp add: u32_of_nat_pos wf_sizes_def)
  show "reads opts c (read_section_body 11 sz :: ('u, unit) reading) (enc_vec (enc_data_segment m) (data_segments m))
      (vec_body_events (Data_event (Begin_data_section sz)) (\<lambda>n. Data_event (On_data_segment_count n)) (Data_event End_data_section)
        (data_events m) (data_segments m)) () c"
    unfolding section_body_cases read_data_section_def data_callback_def
    using assms mems
    by (intro reads_vec_body_checked [where ok = "\<lambda>n c. n = 0 \<or> 0 < num_total_memories c"] reads_rfor_same reads_data_segment)
      (auto simp: wf_items_def wf_sizes_def list_all_iff)
qed (auto simp: counts_step)

lemma secs_code:
  assumes "wf_sizes m" "wf_items m"
  shows "secs TYPE('u) opts (counts_ok m 10) (enc_vec_section wopts WASM_BINARY_SECTION_CODE
      (\<lambda>func. enc_sized wopts (enc_func m func)) (defined_funcs m))
    (vec_section_events WASM_BINARY_SECTION_CODE
        (\<lambda>sz. Code_event (Begin_function_bodies_section sz)) (\<lambda>n. Code_event (On_function_bodies_count n))
        (Code_event End_function_bodies_section) (function_events m) (\<lambda>func. enc_sized wopts (enc_func m func)) (defined_funcs m))
    (counts_ok m (Suc 10))"
proof (rule secs_vec [where F = "c_num_function_bodies_update (\<lambda>_. u32_of_nat (length (defined_funcs m)))"])
  fix c sz
  assume "counts_ok m 10 c"
  let ?n = "u32_of_nat (length (defined_funcs m))"
  let ?c = "c_num_function_bodies_update (\<lambda>_. ?n) c"
  have c: "counts_ok m 10 ?c" using \<open>counts_ok m 10 c\<close> by (simp add: counts_step)
  have "6 < (10 :: nat)" by simp
  note tot = counts_totals [OF c this assms(1)]
  have loop: "reads opts ?c (rfor 0 (unat ?n) read_function :: ('u, unit) reading)
      (concat (map (\<lambda>func. enc_sized wopts (enc_func m func)) (defined_funcs m)))
      (for_events (function_events m) (defined_funcs m)) () ?c"
  proof (rule reads_rfor_same [OF reads_function])
    show "wf_func (num_total_funcs ?c) (c_num_signatures ?c) m x" if "x \<in> set (defined_funcs m)" for x
      unfolding tot(1) tot(5) using that assms(2) by (simp add: wf_items_def list_all_iff)
    show "length (defined_funcs m) < 2 ^ 32" using assms(1) by (auto simp: wf_sizes_def defined_funcs_def)
  qed
  have "reads opts c (read_code_section sz :: ('u, unit) reading)
      (enc_nat (length (defined_funcs m)) @ concat (map (\<lambda>func. enc_sized wopts (enc_func m func)) (defined_funcs m)) @ [])
      (vec_body_events (Code_event (Begin_function_bodies_section sz)) (\<lambda>n. Code_event (On_function_bodies_count n))
        (Code_event End_function_bodies_section) (function_events m) (defined_funcs m)) () ?c"
    unfolding read_code_section_def code_callback_def
    by (rule reads_callback, rule reads_rbind_silent [OF reads_nat], rule reads_update_counts, rule reads_get_counts,
        rule reads_rseq_guard [OF tot(6)], rule reads_rseq_callback, rule reads_rseq_Cons [OF loop],
        intro reads_rseq_callback reads_calls_Nil)
  then show "reads opts c (read_section_body 10 sz :: ('u, unit) reading)
      (enc_vec (\<lambda>func. enc_sized wopts (enc_func m func)) (defined_funcs m))
      (vec_body_events (Code_event (Begin_function_bodies_section sz)) (\<lambda>n. Code_event (On_function_bodies_count n))
        (Code_event End_function_bodies_section) (function_events m) (defined_funcs m)) () ?c"
    by (simp add: section_body_cases enc_vec_def)
qed (auto simp: counts_step)

subsection \<open>The name section\<close>

lemma reads_names:
  assumes "list_all wf_names (funcs m)" "length (funcs m) < 2 ^ 32" "num_total_funcs c = total_funcs m"
  shows "reads opts c (read_names sz) (enc_vec enc_func_names (funcs m))
    ([Names_event (Begin_names_section sz), Names_event (On_function_names_count (u32_of_nat (length (funcs m))))]
      @ for_events func_names_events (funcs m) @ [Names_event End_names_section]) () c"
proof -
  have loop: "reads opts c (rfor 0 (unat (u32_of_nat (length (funcs m)))) read_function_names)
      (concat (map enc_func_names (funcs m))) (for_events func_names_events (funcs m)) () c"
    using assms(1,2) by (intro reads_rfor_same reads_function_names) (auto simp: list_all_iff)
  have le: "u32_of_nat (length (funcs m)) \<le> num_total_funcs c" by (simp add: assms(3) total_funcs_def)
  have "reads opts c (read_names sz) (enc_nat (length (funcs m)) @ concat (map enc_func_names (funcs m)) @ [])
    (Names_event (Begin_names_section sz) # Names_event (On_function_names_count (u32_of_nat (length (funcs m))))
      # for_events func_names_events (funcs m) @ [Names_event End_names_section]) () c"
    unfolding read_names_def names_callback_def
    by (rule reads_callback, rule reads_rbind_silent [OF reads_nat], rule reads_get_counts, rule reads_rseq_guard [OF le],
        rule reads_rseq_callback, rule reads_rseq_Cons [OF loop], intro reads_rseq_callback reads_calls_Nil)
  then show ?thesis by (simp add: enc_vec_def)
qed

lemma reads_custom_name:
  assumes wf: "list_all wf_names (funcs m)" "length (funcs m) < 2 ^ 32" and tot: "num_total_funcs c = total_funcs m"
    and seen: "2 \<le> last_known_section_code c"
  shows "reads_to_end opts c (read_custom_section sz) (names_payload m)
    (Begin_custom_section sz (Some (cstr ''name''))
     # (if read_debug_names opts
        then [Names_event (Begin_names_section sz), Names_event (On_function_names_count (u32_of_nat (length (funcs m))))]
             @ for_events func_names_events (funcs m) @ [Names_event End_names_section]
        else [])
     @ [End_custom_section]) () c"
proof -
  have len: "length (slice_bytes (Some (cstr ''name''))) < 2 ^ 32" by (simp add: slice_bytes_def cstr_def)
  have name: "slice_bytes (Some (cstr ''name'')) = cstr ''name''" by (simp add: slice_bytes_def)
  have eq: "strncmp_eq (cstr ''name'') (cstr ''name'' @ [0])" by (simp add: cstr_def)
  note str = reads_str [OF len, unfolded name]
  have tail: "reads_to_end opts c (rseq [if read_debug_names opts \<and> WASM_BINARY_SECTION_IMPORT \<le> last_known_section_code c
                 \<and> strncmp_eq (slice_bytes (Some (cstr ''name''))) (cstr ''name'' @ [0])
              then read_names sz else skip_to_read_end, callback_ctx End_custom_section]) (enc_vec enc_func_names (funcs m))
     ((if read_debug_names opts
        then [Names_event (Begin_names_section sz), Names_event (On_function_names_count (u32_of_nat (length (funcs m))))]
             @ for_events func_names_events (funcs m) @ [Names_event End_names_section]
        else []) @ [End_custom_section]) () c"
  proof (cases "read_debug_names opts")
    case True
    have "reads opts c (rseq [read_names sz, callback_ctx End_custom_section]) (enc_vec enc_func_names (funcs m) @ [])
        (([Names_event (Begin_names_section sz), Names_event (On_function_names_count (u32_of_nat (length (funcs m))))]
             @ for_events func_names_events (funcs m) @ [Names_event End_names_section]) @ [End_custom_section]) () c"
      by (rule reads_rseq_Cons [OF reads_names [OF wf tot]]) (intro reads_rseq_callback reads_calls_Nil)
    with True show ?thesis using seen by (simp add: name eq del: rseq.simps) (rule reads_to_endI)
  next
    case False
    then show ?thesis by (simp add: reads_to_end_skip del: rseq.simps)
  qed
  show ?thesis
    unfolding read_custom_section_def names_payload_def
    by (rule reads_to_end_silent [OF str], rule reads_to_end_callback, rule reads_to_end_get, rule reads_to_end_get, rule tail)
qed

lemma secs_names:
  assumes sizes: "wf_sizes m" and names: "wf_debug_names wopts m"
  shows "secs TYPE('u) ropts (counts_ok m 12) (enc_names_section wopts m) (names_section_events wopts ropts m) (\<lambda>_. True)"
proof (cases "write_debug_names wopts")
  case False
  then show ?thesis by (simp add: enc_names_section_def names_section_events_def secs_empty)
next
  case True
  with names have wf: "funcs m \<noteq> []" "list_all wf_names (funcs m)" by (simp_all add: wf_debug_names_def)
  have some: "imports_vec m \<noteq> [] \<or> defined_funcs m \<noteq> []"
    using wf(1) sizes by (auto simp: wf_sizes_def imports_of_def defined_funcs_def)
  let ?sz = "u32_of_nat (length (names_payload m))"
  have "secs TYPE('u) ropts (counts_ok m 12) (enc_section wopts 0 (names_payload m))
      (Begin_section 0 ?sz # Begin_custom_section ?sz (Some (cstr ''name''))
       # (if read_debug_names ropts
          then [Names_event (Begin_names_section ?sz), Names_event (On_function_names_count (u32_of_nat (length (funcs m))))]
               @ for_events func_names_events (funcs m) @ [Names_event End_names_section]
          else []) @ [End_custom_section]) (\<lambda>_. True)"
  proof (rule secs_section, simp, simp add: order_ok_def, intro exI conjI TrueI)
    fix c assume c: "counts_ok m 12 c"
    have six: "6 < (12 :: nat)" by simp
    show "reads_to_end ropts c (read_section_body 0 ?sz :: ('u, unit) reading) (names_payload m)
      (Begin_custom_section ?sz (Some (cstr ''name''))
       # (if read_debug_names ropts
          then [Names_event (Begin_names_section ?sz), Names_event (On_function_names_count (u32_of_nat (length (funcs m))))]
               @ for_events func_names_events (funcs m) @ [Names_event End_names_section]
          else []) @ [End_custom_section]) () c"
      unfolding section_body_cases
      by (rule reads_custom_name [OF wf(2) _ counts_totals(1) [OF c six sizes]])
        (use some c sizes in \<open>auto simp: counts_ok_def wf_sizes_def\<close>)
  qed
  moreover have "enc_names_section wopts m = enc_section wopts 0 (names_payload m)"
    using True by (simp add: enc_names_section_def names_payload_def)
  moreover have "names_section_events wopts ropts m = Begin_section 0 ?sz # Begin_custom_section ?sz (Some (cstr ''name''))
       # (if read_debug_names ropts
          then [Names_event (Begin_names_section ?sz), Names_event (On_function_names_count (u32_of_nat (length (funcs m))))]
               @ for_events func_names_events (funcs m) @ [Names_event End_names_section]
          else []) @ [End_custom_section]"
    using True by (simp add: names_section_events_def Let_def)
  ultimately show ?thesis by simp
qed

subsection \<open>The module\<close>

lemma secs_module:
  assumes "wf_module wopts m"
  shows "secs TYPE('u) ropts (counts_ok m 1) (concat (enc_sections wopts m)) (concat (section_events wopts ropts m)) (\<lambda>_. True)"
proof -
  have wf: "wf_sizes m" "wf_items m" "wf_debug_names wopts m" using assms by (simp_all add: wf_module_def)
  have k: "Suc 1 = 2" "Suc 2 = 3" "Suc 3 = 4" "Suc 4 = 5" "Suc 5 = 6" "Suc 6 = 7" "Suc 7 = 8" "Suc 8 = 9" "Suc 9 = 10"
    "Suc 10 = 11" "Suc 11 = 12" by simp_all
  show ?thesis
    unfolding enc_sections_def section_events_def concat.simps append_Nil2
    by (rule secs_append [OF secs_types [OF wf(1,2), unfolded k]],
        rule secs_append [OF secs_imports [OF wf(1,2), unfolded k]],
        rule secs_append [OF secs_functions [OF wf(1,2), unfolded k]],
        rule secs_append [OF secs_tables [OF wf(1,2), unfolded k]],
        rule secs_append [OF secs_memories [OF wf(1,2), unfolded k]],
        rule secs_append [OF secs_globals [OF wf(1,2), unfolded k]],
        rule secs_append [OF secs_exports [OF wf(1,2), unfolded k]],
        rule secs_append [OF secs_start [OF wf(1,2), unfolded k]],
        rule secs_append [OF secs_elems [OF wf(1,2), unfolded k]],
        rule secs_append [OF secs_code [OF wf(1,2), unfolded k]],
        rule secs_append [OF secs_data [OF wf(1,2), unfolded k]],
        rule secs_names [OF wf(1,3)])
qed

text \<open>A reader object whose members ignore the position.\<close>

definition plain_reader ::
    "(WasmBinaryReaderContext \<Rightarrow> string \<Rightarrow> ErrorArg list \<Rightarrow> 'u \<Rightarrow> 'u) \<Rightarrow> (WasmReaderEvent \<Rightarrow> 'u \<Rightarrow> WasmResult \<times> 'u)
     \<Rightarrow> 'u WasmBinaryReader" where
  "plain_reader oe g = \<lparr>on_error = oe, reader_member = (\<lambda>ev _. g ev)\<rparr>"

lemma counts_ok_init: "counts_ok m 1 init_counts"
  by (simp add: counts_ok_def init_counts_def order_ok_def)

lemma read_sections_module:
  fixes ctx :: "'u Context"
  assumes "wf_module wopts m" "at_sections g ropts init_counts (concat (enc_sections wopts m)) ctx"
    and "feed g (concat (section_events wopts ropts m)) (c_user_data ctx) = Some u"
  obtains ctx' where "read_sections ctx = Inr ((), ctx')" "c_user_data ctx' = u"
    "reader_member (c_reader ctx') = (\<lambda>ev _. g ev)"
proof -
  have "secs TYPE('u) ropts (counts_ok m 1) (concat (enc_sections wopts m)) (concat (section_events wopts ropts m)) (\<lambda>_. True)"
    by (rule secs_module [OF assms(1)])
  with assms(2,3) counts_ok_init obtain ctx' c' where "read_sections ctx = read_sections ctx'"
    "at_sections g ropts c' [] ctx'" "c_user_data ctx' = u"
    unfolding secs_def by (metis append_Nil2)
  with that show ?thesis by (auto simp: read_sections.simps [of ctx'] at_sections_def)
qed

theorem read_module_events:
  assumes wf: "wf_module wopts m" and len: "length (enc_module wopts m) < 2 ^ 32"
    and f: "feed g (module_events wopts ropts m) u = Some u'"
  shows "wasm_read_binary (enc_module wopts m) (plain_reader oe g) ropts u = (WASM_OK, u')"
proof -
  let ?ctx = "init_context (enc_module wopts m) (plain_reader oe g) ropts u"
  let ?secs = "concat (enc_sections wopts m)" and ?evs = "concat (section_events wopts ropts m)"
  have f: "feed g ([Begin_module WASM_BINARY_VERSION] @ ?evs @ [End_module]) u = Some u'"
    using f by (simp add: module_events_def)
  obtain u1 u2 where f1: "feed g [Begin_module WASM_BINARY_VERSION] u = Some u1" and f2: "feed g ?evs u1 = Some u2"
    and f3: "feed g [End_module] u2 = Some u'"
    using f by (metis feed_append_SomeE)
  have rd: "ready g ropts init_counts ?ctx"
    using len by (simp add: ready_def init_context_def plain_reader_def wf_ctx_def)
  have w: "window ?ctx = (le_bytes 4 WASM_BINARY_MAGIC @ le_bytes 4 WASM_BINARY_VERSION) @ ?secs"
    by (simp add: window_def init_context_def enc_module_def)
  let ?ctx1 = "advance 8 u1 init_counts ?ctx"
  have head: "reads ropts init_counts read_header
     (le_bytes 4 WASM_BINARY_MAGIC @ le_bytes 4 WASM_BINARY_VERSION @ []) [Begin_module WASM_BINARY_VERSION] () init_counts"
    unfolding read_header_def
    by (rule reads_rbind_silent [OF reads_le_bytes(1)], rule reads_guard [OF refl], rule reads_rbind_silent [OF reads_le_bytes(1)],
        rule reads_rseq_guard [OF refl], intro reads_rseq_callback reads_calls_Nil)
  have "read_header ?ctx = Inr ((), ?ctx1)"
    using readsD [OF head rd, of ?secs u1] w f1 by (simp add: init_context_def)
  then have "read_module ?ctx = rthen read_sections (callback End_module) ?ctx1"
    by (simp add: read_module_def rbind_def [of read_header])
  moreover have "at_sections g ropts init_counts ?secs ?ctx1"
    using len by (simp add: at_sections_def advance_def init_context_def plain_reader_def enc_module_def)
  then obtain ctx2 where ctx2: "read_sections ?ctx1 = Inr ((), ctx2)" "c_user_data ctx2 = u2"
    "reader_member (c_reader ctx2) = (\<lambda>ev _. g ev)"
    by (rule read_sections_module [OF wf]) (use f2 in simp_all)
  moreover have "callback End_module ctx2 = Inr ((), ctx2\<lparr>c_user_data := u'\<rparr>)"
    using f3 ctx2 by (auto simp: callback_def call_member_def rret_def split: prod.splits WasmResult.splits)
  ultimately show ?thesis by (simp add: wasm_read_binary_def rbind_def)
qed

end
