(* ===== verification/Wabt_Sample.thy ===== *)
theory Wabt_Sample
  imports Wabt_Writer_Correct Wabt_Round_Trip
begin

text \<open>
  A small module on which the theorems about whole modules are evaluated: one signature, one
  exported function with three locals and a block, one memory and one data segment.
\<close>

definition sample_func :: WasmFunc where
  "sample_func = \<lparr>func_name = Some (cstr ''f''),
     func_decl = \<lparr>has_func_type = True, type_var = VarIndex 0,
       decl_sig = \<lparr>param_types = [WASM_TYPE_I32], result_types = [WASM_TYPE_I32]\<rparr>\<rparr>,
     local_types = [WASM_TYPE_I64, WASM_TYPE_I64, WASM_TYPE_F32],
     param_bindings = empty_hash, local_bindings = empty_hash,
     first_expr = [Block None [WASM_TYPE_I32]
       [GetLocal (VarIndex 0), Const (ConstI32 300), Binary WASM_OPCODE_I32_ADD]]\<rparr>"

definition sample_module :: WasmModule where
  "sample_module = \<lparr>num_func_imports = 0, num_table_imports = 0, num_memory_imports = 0, num_global_imports = 0,
    funcs = [sample_func], globals = [], imports_vec = [],
    exports = [\<lparr>export_name = Some (cstr ''f''), export_kind = WASM_EXTERNAL_KIND_FUNC, export_var = VarIndex 0\<rparr>],
    func_types = [\<lparr>ft_name = None, ft_sig = \<lparr>param_types = [WASM_TYPE_I32], result_types = [WASM_TYPE_I32]\<rparr>\<rparr>],
    tables = [], elem_segments = [],
    memories = [\<lparr>memory_name = None, page_limits = \<lparr>limits_initial = 1, limits_max = 2, limits_has_max = True\<rparr>\<rparr>],
    data_segments = [\<lparr>data_memory_var = VarIndex 0, data_offset = [Const (ConstI32 8)], data_bytes = [1, 2, 3]\<rparr>],
    start = None,
    func_bindings = empty_hash, global_bindings = empty_hash, export_bindings = empty_hash,
    func_type_bindings = empty_hash, table_bindings = empty_hash, memory_bindings = empty_hash\<rparr>"

definition sample_write_options :: WasmWriteBinaryOptions where
  "sample_write_options = \<lparr>canonicalize_lebs = True, write_debug_names = True\<rparr>"

lemma sample_module_wf: "wf_module sample_write_options sample_module"
  by (simp add: wf_module_def wf_sizes_def wf_items_def wf_debug_names_def sample_module_def sample_func_def
      sample_write_options_def imports_of_def defined_tables_def defined_memories_def defined_funcs_def
      defined_globals_def wf_func_type_def wf_func_def wf_locals_def is_concrete_type_def wf_limits_def
      WASM_MAX_PAGES_def str_ok_def cstr_def export_index_def export_bound_def wf_data_def wf_names_def
      total_funcs_def total_sigs_def wf_sig_def binary_opcodes_def slice_bytes_def func_local_names_def
      wasm_make_type_binding_reverse_mapping_def empty_hash_def wasm_get_num_params_def wasm_get_num_params_and_locals_def
      wasm_get_func_index_by_var_def wasm_get_func_type_index_by_decl_def wasm_get_func_type_index_by_var_def)

lemma length_sample_module: "length (enc_module sample_write_options sample_module) = 78"
  by code_simp

end
