(* ===== verification/Wabt_Reader_Ast.thy ===== *)
theory Wabt_Reader_Ast
  imports Wabt_Binary_Reader Wabt_Ast
begin

text \<open>
  The reader object that builds a module (\<^verbatim>\<open>binary-reader-ast.c\<close>). Its state is the module
  under construction with a stack of open labels, each of which points into the expression tree.

  A pointer \<open>WasmExpr**\<close> to the head of an expression list is a path: the function, then for
  every level the position of the enclosing expression and the list inside it. Lists only grow at
  their end, so a path stays valid, and \<open>label->last\<close> is always the last expression of the list
  that \<open>label->first\<close> points to. A pointer into an expression that was freed is \<open>Freed\<close>.

  What C leaves undefined (a failed assertion, an index out of range, a write through a NULL or
  dangling pointer, a shift by the width or more) sets the flag \<open>ac_undefined\<close>; a theorem that
  the flag stays down is a theorem that none of this happens. Allocation, and the assertions on
  the capacity of vectors that were just reserved, are left out.
\<close>

subsection \<open>State\<close>

datatype LabelType = LABEL_TYPE_FUNC | LABEL_TYPE_BLOCK | LABEL_TYPE_LOOP | LABEL_TYPE_IF | LABEL_TYPE_ELSE

text \<open>\<open>block.first\<close> and \<open>loop.first\<close>; \<open>if_.true_.first\<close>; \<open>if_.false_\<close>.\<close>

datatype Branch = InBlock | InTrue | InFalse

datatype ExprSlot = Slot nat "(nat \<times> Branch) list" | Freed

record LabelNode =
  label_type :: LabelType
  label_first :: ExprSlot

text \<open>\<open>current_init_expr\<close>: the initializer of a global, or the offset of a segment.\<close>

datatype InitSlot = GlobalInit nat | ElemOffset nat | DataOffset nat

text \<open>
  \<open>ac_label_stack\<close> has the top of the stack at its head. \<open>ac_errors\<close> are the calls of the error
  handler; \<open>ac_junk\<close> is what freshly allocated hash entries hold.
\<close>

record AstContext =
  ac_module :: WasmModule
  ac_fields :: "WasmModuleField list"
  ac_current_func :: "nat option"
  ac_label_stack :: "LabelNode list"
  ac_max_depth :: u32
  ac_current_init_expr :: "InitSlot option"
  ac_errors :: "(u32 \<times> string \<times> ErrorArg list) list"
  ac_junk :: WasmBindingHashEntry
  ac_undefined :: bool

type_synonym ast_step = "AstContext \<Rightarrow> WasmResult \<times> AstContext"

definition on_module :: "(WasmModule \<Rightarrow> WasmModule) \<Rightarrow> AstContext \<Rightarrow> AstContext" where
  "on_module f ctx = ctx\<lparr>ac_module := f (ac_module ctx)\<rparr>"

definition ast_assert :: "bool \<Rightarrow> AstContext \<Rightarrow> AstContext" where
  "ast_assert cond ctx = (if cond then ctx else ctx\<lparr>ac_undefined := True\<rparr>)"

definition WASM_UNKNOWN_OFFSET :: u32 where "WASM_UNKNOWN_OFFSET = - 1"

definition handle_error :: "u32 \<Rightarrow> string \<Rightarrow> ErrorArg list \<Rightarrow> AstContext \<Rightarrow> AstContext" where
  "handle_error off format args ctx = ctx\<lparr>ac_errors := ac_errors ctx @ [(off, format, args)]\<rparr>"

definition print_error :: "string \<Rightarrow> ErrorArg list \<Rightarrow> AstContext \<Rightarrow> AstContext" where
  "print_error = handle_error WASM_UNKNOWN_OFFSET"

text \<open>\<open>on_error\<close>: the reader's offset is narrowed to 32 bits.\<close>

definition ast_on_error :: "WasmBinaryReaderContext \<Rightarrow> string \<Rightarrow> ErrorArg list \<Rightarrow> AstContext \<Rightarrow> AstContext" where
  "ast_on_error uc = handle_error (u32_of_nat (uc_offset uc))"

definition wasm_append_module_field :: "WasmModuleField \<Rightarrow> AstContext \<Rightarrow> AstContext" where
  "wasm_append_module_field field ctx = ctx\<lparr>ac_fields := ac_fields ctx @ [field]\<rparr>"

text \<open>
  \<open>wasm_strndup\<close> copies up to the first NUL byte, but \<open>wasm_dup_string_slice\<close> keeps the length:
  the copy of a slice with a NUL in it claims more bytes than were allocated.
\<close>

definition dup_overruns :: "WasmStringSlice \<Rightarrow> bool" where
  "dup_overruns s \<longleftrightarrow> 0 \<in> set (slice_bytes s)"

definition wasm_dup_string_slice :: "WasmStringSlice \<Rightarrow> WasmStringSlice" where
  "wasm_dup_string_slice s = Some (slice_bytes s)"

definition check_dup :: "WasmStringSlice \<Rightarrow> AstContext \<Rightarrow> AstContext" where
  "check_dup s = ast_assert (\<not> dup_overruns s)"

definition dup_name :: "WasmStringSlice \<Rightarrow> WasmStringSlice" where
  "dup_name name = (if slice_bytes name \<noteq> [] then wasm_dup_string_slice name else None)"

subsection \<open>Expression lists and labels\<close>

fun sub_exprs :: "Branch \<Rightarrow> WasmExpr \<Rightarrow> WasmExpr list" where
  "sub_exprs InBlock (Block label sig es) = es"
| "sub_exprs InBlock (Loop label sig es) = es"
| "sub_exprs InTrue (If label sig ts fs) = ts"
| "sub_exprs InFalse (If label sig ts fs) = fs"
| "sub_exprs _ _ = []"

fun set_sub_exprs :: "Branch \<Rightarrow> WasmExpr list \<Rightarrow> WasmExpr \<Rightarrow> WasmExpr" where
  "set_sub_exprs InBlock es (Block label sig _) = Block label sig es"
| "set_sub_exprs InBlock es (Loop label sig _) = Loop label sig es"
| "set_sub_exprs InTrue es (If label sig _ fs) = If label sig es fs"
| "set_sub_exprs InFalse es (If label sig ts _) = If label sig ts es"
| "set_sub_exprs _ _ e = e"

primrec list_at :: "(nat \<times> Branch) list \<Rightarrow> WasmExpr list \<Rightarrow> WasmExpr list" where
  "list_at [] es = es"
| "list_at (x # path) es = list_at path (sub_exprs (snd x) (es ! fst x))"

primrec set_list_at :: "(nat \<times> Branch) list \<Rightarrow> WasmExpr list \<Rightarrow> WasmExpr list \<Rightarrow> WasmExpr list" where
  "set_list_at [] new es = new"
| "set_list_at (x # path) new es =
     es[fst x := set_sub_exprs (snd x) (set_list_at path new (sub_exprs (snd x) (es ! fst x))) (es ! fst x)]"

definition push_label :: "LabelType \<Rightarrow> ExprSlot \<Rightarrow> AstContext \<Rightarrow> AstContext" where
  "push_label type first ctx =
     ctx\<lparr>ac_max_depth := ac_max_depth ctx + 1,
         ac_label_stack := \<lparr>label_type = type, label_first = first\<rparr> # ac_label_stack ctx\<rparr>"

definition pop_label :: ast_step where
  "pop_label ctx =
     (case ac_label_stack ctx of
        [] \<Rightarrow> (WASM_ERROR, print_error ''popping empty label stack'' [] ctx)
      | _ # rest \<Rightarrow> (WASM_OK, ctx\<lparr>ac_max_depth := ac_max_depth ctx - 1, ac_label_stack := rest\<rparr>))"

text \<open>\<open>get_label_at\<close>: the label at a depth, or the error it printed.\<close>

definition get_label_at :: "nat \<Rightarrow> AstContext \<Rightarrow> AstContext + LabelNode" where
  "get_label_at depth ctx =
     (if depth \<ge> length (ac_label_stack ctx)
      then Inl (print_error ''accessing stack depth: %u >= max: %zd''
                  [ArgInt (int depth), ArgInt (int (length (ac_label_stack ctx)))] ctx)
      else Inr (ac_label_stack ctx ! depth))"

definition top_label :: "AstContext \<Rightarrow> AstContext + LabelNode" where
  "top_label = get_label_at 0"

definition func_body :: "nat \<Rightarrow> AstContext \<Rightarrow> WasmExpr list" where
  "func_body k ctx = first_expr (funcs (ac_module ctx) ! k)"

definition set_func :: "nat \<Rightarrow> (WasmFunc \<Rightarrow> WasmFunc) \<Rightarrow> WasmModule \<Rightarrow> WasmModule" where
  "set_func k f m = m\<lparr>funcs := (funcs m)[k := f (funcs m ! k)]\<rparr>"

text \<open>Appending to the list a slot points to; the position of the new expression.\<close>

definition append_at :: "ExprSlot \<Rightarrow> WasmExpr \<Rightarrow> AstContext \<Rightarrow> AstContext" where
  "append_at slot expr ctx =
     (case slot of
        Freed \<Rightarrow> ast_assert False ctx
      | Slot k path \<Rightarrow>
          on_module (set_func k (first_expr_update
            (\<lambda>es. set_list_at path (list_at path es @ [expr]) es))) ctx)"

definition append_expr :: "WasmExpr \<Rightarrow> ast_step" where
  "append_expr expr ctx =
     (case top_label ctx of
        Inl ctx' \<Rightarrow> (WASM_ERROR, ctx')
      | Inr label \<Rightarrow> (WASM_OK, append_at (label_first label) expr ctx))"

text \<open>
  The slot inside an expression that is about to be appended. If there is no label to append it
  to, \<open>append_expr\<close> frees the expression, and its callers go on with the pointer.
\<close>

definition slot_in_new :: "Branch \<Rightarrow> AstContext \<Rightarrow> ExprSlot" where
  "slot_in_new branch ctx =
     (case top_label ctx of
        Inl _ \<Rightarrow> Freed
      | Inr label \<Rightarrow>
          (case label_first label of
             Freed \<Rightarrow> Freed
           | Slot k path \<Rightarrow> Slot k (path @ [(length (list_at path (func_body k ctx)), branch)])))"

definition open_label :: "LabelType \<Rightarrow> Branch \<Rightarrow> WasmExpr \<Rightarrow> ast_step" where
  "open_label type branch expr ctx =
     (WASM_OK, push_label type (slot_in_new branch ctx) (snd (append_expr expr ctx)))"

fun is_if_expr :: "WasmExpr \<Rightarrow> bool" where
  "is_if_expr (If _ _ _ _) = True"
| "is_if_expr _ = False"

definition on_else_expr :: ast_step where
  "on_else_expr ctx =
     (case top_label ctx of
        Inl ctx' \<Rightarrow> (WASM_ERROR, ctx')
      | Inr label \<Rightarrow>
          if label_type label \<noteq> LABEL_TYPE_IF
          then (WASM_ERROR, print_error ''else expression without matching if'' [] ctx)
          else (case get_label_at 1 ctx of
             Inl ctx' \<Rightarrow> (WASM_ERROR, ctx')
           | Inr parent \<Rightarrow>
               (case label_first parent of
                  Freed \<Rightarrow> (WASM_OK, ast_assert False ctx)
                | Slot k path \<Rightarrow>
                    (let es = list_at path (func_body k ctx)
                     in (WASM_OK, (ast_assert (es \<noteq> [] \<and> is_if_expr (last es)) ctx)
                            \<lparr>ac_label_stack :=
                               \<lparr>label_type = LABEL_TYPE_ELSE,
                                label_first = Slot k (path @ [(length es - 1, InFalse)])\<rparr> # tl (ac_label_stack ctx)\<rparr>)))))"

definition index_var :: "u32 \<Rightarrow> WasmVar" where
  "index_var i = VarIndex (ucast i)"

definition shift_align :: "u32 \<Rightarrow> u32" where
  "shift_align alignment_log2 = push_bit (unat alignment_log2) 1"

subsection \<open>Callbacks of function bodies\<close>

definition on_binary_expr :: "WasmOpcode \<Rightarrow> ast_step" where
  "on_binary_expr opcode = append_expr (Binary opcode)"

definition on_block_expr :: "WasmType list \<Rightarrow> ast_step" where
  "on_block_expr sig = open_label LABEL_TYPE_BLOCK InBlock (Block None sig [])"

definition on_br_expr :: "u32 \<Rightarrow> ast_step" where
  "on_br_expr depth = append_expr (Br (index_var depth))"

definition on_br_if_expr :: "u32 \<Rightarrow> ast_step" where
  "on_br_if_expr depth = append_expr (BrIf (index_var depth))"

definition on_br_table_expr :: "u32 list \<Rightarrow> u32 \<Rightarrow> ast_step" where
  "on_br_table_expr target_depths default_target_depth = append_expr (BrTable (map index_var target_depths) (index_var default_target_depth))"

definition on_call_expr :: "u32 \<Rightarrow> ast_step" where
  "on_call_expr func_index ctx = 
     append_expr (Call (index_var func_index))
       (ast_assert (unat func_index < length (funcs (ac_module ctx))) ctx)"

definition on_call_indirect_expr :: "u32 \<Rightarrow> ast_step" where
  "on_call_indirect_expr sig_index ctx = 
     append_expr (CallIndirect (index_var sig_index))
       (ast_assert (unat sig_index < length (func_types (ac_module ctx))) ctx)"

definition on_compare_expr :: "WasmOpcode \<Rightarrow> ast_step" where
  "on_compare_expr opcode = append_expr (Compare opcode)"

definition on_convert_expr :: "WasmOpcode \<Rightarrow> ast_step" where
  "on_convert_expr opcode = append_expr (Convert opcode)"

definition on_current_memory_expr :: "ast_step" where
  "on_current_memory_expr = append_expr CurrentMemory"

definition on_drop_expr :: "ast_step" where
  "on_drop_expr = append_expr Drop"

definition on_end_expr :: "ast_step" where
  "on_end_expr = pop_label"

definition on_f32_const_expr :: "u32 \<Rightarrow> ast_step" where
  "on_f32_const_expr value_bits = append_expr (Const (ConstF32 value_bits))"

definition on_f64_const_expr :: "u64 \<Rightarrow> ast_step" where
  "on_f64_const_expr value_bits = append_expr (Const (ConstF64 value_bits))"

definition on_get_global_expr :: "u32 \<Rightarrow> ast_step" where
  "on_get_global_expr global_index = append_expr (GetGlobal (index_var global_index))"

definition on_get_local_expr :: "u32 \<Rightarrow> ast_step" where
  "on_get_local_expr local_index = append_expr (GetLocal (index_var local_index))"

definition on_grow_memory_expr :: "ast_step" where
  "on_grow_memory_expr = append_expr GrowMemory"

definition on_i32_const_expr :: "u32 \<Rightarrow> ast_step" where
  "on_i32_const_expr v = append_expr (Const (ConstI32 v))"

definition on_i64_const_expr :: "u64 \<Rightarrow> ast_step" where
  "on_i64_const_expr v = append_expr (Const (ConstI64 v))"

definition on_if_expr :: "WasmType list \<Rightarrow> ast_step" where
  "on_if_expr sig = open_label LABEL_TYPE_IF InTrue (If None sig [] [])"

definition on_load_expr :: "WasmOpcode \<Rightarrow> u32 \<Rightarrow> u32 \<Rightarrow> ast_step" where
  "on_load_expr opcode alignment_log2 off ctx = 
     append_expr (Load opcode (shift_align alignment_log2) (ucast off)) (ast_assert (alignment_log2 < 32) ctx)"

definition on_store_expr :: "WasmOpcode \<Rightarrow> u32 \<Rightarrow> u32 \<Rightarrow> ast_step" where
  "on_store_expr opcode alignment_log2 off ctx = 
     append_expr (Store opcode (shift_align alignment_log2) (ucast off)) (ast_assert (alignment_log2 < 32) ctx)"

definition on_loop_expr :: "WasmType list \<Rightarrow> ast_step" where
  "on_loop_expr sig = open_label LABEL_TYPE_LOOP InBlock (Loop None sig [])"

definition on_nop_expr :: "ast_step" where
  "on_nop_expr = append_expr Nop"

definition on_return_expr :: "ast_step" where
  "on_return_expr = append_expr Return"

definition on_select_expr :: "ast_step" where
  "on_select_expr = append_expr Select"

definition on_set_global_expr :: "u32 \<Rightarrow> ast_step" where
  "on_set_global_expr global_index = append_expr (SetGlobal (index_var global_index))"

definition on_set_local_expr :: "u32 \<Rightarrow> ast_step" where
  "on_set_local_expr local_index = append_expr (SetLocal (index_var local_index))"

definition on_tee_local_expr :: "u32 \<Rightarrow> ast_step" where
  "on_tee_local_expr local_index = append_expr (TeeLocal (index_var local_index))"

definition on_unary_expr :: "WasmOpcode \<Rightarrow> ast_step" where
  "on_unary_expr opcode = append_expr (Unary opcode)"

definition on_unreachable_expr :: "ast_step" where
  "on_unreachable_expr = append_expr Unreachable"

primrec expr_callbacks :: "ExprEvent \<Rightarrow> ast_step" where
  "expr_callbacks (On_binary_expr opcode) = on_binary_expr opcode"
| "expr_callbacks (On_block_expr sig) = on_block_expr sig"
| "expr_callbacks (On_br_expr depth) = on_br_expr depth"
| "expr_callbacks (On_br_if_expr depth) = on_br_if_expr depth"
| "expr_callbacks (On_br_table_expr target_depths default_target_depth) = on_br_table_expr target_depths default_target_depth"
| "expr_callbacks (On_call_expr func_index) = on_call_expr func_index"
| "expr_callbacks (On_call_indirect_expr sig_index) = on_call_indirect_expr sig_index"
| "expr_callbacks (On_compare_expr opcode) = on_compare_expr opcode"
| "expr_callbacks (On_convert_expr opcode) = on_convert_expr opcode"
| "expr_callbacks On_drop_expr = on_drop_expr"
| "expr_callbacks On_else_expr = on_else_expr"
| "expr_callbacks On_end_expr = on_end_expr"
| "expr_callbacks (On_f32_const_expr value_bits) = on_f32_const_expr value_bits"
| "expr_callbacks (On_f64_const_expr value_bits) = on_f64_const_expr value_bits"
| "expr_callbacks (On_get_global_expr global_index) = on_get_global_expr global_index"
| "expr_callbacks (On_get_local_expr local_index) = on_get_local_expr local_index"
| "expr_callbacks On_grow_memory_expr = on_grow_memory_expr"
| "expr_callbacks (On_i32_const_expr v) = on_i32_const_expr v"
| "expr_callbacks (On_i64_const_expr v) = on_i64_const_expr v"
| "expr_callbacks (On_if_expr sig) = on_if_expr sig"
| "expr_callbacks (On_load_expr opcode alignment_log2 off) = on_load_expr opcode alignment_log2 off"
| "expr_callbacks (On_loop_expr sig) = on_loop_expr sig"
| "expr_callbacks On_current_memory_expr = on_current_memory_expr"
| "expr_callbacks On_nop_expr = on_nop_expr"
| "expr_callbacks On_return_expr = on_return_expr"
| "expr_callbacks On_select_expr = on_select_expr"
| "expr_callbacks (On_set_global_expr global_index) = on_set_global_expr global_index"
| "expr_callbacks (On_set_local_expr local_index) = on_set_local_expr local_index"
| "expr_callbacks (On_store_expr opcode alignment_log2 off) = on_store_expr opcode alignment_log2 off"
| "expr_callbacks (On_tee_local_expr local_index) = on_tee_local_expr local_index"
| "expr_callbacks (On_unary_expr opcode) = on_unary_expr opcode"
| "expr_callbacks On_unreachable_expr = on_unreachable_expr"

subsection \<open>Callbacks of the sections\<close>

text \<open>Zeroed structures; the zero of an enumeration is its first member.\<close>

definition zero_sig :: WasmFuncSignature where
  "zero_sig = \<lparr>param_types = [], result_types = []\<rparr>"

definition zero_func :: WasmFunc where
  "zero_func = \<lparr>func_name = None,
     func_decl = \<lparr>has_func_type = False, type_var = VarIndex 0, decl_sig = zero_sig\<rparr>,
     local_types = [], param_bindings = empty_hash, local_bindings = empty_hash, first_expr = []\<rparr>"

definition on_signature :: "u32 \<Rightarrow> WasmType list \<Rightarrow> WasmType list \<Rightarrow> ast_step" where
  "on_signature index params results ctx =
     (WASM_OK, on_module (func_types_update (\<lambda>fts. fts @
          [\<lparr>ft_name = None, ft_sig = \<lparr>param_types = params, result_types = results\<rparr>\<rparr>]))
        (wasm_append_module_field (FieldFuncType (length (func_types (ac_module ctx)))) ctx))"

definition on_import :: "u32 \<Rightarrow> WasmStringSlice \<Rightarrow> WasmStringSlice \<Rightarrow> ast_step" where
  "on_import index module_name field_name ctx =
     (WASM_OK, on_module (imports_vec_update (\<lambda>ims. ims @
          [\<lparr>import_module_name = wasm_dup_string_slice module_name,
            import_field_name = wasm_dup_string_slice field_name, import_desc = ImportFunc zero_func\<rparr>]))
        (check_dup field_name (check_dup module_name
          (wasm_append_module_field (FieldImport (length (imports_vec (ac_module ctx)))) ctx))))"

text \<open>
  \<open>assert(index == vector.size - 1)\<close>, which guards every access to an element that was just
  appended, and the update of that element.
\<close>

definition is_last :: "u32 \<Rightarrow> 'a list \<Rightarrow> bool" where
  "is_last index xs \<longleftrightarrow> Suc (unat index) = length xs"

definition set_import :: "u32 \<Rightarrow> WasmImportDesc \<Rightarrow> AstContext \<Rightarrow> AstContext" where
  "set_import index desc ctx =
     on_module (imports_vec_update (\<lambda>ims. ims[unat index := (ims ! unat index)\<lparr>import_desc := desc\<rparr>]))
       (ast_assert (is_last index (imports_vec (ac_module ctx))) ctx)"

text \<open>The declaration of a function that shares a signature of the module.\<close>

definition shared_decl :: "u32 \<Rightarrow> WasmModule \<Rightarrow> WasmFuncDeclaration" where
  "shared_decl sig_index m =
     \<lparr>has_func_type = True, type_var = index_var sig_index, decl_sig = ft_sig (func_types m ! unat sig_index)\<rparr>"

text \<open>
  An imported item is one structure that the vector of imports and the vector of its kind both
  point to; the model has it in both, and the callbacks of the name section, which alone change such
  an item later, change both.
\<close>

definition on_import_func :: "u32 \<Rightarrow> u32 \<Rightarrow> ast_step" where
  "on_import_func index sig_index ctx =
     (let m = ac_module ctx; func = zero_func\<lparr>func_decl := shared_decl sig_index m\<rparr>
      in (WASM_OK, on_module (\<lambda>m. m\<lparr>funcs := funcs m @ [func], num_func_imports := num_func_imports m + 1\<rparr>)
           (set_import index (ImportFunc func)
             (ast_assert (unat sig_index < length (func_types m)) ctx))))"

definition on_import_table :: "u32 \<Rightarrow> WasmType \<Rightarrow> WasmLimits \<Rightarrow> ast_step" where
  "on_import_table index elem_type limits ctx =
     (let table = \<lparr>table_name = None, elem_limits = limits\<rparr>
      in (WASM_OK, on_module (\<lambda>m. m\<lparr>tables := tables m @ [table], num_table_imports := num_table_imports m + 1\<rparr>)
           (set_import index (ImportTable table) ctx)))"

definition on_import_memory :: "u32 \<Rightarrow> WasmLimits \<Rightarrow> ast_step" where
  "on_import_memory index limits ctx =
     (let memory = \<lparr>memory_name = None, page_limits = limits\<rparr>
      in (WASM_OK, on_module (\<lambda>m. m\<lparr>memories := memories m @ [memory], num_memory_imports := num_memory_imports m + 1\<rparr>)
           (set_import index (ImportMemory memory) ctx)))"

definition on_import_global :: "u32 \<Rightarrow> WasmType \<Rightarrow> bool \<Rightarrow> ast_step" where
  "on_import_global index type mutable ctx =
     (let global = \<lparr>global_name = None, global_type = type, global_mutable = mutable, global_init_expr = []\<rparr>
      in (WASM_OK, on_module (\<lambda>m. m\<lparr>globals := globals m @ [global], num_global_imports := num_global_imports m + 1\<rparr>)
           (set_import index (ImportGlobal global) ctx)))"

definition on_function_signature :: "u32 \<Rightarrow> u32 \<Rightarrow> ast_step" where
  "on_function_signature index sig_index ctx =
     (let m = ac_module ctx
      in (WASM_OK, on_module (funcs_update (\<lambda>fs. fs @ [zero_func\<lparr>func_decl := shared_decl sig_index m\<rparr>]))
           (wasm_append_module_field (FieldFunc (length (funcs m)))
             (ast_assert (unat sig_index < length (func_types m)) ctx))))"

definition on_table :: "u32 \<Rightarrow> WasmType \<Rightarrow> WasmLimits \<Rightarrow> ast_step" where
  "on_table index elem_type limits ctx =
     (WASM_OK, on_module (tables_update (\<lambda>ts. ts @ [\<lparr>table_name = None, elem_limits = limits\<rparr>]))
        (wasm_append_module_field (FieldTable (length (tables (ac_module ctx)))) ctx))"

definition on_memory :: "u32 \<Rightarrow> WasmLimits \<Rightarrow> ast_step" where
  "on_memory index limits ctx =
     (WASM_OK, on_module (memories_update (\<lambda>ms. ms @ [\<lparr>memory_name = None, page_limits = limits\<rparr>]))
        (wasm_append_module_field (FieldMemory (length (memories (ac_module ctx)))) ctx))"

definition begin_global :: "u32 \<Rightarrow> WasmType \<Rightarrow> bool \<Rightarrow> ast_step" where
  "begin_global index type mutable ctx =
     (WASM_OK, on_module (globals_update (\<lambda>gs. gs @
          [\<lparr>global_name = None, global_type = type, global_mutable = mutable, global_init_expr = []\<rparr>]))
        (wasm_append_module_field (FieldGlobal (length (globals (ac_module ctx)))) ctx))"

text \<open>\<open>index + num_imports\<close> in \<open>uint32_t\<close>.\<close>

definition past_imports :: "nat \<Rightarrow> u32 \<Rightarrow> u32" where
  "past_imports n index = u32_of_nat n + index"

definition begin_global_init_expr :: "u32 \<Rightarrow> ast_step" where
  "begin_global_init_expr index ctx =
     (let m = ac_module ctx; i = past_imports (num_global_imports m) index
      in (WASM_OK, (ast_assert (is_last i (globals m)) ctx)\<lparr>ac_current_init_expr := Some (GlobalInit (unat i))\<rparr>))"

definition end_global_init_expr :: "u32 \<Rightarrow> ast_step" where
  "end_global_init_expr index ctx = (WASM_OK, ctx\<lparr>ac_current_init_expr := None\<rparr>)"

text \<open>The size of the vector an export of a kind refers to.\<close>

definition kind_size :: "WasmExternalKind \<Rightarrow> WasmModule \<Rightarrow> nat" where
  "kind_size kind m =
     (case kind of
        WASM_EXTERNAL_KIND_FUNC \<Rightarrow> length (funcs m)
      | WASM_EXTERNAL_KIND_TABLE \<Rightarrow> length (tables m)
      | WASM_EXTERNAL_KIND_MEMORY \<Rightarrow> length (memories m)
      | WASM_EXTERNAL_KIND_GLOBAL \<Rightarrow> length (globals m))"

definition on_export :: "u32 \<Rightarrow> WasmExternalKind \<Rightarrow> u32 \<Rightarrow> WasmStringSlice \<Rightarrow> ast_step" where
  "on_export index kind item_index name ctx =
     (let m = ac_module ctx
      in (WASM_OK, on_module (exports_update (\<lambda>es. es @
             [\<lparr>export_name = wasm_dup_string_slice name, export_kind = kind, export_var = index_var item_index\<rparr>]))
           (ast_assert (unat item_index < kind_size kind m)
             (check_dup name (wasm_append_module_field (FieldExport (length (exports m))) ctx)))))"

definition on_start_function :: "u32 \<Rightarrow> ast_step" where
  "on_start_function func_index ctx =
     (WASM_OK, on_module (start_update (\<lambda>_. Some (index_var func_index)))
        (ast_assert (unat func_index < length (funcs (ac_module ctx)))
          (wasm_append_module_field (FieldStart (index_var func_index)) ctx)))"

definition on_function_bodies_count :: "u32 \<Rightarrow> ast_step" where
  "on_function_bodies_count count ctx =
     (let m = ac_module ctx
      in (WASM_OK, ast_assert (unat (past_imports (num_func_imports m) count) = length (funcs m)) ctx))"

text \<open>
  The assertion of \<open>begin_function_body\<close> compares \<open>index\<close> alone; the access it guards adds the
  number of imports.
\<close>

definition begin_function_body :: "u32 \<Rightarrow> ast_step" where
  "begin_function_body index ctx =
     (let m = ac_module ctx; i = unat (past_imports (num_func_imports m) index)
      in (WASM_OK, push_label LABEL_TYPE_FUNC (Slot i [])
           ((ast_assert (unat index < length (funcs m) \<and> i < length (funcs m)) ctx)\<lparr>ac_current_func := Some i\<rparr>)))"

definition on_local_decl :: "u32 \<Rightarrow> u32 \<Rightarrow> WasmType \<Rightarrow> ast_step" where
  "on_local_decl decl_index count type ctx =
     (case ac_current_func ctx of
        None \<Rightarrow> (WASM_OK, ast_assert False ctx)
      | Some i \<Rightarrow> (WASM_OK, on_module (set_func i (local_types_update (\<lambda>ts. ts @ replicate (unat count) type))) ctx))"

definition end_function_body :: "u32 \<Rightarrow> ast_step" where
  "end_function_body index ctx =
     (case pop_label ctx of
        (WASM_ERROR, ctx') \<Rightarrow> (WASM_ERROR, ctx')
      | (WASM_OK, ctx') \<Rightarrow> (WASM_OK, ctx'\<lparr>ac_current_func := None\<rparr>))"

definition begin_elem_segment :: "u32 \<Rightarrow> u32 \<Rightarrow> ast_step" where
  "begin_elem_segment index table_index ctx =
     (let segs = elem_segments (ac_module ctx)
      in (WASM_OK, on_module (elem_segments_update (\<lambda>segs. segs @
             [\<lparr>elem_table_var = index_var table_index, elem_offset = [], elem_vars = []\<rparr>]))
           (ast_assert (unat index = length segs)
             (wasm_append_module_field (FieldElemSegment (length segs)) ctx))))"

definition begin_elem_segment_init_expr :: "u32 \<Rightarrow> ast_step" where
  "begin_elem_segment_init_expr index ctx =
     (WASM_OK, (ast_assert (is_last index (elem_segments (ac_module ctx))) ctx)
        \<lparr>ac_current_init_expr := Some (ElemOffset (unat index))\<rparr>)"

definition end_elem_segment_init_expr :: "u32 \<Rightarrow> ast_step" where
  "end_elem_segment_init_expr index ctx = (WASM_OK, ctx\<lparr>ac_current_init_expr := None\<rparr>)"

definition on_elem_segment_function_index_count :: "u32 \<Rightarrow> u32 \<Rightarrow> ast_step" where
  "on_elem_segment_function_index_count index count ctx =
     (WASM_OK, ast_assert (is_last index (elem_segments (ac_module ctx))) ctx)"

definition on_elem_segment_function_index :: "u32 \<Rightarrow> u32 \<Rightarrow> ast_step" where
  "on_elem_segment_function_index index func_index ctx =
     (WASM_OK, on_module (elem_segments_update (\<lambda>segs. segs[unat index :=
          elem_vars_update (\<lambda>vs. vs @ [index_var func_index]) (segs ! unat index)]))
        (ast_assert (is_last index (elem_segments (ac_module ctx))) ctx))"

definition begin_data_segment :: "u32 \<Rightarrow> u32 \<Rightarrow> ast_step" where
  "begin_data_segment index memory_index ctx =
     (let segs = data_segments (ac_module ctx)
      in (WASM_OK, on_module (data_segments_update (\<lambda>segs. segs @
             [\<lparr>data_memory_var = index_var memory_index, data_offset = [], data_bytes = []\<rparr>]))
           (ast_assert (unat index = length segs)
             (wasm_append_module_field (FieldDataSegment (length segs)) ctx))))"

definition begin_data_segment_init_expr :: "u32 \<Rightarrow> ast_step" where
  "begin_data_segment_init_expr index ctx =
     (WASM_OK, (ast_assert (is_last index (data_segments (ac_module ctx))) ctx)
        \<lparr>ac_current_init_expr := Some (DataOffset (unat index))\<rparr>)"

definition end_data_segment_init_expr :: "u32 \<Rightarrow> ast_step" where
  "end_data_segment_init_expr index ctx = (WASM_OK, ctx\<lparr>ac_current_init_expr := None\<rparr>)"

definition on_data_segment_data :: "u32 \<Rightarrow> byte list \<Rightarrow> ast_step" where
  "on_data_segment_data index data ctx =
     (WASM_OK, on_module (data_segments_update (\<lambda>segs. segs[unat index :=
          (segs ! unat index)\<lparr>data_bytes := data\<rparr>]))
        (ast_assert (is_last index (data_segments (ac_module ctx))) ctx))"

subsection \<open>Callbacks of the name section\<close>

definition on_function_names_count :: "u32 \<Rightarrow> ast_step" where
  "on_function_names_count count ctx =
     (let n = length (funcs (ac_module ctx))
      in if unat count > n
         then (WASM_ERROR, print_error ''expected function name count (%u) <= function count (%zd)''
                 [ArgInt (uint count), ArgInt (int n)] ctx)
         else (WASM_OK, ctx))"

text \<open>\<open>binding = wasm_insert_binding(...); binding->index = index\<close>; \<open>None\<close> if it dereferences NULL.\<close>

definition bind_name :: "WasmBindingHashEntry \<Rightarrow> WasmStringSlice \<Rightarrow> u32 \<Rightarrow> WasmBindingHash \<Rightarrow> WasmBindingHash option" where
  "bind_name junk name index hash =
     (case wasm_insert_binding junk hash name of
        None \<Rightarrow> None
      | Some (hash', entry) \<Rightarrow> Some (set_binding_index hash' entry (sint index)))"

text \<open>The \<open>i\<close>-th function, if imported, is the \<open>i\<close>-th imported function of the imports too.\<close>

fun set_import_func :: "nat \<Rightarrow> (WasmFunc \<Rightarrow> WasmFunc) \<Rightarrow> WasmImport list \<Rightarrow> WasmImport list" where
  "set_import_func i f [] = []"
| "set_import_func i f (im # ims) =
     (case import_desc im of
        ImportFunc func \<Rightarrow>
          (case i of
             0 \<Rightarrow> im\<lparr>import_desc := ImportFunc (f func)\<rparr> # ims
           | Suc j \<Rightarrow> im # set_import_func j f ims)
      | _ \<Rightarrow> im # set_import_func i f ims)"

definition set_shared_func :: "nat \<Rightarrow> (WasmFunc \<Rightarrow> WasmFunc) \<Rightarrow> WasmModule \<Rightarrow> WasmModule" where
  "set_shared_func i f m =
     (set_func i f m)\<lparr>imports_vec := (if i < num_func_imports m then set_import_func i f (imports_vec m) else imports_vec m)\<rparr>"

definition on_function_name :: "u32 \<Rightarrow> WasmStringSlice \<Rightarrow> ast_step" where
  "on_function_name index name ctx =
     (let m = ac_module ctx; new_name = dup_name name
      in case bind_name (ac_junk ctx) new_name index (func_bindings m) of
           None \<Rightarrow> (WASM_OK, ast_assert False ctx)
         | Some hash \<Rightarrow>
             (WASM_OK, on_module (\<lambda>m. set_shared_func (unat index) (func_name_update (\<lambda>_. new_name)) (m\<lparr>func_bindings := hash\<rparr>))
                (ast_assert (unat index < length (funcs m)) (check_dup name ctx))))"

definition on_local_names_count :: "u32 \<Rightarrow> u32 \<Rightarrow> ast_step" where
  "on_local_names_count index count ctx =
     (let m = ac_module ctx; n = u32_of_nat (wasm_get_num_params_and_locals (funcs m ! unat index));
          ctx' = ast_assert (unat index < length (funcs m)) ctx
      in if count > n
         then (WASM_ERROR, print_error ''expected local name count (%d) <= local count (%d)''
                 [ArgInt (sint count), ArgInt (sint n)] ctx')
         else (WASM_OK, ctx'))"

definition on_local_name :: "u32 \<Rightarrow> u32 \<Rightarrow> WasmStringSlice \<Rightarrow> ast_step" where
  "on_local_name func_index loc_index name ctx =
     (let m = ac_module ctx; func = funcs m ! unat func_index;
          num_params = u32_of_nat (wasm_get_num_params func); new_name = dup_name name;
          ctx' = ast_assert (unat func_index < length (funcs m)) (check_dup name ctx)
      in if loc_index < num_params
         then (case bind_name (ac_junk ctx) new_name loc_index (param_bindings func) of
                 None \<Rightarrow> (WASM_OK, ast_assert False ctx')
               | Some hash \<Rightarrow>
                   (WASM_OK, on_module (set_shared_func (unat func_index) (param_bindings_update (\<lambda>_. hash))) ctx'))
         else (case bind_name (ac_junk ctx) new_name (loc_index - num_params) (local_bindings func) of
                 None \<Rightarrow> (WASM_OK, ast_assert False ctx')
               | Some hash \<Rightarrow>
                   (WASM_OK, on_module (set_shared_func (unat func_index) (local_bindings_update (\<lambda>_. hash))) ctx')))"

subsection \<open>Callbacks of initializer expressions\<close>

text \<open>\<open>*ctx->current_init_expr = expr\<close>.\<close>

definition set_init_expr :: "WasmExpr \<Rightarrow> ast_step" where
  "set_init_expr expr ctx =
     (WASM_OK,
      case ac_current_init_expr ctx of
        None \<Rightarrow> ast_assert False ctx
      | Some (GlobalInit i) \<Rightarrow>
          on_module (globals_update (\<lambda>gs. gs[i := (gs ! i)\<lparr>global_init_expr := [expr]\<rparr>])) ctx
      | Some (ElemOffset i) \<Rightarrow>
          on_module (elem_segments_update (\<lambda>segs. segs[i := (segs ! i)\<lparr>elem_offset := [expr]\<rparr>])) ctx
      | Some (DataOffset i) \<Rightarrow>
          on_module (data_segments_update (\<lambda>segs. segs[i := (segs ! i)\<lparr>data_offset := [expr]\<rparr>])) ctx)"

definition on_init_expr_f32_const_expr :: "u32 \<Rightarrow> u32 \<Rightarrow> ast_step" where
  "on_init_expr_f32_const_expr index v = set_init_expr (Const (ConstF32 v))"

definition on_init_expr_f64_const_expr :: "u32 \<Rightarrow> u64 \<Rightarrow> ast_step" where
  "on_init_expr_f64_const_expr index v = set_init_expr (Const (ConstF64 v))"

definition on_init_expr_get_global_expr :: "u32 \<Rightarrow> u32 \<Rightarrow> ast_step" where
  "on_init_expr_get_global_expr index global_index = set_init_expr (GetGlobal (index_var global_index))"

definition on_init_expr_i32_const_expr :: "u32 \<Rightarrow> u32 \<Rightarrow> ast_step" where
  "on_init_expr_i32_const_expr index v = set_init_expr (Const (ConstI32 v))"

definition on_init_expr_i64_const_expr :: "u32 \<Rightarrow> u64 \<Rightarrow> ast_step" where
  "on_init_expr_i64_const_expr index v = set_init_expr (Const (ConstI64 v))"

subsection \<open>The reader object\<close>

text \<open>
  \<open>s_binary_reader\<close>. Members it leaves NULL, and those that only reserve memory, answer
  \<open>WASM_OK\<close>.
\<close>

abbreviation no_op :: ast_step where "no_op \<equiv> \<lambda>ctx. (WASM_OK, ctx)"

primrec init_callbacks :: "InitExprEvent \<Rightarrow> ast_step" where
  "init_callbacks (On_init_expr_f32_const_expr index v) = on_init_expr_f32_const_expr index v"
| "init_callbacks (On_init_expr_f64_const_expr index v) = on_init_expr_f64_const_expr index v"
| "init_callbacks (On_init_expr_get_global_expr index g) = on_init_expr_get_global_expr index g"
| "init_callbacks (On_init_expr_i32_const_expr index v) = on_init_expr_i32_const_expr index v"
| "init_callbacks (On_init_expr_i64_const_expr index v) = on_init_expr_i64_const_expr index v"

primrec signature_callbacks :: "SignatureEvent \<Rightarrow> ast_step" where
  "signature_callbacks (Begin_signature_section sz) = no_op"
| "signature_callbacks (On_signature_count count) = no_op"
| "signature_callbacks (On_signature index params results) = on_signature index params results"
| "signature_callbacks End_signature_section = no_op"

primrec import_callbacks :: "ImportEvent \<Rightarrow> ast_step" where
  "import_callbacks (Begin_import_section sz) = no_op"
| "import_callbacks (On_import_count count) = no_op"
| "import_callbacks (On_import index module_name field_name) = on_import index module_name field_name"
| "import_callbacks (On_import_func index sig_index) = on_import_func index sig_index"
| "import_callbacks (On_import_table index elem_type limits) = on_import_table index elem_type limits"
| "import_callbacks (On_import_memory index limits) = on_import_memory index limits"
| "import_callbacks (On_import_global index type mutable) = on_import_global index type mutable"
| "import_callbacks End_import_section = no_op"

primrec function_callbacks :: "FunctionEvent \<Rightarrow> ast_step" where
  "function_callbacks (Begin_function_signatures_section sz) = no_op"
| "function_callbacks (On_function_signatures_count count) = no_op"
| "function_callbacks (On_function_signature index sig_index) = on_function_signature index sig_index"
| "function_callbacks End_function_signatures_section = no_op"

primrec table_callbacks :: "TableEvent \<Rightarrow> ast_step" where
  "table_callbacks (Begin_table_section sz) = no_op"
| "table_callbacks (On_table_count count) = no_op"
| "table_callbacks (On_table index elem_type limits) = on_table index elem_type limits"
| "table_callbacks End_table_section = no_op"

primrec memory_callbacks :: "MemoryEvent \<Rightarrow> ast_step" where
  "memory_callbacks (Begin_memory_section sz) = no_op"
| "memory_callbacks (On_memory_count count) = no_op"
| "memory_callbacks (On_memory index limits) = on_memory index limits"
| "memory_callbacks End_memory_section = no_op"

primrec global_callbacks :: "GlobalEvent \<Rightarrow> ast_step" where
  "global_callbacks (Begin_global_section sz) = no_op"
| "global_callbacks (On_global_count count) = no_op"
| "global_callbacks (Begin_global index type mutable) = begin_global index type mutable"
| "global_callbacks (Begin_global_init_expr index) = begin_global_init_expr index"
| "global_callbacks (End_global_init_expr index) = end_global_init_expr index"
| "global_callbacks (End_global index) = no_op"
| "global_callbacks End_global_section = no_op"

primrec export_callbacks :: "ExportEvent \<Rightarrow> ast_step" where
  "export_callbacks (Begin_export_section sz) = no_op"
| "export_callbacks (On_export_count count) = no_op"
| "export_callbacks (On_export index kind item_index name) = on_export index kind item_index name"
| "export_callbacks End_export_section = no_op"

primrec start_callbacks :: "StartEvent \<Rightarrow> ast_step" where
  "start_callbacks (Begin_start_section sz) = no_op"
| "start_callbacks (On_start_function func_index) = on_start_function func_index"
| "start_callbacks End_start_section = no_op"

primrec code_callbacks :: "CodeEvent \<Rightarrow> ast_step" where
  "code_callbacks (Begin_function_bodies_section sz) = no_op"
| "code_callbacks (On_function_bodies_count count) = on_function_bodies_count count"
| "code_callbacks (Begin_function_body index) = begin_function_body index"
| "code_callbacks (On_local_decl_count count) = no_op"
| "code_callbacks (On_local_decl decl_index count type) = on_local_decl decl_index count type"
| "code_callbacks (End_function_body index) = end_function_body index"
| "code_callbacks End_function_bodies_section = no_op"

primrec elem_callbacks :: "ElemEvent \<Rightarrow> ast_step" where
  "elem_callbacks (Begin_elem_section sz) = no_op"
| "elem_callbacks (On_elem_segment_count count) = no_op"
| "elem_callbacks (Begin_elem_segment index table_index) = begin_elem_segment index table_index"
| "elem_callbacks (Begin_elem_segment_init_expr index) = begin_elem_segment_init_expr index"
| "elem_callbacks (End_elem_segment_init_expr index) = end_elem_segment_init_expr index"
| "elem_callbacks (On_elem_segment_function_index_count index count) = on_elem_segment_function_index_count index count"
| "elem_callbacks (On_elem_segment_function_index index func_index) = on_elem_segment_function_index index func_index"
| "elem_callbacks (End_elem_segment index) = no_op"
| "elem_callbacks End_elem_section = no_op"

primrec data_callbacks :: "DataEvent \<Rightarrow> ast_step" where
  "data_callbacks (Begin_data_section sz) = no_op"
| "data_callbacks (On_data_segment_count count) = no_op"
| "data_callbacks (Begin_data_segment index memory_index) = begin_data_segment index memory_index"
| "data_callbacks (Begin_data_segment_init_expr index) = begin_data_segment_init_expr index"
| "data_callbacks (End_data_segment_init_expr index) = end_data_segment_init_expr index"
| "data_callbacks (On_data_segment_data index data) = on_data_segment_data index data"
| "data_callbacks (End_data_segment index) = no_op"
| "data_callbacks End_data_section = no_op"

primrec names_callbacks :: "NamesEvent \<Rightarrow> ast_step" where
  "names_callbacks (Begin_names_section sz) = no_op"
| "names_callbacks (On_function_names_count count) = on_function_names_count count"
| "names_callbacks (On_function_name index name) = on_function_name index name"
| "names_callbacks (On_local_names_count index count) = on_local_names_count index count"
| "names_callbacks (On_local_name func_index loc_index name) = on_local_name func_index loc_index name"
| "names_callbacks End_names_section = no_op"

primrec ast_member :: "WasmReaderEvent \<Rightarrow> ast_step" where
  "ast_member (Begin_module version) = no_op"
| "ast_member End_module = no_op"
| "ast_member (Begin_section code sz) = no_op"
| "ast_member (Begin_custom_section sz name) = no_op"
| "ast_member End_custom_section = no_op"
| "ast_member (Opcode_event ev) = no_op"
| "ast_member (Expr_event ev) = expr_callbacks ev"
| "ast_member (InitExpr_event ev) = init_callbacks ev"
| "ast_member (Signature_event ev) = signature_callbacks ev"
| "ast_member (Import_event ev) = import_callbacks ev"
| "ast_member (Function_event ev) = function_callbacks ev"
| "ast_member (Table_event ev) = table_callbacks ev"
| "ast_member (Memory_event ev) = memory_callbacks ev"
| "ast_member (Global_event ev) = global_callbacks ev"
| "ast_member (Export_event ev) = export_callbacks ev"
| "ast_member (Start_event ev) = start_callbacks ev"
| "ast_member (Code_event ev) = code_callbacks ev"
| "ast_member (Elem_event ev) = elem_callbacks ev"
| "ast_member (Data_event ev) = data_callbacks ev"
| "ast_member (Names_event ev) = names_callbacks ev"

definition s_binary_reader :: "AstContext WasmBinaryReader" where
  "s_binary_reader = \<lparr>on_error = ast_on_error, reader_member = (\<lambda>ev _. ast_member ev)\<rparr>"

definition empty_module :: WasmModule where
  "empty_module =
     \<lparr>num_func_imports = 0, num_table_imports = 0, num_memory_imports = 0, num_global_imports = 0,
      funcs = [], globals = [], imports_vec = [], exports = [], func_types = [], tables = [],
      elem_segments = [], memories = [], data_segments = [], start = None, func_bindings = empty_hash,
      global_bindings = empty_hash, export_bindings = empty_hash, func_type_bindings = empty_hash,
      table_bindings = empty_hash, memory_bindings = empty_hash\<rparr>"

definition init_ast_context :: "WasmBindingHashEntry \<Rightarrow> AstContext" where
  "init_ast_context junk =
     \<lparr>ac_module = empty_module, ac_fields = [], ac_current_func = None, ac_label_stack = [], ac_max_depth = 0,
      ac_current_init_expr = None, ac_errors = [], ac_junk = junk, ac_undefined = False\<rparr>"

text \<open>
  Destroying a label that is still open frees the expressions of its list, which the module
  still refers to.
\<close>

definition wasm_destroy_label_node :: "LabelNode \<Rightarrow> AstContext \<Rightarrow> AstContext" where
  "wasm_destroy_label_node node ctx =
     (case label_first node of
        Freed \<Rightarrow> ast_assert False ctx
      | Slot k path \<Rightarrow> ast_assert (list_at path (func_body k ctx) = []) ctx)"

text \<open>
  \<open>wasm_read_binary_ast\<close>, called with a zeroed module: the result, the errors that were reported,
  and the module, which is destroyed on failure. The last component tells whether the run was
  free of undefined behaviour.
\<close>

definition wasm_read_binary_ast ::
    "WasmBindingHashEntry \<Rightarrow> byte list \<Rightarrow> WasmReadBinaryOptions
     \<Rightarrow> WasmResult \<times> WasmModule option \<times> (u32 \<times> string \<times> ErrorArg list) list \<times> bool" where
  "wasm_read_binary_ast junk data opts =
     (case wasm_read_binary data s_binary_reader opts (init_ast_context junk) of
        (r, ctx) \<Rightarrow>
          (let ctx' = fold wasm_destroy_label_node (rev (ac_label_stack ctx)) ctx
           in (r, if r = WASM_OK then Some (ac_module ctx') else None, ac_errors ctx', \<not> ac_undefined ctx')))"

end
