(* ===== verification/Wabt_Ast_Builder.thy ===== *)
theory Wabt_Ast_Builder
  imports Wabt_Reader_Ast Wabt_Round_Trip
begin

text \<open>
  What the reader object of \<^verbatim>\<open>binary-reader-ast.c\<close> builds from the calls that describe a
  function body: the label stack and its pointers into the tree rebuild the expressions they
  came from, every variable resolved to an index, every label name dropped and every alignment
  normalised.
\<close>

subsection \<open>Expression lists inside expression lists\<close>

fun branch_of :: "Branch \<Rightarrow> WasmExpr \<Rightarrow> bool" where
  "branch_of InBlock (Block _ _ _) = True"
| "branch_of InBlock (Loop _ _ _) = True"
| "branch_of InTrue (If _ _ _ _) = True"
| "branch_of InFalse (If _ _ _ _) = True"
| "branch_of _ _ = False"

primrec path_ok :: "(nat \<times> Branch) list \<Rightarrow> WasmExpr list \<Rightarrow> bool" where
  "path_ok [] es = True"
| "path_ok (x # path) es \<longleftrightarrow>
     fst x < length es \<and> branch_of (snd x) (es ! fst x) \<and> path_ok path (sub_exprs (snd x) (es ! fst x))"

lemma branch_of_set [simp]: "branch_of b (set_sub_exprs c es e) = branch_of b e"
  by (cases e; cases b; cases c) auto

lemma sub_exprs_set [simp]: "branch_of b e \<Longrightarrow> sub_exprs b (set_sub_exprs b es e) = es"
  by (cases e; cases b) auto

lemma set_sub_exprs_twice [simp]: "set_sub_exprs b xs (set_sub_exprs b ys e) = set_sub_exprs b xs e"
  by (cases e; cases b) auto

lemma set_sub_exprs_same [simp]: "set_sub_exprs b (sub_exprs b e) e = e"
  by (cases e; cases b) auto

lemma list_at_set [simp]: "path_ok path es \<Longrightarrow> list_at path (set_list_at path xs es) = xs"
  by (induction path arbitrary: es) auto

lemma set_list_at_twice [simp]:
  "path_ok path es \<Longrightarrow> set_list_at path xs (set_list_at path ys es) = set_list_at path xs es"
  by (induction path arbitrary: es) auto

lemma set_list_at_same [simp]: "path_ok path es \<Longrightarrow> set_list_at path (list_at path es) es = es"
  by (induction path arbitrary: es) auto

lemma path_ok_set [simp]: "path_ok path es \<Longrightarrow> path_ok path (set_list_at path xs es)"
  by (induction path arbitrary: es) auto

lemma list_at_append: "list_at (path @ [(n, b)]) es = sub_exprs b (list_at path es ! n)"
  by (induction path arbitrary: es) auto

lemma path_ok_append:
  "path_ok (path @ [(n, b)]) es \<longleftrightarrow> path_ok path es \<and> n < length (list_at path es) \<and> branch_of b (list_at path es ! n)"
  by (induction path arbitrary: es) auto

lemma set_list_at_append:
  "path_ok path es \<Longrightarrow> set_list_at (path @ [(n, b)]) xs es =
     set_list_at path ((list_at path es)[n := set_sub_exprs b xs (list_at path es ! n)]) es"
  by (induction path arbitrary: es) auto

subsection \<open>Growing a list of the tree\<close>

text \<open>The reader state after \<open>xs\<close> was appended to the list at \<open>path\<close> of function \<open>k\<close>.\<close>

definition grow :: "nat \<Rightarrow> (nat \<times> Branch) list \<Rightarrow> WasmExpr list \<Rightarrow> AstContext \<Rightarrow> AstContext" where
  "grow k path xs = on_module (set_func k (first_expr_update (\<lambda>es. set_list_at path (list_at path es @ xs) es)))"

lemma grow_alt:
  "grow k path xs ctx = ctx\<lparr>ac_module := (ac_module ctx)\<lparr>funcs := (funcs (ac_module ctx))[k :=
     (funcs (ac_module ctx) ! k)\<lparr>first_expr := set_list_at path (list_at path (func_body k ctx) @ xs) (func_body k ctx)\<rparr>]\<rparr>\<rparr>"
proof -
  have upd: "first_expr_update g f = f\<lparr>first_expr := g (first_expr f)\<rparr>" for g and f :: WasmFunc
    by (cases f) simp
  show ?thesis unfolding grow_def on_module_def set_func_def func_body_def by (subst upd) (rule refl)
qed

text \<open>The top of the label stack is open, and its list is the one at \<open>path\<close> of function \<open>k\<close>.\<close>

definition open_at :: "nat \<Rightarrow> (nat \<times> Branch) list \<Rightarrow> AstContext \<Rightarrow> bool" where
  "open_at k path ctx \<longleftrightarrow>
     k < length (funcs (ac_module ctx)) \<and> path_ok path (func_body k ctx)
     \<and> (\<exists>label rest. ac_label_stack ctx = label # rest \<and> label_first label = Slot k path)"

lemma open_atE:
  assumes "open_at k path ctx"
  obtains type rest where "ac_label_stack ctx = \<lparr>label_type = type, label_first = Slot k path\<rparr> # rest"
    "k < length (funcs (ac_module ctx))" "path_ok path (func_body k ctx)"
  using assms by (auto simp: open_at_def) (metis LabelNode.surjective old.unit.exhaust)

lemma ac_grow [simp]:
  "ac_label_stack (grow k path xs ctx) = ac_label_stack ctx"
  "ac_max_depth (grow k path xs ctx) = ac_max_depth ctx"
  "ac_undefined (grow k path xs ctx) = ac_undefined ctx"
  "func_types (ac_module (grow k path xs ctx)) = func_types (ac_module ctx)"
  "length (funcs (ac_module (grow k path xs ctx))) = length (funcs (ac_module ctx))"
  by (simp_all add: grow_alt)

lemma func_body_grow [simp]:
  "k < length (funcs (ac_module ctx)) \<Longrightarrow> func_body k (grow k path xs ctx) = set_list_at path (list_at path (func_body k ctx) @ xs) (func_body k ctx)"
  by (simp add: grow_alt func_body_def)

lemma func_body_stack [simp]:
  "func_body k (ctx\<lparr>ac_label_stack := st\<rparr>) = func_body k ctx"
  "func_body k (ctx\<lparr>ac_max_depth := d\<rparr>) = func_body k ctx"
  by (simp_all add: func_body_def)

lemma open_at_grow [simp]: "open_at k path ctx \<Longrightarrow> open_at k path (grow k path xs ctx)"
  by (auto simp: open_at_def)

lemma grow_grow: "open_at k path ctx \<Longrightarrow> grow k path ys (grow k path xs ctx) = grow k path (xs @ ys) ctx"
  by (auto simp: open_at_def grow_alt func_body_def nth_list_update)

lemma grow_nil [simp]: "open_at k path ctx \<Longrightarrow> grow k path [] ctx = ctx"
  by (auto simp: open_at_def grow_alt func_body_def)

text \<open>Changing the label stack and growing the tree do not interfere.\<close>

lemma grow_stack:
  "(grow k path xs ctx)\<lparr>ac_label_stack := st\<rparr> = grow k path xs (ctx\<lparr>ac_label_stack := st\<rparr>)"
  "(grow k path xs ctx)\<lparr>ac_max_depth := d\<rparr> = grow k path xs (ctx\<lparr>ac_max_depth := d\<rparr>)"
  by (simp_all add: grow_alt)

text \<open>Growing a branch of the last expression of a list is growing the list by a bigger expression.\<close>

lemma grow_branch:
  assumes "k < length (funcs (ac_module ctx))" "path_ok path (func_body k ctx)" "n = length (list_at path (func_body k ctx))"
    "branch_of b e"
  shows "grow k (path @ [(n, b)]) xs (grow k path [e] ctx) = grow k path [set_sub_exprs b (sub_exprs b e @ xs) e] ctx"
  using assms
  by (simp add: grow_alt func_body_def set_list_at_append list_at_append nth_append)

lemma append_expr_open:
  "open_at k path ctx \<Longrightarrow> append_expr e ctx = (WASM_OK, grow k path [e] ctx)"
  by (auto simp: open_at_def append_expr_def top_label_def get_label_at_def append_at_def grow_def)

subsection \<open>The expression that is read back\<close>

definition resolved_access :: "(WasmOpcode \<Rightarrow> u32 \<Rightarrow> u64 \<Rightarrow> WasmExpr) \<Rightarrow> WasmOpcode \<Rightarrow> u32 \<Rightarrow> u64 \<Rightarrow> WasmExpr" where
  "resolved_access con opcode align off = con opcode (shift_align (access_log2 opcode align)) (ucast (ucast off :: u32))"

abbreviation int_var :: "int \<Rightarrow> WasmVar" where
  "int_var i \<equiv> index_var (word_of_int i)"

abbreviation label_var :: "WasmVar \<Rightarrow> WasmVar" where
  "label_var var \<equiv> index_var (get_label_var_depth var)"

fun resolved_expr :: "WasmModule \<Rightarrow> WasmFunc option \<Rightarrow> WasmExpr \<Rightarrow> WasmExpr" where
  "resolved_expr m f (Block label sig es) = Block None sig (map (resolved_expr m f) es)"
| "resolved_expr m f (Loop label sig es) = Loop None sig (map (resolved_expr m f) es)"
| "resolved_expr m f (If label sig true_es false_es) =
     If None sig (map (resolved_expr m f) true_es) (map (resolved_expr m f) false_es)"
| "resolved_expr m f (Br var) = Br (label_var var)"
| "resolved_expr m f (BrIf var) = BrIf (label_var var)"
| "resolved_expr m f (BrTable targets default_target) = BrTable (map label_var targets) (label_var default_target)"
| "resolved_expr m f (Call var) = Call (int_var (wasm_get_func_index_by_var m var))"
| "resolved_expr m f (CallIndirect var) = CallIndirect (int_var (wasm_get_func_type_index_by_var m var))"
| "resolved_expr m f (GetGlobal var) = GetGlobal (int_var (wasm_get_global_index_by_var m var))"
| "resolved_expr m f (SetGlobal var) = SetGlobal (int_var (wasm_get_global_index_by_var m var))"
| "resolved_expr m f (GetLocal var) = GetLocal (int_var (local_index f var))"
| "resolved_expr m f (SetLocal var) = SetLocal (int_var (local_index f var))"
| "resolved_expr m f (TeeLocal var) = TeeLocal (int_var (local_index f var))"
| "resolved_expr m f (Load opcode align off) = resolved_access Load opcode align off"
| "resolved_expr m f (Store opcode align off) = resolved_access Store opcode align off"
| "resolved_expr m f e = e"

lemma log2_u32_bound: "log2_u32 x < 32"
proof -
  have "2 ^ log2_u32 x \<le> max 1 (unat x)"
  proof (induction x rule: log2_u32.induct)
    case (1 x)
    show ?case
    proof (cases "x > 1")
      case True
      have "drop_bit 1 (unat x) = unat x div 2" by (simp add: drop_bit_eq_div)
      with unat_drop_bit_eq [of 1 x] have "unat (drop_bit 1 x) = unat x div 2" by (rule trans)
      moreover have "1 < unat x" using True by (simp add: word_less_nat_alt)
      ultimately show ?thesis using 1 [OF True] True by (simp add: log2_u32.simps [of x])
    qed (simp add: log2_u32.simps [of x])
  qed
  moreover have "unat x < 2 ^ LENGTH(32)" by (rule unsigned_less)
  ultimately have "(2 :: nat) ^ log2_u32 x < 2 ^ 32" by simp
  then show ?thesis by (rule power_less_imp_less_exp [rotated]) simp
qed

lemma access_log2_less: "access_log2 opcode align < 32"
  using log2_u32_bound [of "wasm_get_opcode_alignment opcode align"]
  by (simp add: access_log2_def word_less_nat_alt unat_of_nat)

subsection \<open>Reading back expressions\<close>

lemmas expr_callback_defs =
  on_binary_expr_def on_br_expr_def on_br_if_expr_def on_br_table_expr_def on_call_expr_def on_call_indirect_expr_def
  on_compare_expr_def on_convert_expr_def on_current_memory_expr_def on_drop_expr_def on_end_expr_def on_f32_const_expr_def
  on_f64_const_expr_def on_get_global_expr_def on_get_local_expr_def on_grow_memory_expr_def on_i32_const_expr_def
  on_i64_const_expr_def on_load_expr_def on_nop_expr_def on_return_expr_def on_select_expr_def on_set_global_expr_def
  on_set_local_expr_def on_store_expr_def on_tee_local_expr_def on_unary_expr_def on_unreachable_expr_def

definition in_bounds :: "u32 \<Rightarrow> u32 \<Rightarrow> AstContext \<Rightarrow> bool" where
  "in_bounds nf ns ctx \<longleftrightarrow>
     length (funcs (ac_module ctx)) = unat nf \<and> length (func_types (ac_module ctx)) = unat ns"

lemma in_bounds_grow [simp]: "in_bounds nf ns (grow k path xs ctx) = in_bounds nf ns ctx"
  by (simp add: in_bounds_def)

text \<open>A state in which a new label was opened, and what closing it leaves.\<close>

definition opened :: "LabelType \<Rightarrow> nat \<Rightarrow> (nat \<times> Branch) list \<Rightarrow> Branch \<Rightarrow> WasmExpr \<Rightarrow> AstContext \<Rightarrow> AstContext" where
  "opened type k path b e ctx =
     push_label type (Slot k (path @ [(length (list_at path (func_body k ctx)), b)])) (grow k path [e] ctx)"

lemma open_label_open: "open_at k path ctx \<Longrightarrow> open_label type b e ctx = (WASM_OK, opened type k path b e ctx)"
  by (auto simp: open_label_def append_expr_open opened_def slot_in_new_def top_label_def get_label_at_def open_at_def)

lemma open_at_opened:
  "open_at k path ctx \<Longrightarrow> branch_of b e \<Longrightarrow> open_at k (path @ [(length (list_at path (func_body k ctx)), b)]) (opened type k path b e ctx)"
  by (auto simp: opened_def open_at_def push_label_def path_ok_append nth_append grow_stack)

lemma in_bounds_opened [simp]: "in_bounds nf ns (opened type k path b e ctx) = in_bounds nf ns ctx"
  by (simp add: opened_def push_label_def in_bounds_def)

lemma pop_label_opened:
  assumes "open_at k path ctx" "branch_of b e"
  shows "pop_label (grow k (path @ [(length (list_at path (func_body k ctx)), b)]) xs (opened type k path b e ctx)) =
    (WASM_OK, grow k path [set_sub_exprs b (sub_exprs b e @ xs) e] ctx)"
proof -
  let ?p = "path @ [(length (list_at path (func_body k ctx)), b)]"
  have "snd (pop_label (grow k ?p xs (opened type k path b e ctx))) = grow k ?p xs (grow k path [e] ctx)"
    by (simp add: pop_label_def opened_def push_label_def grow_alt func_body_def)
  also have "\<dots> = grow k path [set_sub_exprs b (sub_exprs b e @ xs) e] ctx"
    using assms by (intro grow_branch) (auto simp: open_at_def)
  moreover have "fst (pop_label (grow k ?p xs (opened type k path b e ctx))) = WASM_OK"
    by (simp add: pop_label_def opened_def push_label_def)
  ultimately show ?thesis by (metis prod.collapse)
qed

lemma on_else_opened:
  assumes "open_at k path ctx"
  shows "on_else_expr (grow k (path @ [(length (list_at path (func_body k ctx)), InTrue)]) xs
      (opened LABEL_TYPE_IF k path InTrue (If None sig [] []) ctx)) =
    (WASM_OK, opened LABEL_TYPE_ELSE k path InFalse (If None sig xs []) ctx)"
proof -
  obtain type rest where st: "ac_label_stack ctx = \<lparr>label_type = type, label_first = Slot k path\<rparr> # rest"
    and k: "k < length (funcs (ac_module ctx))" and ok: "path_ok path (func_body k ctx)"
    using assms by (rule open_atE)
  let ?n = "length (list_at path (func_body k ctx))"
  let ?ctx = "grow k (path @ [(?n, InTrue)]) xs (opened LABEL_TYPE_IF k path InTrue (If None sig [] []) ctx)"
  have push: "push_label t sl (grow k p ys c) = grow k p ys (push_label t sl c)" for t sl p ys c
    by (simp add: push_label_def grow_alt func_body_def)
  have grown: "?ctx = push_label LABEL_TYPE_IF (Slot k (path @ [(?n, InTrue)])) (grow k path [If None sig xs []] ctx)"
    unfolding opened_def push [symmetric] by (subst grow_branch) (use k ok in simp_all)
  show ?thesis
    unfolding grown on_else_expr_def
    by (simp add: top_label_def get_label_at_def push_label_def st k ok opened_def ast_assert_def)
qed

text \<open>The calls of an instruction without nested expressions append one expression.\<close>

lemma feed_instr:
  assumes "expr_callbacks ev ctx = (WASM_OK, ctx')"
  shows "feed ast_member (instr_events opcode ev operands) ctx = Some ctx'"
  using assms by (simp add: instr_events_def)

lemma feed_leaf:
  "open_at k path ctx \<Longrightarrow> expr_callbacks ev ctx = append_expr e ctx \<Longrightarrow>
     feed ast_member (instr_events opcode ev operands) ctx = Some (grow k path [e] ctx)"
  by (rule feed_instr) (simp add: append_expr_open)

lemma feed_access:
  assumes "open_at k path ctx" and "\<And>c. expr_callbacks (ev opcode (access_log2 opcode align) (ucast off)) c =
      append_expr (con opcode (shift_align (access_log2 opcode align)) (ucast (ucast off :: u32)))
        (ast_assert (access_log2 opcode align < 32) c)"
  shows "feed ast_member (access_events ev opcode align off) ctx = Some (grow k path [resolved_access con opcode align off] ctx)"
  unfolding access_events_def resolved_access_def
  by (rule feed_leaf [OF assms(1)]) (simp add: assms(2) ast_assert_def access_log2_less)

text \<open>The calls of a block: open a label, fill its list, close it.\<close>

lemma feed_block:
  assumes at: "open_at k path ctx" and b: "branch_of b e" "sub_exprs b e = []"
    and cb: "expr_callbacks ev ctx = open_label type b e ctx"
    and body: "\<And>p c. open_at k p c \<Longrightarrow> in_bounds nf ns c \<Longrightarrow> feed ast_member evs c = Some (grow k p xs c)"
    and bounds: "in_bounds nf ns ctx"
  shows "feed ast_member (instr_events opcode ev operands @ evs @ end_events) ctx = Some (grow k path [set_sub_exprs b xs e] ctx)"
proof -
  let ?p = "path @ [(length (list_at path (func_body k ctx)), b)]"
  have "feed ast_member (instr_events opcode ev operands) ctx = Some (opened type k path b e ctx)"
    by (rule feed_instr) (simp add: cb open_label_open [OF at])
  moreover have "feed ast_member evs (opened type k path b e ctx) = Some (grow k ?p xs (opened type k path b e ctx))"
    by (rule body [OF open_at_opened [OF at b(1)]]) (simp add: bounds)
  ultimately show ?thesis
    by (simp add: feed_append pop_label_opened [OF at b(1)] b(2) on_end_expr_def)
qed

lemma feed_if_else:
  assumes at: "open_at k path ctx"
    and true: "\<And>p c. open_at k p c \<Longrightarrow> in_bounds nf ns c \<Longrightarrow> feed ast_member tevs c = Some (grow k p ts c)"
    and false: "\<And>p c. open_at k p c \<Longrightarrow> in_bounds nf ns c \<Longrightarrow> feed ast_member fevs c = Some (grow k p fs c)"
    and bounds: "in_bounds nf ns ctx"
  shows "feed ast_member (instr_events WASM_OPCODE_IF (On_if_expr sig) operands @ tevs
      @ (bare_events WASM_OPCODE_ELSE On_else_expr @ fevs) @ end_events) ctx = Some (grow k path [If None sig ts fs] ctx)"
proof -
  let ?n = "length (list_at path (func_body k ctx))"
  let ?c1 = "opened LABEL_TYPE_IF k path InTrue (If None sig [] []) ctx"
  let ?c2 = "opened LABEL_TYPE_ELSE k path InFalse (If None sig ts []) ctx"
  have "feed ast_member (instr_events WASM_OPCODE_IF (On_if_expr sig) operands) ctx = Some ?c1"
    by (rule feed_instr) (simp add: on_if_expr_def open_label_open [OF at])
  moreover have "feed ast_member tevs ?c1 = Some (grow k (path @ [(?n, InTrue)]) ts ?c1)"
    by (rule true [OF open_at_opened [OF at]]) (simp_all add: bounds)
  moreover have "feed ast_member (bare_events WASM_OPCODE_ELSE On_else_expr) (grow k (path @ [(?n, InTrue)]) ts ?c1) = Some ?c2"
    by (rule feed_instr) (simp add: on_else_opened [OF at])
  moreover have "feed ast_member fevs ?c2 = Some (grow k (path @ [(?n, InFalse)]) fs ?c2)"
    by (rule false [OF open_at_opened [OF at]]) (simp_all add: bounds)
  moreover have "pop_label (grow k (path @ [(?n, InFalse)]) fs ?c2) = (WASM_OK, grow k path [If None sig ts fs] ctx)"
    using pop_label_opened [OF at, of InFalse "If None sig ts []" fs] by simp
  ultimately show ?thesis by (simp add: feed_append on_end_expr_def)
qed

lemma feed_exprs:
  "wf_expr m nf ns e \<Longrightarrow> open_at k path ctx \<Longrightarrow> in_bounds nf ns ctx \<Longrightarrow>
     feed ast_member (expr_events m f e) ctx = Some (grow k path [resolved_expr m f e] ctx)"
  "list_all (wf_expr m nf ns) es \<Longrightarrow> open_at k path ctx \<Longrightarrow> in_bounds nf ns ctx \<Longrightarrow>
     feed ast_member (exprs_events m f es) ctx = Some (grow k path (map (resolved_expr m f) es) ctx)"
proof (induction m f e and m f es arbitrary: path ctx and path ctx rule: expr_events_exprs_events.induct)
  case (2 m f label sig es)
  have "feed ast_member (instr_events WASM_OPCODE_BLOCK (On_block_expr sig) (On_opcode_block_sig sig) @ exprs_events m f es @ end_events) ctx =
      Some (grow k path [set_sub_exprs InBlock (map (resolved_expr m f) es) (Block None sig [])] ctx)"
    using "2.prems" by (intro feed_block [where nf = nf and ns = ns]) (auto intro: "2.IH" simp: on_block_expr_def)
  then show ?case by simp
next
  case (18 m f label sig es)
  have "feed ast_member (instr_events WASM_OPCODE_LOOP (On_loop_expr sig) (On_opcode_block_sig sig) @ exprs_events m f es @ end_events) ctx =
      Some (grow k path [set_sub_exprs InBlock (map (resolved_expr m f) es) (Loop None sig [])] ctx)"
    using "18.prems" by (intro feed_block [where nf = nf and ns = ns]) (auto intro: "18.IH" simp: on_loop_expr_def)
  then show ?case by simp
next
  case (16 m f label sig ts fs)
  show ?case
  proof (cases "fs = []")
    case True
    have "feed ast_member (instr_events WASM_OPCODE_IF (On_if_expr sig) (On_opcode_block_sig sig) @ exprs_events m f ts @ end_events) ctx =
        Some (grow k path [set_sub_exprs InTrue (map (resolved_expr m f) ts) (If None sig [] [])] ctx)"
      using "16.prems" by (intro feed_block [where nf = nf and ns = ns]) (auto intro: "16.IH"(1) simp: on_if_expr_def)
    with True show ?thesis by simp
  next
    case False
    have "feed ast_member (instr_events WASM_OPCODE_IF (On_if_expr sig) (On_opcode_block_sig sig) @ exprs_events m f ts
        @ (bare_events WASM_OPCODE_ELSE On_else_expr @ exprs_events m f fs) @ end_events) ctx =
      Some (grow k path [If None sig (map (resolved_expr m f) ts) (map (resolved_expr m f) fs)] ctx)"
      using "16.prems" False by (intro feed_if_else [where nf = nf and ns = ns]) (auto intro: "16.IH")
    with False show ?thesis by simp
  qed
next
  case (9 m f c)
  then show ?case by (cases c) (simp_all add: feed_leaf expr_callback_defs)
next
  case (29 m f e es)
  then show ?case
    using "29.IH"(2) [of path "grow k path [resolved_expr m f e] ctx"] by (simp add: feed_append grow_grow)
qed (auto simp: feed_leaf feed_access expr_callback_defs Let_def append_expr_open ast_assert_def in_bounds_def word_less_nat_alt
   comp_def)

end
