(* ===== verification/Wabt_Ast_Read_Back.thy ===== *)
theory Wabt_Ast_Read_Back
  imports Wabt_Ast_Builder
begin

text \<open>
  The module that \<^verbatim>\<open>binary-reader-ast.c\<close> builds from the calls that describe a module: the
  same module with every variable resolved to an index and every name, label and binding that
  the sections do not carry dropped.
\<close>

subsection \<open>The module that is read back\<close>

definition resolved_func_type :: "WasmFuncType \<Rightarrow> WasmFuncType" where
  "resolved_func_type ft = \<lparr>ft_name = None, ft_sig = ft_sig ft\<rparr>"

definition decl_index :: "WasmModule \<Rightarrow> WasmFunc \<Rightarrow> u32" where
  "decl_index m func = word_of_int (wasm_get_func_type_index_by_decl m (func_decl func))"

text \<open>A function when its type is known, and when its body is.\<close>

definition declared_func :: "WasmModule \<Rightarrow> WasmFunc \<Rightarrow> WasmFunc" where
  "declared_func m func = zero_func\<lparr>func_decl := shared_decl (decl_index m func) m\<rparr>"

definition resolved_func :: "WasmModule \<Rightarrow> WasmFunc \<Rightarrow> WasmFunc" where
  "resolved_func m func = (declared_func m func)\<lparr>local_types := local_types func,
     first_expr := map (resolved_expr m (Some func)) (first_expr func)\<rparr>"

definition resolved_table :: "WasmTable \<Rightarrow> WasmTable" where
  "resolved_table t = \<lparr>table_name = None, elem_limits = limits_back (elem_limits t)\<rparr>"

definition resolved_memory :: "WasmMemory \<Rightarrow> WasmMemory" where
  "resolved_memory t = \<lparr>memory_name = None, page_limits = limits_back (page_limits t)\<rparr>"

definition declared_global :: "WasmGlobal \<Rightarrow> WasmGlobal" where
  "declared_global g =
     \<lparr>global_name = None, global_type = global_type g, global_mutable = global_mutable g, global_init_expr = []\<rparr>"

abbreviation resolved_init :: "WasmModule \<Rightarrow> WasmExpr list \<Rightarrow> WasmExpr list" where
  "resolved_init m es \<equiv> map (resolved_expr m None) es"

definition resolved_global :: "WasmModule \<Rightarrow> WasmGlobal \<Rightarrow> WasmGlobal" where
  "resolved_global m g = (declared_global g)\<lparr>global_init_expr := resolved_init m (global_init_expr g)\<rparr>"

definition resolved_desc :: "WasmModule \<Rightarrow> WasmImportDesc \<Rightarrow> WasmImportDesc" where
  "resolved_desc m desc =
     (case desc of
        ImportFunc func \<Rightarrow> ImportFunc (declared_func m func)
      | ImportTable t \<Rightarrow> ImportTable (resolved_table t)
      | ImportMemory t \<Rightarrow> ImportMemory (resolved_memory t)
      | ImportGlobal g \<Rightarrow> ImportGlobal (declared_global g))"

definition resolved_import :: "WasmModule \<Rightarrow> WasmImport \<Rightarrow> WasmImport" where
  "resolved_import m im =
     \<lparr>import_module_name = str_back (import_module_name im), import_field_name = str_back (import_field_name im),
      import_desc = resolved_desc m (import_desc im)\<rparr>"

definition resolved_export :: "WasmModule \<Rightarrow> WasmExport \<Rightarrow> WasmExport" where
  "resolved_export m ex =
     \<lparr>export_name = str_back (export_name ex), export_kind = export_kind ex, export_var = int_var (export_index m ex)\<rparr>"

definition resolved_start :: "WasmModule \<Rightarrow> WasmVar option" where
  "resolved_start m =
     (case start m of
        None \<Rightarrow> None
      | Some var \<Rightarrow> let i = wasm_get_func_index_by_var m var in if i = - 1 then None else Some (int_var i))"

definition resolved_elem :: "WasmModule \<Rightarrow> WasmElemSegment \<Rightarrow> WasmElemSegment" where
  "resolved_elem m seg =
     \<lparr>elem_table_var = int_var (wasm_get_table_index_by_var m (elem_table_var seg)),
      elem_offset = resolved_init m (elem_offset seg),
      elem_vars = map (\<lambda>var. int_var (wasm_get_func_index_by_var m var)) (elem_vars seg)\<rparr>"

definition resolved_data :: "WasmModule \<Rightarrow> WasmDataSegment \<Rightarrow> WasmDataSegment" where
  "resolved_data m seg =
     \<lparr>data_memory_var = int_var (wasm_get_memory_index_by_var m (data_memory_var seg)),
      data_offset = resolved_init m (data_offset seg), data_bytes = data_bytes seg\<rparr>"

text \<open>The imported items of each kind.\<close>

definition import_funcs :: "WasmModule \<Rightarrow> WasmImport list \<Rightarrow> WasmFunc list" where
  "import_funcs m ims = concat (map (\<lambda>im. case import_desc im of ImportFunc func \<Rightarrow> [declared_func m func] | _ \<Rightarrow> []) ims)"

definition import_tables :: "WasmImport list \<Rightarrow> WasmTable list" where
  "import_tables ims = concat (map (\<lambda>im. case import_desc im of ImportTable t \<Rightarrow> [resolved_table t] | _ \<Rightarrow> []) ims)"

definition import_memories :: "WasmImport list \<Rightarrow> WasmMemory list" where
  "import_memories ims = concat (map (\<lambda>im. case import_desc im of ImportMemory t \<Rightarrow> [resolved_memory t] | _ \<Rightarrow> []) ims)"

definition import_globals :: "WasmImport list \<Rightarrow> WasmGlobal list" where
  "import_globals ims = concat (map (\<lambda>im. case import_desc im of ImportGlobal g \<Rightarrow> [declared_global g] | _ \<Rightarrow> []) ims)"

definition resolved_module :: "WasmModule \<Rightarrow> WasmModule" where
  "resolved_module m = empty_module
     \<lparr>num_func_imports := num_func_imports m, num_table_imports := num_table_imports m,
      num_memory_imports := num_memory_imports m, num_global_imports := num_global_imports m,
      funcs := import_funcs m (imports_vec m) @ map (resolved_func m) (defined_funcs m),
      globals := import_globals (imports_vec m) @ map (resolved_global m) (defined_globals m),
      imports_vec := map (resolved_import m) (imports_vec m),
      exports := map (resolved_export m) (exports m),
      func_types := map resolved_func_type (func_types m),
      tables := import_tables (imports_vec m) @ map resolved_table (defined_tables m),
      elem_segments := map (resolved_elem m) (elem_segments m),
      memories := import_memories (imports_vec m) @ map resolved_memory (defined_memories m),
      data_segments := map (resolved_data m) (data_segments m),
      start := resolved_start m\<rparr>"

subsection \<open>Loops of calls\<close>

lemma feed_for_events:
  assumes "\<And>i. i < length xs \<Longrightarrow> feed g (evs (u32_of_nat i) (xs ! i)) (P i) = Some (P (Suc i))"
  shows "feed g (for_events evs xs) (P 0) = Some (P (length xs))"
proof -
  have "feed g (concat (map (\<lambda>(i, x). evs (u32_of_nat i) x) (take n (enumerate 0 xs)))) (P 0) = Some (P n)"
    if "n \<le> length xs" for n
    using that
  proof (induction n)
    case (Suc n)
    then have "take (Suc n) (enumerate 0 xs) = take n (enumerate 0 xs) @ [(n, xs ! n)]"
      by (simp add: take_Suc_conv_app_nth nth_enumerate_eq)
    with Suc assms [of n] show ?case by (simp add: feed_append)
  qed simp
  from this [of "length xs"] show ?thesis by simp
qed

lemma feed_vec_section:
  assumes "\<And>i. i < length xs \<Longrightarrow> feed ast_member (item (u32_of_nat i) (xs ! i)) (P i) = Some (P (Suc i))"
    and "\<And>sz. ast_member (opens sz) = no_op" "ast_member closes = no_op"
    and "xs \<noteq> [] \<Longrightarrow> ast_member (counts (u32_of_nat (length xs))) (P 0) = (WASM_OK, P 0)"
  shows "feed ast_member (vec_section_events code opens counts closes item enc xs) (P 0) = Some (P (length xs))"
proof (cases "xs = []")
  case False
  with assms(2-4) feed_for_events [where g = ast_member and evs = item and xs = xs and P = P, OF assms(1)]
  show ?thesis by (simp add: vec_section_events_def Let_def feed_append)
qed (simp add: vec_section_events_def)

text \<open>The state after a section: the module changed and fields added.\<close>

definition extend :: "(WasmModule \<Rightarrow> WasmModule) \<Rightarrow> WasmModuleField list \<Rightarrow> AstContext \<Rightarrow> AstContext" where
  "extend f fs ctx = ctx\<lparr>ac_module := f (ac_module ctx), ac_fields := ac_fields ctx @ fs\<rparr>"

lemma ac_extend [simp]:
  "ac_module (extend f fs ctx) = f (ac_module ctx)"
  "ac_undefined (extend f fs ctx) = ac_undefined ctx"
  "ac_label_stack (extend f fs ctx) = ac_label_stack ctx"
  "ac_errors (extend f fs ctx) = ac_errors ctx"
  "ac_junk (extend f fs ctx) = ac_junk ctx"
  by (simp_all add: extend_def)

lemma extend_none [simp]: "f (ac_module ctx) = ac_module ctx \<Longrightarrow> extend f [] ctx = ctx"
  by (simp add: extend_def)

lemma take_step: "i < length xs \<Longrightarrow> map f (take (Suc i) xs) = map f (take i xs) @ [f (xs ! i)]"
  by (simp add: take_Suc_conv_app_nth)

lemma upt_step: "map F [n..<n + Suc i] = map F [n..<n + i] @ [F (n + i)]"
  by simp

lemmas state_simps = extend_def on_module_def wasm_append_module_field_def ast_assert_def take_step

subsection \<open>Sections\<close>

lemma feed_types_section:
  "feed ast_member (vec_section_events code (\<lambda>sz. Signature_event (Begin_signature_section sz))
       (\<lambda>n. Signature_event (On_signature_count n)) (Signature_event End_signature_section) func_type_events enc fts) ctx =
   Some (extend (func_types_update (\<lambda>xs. xs @ map resolved_func_type fts))
     (map FieldFuncType [length (func_types (ac_module ctx))..<length (func_types (ac_module ctx)) + length fts]) ctx)"
  (is "feed _ ?evs _ = _")
proof -
  let ?n = "length (func_types (ac_module ctx))"
  let ?P = "\<lambda>i. extend (func_types_update (\<lambda>xs. xs @ map resolved_func_type (take i fts))) (map FieldFuncType [?n..<?n + i]) ctx"
  have "feed ast_member ?evs (?P 0) = Some (?P (length fts))"
    by (rule feed_vec_section)
      (simp_all add: func_type_events_def on_signature_def state_simps resolved_func_type_def fun_eq_iff)
  then show ?thesis by simp
qed

lemma feed_tables_section:
  "feed ast_member (vec_section_events code (\<lambda>sz. Table_event (Begin_table_section sz))
       (\<lambda>n. Table_event (On_table_count n)) (Table_event End_table_section)
       (\<lambda>i t. [Table_event (On_table i WASM_TYPE_ANYFUNC (limits_back (elem_limits t)))]) enc ts) ctx =
   Some (extend (tables_update (\<lambda>xs. xs @ map resolved_table ts))
     (map FieldTable [length (tables (ac_module ctx))..<length (tables (ac_module ctx)) + length ts]) ctx)"
  (is "feed _ ?evs _ = _")
proof -
  let ?n = "length (tables (ac_module ctx))"
  let ?P = "\<lambda>i. extend (tables_update (\<lambda>xs. xs @ map resolved_table (take i ts))) (map FieldTable [?n..<?n + i]) ctx"
  have "feed ast_member ?evs (?P 0) = Some (?P (length ts))"
    by (rule feed_vec_section) (simp_all add: on_table_def state_simps resolved_table_def fun_eq_iff)
  then show ?thesis by simp
qed

lemma feed_memories_section:
  "feed ast_member (vec_section_events code (\<lambda>sz. Memory_event (Begin_memory_section sz))
       (\<lambda>n. Memory_event (On_memory_count n)) (Memory_event End_memory_section)
       (\<lambda>i t. [Memory_event (On_memory i (limits_back (page_limits t)))]) enc ts) ctx =
   Some (extend (memories_update (\<lambda>xs. xs @ map resolved_memory ts))
     (map FieldMemory [length (memories (ac_module ctx))..<length (memories (ac_module ctx)) + length ts]) ctx)"
  (is "feed _ ?evs _ = _")
proof -
  let ?n = "length (memories (ac_module ctx))"
  let ?P = "\<lambda>i. extend (memories_update (\<lambda>xs. xs @ map resolved_memory (take i ts))) (map FieldMemory [?n..<?n + i]) ctx"
  have "feed ast_member ?evs (?P 0) = Some (?P (length ts))"
    by (rule feed_vec_section) (simp_all add: on_memory_def state_simps resolved_memory_def fun_eq_iff)
  then show ?thesis by simp
qed

text \<open>Items whose callbacks have conditions on the module read so far.\<close>

lemma shared_decl_resolved:
  "func_types m' = map resolved_func_type (func_types m) \<Longrightarrow> unat i < length (func_types m) \<Longrightarrow> shared_decl i m' = shared_decl i m"
  by (simp add: shared_decl_def resolved_func_type_def)

lemma feed_functions_section:
  assumes types: "func_types (ac_module ctx) = map resolved_func_type (func_types m)"
    and idx: "\<And>func. func \<in> set fs \<Longrightarrow> unat (decl_index m func) < length (func_types m)"
  shows "feed ast_member (vec_section_events code (\<lambda>sz. Function_event (Begin_function_signatures_section sz))
       (\<lambda>n. Function_event (On_function_signatures_count n)) (Function_event End_function_signatures_section)
       (function_sig_events m) enc fs) ctx =
   Some (extend (funcs_update (\<lambda>xs. xs @ map (declared_func m) fs))
     (map FieldFunc [length (funcs (ac_module ctx))..<length (funcs (ac_module ctx)) + length fs]) ctx)"
  (is "feed _ ?evs _ = _")
proof -
  let ?n = "length (funcs (ac_module ctx))"
  let ?P = "\<lambda>i. extend (funcs_update (\<lambda>xs. xs @ map (declared_func m) (take i fs))) (map FieldFunc [?n..<?n + i]) ctx"
  have "feed ast_member ?evs (?P 0) = Some (?P (length fs))"
    by (rule feed_vec_section)
      (simp_all add: function_sig_events_def decl_index_def [symmetric] on_function_signature_def state_simps declared_func_def
        shared_decl_resolved types idx fun_eq_iff)
  then show ?thesis by simp
qed

lemma feed_exports_section:
  assumes "\<And>ex. ex \<in> set exs \<Longrightarrow> unat (word_of_int (export_index m ex) :: u32) < kind_size (export_kind ex) (ac_module ctx)"
    and "\<And>ex. ex \<in> set exs \<Longrightarrow> 0 \<notin> set (slice_bytes (export_name ex))"
  shows "feed ast_member (vec_section_events code (\<lambda>sz. Export_event (Begin_export_section sz))
       (\<lambda>n. Export_event (On_export_count n)) (Export_event End_export_section) (export_events m) enc exs) ctx =
   Some (extend (exports_update (\<lambda>xs. xs @ map (resolved_export m) exs))
     (map FieldExport [length (exports (ac_module ctx))..<length (exports (ac_module ctx)) + length exs]) ctx)"
  (is "feed _ ?evs _ = _")
proof -
  let ?n = "length (exports (ac_module ctx))"
  let ?P = "\<lambda>i. extend (exports_update (\<lambda>xs. xs @ map (resolved_export m) (take i exs))) (map FieldExport [?n..<?n + i]) ctx"
  have kind: "kind_size k (exports_update f mo) = kind_size k mo" for k f mo
    by (simp add: kind_size_def split: WasmExternalKind.split)
  have "feed ast_member ?evs (?P 0) = Some (?P (length exs))"
    by (rule feed_vec_section)
      (simp_all add: export_events_def on_export_def state_simps resolved_export_def wasm_dup_string_slice_def check_dup_def
        dup_overruns_def Let_def kind assms fun_eq_iff comp_def)
  then show ?thesis by simp
qed

subsection \<open>Sections with initializer expressions\<close>

lemma feed_init:
  assumes "wf_init es"
  shows "feed ast_member (init_events m i es) ctx =
    Some (if es = [] then ctx else snd (set_init_expr (hd (resolved_init m es)) ctx))"
  using assms
proof (cases es rule: wf_init.cases)
  case (2 k)
  then show ?thesis
    by (cases k) (simp_all add: on_init_expr_i32_const_expr_def on_init_expr_i64_const_expr_def
        on_init_expr_f32_const_expr_def on_init_expr_f64_const_expr_def set_init_expr_def)
next
  case (3 v)
  then show ?thesis by (simp add: on_init_expr_get_global_expr_def set_init_expr_def)
qed auto

lemma wf_init_resolved: "wf_init es \<Longrightarrow> es \<noteq> [] \<Longrightarrow> [hd (resolved_init m es)] = resolved_init m es"
  by (cases es rule: wf_init.cases) auto

lemma past_imports_nat: "n + i < 2 ^ 32 \<Longrightarrow> unat (past_imports n (u32_of_nat i)) = n + i"
  using unat_u32_of_nat [of "n + i"] by (simp add: past_imports_def of_nat_add)

lemma no_init_expr: "ac_current_init_expr ctx = None \<Longrightarrow> ctx\<lparr>ac_current_init_expr := None\<rparr> = ctx"
  by (cases ctx) simp

lemma feed_globals_section:
  assumes none: "ac_current_init_expr ctx = None"
    and n: "num_global_imports (ac_module ctx) = length (globals (ac_module ctx))"
      "length (globals (ac_module ctx)) + length gs < 2 ^ 32"
    and inits: "\<And>g. g \<in> set gs \<Longrightarrow> wf_init (global_init_expr g)"
  shows "feed ast_member (vec_section_events code (\<lambda>sz. Global_event (Begin_global_section sz))
       (\<lambda>n. Global_event (On_global_count n)) (Global_event End_global_section) (global_events m) enc gs) ctx =
   Some (extend (\<lambda>mo. mo\<lparr>globals := globals mo @ map (resolved_global m) gs\<rparr>)
     (map FieldGlobal [length (globals (ac_module ctx))..<length (globals (ac_module ctx)) + length gs]) ctx)"
  (is "feed _ ?evs _ = _")
proof -
  let ?old = "globals (ac_module ctx)"
  let ?P = "\<lambda>i. extend (\<lambda>mo. mo\<lparr>globals := ?old @ map (resolved_global m) (take i gs)\<rparr>)
      (map FieldGlobal [length ?old..<length ?old + i]) (ctx\<lparr>ac_current_init_expr := None\<rparr>)"
  have step: "feed ast_member (global_events m (u32_of_nat i) (gs ! i)) (?P i) = Some (?P (Suc i))" if i: "i < length gs" for i
  proof -
    have idx: "unat (past_imports (length ?old) (u32_of_nat i)) = length ?old + i" using n(2) i by (intro past_imports_nat) simp
    have "wf_init (global_init_expr (gs ! i))" using inits i by simp
    then show ?thesis
      using i wf_init_resolved [of "global_init_expr (gs ! i)" m]
      by (simp add: global_events_def feed_append feed_init begin_global_def begin_global_init_expr_def
          end_global_init_expr_def set_init_expr_def is_last_def idx n(1) state_simps resolved_global_def declared_global_def
          Let_def nth_append list_update_append)
  qed
  have "feed ast_member ?evs (?P 0) = Some (?P (length gs))"
    by (rule feed_vec_section [OF step]) (simp_all add: fun_eq_iff)
  then show ?thesis by (simp add: no_init_expr [OF none]) (simp add: extend_def)
qed

lemma feed_data_section:
  assumes none: "ac_current_init_expr ctx = None"
    and n: "data_segments (ac_module ctx) = []" "length segs < 2 ^ 32"
    and inits: "\<And>seg. seg \<in> set segs \<Longrightarrow> wf_init (data_offset seg)"
  shows "feed ast_member (vec_section_events code (\<lambda>sz. Data_event (Begin_data_section sz))
       (\<lambda>n. Data_event (On_data_segment_count n)) (Data_event End_data_section) (data_events m) enc segs) ctx =
   Some (extend (\<lambda>mo. mo\<lparr>data_segments := map (resolved_data m) segs\<rparr>) (map FieldDataSegment [0..<length segs]) ctx)"
  (is "feed _ ?evs _ = _")
proof -
  let ?P = "\<lambda>i. extend (\<lambda>mo. mo\<lparr>data_segments := map (resolved_data m) (take i segs)\<rparr>)
      (map FieldDataSegment [0..<i]) (ctx\<lparr>ac_current_init_expr := None\<rparr>)"
  have step: "feed ast_member (data_events m (u32_of_nat i) (segs ! i)) (?P i) = Some (?P (Suc i))" if i: "i < length segs" for i
  proof -
    have idx: "unat (u32_of_nat i) = i" using n(2) i by (intro unat_u32_of_nat) simp
    have "wf_init (data_offset (segs ! i))" using inits i by simp
    then show ?thesis
      using i wf_init_resolved [of "data_offset (segs ! i)" m]
      by (simp add: data_events_def feed_append feed_init begin_data_segment_def begin_data_segment_init_expr_def
          end_data_segment_init_expr_def on_data_segment_data_def set_init_expr_def is_last_def idx state_simps resolved_data_def
          Let_def nth_append list_update_append)
  qed
  have "feed ast_member ?evs (?P 0) = Some (?P (length segs))"
    by (rule feed_vec_section [OF step]) (simp_all add: fun_eq_iff)
  then show ?thesis by (simp add: no_init_expr [OF none] n(1))
qed

lemma feed_elem_vars:
  assumes "unat k = length segs"
  shows "feed ast_member (for_events (\<lambda>j var. [Elem_event (On_elem_segment_function_index k (f var))]) vars)
      (extend (\<lambda>mo. mo\<lparr>elem_segments := segs @ [seg\<lparr>elem_vars := []\<rparr>]\<rparr>) fs ctx) =
    Some (extend (\<lambda>mo. mo\<lparr>elem_segments := segs @ [seg\<lparr>elem_vars := map (\<lambda>var. index_var (f var)) vars\<rparr>]\<rparr>) fs ctx)"
proof -
  let ?P = "\<lambda>j. extend (\<lambda>mo. mo\<lparr>elem_segments := segs @ [seg\<lparr>elem_vars := map (\<lambda>var. index_var (f var)) (take j vars)\<rparr>]\<rparr>) fs ctx"
  have "feed ast_member (for_events (\<lambda>j var. [Elem_event (On_elem_segment_function_index k (f var))]) vars) (?P 0) =
      Some (?P (length vars))"
    by (rule feed_for_events)
      (simp add: on_elem_segment_function_index_def is_last_def assms state_simps nth_append list_update_append)
  then show ?thesis by simp
qed

lemma feed_elems_section:
  assumes none: "ac_current_init_expr ctx = None"
    and n: "elem_segments (ac_module ctx) = []" "length segs < 2 ^ 32"
    and inits: "\<And>seg. seg \<in> set segs \<Longrightarrow> wf_init (elem_offset seg)"
  shows "feed ast_member (vec_section_events code (\<lambda>sz. Elem_event (Begin_elem_section sz))
       (\<lambda>n. Elem_event (On_elem_segment_count n)) (Elem_event End_elem_section) (elem_events m) enc segs) ctx =
   Some (extend (\<lambda>mo. mo\<lparr>elem_segments := map (resolved_elem m) segs\<rparr>) (map FieldElemSegment [0..<length segs]) ctx)"
  (is "feed _ ?evs _ = _")
proof -
  let ?c = "ctx\<lparr>ac_current_init_expr := None\<rparr>"
  let ?P = "\<lambda>i. extend (\<lambda>mo. mo\<lparr>elem_segments := map (resolved_elem m) (take i segs)\<rparr>) (map FieldElemSegment [0..<i]) ?c"
  have step: "feed ast_member (elem_events m (u32_of_nat i) (segs ! i)) (?P i) = Some (?P (Suc i))" if i: "i < length segs" for i
  proof -
    let ?seg = "segs ! i" and ?i = "u32_of_nat i"
    let ?tv = "word_of_int (wasm_get_table_index_by_var m (elem_table_var ?seg)) :: u32"
    let ?new = "\<lparr>elem_table_var = index_var ?tv, elem_offset = resolved_init m (elem_offset ?seg), elem_vars = []\<rparr>"
    let ?c1 = "extend (\<lambda>mo. mo\<lparr>elem_segments := map (resolved_elem m) (take i segs) @ [?new\<lparr>elem_vars := []\<rparr>]\<rparr>)
        (map FieldElemSegment [0..<Suc i]) ?c"
    have idx: "unat ?i = i" using n(2) i by (intro unat_u32_of_nat) simp
    have "wf_init (elem_offset ?seg)" using inits i by simp
    let ?head = "[Elem_event (Begin_elem_segment ?i ?tv), Elem_event (Begin_elem_segment_init_expr ?i)]
        @ init_events m ?i (elem_offset ?seg)
        @ [Elem_event (End_elem_segment_init_expr ?i), Elem_event (On_elem_segment_function_index_count ?i (u32_of_nat (length (elem_vars ?seg))))]"
    let ?vars = "for_events (\<lambda>j var. [Elem_event (On_elem_segment_function_index ?i (word_of_int (wasm_get_func_index_by_var m var)))])
        (elem_vars ?seg)"
    have "wf_init (elem_offset ?seg)" using inits i by simp
    then have "feed ast_member ?head (?P i) = Some ?c1"
      using i wf_init_resolved [of "elem_offset ?seg" m]
      by (simp add: feed_append feed_init begin_elem_segment_def begin_elem_segment_init_expr_def
          end_elem_segment_init_expr_def on_elem_segment_function_index_count_def set_init_expr_def is_last_def idx state_simps
          Let_def nth_append list_update_append)
    moreover have "feed ast_member ?vars ?c1 = Some (?P (Suc i))"
      by (subst feed_elem_vars) (use i idx in \<open>simp_all add: resolved_elem_def take_step\<close>)
    moreover have "elem_events m ?i ?seg = ?head @ ?vars @ [Elem_event (End_elem_segment ?i)]" by (simp add: elem_events_def)
    ultimately show ?thesis by (simp only: feed_append) (simp add: take_step)
  qed
  have "feed ast_member ?evs (?P 0) = Some (?P (length segs))"
    by (rule feed_vec_section [OF step]) (simp_all add: fun_eq_iff)
  then show ?thesis by (simp add: no_init_expr [OF none] n(1))
qed

lemma feed_start_section:
  assumes "case start m of None \<Rightarrow> True | Some var \<Rightarrow> wasm_get_func_index_by_var m var = - 1
      \<or> unat (word_of_int (wasm_get_func_index_by_var m var) :: u32) < length (funcs (ac_module ctx))"
    and "start (ac_module ctx) = None"
  shows "feed ast_member (start_section_events m) ctx =
    Some (extend (\<lambda>mo. mo\<lparr>start := resolved_start m\<rparr>) (case resolved_start m of None \<Rightarrow> [] | Some var \<Rightarrow> [FieldStart var]) ctx)"
  using assms
  by (auto simp: start_section_events_def resolved_start_def Let_def on_start_function_def state_simps comp_def
      split: option.splits)

subsection \<open>Imports\<close>

text \<open>The part of the module that the imports fill.\<close>

definition with_imports :: "WasmModule \<Rightarrow> WasmImport list \<Rightarrow> WasmModule \<Rightarrow> WasmModule" where
  "with_imports m ims mo = mo
     \<lparr>imports_vec := map (resolved_import m) ims,
      funcs := import_funcs m ims, num_func_imports := length (import_funcs m ims),
      tables := import_tables ims, num_table_imports := length (import_tables ims),
      memories := import_memories ims, num_memory_imports := length (import_memories ims),
      globals := import_globals ims, num_global_imports := length (import_globals ims)\<rparr>"

definition no_imports :: "WasmModule \<Rightarrow> bool" where
  "no_imports mo \<longleftrightarrow> with_imports mo [] mo = mo"

definition names_ok :: "WasmModule \<Rightarrow> bool" where
  "names_ok m \<longleftrightarrow>
     list_all (\<lambda>im. 0 \<notin> set (slice_bytes (import_module_name im)) \<and> 0 \<notin> set (slice_bytes (import_field_name im))) (imports_vec m)
     \<and> list_all (\<lambda>ex. 0 \<notin> set (slice_bytes (export_name ex))) (exports m)"

lemma feed_imports_section:
  assumes types: "func_types (ac_module ctx) = map resolved_func_type (func_types m)"
    and none: "no_imports (ac_module ctx)" and len: "length ims < 2 ^ 32"
    and idx: "\<And>im func. im \<in> set ims \<Longrightarrow> import_desc im = ImportFunc func \<Longrightarrow> unat (decl_index m func) < length (func_types m)"
    and names: "\<And>im. im \<in> set ims \<Longrightarrow> 0 \<notin> set (slice_bytes (import_module_name im)) \<and> 0 \<notin> set (slice_bytes (import_field_name im))"
  shows "feed ast_member (vec_section_events code (\<lambda>sz. Import_event (Begin_import_section sz))
       (\<lambda>n. Import_event (On_import_count n)) (Import_event End_import_section) (import_events m) enc ims) ctx =
   Some (extend (with_imports m ims) (map FieldImport [0..<length ims]) ctx)"
  (is "feed _ ?evs _ = _")
proof -
  let ?P = "\<lambda>i. extend (with_imports m (take i ims)) (map FieldImport [0..<i]) ctx"
  have step: "feed ast_member (import_events m (u32_of_nat i) (ims ! i)) (?P i) = Some (?P (Suc i))" if i: "i < length ims" for i
  proof -
    have u: "unat (u32_of_nat i) = i" using len i by (intro unat_u32_of_nat) simp
    note facts = u names [OF nth_mem [OF i]] idx [OF nth_mem [OF i]] types
    note defs = import_events_def import_desc_event_def on_import_def on_import_func_def on_import_table_def on_import_memory_def
      on_import_global_def set_import_def with_imports_def state_simps check_dup_def dup_overruns_def wasm_dup_string_slice_def
      is_last_def Let_def resolved_import_def resolved_desc_def import_funcs_def import_tables_def import_memories_def import_globals_def
      take_Suc_conv_app_nth [OF i]
    show ?thesis
    proof (cases "import_desc (ims ! i)")
      case (ImportFunc func)
      with i show ?thesis
        by (simp add: defs facts decl_index_def [symmetric] declared_func_def shared_decl_resolved nth_append list_update_append)
    next
      case (ImportTable t)
      with i show ?thesis by (simp add: defs facts resolved_table_def nth_append list_update_append)
    next
      case (ImportMemory t)
      with i show ?thesis by (simp add: defs facts resolved_memory_def nth_append list_update_append)
    next
      case (ImportGlobal g)
      with i show ?thesis by (simp add: defs facts declared_global_def nth_append list_update_append)
    qed
  qed
  have "feed ast_member ?evs (?P 0) = Some (?P (length ims))"
    by (rule feed_vec_section [OF step]) (simp_all add: fun_eq_iff)
  moreover have "?P 0 = ctx" using none by (simp add: no_imports_def with_imports_def import_funcs_def extend_def)
  ultimately show ?thesis by simp
qed

subsection \<open>Function bodies\<close>

lemma type_runs_concat: "concat (map (\<lambda>r. replicate (fst r) (snd r)) (type_runs ts)) = ts"
  by (induction ts rule: type_runs.induct) (auto split: list.splits)

lemma type_runs_le: "r \<in> set (type_runs ts) \<Longrightarrow> fst r \<le> length ts"
  by (induction ts arbitrary: r rule: type_runs.induct) (fastforce split: list.splits if_splits)+

lemma set_func_twice [simp]: "set_func k f (set_func k g mo) = set_func k (f \<circ> g) mo"
  by (cases "k < length (funcs mo)") (simp_all add: set_func_def list_update_beyond)

lemma on_module_twice [simp]: "on_module f (on_module g ctx) = on_module (f \<circ> g) ctx"
  by (simp add: on_module_def)

lemma feed_locals:
  assumes "ac_current_func ctx = Some k" "length ts < 2 ^ 32"
  shows "feed ast_member (locals_events ts) ctx = Some (on_module (set_func k (local_types_update (\<lambda>xs. xs @ ts))) ctx)"
proof -
  let ?runs = "\<lambda>i. concat (map (\<lambda>r. replicate (fst r) (snd r)) (take i (type_runs ts)))"
  let ?P = "\<lambda>i. on_module (set_func k (local_types_update (\<lambda>xs. xs @ ?runs i))) ctx"
  have step: "feed ast_member (local_decl_events (u32_of_nat i) (type_runs ts ! i)) (?P i) = Some (?P (Suc i))"
    if i: "i < length (type_runs ts)" for i
  proof -
    have "unat (u32_of_nat (fst (type_runs ts ! i))) = fst (type_runs ts ! i)"
      using type_runs_le [OF nth_mem [OF i]] assms(2) by (intro unat_u32_of_nat) simp
    with i assms(1) show ?thesis
      by (simp add: local_decl_events_def on_local_decl_def on_module_def comp_def take_Suc_conv_app_nth)
  qed
  have "feed ast_member (for_events local_decl_events (type_runs ts)) (?P 0) = Some (?P (length (type_runs ts)))"
    by (rule feed_for_events [OF step])
  moreover have same: "local_types_update (\<lambda>xs. xs) func = func" for func :: WasmFunc by (cases func) simp
  have "?P 0 = ctx" by (simp add: on_module_def set_func_def same)
  ultimately show ?thesis by (simp add: locals_events_def type_runs_concat)
qed

text \<open>One body, in a state whose \<open>k\<close>-th function is declared and still empty.\<close>

lemma feed_function:
  assumes k: "unat (past_imports (num_func_imports (ac_module ctx)) i) = k" "k < length (funcs (ac_module ctx))"
      "unat i < length (funcs (ac_module ctx))"
    and func: "funcs (ac_module ctx) ! k = declared_func m func"
    and wf: "wf_func nf ns m func" and bounds: "in_bounds nf ns ctx" and cur: "ac_current_func ctx = None"
  shows "feed ast_member (function_events m i func) ctx = Some (on_module (set_func k (\<lambda>_. resolved_func m func)) ctx)"
proof -
  let ?c1 = "push_label LABEL_TYPE_FUNC (Slot k []) (ctx\<lparr>ac_current_func := Some k\<rparr>)"
  let ?c2 = "on_module (set_func k (local_types_update (\<lambda>xs. xs @ local_types func))) ?c1"
  let ?c3 = "grow k [] (map (resolved_expr m (Some func)) (first_expr func)) ?c2"
  have "ast_member (Code_event (Begin_function_body i)) ctx = (WASM_OK, ?c1)"
    using k by (simp add: begin_function_body_def Let_def ast_assert_def)
  moreover have "feed ast_member (locals_events (local_types func)) ?c1 = Some ?c2"
    using wf by (intro feed_locals) (simp_all add: push_label_def wf_func_def wf_locals_def)
  moreover have "feed ast_member (exprs_events m (Some func) (first_expr func)) ?c2 = Some ?c3"
  proof (rule feed_exprs)
    show "open_at k [] ?c2" using k(2) by (simp add: open_at_def on_module_def set_func_def push_label_def)
    show "in_bounds nf ns ?c2" using bounds by (simp add: in_bounds_def on_module_def set_func_def push_label_def)
    show "list_all (wf_expr m nf ns) (first_expr func)" using wf by (simp add: wf_func_def)
  qed
  moreover have "ast_member (Code_event (End_function_body i)) ?c3 = (WASM_OK, on_module (set_func k (\<lambda>_. resolved_func m func)) ctx)"
    using k(2) cur func
    by (cases ctx) (simp add: end_function_body_def pop_label_def grow_alt on_module_def set_func_def push_label_def func_body_def
        declared_func_def zero_func_def resolved_func_def)
  ultimately show ?thesis by (simp add: function_events_def feed_append)
qed


lemma feed_code_section:
  assumes old: "funcs (ac_module ctx) = imported @ map (declared_func m) fs"
    and n: "num_func_imports (ac_module ctx) = length imported" "length imported + length fs < 2 ^ 32"
    and wf: "\<And>func. func \<in> set fs \<Longrightarrow> wf_func nf ns m func" and bounds: "in_bounds nf ns ctx" and cur: "ac_current_func ctx = None"
  shows "feed ast_member (vec_section_events code (\<lambda>sz. Code_event (Begin_function_bodies_section sz))
       (\<lambda>n. Code_event (On_function_bodies_count n)) (Code_event End_function_bodies_section) (function_events m) enc fs) ctx =
   Some (extend (\<lambda>mo. mo\<lparr>funcs := imported @ map (resolved_func m) fs\<rparr>) [] ctx)"
  (is "feed _ ?evs _ = _")
proof -
  let ?fs = "\<lambda>i. imported @ map (resolved_func m) (take i fs) @ map (declared_func m) (drop i fs)"
  let ?P = "\<lambda>i. extend (\<lambda>mo. mo\<lparr>funcs := ?fs i\<rparr>) [] ctx"
  have step: "feed ast_member (function_events m (u32_of_nat i) (fs ! i)) (?P i) = Some (?P (Suc i))" if i: "i < length fs" for i
  proof -
    let ?k = "length imported + i"
    have "feed ast_member (function_events m (u32_of_nat i) (fs ! i)) (?P i) =
        Some (on_module (set_func ?k (\<lambda>_. resolved_func m (fs ! i))) (?P i))"
    proof (rule feed_function)
      show "unat (past_imports (num_func_imports (ac_module (?P i))) (u32_of_nat i)) = ?k"
        using n i by (simp add: past_imports_nat)
      show "unat (u32_of_nat i) < length (funcs (ac_module (?P i)))"
        using n i by (subst unat_u32_of_nat) simp_all
      show "in_bounds nf ns (?P i)" using bounds old i by (simp add: in_bounds_def)
      show "ac_current_func (?P i) = None" using cur by (simp add: extend_def)
    qed (use i wf in \<open>simp_all add: nth_append\<close>)
    moreover have "(?fs i)[?k := resolved_func m (fs ! i)] = ?fs (Suc i)"
      using i by (simp add: list_update_append take_step Cons_nth_drop_Suc [symmetric])
    ultimately show ?thesis by (simp add: extend_def on_module_def set_func_def)
  qed
  have P0: "?P 0 = ctx" using old by (simp add: extend_def)
  have "feed ast_member ?evs (?P 0) = Some (?P (length fs))"
  proof (rule feed_vec_section [OF step])
    have "unat (past_imports (length imported) (u32_of_nat (length fs))) = length imported + length fs"
      using n(2) by (rule past_imports_nat)
    then show "ast_member (Code_event (On_function_bodies_count (u32_of_nat (length fs)))) (?P 0) = (WASM_OK, ?P 0)"
      by (simp add: on_function_bodies_count_def Let_def P0 old n(1) ast_assert_def)
  qed (simp_all add: fun_eq_iff)
  with P0 show ?thesis by simp
qed

subsection \<open>The whole module\<close>

text \<open>The reader between two sections, with the module built so far.\<close>

definition between :: "WasmModule \<Rightarrow> AstContext \<Rightarrow> bool" where
  "between mo ctx \<longleftrightarrow>
     ac_module ctx = mo \<and> ac_current_init_expr ctx = None \<and> ac_current_func ctx = None \<and> ac_label_stack ctx = []
     \<and> ac_errors ctx = [] \<and> \<not> ac_undefined ctx"

definition builds :: "WasmReaderEvent list \<Rightarrow> WasmModule \<Rightarrow> WasmModule \<Rightarrow> bool" where
  "builds evs mo mo' \<longleftrightarrow> (\<forall>ctx. between mo ctx \<longrightarrow> (\<exists>ctx'. feed ast_member evs ctx = Some ctx' \<and> between mo' ctx'))"

lemma builds_append: "builds xs mo1 mo2 \<Longrightarrow> builds ys mo2 mo3 \<Longrightarrow> builds (xs @ ys) mo1 mo3"
  unfolding builds_def feed_append by fastforce

lemma buildsI:
  assumes "\<And>ctx. between mo ctx \<Longrightarrow> feed ast_member evs ctx = Some (extend f (fs ctx) ctx)" "f mo = mo'"
  shows "builds evs mo mo'"
  unfolding builds_def
proof (intro allI impI)
  fix ctx assume st: "between mo ctx"
  then have "between mo' (extend f (fs ctx) ctx)" using assms(2) by (simp add: between_def extend_def)
  with assms(1) [OF st] show "\<exists>ctx'. feed ast_member evs ctx = Some ctx' \<and> between mo' ctx'" by blast
qed

lemma import_items_length:
  "length (import_funcs m ims) = length (filter (\<lambda>im. import_kind im = WASM_EXTERNAL_KIND_FUNC) ims)"
  "length (import_tables ims) = length (filter (\<lambda>im. import_kind im = WASM_EXTERNAL_KIND_TABLE) ims)"
  "length (import_memories ims) = length (filter (\<lambda>im. import_kind im = WASM_EXTERNAL_KIND_MEMORY) ims)"
  "length (import_globals ims) = length (filter (\<lambda>im. import_kind im = WASM_EXTERNAL_KIND_GLOBAL) ims)"
  by (induction ims) (auto simp: import_funcs_def import_tables_def import_memories_def import_globals_def import_kind_def
      split: WasmImportDesc.splits)

text \<open>The module before the sections that refer to its functions, tables, memories and globals.\<close>

definition typed_module :: "WasmModule \<Rightarrow> WasmModule" where
  "typed_module m = empty_module\<lparr>func_types := map resolved_func_type (func_types m)\<rparr>"

definition declared_module :: "WasmModule \<Rightarrow> WasmModule" where
  "declared_module m = (with_imports m (imports_vec m) (typed_module m))
     \<lparr>funcs := import_funcs m (imports_vec m) @ map (declared_func m) (defined_funcs m),
      tables := import_tables (imports_vec m) @ map resolved_table (defined_tables m),
      memories := import_memories (imports_vec m) @ map resolved_memory (defined_memories m),
      globals := import_globals (imports_vec m) @ map (resolved_global m) (defined_globals m)\<rparr>"

lemma wf_items_decl_index:
  assumes "wf_module wopts m"
  shows "func \<in> set (defined_funcs m) \<Longrightarrow> unat (decl_index m func) < length (func_types m)"
    and "im \<in> set (imports_vec m) \<Longrightarrow> import_desc im = ImportFunc func \<Longrightarrow> unat (decl_index m func) < length (func_types m)"
  using assms unat_u32_of_nat [of "length (func_types m)"]
  by (auto simp: wf_module_def wf_sizes_def wf_items_def list_all_iff wf_func_def wf_import_def total_sigs_def decl_index_def
      word_less_nat_alt)

lemma declared_module_sizes:
  assumes "wf_module wopts m"
  shows "length (funcs (declared_module m)) = length (funcs m)" "length (tables (declared_module m)) = length (tables m)"
    "length (memories (declared_module m)) = length (memories m)" "length (globals (declared_module m)) = length (globals m)"
    "num_func_imports (declared_module m) = num_func_imports m" "num_table_imports (declared_module m) = num_table_imports m"
    "num_memory_imports (declared_module m) = num_memory_imports m" "num_global_imports (declared_module m) = num_global_imports m"
  using assms
  by (simp_all add: wf_module_def wf_sizes_def declared_module_def with_imports_def import_items_length imports_of_def
      defined_funcs_def defined_tables_def defined_memories_def defined_globals_def)

lemma builds_declarations:
  assumes wf: "wf_module wopts m" and names: "names_ok m"
  shows "builds (concat (take 6 (section_events wopts ropts m))) empty_module (declared_module m)"
proof -
  let ?M2 = "with_imports m (imports_vec m) (typed_module m)"
  let ?M3 = "?M2\<lparr>funcs := funcs ?M2 @ map (declared_func m) (defined_funcs m)\<rparr>"
  let ?M4 = "?M3\<lparr>tables := tables ?M3 @ map resolved_table (defined_tables m)\<rparr>"
  let ?M5 = "?M4\<lparr>memories := memories ?M4 @ map resolved_memory (defined_memories m)\<rparr>"
  let ?E = "\<lambda>i. section_events wopts ropts m ! i"
  have types: "func_types ?M2 = map resolved_func_type (func_types m)" "func_types (typed_module m) = map resolved_func_type (func_types m)"
    by (simp_all add: with_imports_def typed_module_def)
  have "builds (?E 0) empty_module (typed_module m)"
    by (simp add: section_events_def, rule buildsI [OF feed_types_section])
      (simp add: between_def empty_module_def typed_module_def)
  moreover have "builds (?E 1) (typed_module m) ?M2"
  proof (simp add: section_events_def, rule buildsI [OF feed_imports_section refl])
    show "no_imports (ac_module ctx)" if "between (typed_module m) ctx" for ctx
      using that by (simp add: between_def typed_module_def no_imports_def with_imports_def empty_module_def import_funcs_def
          import_tables_def import_memories_def import_globals_def)
    show "length (imports_vec m) < 2 ^ 32" using wf by (simp add: wf_module_def wf_sizes_def)
  qed (use names types(2) in \<open>auto simp: between_def names_ok_def list_all_iff intro: wf_items_decl_index [OF wf]\<close>)
  moreover have "builds (?E 2) ?M2 ?M3"
    by (simp add: section_events_def, rule buildsI [OF feed_functions_section])
      (auto simp: between_def types wf_items_decl_index [OF wf])
  moreover have "builds (?E 3) ?M3 ?M4"
    by (simp add: section_events_def, rule buildsI [OF feed_tables_section]) simp
  moreover have "builds (?E 4) ?M4 ?M5"
    by (simp add: section_events_def, rule buildsI [OF feed_memories_section]) simp
  moreover have "builds (?E 5) mo (mo\<lparr>globals := globals mo @ map (resolved_global m) (defined_globals m)\<rparr>)"
    if "num_global_imports mo = length (globals mo)" "length (globals mo) + length (defined_globals m) < 2 ^ 32" for mo
    by (simp add: section_events_def, rule buildsI [OF feed_globals_section refl])
      (use that wf in \<open>auto simp: between_def wf_module_def wf_items_def list_all_iff\<close>)
  from this [of ?M5] have "builds (?E 5) ?M5 (declared_module m)"
    using wf by (simp add: with_imports_def declared_module_def import_items_length wf_module_def wf_sizes_def imports_of_def defined_globals_def)
  ultimately have "builds (?E 0 @ ?E 1 @ ?E 2 @ ?E 3 @ ?E 4 @ ?E 5) empty_module (declared_module m)"
    by (blast intro: builds_append)
  then show ?thesis by (simp add: section_events_def)
qed

lemma kind_size_declared:
  assumes "wf_module wopts m"
  shows "kind_size kind (declared_module m) = unat (export_bound m kind)"
  using assms
  by (cases kind) (simp_all only: kind_size_def export_bound_def declared_module_sizes [OF assms] WasmExternalKind.case
      unat_u32_of_nat wf_module_def wf_sizes_def)

lemma builds_definitions:
  assumes wf: "wf_module wopts m" and names: "names_ok m"
  shows "builds (concat (take 5 (drop 6 (section_events wopts ropts m)))) (declared_module m) (resolved_module m)"
proof -
  let ?M7 = "(declared_module m)\<lparr>exports := map (resolved_export m) (exports m)\<rparr>"
  let ?M8 = "?M7\<lparr>start := resolved_start m\<rparr>"
  let ?M9 = "?M8\<lparr>elem_segments := map (resolved_elem m) (elem_segments m)\<rparr>"
  let ?M10 = "?M9\<lparr>funcs := import_funcs m (imports_vec m) @ map (resolved_func m) (defined_funcs m)\<rparr>"
  let ?E = "\<lambda>i. section_events wopts ropts m ! i"
  note sizes = declared_module_sizes [OF wf]
  have empty: "exports (declared_module m) = []" "start (declared_module m) = None" "elem_segments (declared_module m) = []"
    "data_segments (declared_module m) = []" by (simp_all add: declared_module_def with_imports_def typed_module_def empty_module_def)
  have lens: "length (elem_segments m) < 2 ^ 32" "length (data_segments m) < 2 ^ 32" "length (funcs m) < 2 ^ 32"
    "length (func_types m) < 2 ^ 32" using wf by (simp_all add: wf_module_def wf_sizes_def)
  have items: "wf_items m" using wf by (simp add: wf_module_def)
  have "builds (?E 6) (declared_module m) ?M7"
  proof (simp add: section_events_def, rule buildsI [OF feed_exports_section])
    show "unat (word_of_int (export_index m ex) :: u32) < kind_size (export_kind ex) (ac_module ctx)"
      if "between (declared_module m) ctx" "ex \<in> set (exports m)" for ctx ex
      using that items by (simp add: between_def kind_size_declared [OF wf] wf_items_def list_all_iff word_less_nat_alt)
  qed (use names empty in \<open>auto simp: names_ok_def list_all_iff\<close>)
  moreover have "builds (?E 7) ?M7 ?M8"
  proof (simp add: section_events_def, rule buildsI [OF feed_start_section refl])
    show "case start m of None \<Rightarrow> True | Some var \<Rightarrow> wasm_get_func_index_by_var m var = - 1
      \<or> unat (word_of_int (wasm_get_func_index_by_var m var) :: u32) < length (funcs (ac_module ctx))" if "between ?M7 ctx" for ctx
      using that items unat_u32_of_nat [OF lens(3)]
      by (auto simp: between_def sizes wf_items_def total_funcs_def word_less_nat_alt split: option.splits)
  qed (simp add: between_def empty)
  moreover have "builds (?E 8) ?M8 ?M9"
    by (simp add: section_events_def, rule buildsI [OF feed_elems_section refl])
      (use items lens in \<open>auto simp: between_def empty wf_items_def list_all_iff wf_elem_def\<close>)
  moreover have "builds (?E 9) ?M9 ?M10"
  proof (simp add: section_events_def, rule buildsI [OF feed_code_section [where nf = "total_funcs m" and ns = "total_sigs m"] refl])
    show "funcs (ac_module ctx) = import_funcs m (imports_vec m) @ map (declared_func m) (defined_funcs m)" if "between ?M9 ctx" for ctx
      using that by (simp add: between_def declared_module_def)
    show "in_bounds (total_funcs m) (total_sigs m) ctx" if "between ?M9 ctx" for ctx
      using that unat_u32_of_nat [OF lens(3)] unat_u32_of_nat [OF lens(4)]
      by (simp add: between_def in_bounds_def sizes total_funcs_def total_sigs_def)
        (simp add: declared_module_def with_imports_def typed_module_def)
    show "length (import_funcs m (imports_vec m)) + length (defined_funcs m) < 2 ^ 32"
      using wf by (simp add: import_items_length wf_module_def wf_sizes_def imports_of_def defined_funcs_def)
  qed (use items in \<open>auto simp: between_def declared_module_def with_imports_def wf_items_def list_all_iff\<close>)
  moreover have final: "?M10\<lparr>data_segments := map (resolved_data m) (data_segments m)\<rparr> = resolved_module m"
    using wf by (simp add: resolved_module_def declared_module_def with_imports_def typed_module_def import_items_length
        wf_module_def wf_sizes_def imports_of_def)
  have "builds (?E 10) ?M10 (resolved_module m)"
    unfolding final [symmetric]
    by (simp add: section_events_def, rule buildsI [OF feed_data_section refl])
      (use items lens in \<open>auto simp: between_def empty wf_items_def list_all_iff wf_data_def\<close>)
  ultimately have "builds (?E 6 @ ?E 7 @ ?E 8 @ ?E 9 @ ?E 10) (declared_module m) (resolved_module m)"
    by (blast intro: builds_append)
  then show ?thesis by (simp add: section_events_def)
qed

text \<open>Reading with the names ignored.\<close>

lemma feed_module_events:
  assumes wf: "wf_module wopts m" and names: "names_ok m" and "\<not> read_debug_names ropts"
  shows "\<exists>ctx. feed ast_member (module_events wopts ropts m) (init_ast_context junk) = Some ctx \<and> between (resolved_module m) ctx"
proof -
  have skip: "builds [Begin_module v] mo mo" "builds [End_module] mo mo" "builds (names_section_events wopts ropts m) mo mo" for v mo
    using assms(3) by (auto simp: builds_def names_section_events_def Let_def)
  let ?S = "section_events wopts ropts m"
  have split: "?S = take 6 ?S @ take 5 (drop 6 ?S) @ [names_section_events wopts ropts m]" by (simp add: section_events_def)
  have "builds (concat (take 6 ?S) @ concat (take 5 (drop 6 ?S)) @ names_section_events wopts ropts m) empty_module (resolved_module m)"
    by (rule builds_append [OF builds_declarations [OF wf names] builds_append [OF builds_definitions [OF wf names] skip(3)]])
  then have "builds (concat ?S) empty_module (resolved_module m)"
    by (subst split) (simp only: concat_append concat.simps append_Nil2)
  then have "builds (module_events wopts ropts m) empty_module (resolved_module m)"
    unfolding module_events_def by (intro builds_append [OF skip(1)] builds_append [OF _ skip(2)])
  then show ?thesis by (auto simp: builds_def between_def init_ast_context_def)
qed

end
