(* ===== verification/Wabt_Ast_Stable.thy ===== *)
theory Wabt_Ast_Stable
  imports Wabt_Ast_Read_Back
begin

text \<open>
  The module that is read back is written to the same bytes as the module it came from: what
  reading drops or normalises (names, labels, the spelling of a variable or an alignment) has no
  influence on the encoding.
\<close>

subsection \<open>Variables and alignments\<close>

lemma ucast_index [simp]: "(ucast (ucast (w :: u32) :: u64) :: u32) = w"
  by (rule bit_word_eqI) (auto simp: bit_simps)

lemma enc_index_var [simp]:
  "enc_index (wasm_get_index_from_var hash (index_var w)) = u32_leb128_bytes w"
  "enc_index (local_index f (index_var w)) = u32_leb128_bytes w"
  by (cases f; simp add: enc_index_def index_var_def)+

lemma label_depth_var [simp]: "get_label_var_depth (index_var w) = w"
  by (simp add: index_var_def)

lemma log2_u32_shift: "n < 32 \<Longrightarrow> log2_u32 (2 ^ n) = n"
proof -
  have "\<forall>n \<in> set [0..<32]. log2_u32 (2 ^ n) = n" by code_simp
  then show "n < 32 \<Longrightarrow> log2_u32 (2 ^ n) = n" by simp
qed

lemma shift_not_natural: "n < 32 \<Longrightarrow> 2 ^ n \<noteq> WASM_USE_NATURAL_ALIGNMENT"
proof -
  have "\<forall>n \<in> set [0..<32]. 2 ^ n \<noteq> WASM_USE_NATURAL_ALIGNMENT" by code_simp
  then show "n < 32 \<Longrightarrow> 2 ^ n \<noteq> WASM_USE_NATURAL_ALIGNMENT" by simp
qed

lemma access_log2_nat: "unat (access_log2 opcode align) = log2_u32 (wasm_get_opcode_alignment opcode align)"
  using log2_u32_bound [of "wasm_get_opcode_alignment opcode align"] by (simp add: access_log2_def unat_of_nat)

lemma enc_resolved_access:
  "enc_access opcode (shift_align (access_log2 opcode align)) (ucast (ucast off :: u32)) = enc_access opcode align off"
proof -
  let ?k = "log2_u32 (wasm_get_opcode_alignment opcode align)"
  have "wasm_get_opcode_alignment opcode (2 ^ ?k) = 2 ^ ?k"
    by (simp add: wasm_get_opcode_alignment_def [of opcode "2 ^ ?k"] shift_not_natural log2_u32_bound)
  then show ?thesis
    by (simp add: enc_access_def shift_align_def access_log2_nat log2_u32_shift log2_u32_bound)
qed

subsection \<open>Expressions and items\<close>

lemma enc_resolved_expr:
  "enc_expr m' f' (resolved_expr m f e) = enc_expr m f e"
  "enc_exprs m' f' (map (resolved_expr m f) es) = enc_exprs m f es"
  by (induction m f e and m f es rule: enc_expr_enc_exprs.induct)
    (auto simp: resolved_access_def enc_resolved_access wasm_get_func_index_by_var_def wasm_get_func_type_index_by_var_def
      wasm_get_global_index_by_var_def enc_index_def [symmetric] comp_def)

lemma enc_resolved_init: "enc_init m' (resolved_init m es) = enc_init m es"
  by (simp add: enc_init_def enc_resolved_expr)

lemma enc_limits_back: "enc_limits (limits_back l) = enc_limits l"
  by (simp add: enc_limits_def limits_back_def make_limits_def)

lemma enc_str_back [simp]: "enc_str (str_back s) = enc_str s"
  by (simp add: enc_str_def)

lemma enc_resolved_table: "enc_table (resolved_table t) = enc_table t"
  by (simp add: enc_table_def resolved_table_def enc_limits_back)

lemma enc_resolved_memory: "enc_memory (resolved_memory t) = enc_memory t"
  by (simp add: enc_memory_def resolved_memory_def enc_limits_back)

lemma enc_declared_global: "enc_global_header (declared_global g) = enc_global_header g"
  by (simp add: enc_global_header_def declared_global_def)

lemma enc_resolved_global: "enc_global m' (resolved_global m g) = enc_global m g"
  using enc_declared_global [of g]
  by (simp add: enc_global_def resolved_global_def enc_resolved_init enc_global_header_def)

lemma enc_declared_decl:
  "enc_index (wasm_get_func_type_index_by_decl m' (func_decl (declared_func m func)))
   = enc_index (wasm_get_func_type_index_by_decl m (func_decl func))"
  by (simp add: wasm_get_func_type_index_by_decl_def declared_func_def shared_decl_def wasm_get_func_type_index_by_var_def
      decl_index_def enc_index_def [symmetric])

lemma enc_resolved_import: "enc_import m' (resolved_import m im) = enc_import m im"
  by (simp add: enc_import_def resolved_import_def resolved_desc_def import_kind_def enc_declared_decl enc_resolved_table
      enc_resolved_memory enc_declared_global split: WasmImportDesc.split)

lemma enc_resolved_export: "enc_export m' (resolved_export m ex) = enc_export m ex"
  by (cases "export_kind ex")
    (simp_all add: enc_export_def resolved_export_def export_index_def wasm_get_func_index_by_var_def wasm_get_table_index_by_var_def
      wasm_get_memory_index_by_var_def wasm_get_global_index_by_var_def enc_index_def [symmetric])

lemma enc_resolved_elem: "enc_elem_segment m' (resolved_elem m seg) = enc_elem_segment m seg"
  by (simp add: enc_elem_segment_def resolved_elem_def enc_resolved_init wasm_get_table_index_by_var_def
      wasm_get_func_index_by_var_def enc_vec_def comp_def enc_index_def [symmetric])

lemma enc_resolved_data: "enc_data_segment m' (resolved_data m seg) = enc_data_segment m seg"
  by (simp add: enc_data_segment_def resolved_data_def enc_resolved_init wasm_get_memory_index_by_var_def enc_index_def [symmetric])

lemma enc_resolved_func: "enc_func m' (resolved_func m func) = enc_func m func"
  by (simp add: enc_func_def resolved_func_def enc_resolved_expr)

lemma func_decl_resolved: "func_decl (resolved_func m func) = func_decl (declared_func m func)"
  by (simp add: resolved_func_def)

lemma enc_resolved_func_type: "enc_func_type (resolved_func_type ft) = enc_func_type ft"
  by (simp add: enc_func_type_def resolved_func_type_def)

subsection \<open>Modules\<close>

lemma enc_vec_section_map:
  "(\<And>x. enc' (f x) = enc x) \<Longrightarrow> enc_vec_section opts code enc' (map f xs) = enc_vec_section opts code enc xs"
  by (simp add: enc_vec_section_def enc_vec_def comp_def)

lemma enc_resolved_start:
  assumes "wf_module wopts m"
  shows "enc_start_section opts (resolved_module m) = enc_start_section opts m"
proof (cases "start m")
  case (Some var)
  let ?i = "wasm_get_func_index_by_var m var"
  have "?i = - 1 \<or> word_of_int ?i < total_funcs m" using assms Some by (simp add: wf_module_def wf_items_def)
  then have "?i = - 1 \<or> (word_of_int ?i :: u32) \<noteq> - 1" using word_n1_ge [of "total_funcs m"] by (auto simp: not_less [symmetric])
  then have "?i = - 1 \<or> sint (word_of_int ?i :: u32) \<noteq> - 1"
    by (auto dest: arg_cong [where f = "word_of_int :: int \<Rightarrow> u32"])
  moreover have "wasm_get_func_index_by_var (resolved_module m) (int_var ?i) = sint (word_of_int ?i :: u32)"
    by (simp add: wasm_get_func_index_by_var_def index_var_def)
  moreover have "start (resolved_module m) = resolved_start m" by (simp add: resolved_module_def)
  ultimately show ?thesis using Some
    by (auto simp: enc_start_section_def resolved_start_def Let_def enc_index_def)
qed (simp add: enc_start_section_def resolved_module_def resolved_start_def)

lemma resolved_module_defined:
  assumes "wf_module wopts m"
  shows "defined_funcs (resolved_module m) = map (resolved_func m) (defined_funcs m)"
    "defined_tables (resolved_module m) = map resolved_table (defined_tables m)"
    "defined_memories (resolved_module m) = map resolved_memory (defined_memories m)"
    "defined_globals (resolved_module m) = map (resolved_global m) (defined_globals m)"
  using assms
  unfolding defined_funcs_def [of "resolved_module m"] defined_tables_def [of "resolved_module m"]
    defined_memories_def [of "resolved_module m"] defined_globals_def [of "resolved_module m"]
  by (simp_all add: resolved_module_def wf_module_def wf_sizes_def imports_of_def import_items_length)

lemma enc_resolved_module:
  assumes "wf_module wopts m" "\<not> write_debug_names opts"
  shows "enc_module opts (resolved_module m) = enc_module opts m"
proof -
  let ?r = "resolved_module m"
  have "func_types ?r = map resolved_func_type (func_types m)" "imports_vec ?r = map (resolved_import m) (imports_vec m)"
    "exports ?r = map (resolved_export m) (exports m)" "elem_segments ?r = map (resolved_elem m) (elem_segments m)"
    "data_segments ?r = map (resolved_data m) (data_segments m)" by (simp_all add: resolved_module_def)
  then have "enc_sections opts ?r = enc_sections opts m"
    by (simp add: enc_sections_def resolved_module_defined [OF assms(1)] enc_resolved_start [OF assms(1)] enc_names_section_def assms(2)
        enc_vec_section_map enc_resolved_func_type enc_resolved_import func_decl_resolved enc_declared_decl enc_resolved_table
        enc_resolved_memory enc_resolved_global enc_resolved_export enc_resolved_elem enc_resolved_func enc_resolved_data)
  then show ?thesis by (simp add: enc_module_def)
qed

end
