(* ===== verification/Wabt_Whole_Module.thy ===== *)
theory Wabt_Whole_Module
  imports Wabt_Sample Wabt_Ast_Stable
begin

text \<open>
  Whole modules through the memory writer and back through the reader objects, and the samples
  on which the theorems are evaluated.
\<close>

subsection \<open>Written modules\<close>

lemma wf_module_locals:
  assumes "wf_module opts m" "func \<in> set (defined_funcs m)"
  shows "WASM_TYPE_VOID \<notin> set (local_types func)"
proof -
  from assms have "list_all is_concrete_type (local_types func)"
    by (simp add: wf_module_def wf_items_def wf_func_def wf_locals_def list_all_iff)
  then show ?thesis by (auto simp: list_all_iff is_concrete_type_def)
qed

lemma mem_writer_start:
  "write_data (wasm_init_mem_writer junk) = Some write_data_to_output_buffer"
  "move_data (wasm_init_mem_writer junk) = move_data_in_output_buffer"
  "buf_wf (user_data (wasm_init_mem_writer junk))" "buf_contents (user_data (wasm_init_mem_writer junk)) = []"
  by (simp_all add: wasm_init_mem_writer_def mem_writer_of_def wasm_init_output_buffer_def buf_wf_def buf_contents_def
      INITIAL_OUTPUT_BUFFER_CAPACITY_def)

text \<open>The bytes a memory writer holds after \<open>wasm_write_binary_module\<close>.\<close>

definition written :: "(nat \<Rightarrow> byte) \<Rightarrow> WasmModule \<Rightarrow> WasmWriteBinaryOptions \<Rightarrow> byte list" where
  "written junk m opts = buf_contents (user_data (snd (wasm_write_binary_module (wasm_init_mem_writer junk) m opts)))"

lemma written_enc:
  assumes "\<forall>func \<in> set (defined_funcs m). WASM_TYPE_VOID \<notin> set (local_types func)" "length (enc_module opts m) < 2 ^ 32"
  shows "fst (wasm_write_binary_module (wasm_init_mem_writer junk) m opts) = WASM_OK" "written junk m opts = enc_module opts m"
  using mem_writer.wasm_write_binary_module_correct [OF assms mem_writer_start] unfolding written_def by blast+

lemma written_wf:
  assumes "wf_module opts m" "length (enc_module opts m) < 2 ^ 32"
  shows "written junk m opts = enc_module opts m"
  using written_enc [OF _ assms(2)] wf_module_locals [OF assms(1)] by blast

text \<open>A module that was read back is as good to write as the one it came from.\<close>

lemma written_resolved:
  assumes "wf_module wopts m" "length (enc_module opts m) < 2 ^ 32" "\<not> write_debug_names opts"
  shows "written junk (resolved_module m) opts = enc_module opts m"
proof -
  have "\<forall>func \<in> set (defined_funcs (resolved_module m)). WASM_TYPE_VOID \<notin> set (local_types func)"
    using wf_module_locals [OF assms(1)] by (auto simp: resolved_module_defined [OF assms(1)] resolved_func_def)
  with written_enc(2) [of "resolved_module m" opts junk] show ?thesis
    using assms(2) by (simp add: enc_resolved_module [OF assms(1,3)])
qed

subsection \<open>Read back by the AST reader\<close>

lemma s_binary_reader_plain: "s_binary_reader = plain_reader ast_on_error ast_member"
  by (simp add: s_binary_reader_def plain_reader_def)

lemma wasm_read_binary_ast_enc:
  assumes "wf_module wopts m" "names_ok m" "length (enc_module wopts m) < 2 ^ 32" "\<not> read_debug_names ropts"
  shows "wasm_read_binary_ast junk (enc_module wopts m) ropts = (WASM_OK, Some (resolved_module m), [], True)"
proof -
  from feed_module_events [OF assms(1,2,4), of junk] obtain ctx where
    ctx: "feed ast_member (module_events wopts ropts m) (init_ast_context junk) = Some ctx" "between (resolved_module m) ctx" by blast
  have "wasm_read_binary (enc_module wopts m) s_binary_reader ropts (init_ast_context junk) = (WASM_OK, ctx)"
    unfolding s_binary_reader_plain by (rule read_module_events [OF assms(1,3) ctx(1)])
  with ctx(2) show ?thesis by (simp add: wasm_read_binary_ast_def between_def)
qed

subsection \<open>Samples\<close>

text \<open>A reader object that only records the calls it gets.\<close>

definition record_event :: "WasmReaderEvent \<Rightarrow> WasmReaderEvent list \<Rightarrow> WasmResult \<times> WasmReaderEvent list" where
  "record_event ev evs = (WASM_OK, evs @ [ev])"

lemma feed_record_event: "feed record_event es evs = Some (evs @ es)"
  by (induction es arbitrary: evs) (simp_all add: record_event_def)

definition sample_plain_options :: WasmWriteBinaryOptions where
  "sample_plain_options = \<lparr>canonicalize_lebs = False, write_debug_names = False\<rparr>"

definition sample_junk :: WasmBindingHashEntry where
  "sample_junk = \<lparr>binding = \<lparr>b_name = None, b_index = 0\<rparr>, entry_next = None, entry_prev = None\<rparr>"

lemma sample_plain_wf: "wf_module sample_plain_options sample_module"
  using sample_module_wf by (simp add: wf_module_def wf_debug_names_def sample_plain_options_def)

lemma length_sample_plain: "length (enc_module sample_plain_options sample_module) = 91"
  by code_simp

lemma sample_names_ok: "names_ok sample_module"
  by (simp add: names_ok_def sample_module_def cstr_def)

end
