(* ===== verification/Wabt_Hash_Correct.thy ===== *)
theory Wabt_Hash_Correct
  imports Wabt_Binding_Hash "HOL-Library.Multiset"
begin

text \<open>
  The binding hash keeps its promise: the linked structure that \<open>hash_new_entry\<close> and
  \<open>hash_resize\<close> maintain, and what a lookup returns after an insertion.
\<close>

subsection \<open>Linked entries\<close>

text \<open>
  \<open>path es x is y\<close>: following \<open>next\<close> from \<open>x\<close> visits the entries \<open>is\<close> and arrives at \<open>y\<close>.
  \<open>back_linked es p is\<close>: the \<open>prev\<close> of each entry is the one before it, that of the first \<open>p\<close>.
\<close>

primrec path :: "WasmBindingHashEntry list \<Rightarrow> nat option \<Rightarrow> nat list \<Rightarrow> nat option \<Rightarrow> bool" where
  "path es x [] y \<longleftrightarrow> x = y"
| "path es x (i # is) y \<longleftrightarrow> x = Some i \<and> path es (entry_next (es ! i)) is y"

primrec back_linked :: "WasmBindingHashEntry list \<Rightarrow> nat option \<Rightarrow> nat list \<Rightarrow> bool" where
  "back_linked es p [] \<longleftrightarrow> True"
| "back_linked es p (i # is) \<longleftrightarrow> entry_prev (es ! i) = p \<and> back_linked es (Some i) is"

abbreviation linked :: "WasmBindingHashEntry list \<Rightarrow> nat option \<Rightarrow> nat list \<Rightarrow> bool" where
  "linked es x is \<equiv> path es x is None"

lemma path_append [simp]: "path es x (is @ js) z \<longleftrightarrow> (\<exists>y. path es x is y \<and> path es y js z)"
  by (induction "is" arbitrary: x) auto

lemma path_cong:
  "(\<And>i. i \<in> set is \<Longrightarrow> entry_next (es' ! i) = entry_next (es ! i)) \<Longrightarrow> path es' x is y = path es x is y"
  by (induction "is" arbitrary: x) auto

lemma back_linked_cong:
  "(\<And>i. i \<in> set is \<Longrightarrow> entry_prev (es' ! i) = entry_prev (es ! i)) \<Longrightarrow> back_linked es' p is = back_linked es p is"
  by (induction "is" arbitrary: p) auto

text \<open>Only the \<open>next\<close> of the last entry of a path says where it arrives.\<close>

lemma path_redirect:
  assumes "path es x (us @ [p]) y" "\<And>j. j \<in> set us \<Longrightarrow> entry_next (es' ! j) = entry_next (es ! j)"
  shows "path es' x (us @ [p]) (entry_next (es' ! p))"
proof -
  have "path es' x us z = path es x us z" for z using assms(2) by (intro path_cong)
  with assms(1) show ?thesis by auto
qed

lemma back_linked_split:
  "back_linked es p (xs @ i # ys) \<longleftrightarrow>
     back_linked es p xs \<and> entry_prev (es ! i) = (if xs = [] then p else Some (last xs)) \<and> back_linked es (Some i) ys"
  by (induction xs arbitrary: p) auto

subsection \<open>The invariant\<close>

definition bucket :: "WasmBindingHash \<Rightarrow> nat \<Rightarrow> nat option" where
  "bucket h i = map_option (\<lambda>n. hash_name n mod hash_capacity h) (b_name (binding (entries h ! i)))"

definition chain_ok :: "WasmBindingHash \<Rightarrow> nat \<Rightarrow> nat list \<Rightarrow> bool" where
  "chain_ok h b is \<longleftrightarrow> distinct is \<and> linked (entries h) (if is = [] then None else Some b) is
     \<and> (\<forall>i \<in> set is. i < hash_capacity h \<and> bucket h i = Some b)"

definition free_ok :: "WasmBindingHash \<Rightarrow> nat list \<Rightarrow> bool" where
  "free_ok h F \<longleftrightarrow> distinct F \<and> linked (entries h) (free_head h) F \<and> back_linked (entries h) None F
     \<and> set F = {i. i < hash_capacity h \<and> bucket h i = None}"

text \<open>
  \<open>C b\<close> is the chain of the names whose main entry is \<open>b\<close>; it starts there. Every used entry is
  in the chain of its name, every other one in the free list \<open>F\<close>.
\<close>

definition hash_ok :: "WasmBindingHash \<Rightarrow> (nat \<Rightarrow> nat list) \<Rightarrow> nat list \<Rightarrow> bool" where
  "hash_ok h C F \<longleftrightarrow> 0 < hash_capacity h \<and> (\<forall>b < hash_capacity h. chain_ok h b (C b))
     \<and> (\<forall>i < hash_capacity h. \<forall>b. bucket h i = Some b \<longrightarrow> i \<in> set (C b)) \<and> free_ok h F"

lemma bucket_less: "0 < hash_capacity h \<Longrightarrow> bucket h i = Some b \<Longrightarrow> b < hash_capacity h"
  by (auto simp: bucket_def)

lemma free_iff: "wasm_hash_entry_is_free (entries h ! i) \<longleftrightarrow> bucket h i = None"
  by (simp add: wasm_hash_entry_is_free_def bucket_def)

text \<open>A chain is untouched by changes to entries outside it.\<close>

lemma chain_ok_frame:
  assumes "chain_ok h b is" "hash_capacity h' = hash_capacity h"
    and "\<And>i. i \<in> set is \<Longrightarrow> entry_next (entries h' ! i) = entry_next (entries h ! i)
          \<and> b_name (binding (entries h' ! i)) = b_name (binding (entries h ! i))"
  shows "chain_ok h' b is"
proof -
  have "linked (entries h') x is = linked (entries h) x is" for x
    using assms(3) by (intro path_cong) simp
  with assms show ?thesis by (auto simp: chain_ok_def bucket_def)
qed

lemma chain_head:
  assumes "chain_ok h b is" "is \<noteq> []"
  shows "hd is = b"
  using assms by (cases "is") (auto simp: chain_ok_def)

lemma free_member: "free_ok h F \<Longrightarrow> i \<in> set F \<Longrightarrow> i < hash_capacity h \<and> bucket h i = None"
  by (simp add: free_ok_def)

lemma free_distinct: "free_ok h F \<Longrightarrow> distinct F"
  by (simp add: free_ok_def)

lemma chain_not_free: "chain_ok h b is \<Longrightarrow> free_ok h F \<Longrightarrow> j \<in> set is \<Longrightarrow> j < hash_capacity h \<and> j \<notin> set F"
  by (auto simp: chain_ok_def free_ok_def)

lemma chains_disjoint: "chain_ok h b is \<Longrightarrow> chain_ok h c js \<Longrightarrow> i \<in> set is \<Longrightarrow> i \<in> set js \<Longrightarrow> b = c"
  by (auto simp: chain_ok_def)

lemma chain_length: "chain_ok h b is \<Longrightarrow> length is \<le> hash_capacity h"
proof -
  assume "chain_ok h b is"
  then have "distinct is" "set is \<subseteq> {..<hash_capacity h}" by (auto simp: chain_ok_def)
  then show ?thesis by (metis card_lessThan card_mono distinct_card finite_lessThan)
qed


subsection \<open>Lookup\<close>

text \<open>The bindings a table holds.\<close>

definition binding_mset :: "WasmBindingHash \<Rightarrow> WasmBinding multiset" where
  "binding_mset h = filter_mset (\<lambda>b. b_name b \<noteq> None) (mset (map binding (entries h)))"

lemma in_binding_mset:
  "b \<in># binding_mset h \<longleftrightarrow> b_name b \<noteq> None \<and> (\<exists>i < hash_capacity h. b = binding (entries h ! i))"
proof -
  have "b \<in> binding ` set es \<longleftrightarrow> (\<exists>i < length es. b = binding (es ! i))" for es
    using nth_mem [of _ es] by (auto simp: in_set_conv_nth)
  then show ?thesis by (auto simp: binding_mset_def)
qed

lemma slices_equal [simp]: "wasm_string_slices_are_equal x (Some n) \<longleftrightarrow> x = Some n"
  by (cases x) (auto simp: wasm_string_slices_are_equal_def)

text \<open>On a chain the search loop returns the first match, and the chain is long enough fuel.\<close>

lemma find_in_chain_path:
  "linked (entries h) (Some i) (i # is) \<Longrightarrow> (\<forall>j \<in> set (i # is). bucket h j \<noteq> None) \<Longrightarrow> length (i # is) \<le> fuel \<Longrightarrow>
   find_in_chain fuel h (Some n) i =
     (case List.find (\<lambda>j. b_name (binding (entries h ! j)) = Some n) (i # is) of
        None \<Rightarrow> - 1 | Some j \<Rightarrow> b_index (binding (entries h ! j)))"
proof (induction "is" arbitrary: i fuel)
  case Nil
  then show ?case by (cases fuel) auto
next
  case (Cons j "is")
  then show ?case by (cases fuel) (auto simp: free_iff)
qed

definition found :: "WasmBindingHash \<Rightarrow> byte list \<Rightarrow> int \<Rightarrow> bool" where
  "found h n r \<longleftrightarrow>
     (if \<exists>b. b \<in># binding_mset h \<and> b_name b = Some n
      then \<exists>b. b \<in># binding_mset h \<and> b_name b = Some n \<and> r = b_index b
      else r = - 1)"

lemma find_first:
  assumes "set is \<subseteq> {..<hash_capacity h}"
    and "\<And>i. i < hash_capacity h \<Longrightarrow> b_name (binding (entries h ! i)) = Some n \<Longrightarrow> i \<in> set is"
  shows "found h n (case List.find (\<lambda>j. b_name (binding (entries h ! j)) = Some n) is of
        None \<Rightarrow> - 1 | Some j \<Rightarrow> b_index (binding (entries h ! j)))"
proof (cases "List.find (\<lambda>j. b_name (binding (entries h ! j)) = Some n) is")
  case None
  then have "\<not> (\<exists>b. b \<in># binding_mset h \<and> b_name b = Some n)"
    using assms(2) by (auto simp: in_binding_mset find_None_iff)
  with None show ?thesis unfolding found_def by auto
next
  case (Some j)
  then have "b_name (binding (entries h ! j)) = Some n" "j < hash_capacity h"
    using assms(1) by (auto simp: find_Some_iff dest!: nth_mem)
  then have "binding (entries h ! j) \<in># binding_mset h" by (auto simp: in_binding_mset)
  with Some \<open>b_name (binding (entries h ! j)) = Some n\<close> show ?thesis by (auto simp: found_def)
qed

lemma hash_okD:
  assumes "hash_ok h C F"
  shows "0 < hash_capacity h" "\<And>b. b < hash_capacity h \<Longrightarrow> chain_ok h b (C b)"
    "\<And>i b. i < hash_capacity h \<Longrightarrow> bucket h i = Some b \<Longrightarrow> i \<in> set (C b)" "free_ok h F"
  using assms by (auto simp: hash_ok_def)

lemma find_binding_found:
  assumes ok: "hash_ok h C F"
  shows "found h n (wasm_find_binding_index_by_name h (Some n))"
proof -
  let ?N = "hash_capacity h"
  define e where "e = hash_main_entry h n"
  note D = hash_okD [OF ok]
  have e: "e < ?N" using D(1) by (simp add: e_def hash_main_entry_def)
  have main: "bucket h i = Some e" if "b_name (binding (entries h ! i)) = Some n" for i
    using that by (simp add: bucket_def e_def hash_main_entry_def)
  have find: "wasm_find_binding_index_by_name h (Some n) = find_in_chain ?N h (Some n) e"
    using D(1) by (auto simp: wasm_find_binding_index_by_name_def e_def slice_bytes_def)
  show ?thesis
  proof (cases "bucket h e")
    case None
    with e D(4) have "e \<in> set F" by (auto simp: free_ok_def)
    then obtain xs ys where F: "F = xs @ e # ys" by (auto simp: in_set_conv_decomp)
    with D(4) have "linked (entries h) (entry_next (entries h ! e)) ys" by (auto simp: free_ok_def)
    then have next_free: "entry_next (entries h ! e) = None
        \<or> (\<exists>j. entry_next (entries h ! e) = Some j \<and> bucket h j = None)"
      using F D(4) by (cases ys) (auto simp: free_ok_def)
    have no_name: "b_name (binding (entries h ! e)) = None" using None by (simp add: bucket_def)
    obtain k where "?N = Suc k" using D(1) by (cases ?N) auto
    with next_free no_name have "find_in_chain ?N h (Some n) e = - 1" by (auto simp: free_iff)
    moreover have "C e = []"
      using chain_head [OF D(2) [OF e]] D(2) [OF e] None by (cases "C e") (auto simp: chain_ok_def)
    then have "b_name (binding (entries h ! i)) \<noteq> Some n" if "i < ?N" for i
      using D(3) [OF that main] by auto
    then have "\<not> (\<exists>b. b \<in># binding_mset h \<and> b_name b = Some n)" by (auto simp: in_binding_mset)
    ultimately show ?thesis unfolding find found_def by auto
  next
    case (Some b)
    with e D have b: "b < ?N" and chain: "chain_ok h b (C b)" and "e \<in> set (C b)"
      by (auto intro: bucket_less)
    then obtain xs ys where C: "C b = xs @ e # ys" by (auto simp: in_set_conv_decomp)
    have "linked (entries h) (Some e) (e # ys)" using chain C by (auto simp: chain_ok_def)
    moreover have "\<forall>j \<in> set (e # ys). bucket h j \<noteq> None" "length (e # ys) \<le> ?N"
      using chain C chain_length [OF chain] by (auto simp: chain_ok_def)
    ultimately have find': "wasm_find_binding_index_by_name h (Some n) =
        (case List.find (\<lambda>j. b_name (binding (entries h ! j)) = Some n) (e # ys) of
           None \<Rightarrow> - 1 | Some j \<Rightarrow> b_index (binding (entries h ! j)))"
      unfolding find by (rule find_in_chain_path)
    have "set (e # ys) \<subseteq> {..<?N}" using chain C by (auto simp: chain_ok_def)
    then show ?thesis unfolding find'
    proof (rule find_first)
      fix i assume i: "i < ?N" "b_name (binding (entries h ! i)) = Some n"
      then have "i \<in> set (C e)" "bucket h i = Some e" using D(3) main by auto
      show "i \<in> set (e # ys)"
      proof (cases "b = e")
        case True
        with chain_head [OF chain] C chain have "xs = []" by (cases xs) (auto simp: chain_ok_def)
        with \<open>i \<in> set (C e)\<close> C True show ?thesis by simp
      next
        case False
        have "C e \<noteq> []" using \<open>i \<in> set (C e)\<close> by auto
        with chain_head [OF D(2) [OF e]] have "e \<in> set (C e)" by (metis hd_in_set)
        with D(2) [OF e] Some False show ?thesis by (auto simp: chain_ok_def)
      qed
    qed
  qed
qed


subsection \<open>Claiming an entry\<close>

lemma entries_set [simp]:
  "length (entries (set_next v i h)) = hash_capacity h" "length (entries (set_prev v i h)) = hash_capacity h"
  "length (entries (claim_entry s i h)) = hash_capacity h"
  "free_head (set_next v i h) = free_head h" "free_head (set_prev v i h) = free_head h"
  "free_head (claim_entry s i h) = free_head h"
  by (simp_all add: set_next_def set_prev_def claim_entry_def)

lemma nth_set_next:
  "j < hash_capacity h \<Longrightarrow> entries (set_next v i h) ! j =
     (if i = j then (entries h ! j)\<lparr>entry_next := v\<rparr> else entries h ! j)"
  by (simp add: set_next_def nth_list_update)

lemma nth_set_prev:
  "j < hash_capacity h \<Longrightarrow> entries (set_prev v i h) ! j =
     (if i = j then (entries h ! j)\<lparr>entry_prev := v\<rparr> else entries h ! j)"
  by (simp add: set_prev_def nth_list_update)

lemma nth_claim_entry:
  "j < hash_capacity h \<Longrightarrow> entries (claim_entry (Some n) i h) ! j =
     (if i = j then (entries h ! j)\<lparr>binding := \<lparr>b_name = Some n, b_index = 0\<rparr>, entry_prev := None\<rparr>
      else entries h ! j)"
  by (simp add: claim_entry_def nth_list_update)

lemmas nth_set = nth_set_next nth_set_prev nth_claim_entry

lemma map_binding_set:
  "map binding (entries (set_next v i h)) = map binding (entries h)"
  "map binding (entries (set_prev v i h)) = map binding (entries h)"
  "i < hash_capacity h \<Longrightarrow>
     map binding (entries (claim_entry (Some n) i h)) = (map binding (entries h))[i := \<lparr>b_name = Some n, b_index = 0\<rparr>]"
  by (rule nth_equalityI; simp add: nth_set nth_list_update)+

text \<open>Overwriting the binding of a free entry adds a binding to the table.\<close>

lemma binding_mset_update:
  assumes "map binding (entries h') = (map binding (entries h))[i := b]" "i < hash_capacity h"
    and "b_name (binding (entries h ! i)) = None" "b_name b \<noteq> None"
  shows "binding_mset h' = add_mset b (binding_mset h)"
proof -
  have "map binding (entries h) ! i \<in># mset (map binding (entries h))" using assms(2) by simp
  then show ?thesis
    using assms unfolding binding_mset_def by (simp add: mset_update filter_mset_eq_conv)
qed

text \<open>What claiming entry \<open>e\<close> for \<open>n\<close> achieves.\<close>

definition claimed :: "WasmBindingHash \<Rightarrow> nat list \<Rightarrow> byte list \<Rightarrow> WasmBindingHash \<Rightarrow> nat \<Rightarrow> bool" where
  "claimed h F n h' e \<longleftrightarrow> hash_capacity h' = hash_capacity h \<and> e < hash_capacity h
     \<and> binding (entries h' ! e) = \<lparr>b_name = Some n, b_index = 0\<rparr>
     \<and> binding_mset h' = add_mset \<lparr>b_name = Some n, b_index = 0\<rparr> (binding_mset h)
     \<and> (\<exists>C' F'. hash_ok h' C' F' \<and> length F' = length F - 1)"

lemma claimedI:
  assumes "hash_ok h' C' F'" "length F' = length F - 1" "hash_capacity h' = hash_capacity h" "e < hash_capacity h"
    and "binding (entries h' ! e) = \<lparr>b_name = Some n, b_index = 0\<rparr>"
    and "binding_mset h' = add_mset \<lparr>b_name = Some n, b_index = 0\<rparr> (binding_mset h)"
  shows "claimed h F n h' e"
  using assms unfolding claimed_def by blast

lemma hash_unlink_free_nth:
  assumes free: "free_ok h F" and F: "F = xs @ e # ys"
  defines "h' \<equiv> hash_unlink_free e h"
  shows "hash_capacity h' = hash_capacity h"
    and "\<And>j. j < hash_capacity h \<Longrightarrow> binding (entries h' ! j) = binding (entries h ! j)"
    and "\<And>j. j < hash_capacity h \<Longrightarrow> entry_next (entries h' ! j) =
      (if j = e then None else if xs \<noteq> [] \<and> j = last xs then entry_next (entries h ! e) else entry_next (entries h ! j))"
    and "\<And>j. j < hash_capacity h \<Longrightarrow> j \<noteq> e \<Longrightarrow> entry_prev (entries h' ! j) =
      (if ys \<noteq> [] \<and> j = hd ys then entry_prev (entries h ! e) else entry_prev (entries h ! j))"
    and "free_head h' = (if xs = [] then entry_next (entries h ! e) else free_head h)"
proof -
  have ys: "entry_next (entries h ! e) = (if ys = [] then None else Some (hd ys))"
    using free F by (cases ys) (auto simp: free_ok_def)
  have xs: "entry_prev (entries h ! e) = (if xs = [] then None else Some (last xs))"
    using free F by (auto simp: free_ok_def back_linked_split)
  have "last xs \<noteq> e" if "xs \<noteq> []" using free F that last_in_set [OF that] by (auto simp: free_ok_def)
  moreover have "hd ys \<noteq> e" if "ys \<noteq> []" using free F that hd_in_set [OF that] by (auto simp: free_ok_def)
  ultimately show "hash_capacity h' = hash_capacity h"
    and "\<And>j. j < hash_capacity h \<Longrightarrow> binding (entries h' ! j) = binding (entries h ! j)"
    and "\<And>j. j < hash_capacity h \<Longrightarrow> entry_next (entries h' ! j) =
      (if j = e then None else if xs \<noteq> [] \<and> j = last xs then entry_next (entries h ! e) else entry_next (entries h ! j))"
    and "\<And>j. j < hash_capacity h \<Longrightarrow> j \<noteq> e \<Longrightarrow> entry_prev (entries h' ! j) =
      (if ys \<noteq> [] \<and> j = hd ys then entry_prev (entries h ! e) else entry_prev (entries h ! j))"
    and "free_head h' = (if xs = [] then entry_next (entries h ! e) else free_head h)"
    unfolding h'_def by (auto simp: hash_unlink_free_def Let_def ys xs nth_set)
qed


lemma path_drop_link:
  assumes "linked es x (xs @ e # ys)" "distinct (xs @ e # ys)"
    and nxt: "\<And>j. j \<in> set (xs @ ys) \<Longrightarrow> entry_next (es' ! j) =
      (if xs \<noteq> [] \<and> j = last xs then entry_next (es ! e) else entry_next (es ! j))"
  shows "linked es' (if xs = [] then entry_next (es ! e) else x) (xs @ ys)"
proof -
  from assms(1) have tail: "linked es (entry_next (es ! e)) ys" by auto
  have "entry_next (es' ! j) = entry_next (es ! j)" if "j \<in> set ys" for j
    using nxt [of j] that assms(2) by (cases "xs = []") (auto simp: disjoint_iff)
  then have tail': "linked es' (entry_next (es ! e)) ys" using tail path_cong [of ys es' es] by simp
  show ?thesis
  proof (cases xs rule: rev_cases)
    case Nil
    with tail' show ?thesis by simp
  next
    case (snoc us p)
    have "entry_next (es' ! j) = entry_next (es ! j)" if "j \<in> set us" for j
      using nxt [of j] that assms(2) snoc by auto
    then have "path es' x (us @ [p]) (entry_next (es' ! p))"
      using path_redirect [of es x us p "Some e" es'] assms(1) snoc by auto
    moreover have "entry_next (es' ! p) = entry_next (es ! e)" using nxt [of p] snoc by auto
    ultimately show ?thesis using tail' snoc by auto
  qed
qed

lemma back_linked_drop:
  assumes "back_linked es None (xs @ e # ys)" "distinct (xs @ e # ys)"
    and prv: "\<And>j. j \<in> set (xs @ ys) \<Longrightarrow> entry_prev (es' ! j) =
      (if ys \<noteq> [] \<and> j = hd ys then entry_prev (es ! e) else entry_prev (es ! j))"
  shows "back_linked es' None (xs @ ys)"
proof -
  have "entry_prev (es' ! j) = entry_prev (es ! j)" if "j \<in> set xs" for j
    using prv [of j] that assms(2) by (cases "ys = []") (auto simp: disjoint_iff)
  then have xs: "back_linked es' None xs"
    using assms(1) back_linked_cong [of xs es' es None] by (simp add: back_linked_split)
  show ?thesis
  proof (cases ys)
    case Nil
    with xs show ?thesis by simp
  next
    case (Cons y zs)
    have "entry_prev (es' ! j) = entry_prev (es ! j)" if "j \<in> set zs" for j
      using prv [of j] that assms(2) Cons by auto
    then have "back_linked es' (Some y) zs"
      using assms(1) back_linked_cong [of zs es' es] Cons by (simp add: back_linked_split)
    moreover have "entry_prev (es' ! y) = entry_prev (es ! e)" using prv [of y] Cons by auto
    ultimately show ?thesis using xs assms(1) Cons by (simp add: back_linked_split)
  qed
qed

text \<open>Case 1: the main entry is free; it leaves the free list and starts a chain of its own.\<close>

lemma claim_free_main:
  assumes ok: "hash_ok h C F" and e: "e = hash_main_entry h n" and free: "bucket h e = None"
  shows "claimed h F n (claim_entry (Some n) e (hash_unlink_free e h)) e"
proof -
  let ?N = "hash_capacity h" and ?h = "claim_entry (Some n) e (hash_unlink_free e h)"
  note D = hash_okD [OF ok]
  have main: "hash_name n mod ?N = e" using e by (simp add: hash_main_entry_def)
  then have eN: "e < ?N" using D(1) by auto
  with free D(4) have "e \<in> set F" by (auto simp: free_ok_def)
  then obtain xs ys where F: "F = xs @ e # ys" by (auto simp: in_set_conv_decomp)
  note U = hash_unlink_free_nth [OF D(4) F]
  have cap: "hash_capacity ?h = ?N" by (simp add: U)
  have nxt: "entry_next (entries ?h ! j) = entry_next (entries (hash_unlink_free e h) ! j)" if "j < ?N" for j
    using that by (simp add: nth_claim_entry U)
  have prv: "entry_prev (entries ?h ! j) = (if j = e then None else entry_prev (entries (hash_unlink_free e h) ! j))"
    if "j < ?N" for j using that by (simp add: nth_claim_entry U)
  have bnd: "binding (entries ?h ! j) = (if j = e then \<lparr>b_name = Some n, b_index = 0\<rparr> else binding (entries h ! j))"
    if "j < ?N" for j using that by (simp add: nth_claim_entry U)
  have dist: "distinct (xs @ e # ys)" and F_sub: "\<And>j. j \<in> set (xs @ ys) \<Longrightarrow> j < ?N"
    using D(4) F by (auto simp: free_ok_def)
  have bkt: "bucket ?h j = (if j = e then Some e else bucket h j)" if "j < ?N" for j
    using that main by (simp add: bucket_def bnd cap del: entries_set)
  define C' where "C' = C(e := [e])"
  have free': "free_ok ?h (xs @ ys)"
  proof -
    have links: "linked (entries h) (free_head h) (xs @ e # ys)" "back_linked (entries h) None (xs @ e # ys)"
      using D(4) F by (simp_all add: free_ok_def)
    have "j < ?N \<and> j \<noteq> e" if "j \<in> set (xs @ ys)" for j using that F_sub dist by auto
    then have "\<And>j. j \<in> set (xs @ ys) \<Longrightarrow> entry_next (entries ?h ! j) =
        (if xs \<noteq> [] \<and> j = last xs then entry_next (entries h ! e) else entry_next (entries h ! j))"
      and "\<And>j. j \<in> set (xs @ ys) \<Longrightarrow> entry_prev (entries ?h ! j) =
        (if ys \<noteq> [] \<and> j = hd ys then entry_prev (entries h ! e) else entry_prev (entries h ! j))"
      by (metis nxt U(3), metis prv U(4))
    note path_drop_link [OF links(1) dist this(1)] back_linked_drop [OF links(2) dist this(2)]
    then have "linked (entries ?h) (free_head ?h) (xs @ ys)" "back_linked (entries ?h) None (xs @ ys)"
      by (simp_all only: entries_set U)
    moreover have "set (xs @ ys) = {i. i < ?N \<and> bucket ?h i = None}"
    proof -
      have F_iff: "i \<in> set F \<longleftrightarrow> i < ?N \<and> bucket h i = None" for i using D(4) by (simp add: free_ok_def)
      have "i \<in> set (xs @ ys) \<longleftrightarrow> i \<in> set F \<and> i \<noteq> e" for i using F dist by auto
      then have "i \<in> set (xs @ ys) \<longleftrightarrow> i < ?N \<and> bucket ?h i = None" for i
        unfolding F_iff using bkt by (metis option.distinct(1))
      then show ?thesis by blast
    qed
    ultimately show ?thesis using dist by (auto simp: free_ok_def U(1))
  qed
  have chain: "chain_ok ?h b (C' b)" if "b < ?N" for b
  proof (cases "b = e")
    case True
    then show ?thesis using eN by (simp add: C'_def chain_ok_def bkt nxt U)
  next
    case False
    have "j < ?N \<and> j \<noteq> e \<and> (xs \<noteq> [] \<longrightarrow> j \<noteq> last xs)" if "j \<in> set (C b)" for j
      using chain_not_free [OF D(2) [OF \<open>b < ?N\<close>] D(4) that] F last_in_set [of xs] by (metis UnCI list.set_intros(1) set_append)
    then have "entry_next (entries ?h ! j) = entry_next (entries h ! j)
        \<and> b_name (binding (entries ?h ! j)) = b_name (binding (entries h ! j))" if "j \<in> set (C b)" for j
      using that by (auto simp: nxt U bnd)
    with False D(2) [OF that] show ?thesis by (auto simp: C'_def U(1) intro: chain_ok_frame)
  qed
  have complete: "i \<in> set (C' b)" if "i < ?N" "bucket ?h i = Some b" for i b
  proof (cases "i = e")
    case False
    with that have "bucket h i = Some b" by (simp add: bkt)
    with that D(3) have "i \<in> set (C b)" by blast
    moreover have "C e = []"
      using chain_head [OF D(2) [OF eN]] D(2) [OF eN] free by (cases "C e") (auto simp: chain_ok_def)
    ultimately show ?thesis by (auto simp: C'_def)
  qed (use that in \<open>simp add: C'_def bkt\<close>)
  have "hash_ok ?h C' (xs @ ys)"
    using D(1) chain complete free' by (simp add: hash_ok_def U(1))
  moreover have "length (xs @ ys) = length F - 1" using F by simp
  moreover have "hash_capacity ?h = ?N" by (simp add: U(1))
  moreover note eN
  moreover have "binding (entries ?h ! e) = \<lparr>b_name = Some n, b_index = 0\<rparr>" using eN by (simp add: bnd)
  moreover have "binding_mset ?h = add_mset \<lparr>b_name = Some n, b_index = 0\<rparr> (binding_mset h)"
  proof (rule binding_mset_update)
    show "map binding (entries ?h) = (map binding (entries h))[e := \<lparr>b_name = Some n, b_index = 0\<rparr>]"
      by (rule nth_equalityI) (use bnd U(1) in \<open>auto simp: nth_list_update\<close>)
    show "b_name (binding (entries h ! e)) = None" using free by (simp add: bucket_def)
  qed (use eN in simp_all)
  ultimately show ?thesis by (rule claimedI)
qed


text \<open>The other cases take the head of the free list.\<close>

lemma take_free_head_nth:
  assumes free: "free_ok h (f # F)"
  defines "h' \<equiv> take_free_head f h"
  shows "hash_capacity h' = hash_capacity h" and "free_head h' = entry_next (entries h ! f)"
    and "map binding (entries h') = map binding (entries h)"
    and "\<And>j. j < hash_capacity h \<Longrightarrow> binding (entries h' ! j) = binding (entries h ! j)"
    and "\<And>j. j < hash_capacity h \<Longrightarrow> entry_next (entries h' ! j) = entry_next (entries h ! j)"
    and "\<And>j. j < hash_capacity h \<Longrightarrow> entry_prev (entries h' ! j) =
      (if F \<noteq> [] \<and> j = hd F then None else entry_prev (entries h ! j))"
  using free unfolding h'_def
  by (cases F; simp add: free_ok_def take_free_head_def Let_def nth_set map_binding_set)+

lemma free_ok_tail:
  assumes free: "free_ok h (f # F)" and cap: "hash_capacity h' = hash_capacity h"
    and "free_head h' = entry_next (entries h ! f)"
    and nxt: "\<And>j. j \<in> set F \<Longrightarrow> entry_next (entries h' ! j) = entry_next (entries h ! j)"
    and prv: "\<And>j. j \<in> set F \<Longrightarrow> entry_prev (entries h' ! j) = (if j = hd F then None else entry_prev (entries h ! j))"
    and bkt: "\<And>j. j < hash_capacity h \<Longrightarrow> bucket h' j = None \<longleftrightarrow> bucket h j = None \<and> j \<noteq> f"
  shows "free_ok h' F"
proof -
  have "linked (entries h') (free_head h') F"
    using assms(1,3) path_cong [of F "entries h'" "entries h"] nxt by (simp add: free_ok_def)
  moreover have "back_linked (entries h') None F"
  proof (cases F)
    case (Cons g G)
    have "back_linked (entries h') (Some g) G = back_linked (entries h) (Some g) G"
      using prv free Cons by (intro back_linked_cong) (auto simp: free_ok_def)
    with free prv Cons show ?thesis by (simp add: free_ok_def)
  qed simp
  moreover have "set F = {i. i < hash_capacity h' \<and> bucket h' i = None}"
  proof -
    have "f \<notin> set F" "insert f (set F) = {i. i < hash_capacity h \<and> bucket h i = None}"
      using free by (simp_all add: free_ok_def)
    then have "i \<in> set F \<longleftrightarrow> i < hash_capacity h \<and> bucket h i = None \<and> i \<noteq> f" for i by blast
    with bkt cap show ?thesis by auto
  qed
  ultimately show ?thesis using free by (simp add: free_ok_def)
qed


text \<open>Case 2: the main entry holds a name that belongs there; the new one becomes second in its chain.\<close>

definition push_second :: "byte list \<Rightarrow> nat \<Rightarrow> nat \<Rightarrow> WasmBindingHash \<Rightarrow> WasmBindingHash" where
  "push_second n f e h =
     claim_entry (Some n) f (set_next (Some f) e (set_next (entry_next (entries h ! e)) f h))"

lemma claim_second:
  assumes ok: "hash_ok h C (f # F)" and e: "e = hash_main_entry h n" and own: "bucket h e = Some e"
  shows "claimed h (f # F) n (push_second n f e (take_free_head f h)) f"
proof -
  let ?N = "hash_capacity h" and ?h = "push_second n f e (take_free_head f h)"
  note D = hash_okD [OF ok] and T = take_free_head_nth [OF hash_okD(4) [OF ok]]
  have main: "hash_name n mod ?N = e" using e by (simp add: hash_main_entry_def)
  then have eN: "e < ?N" using D(1) by auto
  have f: "f < ?N" "bucket h f = None" "f \<noteq> e" using free_member [OF D(4), of f] own by auto
  have cap: "hash_capacity ?h = ?N" and head: "free_head ?h = entry_next (entries h ! f)"
    by (simp_all add: push_second_def T)
  have nxt: "entry_next (entries ?h ! j) =
      (if j = e then Some f else if j = f then entry_next (entries h ! e) else entry_next (entries h ! j))"
    if "j < ?N" for j using that eN f by (auto simp: push_second_def nth_set T)
  have bnd: "binding (entries ?h ! j) = (if j = f then \<lparr>b_name = Some n, b_index = 0\<rparr> else binding (entries h ! j))"
    if "j < ?N" for j using that by (auto simp: push_second_def nth_set T)
  have prv: "entry_prev (entries ?h ! j) =
      (if j = f then None else if F \<noteq> [] \<and> j = hd F then None else entry_prev (entries h ! j))"
    if "j < ?N" for j using that by (auto simp: push_second_def nth_set T)
  have bkt: "bucket ?h j = (if j = f then Some e else bucket h j)" if "j < ?N" for j
    using that main by (simp add: bucket_def bnd cap)
  have F_sub: "j < ?N \<and> j \<noteq> e \<and> j \<noteq> f" if "j \<in> set F" for j
    using free_member [OF D(4), of j] free_distinct [OF D(4)] that own by auto
  have free': "free_ok ?h F"
    by (rule free_ok_tail [OF D(4) cap head]) (use F_sub in \<open>auto simp: nxt prv bkt\<close>)
  obtain ts where ts: "C e = e # ts"
    using D(3) [OF eN own] chain_head [OF D(2) [OF eN]] by (cases "C e") auto
  define C' where "C' = C(e := e # f # ts)"
  have not_f: "j < ?N \<and> j \<noteq> f" if "b < ?N" "j \<in> set (C b)" for b j
    using chain_not_free [OF D(2) [OF that(1)] D(4) that(2)] by auto
  have chain: "chain_ok ?h b (C' b)" if "b < ?N" for b
  proof (cases "b = e")
    case True
    have ts_props: "linked (entries h) (entry_next (entries h ! e)) ts" "e \<notin> set ts" "distinct ts"
      "\<And>j. j \<in> set ts \<Longrightarrow> j < ?N \<and> bucket h j = Some e"
      using D(2) [OF eN] ts by (auto simp: chain_ok_def)
    have "j < ?N \<and> j \<noteq> f \<and> j \<noteq> e" if "j \<in> set ts" for j using ts_props f that by auto
    then have "linked (entries ?h) (entry_next (entries h ! e)) ts"
      using ts_props path_cong [of ts "entries ?h" "entries h"] by (simp add: nxt)
    then show ?thesis
      using True ts_props f eN own by (auto simp: C'_def chain_ok_def cap bkt nxt)
  next
    case False
    have "j \<noteq> e" if "j \<in> set (C b)" for j
      using D(2) [OF \<open>b < ?N\<close>] that own False by (auto simp: chain_ok_def)
    with not_f [OF that] have "entry_next (entries ?h ! j) = entry_next (entries h ! j)
        \<and> b_name (binding (entries ?h ! j)) = b_name (binding (entries h ! j))" if "j \<in> set (C b)" for j
      using that by (simp add: nxt bnd)
    then have "chain_ok ?h b (C b)" by (rule chain_ok_frame [OF D(2) [OF that] cap])
    with False show ?thesis by (simp add: C'_def)
  qed
  have complete: "i \<in> set (C' b)" if "i < ?N" "bucket ?h i = Some b" for i b
    using that D(3) [of i b] ts by (cases "i = f") (auto simp: C'_def bkt)
  have "hash_ok ?h C' F" using D(1) chain complete free' by (simp add: hash_ok_def cap)
  moreover have "length F = length (f # F) - 1" by simp
  moreover note cap f(1)
  moreover have "binding (entries ?h ! f) = \<lparr>b_name = Some n, b_index = 0\<rparr>" using f by (simp add: bnd)
  moreover have "binding_mset ?h = add_mset \<lparr>b_name = Some n, b_index = 0\<rparr> (binding_mset h)"
  proof (rule binding_mset_update)
    show "map binding (entries ?h) = (map binding (entries h))[f := \<lparr>b_name = Some n, b_index = 0\<rparr>]"
      by (rule nth_equalityI) (use bnd cap in \<open>auto simp: nth_list_update\<close>)
    show "b_name (binding (entries h ! f)) = None" using f by (simp add: bucket_def)
  qed (use f in simp_all)
  ultimately show ?thesis by (rule claimedI)
qed


text \<open>
  Case 3: the main entry holds a name of another chain; that name moves to the free entry, and the
  new one takes its main entry. The search for the predecessor in the other chain ends there.
\<close>

lemma chain_pred_path:
  "path (entries h) (Some i) (us @ [p]) (Some e) \<Longrightarrow> e \<notin> set (us @ [p]) \<Longrightarrow> length (us @ [p]) \<le> fuel \<Longrightarrow>
     chain_pred fuel h e i = Some p"
proof (induction us arbitrary: i fuel)
  case Nil
  then show ?case by (cases fuel) auto
next
  case (Cons u us)
  obtain k where k: "fuel = Suc k" using Cons.prems(3) by (cases fuel) auto
  from Cons.prems(1) have i: "i = u" "path (entries h) (entry_next (entries h ! u)) (us @ [p]) (Some e)" by auto
  then obtain j where j: "entry_next (entries h ! u) = Some j" "j \<in> set (us @ [p])" by (cases us) auto
  then have "chain_pred k h e j = Some p" using i Cons.prems k by (intro Cons.IH) auto
  with i j Cons.prems(2) show ?case by (auto simp: k)
qed

definition relocate :: "byte list \<Rightarrow> nat \<Rightarrow> nat \<Rightarrow> nat \<Rightarrow> WasmBindingHash \<Rightarrow> WasmBindingHash" where
  "relocate n f p e h =
     (let h2 = set_next (Some f) p h;
          h3 = h2\<lparr>entries := (entries h2)[f := entries h2 ! e]\<rparr>
      in claim_entry (Some n) e (set_next None e h3))"

lemma chain_prefix:
  assumes "chain_ok h b is" "e \<in> set is" "e \<noteq> b"
  obtains us p ys where "is = us @ p # e # ys" "path (entries h) (Some b) (us @ [p]) (Some e)"
    "linked (entries h) (entry_next (entries h ! e)) ys"
proof -
  from assms(2) obtain xs ys where "is": "is = xs @ e # ys" by (auto simp: in_set_conv_decomp)
  have "xs \<noteq> []" using chain_head [OF assms(1)] "is" assms(3) by auto
  then obtain us p where "xs = us @ [p]" by (cases xs rule: rev_cases) auto
  moreover from assms(1) "is" have "path (entries h) (Some b) xs (Some e)"
    "linked (entries h) (entry_next (entries h ! e)) ys" by (auto simp: chain_ok_def)
  ultimately show ?thesis using that "is" by auto
qed

lemma claim_relocate:
  assumes ok: "hash_ok h C (f # F)" and e: "e = hash_main_entry h n" and other: "bucket h e = Some b0" "b0 \<noteq> e"
  obtains p where "chain_pred (hash_capacity h) (take_free_head f h) e b0 = Some p"
    "claimed h (f # F) n (relocate n f p e (take_free_head f h)) e"
proof -
  let ?N = "hash_capacity h" and ?t = "take_free_head f h"
  note D = hash_okD [OF ok] and T = take_free_head_nth [OF hash_okD(4) [OF ok]]
  have main: "hash_name n mod ?N = e" using e by (simp add: hash_main_entry_def)
  then have eN: "e < ?N" using D(1) by auto
  have b0N: "b0 < ?N" using bucket_less [OF D(1) other(1)] .
  have f: "f < ?N" "bucket h f = None" "f \<noteq> e" using free_member [OF D(4), of f] other(1) by auto
  obtain us p ys where C0: "C b0 = us @ p # e # ys" and pre: "path (entries h) (Some b0) (us @ [p]) (Some e)"
    and post: "linked (entries h) (entry_next (entries h ! e)) ys"
    using chain_prefix [OF D(2) [OF b0N] D(3) [OF eN other(1)]] other(2) by metis
  have dist: "distinct (us @ p # e # ys)" using D(2) [OF b0N] C0 by (simp add: chain_ok_def)
  have not_f: "j < ?N \<and> j \<noteq> f" if "b < ?N" "j \<in> set (C b)" for b j
    using chain_not_free [OF D(2) [OF that(1)] D(4) that(2)] by auto
  have mem: "j < ?N \<and> j \<noteq> f \<and> bucket h j = Some b0" if "j \<in> set (us @ p # e # ys)" for j
    using not_f [OF b0N, of j] D(2) [OF b0N] that C0 by (auto simp: chain_ok_def)
  have pred: "chain_pred ?N ?t e b0 = Some p"
  proof (rule chain_pred_path)
    have "path (entries ?t) (Some b0) (us @ [p]) (Some e) = path (entries h) (Some b0) (us @ [p]) (Some e)"
      by (rule path_cong) (use mem in \<open>auto simp: T\<close>)
    with pre show "path (entries ?t) (Some b0) (us @ [p]) (Some e)" by blast
    show "length (us @ [p]) \<le> ?N" using chain_length [OF D(2) [OF b0N]] C0 by simp
  qed (use dist in auto)
  let ?h = "relocate n f p e ?t"
  have p: "p < ?N" "p \<noteq> f" "p \<noteq> e" using mem [of p] dist by auto
  have cap: "hash_capacity ?h = ?N" and head: "free_head ?h = entry_next (entries h ! f)"
    by (simp_all add: relocate_def Let_def T)
  have nxt: "entry_next (entries ?h ! j) =
      (if j = e then None else if j = f then entry_next (entries h ! e)
       else if j = p then Some f else entry_next (entries h ! j))" if "j < ?N" for j
    using that eN f p by (auto simp: relocate_def Let_def nth_set nth_list_update T)
  have bnd: "binding (entries ?h ! j) =
      (if j = e then \<lparr>b_name = Some n, b_index = 0\<rparr> else if j = f then binding (entries h ! e) else binding (entries h ! j))"
    if "j < ?N" for j using that eN f p by (auto simp: relocate_def Let_def nth_set nth_list_update T)
  have prv: "entry_prev (entries ?h ! j) = (if F \<noteq> [] \<and> j = hd F then None else entry_prev (entries h ! j))"
    if "j < ?N" "j \<noteq> e" "j \<noteq> f" for j
    using that by (auto simp: relocate_def Let_def nth_set nth_list_update T)
  have bkt: "bucket ?h j = (if j = e then Some e else if j = f then Some b0 else bucket h j)" if "j < ?N" for j
    using that main other by (simp add: bucket_def bnd cap)
  have F_sub: "j < ?N \<and> j \<noteq> e \<and> j \<noteq> f \<and> j \<noteq> p" if "j \<in> set F" for j
    using free_member [OF D(4), of j] free_distinct [OF D(4)] that other mem [of p] by auto
  have free': "free_ok ?h F"
    by (rule free_ok_tail [OF D(4) cap head]) (use F_sub other in \<open>auto simp: nxt prv bkt\<close>)
  have Ce: "C e = []"
    using chain_head [OF D(2) [OF eN]] D(2) [OF eN] other by (cases "C e") (auto simp: chain_ok_def)
  define C' where "C' = C(b0 := us @ p # f # ys, e := [e])"
  have chain: "chain_ok ?h b (C' b)" if bN: "b < ?N" for b
  proof -
    consider "b = e" | "b = b0" | "b \<noteq> e" "b \<noteq> b0" by blast
    then show ?thesis
    proof cases
      case 1
      then show ?thesis using eN by (simp add: C'_def chain_ok_def cap bkt nxt)
    next
      case 2
      have "path (entries ?h) (Some b0) (us @ [p]) (entry_next (entries ?h ! p))"
      proof (rule path_redirect [OF pre])
        fix j assume "j \<in> set us"
        with mem [of j] dist show "entry_next (entries ?h ! j) = entry_next (entries h ! j)" by (auto simp: nxt)
      qed
      moreover have "entry_next (entries ?h ! j) = entry_next (entries h ! j)" if "j \<in> set ys" for j
        using mem [of j] dist that by (auto simp: nxt)
      then have "linked (entries ?h) (entry_next (entries h ! e)) ys"
        using post path_cong [of ys "entries ?h" "entries h"] by simp
      ultimately have "linked (entries ?h) (Some b0) ((us @ [p]) @ f # ys)"
        using p f eN by (simp add: nxt)
      moreover have "distinct (us @ p # f # ys)" using dist mem by auto
      moreover have "\<forall>j \<in> set (us @ p # f # ys). j < ?N \<and> bucket ?h j = Some b0"
        using mem dist f by (auto simp: bkt)
      ultimately show ?thesis using 2 other(2) by (simp add: C'_def chain_ok_def cap)
    next
      case 3
      have "j \<noteq> e \<and> j \<noteq> p" if "j \<in> set (C b)" for j
        using D(2) [OF bN] that other 3 mem [of p] by (auto simp: chain_ok_def)
      with not_f [OF bN] have "entry_next (entries ?h ! j) = entry_next (entries h ! j)
          \<and> b_name (binding (entries ?h ! j)) = b_name (binding (entries h ! j))" if "j \<in> set (C b)" for j
        using that by (simp add: nxt bnd)
      then have "chain_ok ?h b (C b)" by (rule chain_ok_frame [OF D(2) [OF bN] cap])
      with 3 show ?thesis by (simp add: C'_def)
    qed
  qed
  have complete: "i \<in> set (C' b)" if "i < ?N" "bucket ?h i = Some b" for i b
    using that D(3) [of i b] C0 Ce by (auto simp: C'_def bkt split: if_splits)
  have "hash_ok ?h C' F" using D(1) chain complete free' by (simp add: hash_ok_def cap)
  moreover have "length F = length (f # F) - 1" by simp
  moreover note cap eN
  moreover have "binding (entries ?h ! e) = \<lparr>b_name = Some n, b_index = 0\<rparr>" using eN by (simp add: bnd)
  moreover have "binding_mset ?h = add_mset \<lparr>b_name = Some n, b_index = 0\<rparr> (binding_mset h)"
  proof -
    let ?m = "h\<lparr>entries := (entries h)[f := entries h ! e]\<rparr>"
    have "map binding (entries ?h) = (map binding (entries ?m))[e := \<lparr>b_name = Some n, b_index = 0\<rparr>]"
      by (rule nth_equalityI) (use bnd cap in \<open>auto simp: nth_list_update\<close>)
    then have "mset (map binding (entries ?h)) = add_mset \<lparr>b_name = Some n, b_index = 0\<rparr>
        (mset (map binding (entries ?m)) - {#binding (entries h ! e)#})"
      using eN f by (simp add: mset_update nth_list_update)
    also have "mset (map binding (entries ?m)) = add_mset (binding (entries h ! e))
        (mset (map binding (entries h)) - {#binding (entries h ! f)#})"
      using f by (simp add: map_update mset_update)
    finally have "mset (map binding (entries ?h)) = add_mset \<lparr>b_name = Some n, b_index = 0\<rparr>
        (mset (map binding (entries h)) - {#binding (entries h ! f)#})" by simp
    moreover have "b_name (binding (entries h ! f)) = None" using f by (simp add: bucket_def)
    ultimately show ?thesis by (simp add: binding_mset_def filter_mset_eq_conv)
  qed
  ultimately have "claimed h (f # F) n ?h e" by (rule claimedI)
  with pred that show ?thesis by blast
qed


lemma hash_new_entry_claims:
  assumes ok: "hash_ok h C F" and free: "F \<noteq> []"
  obtains h' e where "hash_new_entry h (Some n) = Some (h', e)" "claimed h F n h' e"
proof -
  let ?e = "hash_main_entry h n"
  obtain f F' where F: "F = f # F'" using free by (cases F) auto
  note T = take_free_head_nth [OF hash_okD(4) [OF ok [unfolded F]]]
  have eN: "?e < hash_capacity h" using hash_okD(1) [OF ok] by (simp add: hash_main_entry_def)
  have head: "free_head h = Some f" using hash_okD(4) [OF ok] F by (simp add: free_ok_def)
  show ?thesis
  proof (cases "bucket h ?e")
    case None
    then have "hash_new_entry h (Some n) = Some (claim_entry (Some n) ?e (hash_unlink_free ?e h), ?e)"
      by (simp add: hash_new_entry_def free_iff Let_def)
    with claim_free_main [OF ok refl None] that show ?thesis by blast
  next
    case (Some b)
    have other: "hash_main_entry (take_free_head f h)
        (slice_bytes (b_name (binding (entries (take_free_head f h) ! ?e)))) = b"
      using Some eN by (auto simp: T hash_main_entry_def bucket_def slice_bytes_def)
    show ?thesis
    proof (cases "b = ?e")
      case True
      then have "hash_new_entry h (Some n) = Some (push_second n f ?e (take_free_head f h), f)"
        using Some other by (simp add: hash_new_entry_def free_iff Let_def head push_second_def)
      with claim_second [OF ok [unfolded F] refl] Some True that F show ?thesis by blast
    next
      case False
      from claim_relocate [OF ok [unfolded F] refl Some False] obtain p where
        p: "chain_pred (hash_capacity h) (take_free_head f h) ?e b = Some p"
        and claimed: "claimed h (f # F') n (relocate n f p ?e (take_free_head f h)) ?e" .
      then have "hash_new_entry h (Some n) = Some (relocate n f p ?e (take_free_head f h), ?e)"
        using Some False other by (simp add: hash_new_entry_def free_iff Let_def head T relocate_def)
      with claimed that F show ?thesis by blast
    qed
  qed
qed

subsection \<open>Growing the table\<close>

text \<open>The loop that threads the free list through a new array leaves the last entry at its head.\<close>

definition threaded :: "WasmBindingHash \<Rightarrow> nat \<Rightarrow> bool" where
  "threaded h k \<longleftrightarrow> k \<le> hash_capacity h \<and> free_head h = (if k = 0 then None else Some (k - 1))
     \<and> (\<forall>j < k. b_name (binding (entries h ! j)) = None
        \<and> entry_next (entries h ! j) = (if j = 0 then None else Some (j - 1))
        \<and> (Suc j < k \<longrightarrow> entry_prev (entries h ! j) = Some (Suc j)))"

lemma threaded_push:
  assumes "threaded h k" "k < hash_capacity h"
  shows "threaded (push_free_entry k h) (Suc k) \<and> hash_capacity (push_free_entry k h) = hash_capacity h"
proof (cases k)
  case 0
  with assms show ?thesis by (auto simp: threaded_def push_free_entry_def Let_def Suc_le_eq)
next
  case (Suc m)
  with assms show ?thesis
    by (auto simp: threaded_def push_free_entry_def Let_def nth_set nth_list_update less_Suc_eq)
qed

lemma threaded_fold:
  "threaded h 0 \<Longrightarrow> k \<le> hash_capacity h \<Longrightarrow>
     threaded (fold push_free_entry [0..<k] h) k \<and> hash_capacity (fold push_free_entry [0..<k] h) = hash_capacity h"
  by (induction k) (auto dest: threaded_push)

lemma threaded_free_list:
  assumes "threaded h k" "0 < k" "k = hash_capacity h"
  shows "hash_ok (set_prev None (k - Suc 0) h) (\<lambda>_. []) (rev [0..<k])"
proof -
  let ?h = "set_prev None (k - Suc 0) h"
  have nxt: "entry_next (entries ?h ! j) = (if j = 0 then None else Some (j - 1))"
    and name: "b_name (binding (entries ?h ! j)) = None" if "j < k" for j
    using that assms by (auto simp: threaded_def nth_set)
  have prv: "entry_prev (entries ?h ! j) = (if Suc j < k then Some (Suc j) else None)" if "j < k" for j
    using that assms by (auto simp: threaded_def nth_set)
  have "linked (entries ?h) (if m = 0 then None else Some (m - 1)) (rev [0..<m])" if "m \<le> k" for m
    using that by (induction m) (auto simp: nxt)
  from this [of k] have "linked (entries ?h) (free_head ?h) (rev [0..<k])"
    using assms by (simp add: threaded_def)
  moreover have "back_linked (entries ?h) (if m < k then Some m else None) (rev [0..<m])" if "m \<le> k" for m
    using that by (induction m) (auto simp: prv)
  from this [of k] have "back_linked (entries ?h) None (rev [0..<k])" by simp
  moreover have "set (rev [0..<k]) = {i. i < k \<and> bucket ?h i = None}" using name by (auto simp: bucket_def)
  ultimately show ?thesis using assms name
    by (auto simp: hash_ok_def chain_ok_def free_ok_def bucket_def)
qed

lemma hash_fresh_ok:
  fixes junk desired
  defines "h \<equiv> hash_fresh junk desired"
  assumes "0 < desired"
  shows "\<exists>C F. hash_ok h C F \<and> length F = hash_capacity h" and "desired \<le> hash_capacity h"
    and "binding_mset h = {#}" and "entries_size h = 0"
proof -
  let ?cap = "wasm_ensure_capacity 0 desired"
  let ?g = "\<lparr>entries = replicate ?cap junk, entries_size = 0, free_head = None\<rparr>"
  let ?h = "fold push_free_entry [0..<?cap] ?g"
  have cap: "desired \<le> ?cap" using wasm_ensure_capacity_ge [of desired 0] by simp
  have "threaded ?g 0" by (simp add: threaded_def)
  from threaded_fold [OF this, of ?cap] have th: "threaded ?h ?cap" and len: "hash_capacity ?h = ?cap" by simp_all
  have pos: "?cap \<noteq> 0" using cap assms(2) by linarith
  have "free_head ?h = (if ?cap = 0 then None else Some (?cap - 1))" using th unfolding threaded_def by blast
  then have "free_head ?h = Some (?cap - Suc 0)" unfolding if_not_P [OF pos] One_nat_def .
  then have h: "h = set_prev None (?cap - Suc 0) ?h" by (simp add: h_def hash_fresh_def Let_def)
  have "hash_ok h (\<lambda>_. []) (rev [0..<?cap])"
    unfolding h by (rule threaded_free_list [OF th]) (use cap assms(2) len in auto)
  then show "\<exists>C F. hash_ok h C F \<and> length F = hash_capacity h" using h len by force
  show "desired \<le> hash_capacity h" using h len cap by simp
  show "binding_mset h = {#}"
  proof -
    have "b \<notin># binding_mset h" for b
      using th len unfolding h by (auto simp: in_binding_mset threaded_def nth_set)
    then show ?thesis by (metis multiset_nonemptyE)
  qed
  have "entries_size (fold push_free_entry js g) = entries_size g" for js g
    by (induction js arbitrary: g) (auto simp: push_free_entry_def Let_def set_prev_def split: option.split)
  then show "entries_size h = 0" unfolding h by (simp add: set_prev_def)
qed


text \<open>The callers store an index, and \<open>hash_resize\<close> a whole binding, in the entry they get.\<close>

definition rebind :: "WasmBinding \<Rightarrow> nat \<Rightarrow> WasmBindingHash \<Rightarrow> WasmBindingHash" where
  "rebind b e h = h\<lparr>entries := (entries h)[e := (entries h ! e)\<lparr>binding := b\<rparr>]\<rparr>"

lemma hash_ok_cong:
  assumes "hash_ok h C F" "hash_capacity h' = hash_capacity h" "free_head h' = free_head h"
    and same: "\<And>j. j < hash_capacity h \<Longrightarrow> entry_next (entries h' ! j) = entry_next (entries h ! j)
      \<and> entry_prev (entries h' ! j) = entry_prev (entries h ! j)
      \<and> b_name (binding (entries h' ! j)) = b_name (binding (entries h ! j))"
  shows "hash_ok h' C F"
proof -
  note D = hash_okD [OF assms(1)]
  have bkt: "bucket h' j = bucket h j" if "j < hash_capacity h" for j
    using same [OF that] assms(2) by (simp add: bucket_def)
  have "chain_ok h' b (C b)" if "b < hash_capacity h" for b
  proof (rule chain_ok_frame [OF D(2) [OF that] assms(2)])
    fix i assume "i \<in> set (C b)"
    with D(2) [OF that] have "i < hash_capacity h" by (simp add: chain_ok_def)
    with same show "entry_next (entries h' ! i) = entry_next (entries h ! i)
        \<and> b_name (binding (entries h' ! i)) = b_name (binding (entries h ! i))" by blast
  qed
  moreover have "free_ok h' F"
  proof -
    have "i < hash_capacity h" if "i \<in> set F" for i using free_member [OF D(4) that] by blast
    then have links: "linked (entries h') (free_head h) F = linked (entries h) (free_head h) F"
      "back_linked (entries h') None F = back_linked (entries h) None F"
      using same by (intro path_cong, simp, intro back_linked_cong, simp)
    have "{i. i < hash_capacity h' \<and> bucket h' i = None} = {i. i < hash_capacity h \<and> bucket h i = None}"
      using bkt assms(2) by auto
    with links show ?thesis using D(4) assms(3) by (simp add: free_ok_def)
  qed
  ultimately show ?thesis using D(1,3) bkt assms(2) by (auto simp: hash_ok_def)
qed

lemma claimed_rebind:
  assumes "claimed h F n h' e" "b_name b = Some n"
  shows "\<exists>C' F'. hash_ok (rebind b e h') C' F' \<and> length F' = length F - 1"
    and "hash_capacity (rebind b e h') = hash_capacity h"
    and "binding_mset (rebind b e h') = add_mset b (binding_mset h)"
proof -
  let ?b = "\<lparr>b_name = Some n, b_index = 0\<rparr>"
  from assms(1) obtain C' F' where ok: "hash_ok h' C' F'" "length F' = length F - 1"
    and cap: "hash_capacity h' = hash_capacity h" "e < hash_capacity h"
    and b: "binding (entries h' ! e) = ?b" "binding_mset h' = add_mset ?b (binding_mset h)"
    unfolding claimed_def by blast
  have "hash_ok (rebind b e h') C' F'"
  proof (rule hash_ok_cong [OF ok(1)])
    fix j assume "j < hash_capacity h'"
    then show "entry_next (entries (rebind b e h') ! j) = entry_next (entries h' ! j)
      \<and> entry_prev (entries (rebind b e h') ! j) = entry_prev (entries h' ! j)
      \<and> b_name (binding (entries (rebind b e h') ! j)) = b_name (binding (entries h' ! j))"
      using b(1) assms(2) by (cases "j = e") (simp_all add: rebind_def)
  qed (simp_all add: rebind_def)
  with ok(2) show "\<exists>C' F'. hash_ok (rebind b e h') C' F' \<and> length F' = length F - 1" by blast
  show "hash_capacity (rebind b e h') = hash_capacity h" using cap by (simp add: rebind_def)
  have "mset (map binding (entries (rebind b e h'))) = add_mset b (mset (map binding (entries h')) - {#?b#})"
    using cap b(1) by (simp add: rebind_def map_update mset_update)
  then have "binding_mset (rebind b e h') = add_mset b (binding_mset h' - {#?b#})"
    using assms(2) by (simp add: binding_mset_def)
  then show "binding_mset (rebind b e h') = add_mset b (binding_mset h)" using b(2) by simp
qed

lemma hash_copy_ok:
  "hash_ok h C F \<Longrightarrow> length (filter (\<lambda>x. b_name (binding x) \<noteq> None) es) \<le> length F \<Longrightarrow>
   \<exists>h'. hash_copy es h = Some h' \<and> hash_capacity h' = hash_capacity h
     \<and> binding_mset h' = binding_mset h + filter_mset (\<lambda>b. b_name b \<noteq> None) (mset (map binding es))
     \<and> (\<exists>C' F'. hash_ok h' C' F'
          \<and> length F' = length F - length (filter (\<lambda>x. b_name (binding x) \<noteq> None) es))"
proof (induction es arbitrary: h C F)
  case Nil
  then show ?case by auto
next
  case (Cons x es)
  show ?case
  proof (cases "b_name (binding x)")
    case None
    with Cons.IH [OF Cons.prems(1)] Cons.prems(2) show ?thesis by (simp add: wasm_hash_entry_is_free_def)
  next
    case (Some n)
    with Cons.prems(2) have "F \<noteq> []" by auto
    from hash_new_entry_claims [OF Cons.prems(1) this, of n] obtain h1 e where
      e: "hash_new_entry h (Some n) = Some (h1, e)" "claimed h F n h1 e" .
    from claimed_rebind [OF e(2) Some] obtain C1 F1 where
      1: "hash_ok (rebind (binding x) e h1) C1 F1" "length F1 = length F - 1"
        "hash_capacity (rebind (binding x) e h1) = hash_capacity h"
        "binding_mset (rebind (binding x) e h1) = add_mset (binding x) (binding_mset h)"
      by blast
    have "length (filter (\<lambda>x. b_name (binding x) \<noteq> None) es) \<le> length F1"
      using 1(2) Cons.prems(2) Some by simp
    from Cons.IH [OF 1(1) this] show ?thesis
      using 1 e(1) Some by (auto simp: rebind_def [symmetric] wasm_hash_entry_is_free_def)
  qed
qed


lemma hash_resize_ok:
  assumes "length (filter (\<lambda>x. b_name (binding x) \<noteq> None) (entries h)) < desired"
  obtains h' C F where "hash_resize junk h desired = Some h'" "hash_ok h' C F" "F \<noteq> []"
    "binding_mset h' = binding_mset h"
proof -
  let ?used = "length (filter (\<lambda>x. b_name (binding x) \<noteq> None) (entries h))"
  have "0 < desired" using assms by linarith
  note fresh = hash_fresh_ok [OF this, of junk]
  from fresh(1) obtain C F where ok: "hash_ok (hash_fresh junk desired) C F"
    and F: "length F = hash_capacity (hash_fresh junk desired)" by blast
  have le: "?used < length F" using F fresh(2) assms by linarith
  from hash_copy_ok [OF ok less_imp_le [OF le]] obtain h' C' F' where
    copy: "hash_copy (entries h) (hash_fresh junk desired) = Some h'" and ok': "hash_ok h' C' F'"
    and F': "length F' = length F - ?used"
    and tb: "binding_mset h' = binding_mset (hash_fresh junk desired) + filter_mset (\<lambda>b. b_name b \<noteq> None) (mset (map binding (entries h)))"
    by blast
  show ?thesis
  proof (rule that)
    show "hash_resize junk h desired = Some h'" using copy by (simp add: hash_resize_def)
    show "F' \<noteq> []" using F' le by auto
    show "binding_mset h' = binding_mset h" unfolding tb fresh(3) by (simp add: binding_mset_def)
  qed (rule ok')
qed

subsection \<open>The table as a map\<close>

text \<open>Inserting a name and storing its index, as every caller does.\<close>

definition add_binding ::
    "WasmBindingHashEntry \<Rightarrow> WasmBindingHash \<Rightarrow> byte list \<Rightarrow> int \<Rightarrow> WasmBindingHash option" where
  "add_binding junk hash name index =
     (case wasm_insert_binding junk hash (Some name) of
        None \<Rightarrow> None
      | Some (hash', entry) \<Rightarrow> Some (set_binding_index hash' entry index))"

definition hash_inv :: "WasmBindingHash \<Rightarrow> bool" where
  "hash_inv h \<longleftrightarrow> (h = empty_hash \<or> 0 < entries_size h \<and> (\<exists>C F. hash_ok h C F))
     \<and> (\<forall>b \<in># binding_mset h. \<forall>b' \<in># binding_mset h. b_name b = b_name b' \<longrightarrow> b = b')
     \<and> (\<forall>b \<in># binding_mset h. 0 \<le> b_index b)"

lemma hash_inv_empty: "hash_inv empty_hash"
  by (simp add: hash_inv_def binding_mset_def empty_hash_def)

lemma find_empty_hash: "wasm_find_binding_index_by_name empty_hash n = - 1"
  by (simp add: wasm_find_binding_index_by_name_def empty_hash_def)

lemma hash_inv_found:
  "hash_inv h \<Longrightarrow> found h n (wasm_find_binding_index_by_name h (Some n))"
proof (cases "h = empty_hash")
  case True
  then show ?thesis by (simp add: find_empty_hash found_def) (simp add: binding_mset_def empty_hash_def)
next
  case False
  then show "hash_inv h \<Longrightarrow> ?thesis" using find_binding_found by (auto simp: hash_inv_def)
qed

lemma found_unique: "hash_inv h \<Longrightarrow> found h n r \<Longrightarrow> found h n r' \<Longrightarrow> r = r'"
proof (cases "\<exists>b. b \<in># binding_mset h \<and> b_name b = Some n")
  case True
  assume inv: "hash_inv h" and "found h n r" "found h n r'"
  with True obtain b b' where "b \<in># binding_mset h" "b_name b = Some n" "r = b_index b"
    "b' \<in># binding_mset h" "b_name b' = Some n" "r' = b_index b'" by (auto simp: found_def)
  moreover from this inv have "b = b'" by (simp add: hash_inv_def)
  ultimately show "r = r'" by simp
qed (auto simp: found_def)

text \<open>Before it claims an entry, \<open>wasm_insert_binding\<close> makes sure that one is free.\<close>

lemma insert_room:
  assumes "h = empty_hash \<or> 0 < entries_size h \<and> (\<exists>C F. hash_ok h C F)"
  obtains h2 C F where "hash_ok h2 C F" "F \<noteq> []" "binding_mset h2 = binding_mset h"
    "\<And>n. wasm_insert_binding junk h (Some n) =
       (case hash_new_entry h2 (Some n) of None \<Rightarrow> None
        | Some (h3, e) \<Rightarrow> Some (h3\<lparr>entries_size := entries_size h3 + 1\<rparr>, e))"
proof -
  have head: "free_head g = None \<longleftrightarrow> F = []" if "hash_ok g C F" for g C F
    using hash_okD(4) [OF that] by (cases F) (auto simp: free_ok_def)
  show ?thesis
  proof (cases "h = empty_hash")
    case True
    then have "length (filter (\<lambda>x. b_name (binding x) \<noteq> None) (entries h)) < INITIAL_HASH_CAPACITY"
      by (simp add: empty_hash_def INITIAL_HASH_CAPACITY_def)
    from hash_resize_ok [OF this, of junk] obtain h' C F where
      h': "hash_resize junk h INITIAL_HASH_CAPACITY = Some h'" "hash_ok h' C F" "F \<noteq> []"
        "binding_mset h' = binding_mset h" .
    show ?thesis
      by (rule that [OF h'(2-4)]) (use True h' head [OF h'(2)] in \<open>auto simp: wasm_insert_binding_def empty_hash_def\<close>)
  next
    case False
    with assms obtain C F where ok: "hash_ok h C F" and size: "entries_size h \<noteq> 0" by auto
    show ?thesis
    proof (cases "F = []")
      case True
      have "length (filter (\<lambda>x. b_name (binding x) \<noteq> None) (entries h)) < hash_capacity h * 2"
        using hash_okD(1) [OF ok] length_filter_le [of "\<lambda>x. b_name (binding x) \<noteq> None" "entries h"] by linarith
      from hash_resize_ok [OF this, of junk] obtain h' C' F' where
        h': "hash_resize junk h (hash_capacity h * 2) = Some h'" "hash_ok h' C' F'" "F' \<noteq> []"
          "binding_mset h' = binding_mset h" .
      show ?thesis
        by (rule that [OF h'(2-4)]) (use True h' head [OF ok] size in \<open>auto simp: wasm_insert_binding_def\<close>)
    next
      case False
      show ?thesis
        by (rule that [OF ok False refl]) (use False head [OF ok] size in \<open>auto simp: wasm_insert_binding_def\<close>)
    qed
  qed
qed

lemma add_binding_ok:
  assumes inv: "hash_inv h" and fresh: "wasm_find_binding_index_by_name h (Some n) = - 1" and ix: "0 \<le> ix"
  obtains h' where "add_binding junk h n ix = Some h'" "hash_inv h'"
    "\<And>m. wasm_find_binding_index_by_name h' (Some m) = (if m = n then ix else wasm_find_binding_index_by_name h (Some m))"
proof -
  let ?b = "\<lparr>b_name = Some n, b_index = ix\<rparr>"
  from inv have "h = empty_hash \<or> 0 < entries_size h \<and> (\<exists>C F. hash_ok h C F)" by (simp add: hash_inv_def)
  from insert_room [OF this, of junk] obtain h2 C F where 2: "hash_ok h2 C F" "F \<noteq> []" "binding_mset h2 = binding_mset h"
    and ins: "\<And>n. wasm_insert_binding junk h (Some n) =
       (case hash_new_entry h2 (Some n) of None \<Rightarrow> None
        | Some (h3, e) \<Rightarrow> Some (h3\<lparr>entries_size := entries_size h3 + 1\<rparr>, e))" by blast
  from hash_new_entry_claims [OF 2(1,2), of n] obtain h3 e where
    3: "hash_new_entry h2 (Some n) = Some (h3, e)" "claimed h2 F n h3 e" .
  let ?h = "(rebind ?b e h3)\<lparr>entries_size := entries_size h3 + 1\<rparr>"
  have "binding (entries h3 ! e) = \<lparr>b_name = Some n, b_index = 0\<rparr>" using 3(2) by (simp add: claimed_def)
  then have add: "add_binding junk h n ix = Some ?h"
    by (simp add: add_binding_def ins 3(1) set_binding_index_def rebind_def)
  from claimed_rebind [OF 3(2), of ?b] 2(3) obtain C' F' where
    ok: "hash_ok (rebind ?b e h3) C' F'" and tb: "binding_mset (rebind ?b e h3) = add_mset ?b (binding_mset h)" by auto
  then have tb': "binding_mset ?h = add_mset ?b (binding_mset h)" by (simp add: binding_mset_def)
  have ok': "hash_ok ?h C' F'" by (rule hash_ok_cong [OF ok]) simp_all
  have absent: "b_name b \<noteq> Some n" if "b \<in># binding_mset h" for b
    using hash_inv_found [OF inv, of n] fresh inv that by (auto simp: found_def hash_inv_def split: if_splits)
  have inv': "hash_inv ?h"
    using inv ix ok' absent unfolding hash_inv_def tb' by (auto simp: eq_commute)
  have "wasm_find_binding_index_by_name ?h (Some m) = (if m = n then ix else wasm_find_binding_index_by_name h (Some m))" for m
  proof (rule found_unique [OF inv' hash_inv_found [OF inv']])
    show "found ?h m (if m = n then ix else wasm_find_binding_index_by_name h (Some m))"
      using hash_inv_found [OF inv, of m] unfolding found_def tb' by (auto split: if_splits)
  qed
  with add inv' show ?thesis using that by blast
qed

subsection \<open>The contract of a name table\<close>

text \<open>
  What the parser and the name passes rely on: a table is empty at first, and a name that is not
  in it can be added with an index, after which exactly the lookup of that name has changed.
\<close>

locale name_table =
  fixes none :: 'h
    and add :: "'h \<Rightarrow> byte list \<Rightarrow> int \<Rightarrow> 'h option"
    and find_index :: "'h \<Rightarrow> byte list \<Rightarrow> int"
    and invar :: "'h \<Rightarrow> bool"
  assumes invar_none: "invar none"
    and find_none: "find_index none n = - 1"
    and add_law: "invar h \<Longrightarrow> find_index h n = - 1 \<Longrightarrow> 0 \<le> ix \<Longrightarrow>
      \<exists>h'. add h n ix = Some h' \<and> invar h' \<and> find_index h' = (find_index h)(n := ix)"
begin

primrec add_all :: "'h \<Rightarrow> int \<Rightarrow> byte list list \<Rightarrow> 'h option" where
  "add_all h ix [] = Some h"
| "add_all h ix (n # ns) = (case add h n ix of None \<Rightarrow> None | Some h' \<Rightarrow> add_all h' (ix + 1) ns)"

lemma add_all_law:
  "invar h \<Longrightarrow> distinct ns \<Longrightarrow> \<forall>n \<in> set ns. find_index h n = - 1 \<Longrightarrow> 0 \<le> ix \<Longrightarrow>
   \<exists>h'. add_all h ix ns = Some h' \<and> invar h' \<and> (\<forall>i < length ns. find_index h' (ns ! i) = ix + int i)
     \<and> (\<forall>n. n \<notin> set ns \<longrightarrow> find_index h' n = find_index h n)"
proof (induction ns arbitrary: h ix)
  case (Cons n ns)
  from add_law [OF Cons.prems(1), of n ix] Cons.prems obtain h1 where
    1: "add h n ix = Some h1" "invar h1" "find_index h1 = (find_index h)(n := ix)" by auto
  have "\<forall>m \<in> set ns. find_index h1 m = - 1" using 1(3) Cons.prems by auto
  from Cons.IH [OF 1(2) _ this, of "ix + 1"] Cons.prems obtain h' where
    2: "add_all h1 (ix + 1) ns = Some h'" "invar h'" "\<forall>i < length ns. find_index h' (ns ! i) = ix + 1 + int i"
      "\<forall>m. m \<notin> set ns \<longrightarrow> find_index h' m = find_index h1 m" by auto
  have "find_index h' ((n # ns) ! i) = ix + int i" if "i < length (n # ns)" for i
    using that 1(3) 2(3,4) Cons.prems(2) by (cases i) auto
  moreover have "find_index h' m = find_index h m" if "m \<notin> set (n # ns)" for m
    using that 1(3) 2(4) by auto
  ultimately show ?case using 1(1) 2(1,2) by auto
qed simp

lemma index_all:
  assumes "distinct ns"
  obtains h where "add_all none 0 ns = Some h" "invar h" "\<And>i. i < length ns \<Longrightarrow> find_index h (ns ! i) = int i"
    "\<And>n. n \<notin> set ns \<Longrightarrow> find_index h n = - 1"
  using add_all_law [OF invar_none assms, of 0] find_none by auto

end

interpretation bindings: name_table empty_hash "add_binding junk" "\<lambda>h n. wasm_find_binding_index_by_name h (Some n)" hash_inv
proof
  fix h n ix
  assume "hash_inv h" "wasm_find_binding_index_by_name h (Some n) = - 1" "0 \<le> (ix :: int)"
  from add_binding_ok [OF this, of junk] obtain h' where "add_binding junk h n ix = Some h'" "hash_inv h'"
    "\<And>m. wasm_find_binding_index_by_name h' (Some m) = (if m = n then ix else wasm_find_binding_index_by_name h (Some m))" by blast
  then show "\<exists>h'. add_binding junk h n ix = Some h' \<and> hash_inv h'
      \<and> (\<lambda>m. wasm_find_binding_index_by_name h' (Some m)) = (\<lambda>m. wasm_find_binding_index_by_name h (Some m))(n := ix)"
    by (auto simp: fun_eq_iff)
qed (simp_all add: hash_inv_empty find_empty_hash)

end
