(* ===== verification/Wabt_Findings.thy ===== *)
theory Wabt_Findings
  imports Wabt_Whole_Module Wabt_Hash_Correct
begin

unbundle bit_operations_syntax

text \<open>
  Inputs on which the code does not do what it means to, evaluated on the model. None of them is
  among the inputs the theorems about whole modules speak of: a well-formed module closes its
  blocks, has no NUL byte in a name and no alignment of more than 32 bits.
\<close>

subsection \<open>The AST reader on malformed files\<close>

text \<open>One function type without parameters and results, one function of that type.\<close>

definition one_func_bytes :: "byte list" where
  "one_func_bytes = [0x00, 0x61, 0x73, 0x6d, 0x0d, 0x00, 0x00, 0x00, 1, 4, 1, 0x60, 0, 0, 3, 2, 1, 0]"

text \<open>The outcome: whether the file was accepted, and whether the run was free of undefined behaviour.\<close>

definition read_outcome :: "byte list \<Rightarrow> bool \<times> bool" where
  "read_outcome bytes =
     (case wasm_read_binary_ast sample_junk (one_func_bytes @ bytes) \<lparr>read_debug_names = False\<rparr> of
        (r, _, _, defined) \<Rightarrow> (r = WASM_OK, defined))"

text \<open>Body \<open>block nop end\<close>: accepted, and the expressions of the module are freed.\<close>

lemma unclosed_block_freed: "read_outcome [0x0a, 7, 1, 5, 0, 0x02, 0x40, 0x01, 0x0b] = (True, False)"
  by code_simp

text \<open>Body \<open>end block nop end\<close>: accepted, after a write to a freed expression.\<close>

lemma block_after_end: "read_outcome [0x0a, 8, 1, 6, 0, 0x0b, 0x02, 0x40, 0x01, 0x0b] = (True, False)"
  by code_simp

text \<open>Body \<open>nop\<close> and an opcode that does not exist: rejected, with the expressions destroyed twice.\<close>

lemma error_in_body: "read_outcome [0x0a, 6, 1, 4, 0, 0x01, 0xfe, 0x0b] = (False, False)"
  by code_simp

text \<open>Body \<open>i32.load\<close> with the alignment exponent 64: accepted, with an undefined shift.\<close>

lemma wide_alignment: "read_outcome [0x0a, 7, 1, 5, 0, 0x28, 0x40, 0, 0x0b] = (True, False)"
  by code_simp

text \<open>An export whose name holds a NUL byte: accepted, with a copy that claims unallocated bytes.\<close>

lemma nul_in_name: "read_outcome [7, 7, 1, 3, 0x61, 0, 0x62, 0, 0, 0x0a, 4, 1, 2, 0, 0x0b] = (True, False)"
  by code_simp

subsection \<open>Sections that are taken for the name section\<close>

text \<open>
  A custom section called \<open>n\<close> with other contents: the file is valid, and is rejected when
  debug names are read.
\<close>

definition prefix_section_bytes :: "byte list" where
  "prefix_section_bytes = [0x00, 0x61, 0x73, 0x6d, 0x0d, 0x00, 0x00, 0x00, 0, 3, 1, 0x6e, 9]"

lemma prefix_of_name_section:
  "fst (wasm_read_binary_ast sample_junk prefix_section_bytes \<lparr>read_debug_names = False\<rparr>) = WASM_OK"
  "fst (wasm_read_binary_ast sample_junk prefix_section_bytes \<lparr>read_debug_names = True\<rparr>) = WASM_ERROR"
  by code_simp+

subsection \<open>Removing a binding\<close>

lemma hash_main_entry_code [code]:
  "hash_main_entry hash name =
     nat (uint (fold (\<lambda>b hval. (hval XOR ucast b) * 0x01000193) name (0x811c9dc5 :: u32)) mod int (hash_capacity hash))"
  by (simp add: hash_main_entry_def hash_name_def nat_mod_distrib)

text \<open>
  Two bindings with index 0; removing the second one clears the entry at position 0, whatever it
  holds, and the name is still found afterwards.
\<close>

lemma remove_binding_keeps_it:
  "(case add_binding sample_junk empty_hash [0x61] 0 of
      None \<Rightarrow> None
    | Some h \<Rightarrow>
        (case add_binding sample_junk h [0x62] 0 of
           None \<Rightarrow> None
         | Some h' \<Rightarrow> Some (wasm_find_binding_index_by_name (wasm_remove_binding h' (Some [0x62])) (Some [0x62])))) = Some 0"
  by code_simp

end
