(* ===== verification/Wabt_Validator.thy ===== *)
theory Wabt_Validator
  imports Wabt_Binary_Reader Wabt_Ast
begin

text \<open>
  The validator (\<^verbatim>\<open>validator.c\<close>): type checking of expressions, functions and modules. The
  context is threaded through every function; \<open>print_error\<close> records the message and sets the
  result. The type stack is in the order of the C array, its top at the end of the list; the
  linked list of labels has its top at the head.

  An assertion that fails, or a read of the wrong member of a \<open>WasmVar\<close>, clears
  \<open>v_defined\<close>. A C \<open>int\<close> holding a vector size is \<open>int_of_size\<close>, which narrows.
  Source locations are left out, as in the abstract syntax.
\<close>

subsection \<open>The context\<close>

datatype ValLabelType = LABEL_TYPE_FUNC_V | LABEL_TYPE_BLOCK_V | LABEL_TYPE_LOOP_V | LABEL_TYPE_IF_V

record ValLabelNode =
  ln_label_type :: ValLabelType
  ln_sig :: "WasmType list"
  ln_type_stack_limit :: nat

record ValContext =
  v_module :: WasmModule
  v_func :: "WasmFunc option"
  v_table_index :: int
  v_memory_index :: int
  v_global_index :: int
  v_num_imported_globals :: int
  v_type_stack :: "WasmType list"
  v_labels :: "ValLabelNode list"
  v_max_depth :: int
  v_result :: WasmResult
  v_errors :: "(string \<times> ErrorArg list) list"
  v_defined :: bool

type_synonym val_step = "ValContext \<Rightarrow> ValContext"
type_synonym val_check = "ValContext \<Rightarrow> WasmResult \<times> ValContext"

definition int_of_size :: "nat \<Rightarrow> int" where
  "int_of_size n = sint (u32_of_nat n)"

text \<open>String slices and type names as message arguments; \<open>printf\<close> shows NULL as \<open>(null)\<close>.\<close>

definition slice_arg :: "WasmStringSlice \<Rightarrow> ErrorArg" where
  "slice_arg s = ArgStr (map (\<lambda>b. char_of (unat b)) (slice_bytes s))"

definition type_arg :: "WasmType \<Rightarrow> ErrorArg" where
  "type_arg t = ArgStr (case wasm_get_type_name t of Some s \<Rightarrow> s | None \<Rightarrow> ''(null)'')"

definition val_print_error :: "string \<Rightarrow> ErrorArg list \<Rightarrow> val_step" where
  "val_print_error format args ctx = ctx\<lparr>v_result := WASM_ERROR, v_errors := v_errors ctx @ [(format, args)]\<rparr>"

definition val_assert :: "bool \<Rightarrow> val_step" where
  "val_assert b ctx = (if b then ctx else ctx\<lparr>v_defined := False\<rparr>)"

definition is_power_of_two :: "u32 \<Rightarrow> bool" where
  "is_power_of_two x \<longleftrightarrow> x \<noteq> 0 \<and> x AND (x - 1) = 0"

definition get_opcode_natural_alignment :: "WasmOpcode \<Rightarrow> u32" where
  "get_opcode_natural_alignment opcode = u32_of_nat (wasm_get_opcode_memory_size opcode)"

subsection \<open>Variables\<close>

text \<open>\<open>check_var\<close> hands the index over on success.\<close>

fun check_var :: "int \<Rightarrow> WasmVar \<Rightarrow> string \<Rightarrow> ValContext \<Rightarrow> nat option \<times> ValContext" where
  "check_var max_index (VarIndex index) desc ctx =
     (if sint index \<ge> 0 \<and> sint index < max_index then (Some (nat (sint index)), ctx)
      else (None, val_print_error ''%s variable out of range (max %d)'' [ArgStr desc, ArgInt max_index] ctx))"
| "check_var max_index (VarName name) desc ctx = (None, val_assert False ctx)"

definition check_func_var :: "WasmVar \<Rightarrow> ValContext \<Rightarrow> WasmFunc option \<times> ValContext" where
  "check_func_var var ctx =
     (case check_var (int_of_size (length (funcs (v_module ctx)))) var ''function'' ctx of
        (None, ctx) \<Rightarrow> (None, ctx)
      | (Some index, ctx) \<Rightarrow> (Some (funcs (v_module ctx) ! index), ctx))"

definition check_global_var :: "WasmVar \<Rightarrow> ValContext \<Rightarrow> (WasmGlobal \<times> nat) option \<times> ValContext" where
  "check_global_var var ctx =
     (case check_var (int_of_size (length (globals (v_module ctx)))) var ''global'' ctx of
        (None, ctx) \<Rightarrow> (None, ctx)
      | (Some index, ctx) \<Rightarrow> (Some (globals (v_module ctx) ! index, index), ctx))"

definition check_func_type_var :: "WasmVar \<Rightarrow> ValContext \<Rightarrow> WasmFuncType option \<times> ValContext" where
  "check_func_type_var var ctx =
     (case check_var (int_of_size (length (func_types (v_module ctx)))) var ''function type'' ctx of
        (None, ctx) \<Rightarrow> (None, ctx)
      | (Some index, ctx) \<Rightarrow> (Some (func_types (v_module ctx) ! index), ctx))"

definition check_table_var :: "WasmVar \<Rightarrow> ValContext \<Rightarrow> WasmTable option \<times> ValContext" where
  "check_table_var var ctx =
     (case check_var (int_of_size (length (tables (v_module ctx)))) var ''table'' ctx of
        (None, ctx) \<Rightarrow> (None, ctx)
      | (Some index, ctx) \<Rightarrow> (Some (tables (v_module ctx) ! index), ctx))"

definition check_memory_var :: "WasmVar \<Rightarrow> ValContext \<Rightarrow> WasmMemory option \<times> ValContext" where
  "check_memory_var var ctx =
     (case check_var (int_of_size (length (memories (v_module ctx)))) var ''memory'' ctx of
        (None, ctx) \<Rightarrow> (None, ctx)
      | (Some index, ctx) \<Rightarrow> (Some (memories (v_module ctx) ! index), ctx))"

definition check_local_var :: "WasmVar \<Rightarrow> ValContext \<Rightarrow> WasmType option \<times> ValContext" where
  "check_local_var var ctx =
     (let func = the (v_func ctx);
          max_index = int_of_size (wasm_get_num_params_and_locals func);
          index = wasm_get_local_index_by_var func var
      in if index \<ge> 0 \<and> index < max_index then
           (let num_params = int_of_size (wasm_get_num_params func)
            in if index < num_params then (Some (param_types (decl_sig (func_decl func)) ! nat index), ctx)
               else (Some (local_types func ! nat (index - num_params)), ctx))
         else (None, case var of
             VarName name \<Rightarrow> val_print_error ''undefined local variable %s'' [slice_arg name] ctx
           | VarIndex _ \<Rightarrow> val_print_error ''local variable out of range (max %d)'' [ArgInt max_index] ctx))"

definition check_align :: "u32 \<Rightarrow> u32 \<Rightarrow> val_step" where
  "check_align alignment natural_alignment ctx =
     (if alignment \<noteq> WASM_USE_NATURAL_ALIGNMENT then
        (let ctx = (if \<not> is_power_of_two alignment then val_print_error ''alignment must be power-of-two'' [] ctx else ctx)
         in if alignment > natural_alignment
            then val_print_error ''alignment must not be larger than natural alignment (%u)''
                   [ArgInt (uint natural_alignment)] ctx
            else ctx)
      else ctx)"

definition check_offset :: "u64 \<Rightarrow> val_step" where
  "check_offset off ctx =
     (if off > 0xFFFFFFFF then val_print_error ''offset must be less than or equal to 0xffffffff'' [] ctx else ctx)"

subsection \<open>Labels and the type stack\<close>

fun find_label_from :: "int \<Rightarrow> ValLabelNode list \<Rightarrow> int \<Rightarrow> ValLabelNode option" where
  "find_label_from i [] index = None"
| "find_label_from i (node # nodes) index =
     (if i \<noteq> index then find_label_from (i + 1) nodes index else Some node)"

fun find_label_by_var :: "ValLabelNode list \<Rightarrow> WasmVar \<Rightarrow> ValLabelNode option" where
  "find_label_by_var top_label (VarIndex index) = find_label_from 0 top_label (sint index)"
| "find_label_by_var top_label (VarName name) = None"

definition check_label_var :: "WasmVar \<Rightarrow> ValContext \<Rightarrow> ValLabelNode option \<times> ValContext" where
  "check_label_var var ctx =
     (let ctx = val_assert (case var of VarIndex _ \<Rightarrow> True | VarName _ \<Rightarrow> False) ctx
      in case find_label_by_var (v_labels ctx) var of
           Some node \<Rightarrow> (Some node, ctx)
         | None \<Rightarrow> (None, val_print_error ''label variable out of range (max %d)'' [ArgInt (v_max_depth ctx)] ctx))"

definition val_push_label :: "ValLabelType \<Rightarrow> WasmType list \<Rightarrow> val_step" where
  "val_push_label label_type sig ctx = ctx
     \<lparr>v_labels := \<lparr>ln_label_type = label_type, ln_sig = sig, ln_type_stack_limit = length (v_type_stack ctx)\<rparr> # v_labels ctx,
      v_max_depth := v_max_depth ctx + 1\<rparr>"

definition val_pop_label :: val_step where
  "val_pop_label ctx = ctx\<lparr>v_max_depth := v_max_depth ctx - 1, v_labels := tl (v_labels ctx)\<rparr>"

text \<open>A label is on the stack whenever expressions are checked: \<open>check_func\<close> pushes one.\<close>

definition type_stack_limit :: "ValContext \<Rightarrow> nat" where
  "type_stack_limit ctx = ln_type_stack_limit (hd (v_labels ctx))"

definition type_stack_avail :: "ValContext \<Rightarrow> nat" where
  "type_stack_avail ctx = length (v_type_stack ctx) - type_stack_limit ctx"

definition check_type_stack_limit :: "nat \<Rightarrow> string \<Rightarrow> val_check" where
  "check_type_stack_limit expected desc ctx =
     (let avail = type_stack_avail ctx
      in if expected > avail
         then (WASM_ERROR, val_print_error ''type stack size too small at %s. got %zd, expected at least %zd''
                 [ArgStr desc, ArgInt (int avail), ArgInt (int expected)] ctx)
         else (WASM_OK, ctx))"

definition check_type_stack_limit_exact :: "nat \<Rightarrow> string \<Rightarrow> val_step" where
  "check_type_stack_limit_exact expected desc ctx =
     (let avail = type_stack_avail ctx
      in if expected \<noteq> avail
         then val_print_error ''type stack at end of %s is %zd. expected %zd''
                [ArgStr desc, ArgInt (int avail), ArgInt (int expected)] ctx
         else ctx)"

text \<open>Lowering \<open>type_stack.size\<close> keeps the front of the array.\<close>

definition set_type_stack_size :: "nat \<Rightarrow> val_step" where
  "set_type_stack_size n ctx = ctx\<lparr>v_type_stack := take n (v_type_stack ctx)\<rparr>"

definition reset_type_stack_to_limit :: val_step where
  "reset_type_stack_to_limit ctx = set_type_stack_size (type_stack_limit ctx) ctx"

definition push_type :: "WasmType \<Rightarrow> val_step" where
  "push_type t ctx = (if t \<noteq> WASM_TYPE_VOID then ctx\<lparr>v_type_stack := v_type_stack ctx @ [t]\<rparr> else ctx)"

definition push_types :: "WasmType list \<Rightarrow> val_step" where
  "push_types types ctx = fold push_type types ctx"

definition peek_type :: "nat \<Rightarrow> int \<Rightarrow> ValContext \<Rightarrow> WasmType" where
  "peek_type depth arity ctx =
     (if arity > 0 then
        (if depth < type_stack_avail ctx then v_type_stack ctx ! (length (v_type_stack ctx) - depth - 1)
         else WASM_TYPE_I32)
      else WASM_TYPE_VOID)"

definition top_type :: "ValContext \<Rightarrow> WasmType" where
  "top_type ctx = peek_type 0 1 ctx"

definition pop_type :: "ValContext \<Rightarrow> WasmType \<times> ValContext" where
  "pop_type ctx =
     (top_type ctx,
      if length (v_type_stack ctx) > type_stack_limit ctx
      then set_type_stack_size (length (v_type_stack ctx) - 1) ctx else ctx)"

subsection \<open>Types\<close>

definition check_type :: "WasmType \<Rightarrow> WasmType \<Rightarrow> string \<Rightarrow> val_step" where
  "check_type actual expected desc ctx =
     (if actual \<noteq> expected
      then val_print_error ''type mismatch at %s. got %s, expected %s'' [ArgStr desc, type_arg actual, type_arg expected] ctx
      else ctx)"

definition check_type_index :: "WasmType \<Rightarrow> WasmType \<Rightarrow> string \<Rightarrow> nat \<Rightarrow> string \<Rightarrow> val_step" where
  "check_type_index actual expected desc index index_kind ctx =
     (if actual \<noteq> expected
      then val_print_error ''type mismatch for %s %d of %s. got %s, expected %s''
             [ArgStr index_kind, ArgInt (int_of_size index), ArgStr desc, type_arg actual, type_arg expected] ctx
      else ctx)"

text \<open>The loop shared by \<open>check_types\<close>, \<open>check_const_types\<close> and \<open>check_call\<close>.\<close>

fun check_type_indices :: "nat \<Rightarrow> WasmType list \<Rightarrow> WasmType list \<Rightarrow> string \<Rightarrow> string \<Rightarrow> val_step" where
  "check_type_indices i (actual # as) (expected # es) desc index_kind ctx =
     check_type_indices (Suc i) as es desc index_kind (check_type_index actual expected desc i index_kind ctx)"
| "check_type_indices i _ _ desc index_kind ctx = ctx"

definition check_types :: "WasmType list \<Rightarrow> WasmType list \<Rightarrow> string \<Rightarrow> string \<Rightarrow> val_step" where
  "check_types actual expected desc index_kind ctx =
     (if length actual = length expected then check_type_indices 0 actual expected desc index_kind ctx
      else val_print_error ''expected %zd %ss, got %zd''
             [ArgInt (int (length expected)), ArgStr index_kind, ArgInt (int (length actual))] ctx)"

definition pop_and_check_1_type :: "WasmType \<Rightarrow> string \<Rightarrow> val_step" where
  "pop_and_check_1_type expected desc ctx =
     (case check_type_stack_limit 1 desc ctx of
        (WASM_OK, ctx) \<Rightarrow> (let (actual, ctx) = pop_type ctx in check_type actual expected desc ctx)
      | (WASM_ERROR, ctx) \<Rightarrow> ctx)"

definition pop_and_check_2_types :: "WasmType \<Rightarrow> WasmType \<Rightarrow> string \<Rightarrow> val_step" where
  "pop_and_check_2_types expected1 expected2 desc ctx =
     (case check_type_stack_limit 2 desc ctx of
        (WASM_OK, ctx) \<Rightarrow>
          (let (actual2, ctx) = pop_type ctx;
               (actual1, ctx) = pop_type ctx;
               ctx = check_type actual1 expected1 desc ctx
           in check_type actual2 expected2 desc ctx)
      | (WASM_ERROR, ctx) \<Rightarrow> ctx)"

definition check_opcode1 :: "WasmOpcode \<Rightarrow> val_step" where
  "check_opcode1 opcode ctx =
     push_type (wasm_get_opcode_result_type opcode)
       (pop_and_check_1_type (wasm_get_opcode_param_type_1 opcode) (wasm_get_opcode_name opcode) ctx)"

definition check_opcode2 :: "WasmOpcode \<Rightarrow> val_step" where
  "check_opcode2 opcode ctx =
     push_type (wasm_get_opcode_result_type opcode)
       (pop_and_check_2_types (wasm_get_opcode_param_type_1 opcode) (wasm_get_opcode_param_type_2 opcode)
          (wasm_get_opcode_name opcode) ctx)"

fun check_type_pairs :: "WasmType list \<Rightarrow> WasmType list \<Rightarrow> string \<Rightarrow> val_step" where
  "check_type_pairs (actual # as) (expected # es) desc ctx =
     check_type_pairs as es desc (check_type actual expected desc ctx)"
| "check_type_pairs _ _ desc ctx = ctx"

text \<open>The top \<open>n\<close> entries of the stack, in the order of the array.\<close>

definition top_types :: "nat \<Rightarrow> ValContext \<Rightarrow> WasmType list" where
  "top_types n ctx = drop (length (v_type_stack ctx) - n) (v_type_stack ctx)"

definition check_n_types :: "WasmType list \<Rightarrow> string \<Rightarrow> val_step" where
  "check_n_types expected desc ctx =
     (case check_type_stack_limit (length expected) desc ctx of
        (WASM_OK, ctx) \<Rightarrow> check_type_pairs (top_types (length expected) ctx) expected desc ctx
      | (WASM_ERROR, ctx) \<Rightarrow> ctx)"

definition check_br :: "WasmVar \<Rightarrow> string \<Rightarrow> val_step" where
  "check_br var desc ctx =
     (case check_label_var var ctx of
        (Some node, ctx) \<Rightarrow> if ln_label_type node \<noteq> LABEL_TYPE_LOOP_V then check_n_types (ln_sig node) desc ctx else ctx
      | (None, ctx) \<Rightarrow> ctx)"

definition check_call :: "WasmFuncSignature \<Rightarrow> string \<Rightarrow> val_step" where
  "check_call sig desc ctx =
     (let expected_args = length (param_types sig);
          limit = type_stack_limit ctx;
          avail = type_stack_avail ctx;
          ctx = (if expected_args \<le> avail
                 then set_type_stack_size (length (v_type_stack ctx) - expected_args)
                        (check_type_indices 0 (top_types expected_args ctx) (param_types sig) desc ''argument'' ctx)
                 else set_type_stack_size limit
                        (val_print_error ''type stack size too small at %s. got %zd, expected at least %zd''
                           [ArgStr desc, ArgInt (int avail), ArgInt (int expected_args)] ctx))
      in push_types (result_types sig) ctx)"

subsection \<open>Expressions\<close>

text \<open>
  What \<open>check_block\<close> does after its loop: \<open>check_result\<close> tells whether the loop ran to the
  end of the block.
\<close>

fun end_block :: "string \<Rightarrow> bool \<times> ValContext \<Rightarrow> ValContext" where
  "end_block desc (check_result, ctx) =
     reset_type_stack_to_limit
       (if check_result
        then check_type_stack_limit_exact (length (ln_sig (hd (v_labels ctx)))) desc
               (check_n_types (ln_sig (hd (v_labels ctx))) desc ctx)
        else ctx)"

definition check_has_memory :: "WasmOpcode \<Rightarrow> val_step" where
  "check_has_memory opcode ctx =
     (if length (memories (v_module ctx)) = 0
      then val_print_error ''%s requires an imported or defined memory.'' [ArgStr (wasm_get_opcode_name opcode)] ctx
      else ctx)"

definition push_any :: val_step where
  "push_any ctx = push_type WASM_TYPE_ANY (reset_type_stack_to_limit ctx)"

definition const_type :: "WasmConst \<Rightarrow> WasmType" where
  "const_type c = (case c of ConstI32 _ \<Rightarrow> WASM_TYPE_I32 | ConstI64 _ \<Rightarrow> WASM_TYPE_I64
     | ConstF32 _ \<Rightarrow> WASM_TYPE_F32 | ConstF64 _ \<Rightarrow> WASM_TYPE_F64)"

definition check_memory_access :: "WasmOpcode \<Rightarrow> u32 \<Rightarrow> u64 \<Rightarrow> val_step" where
  "check_memory_access opcode align off ctx =
     check_offset off
       (check_align align (get_opcode_natural_alignment opcode)
         (val_assert (wasm_get_opcode_memory_size opcode \<noteq> 0) (check_has_memory opcode ctx)))"

text \<open>\<open>check_expr\<close>, and the loop of \<open>check_block\<close> over the expressions of a block.\<close>

fun check_expr :: "WasmExpr \<Rightarrow> val_step"
and check_exprs :: "WasmExpr list \<Rightarrow> ValContext \<Rightarrow> bool \<times> ValContext"
where
  "check_expr (Binary opcode) ctx = check_opcode2 opcode ctx"
| "check_expr (Block label sig es) ctx =
     push_types sig (val_pop_label (end_block ''block'' (check_exprs es (val_push_label LABEL_TYPE_BLOCK_V sig ctx))))"
| "check_expr (Br var) ctx = push_any (check_br var ''br value'' ctx)"
| "check_expr (BrIf var) ctx =
     check_br var ''br_if value'' (pop_and_check_1_type WASM_TYPE_I32 ''br_if condition'' ctx)"
| "check_expr (BrTable targets default_target) ctx =
     push_any (check_br default_target ''br_table default target''
       (fold (\<lambda>var. check_br var ''br_table target'') targets
         (pop_and_check_1_type WASM_TYPE_I32 ''br_table key'' ctx)))"
| "check_expr (Call var) ctx =
     (case check_func_var var ctx of
        (Some callee, ctx) \<Rightarrow> check_call (decl_sig (func_decl callee)) ''call'' ctx
      | (None, ctx) \<Rightarrow> ctx)"
| "check_expr (CallIndirect var) ctx =
     (let ctx = (if length (tables (v_module ctx)) = 0
                 then val_print_error ''found call_indirect operator, but no table'' [] ctx else ctx)
      in case check_func_type_var var ctx of
           (Some func_type, ctx) \<Rightarrow>
             (let (t, ctx) = pop_type ctx;
                  ctx = check_type t WASM_TYPE_I32 ''call_indirect function index'' ctx
              in check_call (ft_sig func_type) ''call_indirect'' ctx)
         | (None, ctx) \<Rightarrow> ctx)"
| "check_expr (Compare opcode) ctx = check_opcode2 opcode ctx"
| "check_expr (Const c) ctx = push_type (const_type c) ctx"
| "check_expr (Convert opcode) ctx = check_opcode1 opcode ctx"
| "check_expr Drop ctx =
     (case check_type_stack_limit 1 ''drop'' ctx of
        (WASM_OK, ctx) \<Rightarrow> snd (pop_type ctx)
      | (WASM_ERROR, ctx) \<Rightarrow> ctx)"
| "check_expr (GetGlobal var) ctx =
     (case check_global_var var ctx of
        (Some (global, _), ctx) \<Rightarrow> push_type (global_type global) ctx
      | (None, ctx) \<Rightarrow> ctx)"
| "check_expr (GetLocal var) ctx =
     (case check_local_var var ctx of
        (Some t, ctx) \<Rightarrow> push_type t ctx
      | (None, ctx) \<Rightarrow> ctx)"
| "check_expr GrowMemory ctx = check_opcode1 WASM_OPCODE_GROW_MEMORY (check_has_memory WASM_OPCODE_GROW_MEMORY ctx)"
| "check_expr (If label sig true_es false_es) ctx =
     (let ctx = val_push_label LABEL_TYPE_IF_V sig (pop_and_check_1_type WASM_TYPE_I32 ''if condition'' ctx);
          ctx = end_block ''if true branch'' (check_exprs true_es ctx);
          ctx = end_block ''if false branch'' (check_exprs false_es ctx)
      in push_types sig (val_pop_label ctx))"
| "check_expr (Load opcode align off) ctx = check_opcode1 opcode (check_memory_access opcode align off ctx)"
| "check_expr (Loop label sig es) ctx =
     push_types sig (val_pop_label (end_block ''loop'' (check_exprs es (val_push_label LABEL_TYPE_LOOP_V sig ctx))))"
| "check_expr CurrentMemory ctx = push_type WASM_TYPE_I32 (check_has_memory WASM_OPCODE_CURRENT_MEMORY ctx)"
| "check_expr Nop ctx = ctx"
| "check_expr Return ctx =
     push_any (check_n_types (result_types (decl_sig (func_decl (the (v_func ctx))))) ''return'' ctx)"
| "check_expr Select ctx =
     (case check_type_stack_limit 2 ''select'' (pop_and_check_1_type WASM_TYPE_I32 ''select'' ctx) of
        (WASM_OK, ctx) \<Rightarrow>
          (let (type1, ctx) = pop_type ctx;
               (type2, ctx) = pop_type ctx
           in push_type type1 (check_type type2 type1 ''select'' ctx))
      | (WASM_ERROR, ctx) \<Rightarrow> ctx)"
| "check_expr (SetGlobal var) ctx =
     (case check_global_var var ctx of
        (Some (global, _), ctx) \<Rightarrow> pop_and_check_1_type (global_type global) ''set_global'' ctx
      | (None, ctx) \<Rightarrow> pop_and_check_1_type WASM_TYPE_I32 ''set_global'' ctx)"
| "check_expr (SetLocal var) ctx =
     (case check_local_var var ctx of
        (Some t, ctx) \<Rightarrow> pop_and_check_1_type t ''set_local'' ctx
      | (None, ctx) \<Rightarrow> pop_and_check_1_type WASM_TYPE_I32 ''set_local'' ctx)"
| "check_expr (Store opcode align off) ctx = check_opcode2 opcode (check_memory_access opcode align off ctx)"
| "check_expr (TeeLocal var) ctx =
     (let (found, ctx) = check_local_var var ctx;
          local_type = (case found of Some t \<Rightarrow> t | None \<Rightarrow> WASM_TYPE_I32)
      in case check_type_stack_limit 1 ''tee_local'' ctx of
           (WASM_OK, ctx) \<Rightarrow> ctx
         | (WASM_ERROR, ctx) \<Rightarrow> check_type (top_type ctx) local_type ''tee_local'' ctx)"
| "check_expr (Unary opcode) ctx = check_opcode1 opcode ctx"
| "check_expr Unreachable ctx = push_any ctx"
| "check_exprs [] ctx = (True, ctx)"
| "check_exprs (e # es) ctx =
     (let ctx = check_expr e ctx
      in if top_type ctx = WASM_TYPE_ANY then (False, ctx) else check_exprs es ctx)"

definition check_block :: "WasmExpr list \<Rightarrow> string \<Rightarrow> val_step" where
  "check_block es desc ctx = end_block desc (check_exprs es ctx)"

subsection \<open>Functions\<close>

definition check_func_signature_matches_func_type :: "WasmFuncSignature \<Rightarrow> WasmFuncType \<Rightarrow> val_step" where
  "check_func_signature_matches_func_type sig func_type ctx =
     check_types (param_types sig) (param_types (ft_sig func_type)) ''function'' ''argument''
       (check_types (result_types sig) (result_types (ft_sig func_type)) ''function'' ''result'' ctx)"

definition check_func_decl :: "WasmFuncDeclaration \<Rightarrow> val_step" where
  "check_func_decl decl ctx =
     (if has_func_type decl then
        (case check_func_type_var (type_var decl) ctx of
           (Some func_type, ctx) \<Rightarrow> check_func_signature_matches_func_type (decl_sig decl) func_type ctx
         | (None, ctx) \<Rightarrow> ctx)
      else ctx)"

definition check_func :: "WasmFunc \<Rightarrow> val_step" where
  "check_func func ctx =
     (let ctx = ctx\<lparr>v_func := Some func\<rparr>
      in if length (result_types (decl_sig (func_decl func))) > 1
         then val_print_error ''multiple result values not currently supported.'' [] ctx
         else
           (let ctx = check_func_decl (func_decl func) ctx;
                ctx = val_push_label LABEL_TYPE_FUNC_V (result_types (decl_sig (func_decl func))) ctx;
                ctx = val_pop_label (check_block (first_expr func) ''function'' ctx)
            in ctx\<lparr>v_func := None\<rparr>))"

subsection \<open>Modules\<close>

definition print_const_expr_error :: "string \<Rightarrow> val_step" where
  "print_const_expr_error desc ctx =
     val_print_error ''invalid %s, must be a constant expression; either *.const or get_global.'' [ArgStr desc] ctx"

definition check_init_global :: "WasmGlobal \<Rightarrow> nat \<Rightarrow> val_step" where
  "check_init_global ref_global ref_global_index ctx =
     (let ctx = (if int ref_global_index \<ge> v_global_index ctx
                 then val_print_error ''initializer expression can only reference a previously defined global'' [] ctx
                 else if int ref_global_index \<ge> v_num_imported_globals ctx
                 then val_print_error ''initializer expression can only reference an imported global'' [] ctx
                 else ctx)
      in if global_mutable ref_global
         then val_print_error ''initializer expression cannot reference a mutable global'' [] ctx
         else ctx)"

fun check_const_init_expr :: "WasmExpr list \<Rightarrow> WasmType \<Rightarrow> string \<Rightarrow> val_step" where
  "check_const_init_expr [] expected_type desc ctx = check_type WASM_TYPE_VOID expected_type desc ctx"
| "check_const_init_expr [Const c] expected_type desc ctx = check_type (const_type c) expected_type desc ctx"
| "check_const_init_expr [GetGlobal var] expected_type desc ctx =
     (case check_global_var var ctx of
        (None, ctx) \<Rightarrow> ctx
      | (Some (ref_global, ref_global_index), ctx) \<Rightarrow>
          check_type (global_type ref_global) expected_type desc (check_init_global ref_global ref_global_index ctx))"
| "check_const_init_expr _ expected_type desc ctx = print_const_expr_error desc ctx"

definition check_global :: "WasmGlobal \<Rightarrow> val_step" where
  "check_global global ctx =
     check_const_init_expr (global_init_expr global) (global_type global) ''global initializer expression'' ctx"

definition check_limits :: "WasmLimits \<Rightarrow> u64 \<Rightarrow> string \<Rightarrow> val_step" where
  "check_limits limits absolute_max desc ctx =
     (let initial = limits_initial limits; max = limits_max limits;
          ctx = (if initial > absolute_max
                 then val_print_error ''initial %s (%u) must be <= (%u)''
                        [ArgStr desc, ArgInt (uint initial), ArgInt (uint absolute_max)] ctx else ctx)
      in if limits_has_max limits then
           (let ctx = (if max > absolute_max
                       then val_print_error ''max %s (%u) must be <= (%u)''
                              [ArgStr desc, ArgInt (uint max), ArgInt (uint absolute_max)] ctx else ctx)
            in if max < initial
               then val_print_error ''max %s (%u) must be >= initial %s (%u)''
                      [ArgStr desc, ArgInt (uint max), ArgStr desc, ArgInt (uint initial)] ctx
               else ctx)
         else ctx)"

definition check_table :: "WasmTable \<Rightarrow> val_step" where
  "check_table table ctx =
     check_limits (elem_limits table) 0xFFFFFFFF ''elems''
       (if v_table_index ctx = 1 then val_print_error ''only one table allowed'' [] ctx else ctx)"

definition check_memory :: "WasmMemory \<Rightarrow> val_step" where
  "check_memory memory ctx =
     check_limits (page_limits memory) (ucast WASM_MAX_PAGES) ''pages''
       (if v_memory_index ctx = 1 then val_print_error ''only one memory block allowed'' [] ctx else ctx)"

definition check_elem_segment :: "WasmElemSegment \<Rightarrow> val_step" where
  "check_elem_segment segment ctx =
     (case check_table_var (elem_table_var segment) ctx of
        (None, ctx) \<Rightarrow> ctx
      | (Some table, ctx) \<Rightarrow>
          check_const_init_expr (elem_offset segment) WASM_TYPE_I32 ''elem segment offset''
            (fold (\<lambda>var ctx. snd (check_func_var var ctx)) (elem_vars segment) ctx))"

definition check_data_segment :: "WasmDataSegment \<Rightarrow> val_step" where
  "check_data_segment segment ctx =
     (case check_memory_var (data_memory_var segment) ctx of
        (None, ctx) \<Rightarrow> ctx
      | (Some memory, ctx) \<Rightarrow>
          check_const_init_expr (data_offset segment) WASM_TYPE_I32 ''data segment offset'' ctx)"

text \<open>The two loops over the fields of the module that only look at the segments.\<close>

fun check_elem_segments :: "WasmModuleField list \<Rightarrow> val_step" where
  "check_elem_segments [] ctx = ctx"
| "check_elem_segments (FieldElemSegment i # fs) ctx =
     check_elem_segments fs (check_elem_segment (elem_segments (v_module ctx) ! i) ctx)"
| "check_elem_segments (_ # fs) ctx = check_elem_segments fs ctx"

fun check_data_segments :: "WasmModuleField list \<Rightarrow> val_step" where
  "check_data_segments [] ctx = ctx"
| "check_data_segments (FieldDataSegment i # fs) ctx =
     check_data_segments fs (check_data_segment (data_segments (v_module ctx) ! i) ctx)"
| "check_data_segments (_ # fs) ctx = check_data_segments fs ctx"

definition next_table :: val_step where
  "next_table ctx = ctx\<lparr>v_table_index := v_table_index ctx + 1\<rparr>"

definition next_memory :: val_step where
  "next_memory ctx = ctx\<lparr>v_memory_index := v_memory_index ctx + 1\<rparr>"

definition next_global :: val_step where
  "next_global ctx = ctx\<lparr>v_global_index := v_global_index ctx + 1\<rparr>"

definition check_import :: "WasmImport \<Rightarrow> val_step" where
  "check_import import ctx =
     (case import_desc import of
        ImportFunc func \<Rightarrow>
          if has_func_type (func_decl func) then snd (check_func_type_var (type_var (func_decl func)) ctx) else ctx
      | ImportTable table \<Rightarrow> next_table (check_table table ctx)
      | ImportMemory memory \<Rightarrow> next_memory (check_memory memory ctx)
      | ImportGlobal global \<Rightarrow>
          (let ctx = (if global_mutable global then val_print_error ''mutable globals cannot be imported'' [] ctx else ctx)
           in next_global (ctx\<lparr>v_num_imported_globals := v_num_imported_globals ctx + 1\<rparr>)))"

definition check_export :: "WasmExport \<Rightarrow> val_step" where
  "check_export export ctx =
     (case export_kind export of
        WASM_EXTERNAL_KIND_FUNC \<Rightarrow> snd (check_func_var (export_var export) ctx)
      | WASM_EXTERNAL_KIND_TABLE \<Rightarrow> snd (check_table_var (export_var export) ctx)
      | WASM_EXTERNAL_KIND_MEMORY \<Rightarrow> snd (check_memory_var (export_var export) ctx)
      | WASM_EXTERNAL_KIND_GLOBAL \<Rightarrow>
          (case check_global_var (export_var export) ctx of
             (Some (global, _), ctx) \<Rightarrow>
               if global_mutable global then val_print_error ''mutable globals cannot be exported'' [] ctx else ctx
           | (None, ctx) \<Rightarrow> ctx))"

definition check_start :: "bool \<Rightarrow> WasmVar \<Rightarrow> val_step" where
  "check_start seen_start var ctx =
     (let ctx = (if seen_start then val_print_error ''only one start function allowed'' [] ctx else ctx)
      in case check_func_var var ctx of
           (Some start_func, ctx) \<Rightarrow>
             (let ctx = (if wasm_get_num_params start_func \<noteq> 0
                         then val_print_error ''start function must be nullary'' [] ctx else ctx)
              in if length (result_types (decl_sig (func_decl start_func))) \<noteq> 0
                 then val_print_error ''start function must not return anything'' [] ctx else ctx)
         | (None, ctx) \<Rightarrow> ctx)"

text \<open>One round of the loop of \<open>check_module\<close>.\<close>

definition check_field :: "bool \<Rightarrow> WasmModuleField \<Rightarrow> val_step" where
  "check_field seen_start field ctx =
     (let m = v_module ctx
      in case field of
           FieldFunc i \<Rightarrow> check_func (funcs m ! i) ctx
         | FieldGlobal i \<Rightarrow> next_global (check_global (globals m ! i) ctx)
         | FieldImport i \<Rightarrow> check_import (imports_vec m ! i) ctx
         | FieldExport i \<Rightarrow> check_export (exports m ! i) ctx
         | FieldTable i \<Rightarrow> next_table (check_table (tables m ! i) ctx)
         | FieldElemSegment i \<Rightarrow> ctx
         | FieldMemory i \<Rightarrow> next_memory (check_memory (memories m ! i) ctx)
         | FieldDataSegment i \<Rightarrow> ctx
         | FieldFuncType i \<Rightarrow> ctx
         | FieldStart var \<Rightarrow> check_start seen_start var ctx)"

definition is_start_field :: "WasmModuleField \<Rightarrow> bool" where
  "is_start_field field = (case field of FieldStart _ \<Rightarrow> True | _ \<Rightarrow> False)"

fun check_fields :: "bool \<Rightarrow> WasmModuleField list \<Rightarrow> val_step" where
  "check_fields seen_start [] ctx = ctx"
| "check_fields seen_start (field # fs) ctx =
     check_fields (seen_start \<or> is_start_field field) fs (check_field seen_start field ctx)"

definition check_module :: "WasmModule \<Rightarrow> WasmModuleField list \<Rightarrow> val_step" where
  "check_module m fs ctx =
     (let ctx = ctx\<lparr>v_module := m, v_table_index := 0, v_memory_index := 0, v_global_index := 0,
                    v_num_imported_globals := 0\<rparr>
      in check_data_segments fs (check_elem_segments fs (check_fields False fs ctx)))"

text \<open>The zeroed context of \<open>wasm_validate_script\<close>. No field is read before \<open>check_module\<close> sets the module.\<close>

definition init_val_context :: "WasmModule \<Rightarrow> ValContext" where
  "init_val_context m =
     \<lparr>v_module = m, v_func = None, v_table_index = 0, v_memory_index = 0, v_global_index = 0,
      v_num_imported_globals = 0, v_type_stack = [], v_labels = [], v_max_depth = 0,
      v_result = WASM_OK, v_errors = [], v_defined = True\<rparr>"

end
