(* ===== verification/Wabt_Typing.thy ===== *)
theory Wabt_Typing
  imports Wabt_Validator
begin

unbundle bit_operations_syntax

text \<open>
  Typing rules for function bodies, and the proof that \<open>check_expr\<close> decides them. An
  instruction takes the types \<open>args\<close> from the top of the stack and leaves \<open>Some results\<close>,
  or does not continue with the next instruction (\<open>None\<close>). What follows such an instruction in
  a block is not typed, as in the version of the format this validator implements.
\<close>

subsection \<open>Typing rules\<close>

text \<open>A label is its type and whether it belongs to a loop, whose branches take no values.\<close>

record Typing =
  ty_module :: WasmModule
  ty_func :: WasmFunc
  ty_labels :: "(bool \<times> WasmType list) list"

abbreviation value_types :: "WasmType list \<Rightarrow> bool" where
  "value_types \<equiv> list_all is_concrete_type"

definition var_lookup :: "'a list \<Rightarrow> WasmVar \<Rightarrow> 'a option" where
  "var_lookup xs var =
     (case var of VarIndex i \<Rightarrow> (if 0 \<le> sint i \<and> nat (sint i) < length xs then Some (xs ! nat (sint i)) else None)
      | VarName _ \<Rightarrow> None)"

definition local_lookup :: "WasmFunc \<Rightarrow> WasmVar \<Rightarrow> WasmType option" where
  "local_lookup f var = nth_ptr (param_types (decl_sig (func_decl f)) @ local_types f) (wasm_get_local_index_by_var f var)"

definition branch_types :: "Typing \<Rightarrow> WasmVar \<Rightarrow> WasmType list option" where
  "branch_types C var = map_option (\<lambda>(loop, sig). if loop then [] else sig) (var_lookup (ty_labels C) var)"

definition enter :: "bool \<Rightarrow> WasmType list \<Rightarrow> Typing \<Rightarrow> Typing" where
  "enter loop sig C = C\<lparr>ty_labels := (loop, sig) # ty_labels C\<rparr>"

definition access_ok :: "Typing \<Rightarrow> WasmOpcode \<Rightarrow> u32 \<Rightarrow> u64 \<Rightarrow> bool" where
  "access_ok C opcode align off \<longleftrightarrow>
     memories (ty_module C) \<noteq> []
     \<and> (align = WASM_USE_NATURAL_ALIGNMENT
        \<or> (\<exists>k. unat align = 2 ^ k \<and> 2 ^ k \<le> wasm_get_opcode_memory_size opcode))
     \<and> unat off < 2 ^ 32"

inductive instr :: "Typing \<Rightarrow> WasmExpr \<Rightarrow> WasmType list \<Rightarrow> WasmType list option \<Rightarrow> bool"
and body :: "Typing \<Rightarrow> WasmType list \<Rightarrow> WasmExpr list \<Rightarrow> WasmType list \<Rightarrow> bool"
where
  T_Binary: "opcode \<in> set binary_opcodes \<Longrightarrow>
    instr C (Binary opcode) [wasm_get_opcode_param_type_1 opcode, wasm_get_opcode_param_type_2 opcode]
      (Some [wasm_get_opcode_result_type opcode])"
| T_Compare: "opcode \<in> set compare_opcodes \<Longrightarrow>
    instr C (Compare opcode) [wasm_get_opcode_param_type_1 opcode, wasm_get_opcode_param_type_2 opcode]
      (Some [wasm_get_opcode_result_type opcode])"
| T_Convert: "opcode \<in> set convert_opcodes \<Longrightarrow>
    instr C (Convert opcode) [wasm_get_opcode_param_type_1 opcode] (Some [wasm_get_opcode_result_type opcode])"
| T_Unary: "opcode \<in> set unary_opcodes \<Longrightarrow>
    instr C (Unary opcode) [wasm_get_opcode_param_type_1 opcode] (Some [wasm_get_opcode_result_type opcode])"
| T_Const: "instr C (Const c) [] (Some [const_type c])"
| T_Load: "opcode \<in> set load_opcodes \<Longrightarrow> access_ok C opcode align off \<Longrightarrow>
    instr C (Load opcode align off) [WASM_TYPE_I32] (Some [wasm_get_opcode_result_type opcode])"
| T_Store: "opcode \<in> set store_opcodes \<Longrightarrow> access_ok C opcode align off \<Longrightarrow>
    instr C (Store opcode align off) [WASM_TYPE_I32, wasm_get_opcode_param_type_2 opcode] (Some [])"
| T_CurrentMemory: "memories (ty_module C) \<noteq> [] \<Longrightarrow> instr C CurrentMemory [] (Some [WASM_TYPE_I32])"
| T_GrowMemory: "memories (ty_module C) \<noteq> [] \<Longrightarrow> instr C GrowMemory [WASM_TYPE_I32] (Some [WASM_TYPE_I32])"
| T_Drop: "instr C Drop [t] (Some [])"
| T_Nop: "instr C Nop [] (Some [])"
| T_Select: "instr C Select [t, t, WASM_TYPE_I32] (Some [t])"
| T_GetLocal: "local_lookup (ty_func C) var = Some t \<Longrightarrow> instr C (GetLocal var) [] (Some [t])"
| T_SetLocal: "local_lookup (ty_func C) var = Some t \<Longrightarrow> instr C (SetLocal var) [t] (Some [])"
| T_TeeLocal: "local_lookup (ty_func C) var = Some t \<Longrightarrow> instr C (TeeLocal var) [t] (Some [t])"
| T_GetGlobal: "var_lookup (globals (ty_module C)) var = Some g \<Longrightarrow> instr C (GetGlobal var) [] (Some [global_type g])"
| T_SetGlobal: "var_lookup (globals (ty_module C)) var = Some g \<Longrightarrow> instr C (SetGlobal var) [global_type g] (Some [])"
| T_Call: "var_lookup (funcs (ty_module C)) var = Some f \<Longrightarrow>
    instr C (Call var) (param_types (decl_sig (func_decl f))) (Some (result_types (decl_sig (func_decl f))))"
| T_CallIndirect: "tables (ty_module C) \<noteq> [] \<Longrightarrow> var_lookup (func_types (ty_module C)) var = Some ft \<Longrightarrow>
    instr C (CallIndirect var) (param_types (ft_sig ft) @ [WASM_TYPE_I32]) (Some (result_types (ft_sig ft)))"
| T_Block: "value_types sig \<Longrightarrow> body (enter False sig C) [] es sig \<Longrightarrow> instr C (Block label sig es) [] (Some sig)"
| T_Loop: "value_types sig \<Longrightarrow> body (enter True sig C) [] es sig \<Longrightarrow> instr C (Loop label sig es) [] (Some sig)"
| T_If: "value_types sig \<Longrightarrow> body (enter False sig C) [] true_es sig \<Longrightarrow> body (enter False sig C) [] false_es sig \<Longrightarrow>
    instr C (If label sig true_es false_es) [WASM_TYPE_I32] (Some sig)"
| T_BrIf: "branch_types C var = Some ts \<Longrightarrow> instr C (BrIf var) (ts @ [WASM_TYPE_I32]) (Some ts)"
| T_Br: "branch_types C var = Some ts \<Longrightarrow> instr C (Br var) ts None"
| T_BrTable: "\<forall>var \<in> set (default_target # targets). \<exists>pre ts. branch_types C var = Some ts \<and> args = pre @ ts \<Longrightarrow>
    instr C (BrTable targets default_target) (args @ [WASM_TYPE_I32]) None"
| T_Return: "instr C Return (result_types (decl_sig (func_decl (ty_func C)))) None"
| T_Unreachable: "instr C Unreachable [] None"
| body_Nil: "body C ts [] ts"
| body_Cons: "instr C e args (Some results) \<Longrightarrow> body C (pre @ results) es ts' \<Longrightarrow> body C (pre @ args) (e # es) ts'"
| body_stop: "instr C e args None \<Longrightarrow> body C (pre @ args) (e # es) ts'"

text \<open>
  A module whose declared types are all value types, as any module that comes out of the binary
  reader or the parser, and with fewer than \<open>2 ^ 31\<close> items of each kind.
\<close>

definition plain_sig :: "WasmFuncSignature \<Rightarrow> bool" where
  "plain_sig sig \<longleftrightarrow> value_types (param_types sig) \<and> value_types (result_types sig)"

definition plain_func :: "WasmFunc \<Rightarrow> bool" where
  "plain_func f \<longleftrightarrow> plain_sig (decl_sig (func_decl f)) \<and> value_types (local_types f)
     \<and> wasm_get_num_params_and_locals f < 2 ^ 31"

definition plain_module :: "WasmModule \<Rightarrow> bool" where
  "plain_module m \<longleftrightarrow>
     list_all (\<lambda>ft. plain_sig (ft_sig ft)) (func_types m) \<and> list_all plain_func (funcs m)
     \<and> list_all (\<lambda>g. is_concrete_type (global_type g)) (globals m)
     \<and> length (funcs m) < 2 ^ 31 \<and> length (globals m) < 2 ^ 31 \<and> length (func_types m) < 2 ^ 31
     \<and> length (tables m) < 2 ^ 31 \<and> length (memories m) < 2 ^ 31"

definition plain_typing :: "Typing \<Rightarrow> bool" where
  "plain_typing C \<longleftrightarrow> plain_module (ty_module C) \<and> plain_func (ty_func C) \<and> list_all (\<lambda>(_, sig). value_types sig) (ty_labels C)"

subsection \<open>What the checks do in a given state\<close>

text \<open>\<open>ctx\<close> is inside the blocks of \<open>C\<close>, with \<open>ts\<close> pushed in the current block.\<close>

definition state_at :: "Typing \<Rightarrow> WasmType list \<Rightarrow> WasmType list \<Rightarrow> ValContext \<Rightarrow> bool" where
  "state_at C below ts ctx \<longleftrightarrow>
     v_module ctx = ty_module C \<and> v_func ctx = Some (ty_func C)
     \<and> map (\<lambda>node. (ln_label_type node = LABEL_TYPE_LOOP_V, ln_sig node)) (v_labels ctx) = ty_labels C
     \<and> v_labels ctx \<noteq> [] \<and> type_stack_limit ctx = length below \<and> v_type_stack ctx = below @ ts"

definition no_error :: "ValContext \<Rightarrow> bool" where
  "no_error ctx \<longleftrightarrow> v_result ctx = WASM_OK \<and> v_defined ctx"

named_theorems at_simps \<open>what the checks do in a state of known shape\<close>

abbreviation with_stack :: "ValContext \<Rightarrow> WasmType list \<Rightarrow> ValContext" where
  "with_stack ctx ts \<equiv> ctx\<lparr>v_type_stack := ts\<rparr>"

lemma at_with_stack [simp]: "state_at C below ts ctx \<Longrightarrow> state_at C below ts' (with_stack ctx (below @ ts'))"
  by (simp add: state_at_def type_stack_limit_def)

lemma no_error_print [simp]: "\<not> no_error (val_print_error format args ctx)"
  by (simp add: no_error_def val_print_error_def)

lemma no_error_assert [simp]: "no_error (val_assert b ctx) \<longleftrightarrow> b \<and> no_error ctx"
  by (simp add: no_error_def val_assert_def)

lemma no_error_stack [simp]: "no_error (v_type_stack_update f ctx) = no_error ctx"
  by (simp add: no_error_def)

lemma int_of_size_small [simp]: "n < 2 ^ 31 \<Longrightarrow> int_of_size n = int n"
  unfolding int_of_size_def
  by (simp add: signed_of_nat signed_take_bit_int_eq_self)

lemma at_avail: "state_at C below ts ctx \<Longrightarrow> type_stack_avail ctx = length ts"
  by (simp add: state_at_def type_stack_avail_def)


lemma limit_at:
  assumes "state_at C below ts ctx"
  shows "check_type_stack_limit n desc ctx =
    (if n \<le> length ts then (WASM_OK, ctx)
     else (WASM_ERROR, val_print_error ''type stack size too small at %s. got %zd, expected at least %zd''
             [ArgStr desc, ArgInt (int (length ts)), ArgInt (int n)] ctx))"
  by (simp add: check_type_stack_limit_def at_avail [OF assms] Let_def)

lemma top_type_at:
  assumes "state_at C below ts ctx"
  shows "top_type ctx = (if ts = [] then WASM_TYPE_I32 else last ts)"
proof (cases ts rule: rev_cases)
  case Nil
  then show ?thesis using assms by (simp add: top_type_def peek_type_def at_avail [OF assms])
next
  case (snoc us t)
  then have "v_type_stack ctx = below @ us @ [t]" using assms by (simp add: state_at_def)
  then show ?thesis using snoc
    by (simp add: top_type_def peek_type_def at_avail [OF assms] nth_append)
qed

lemma pop_type_at:
  assumes "state_at C below (ts @ [t]) ctx"
  shows "pop_type ctx = (t, with_stack ctx (below @ ts))"
  using top_type_at [OF assms] assms
  by (simp add: pop_type_def set_type_stack_size_def state_at_def)

lemma check_type_same [simp]: "check_type t t desc ctx = ctx"
  by (simp add: check_type_def)

lemma no_error_check_type [simp]: "no_error (check_type t u desc ctx) \<longleftrightarrow> t = u \<and> no_error ctx"
  by (simp add: check_type_def)

lemma check_type_index_same [simp]: "check_type_index t t desc i kind ctx = ctx"
  by (simp add: check_type_index_def)

lemma no_error_check_type_index [simp]:
  "no_error (check_type_index t u desc i kind ctx) \<longleftrightarrow> t = u \<and> no_error ctx"
  by (simp add: check_type_index_def)

lemma check_type_indices_same [simp]: "check_type_indices i ts ts desc kind ctx = ctx"
  by (induction ts arbitrary: i) simp_all

lemma no_error_check_type_indices:
  "length ts = length us \<Longrightarrow> no_error (check_type_indices i ts us desc kind ctx) \<longleftrightarrow> ts = us \<and> no_error ctx"
  by (induction ts us arbitrary: i ctx rule: list_induct2) auto

lemma check_type_pairs_same [simp]: "check_type_pairs ts ts desc ctx = ctx"
  by (induction ts) simp_all

lemma no_error_check_type_pairs:
  "length ts = length us \<Longrightarrow> no_error (check_type_pairs ts us desc ctx) \<longleftrightarrow> ts = us \<and> no_error ctx"
  by (induction ts us arbitrary: ctx rule: list_induct2) auto

lemma top_types_at:
  assumes "state_at C below (pre @ ts) ctx"
  shows "top_types (length ts) ctx = ts"
  using assms by (simp add: top_types_def state_at_def)

text \<open>A stack with at least \<open>n\<close> entries has a front and \<open>n\<close> entries on top.\<close>

lemma split_top: "n \<le> length ts \<Longrightarrow> \<exists>pre us. ts = pre @ us \<and> length us = n"
  by (rule exI [of _ "take (length ts - n) ts"], rule exI [of _ "drop (length ts - n) ts"]) simp

lemma pop_1_at:
  assumes "state_at C below (ts @ [t]) ctx"
  shows "pop_and_check_1_type t desc ctx = with_stack ctx (below @ ts)"
  by (simp add: pop_and_check_1_type_def limit_at [OF assms] pop_type_at [OF assms])

lemma pop_1_no_error:
  assumes "state_at C below ts ctx" "no_error (pop_and_check_1_type t desc ctx)"
  obtains us where "ts = us @ [t]"
proof (cases ts rule: rev_cases)
  case Nil
  then show ?thesis using assms by (simp add: pop_and_check_1_type_def limit_at [OF assms(1)])
next
  case (snoc us u)
  then have a: "state_at C below (us @ [u]) ctx" using assms(1) by simp
  have "u = t" using assms(2) by (simp add: pop_and_check_1_type_def limit_at [OF a] pop_type_at [OF a])
  then show ?thesis using that snoc by simp
qed

lemma pop_2_at:
  assumes "state_at C below (ts @ [t, u]) ctx"
  shows "pop_and_check_2_types t u desc ctx = with_stack ctx (below @ ts)"
proof -
  have a: "state_at C below ((ts @ [t]) @ [u]) ctx" using assms by simp
  note b = at_with_stack [OF a, of "ts @ [t]"]
  show ?thesis
    by (simp add: pop_and_check_2_types_def limit_at [OF assms] pop_type_at [OF a] pop_type_at [OF b, simplified])
qed

lemma pop_2_no_error:
  assumes "state_at C below ts ctx" "no_error (pop_and_check_2_types t u desc ctx)"
  obtains us where "ts = us @ [t, u]"
proof (cases "2 \<le> length ts")
  case False
  then show ?thesis using assms by (simp add: pop_and_check_2_types_def limit_at [OF assms(1)])
next
  case True
  from split_top [OF True] obtain pre us where "ts = pre @ us" "length us = 2" by blast
  then obtain x y where ts: "ts = (pre @ [x]) @ [y]" by (auto simp: length_Suc_conv numeral_2_eq_2)
  then have a: "state_at C below ((pre @ [x]) @ [y]) ctx" using assms(1) by simp
  note b = at_with_stack [OF a, of "pre @ [x]"]
  have "x = t \<and> y = u" using assms(2)
    by (simp add: pop_and_check_2_types_def limit_at [OF a] pop_type_at [OF a] pop_type_at [OF b, simplified])
  then show ?thesis using that ts by simp
qed

lemma check_n_types_at:
  assumes "state_at C below (pre @ ts) ctx"
  shows "check_n_types ts desc ctx = ctx"
  by (simp add: check_n_types_def limit_at [OF assms] top_types_at [OF assms])

lemma check_n_types_no_error:
  assumes "state_at C below ts ctx" "no_error (check_n_types us desc ctx)"
  obtains pre where "ts = pre @ us"
proof (cases "length us \<le> length ts")
  case False
  then show ?thesis using assms by (simp add: check_n_types_def limit_at [OF assms(1)])
next
  case True
  from split_top [OF True] obtain pre vs where ts: "ts = pre @ vs" and len: "length vs = length us" by blast
  then have a: "state_at C below (pre @ vs) ctx" using assms(1) by simp
  have top: "top_types (length us) ctx = vs" using top_types_at [OF a] len by simp
  have "vs = us" using assms(2) True
    by (simp add: check_n_types_def limit_at [OF assms(1)] top no_error_check_type_pairs [OF len])
  then show ?thesis using that ts by simp
qed

lemma push_type_value: "is_concrete_type t \<Longrightarrow> push_type t ctx = with_stack ctx (v_type_stack ctx @ [t])"
  by (auto simp: push_type_def is_concrete_type_def)

lemma push_types_value: "value_types ts \<Longrightarrow> push_types ts ctx = with_stack ctx (v_type_stack ctx @ ts)"
  by (induction ts arbitrary: ctx) (simp_all add: push_types_def push_type_value)

lemma no_error_push [simp]:
  "no_error (push_type t ctx) = no_error ctx" "no_error (push_types ts ctx) = no_error ctx"
  "no_error (push_any ctx) = no_error ctx" "no_error (reset_type_stack_to_limit ctx) = no_error ctx"
  "no_error (set_type_stack_size n ctx) = no_error ctx"
proof -
  show single: "no_error (push_type t ctx) = no_error ctx" for t ctx by (simp add: push_type_def)
  show "no_error (push_types ts ctx) = no_error ctx"
    by (induction ts arbitrary: ctx) (simp_all add: push_types_def single)
  show "no_error (push_any ctx) = no_error ctx"
    by (simp add: push_any_def single reset_type_stack_to_limit_def set_type_stack_size_def)
qed (simp_all add: reset_type_stack_to_limit_def set_type_stack_size_def)

lemma push_any_at: "state_at C below ts ctx \<Longrightarrow> push_any ctx = with_stack ctx (below @ [WASM_TYPE_ANY])"
  by (simp add: push_any_def reset_type_stack_to_limit_def set_type_stack_size_def push_type_def state_at_def)


subsection \<open>Variables, branches, calls and memory accesses\<close>

lemma check_var_lookup:
  assumes "length xs < 2 ^ 31"
  shows "check_var (int_of_size (length xs)) var desc ctx =
    (case var_lookup xs var of
       Some x \<Rightarrow> (Some (nat (sint (case var of VarIndex i \<Rightarrow> i))), ctx)
     | None \<Rightarrow> (None, case var of
          VarIndex i \<Rightarrow> val_print_error ''%s variable out of range (max %d)'' [ArgStr desc, ArgInt (int_of_size (length xs))] ctx
        | VarName _ \<Rightarrow> val_assert False ctx))"
  using assms by (cases var) (auto simp: var_lookup_def nat_less_iff)

lemma var_lookup_nth: "var_lookup xs var = Some x \<Longrightarrow> xs ! nat (sint (case var of VarIndex i \<Rightarrow> i)) = x"
  by (auto simp: var_lookup_def split: WasmVar.splits if_splits)

lemma var_lookup_set: "var_lookup xs var = Some x \<Longrightarrow> x \<in> set xs"
  by (auto simp: var_lookup_def split: WasmVar.splits if_splits)

lemma var_lookup_map: "var_lookup (map f xs) var = map_option f (var_lookup xs var)"
  by (auto simp: var_lookup_def split: WasmVar.splits)

text \<open>The four functions that look an item up hand over the item, or report an error.\<close>

lemma check_item_var:
  assumes "length xs < 2 ^ 31"
  shows "(\<exists>x i. var_lookup xs var = Some x \<and> xs ! i = x \<and> check_var (int_of_size (length xs)) var desc ctx = (Some i, ctx))
    \<or> (\<exists>ctx'. var_lookup xs var = None \<and> check_var (int_of_size (length xs)) var desc ctx = (None, ctx') \<and> \<not> no_error ctx')"
proof (cases "var_lookup xs var")
  case (Some x)
  then show ?thesis by (auto simp: check_var_lookup [OF assms] dest: var_lookup_nth)
next
  case None
  then show ?thesis by (auto simp: check_var_lookup [OF assms] split: WasmVar.splits)
qed

lemma check_func_var_lookup:
  assumes "length (funcs (v_module ctx)) < 2 ^ 31"
  shows "(\<exists>f. var_lookup (funcs (v_module ctx)) var = Some f \<and> check_func_var var ctx = (Some f, ctx))
    \<or> (\<exists>ctx'. var_lookup (funcs (v_module ctx)) var = None \<and> check_func_var var ctx = (None, ctx') \<and> \<not> no_error ctx')"
  using check_item_var [OF assms, of var "''function''" ctx] by (auto simp: check_func_var_def)

lemma check_func_type_var_lookup:
  assumes "length (func_types (v_module ctx)) < 2 ^ 31"
  shows "(\<exists>f. var_lookup (func_types (v_module ctx)) var = Some f \<and> check_func_type_var var ctx = (Some f, ctx))
    \<or> (\<exists>ctx'. var_lookup (func_types (v_module ctx)) var = None \<and> check_func_type_var var ctx = (None, ctx') \<and> \<not> no_error ctx')"
  using check_item_var [OF assms, of var "''function type''" ctx] by (auto simp: check_func_type_var_def)

lemma check_global_var_lookup:
  assumes "length (globals (v_module ctx)) < 2 ^ 31"
  shows "(\<exists>g i. var_lookup (globals (v_module ctx)) var = Some g \<and> check_global_var var ctx = (Some (g, i), ctx))
    \<or> (\<exists>ctx'. var_lookup (globals (v_module ctx)) var = None \<and> check_global_var var ctx = (None, ctx') \<and> \<not> no_error ctx')"
  using check_item_var [OF assms, of var "''global''" ctx] by (auto simp: check_global_var_def)

lemma check_local_var_lookup:
  assumes "v_func ctx = Some f" "plain_func f"
  shows "(\<exists>t. local_lookup f var = Some t \<and> check_local_var var ctx = (Some t, ctx))
    \<or> (\<exists>ctx'. local_lookup f var = None \<and> check_local_var var ctx = (None, ctx') \<and> \<not> no_error ctx')"
proof -
  let ?i = "wasm_get_local_index_by_var f var"
  have small: "wasm_get_num_params f < 2 ^ 31" "wasm_get_num_params_and_locals f < 2 ^ 31"
    using assms(2) by (auto simp: plain_func_def wasm_get_num_params_and_locals_def)
  note num = small [THEN int_of_size_small, unfolded wasm_get_num_params_and_locals_def]
  have n: "length (param_types (decl_sig (func_decl f))) = wasm_get_num_params f" by (simp add: wasm_get_num_params_def)
  show ?thesis
  proof (cases "?i \<ge> 0 \<and> ?i < int (wasm_get_num_params_and_locals f)")
    case True
    then show ?thesis using assms
      by (auto simp: check_local_var_def local_lookup_def nth_ptr_def num n nth_append nat_diff_distrib
          wasm_get_num_params_and_locals_def nat_less_iff Let_def)
  next
    case False
    then show ?thesis using assms
      by (auto simp: check_local_var_def local_lookup_def nth_ptr_def num n
          wasm_get_num_params_and_locals_def nat_less_iff Let_def split: WasmVar.splits)
  qed
qed

lemma find_label_from_nth:
  "find_label_from i nodes index =
     (if i \<le> index \<and> nat (index - i) < length nodes then Some (nodes ! nat (index - i)) else None)"
proof (induction nodes arbitrary: i)
  case (Cons node nodes)
  have "nat (index - i) = Suc (nat (index - (i + 1)))" if "i < index" using that by simp
  then show ?case using Cons by (cases "i = index") (auto simp: nat_less_iff)
qed simp

lemma check_label_var_lookup:
  "(\<exists>node. var_lookup (v_labels ctx) var = Some node \<and> check_label_var var ctx = (Some node, ctx))
    \<or> (\<exists>ctx'. var_lookup (v_labels ctx) var = None \<and> check_label_var var ctx = (None, ctx') \<and> \<not> no_error ctx')"
  by (cases var) (auto simp: check_label_var_def var_lookup_def find_label_from_nth val_assert_def)

lemma branch_types_at:
  "state_at C below ts ctx \<Longrightarrow> branch_types C var =
     map_option (\<lambda>node. if ln_label_type node = LABEL_TYPE_LOOP_V then [] else ln_sig node) (var_lookup (v_labels ctx) var)"
  by (auto simp: state_at_def branch_types_def var_lookup_map option.map_comp comp_def intro!: option.map_cong
      dest!: sym [of "map _ _" "ty_labels C"])

lemma check_br_at:
  assumes a: "state_at C below (pre @ ts) ctx" and "branch_types C var = Some ts"
  shows "check_br var desc ctx = ctx"
  using check_label_var_lookup [of ctx var] assms(2) check_n_types_at [OF a]
  by (auto simp: branch_types_at [OF a] check_br_def split: if_splits)

lemma check_br_no_error:
  assumes a: "state_at C below ts ctx" and ok: "no_error (check_br var desc ctx)"
  obtains pre us where "branch_types C var = Some us" "ts = pre @ us"
proof -
  from check_label_var_lookup [of ctx var] ok obtain node
    where node: "var_lookup (v_labels ctx) var = Some node" "check_label_var var ctx = (Some node, ctx)"
    by (auto simp: check_br_def)
  show ?thesis
  proof (cases "ln_label_type node = LABEL_TYPE_LOOP_V")
    case True
    then show ?thesis using that [of "[]" ts] node by (simp add: branch_types_at [OF a])
  next
    case False
    then have "no_error (check_n_types (ln_sig node) desc ctx)" using ok node by (simp add: check_br_def)
    with a obtain pre where "ts = pre @ ln_sig node" by (rule check_n_types_no_error)
    then show ?thesis using that [of "ln_sig node" pre] node False by (simp add: branch_types_at [OF a])
  qed
qed

lemma check_call_at:
  assumes a: "state_at C below (pre @ param_types sig) ctx" and "value_types (result_types sig)"
  shows "check_call sig desc ctx = with_stack ctx (below @ pre @ result_types sig)"
proof -
  have "take (length (v_type_stack ctx) - length (param_types sig)) (v_type_stack ctx) = below @ pre"
    using a by (simp add: state_at_def)
  then show ?thesis using assms(2)
    by (simp add: check_call_def Let_def at_avail [OF a] top_types_at [OF a] set_type_stack_size_def push_types_value)
qed

lemma check_call_no_error:
  assumes a: "state_at C below ts ctx" and ok: "no_error (check_call sig desc ctx)"
  obtains pre where "ts = pre @ param_types sig"
proof (cases "length (param_types sig) \<le> length ts")
  case False
  then show ?thesis using ok by (simp add: check_call_def at_avail [OF a] Let_def)
next
  case True
  from split_top [OF True] obtain pre us where ts: "ts = pre @ us" "length us = length (param_types sig)" by blast
  then have b: "state_at C below (pre @ us) ctx" using a by simp
  have top: "top_types (length (param_types sig)) ctx = us" using top_types_at [OF b] ts by simp
  have "us = param_types sig" using ok True
    by (simp add: check_call_def at_avail [OF a] Let_def top no_error_check_type_indices [OF ts(2)])
  then show ?thesis using that ts by simp
qed

text \<open>The bit trick recognises the powers of two.\<close>

lemma and_pred_nat:
  "0 < n \<Longrightarrow> n AND (n - 1) = 0 \<longleftrightarrow> (\<exists>k. n = 2 ^ k)" for n :: nat
proof (induction n rule: less_induct)
  case (less n)
  show ?case
  proof (cases "even n")
    case True
    then obtain m where n: "n = 2 * m" by (rule evenE)
    have m: "0 < m" "m < n" using less.prems n by simp_all
    have pred: "(n - 1) div 2 = m - 1" using n m by (cases m) auto
    have "n AND (n - 1) = 2 * (m AND (m - 1))"
      using True pred by (subst and_rec) (simp add: n)
    then have "n AND (n - 1) = 0 \<longleftrightarrow> (\<exists>k. m = 2 ^ k)" using less.IH [OF m(2,1)] by simp
    also have "\<dots> \<longleftrightarrow> (\<exists>k. n = 2 ^ k)"
    proof
      assume "\<exists>k. m = 2 ^ k"
      then show "\<exists>k. n = 2 ^ k" using n by (metis power_Suc)
    next
      assume "\<exists>k. n = 2 ^ k"
      then obtain k where k: "n = 2 ^ k" by blast
      then have "k \<noteq> 0" using True by (metis odd_one power_0)
      then show "\<exists>k. m = 2 ^ k" using k n by (auto simp: gr0_conv_Suc)
    qed
    finally show ?thesis .
  next
    case False
    then obtain m where n: "n = 2 * m + 1" by (rule oddE)
    have "n AND (n - 1) = 2 * m" by (subst and_rec) (simp add: n)
    moreover have "(\<exists>k. n = 2 ^ k) \<longleftrightarrow> m = 0"
    proof
      assume "\<exists>k. n = 2 ^ k"
      then obtain k where k: "n = 2 ^ k" by blast
      with False have "k = 0" by (metis even_power even_numeral neq0_conv)
      then show "m = 0" using k n by simp
    next
      assume "m = 0"
      then show "\<exists>k. n = 2 ^ k" using n by (intro exI [of _ 0]) simp
    qed
    ultimately show ?thesis by simp
  qed
qed

lemma and_pred_eq_0_iff:
  fixes x :: "'a::len word"
  assumes "x \<noteq> 0"
  shows "x AND (x - 1) = 0 \<longleftrightarrow> (\<exists>k. unat x = 2 ^ k)"
proof -
  have "unat (x AND (x - 1)) = unat x AND unat (x - 1)" by (rule unsigned_and_eq)
  then have "x AND (x - 1) = 0 \<longleftrightarrow> unat x AND (unat x - 1) = 0"
    by (simp add: unat_minus_one [OF assms] flip: unat_eq_zero)
  then show ?thesis using assms and_pred_nat [of "unat x"] by (simp add: unat_gt_0)
qed

lemma is_power_of_two_iff: "is_power_of_two x \<longleftrightarrow> (\<exists>k. unat x = 2 ^ k)"
  by (cases "x = 0") (auto simp: is_power_of_two_def and_pred_eq_0_iff)

lemma check_memory_access_iff:
  assumes a: "state_at C below ts ctx" and size: "wasm_get_opcode_memory_size opcode \<noteq> 0" "wasm_get_opcode_memory_size opcode \<le> 8"
  shows "if access_ok C opcode align off then check_memory_access opcode align off ctx = ctx
    else \<not> no_error (check_memory_access opcode align off ctx)"
proof -
  have m: "v_module ctx = ty_module C" using a by (simp add: state_at_def)
  have natural: "unat (get_opcode_natural_alignment opcode) = wasm_get_opcode_memory_size opcode"
    using size by (simp add: get_opcode_natural_alignment_def)
  have off: "(0xFFFFFFFF < off) = (\<not> unat off < 2 ^ 32)" by (auto simp: word_less_nat_alt)
  show ?thesis
    by (auto simp: access_ok_def check_memory_access_def check_offset_def check_align_def check_has_memory_def
        is_power_of_two_iff m size val_assert_def word_less_nat_alt natural off Let_def)
qed


subsection \<open>Blocks\<close>

lemma at_push_label:
  "state_at C below ts ctx \<Longrightarrow> state_at (enter (lt = LABEL_TYPE_LOOP_V) sig C) (below @ ts) [] (val_push_label lt sig ctx)"
  by (simp add: state_at_def enter_def val_push_label_def type_stack_limit_def)

lemma val_pop_push_label [simp]:
  "val_pop_label (with_stack (val_push_label lt sig ctx) ts) = with_stack ctx ts"
  by (simp add: val_pop_label_def val_push_label_def)

lemma top_sig_push_label [simp]: "ln_sig (hd (v_labels (val_push_label lt sig ctx))) = sig"
  by (simp add: val_push_label_def)

lemma end_block_falls:
  assumes "state_at C below ts ctx" "ln_sig (hd (v_labels ctx)) = ts"
  shows "end_block desc (True, ctx) = with_stack ctx below"
proof -
  have "check_n_types ts desc ctx = ctx" by (rule check_n_types_at [of C below "[]"]) (use assms in simp)
  then show ?thesis using assms
    by (simp add: check_type_stack_limit_exact_def at_avail [OF assms(1)] Let_def reset_type_stack_to_limit_def
        set_type_stack_size_def) (simp add: state_at_def)
qed

lemma end_block_stops: "state_at C below ts ctx \<Longrightarrow> end_block desc (False, ctx) = with_stack ctx below"
  by (simp add: reset_type_stack_to_limit_def set_type_stack_size_def state_at_def)

lemma no_error_exact [simp]:
  "no_error (check_type_stack_limit_exact n desc ctx) \<longleftrightarrow> n = type_stack_avail ctx \<and> no_error ctx"
  by (auto simp: check_type_stack_limit_exact_def Let_def)

lemma end_block_no_error:
  assumes a: "state_at C below ts ctx" and ok: "no_error (end_block desc (True, ctx))"
  shows "ts = ln_sig (hd (v_labels ctx))"
proof -
  let ?sig = "ln_sig (hd (v_labels ctx))"
  have "no_error (check_n_types ?sig desc ctx)" using ok by simp
  with a obtain pre where ts: "ts = pre @ ?sig" by (rule check_n_types_no_error)
  then have "check_n_types ?sig desc ctx = ctx" using a by (simp add: check_n_types_at)
  then have "length ?sig = length ts" using ok by (simp add: at_avail [OF a])
  then show ?thesis using ts by (metis append_self_conv2 length_append add_cancel_left_left length_0_conv)
qed

subsection \<open>The opcode table\<close>

lemmas opcode_classes = binary_opcodes_def compare_opcodes_def unary_opcodes_def convert_opcodes_def load_opcodes_def
  store_opcodes_def

lemma opcode_row:
  assumes "opcode \<in> set (binary_opcodes @ compare_opcodes @ unary_opcodes @ convert_opcodes @ load_opcodes @ store_opcodes)"
  shows "(opcode, g_wasm_opcode_info opcode) \<in> set wasm_opcode_table"
proof -
  have "drop 20 (map fst wasm_opcode_table) = [0x28..<0xc0]"
    by (simp add: wasm_opcode_table_def opcode_info_def upt_rec_numeral)
  then have "{0x28..<0xc0} \<subseteq> set (map fst wasm_opcode_table)" by (metis set_drop_subset set_upt)
  moreover have "set (binary_opcodes @ compare_opcodes @ unary_opcodes @ convert_opcodes @ load_opcodes @ store_opcodes)
    \<subseteq> {0x28..<0xc0}"
    by (simp add: opcode_classes)
  ultimately have "opcode \<in> fst ` set wasm_opcode_table" using assms by auto
  then show ?thesis
    by (auto simp: g_wasm_opcode_info_def map_of_eq_None_iff split: option.splits dest: map_of_SomeD)
qed

lemma value_opcode_types:
  assumes "opcode \<in> set (binary_opcodes @ compare_opcodes @ unary_opcodes @ convert_opcodes @ load_opcodes)"
  shows "is_concrete_type (wasm_get_opcode_result_type opcode)"
proof -
  have "list_all (\<lambda>(opcode, info). opcode \<in> set (binary_opcodes @ compare_opcodes @ unary_opcodes @ convert_opcodes @ load_opcodes)
      \<longrightarrow> is_concrete_type (op_result_type info)) wasm_opcode_table"
    by (simp add: wasm_opcode_table_def opcode_info_def opcode_classes is_concrete_type_def)
  moreover have "(opcode, g_wasm_opcode_info opcode) \<in> set wasm_opcode_table" by (rule opcode_row) (use assms in auto)
  ultimately show ?thesis using assms by (auto simp: list_all_iff wasm_get_opcode_result_type_def)
qed

lemma access_opcode_types:
  assumes "opcode \<in> set (load_opcodes @ store_opcodes)"
  shows "wasm_get_opcode_param_type_1 opcode = WASM_TYPE_I32"
    "wasm_get_opcode_memory_size opcode \<noteq> 0" "wasm_get_opcode_memory_size opcode \<le> 8"
proof -
  have "list_all (\<lambda>(opcode, info). opcode \<in> set (load_opcodes @ store_opcodes)
      \<longrightarrow> op_param1_type info = WASM_TYPE_I32 \<and> op_memory_size info \<noteq> 0 \<and> op_memory_size info \<le> 8) wasm_opcode_table"
    by (simp add: wasm_opcode_table_def opcode_info_def opcode_classes)
  moreover have "(opcode, g_wasm_opcode_info opcode) \<in> set wasm_opcode_table" by (rule opcode_row) (use assms in auto)
  ultimately show "wasm_get_opcode_param_type_1 opcode = WASM_TYPE_I32"
    "wasm_get_opcode_memory_size opcode \<noteq> 0" "wasm_get_opcode_memory_size opcode \<le> 8"
    using assms by (auto simp: list_all_iff wasm_get_opcode_param_type_1_def wasm_get_opcode_memory_size_def)
qed

lemma store_opcode_result:
  assumes "opcode \<in> set store_opcodes"
  shows "wasm_get_opcode_result_type opcode = WASM_TYPE_VOID"
proof -
  have "list_all (\<lambda>(opcode, info). opcode \<in> set store_opcodes \<longrightarrow> op_result_type info = WASM_TYPE_VOID) wasm_opcode_table"
    by (simp add: wasm_opcode_table_def opcode_info_def opcode_classes)
  moreover have "(opcode, g_wasm_opcode_info opcode) \<in> set wasm_opcode_table" by (rule opcode_row) (use assms in auto)
  ultimately show ?thesis using assms by (auto simp: list_all_iff wasm_get_opcode_result_type_def)
qed

lemma grow_memory_types:
  "wasm_get_opcode_result_type WASM_OPCODE_GROW_MEMORY = WASM_TYPE_I32"
  "wasm_get_opcode_param_type_1 WASM_OPCODE_GROW_MEMORY = WASM_TYPE_I32"
  by (simp_all add: wasm_get_opcode_result_type_def wasm_get_opcode_param_type_1_def g_wasm_opcode_info_def wasm_opcode_table_def
      opcode_info_def)

lemma concrete_const_type [simp]: "is_concrete_type (const_type c)" "is_concrete_type WASM_TYPE_I32"
  by (cases c) (simp_all add: const_type_def is_concrete_type_def)

lemma is_concrete_not_any [simp]: "\<not> is_concrete_type WASM_TYPE_ANY" "\<not> is_concrete_type WASM_TYPE_VOID"
  by (simp_all add: is_concrete_type_def)

lemmas opcode_types = value_opcode_types access_opcode_types store_opcode_result grow_memory_types

subsection \<open>Well-typed code is accepted\<close>

lemma check_opcode1_at:
  assumes "state_at C below (pre @ [wasm_get_opcode_param_type_1 opcode]) ctx" "is_concrete_type (wasm_get_opcode_result_type opcode)"
  shows "check_opcode1 opcode ctx = with_stack ctx (below @ pre @ [wasm_get_opcode_result_type opcode])"
  by (simp add: check_opcode1_def pop_1_at [OF assms(1)] push_type_value [OF assms(2)])

lemma check_opcode2_at:
  assumes "state_at C below (pre @ [wasm_get_opcode_param_type_1 opcode, wasm_get_opcode_param_type_2 opcode]) ctx"
  shows "check_opcode2 opcode ctx = push_type (wasm_get_opcode_result_type opcode) (with_stack ctx (below @ pre))"
  by (simp add: check_opcode2_def pop_2_at [OF assms(1)])

definition stack_after :: "WasmType list \<Rightarrow> WasmType list option \<Rightarrow> WasmType list" where
  "stack_after pre r = (case r of Some results \<Rightarrow> pre @ results | None \<Rightarrow> [WASM_TYPE_ANY])"

lemma plain_typing_enter: "plain_typing C \<Longrightarrow> value_types sig \<Longrightarrow> plain_typing (enter loop sig C)"
  by (simp add: plain_typing_def enter_def)

text \<open>What \<open>plain_typing\<close> says of the items found.\<close>

lemma plain_lookups:
  assumes "plain_typing C"
  shows "local_lookup (ty_func C) var = Some t \<Longrightarrow> is_concrete_type t"
    "var_lookup (globals (ty_module C)) var = Some g \<Longrightarrow> is_concrete_type (global_type g)"
    "var_lookup (funcs (ty_module C)) var = Some f \<Longrightarrow> plain_sig (decl_sig (func_decl f))"
    "var_lookup (func_types (ty_module C)) var = Some ft \<Longrightarrow> plain_sig (ft_sig ft)"
    "branch_types C var = Some ts \<Longrightarrow> value_types ts"
proof -
  show "is_concrete_type t" if "local_lookup (ty_func C) var = Some t"
  proof -
    have "t \<in> set (param_types (decl_sig (func_decl (ty_func C))) @ local_types (ty_func C))"
      using that by (simp add: local_lookup_def nth_ptr_def split: if_splits) (metis length_append not_le nth_mem set_append Un_iff)
    then show ?thesis using assms by (auto simp: plain_typing_def plain_func_def plain_sig_def list_all_iff)
  qed
qed (use assms in \<open>auto simp: plain_typing_def plain_module_def plain_func_def list_all_iff branch_types_def dest!: var_lookup_set split: if_splits\<close>)

lemma at_lookups:
  assumes "state_at C below ts ctx" "plain_typing C"
  shows "var_lookup (funcs (ty_module C)) var = Some f \<Longrightarrow> check_func_var var ctx = (Some f, ctx)"
    "var_lookup (func_types (ty_module C)) var = Some ft \<Longrightarrow> check_func_type_var var ctx = (Some ft, ctx)"
    "var_lookup (globals (ty_module C)) var = Some g \<Longrightarrow> \<exists>i. check_global_var var ctx = (Some (g, i), ctx)"
    "local_lookup (ty_func C) var = Some t \<Longrightarrow> check_local_var var ctx = (Some t, ctx)"
  using assms check_func_var_lookup [of ctx var] check_func_type_var_lookup [of ctx var] check_global_var_lookup [of ctx var]
    check_local_var_lookup [of ctx "ty_func C" var]
  by (auto simp: state_at_def plain_typing_def plain_module_def)

lemma end_block_body:
  assumes a: "state_at C below ts ctx" and "ln_sig (hd (v_labels ctx)) = sig"
    and "r = (True, with_stack ctx (below @ sig)) \<or> r = (False, with_stack ctx (below @ us))"
  shows "end_block desc r = with_stack ctx below"
  using assms(3)
proof
  assume "r = (True, with_stack ctx (below @ sig))"
  then show ?thesis using end_block_falls [OF at_with_stack [OF a, of sig], of desc] assms(2) by simp
next
  assume "r = (False, with_stack ctx (below @ us))"
  then show ?thesis using end_block_stops [OF at_with_stack [OF a, of us], of desc] by simp
qed

lemma check_block_body:
  assumes a: "state_at C below pre ctx" and loop: "loop = (lt = LABEL_TYPE_LOOP_V)"
    and r: "check_exprs es (val_push_label lt sig ctx) = (True, with_stack (val_push_label lt sig ctx) ((below @ pre) @ sig))
      \<or> check_exprs es (val_push_label lt sig ctx) = (False, with_stack (val_push_label lt sig ctx) ((below @ pre) @ [WASM_TYPE_ANY]))"
  shows "end_block desc (check_exprs es (val_push_label lt sig ctx)) = val_push_label lt sig ctx"
proof -
  note b = at_push_label [OF a, of lt sig]
  have "end_block desc (check_exprs es (val_push_label lt sig ctx)) = with_stack (val_push_label lt sig ctx) (below @ pre)"
    by (rule end_block_body [OF b top_sig_push_label r])
  also have "\<dots> = val_push_label lt sig ctx" using b by (simp add: state_at_def)
  finally show ?thesis .
qed

lemma val_pop_push [simp]: "val_pop_label (val_push_label lt sig ctx) = ctx"
  by (simp add: val_pop_label_def val_push_label_def)

lemma with_stack_at: "state_at C below ts ctx \<Longrightarrow> with_stack ctx (below @ ts) = ctx"
  by (simp add: state_at_def)

definition falls_or_stops :: "WasmExpr list \<Rightarrow> WasmType list \<Rightarrow> WasmType list \<Rightarrow> ValContext \<Rightarrow> bool" where
  "falls_or_stops es below ts ctx \<longleftrightarrow>
     (check_exprs es ctx = (True, with_stack ctx (below @ ts)) \<and> value_types ts)
     \<or> check_exprs es ctx = (False, with_stack ctx (below @ [WASM_TYPE_ANY]))"

lemma stack_after_simps [simp]:
  "stack_after pre (Some results) = pre @ results" "stack_after pre None = [WASM_TYPE_ANY]"
  by (simp_all add: stack_after_def)

lemma push_type_at: "state_at C below ts ctx \<Longrightarrow> is_concrete_type t \<Longrightarrow> push_type t ctx = with_stack ctx (below @ ts @ [t])"
  by (simp add: push_type_value state_at_def)

lemma push_types_at: "state_at C below ts ctx \<Longrightarrow> value_types us \<Longrightarrow> push_types us ctx = with_stack ctx (below @ ts @ us)"
  by (simp add: push_types_value state_at_def)

lemma falls_push_label:
  assumes a: "state_at C below pre ctx" and "plain_typing C" "value_types sig"
    and ih: "\<And>below pre ctx. plain_typing (enter loop sig C) \<Longrightarrow> state_at (enter loop sig C) below [] ctx \<Longrightarrow> falls_or_stops es below sig ctx"
    and loop: "loop = (lt = LABEL_TYPE_LOOP_V)"
  shows "end_block desc (check_exprs es (val_push_label lt sig ctx)) = val_push_label lt sig ctx"
proof -
  have "falls_or_stops es (below @ pre) sig (val_push_label lt sig ctx)"
    by (rule ih [OF plain_typing_enter [OF assms(2,3)]]) (use at_push_label [OF a, of lt sig] loop in simp)
  then show ?thesis by (intro check_block_body [OF a loop]) (auto simp: falls_or_stops_def)
qed

lemma check_br_all_at:
  assumes "state_at C below ts ctx" "\<forall>var \<in> set vars. \<exists>pre us. branch_types C var = Some us \<and> ts = pre @ us"
  shows "fold (\<lambda>var. check_br var desc) vars ctx = ctx"
  using assms(2)
proof (induction vars)
  case (Cons var vars)
  then obtain pre us where "branch_types C var = Some us" "ts = pre @ us" by auto
  then have "check_br var desc ctx = ctx" using assms(1) by (metis check_br_at)
  then show ?case using Cons by simp
qed simp

lemma top_type_value:
  assumes "state_at C below ts ctx" "value_types ts"
  shows "top_type ctx \<noteq> WASM_TYPE_ANY"
proof -
  have "is_concrete_type (last ts)" if "ts \<noteq> []" using that assms(2) by (simp add: list_all_iff)
  then show ?thesis using top_type_at [OF assms(1)] by (cases "ts = []") auto
qed

lemma accepted:
  "instr C e args r \<Longrightarrow> plain_typing C \<Longrightarrow> state_at C below (pre @ args) ctx \<Longrightarrow> value_types (pre @ args) \<Longrightarrow>
     check_expr e ctx = with_stack ctx (below @ stack_after pre r) \<and> list_all is_concrete_type (case r of Some results \<Rightarrow> results | None \<Rightarrow> [])"
  "body C ts es ts' \<Longrightarrow> plain_typing C \<Longrightarrow> state_at C below ts ctx \<Longrightarrow> value_types ts \<Longrightarrow> falls_or_stops es below ts' ctx"
proof (induction arbitrary: below pre ctx and below ctx rule: instr_body.inducts)
  case (T_Binary opcode C)
  then show ?case using check_opcode2_at [of C below pre opcode ctx] by (simp add: opcode_types push_type_value)
next
  case (T_Compare opcode C)
  then show ?case using check_opcode2_at [of C below pre opcode ctx] by (simp add: opcode_types push_type_value)
next
  case (T_Convert opcode C)
  then show ?case using check_opcode1_at [of C below pre opcode ctx] by (simp add: opcode_types)
next
  case (T_Unary opcode C)
  then show ?case using check_opcode1_at [of C below pre opcode ctx] by (simp add: opcode_types)
next
  case (T_Const C c)
  then show ?case by (simp add: push_type_at)
next
  case (T_Load opcode C align off)
  have a: "check_memory_access opcode align off ctx = ctx"
    using check_memory_access_iff [OF T_Load.prems(2), of opcode align off] T_Load.hyps by (simp add: access_opcode_types)
  show ?case using check_opcode1_at [of C below pre opcode ctx] T_Load a by (simp add: opcode_types)
next
  case (T_Store opcode C align off)
  have a: "check_memory_access opcode align off ctx = ctx"
    using check_memory_access_iff [OF T_Store.prems(2), of opcode align off] T_Store.hyps by (simp add: access_opcode_types)
  show ?case using check_opcode2_at [of C below pre opcode ctx] T_Store a by (simp add: opcode_types push_type_def)
next
  case (T_CurrentMemory C)
  then have "check_has_memory WASM_OPCODE_CURRENT_MEMORY ctx = ctx" by (simp add: check_has_memory_def state_at_def)
  then show ?case using T_CurrentMemory by (simp add: push_type_at)
next
  case (T_GrowMemory C)
  then have "check_has_memory WASM_OPCODE_GROW_MEMORY ctx = ctx" by (simp add: check_has_memory_def state_at_def)
  then show ?case using T_GrowMemory check_opcode1_at [of C below pre WASM_OPCODE_GROW_MEMORY ctx] by (simp add: opcode_types)
next
  case (T_Drop C t)
  then show ?case by (simp add: limit_at pop_type_at)
next
  case (T_Nop C)
  then show ?case by (simp add: state_at_def)
next
  case (T_Select C t)
  then have a: "state_at C below ((pre @ [t, t]) @ [WASM_TYPE_I32]) ctx" by simp
  have b: "state_at C below ((pre @ [t]) @ [t]) (with_stack ctx (below @ pre @ [t, t]))" using at_with_stack [OF a, of "pre @ [t, t]"] by simp
  have c: "state_at C below (pre @ [t]) (with_stack ctx (below @ pre @ [t]))" using at_with_stack [OF a, of "pre @ [t]"] by simp
  show ?case using T_Select
    by (simp add: pop_1_at [OF a, simplified] limit_at [OF b] pop_type_at [OF b, simplified] pop_type_at [OF c, simplified] push_type_value)
next
  case (T_GetLocal C var t)
  then show ?case by (simp add: at_lookups(4) plain_lookups(1) push_type_at)
next
  case (T_SetLocal C var t)
  then show ?case by (simp add: at_lookups(4) pop_1_at)
next
  case (T_TeeLocal C var t)
  then show ?case by (simp add: at_lookups(4) limit_at with_stack_at [of C below "pre @ [t]", simplified])
next
  case (T_GetGlobal C var g)
  then show ?case using at_lookups(3) [OF T_GetGlobal.prems(2,1) T_GetGlobal.hyps]
    by (auto simp: plain_lookups(2) push_type_at)
next
  case (T_SetGlobal C var g)
  then show ?case using at_lookups(3) [OF T_SetGlobal.prems(2,1) T_SetGlobal.hyps]
    by (auto simp: pop_1_at)
next
  case (T_Call C var f)
  then show ?case using plain_lookups(3) [OF T_Call.prems(1) T_Call.hyps]
    by (simp add: at_lookups(1) check_call_at plain_sig_def)
next
  case (T_CallIndirect C var ft)
  then have a: "state_at C below ((pre @ param_types (ft_sig ft)) @ [WASM_TYPE_I32]) ctx" by simp
  have t: "tables (v_module ctx) \<noteq> []" using T_CallIndirect by (simp add: state_at_def)
  have "value_types (result_types (ft_sig ft))"
    using plain_lookups(4) [OF T_CallIndirect.prems(1) T_CallIndirect.hyps(2)] by (simp add: plain_sig_def)
  then show ?case using T_CallIndirect t check_call_at [OF at_with_stack [OF a, of "pre @ param_types (ft_sig ft)"]]
    by (simp add: at_lookups(2) pop_type_at [OF a, simplified])
next
  case (T_Block sig C es label)
  then have "end_block ''block'' (check_exprs es (val_push_label LABEL_TYPE_BLOCK_V sig ctx)) = val_push_label LABEL_TYPE_BLOCK_V sig ctx"
    by (intro falls_push_label [where loop = False]) auto
  then show ?case using T_Block by (simp add: push_types_at)
next
  case (T_Loop sig C es label)
  then have "end_block ''loop'' (check_exprs es (val_push_label LABEL_TYPE_LOOP_V sig ctx)) = val_push_label LABEL_TYPE_LOOP_V sig ctx"
    by (intro falls_push_label [where loop = True]) auto
  then show ?case using T_Loop by (simp add: push_types_at)
next
  case (T_If sig C true_es false_es label)
  let ?ctx = "with_stack ctx (below @ pre)"
  have a: "state_at C below pre ?ctx" using T_If.prems at_with_stack by blast
  have "end_block desc (check_exprs es (val_push_label LABEL_TYPE_IF_V sig ?ctx)) = val_push_label LABEL_TYPE_IF_V sig ?ctx"
    if "es = true_es \<or> es = false_es" for desc es
    using that T_If by (intro falls_push_label [OF a, where loop = False]) auto
  then show ?case using T_If pop_1_at [OF T_If.prems(2)] by (simp add: push_types_at [OF a] Let_def)
next
  case (T_BrIf C var ts)
  then have a: "state_at C below ((pre @ ts) @ [WASM_TYPE_I32]) ctx" by simp
  show ?case using T_BrIf check_br_at [OF at_with_stack [OF a, of "pre @ ts"]] by (simp add: pop_1_at [OF a, simplified])
next
  case (T_Br C var ts)
  then show ?case using check_br_at [OF T_Br.prems(2) T_Br.hyps] by (simp add: push_any_at)
next
  case (T_BrTable default_target targets C args)
  then have a: "state_at C below ((pre @ args) @ [WASM_TYPE_I32]) ctx" by simp
  note b = at_with_stack [OF a, of "pre @ args"]
  have suffix: "\<exists>pre' us. branch_types C var = Some us \<and> pre @ args = pre' @ us" if "var \<in> set (default_target # targets)" for var
    using T_BrTable.hyps that by (metis append_assoc)
  have "fold (\<lambda>var. check_br var ''br_table target'') targets (with_stack ctx (below @ pre @ args)) = with_stack ctx (below @ pre @ args)"
    by (rule check_br_all_at [OF b]) (use suffix in auto)
  moreover have "check_br default_target ''br_table default target'' (with_stack ctx (below @ pre @ args)) = with_stack ctx (below @ pre @ args)"
    using check_br_all_at [OF b, of "[default_target]"] suffix by simp
  ultimately show ?case by (simp add: pop_1_at [OF a, simplified] push_any_at [OF b])
next
  case (T_Return C)
  then have "v_func ctx = Some (ty_func C)" by (simp add: state_at_def)
  then show ?case using check_n_types_at [OF T_Return.prems(2)] by (simp add: push_any_at [OF T_Return.prems(2)])
next
  case (T_Unreachable C)
  then show ?case by (simp add: push_any_at)
next
  case (body_Nil C ts)
  then show ?case by (simp add: falls_or_stops_def state_at_def)
next
  case (body_Cons C e args results pre es ts')
  let ?ctx = "with_stack ctx (below @ pre @ results)"
  have step: "check_expr e ctx = ?ctx" "value_types results"
    using body_Cons.IH(1) [OF body_Cons.prems] by simp_all
  have a: "state_at C below (pre @ results) ?ctx" using body_Cons.prems(2) by simp
  have v: "value_types (pre @ results)" using step(2) body_Cons.prems(3) by simp
  have "top_type ?ctx \<noteq> WASM_TYPE_ANY" by (rule top_type_value [OF a v])
  then show ?case using body_Cons.IH(2) [OF body_Cons.prems(1) a v] step(1) by (simp add: falls_or_stops_def)
next
  case (body_stop C e args pre es ts')
  let ?ctx = "with_stack ctx (below @ [WASM_TYPE_ANY])"
  have step: "check_expr e ctx = ?ctx" using body_stop.IH [OF body_stop.prems] by simp
  have "state_at C below [WASM_TYPE_ANY] ?ctx" using body_stop.prems(2) by simp
  then have "top_type ?ctx = WASM_TYPE_ANY" by (simp add: top_type_at)
  then show ?case by (simp add: falls_or_stops_def step)
qed

end
