(* ===== verification/Wabt_Typing_Sound.thy ===== *)
theory Wabt_Typing_Sound
  imports Wabt_Typing
begin

text \<open>
  The converse of \<open>accepted\<close>: an expression that is checked without an error is well typed. No
  check clears an error, so it is enough to look at each check in a state without errors.
\<close>

subsection \<open>Accepted code is well typed\<close>

text \<open>Expressions as the parser and the binary reader build them.\<close>

fun parsed_expr :: "WasmExpr \<Rightarrow> bool" where
  "parsed_expr (Binary opcode) = (opcode \<in> set binary_opcodes)"
| "parsed_expr (Compare opcode) = (opcode \<in> set compare_opcodes)"
| "parsed_expr (Unary opcode) = (opcode \<in> set unary_opcodes)"
| "parsed_expr (Convert opcode) = (opcode \<in> set convert_opcodes)"
| "parsed_expr (Load opcode _ _) = (opcode \<in> set load_opcodes)"
| "parsed_expr (Store opcode _ _) = (opcode \<in> set store_opcodes)"
| "parsed_expr (Block _ sig es) = (value_types sig \<and> list_all parsed_expr es)"
| "parsed_expr (Loop _ sig es) = (value_types sig \<and> list_all parsed_expr es)"
| "parsed_expr (If _ sig true_es false_es) = (value_types sig \<and> list_all parsed_expr true_es \<and> list_all parsed_expr false_es)"
| "parsed_expr _ = True"

text \<open>
  The two constructs whose operands the validator does not check completely: \<open>tee_local\<close>, and
  \<open>call_indirect\<close> of a type without parameters on an empty stack.
\<close>

fun no_gap :: "WasmModule \<Rightarrow> WasmExpr \<Rightarrow> bool" where
  "no_gap m (TeeLocal _) = False"
| "no_gap m (CallIndirect var) =
     (case var_lookup (func_types m) var of Some ft \<Rightarrow> param_types (ft_sig ft) \<noteq> [] | None \<Rightarrow> True)"
| "no_gap m (Block _ _ es) = list_all (no_gap m) es"
| "no_gap m (Loop _ _ es) = list_all (no_gap m) es"
| "no_gap m (If _ _ true_es false_es) = (list_all (no_gap m) true_es \<and> list_all (no_gap m) false_es)"
| "no_gap m _ = True"

named_theorems strict \<open>no check clears an error\<close>

lemma strict_print [strict]: "no_error (val_print_error format args ctx) \<Longrightarrow> no_error ctx"
  by simp

lemma no_error_pop_type [simp]: "no_error (snd (pop_type ctx)) = no_error ctx"
  by (simp add: pop_type_def)

lemma strict_pop_type [strict]: "pop_type ctx = (t, ctx') \<Longrightarrow> no_error ctx' \<Longrightarrow> no_error ctx"
  using no_error_pop_type [of ctx] by simp

lemma no_error_labels [simp]:
  "no_error (val_push_label lt sig ctx) = no_error ctx" "no_error (val_pop_label ctx) = no_error ctx"
  by (simp_all add: no_error_def val_push_label_def val_pop_label_def)

lemma strict_limit [strict]: "check_type_stack_limit n desc ctx = (r, ctx') \<Longrightarrow> no_error ctx' \<Longrightarrow> no_error ctx"
  by (auto simp: check_type_stack_limit_def Let_def split: if_splits)

lemma strict_indices [strict]: "no_error (check_type_indices i ts us desc kind ctx) \<Longrightarrow> no_error ctx"
  by (induction i ts us desc kind ctx rule: check_type_indices.induct) auto

lemma strict_pairs [strict]: "no_error (check_type_pairs ts us desc ctx) \<Longrightarrow> no_error ctx"
  by (induction ts us desc ctx rule: check_type_pairs.induct) auto

lemma strict_pop [strict]:
  "no_error (pop_and_check_1_type t desc ctx) \<Longrightarrow> no_error ctx"
  "no_error (pop_and_check_2_types t u desc ctx) \<Longrightarrow> no_error ctx"
  by (auto simp: pop_and_check_1_type_def pop_and_check_2_types_def Let_def split: prod.splits WasmResult.splits
      dest!: strict_limit strict_pop_type)

lemma strict_n_types [strict]: "no_error (check_n_types ts desc ctx) \<Longrightarrow> no_error ctx"
  by (auto simp: check_n_types_def check_type_stack_limit_def Let_def split: if_splits dest: strict_pairs)

lemma strict_br [strict]: "no_error (check_br var desc ctx) \<Longrightarrow> no_error ctx"
  using check_label_var_lookup [of ctx var] by (auto simp: check_br_def split: if_splits dest: strict_n_types)

lemma strict_br_all [strict]: "no_error (fold (\<lambda>var. check_br var desc) vars ctx) \<Longrightarrow> no_error ctx"
  by (induction vars arbitrary: ctx) (auto dest: strict_br)

lemma strict_call [strict]: "no_error (check_call sig desc ctx) \<Longrightarrow> no_error ctx"
  by (auto simp: check_call_def Let_def split: if_splits dest: strict_indices)

lemma strict_end_block [strict]: "no_error (end_block desc r) \<Longrightarrow> no_error (snd r)"
  by (cases r) (auto split: if_splits dest: strict_n_types)

lemma strict_var [strict]: "check_var n var desc ctx = (r, ctx') \<Longrightarrow> no_error ctx' \<Longrightarrow> no_error ctx"
  by (cases var) (auto split: if_splits)

lemma strict_func_var [strict]: "check_func_var var ctx = (r, ctx') \<Longrightarrow> no_error ctx' \<Longrightarrow> no_error ctx"
  by (auto simp: check_func_var_def split: prod.splits option.splits dest: strict_var)

lemma strict_func_type_var [strict]: "check_func_type_var var ctx = (r, ctx') \<Longrightarrow> no_error ctx' \<Longrightarrow> no_error ctx"
  by (auto simp: check_func_type_var_def split: prod.splits option.splits dest: strict_var)

lemma strict_global_var [strict]: "check_global_var var ctx = (r, ctx') \<Longrightarrow> no_error ctx' \<Longrightarrow> no_error ctx"
  by (auto simp: check_global_var_def split: prod.splits option.splits dest: strict_var)

lemma strict_local_var [strict]: "check_local_var var ctx = (r, ctx') \<Longrightarrow> no_error ctx' \<Longrightarrow> no_error ctx"
  by (auto simp: check_local_var_def Let_def split: if_splits WasmVar.splits)

lemma strict_memory_access [strict]: "no_error (check_memory_access opcode align off ctx) \<Longrightarrow> no_error ctx"
  by (auto simp: check_memory_access_def check_offset_def check_align_def check_has_memory_def Let_def split: if_splits)

lemma strict_opcode [strict]:
  "no_error (check_opcode1 opcode ctx) \<Longrightarrow> no_error ctx" "no_error (check_opcode2 opcode ctx) \<Longrightarrow> no_error ctx"
  by (auto simp: check_opcode1_def check_opcode2_def dest: strict_pop)

lemma strict_has_memory [strict]: "no_error (check_has_memory opcode ctx) \<Longrightarrow> no_error ctx"
  by (simp add: check_has_memory_def split: if_splits)

lemma strict_exprs [strict]:
  "no_error (check_expr e ctx) \<Longrightarrow> no_error ctx"
  "no_error (snd (check_exprs es ctx)) \<Longrightarrow> no_error ctx"
proof (induction e ctx and es ctx rule: check_expr_check_exprs.induct)
qed (auto dest!: strict_call strict_pop_type dest: strict split: prod.splits option.splits if_splits WasmResult.splits simp: Let_def)


text \<open>Every state in which \<open>e\<close> is checked without error has operands for \<open>e\<close> on top of the stack.\<close>

definition sound_at :: "WasmExpr \<Rightarrow> bool" where
  "sound_at e \<longleftrightarrow> (\<forall>C below ts ctx. plain_typing C \<longrightarrow> state_at C below ts ctx \<longrightarrow> value_types ts \<longrightarrow>
     no_error (check_expr e ctx) \<longrightarrow> parsed_expr e \<longrightarrow> no_gap (ty_module C) e \<longrightarrow> (\<exists>pre args r. ts = pre @ args \<and> instr C e args r))"

lemma sound_atD:
  assumes "sound_at e" "plain_typing C" "state_at C below ts ctx" "value_types ts" "no_error (check_expr e ctx)" "parsed_expr e"
    "no_gap (ty_module C) e"
  obtains pre args r where "ts = pre @ args" "instr C e args r"
  using assms unfolding sound_at_def by blast

lemma sound_exprs:
  assumes "plain_typing C" "state_at C below ts ctx" "value_types ts" "no_error (snd (check_exprs es ctx))"
    "\<forall>e \<in> set es. sound_at e \<and> parsed_expr e \<and> no_gap (ty_module C) e"
  shows "(\<exists>ts'. body C ts es ts' \<and> check_exprs es ctx = (True, with_stack ctx (below @ ts')))
    \<or> ((\<forall>ts'. body C ts es ts') \<and> fst (check_exprs es ctx) = False)"
  using assms
proof (induction es arbitrary: ts ctx)
  case Nil
  then show ?case by (auto simp: state_at_def intro: body_Nil)
next
  case (Cons e es)
  have "no_error (check_expr e ctx)"
    using Cons.prems(4) by (auto simp: Let_def split: if_splits dest: strict_exprs(2))
  with Cons.prems obtain pre args r where ts: "ts = pre @ args" and e: "instr C e args r"
    by (auto elim!: sound_atD)
  have step: "check_expr e ctx = with_stack ctx (below @ stack_after pre r)"
    and v: "list_all is_concrete_type (case r of Some results \<Rightarrow> results | None \<Rightarrow> [])"
    using accepted(1) [OF e Cons.prems(1) Cons.prems(2) [unfolded ts] Cons.prems(3) [unfolded ts]] by auto
  have a: "state_at C below (stack_after pre r) (check_expr e ctx)" unfolding step using Cons.prems(2) by simp
  show ?case
  proof (cases r)
    case None
    then have "top_type (check_expr e ctx) = WASM_TYPE_ANY" using top_type_at [OF a] by simp
    then show ?thesis using e None ts by (auto simp: Let_def intro: body_stop)
  next
    case (Some results)
    have vals: "value_types (pre @ results)" using Cons.prems(3) v Some ts by simp
    have a': "state_at C below (pre @ results) (check_expr e ctx)" using a Some by simp
    have top: "top_type (check_expr e ctx) \<noteq> WASM_TYPE_ANY" by (rule top_type_value [OF a' vals])
    then have "no_error (snd (check_exprs es (check_expr e ctx)))" using Cons.prems(4) by (simp add: Let_def)
    from Cons.IH [OF Cons.prems(1) a' vals this] Cons.prems(5) show ?thesis
      using top e Some ts by (auto simp: Let_def step intro: body_Cons)
  qed
qed

lemma sound_block:
  assumes "plain_typing C" "state_at C below pre ctx" "value_types sig"
    "\<forall>e \<in> set es. sound_at e \<and> parsed_expr e \<and> no_gap (ty_module C) e"
    and ok: "no_error (end_block desc (check_exprs es (val_push_label lt sig ctx)))"
  shows "body (enter (lt = LABEL_TYPE_LOOP_V) sig C) [] es sig"
proof -
  let ?C = "enter (lt = LABEL_TYPE_LOOP_V) sig C" and ?ctx = "val_push_label lt sig ctx"
  have a: "state_at ?C (below @ pre) [] ?ctx" by (rule at_push_label [OF assms(2)])
  have "no_error (snd (check_exprs es ?ctx))" using ok by (rule strict_end_block)
  moreover have "ty_module ?C = ty_module C" by (simp add: enter_def)
  ultimately have "(\<exists>ts'. body ?C [] es ts' \<and> check_exprs es ?ctx = (True, with_stack ?ctx ((below @ pre) @ ts')))
    \<or> ((\<forall>ts'. body ?C [] es ts') \<and> fst (check_exprs es ?ctx) = False)"
    by (intro sound_exprs [OF plain_typing_enter [OF assms(1,3)] a]) (use assms(4) in auto)
  then show ?thesis
  proof
    assume "\<exists>ts'. body ?C [] es ts' \<and> check_exprs es ?ctx = (True, with_stack ?ctx ((below @ pre) @ ts'))"
    then obtain ts' where b: "body ?C [] es ts'" and c: "check_exprs es ?ctx = (True, with_stack ?ctx ((below @ pre) @ ts'))" by blast
    have "ts' = sig" using end_block_no_error [OF at_with_stack [OF a, of ts'], of desc] ok c by simp
    then show ?thesis using b by simp
  qed simp
qed

lemma typed_block_state:
  assumes "plain_typing C" "state_at C below pre ctx" "value_types sig" "body (enter (lt = LABEL_TYPE_LOOP_V) sig C) [] es sig"
  shows "end_block desc (check_exprs es (val_push_label lt sig ctx)) = val_push_label lt sig ctx"
  using assms by (intro falls_push_label [OF assms(2,1,3) _ refl] accepted(2) [OF assms(4)]) auto

lemma opcode1_no_error:
  "state_at C below ts ctx \<Longrightarrow> no_error (check_opcode1 opcode ctx) \<Longrightarrow> \<exists>pre. ts = pre @ [wasm_get_opcode_param_type_1 opcode]"
  by (auto simp: check_opcode1_def elim: pop_1_no_error)

lemma opcode2_no_error:
  "state_at C below ts ctx \<Longrightarrow> no_error (check_opcode2 opcode ctx) \<Longrightarrow>
    \<exists>pre. ts = pre @ [wasm_get_opcode_param_type_1 opcode, wasm_get_opcode_param_type_2 opcode]"
  by (auto simp: check_opcode2_def elim: pop_2_no_error)

lemma access_no_error:
  assumes "state_at C below ts ctx" "opcode \<in> set (load_opcodes @ store_opcodes)" "no_error (check_memory_access opcode align off ctx)"
  shows "access_ok C opcode align off \<and> check_memory_access opcode align off ctx = ctx"
  using check_memory_access_iff [OF assms(1), of opcode align off] access_opcode_types [OF assms(2)] assms(3)
  by (auto split: if_splits)

lemma has_memory_no_error:
  "state_at C below ts ctx \<Longrightarrow> no_error (check_has_memory opcode ctx) \<Longrightarrow> memories (ty_module C) \<noteq> [] \<and> check_has_memory opcode ctx = ctx"
  by (simp add: check_has_memory_def state_at_def split: if_splits)


lemma lookups_no_error:
  assumes a: "state_at C below ts ctx" and p: "plain_typing C"
  shows "no_error (snd (check_func_var var ctx)) \<Longrightarrow>
      \<exists>f. var_lookup (funcs (ty_module C)) var = Some f \<and> check_func_var var ctx = (Some f, ctx)"
    "no_error (snd (check_func_type_var var ctx)) \<Longrightarrow>
      \<exists>ft. var_lookup (func_types (ty_module C)) var = Some ft \<and> check_func_type_var var ctx = (Some ft, ctx)"
    "no_error (snd (check_global_var var ctx)) \<Longrightarrow>
      \<exists>g i. var_lookup (globals (ty_module C)) var = Some g \<and> check_global_var var ctx = (Some (g, i), ctx)"
    "no_error (snd (check_local_var var ctx)) \<Longrightarrow>
      \<exists>t. local_lookup (ty_func C) var = Some t \<and> check_local_var var ctx = (Some t, ctx)"
  using assms check_func_var_lookup [of ctx var] check_func_type_var_lookup [of ctx var] check_global_var_lookup [of ctx var]
    check_local_var_lookup [of ctx "ty_func C" var]
  by (auto simp: state_at_def plain_typing_def plain_module_def)

text \<open>The instructions without nested expressions.\<close>

lemma sound_local_global:
  assumes a: "state_at C below ts ctx" and p: "plain_typing C" and ok: "no_error (check_expr e ctx)"
    and e: "e \<in> {GetLocal var, SetLocal var, GetGlobal var, SetGlobal var}"
  shows "\<exists>pre args r. ts = pre @ args \<and> instr C e args r"
proof -
  have l: "no_error (snd (check_local_var var ctx))" if "e \<in> {GetLocal var, SetLocal var}"
    using ok that by (auto split: prod.splits option.splits dest: strict)
  have g: "no_error (snd (check_global_var var ctx))" if "e \<in> {GetGlobal var, SetGlobal var}"
    using ok that by (auto split: prod.splits option.splits dest: strict)
  consider "e = GetLocal var" | "e = SetLocal var" | "e = GetGlobal var" | "e = SetGlobal var" using e by blast
  then show ?thesis
  proof cases
    case 1
    then show ?thesis using lookups_no_error(4) [OF a p l] by (auto intro: T_GetLocal)
  next
    case 2
    with lookups_no_error(4) [OF a p l] obtain t
      where t: "local_lookup (ty_func C) var = Some t" "check_local_var var ctx = (Some t, ctx)" by auto
    then have "no_error (pop_and_check_1_type t ''set_local'' ctx)" using ok 2 by simp
    with a obtain us where "ts = us @ [t]" by (rule pop_1_no_error)
    then show ?thesis using T_SetLocal [OF t(1)] 2 by blast
  next
    case 3
    then show ?thesis using lookups_no_error(3) [OF a p g] by (auto intro: T_GetGlobal)
  next
    case 4
    with lookups_no_error(3) [OF a p g] obtain gl i
      where t: "var_lookup (globals (ty_module C)) var = Some gl" "check_global_var var ctx = (Some (gl, i), ctx)" by auto
    then have "no_error (pop_and_check_1_type (global_type gl) ''set_global'' ctx)" using ok 4 by simp
    with a obtain us where "ts = us @ [global_type gl]" by (rule pop_1_no_error)
    then show ?thesis using T_SetGlobal [OF t(1)] 4 by blast
  qed
qed

lemma sound_calls:
  assumes a: "state_at C below ts ctx" and p: "plain_typing C" and ok: "no_error (check_expr e ctx)"
    and e: "e = Call var \<or> e = CallIndirect var \<and> no_gap (ty_module C) (CallIndirect var)"
  shows "\<exists>pre args r. ts = pre @ args \<and> instr C e args r"
  using e
proof
  assume e: "e = Call var"
  then have "no_error (snd (check_func_var var ctx))" using ok by (auto split: prod.splits option.splits dest: strict)
  from lookups_no_error(1) [OF a p this] obtain f
    where f: "var_lookup (funcs (ty_module C)) var = Some f" "check_func_var var ctx = (Some f, ctx)" by blast
  then have "no_error (check_call (decl_sig (func_decl f)) ''call'' ctx)" using ok e by simp
  with a obtain pre where "ts = pre @ param_types (decl_sig (func_decl f))" by (rule check_call_no_error)
  then show ?thesis using T_Call [OF f(1)] e by blast
next
  assume e: "e = CallIndirect var \<and> no_gap (ty_module C) (CallIndirect var)"
  have tables: "tables (ty_module C) \<noteq> []"
    using ok e a by (auto simp: Let_def state_at_def split: prod.splits option.splits dest!: strict_call strict_pop_type dest: strict)
  then have v: "tables (v_module ctx) \<noteq> []" using a by (simp add: state_at_def)
  then have "no_error (snd (check_func_type_var var ctx))"
    using ok e by (auto simp: Let_def split: prod.splits option.splits dest!: strict_call strict_pop_type dest: strict)
  from lookups_no_error(2) [OF a p this] obtain ft
    where ft: "var_lookup (func_types (ty_module C)) var = Some ft" "check_func_type_var var ctx = (Some ft, ctx)" by blast
  obtain t ctx' where pop: "pop_type ctx = (t, ctx')" by force
  have call: "no_error (check_call (ft_sig ft) ''call_indirect'' (check_type t WASM_TYPE_I32 ''call_indirect function index'' ctx'))"
    using ok e v ft pop by simp
  then have t: "t = WASM_TYPE_I32" by (auto dest!: strict_call)
  have params: "param_types (ft_sig ft) \<noteq> []" using e ft by simp
  show ?thesis
  proof (cases ts rule: rev_cases)
    case Nil
    then have "pop_type ctx = (WASM_TYPE_I32, ctx)" using a top_type_at [OF a] by (simp add: pop_type_def state_at_def)
    then have "no_error (check_call (ft_sig ft) ''call_indirect'' ctx)" using call pop t by simp
    with a obtain pre where "ts = pre @ param_types (ft_sig ft)" by (rule check_call_no_error)
    then show ?thesis using Nil params by simp
  next
    case (snoc us u)
    then have b: "state_at C below (us @ [u]) ctx" using a by simp
    have "u = WASM_TYPE_I32" "ctx' = with_stack ctx (below @ us)" using pop_type_at [OF b] pop t by auto
    then have "no_error (check_call (ft_sig ft) ''call_indirect'' (with_stack ctx (below @ us)))" using call t by simp
    with at_with_stack [OF b, of us] obtain pre where "us = pre @ param_types (ft_sig ft)" by (rule check_call_no_error)
    then have "ts = pre @ (param_types (ft_sig ft) @ [WASM_TYPE_I32])" using snoc \<open>u = WASM_TYPE_I32\<close> by simp
    then show ?thesis using T_CallIndirect [OF tables ft(1)] e by blast
  qed
qed

lemma sound_select:
  assumes a: "state_at C below ts ctx" and ok: "no_error (check_expr Select ctx)"
  shows "\<exists>pre args r. ts = pre @ args \<and> instr C Select args r"
proof -
  have "no_error (pop_and_check_1_type WASM_TYPE_I32 ''select'' ctx)"
    using ok by (auto simp: Let_def split: WasmResult.splits prod.splits dest!: strict_pop_type strict_limit)
  with a obtain us where us: "ts = us @ [WASM_TYPE_I32]" by (rule pop_1_no_error)
  let ?ctx = "with_stack ctx (below @ us)"
  have b: "state_at C below us ?ctx" using a by simp
  have pop: "pop_and_check_1_type WASM_TYPE_I32 ''select'' ctx = ?ctx" using a us by (simp add: pop_1_at)
  have "2 \<le> length us" using ok by (simp add: pop limit_at [OF b] split: if_splits)
  from split_top [OF this] obtain pre vs where "us = pre @ vs" "length vs = 2" by blast
  then obtain t u where tu: "us = (pre @ [t]) @ [u]" by (auto simp: length_Suc_conv numeral_2_eq_2)
  note c = b [unfolded tu]
  have d: "state_at C below (pre @ [t]) (with_stack ctx (below @ (pre @ [t])))" by (rule at_with_stack [OF a])
  have "t = u" using ok
    by (simp add: pop [unfolded tu, simplified] limit_at [OF c, simplified] pop_type_at [OF c, simplified]
        pop_type_at [OF d, simplified])
  then show ?thesis using us tu T_Select [of C t] by (intro exI [of _ pre] exI [of _ "[t, t, WASM_TYPE_I32]"]) auto
qed

lemma sound_br_table:
  assumes a: "state_at C below ts ctx" and ok: "no_error (check_expr (BrTable targets default_target) ctx)"
  shows "\<exists>pre args r. ts = pre @ args \<and> instr C (BrTable targets default_target) args r"
proof -
  have "no_error (pop_and_check_1_type WASM_TYPE_I32 ''br_table key'' ctx)"
    using ok by (auto dest!: strict_br strict_br_all)
  with a obtain us where us: "ts = us @ [WASM_TYPE_I32]" by (rule pop_1_no_error)
  let ?ctx = "with_stack ctx (below @ us)"
  have b: "state_at C below us ?ctx" using a by simp
  have pop: "pop_and_check_1_type WASM_TYPE_I32 ''br_table key'' ctx = ?ctx" using a us by (simp add: pop_1_at)
  have all: "\<forall>var \<in> set vars. \<exists>pre ts. branch_types C var = Some ts \<and> us = pre @ ts"
    if "no_error (fold (\<lambda>var. check_br var desc) vars ?ctx)" for vars desc
    using that
  proof (induction vars)
    case (Cons var vars)
    have "no_error (check_br var desc ?ctx)" using Cons.prems by (auto dest: strict_br_all)
    with b obtain pre ts where v: "branch_types C var = Some ts" "us = pre @ ts" by (rule check_br_no_error)
    then have "check_br var desc ?ctx = ?ctx" using b by (metis check_br_at)
    then show ?case using Cons v by auto
  qed simp
  have f: "no_error (fold (\<lambda>var. check_br var ''br_table target'') targets ?ctx)" using ok pop by (auto dest!: strict_br)
  have "fold (\<lambda>var. check_br var ''br_table target'') targets ?ctx = ?ctx" by (rule check_br_all_at [OF b all [OF f]])
  then have "no_error (fold (\<lambda>var. check_br var ''br_table default target'') [default_target] ?ctx)" using ok pop by simp
  from all [OF this] all [OF f]
  have "\<forall>var \<in> set (default_target # targets). \<exists>pre ts. branch_types C var = Some ts \<and> us = pre @ ts" by auto
  from T_BrTable [OF this] show ?thesis using us by (metis append_Nil)
qed

lemma sound_expr: "sound_at e"
proof (induction e)
  case (Binary opcode)
  show ?case unfolding sound_at_def by (auto dest!: opcode2_no_error intro: T_Binary)
next
  case (Compare opcode)
  show ?case unfolding sound_at_def by (auto dest!: opcode2_no_error intro: T_Compare)
next
  case (Convert opcode)
  show ?case unfolding sound_at_def by (auto dest!: opcode1_no_error intro: T_Convert)
next
  case (Unary opcode)
  show ?case unfolding sound_at_def by (auto dest!: opcode1_no_error intro: T_Unary)
next
  case (Const c)
  show ?case unfolding sound_at_def by (auto intro: T_Const)
next
  case (Load opcode align off)
  show ?case unfolding sound_at_def
  proof (intro allI impI)
    fix C below ts ctx
    assume p: "plain_typing C" and a: "state_at C below ts ctx" and ok: "no_error (check_expr (Load opcode align off) ctx)"
      and o: "parsed_expr (Load opcode align off)"
    have l: "opcode \<in> set (load_opcodes @ store_opcodes)" "opcode \<in> set load_opcodes" using o by auto
    have "no_error (check_memory_access opcode align off ctx)" using ok by (auto dest: strict)
    note acc = access_no_error [OF a l(1) this]
    then have "no_error (check_opcode1 opcode ctx)" using ok by simp
    from opcode1_no_error [OF a this] T_Load [OF l(2) acc [THEN conjunct1]]
    show "\<exists>pre args r. ts = pre @ args \<and> instr C (Load opcode align off) args r"
      by (auto simp: access_opcode_types [OF l(1)])
  qed
next
  case (Store opcode align off)
  show ?case unfolding sound_at_def
  proof (intro allI impI)
    fix C below ts ctx
    assume p: "plain_typing C" and a: "state_at C below ts ctx" and ok: "no_error (check_expr (Store opcode align off) ctx)"
      and o: "parsed_expr (Store opcode align off)"
    have l: "opcode \<in> set (load_opcodes @ store_opcodes)" "opcode \<in> set store_opcodes" using o by auto
    have "no_error (check_memory_access opcode align off ctx)" using ok by (auto dest: strict)
    note acc = access_no_error [OF a l(1) this]
    then have "no_error (check_opcode2 opcode ctx)" using ok by simp
    from opcode2_no_error [OF a this] T_Store [OF l(2) acc [THEN conjunct1]]
    show "\<exists>pre args r. ts = pre @ args \<and> instr C (Store opcode align off) args r"
      by (auto simp: access_opcode_types [OF l(1)])
  qed
next
  case CurrentMemory
  show ?case unfolding sound_at_def by (auto dest!: has_memory_no_error intro: T_CurrentMemory)
next
  case GrowMemory
  show ?case unfolding sound_at_def
  proof (intro allI impI)
    fix C below ts ctx
    assume a: "state_at C below ts ctx" and ok: "no_error (check_expr GrowMemory ctx)"
    have "no_error (check_has_memory WASM_OPCODE_GROW_MEMORY ctx)" using ok by (auto dest: strict)
    from has_memory_no_error [OF a this] ok opcode1_no_error [OF a, of WASM_OPCODE_GROW_MEMORY] T_GrowMemory
    show "\<exists>pre args r. ts = pre @ args \<and> instr C GrowMemory args r" by (auto simp: grow_memory_types)
  qed
next
  case Drop
  show ?case unfolding sound_at_def
  proof (intro allI impI)
    fix C below ts ctx
    assume a: "state_at C below ts ctx" and ok: "no_error (check_expr Drop ctx)"
    show "\<exists>pre args r. ts = pre @ args \<and> instr C Drop args r"
      using ok by (cases ts rule: rev_cases) (auto simp: limit_at [OF a] intro: T_Drop)
  qed
next
  case Nop
  show ?case unfolding sound_at_def by (auto intro: T_Nop)
next
  case Unreachable
  show ?case unfolding sound_at_def by (auto intro: T_Unreachable)
next
  case Return
  show ?case unfolding sound_at_def
  proof (intro allI impI)
    fix C below ts ctx
    assume a: "state_at C below ts ctx" and ok: "no_error (check_expr Return ctx)"
    then have "no_error (check_n_types (result_types (decl_sig (func_decl (ty_func C)))) ''return'' ctx)" by (simp add: state_at_def)
    with a obtain pre where "ts = pre @ result_types (decl_sig (func_decl (ty_func C)))" by (rule check_n_types_no_error)
    then show "\<exists>pre args r. ts = pre @ args \<and> instr C Return args r" using T_Return by blast
  qed
next
  case Select
  show ?case unfolding sound_at_def using sound_select by blast
next
  case (Br var)
  show ?case unfolding sound_at_def
  proof (intro allI impI)
    fix C below ts ctx
    assume a: "state_at C below ts ctx" and "no_error (check_expr (Br var) ctx)"
    then have "no_error (check_br var ''br value'' ctx)" by simp
    with a obtain pre us where "branch_types C var = Some us" "ts = pre @ us" by (rule check_br_no_error)
    then show "\<exists>pre args r. ts = pre @ args \<and> instr C (Br var) args r" using T_Br by blast
  qed
next
  case (BrIf var)
  show ?case unfolding sound_at_def
  proof (intro allI impI)
    fix C below ts ctx
    assume a: "state_at C below ts ctx" and ok: "no_error (check_expr (BrIf var) ctx)"
    then have "no_error (pop_and_check_1_type WASM_TYPE_I32 ''br_if condition'' ctx)" by (auto dest: strict)
    with a obtain us where us: "ts = us @ [WASM_TYPE_I32]" by (rule pop_1_no_error)
    then have "no_error (check_br var ''br_if value'' (with_stack ctx (below @ us)))" using a ok by (simp add: pop_1_at)
    with at_with_stack [OF a, of us] obtain pre vs where "branch_types C var = Some vs" "us = pre @ vs" by (rule check_br_no_error)
    then show "\<exists>pre args r. ts = pre @ args \<and> instr C (BrIf var) args r" using T_BrIf us by (metis append_assoc)
  qed
next
  case (BrTable targets default_target)
  show ?case unfolding sound_at_def using sound_br_table by blast
next
  case (Block label sig es)
  show ?case unfolding sound_at_def
  proof (intro allI impI)
    fix C below ts ctx
    assume p: "plain_typing C" and a: "state_at C below ts ctx" and ok: "no_error (check_expr (Block label sig es) ctx)"
      and o: "parsed_expr (Block label sig es)" "no_gap (ty_module C) (Block label sig es)"
    have "body (enter False sig C) [] es sig"
      using sound_block [OF p a, of sig es _ LABEL_TYPE_BLOCK_V] Block ok o by (auto simp: list_all_iff)
    then show "\<exists>pre args r. ts = pre @ args \<and> instr C (Block label sig es) args r"
      using o T_Block by (metis append_Nil2 parsed_expr.simps)
  qed
next
  case (Loop label sig es)
  show ?case unfolding sound_at_def
  proof (intro allI impI)
    fix C below ts ctx
    assume p: "plain_typing C" and a: "state_at C below ts ctx" and ok: "no_error (check_expr (Loop label sig es) ctx)"
      and o: "parsed_expr (Loop label sig es)" "no_gap (ty_module C) (Loop label sig es)"
    have "body (enter True sig C) [] es sig"
      using sound_block [OF p a, of sig es _ LABEL_TYPE_LOOP_V] Loop ok o by (auto simp: list_all_iff)
    then show "\<exists>pre args r. ts = pre @ args \<and> instr C (Loop label sig es) args r"
      using o T_Loop by (metis append_Nil2 parsed_expr.simps)
  qed
next
  case (If label sig true_es false_es)
  show ?case unfolding sound_at_def
  proof (intro allI impI)
    fix C below ts ctx
    assume p: "plain_typing C" and a: "state_at C below ts ctx" and ok: "no_error (check_expr (If label sig true_es false_es) ctx)"
      and o: "parsed_expr (If label sig true_es false_es)" "no_gap (ty_module C) (If label sig true_es false_es)"
    have "no_error (pop_and_check_1_type WASM_TYPE_I32 ''if condition'' ctx)"
      using ok by (auto simp: Let_def dest!: strict_end_block strict_exprs(2))
    with a obtain us where us: "ts = us @ [WASM_TYPE_I32]" by (rule pop_1_no_error)
    let ?ctx = "with_stack ctx (below @ us)" and ?push = "val_push_label LABEL_TYPE_IF_V sig"
    have b: "state_at C below us ?ctx" using a by simp
    have pop: "pop_and_check_1_type WASM_TYPE_I32 ''if condition'' ctx = ?ctx" using a us by (simp add: pop_1_at)
    have es: "\<forall>e \<in> set true_es \<union> set false_es. sound_at e \<and> parsed_expr e \<and> no_gap (ty_module C) e"
      and sig: "value_types sig" using If o by (auto simp: list_all_iff)
    have "no_error (end_block ''if true branch'' (check_exprs true_es (?push ?ctx)))"
      using ok by (auto simp: Let_def pop dest!: strict_end_block strict_exprs(2))
    then have t: "body (enter False sig C) [] true_es sig"
      using sound_block [OF p b sig, of true_es _ LABEL_TYPE_IF_V] es by auto
    have "end_block ''if true branch'' (check_exprs true_es (?push ?ctx)) = ?push ?ctx"
      by (rule typed_block_state [OF p b sig]) (use t in simp)
    then have "no_error (end_block ''if false branch'' (check_exprs false_es (?push ?ctx)))"
      using ok by (simp add: Let_def pop)
    then have "body (enter False sig C) [] false_es sig"
      using sound_block [OF p b sig, of false_es _ LABEL_TYPE_IF_V] es by auto
    from T_If [OF sig t this] show "\<exists>pre args r. ts = pre @ args \<and> instr C (If label sig true_es false_es) args r"
      using us by blast
  qed
next
  case (Call var)
  show ?case unfolding sound_at_def using sound_calls by blast
next
  case (CallIndirect var)
  show ?case unfolding sound_at_def using sound_calls by blast
next
  case (GetGlobal var)
  show ?case unfolding sound_at_def using sound_local_global [of _ _ _ _ "GetGlobal var" var] by blast
next
  case (GetLocal var)
  show ?case unfolding sound_at_def using sound_local_global [of _ _ _ _ "GetLocal var" var] by blast
next
  case (SetGlobal var)
  show ?case unfolding sound_at_def using sound_local_global [of _ _ _ _ "SetGlobal var" var] by blast
next
  case (SetLocal var)
  show ?case unfolding sound_at_def using sound_local_global [of _ _ _ _ "SetLocal var" var] by blast
next
  case (TeeLocal var)
  show ?case by (simp add: sound_at_def)
qed

end
