(* ===== verification/Wabt_Validity.thy ===== *)
theory Wabt_Validity
  imports Wabt_Typing_Sound
begin

text \<open>
  Validity of functions and modules, stated over the declarations, and the proof that
  \<open>check_module\<close> accepts exactly the valid modules.
\<close>

subsection \<open>Validity\<close>

definition func_typing :: "WasmModule \<Rightarrow> WasmFunc \<Rightarrow> Typing" where
  "func_typing m f = \<lparr>ty_module = m, ty_func = f, ty_labels = [(False, result_types (decl_sig (func_decl f)))]\<rparr>"

definition decl_valid :: "WasmModule \<Rightarrow> WasmFuncDeclaration \<Rightarrow> bool" where
  "decl_valid m decl \<longleftrightarrow> (has_func_type decl \<longrightarrow>
     (\<exists>ft. var_lookup (func_types m) (type_var decl) = Some ft
        \<and> result_types (decl_sig decl) = result_types (ft_sig ft) \<and> param_types (decl_sig decl) = param_types (ft_sig ft)))"

definition func_valid :: "WasmModule \<Rightarrow> WasmFunc \<Rightarrow> bool" where
  "func_valid m f \<longleftrightarrow>
     length (result_types (decl_sig (func_decl f))) \<le> 1 \<and> decl_valid m (func_decl f)
     \<and> body (func_typing m f) [] (first_expr f) (result_types (decl_sig (func_decl f)))"

definition limits_valid :: "WasmLimits \<Rightarrow> u64 \<Rightarrow> bool" where
  "limits_valid l absolute_max \<longleftrightarrow>
     limits_initial l \<le> absolute_max \<and> (limits_has_max l \<longrightarrow> limits_initial l \<le> limits_max l \<and> limits_max l \<le> absolute_max)"

text \<open>Constant initialisers: a constant, or one of the first \<open>n\<close> globals if it is immutable.\<close>

definition init_valid :: "WasmModule \<Rightarrow> nat \<Rightarrow> WasmExpr list \<Rightarrow> WasmType \<Rightarrow> bool" where
  "init_valid m n es t \<longleftrightarrow>
     (\<exists>c. es = [Const c] \<and> const_type c = t)
     \<or> (\<exists>var g. es = [GetGlobal var] \<and> var_lookup (take n (globals m)) var = Some g \<and> global_type g = t \<and> \<not> global_mutable g)"

text \<open>What the fields in front of a field declare.\<close>

definition import_at :: "WasmModule \<Rightarrow> WasmModuleField \<Rightarrow> WasmImportDesc option" where
  "import_at m f = (case f of FieldImport i \<Rightarrow> Some (import_desc (imports_vec m ! i)) | _ \<Rightarrow> None)"

definition declares_table :: "WasmModule \<Rightarrow> WasmModuleField \<Rightarrow> bool" where
  "declares_table m f \<longleftrightarrow> (\<exists>i. f = FieldTable i) \<or> (\<exists>t. import_at m f = Some (ImportTable t))"

definition declares_memory :: "WasmModule \<Rightarrow> WasmModuleField \<Rightarrow> bool" where
  "declares_memory m f \<longleftrightarrow> (\<exists>i. f = FieldMemory i) \<or> (\<exists>t. import_at m f = Some (ImportMemory t))"

definition imports_global :: "WasmModule \<Rightarrow> WasmModuleField \<Rightarrow> bool" where
  "imports_global m f \<longleftrightarrow> (\<exists>g. import_at m f = Some (ImportGlobal g))"

definition declares_global :: "WasmModule \<Rightarrow> WasmModuleField \<Rightarrow> bool" where
  "declares_global m f \<longleftrightarrow> (\<exists>i. f = FieldGlobal i) \<or> imports_global m f"

definition count_of :: "(WasmModuleField \<Rightarrow> bool) \<Rightarrow> WasmModuleField list \<Rightarrow> nat" where
  "count_of P fs = length (filter P fs)"

definition table_valid :: "WasmTable \<Rightarrow> bool" where
  "table_valid table \<longleftrightarrow> limits_valid (elem_limits table) 0xFFFFFFFF"

definition memory_valid :: "WasmMemory \<Rightarrow> bool" where
  "memory_valid memory \<longleftrightarrow> limits_valid (page_limits memory) (ucast WASM_MAX_PAGES)"

definition import_valid :: "WasmModule \<Rightarrow> WasmImportDesc \<Rightarrow> bool" where
  "import_valid m desc =
     (case desc of
        ImportFunc func \<Rightarrow> has_func_type (func_decl func) \<longrightarrow> var_lookup (func_types m) (type_var (func_decl func)) \<noteq> None
      | ImportTable table \<Rightarrow> table_valid table
      | ImportMemory memory \<Rightarrow> memory_valid memory
      | ImportGlobal global \<Rightarrow> \<not> global_mutable global)"

definition export_valid :: "WasmModule \<Rightarrow> WasmExport \<Rightarrow> bool" where
  "export_valid m export =
     (let var = export_var export
      in case export_kind export of
           WASM_EXTERNAL_KIND_FUNC \<Rightarrow> var_lookup (funcs m) var \<noteq> None
         | WASM_EXTERNAL_KIND_TABLE \<Rightarrow> var_lookup (tables m) var \<noteq> None
         | WASM_EXTERNAL_KIND_MEMORY \<Rightarrow> var_lookup (memories m) var \<noteq> None
         | WASM_EXTERNAL_KIND_GLOBAL \<Rightarrow> \<exists>g. var_lookup (globals m) var = Some g \<and> \<not> global_mutable g)"

definition start_valid :: "WasmModule \<Rightarrow> WasmVar \<Rightarrow> bool" where
  "start_valid m var \<longleftrightarrow>
     (\<exists>f. var_lookup (funcs m) var = Some f \<and> param_types (decl_sig (func_decl f)) = [] \<and> result_types (decl_sig (func_decl f)) = [])"

definition field_valid :: "WasmModule \<Rightarrow> WasmModuleField list \<Rightarrow> WasmModuleField \<Rightarrow> bool" where
  "field_valid m earlier field =
     (case field of
        FieldFunc i \<Rightarrow> func_valid m (funcs m ! i)
      | FieldGlobal i \<Rightarrow>
          init_valid m (count_of (imports_global m) earlier) (global_init_expr (globals m ! i)) (global_type (globals m ! i))
      | FieldImport i \<Rightarrow> import_valid m (import_desc (imports_vec m ! i))
      | FieldExport i \<Rightarrow> export_valid m (exports m ! i)
      | FieldTable i \<Rightarrow> table_valid (tables m ! i)
      | FieldMemory i \<Rightarrow> memory_valid (memories m ! i)
      | FieldStart var \<Rightarrow> start_valid m var
      | FieldElemSegment i \<Rightarrow> True | FieldDataSegment i \<Rightarrow> True | FieldFuncType i \<Rightarrow> True)"

definition elem_valid :: "WasmModule \<Rightarrow> nat \<Rightarrow> WasmElemSegment \<Rightarrow> bool" where
  "elem_valid m n segment \<longleftrightarrow>
     var_lookup (tables m) (elem_table_var segment) \<noteq> None
     \<and> list_all (\<lambda>var. var_lookup (funcs m) var \<noteq> None) (elem_vars segment)
     \<and> init_valid m n (elem_offset segment) WASM_TYPE_I32"

definition data_valid :: "WasmModule \<Rightarrow> nat \<Rightarrow> WasmDataSegment \<Rightarrow> bool" where
  "data_valid m n segment \<longleftrightarrow>
     var_lookup (memories m) (data_memory_var segment) \<noteq> None \<and> init_valid m n (data_offset segment) WASM_TYPE_I32"

definition module_valid :: "WasmModule \<Rightarrow> WasmModuleField list \<Rightarrow> bool" where
  "module_valid m fs \<longleftrightarrow>
     (\<forall>earlier field later. fs = earlier @ field # later \<longrightarrow> field_valid m earlier field)
     \<and> count_of (declares_table m) fs \<le> 1 \<and> count_of (declares_memory m) fs \<le> 1 \<and> count_of is_start_field fs \<le> 1
     \<and> (\<forall>i. FieldElemSegment i \<in> set fs \<longrightarrow> elem_valid m (count_of (imports_global m) fs) (elem_segments m ! i))
     \<and> (\<forall>i. FieldDataSegment i \<in> set fs \<longrightarrow> data_valid m (count_of (imports_global m) fs) (data_segments m ! i))"

subsection \<open>Checks that decide a predicate\<close>

text \<open>\<open>f\<close> leaves a context unchanged when \<open>P\<close> holds and reports an error otherwise.\<close>

definition decides :: "bool \<Rightarrow> val_step \<Rightarrow> ValContext \<Rightarrow> bool" where
  "decides P f ctx \<longleftrightarrow> (if P then f ctx = ctx else \<not> no_error (f ctx))"

lemma decides_comp:
  assumes "decides P f ctx" "decides Q g ctx" "\<And>c. no_error (g c) \<Longrightarrow> no_error c"
  shows "decides (P \<and> Q) (\<lambda>c. g (f c)) ctx"
  using assms by (auto simp: decides_def split: if_splits)

lemma decides_limits: "decides (limits_valid l mx) (check_limits l mx desc) ctx"
  by (auto simp: decides_def limits_valid_def check_limits_def Let_def not_le not_less)

lemma strict_limits [strict]: "no_error (check_limits l mx desc ctx) \<Longrightarrow> no_error ctx"
  by (auto simp: check_limits_def Let_def split: if_splits)

lemma decides_item_vars:
  "length (funcs (v_module ctx)) < 2 ^ 31 \<Longrightarrow>
    decides (var_lookup (funcs (v_module ctx)) var \<noteq> None) (\<lambda>c. snd (check_func_var var c)) ctx"
  "length (func_types (v_module ctx)) < 2 ^ 31 \<Longrightarrow>
    decides (var_lookup (func_types (v_module ctx)) var \<noteq> None) (\<lambda>c. snd (check_func_type_var var c)) ctx"
  "length (tables (v_module ctx)) < 2 ^ 31 \<Longrightarrow>
    decides (var_lookup (tables (v_module ctx)) var \<noteq> None) (\<lambda>c. snd (check_table_var var c)) ctx"
  "length (memories (v_module ctx)) < 2 ^ 31 \<Longrightarrow>
    decides (var_lookup (memories (v_module ctx)) var \<noteq> None) (\<lambda>c. snd (check_memory_var var c)) ctx"
  subgoal using check_func_var_lookup [of ctx var] by (auto simp: decides_def)
  subgoal using check_func_type_var_lookup [of ctx var] by (auto simp: decides_def)
  subgoal using check_item_var [of "tables (v_module ctx)" var "''table''" ctx] by (auto simp: decides_def check_table_var_def)
  subgoal using check_item_var [of "memories (v_module ctx)" var "''memory''" ctx] by (auto simp: decides_def check_memory_var_def)
  done


lemma check_global_var_index:
  assumes "length (globals (v_module ctx)) < 2 ^ 31"
  shows "(\<exists>g i. check_global_var var ctx = (Some (g, i), ctx) \<and> var_lookup (globals (v_module ctx)) var = Some g
        \<and> (\<forall>n. var_lookup (take n (globals (v_module ctx))) var = (if i < n then Some g else None)))
    \<or> (\<exists>ctx'. check_global_var var ctx = (None, ctx') \<and> \<not> no_error ctx'
        \<and> var_lookup (globals (v_module ctx)) var = None \<and> (\<forall>n. var_lookup (take n (globals (v_module ctx))) var = None))"
  using assms by (cases var) (auto simp: check_global_var_def var_lookup_def nat_less_iff)

lemma decides_init:
  assumes "length (globals (v_module ctx)) < 2 ^ 31" "v_num_imported_globals ctx = int n" "int n \<le> v_global_index ctx"
    "is_concrete_type t"
  shows "decides (init_valid (v_module ctx) n es t) (check_const_init_expr es t desc) ctx"
proof -
  consider "es = []" | c where "es = [Const c]" | var where "es = [GetGlobal var]"
    | e where "es = [e]" "\<forall>c. e \<noteq> Const c" "\<forall>var. e \<noteq> GetGlobal var" | e e' es' where "es = e # e' # es'"
    by (metis neq_Nil_conv)
  then show ?thesis
  proof cases
    case 1
    then show ?thesis using assms(4) by (auto simp: decides_def init_valid_def check_type_def)
  next
    case 2
    then show ?thesis by (simp add: decides_def init_valid_def)
  next
    case (3 var)
    have "decides (\<exists>g. var_lookup (take n (globals (v_module ctx))) var = Some g \<and> global_type g = t \<and> \<not> global_mutable g)
       (check_const_init_expr [GetGlobal var] t desc) ctx"
      using check_global_var_index [OF assms(1), of var]
    proof (elim disjE exE conjE)
      fix g i assume g: "check_global_var var ctx = (Some (g, i), ctx)"
        "\<forall>n. var_lookup (take n (globals (v_module ctx))) var = (if i < n then Some g else None)"
      then show ?thesis using assms(2,3)
        by (cases "i < n") (auto simp: decides_def check_init_global_def Let_def)
    qed (simp add: decides_def)
    then show ?thesis using 3 by (simp add: init_valid_def)
  next
    case 4
    then show ?thesis by (cases e) (auto simp: decides_def init_valid_def print_const_expr_error_def)
  next
    case 5
    then show ?thesis by (simp add: decides_def init_valid_def print_const_expr_error_def)
  qed
qed

lemma strict_init [strict]: "no_error (check_const_init_expr es t desc ctx) \<Longrightarrow> no_error ctx"
  by (induction es t desc ctx rule: check_const_init_expr.induct)
    (auto simp: check_init_global_def print_const_expr_error_def Let_def split: prod.splits option.splits if_splits
      dest: strict)

lemma decides_export:
  assumes "plain_module (v_module ctx)"
  shows "decides (export_valid (v_module ctx) export) (check_export export) ctx"
proof -
  have sizes: "length (funcs (v_module ctx)) < 2 ^ 31" "length (tables (v_module ctx)) < 2 ^ 31"
    "length (memories (v_module ctx)) < 2 ^ 31" "length (globals (v_module ctx)) < 2 ^ 31"
    using assms by (simp_all add: plain_module_def)
  show ?thesis
    using decides_item_vars(1) [OF sizes(1), of "export_var export"] decides_item_vars(3) [OF sizes(2), of "export_var export"]
      decides_item_vars(4) [OF sizes(3), of "export_var export"] check_global_var_lookup [OF sizes(4), of "export_var export"]
    by (cases "export_kind export") (auto simp: decides_def export_valid_def check_export_def Let_def)
qed

lemma strict_snd [strict]:
  "no_error (snd (check_func_var var ctx)) \<Longrightarrow> no_error ctx" "no_error (snd (check_func_type_var var ctx)) \<Longrightarrow> no_error ctx"
  by (auto intro: strict_func_var strict_func_type_var surjective_pairing)

lemma strict_export [strict]: "no_error (check_export export ctx) \<Longrightarrow> no_error ctx"
  by (auto simp: check_export_def check_table_var_def check_memory_var_def
      split: WasmExternalKind.splits prod.splits option.splits if_splits dest: strict)

lemma strict_start [strict]: "no_error (check_start seen var ctx) \<Longrightarrow> no_error ctx \<and> \<not> seen"
  by (auto simp: check_start_def Let_def split: prod.splits option.splits if_splits dest: strict)

lemma decides_start:
  assumes "plain_module (v_module ctx)"
  shows "decides (\<not> seen \<and> start_valid (v_module ctx) var) (check_start seen var) ctx"
proof (cases seen)
  case True
  then show ?thesis using strict_start [of seen var ctx] by (auto simp: decides_def)
next
  case False
  have "length (funcs (v_module ctx)) < 2 ^ 31" using assms by (simp add: plain_module_def)
  from check_func_var_lookup [of ctx var, OF this] show ?thesis using False
    by (auto simp: decides_def start_valid_def check_start_def Let_def wasm_get_num_params_def split: if_splits)
qed

lemma decides_table: "decides (v_table_index ctx \<noteq> 1 \<and> table_valid table) (check_table table) ctx"
  using decides_limits [of "elem_limits table" "0xFFFFFFFF" "''elems''" ctx]
  by (auto simp: decides_def check_table_def table_valid_def dest: strict)

lemma decides_memory: "decides (v_memory_index ctx \<noteq> 1 \<and> memory_valid memory) (check_memory memory) ctx"
  using decides_limits [of "page_limits memory" "ucast WASM_MAX_PAGES" "''pages''" ctx]
  by (auto simp: decides_def check_memory_def memory_valid_def dest: strict)

lemma strict_table_memory [strict]:
  "no_error (check_table table ctx) \<Longrightarrow> no_error ctx" "no_error (check_memory memory ctx) \<Longrightarrow> no_error ctx"
  by (auto simp: check_table_def check_memory_def split: if_splits dest: strict)

lemma strict_func_vars [strict]:
  "no_error (fold (\<lambda>var ctx. snd (check_func_var var ctx)) vars ctx) \<Longrightarrow> no_error ctx"
  by (induction vars arbitrary: ctx) (auto dest: strict_snd)

lemma decides_elem:
  assumes p: "plain_module (v_module ctx)" and n: "v_num_imported_globals ctx = int n" "int n \<le> v_global_index ctx"
  shows "decides (elem_valid (v_module ctx) n segment) (check_elem_segment segment) ctx"
proof -
  have sizes: "length (funcs (v_module ctx)) < 2 ^ 31" "length (tables (v_module ctx)) < 2 ^ 31" "length (globals (v_module ctx)) < 2 ^ 31"
    using p by (simp_all add: plain_module_def)
  let ?all = "\<lambda>vars. fold (\<lambda>var ctx. snd (check_func_var var ctx)) vars"
  have vars: "decides (list_all (\<lambda>var. var_lookup (funcs (v_module ctx)) var \<noteq> None) vars) (?all vars) ctx" for vars
  proof (induction vars)
    case (Cons var vars)
    have "decides (var_lookup (funcs (v_module ctx)) var \<noteq> None \<and> list_all (\<lambda>var. var_lookup (funcs (v_module ctx)) var \<noteq> None) vars)
      (\<lambda>c. ?all vars (snd (check_func_var var c))) ctx"
      by (rule decides_comp [OF decides_item_vars(1) [OF sizes(1)] Cons strict_func_vars])
    then show ?case by (simp add: decides_def)
  qed (simp add: decides_def)
  have "decides (list_all (\<lambda>var. var_lookup (funcs (v_module ctx)) var \<noteq> None) (elem_vars segment)
      \<and> init_valid (v_module ctx) n (elem_offset segment) WASM_TYPE_I32)
    (\<lambda>c. check_const_init_expr (elem_offset segment) WASM_TYPE_I32 ''elem segment offset'' (?all (elem_vars segment) c)) ctx"
    by (rule decides_comp [OF vars decides_init [OF sizes(3) n] strict_init]) simp
  then show ?thesis
    using check_item_var [OF sizes(2), of "elem_table_var segment" "''table''" ctx]
    by (auto simp: decides_def elem_valid_def check_elem_segment_def check_table_var_def)
qed

lemma strict_elem [strict]: "no_error (check_elem_segment segment ctx) \<Longrightarrow> no_error ctx"
  by (auto simp: check_elem_segment_def check_table_var_def split: prod.splits option.splits dest: strict dest!: strict_init)

lemma decides_data:
  assumes p: "plain_module (v_module ctx)" and n: "v_num_imported_globals ctx = int n" "int n \<le> v_global_index ctx"
  shows "decides (data_valid (v_module ctx) n segment) (check_data_segment segment) ctx"
proof -
  have sizes: "length (memories (v_module ctx)) < 2 ^ 31" "length (globals (v_module ctx)) < 2 ^ 31"
    using p by (simp_all add: plain_module_def)
  show ?thesis
    using check_item_var [OF sizes(1), of "data_memory_var segment" "''memory''" ctx]
      decides_init [OF sizes(2) n, of WASM_TYPE_I32 "data_offset segment" "''data segment offset''"]
    by (auto simp: decides_def data_valid_def check_data_segment_def check_memory_var_def)
qed

lemma strict_data [strict]: "no_error (check_data_segment segment ctx) \<Longrightarrow> no_error ctx"
  by (auto simp: check_data_segment_def check_memory_var_def split: prod.splits option.splits dest: strict)


subsection \<open>Functions\<close>

lemma no_error_v_func [simp]: "no_error (ctx\<lparr>v_func := f\<rparr>) = no_error ctx"
  by (simp add: no_error_def)

lemma decides_types: "decides (ts = us) (check_types ts us desc kind) ctx"
  by (auto simp: decides_def check_types_def no_error_check_type_indices)

lemma strict_types [strict]: "no_error (check_types ts us desc kind ctx) \<Longrightarrow> no_error ctx"
  by (auto simp: check_types_def split: if_splits dest: strict_indices)

lemma decides_decl:
  assumes "plain_module (v_module ctx)"
  shows "decides (decl_valid (v_module ctx) decl) (check_func_decl decl) ctx"
proof -
  have "length (func_types (v_module ctx)) < 2 ^ 31" using assms by (simp add: plain_module_def)
  note lookup = check_func_type_var_lookup [OF this, of "type_var decl"]
  have "decides (result_types (decl_sig decl) = result_types (ft_sig ft) \<and> param_types (decl_sig decl) = param_types (ft_sig ft))
      (check_func_signature_matches_func_type (decl_sig decl) ft) ctx" for ft
    using decides_comp [OF decides_types decides_types strict_types]
    by (simp add: decides_def check_func_signature_matches_func_type_def)
  then show ?thesis using lookup
    by (cases "has_func_type decl") (auto simp: decides_def decl_valid_def check_func_decl_def)
qed

lemma strict_decl [strict]: "no_error (check_func_decl decl ctx) \<Longrightarrow> no_error ctx"
  by (auto simp: check_func_decl_def check_func_signature_matches_func_type_def split: if_splits prod.splits option.splits
      dest!: strict_types dest: strict_func_type_var)

text \<open>The state in which \<open>check_func\<close> checks the body.\<close>

lemma at_func_start:
  assumes "v_module ctx = m" "v_labels ctx = []"
  shows "state_at (func_typing m f) (v_type_stack ctx) []
    (val_push_label LABEL_TYPE_FUNC_V (result_types (decl_sig (func_decl f))) (ctx\<lparr>v_func := Some f\<rparr>))"
  using assms by (simp add: state_at_def func_typing_def val_push_label_def type_stack_limit_def)

lemma plain_func_typing:
  "plain_module m \<Longrightarrow> plain_func f \<Longrightarrow> plain_typing (func_typing m f)"
  by (simp add: plain_typing_def func_typing_def plain_func_def plain_sig_def)

lemma check_func_accepts:
  assumes p: "plain_module m" "plain_func f" and m: "v_module ctx = m" "v_labels ctx = []" and valid: "func_valid m f"
  shows "check_func f ctx = ctx\<lparr>v_func := None\<rparr>"
proof -
  let ?sig = "result_types (decl_sig (func_decl f))"
  let ?c = "ctx\<lparr>v_func := Some f\<rparr>"
  let ?ctx = "val_push_label LABEL_TYPE_FUNC_V ?sig ?c"
  note a = at_func_start [OF m, of f]
  have decl: "check_func_decl (func_decl f) ?c = ?c"
    using decides_decl [of ?c "func_decl f"] p valid m by (simp add: decides_def func_valid_def)
  have "falls_or_stops (first_expr f) (v_type_stack ctx) ?sig ?ctx"
    by (rule accepted(2) [OF _ plain_func_typing [OF p] a]) (use valid in \<open>simp_all add: func_valid_def\<close>)
  then have "end_block ''function'' (check_exprs (first_expr f) ?ctx) = with_stack ?ctx (v_type_stack ctx)"
    by (intro end_block_body [OF a top_sig_push_label]) (auto simp: falls_or_stops_def)
  then show ?thesis using valid decl
    by (simp add: check_func_def func_valid_def check_block_def Let_def)
qed

lemma check_func_sound:
  assumes p: "plain_module m" "plain_func f" and m: "v_module ctx = m" "v_labels ctx = []"
    and es: "list_all parsed_expr (first_expr f)" "list_all (no_gap m) (first_expr f)"
    and ok: "no_error (check_func f ctx)"
  shows "func_valid m f" "no_error ctx"
proof -
  let ?sig = "result_types (decl_sig (func_decl f))"
  let ?c = "ctx\<lparr>v_func := Some f\<rparr>"
  let ?ctx = "val_push_label LABEL_TYPE_FUNC_V ?sig ?c"
  note a = at_func_start [OF m, of f]
  have one: "length ?sig \<le> 1" using ok by (simp add: check_func_def Let_def split: if_splits)
  have body1: "no_error (end_block ''function'' (check_exprs (first_expr f) (val_push_label LABEL_TYPE_FUNC_V ?sig (check_func_decl (func_decl f) ?c))))"
    using ok one by (simp add: check_func_def check_block_def Let_def)
  then have d: "no_error (check_func_decl (func_decl f) ?c)" by (auto dest!: strict_end_block strict_exprs(2))
  then have decl: "decl_valid m (func_decl f)" "check_func_decl (func_decl f) ?c = ?c"
    using decides_decl [of ?c "func_decl f"] p m by (auto simp: decides_def split: if_splits)
  then show "no_error ctx" using d by simp
  have ok': "no_error (end_block ''function'' (check_exprs (first_expr f) ?ctx))" using body1 decl by simp
  have "no_error (snd (check_exprs (first_expr f) ?ctx))" using ok' by (rule strict_end_block)
  then have "(\<exists>ts'. body (func_typing m f) [] (first_expr f) ts'
        \<and> check_exprs (first_expr f) ?ctx = (True, with_stack ?ctx (v_type_stack ctx @ ts')))
    \<or> ((\<forall>ts'. body (func_typing m f) [] (first_expr f) ts') \<and> fst (check_exprs (first_expr f) ?ctx) = False)"
    by (intro sound_exprs [OF plain_func_typing [OF p] a])
      (use es in \<open>auto simp: list_all_iff func_typing_def intro: sound_expr\<close>)
  then have "body (func_typing m f) [] (first_expr f) ?sig"
  proof
    assume "\<exists>ts'. body (func_typing m f) [] (first_expr f) ts'
        \<and> check_exprs (first_expr f) ?ctx = (True, with_stack ?ctx (v_type_stack ctx @ ts'))"
    then obtain ts' where b: "body (func_typing m f) [] (first_expr f) ts'"
      and c: "check_exprs (first_expr f) ?ctx = (True, with_stack ?ctx (v_type_stack ctx @ ts'))" by blast
    have "ts' = ?sig" using end_block_no_error [OF at_with_stack [OF a, of ts'], of "''function''"] ok' c by simp
    then show ?thesis using b by simp
  qed simp
  then show "func_valid m f" using one decl by (simp add: func_valid_def)
qed


subsection \<open>Modules\<close>

text \<open>Fields refer to items that exist.\<close>

definition field_in_range :: "WasmModule \<Rightarrow> WasmModuleField \<Rightarrow> bool" where
  "field_in_range m field =
     (case field of
        FieldFunc i \<Rightarrow> i < length (funcs m) | FieldGlobal i \<Rightarrow> i < length (globals m)
      | FieldImport i \<Rightarrow> i < length (imports_vec m) | FieldExport i \<Rightarrow> i < length (exports m)
      | FieldFuncType i \<Rightarrow> i < length (func_types m) | FieldTable i \<Rightarrow> i < length (tables m)
      | FieldElemSegment i \<Rightarrow> i < length (elem_segments m) | FieldMemory i \<Rightarrow> i < length (memories m)
      | FieldDataSegment i \<Rightarrow> i < length (data_segments m) | FieldStart _ \<Rightarrow> True)"

definition between_fields :: "WasmModule \<Rightarrow> WasmModuleField list \<Rightarrow> ValContext \<Rightarrow> bool" where
  "between_fields m earlier ctx \<longleftrightarrow>
     v_module ctx = m \<and> v_labels ctx = []
     \<and> v_table_index ctx = int (count_of (declares_table m) earlier)
     \<and> v_memory_index ctx = int (count_of (declares_memory m) earlier)
     \<and> v_global_index ctx = int (count_of (declares_global m) earlier)
     \<and> v_num_imported_globals ctx = int (count_of (imports_global m) earlier)"

text \<open>What one round of the loop checks.\<close>

definition field_checked :: "WasmModule \<Rightarrow> WasmModuleField list \<Rightarrow> WasmModuleField \<Rightarrow> bool" where
  "field_checked m earlier f \<longleftrightarrow>
     field_valid m earlier f
     \<and> (declares_table m f \<longrightarrow> count_of (declares_table m) earlier \<noteq> 1)
     \<and> (declares_memory m f \<longrightarrow> count_of (declares_memory m) earlier \<noteq> 1)
     \<and> (is_start_field f \<longrightarrow> count_of is_start_field earlier = 0)"

lemma count_of_simps [simp]: "count_of P [] = 0" "count_of P (xs @ [x]) = count_of P xs + (if P x then 1 else 0)"
  by (simp_all add: count_of_def)

lemma imported_le_declared: "count_of (imports_global m) fs \<le> count_of (declares_global m) fs"
  by (induction fs rule: rev_induct) (auto simp: declares_global_def)

lemma no_error_next [simp]:
  "no_error (next_table ctx) = no_error ctx" "no_error (next_memory ctx) = no_error ctx" "no_error (next_global ctx) = no_error ctx"
  "no_error (ctx\<lparr>v_num_imported_globals := n\<rparr>) = no_error ctx" "no_error (ctx\<lparr>v_table_index := n\<rparr>) = no_error ctx"
  "no_error (ctx\<lparr>v_memory_index := n\<rparr>) = no_error ctx" "no_error (ctx\<lparr>v_global_index := n\<rparr>) = no_error ctx"
  by (simp_all add: no_error_def next_table_def next_memory_def next_global_def)

lemmas declares_simps = declares_table_def declares_memory_def declares_global_def imports_global_def import_at_def is_start_field_def

text \<open>The fields other than functions: the round decides the predicate, and counts.\<close>

definition after_field :: "WasmModule \<Rightarrow> WasmModuleField \<Rightarrow> val_step" where
  "after_field m f ctx = ctx
     \<lparr>v_table_index := v_table_index ctx + (if declares_table m f then 1 else 0),
      v_memory_index := v_memory_index ctx + (if declares_memory m f then 1 else 0),
      v_global_index := v_global_index ctx + (if declares_global m f then 1 else 0),
      v_num_imported_globals := v_num_imported_globals ctx + (if imports_global m f then 1 else 0),
      v_func := (case f of FieldFunc _ \<Rightarrow> None | _ \<Rightarrow> v_func ctx)\<rparr>"

lemma between_after_field: "between_fields m earlier ctx \<Longrightarrow> between_fields m (earlier @ [f]) (after_field m f ctx)"
  by (simp add: between_fields_def after_field_def)

lemma no_error_after_field [simp]: "no_error (after_field m f ctx) = no_error ctx"
  by (simp add: after_field_def no_error_def)

lemma check_import_step:
  assumes "plain_module m" "between_fields m earlier ctx"
  shows "if field_checked m earlier (FieldImport i) then check_import (imports_vec m ! i) ctx = after_field m (FieldImport i) ctx
    else \<not> no_error (check_import (imports_vec m ! i) ctx)"
proof (cases "import_desc (imports_vec m ! i)")
  case (ImportFunc func)
  have "length (func_types (v_module ctx)) < 2 ^ 31" using assms by (simp add: plain_module_def between_fields_def)
  from decides_item_vars(2) [OF this, of "type_var (func_decl func)"] show ?thesis using assms ImportFunc
    by (auto simp: decides_def field_checked_def field_valid_def import_valid_def check_import_def declares_simps after_field_def between_fields_def)
next
  case (ImportTable table)
  then show ?thesis using decides_table [of ctx table] assms
    by (auto simp: decides_def field_checked_def field_valid_def import_valid_def check_import_def declares_simps after_field_def between_fields_def
        next_table_def)
next
  case (ImportMemory memory)
  then show ?thesis using decides_memory [of ctx memory] assms
    by (auto simp: decides_def field_checked_def field_valid_def import_valid_def check_import_def declares_simps after_field_def between_fields_def
        next_memory_def)
next
  case (ImportGlobal global)
  then show ?thesis
    by (auto simp: field_checked_def field_valid_def import_valid_def check_import_def declares_simps after_field_def Let_def next_global_def)
qed

lemma check_field_step:
  assumes p: "plain_module m" and b: "between_fields m earlier ctx" and r: "field_in_range m f"
    and seen: "seen = (count_of is_start_field earlier \<noteq> 0)" and not_func: "\<forall>i. f \<noteq> FieldFunc i"
  shows "if field_checked m earlier f then check_field seen f ctx = after_field m f ctx else \<not> no_error (check_field seen f ctx)"
proof -
  have m: "v_module ctx = m" "plain_module (v_module ctx)" using b p by (simp_all add: between_fields_def)
  show ?thesis
  proof (cases f)
    case (FieldGlobal i)
    have "decides (init_valid (v_module ctx) (count_of (imports_global m) earlier) (global_init_expr (globals m ! i)) (global_type (globals m ! i)))
       (check_const_init_expr (global_init_expr (globals m ! i)) (global_type (globals m ! i)) ''global initializer expression'') ctx"
      by (rule decides_init)
        (use b p r FieldGlobal imported_le_declared [of m earlier] in
          \<open>auto simp: between_fields_def plain_module_def field_in_range_def list_all_length\<close>)
    then show ?thesis using FieldGlobal m
      by (auto simp: decides_def field_checked_def field_valid_def check_field_def check_global_def declares_simps after_field_def next_global_def Let_def)
  next
    case (FieldImport i)
    then show ?thesis using check_import_step [OF p b, of i] m by (simp add: check_field_def Let_def)
  next
    case (FieldExport i)
    then show ?thesis using decides_export [OF m(2), of "exports m ! i"] m
      by (auto simp: decides_def field_checked_def field_valid_def check_field_def declares_simps after_field_def Let_def)
  next
    case (FieldTable i)
    then show ?thesis using decides_table [of ctx "tables m ! i"] b m
      by (auto simp: decides_def field_checked_def field_valid_def check_field_def declares_simps after_field_def next_table_def
          between_fields_def Let_def)
  next
    case (FieldMemory i)
    then show ?thesis using decides_memory [of ctx "memories m ! i"] b m
      by (auto simp: decides_def field_checked_def field_valid_def check_field_def declares_simps after_field_def next_memory_def
          between_fields_def Let_def)
  next
    case (FieldStart var)
    then show ?thesis using decides_start [OF m(2), of seen var] seen m
      by (auto simp: decides_def field_checked_def field_valid_def check_field_def declares_simps after_field_def Let_def)
  qed (use not_func in \<open>auto simp: field_checked_def field_valid_def check_field_def declares_simps after_field_def Let_def\<close>)
qed


text \<open>A function field: valid functions pass, and what passes is valid unless the body has a gap.\<close>

definition sane_field :: "WasmModule \<Rightarrow> WasmModuleField \<Rightarrow> bool" where
  "sane_field m f =
     (case f of FieldFunc i \<Rightarrow> list_all parsed_expr (first_expr (funcs m ! i)) \<and> list_all (no_gap m) (first_expr (funcs m ! i))
      | _ \<Rightarrow> True)"

lemma check_func_field:
  assumes p: "plain_module m" and b: "between_fields m earlier ctx" and r: "field_in_range m (FieldFunc i)"
  shows "field_checked m earlier (FieldFunc i) \<Longrightarrow> check_field seen (FieldFunc i) ctx = after_field m (FieldFunc i) ctx"
    and "sane_field m (FieldFunc i) \<Longrightarrow> no_error (check_field seen (FieldFunc i) ctx) \<Longrightarrow> field_checked m earlier (FieldFunc i)"
proof -
  have f: "plain_func (funcs m ! i)" using p r by (simp add: plain_module_def field_in_range_def list_all_length)
  have m: "v_module ctx = m" "v_labels ctx = []" using b by (simp_all add: between_fields_def)
  show "check_field seen (FieldFunc i) ctx = after_field m (FieldFunc i) ctx" if "field_checked m earlier (FieldFunc i)"
    using that check_func_accepts [OF p f m] m
    by (simp add: field_checked_def field_valid_def check_field_def after_field_def declares_simps)
  show "field_checked m earlier (FieldFunc i)" if "sane_field m (FieldFunc i)" "no_error (check_field seen (FieldFunc i) ctx)"
    using that check_func_sound(1) [OF p f m] m
    by (simp add: field_checked_def field_valid_def check_field_def sane_field_def declares_simps)
qed

lemma check_fields_accepts:
  assumes "plain_module m" "list_all (field_in_range m) fs" "between_fields m earlier ctx"
    "seen = (count_of is_start_field earlier \<noteq> 0)"
    "\<forall>pre f post. fs = pre @ f # post \<longrightarrow> field_checked m (earlier @ pre) f"
  shows "between_fields m (earlier @ fs) (check_fields seen fs ctx) \<and> no_error (check_fields seen fs ctx) = no_error ctx"
  using assms(2-)
proof (induction fs arbitrary: earlier ctx seen)
  case (Cons f fs)
  have "field_checked m (earlier @ []) f" using Cons.prems(4) by blast
  then have f: "field_checked m earlier f" by simp
  have step: "check_field seen f ctx = after_field m f ctx"
  proof (cases "\<exists>i. f = FieldFunc i")
    case True
    then show ?thesis using check_func_field(1) [OF assms(1) Cons.prems(2)] Cons.prems(1) f by auto
  next
    case False
    then show ?thesis using check_field_step [OF assms(1) Cons.prems(2) _ Cons.prems(3), of f] Cons.prems(1) f by simp
  qed
  have later: "\<forall>pre g post. fs = pre @ g # post \<longrightarrow> field_checked m ((earlier @ [f]) @ pre) g"
  proof (intro allI impI)
    fix pre g post assume "fs = pre @ g # post"
    then have "f # fs = (f # pre) @ g # post" by simp
    then have "field_checked m (earlier @ f # pre) g" using Cons.prems(4) by blast
    then show "field_checked m ((earlier @ [f]) @ pre) g" by simp
  qed
  have "(seen \<or> is_start_field f) = (count_of is_start_field (earlier @ [f]) \<noteq> 0)" using Cons.prems(3) by simp
  from Cons.IH [OF _ between_after_field [OF Cons.prems(2), of f] this later] Cons.prems(1) show ?case
    by (simp add: step)
qed simp

lemma strict_check_func [strict]: "no_error (check_func f ctx) \<Longrightarrow> no_error ctx"
  by (auto simp: check_func_def check_block_def Let_def split: if_splits dest!: strict_end_block strict_exprs(2) strict_decl)

lemma strict_check_import [strict]: "no_error (check_import import ctx) \<Longrightarrow> no_error ctx"
  by (auto simp: check_import_def Let_def split: WasmImportDesc.splits if_splits dest: strict_snd strict_table_memory)

lemma strict_check_field [strict]: "no_error (check_field seen f ctx) \<Longrightarrow> no_error ctx"
  by (auto simp: check_field_def check_global_def Let_def split: WasmModuleField.splits
      dest: strict_check_func strict_check_import strict_export strict_start strict_table_memory strict_init)

lemma strict_check_fields [strict]: "no_error (check_fields seen fs ctx) \<Longrightarrow> no_error ctx"
  by (induction seen fs ctx rule: check_fields.induct) (auto dest: strict_check_field)

lemma check_fields_sound:
  assumes "plain_module m" "list_all (field_in_range m) fs" "list_all (sane_field m) fs" "between_fields m earlier ctx"
    "seen = (count_of is_start_field earlier \<noteq> 0)" "no_error (check_fields seen fs ctx)"
  shows "\<forall>pre f post. fs = pre @ f # post \<longrightarrow> field_checked m (earlier @ pre) f"
  using assms(2-)
proof (induction fs arbitrary: earlier ctx seen)
  case (Cons f fs)
  have ok: "no_error (check_field seen f ctx)" using Cons.prems(5) by (auto dest: strict_check_fields)
  then have f: "field_checked m earlier f \<and> check_field seen f ctx = after_field m f ctx"
  proof (cases "\<exists>i. f = FieldFunc i")
    case True
    then obtain i where i: "f = FieldFunc i" by blast
    have r: "field_in_range m (FieldFunc i)" "sane_field m (FieldFunc i)" using Cons.prems(1,2) i by simp_all
    show ?thesis using check_func_field [OF assms(1) Cons.prems(3) r(1)] r(2) ok i by simp
  next
    case False
    have "field_in_range m f" using Cons.prems(1) by simp
    from check_field_step [OF assms(1) Cons.prems(3) this Cons.prems(4)] False ok show ?thesis by (auto split: if_splits)
  qed
  have "(seen \<or> is_start_field f) = (count_of is_start_field (earlier @ [f]) \<noteq> 0)" using Cons.prems(4) by simp
  from Cons.IH [OF _ _ between_after_field [OF Cons.prems(3), of f] this] Cons.prems f
  have later: "\<forall>pre g post. fs = pre @ g # post \<longrightarrow> field_checked m (earlier @ f # pre) g" by simp
  show ?case
  proof (intro allI impI)
    fix pre g post assume split: "f # fs = pre @ g # post"
    show "field_checked m (earlier @ pre) g"
    proof (cases pre)
      case Nil
      then show ?thesis using split f by simp
    next
      case (Cons h pre')
      then show ?thesis using split later by auto
    qed
  qed
qed simp

lemma count_le_1:
  "count_of P fs \<le> 1 \<longleftrightarrow> (\<forall>pre f post. fs = pre @ f # post \<longrightarrow> P f \<longrightarrow> count_of P pre \<noteq> 1)"
proof (induction fs rule: rev_induct)
  case (snoc x fs)
  have "(\<forall>pre f post. fs @ [x] = pre @ f # post \<longrightarrow> P f \<longrightarrow> count_of P pre \<noteq> 1)
    \<longleftrightarrow> (\<forall>pre f post. fs = pre @ f # post \<longrightarrow> P f \<longrightarrow> count_of P pre \<noteq> 1) \<and> (P x \<longrightarrow> count_of P fs \<noteq> 1)"
    (is "?l \<longleftrightarrow> ?r \<and> ?s")
  proof
    assume l: ?l
    then have "?r" by (metis append.assoc append_Cons)
    moreover have ?s using l by blast
    ultimately show "?r \<and> ?s" by blast
  next
    assume rs: "?r \<and> ?s"
    show ?l
    proof (intro allI impI)
      fix pre f post assume split: "fs @ [x] = pre @ f # post" and "P f"
      show "count_of P pre \<noteq> 1"
      proof (cases post rule: rev_cases)
        case Nil
        then show ?thesis using split rs \<open>P f\<close> by simp
      next
        case (snoc post' y)
        then have "fs = pre @ f # post'" using split by simp
        then show ?thesis using rs \<open>P f\<close> by blast
      qed
    qed
  qed
  then show ?case using snoc by auto
qed (simp add: count_of_def)


lemma module_valid_checked:
  "module_valid m fs \<longleftrightarrow>
     (\<forall>earlier field later. fs = earlier @ field # later \<longrightarrow> field_checked m earlier field)
     \<and> (\<forall>i. FieldElemSegment i \<in> set fs \<longrightarrow> elem_valid m (count_of (imports_global m) fs) (elem_segments m ! i))
     \<and> (\<forall>i. FieldDataSegment i \<in> set fs \<longrightarrow> data_valid m (count_of (imports_global m) fs) (data_segments m ! i))"
proof -
  have start: "count_of is_start_field fs \<le> 1 \<longleftrightarrow>
    (\<forall>earlier f later. fs = earlier @ f # later \<longrightarrow> is_start_field f \<longrightarrow> count_of is_start_field earlier = 0)" (is "?l = ?r")
  proof
    assume ?l
    then show ?r by (auto simp: count_of_def)
  next
    assume ?r
    then show ?l unfolding count_le_1 by auto
  qed
  show ?thesis unfolding module_valid_def field_checked_def start count_le_1 [of "declares_table m"] count_le_1 [of "declares_memory m"]
    unfolding imp_conjR all_conj_distrib by (intro iffI conjI; elim conjE; assumption)
qed

lemma strict_segments [strict]:
  "no_error (check_elem_segments fs ctx) \<Longrightarrow> no_error ctx" "no_error (check_data_segments fs ctx) \<Longrightarrow> no_error ctx"
proof -
  show "no_error (check_elem_segments fs ctx) \<Longrightarrow> no_error ctx"
    by (induction fs ctx rule: check_elem_segments.induct) (auto dest: strict_elem)
  show "no_error (check_data_segments fs ctx) \<Longrightarrow> no_error ctx"
    by (induction fs ctx rule: check_data_segments.induct) (auto dest: strict_data)
qed

lemma decides_elem_segments:
  assumes "plain_module m" "between_fields m earlier ctx"
  shows "decides (\<forall>i. FieldElemSegment i \<in> set fs \<longrightarrow> elem_valid m (count_of (imports_global m) earlier) (elem_segments m ! i))
    (check_elem_segments fs) ctx"
proof (induction fs)
  case (Cons f fs)
  have m: "v_module ctx = m" using assms by (simp add: between_fields_def)
  show ?case
  proof (cases "\<exists>i. f = FieldElemSegment i")
    case True
    then obtain i where i: "f = FieldElemSegment i" by blast
    have seg: "decides (elem_valid (v_module ctx) (count_of (imports_global m) earlier) (elem_segments m ! i)) (check_elem_segment (elem_segments m ! i)) ctx"
      by (rule decides_elem) (use assms imported_le_declared [of m earlier] in \<open>auto simp: between_fields_def\<close>)
    have "decides (elem_valid (v_module ctx) (count_of (imports_global m) earlier) (elem_segments m ! i)
        \<and> (\<forall>i. FieldElemSegment i \<in> set fs \<longrightarrow> elem_valid m (count_of (imports_global m) earlier) (elem_segments m ! i)))
      (\<lambda>c. check_elem_segments fs (check_elem_segment (elem_segments m ! i) c)) ctx"
      by (rule decides_comp [OF seg Cons.IH strict_segments(1)])
    then show ?thesis using i m by (auto simp: decides_def split: if_splits)
  next
    case False
    then show ?thesis using Cons.IH by (cases f) (simp_all add: decides_def)
  qed
qed (simp add: decides_def)

lemma decides_data_segments:
  assumes "plain_module m" "between_fields m earlier ctx"
  shows "decides (\<forall>i. FieldDataSegment i \<in> set fs \<longrightarrow> data_valid m (count_of (imports_global m) earlier) (data_segments m ! i))
    (check_data_segments fs) ctx"
proof (induction fs)
  case (Cons f fs)
  have m: "v_module ctx = m" using assms by (simp add: between_fields_def)
  show ?case
  proof (cases "\<exists>i. f = FieldDataSegment i")
    case True
    then obtain i where i: "f = FieldDataSegment i" by blast
    have seg: "decides (data_valid (v_module ctx) (count_of (imports_global m) earlier) (data_segments m ! i)) (check_data_segment (data_segments m ! i)) ctx"
      by (rule decides_data) (use assms imported_le_declared [of m earlier] in \<open>auto simp: between_fields_def\<close>)
    have "decides (data_valid (v_module ctx) (count_of (imports_global m) earlier) (data_segments m ! i)
        \<and> (\<forall>i. FieldDataSegment i \<in> set fs \<longrightarrow> data_valid m (count_of (imports_global m) earlier) (data_segments m ! i)))
      (\<lambda>c. check_data_segments fs (check_data_segment (data_segments m ! i) c)) ctx"
      by (rule decides_comp [OF seg Cons.IH strict_segments(2)])
    then show ?thesis using i m by (auto simp: decides_def split: if_splits)
  next
    case False
    then show ?thesis using Cons.IH by (cases f) (simp_all add: decides_def)
  qed
qed (simp add: decides_def)

lemma between_start:
  "v_labels ctx = [] \<Longrightarrow> between_fields m []
     (ctx\<lparr>v_module := m, v_table_index := 0, v_memory_index := 0, v_global_index := 0, v_num_imported_globals := 0\<rparr>)"
  by (simp add: between_fields_def)

lemma check_module_accepts:
  assumes p: "plain_module m" "list_all (field_in_range m) fs" "v_labels ctx = []" and valid: "module_valid m fs"
  shows "no_error (check_module m fs ctx) = no_error ctx"
proof -
  let ?ctx = "ctx\<lparr>v_module := m, v_table_index := 0, v_memory_index := 0, v_global_index := 0, v_num_imported_globals := 0\<rparr>"
  have start: "no_error ?ctx = no_error ctx" by (simp add: no_error_def)
  have checked: "\<forall>pre f post. fs = pre @ f # post \<longrightarrow> field_checked m ([] @ pre) f"
    using valid by (simp add: module_valid_checked)
  have fields: "between_fields m fs (check_fields False fs ?ctx)" "no_error (check_fields False fs ?ctx) = no_error ctx"
    using check_fields_accepts [OF p(1,2) between_start [OF p(3)] _ checked, of False] start by simp_all
  have "check_elem_segments fs (check_fields False fs ?ctx) = check_fields False fs ?ctx"
    "check_data_segments fs (check_fields False fs ?ctx) = check_fields False fs ?ctx"
    using decides_elem_segments [OF p(1) fields(1), of fs] decides_data_segments [OF p(1) fields(1), of fs] valid
    by (simp_all add: decides_def module_valid_checked)
  then show ?thesis using fields(2) by (simp add: check_module_def Let_def)
qed

lemma check_module_sound:
  assumes p: "plain_module m" "list_all (field_in_range m) fs" "v_labels ctx = []" and sane: "list_all (sane_field m) fs"
    and ok: "no_error (check_module m fs ctx)"
  shows "module_valid m fs"
proof -
  let ?ctx = "ctx\<lparr>v_module := m, v_table_index := 0, v_memory_index := 0, v_global_index := 0, v_num_imported_globals := 0\<rparr>"
  let ?c = "check_fields False fs ?ctx"
  have ok': "no_error (check_data_segments fs (check_elem_segments fs ?c))" using ok by (simp add: check_module_def Let_def)
  then have e: "no_error (check_elem_segments fs ?c)" by (rule strict_segments(2))
  then have c: "no_error ?c" by (rule strict_segments(1))
  have checked: "\<forall>pre f post. fs = pre @ f # post \<longrightarrow> field_checked m ([] @ pre) f"
    by (rule check_fields_sound [OF p(1,2) sane between_start [OF p(3)] _ c]) simp
  have fields: "between_fields m fs ?c"
    using check_fields_accepts [OF p(1,2) between_start [OF p(3)] _ checked, of False] by simp
  note elem = decides_elem_segments [OF p(1) fields, of fs]
  have "check_elem_segments fs ?c = ?c" using elem e by (auto simp: decides_def split: if_splits)
  then have "no_error (check_data_segments fs ?c)" using ok' by simp
  then show ?thesis using checked elem e decides_data_segments [OF p(1) fields, of fs]
    by (auto simp: decides_def module_valid_checked split: if_splits)
qed

end
