(* ===== verification/Wabt_Visitor.thy ===== *)
theory Wabt_Visitor
  imports Wabt_Ast
begin

text \<open>
  The expression visitor of \<^verbatim>\<open>ast.c\<close>, which the name passes use. A visitor member is the
  callback for one kind of expression; here the callbacks are grouped by the point at which they
  are made, and tell the kinds of expression apart themselves. A NULL member does nothing and
  succeeds. The callbacks change an expression in place: those made at the begin of a block may
  change its label, the others the variables of an expression without sub-expressions.
\<close>

record 'u WasmExprVisitor =
  vis_on :: "WasmExpr \<Rightarrow> 'u \<Rightarrow> WasmResult \<times> WasmExpr \<times> 'u"
  vis_begin :: "WasmExpr \<Rightarrow> 'u \<Rightarrow> WasmResult \<times> WasmLabel \<times> 'u"
  vis_after_if_true :: "WasmExpr \<Rightarrow> 'u \<Rightarrow> WasmResult \<times> 'u"
  vis_end :: "WasmExpr \<Rightarrow> 'u \<Rightarrow> WasmResult \<times> 'u"

text \<open>\<open>CHECK_RESULT\<close> and \<open>CALLBACK\<close>: an error leaves the visit at once.\<close>

fun visit_expr :: "'u WasmExprVisitor \<Rightarrow> WasmExpr \<Rightarrow> 'u \<Rightarrow> WasmResult \<times> WasmExpr \<times> 'u"
and wasm_visit_expr_list :: "'u WasmExprVisitor \<Rightarrow> WasmExpr list \<Rightarrow> 'u \<Rightarrow> WasmResult \<times> WasmExpr list \<times> 'u"
where
  "visit_expr visitor (Block label sig es) u =
     (case vis_begin visitor (Block label sig es) u of
        (WASM_ERROR, label, u) \<Rightarrow> (WASM_ERROR, Block label sig es, u)
      | (WASM_OK, label, u) \<Rightarrow>
          (case wasm_visit_expr_list visitor es u of
             (WASM_ERROR, es, u) \<Rightarrow> (WASM_ERROR, Block label sig es, u)
           | (WASM_OK, es, u) \<Rightarrow>
               (case vis_end visitor (Block label sig es) u of (r, u) \<Rightarrow> (r, Block label sig es, u))))"
| "visit_expr visitor (Loop label sig es) u =
     (case vis_begin visitor (Loop label sig es) u of
        (WASM_ERROR, label, u) \<Rightarrow> (WASM_ERROR, Loop label sig es, u)
      | (WASM_OK, label, u) \<Rightarrow>
          (case wasm_visit_expr_list visitor es u of
             (WASM_ERROR, es, u) \<Rightarrow> (WASM_ERROR, Loop label sig es, u)
           | (WASM_OK, es, u) \<Rightarrow>
               (case vis_end visitor (Loop label sig es) u of (r, u) \<Rightarrow> (r, Loop label sig es, u))))"
| "visit_expr visitor (If label sig true_es false_es) u =
     (case vis_begin visitor (If label sig true_es false_es) u of
        (WASM_ERROR, label, u) \<Rightarrow> (WASM_ERROR, If label sig true_es false_es, u)
      | (WASM_OK, label, u) \<Rightarrow>
          (case wasm_visit_expr_list visitor true_es u of
             (WASM_ERROR, true_es, u) \<Rightarrow> (WASM_ERROR, If label sig true_es false_es, u)
           | (WASM_OK, true_es, u) \<Rightarrow>
               (case vis_after_if_true visitor (If label sig true_es false_es) u of
                  (WASM_ERROR, u) \<Rightarrow> (WASM_ERROR, If label sig true_es false_es, u)
                | (WASM_OK, u) \<Rightarrow>
                    (case wasm_visit_expr_list visitor false_es u of
                       (WASM_ERROR, false_es, u) \<Rightarrow> (WASM_ERROR, If label sig true_es false_es, u)
                     | (WASM_OK, false_es, u) \<Rightarrow>
                         (case vis_end visitor (If label sig true_es false_es) u of
                            (r, u) \<Rightarrow> (r, If label sig true_es false_es, u))))))"
| "visit_expr visitor expr u = vis_on visitor expr u"
| "wasm_visit_expr_list visitor [] u = (WASM_OK, [], u)"
| "wasm_visit_expr_list visitor (expr # es) u =
     (case visit_expr visitor expr u of
        (WASM_ERROR, expr, u) \<Rightarrow> (WASM_ERROR, expr # es, u)
      | (WASM_OK, expr, u) \<Rightarrow>
          (case wasm_visit_expr_list visitor es u of (r, es, u) \<Rightarrow> (r, expr # es, u)))"

definition wasm_visit_func :: "'u WasmExprVisitor \<Rightarrow> WasmFunc \<Rightarrow> 'u \<Rightarrow> WasmResult \<times> WasmFunc \<times> 'u" where
  "wasm_visit_func visitor func u =
     (case wasm_visit_expr_list visitor (first_expr func) u of
        (r, es, u) \<Rightarrow> (r, func\<lparr>first_expr := es\<rparr>, u))"

text \<open>A loop that changes the elements of a vector one after the other.\<close>

primrec map_state :: "('a \<Rightarrow> 's \<Rightarrow> 'a \<times> 's) \<Rightarrow> 'a list \<Rightarrow> 's \<Rightarrow> 'a list \<times> 's" where
  "map_state f [] s = ([], s)"
| "map_state f (x # xs) s = (let (y, s) = f x s; (ys, s) = map_state f xs s in (y # ys, s))"

text \<open>
  The vectors of functions and globals point into the imports: a change of an imported function
  or global is seen in its import. The imported ones come first.
\<close>

fun sync_imports :: "WasmImport list \<Rightarrow> WasmFunc list \<Rightarrow> WasmGlobal list \<Rightarrow> WasmImport list" where
  "sync_imports [] fs gs = []"
| "sync_imports (import # ims) fs gs =
     (case (import_desc import, fs, gs) of
        (ImportFunc _, f # fs, gs) \<Rightarrow> import\<lparr>import_desc := ImportFunc f\<rparr> # sync_imports ims fs gs
      | (ImportGlobal _, fs, g # gs) \<Rightarrow> import\<lparr>import_desc := ImportGlobal g\<rparr> # sync_imports ims fs gs
      | _ \<Rightarrow> import # sync_imports ims fs gs)"

end
