(* ===== verification/Wabt_Resolve_Names.thy ===== *)
theory Wabt_Resolve_Names
  imports Wabt_Visitor
begin

text \<open>
  Name resolution (\<^verbatim>\<open>resolve-names.c\<close>): every variable that is a name becomes the index the
  name stands for. The vector of labels has its top at the head of the list. \<open>rc_defined\<close> is
  cleared when \<open>current_func\<close> is dereferenced outside of a function, where it is NULL.
\<close>

subsection \<open>The pass\<close>

record ResolveContext =
  rc_module :: WasmModule
  rc_func :: "WasmFunc option"
  rc_labels :: "WasmLabel list"
  rc_result :: WasmResult
  rc_errors :: "(string \<times> ErrorArg list) list"
  rc_defined :: bool

type_synonym resolve_step = "ResolveContext \<Rightarrow> ResolveContext"

definition name_arg :: "WasmStringSlice \<Rightarrow> ErrorArg" where
  "name_arg s = ArgStr (map (\<lambda>b. char_of (unat b)) (slice_bytes s))"

definition rn_print_error :: "string \<Rightarrow> ErrorArg list \<Rightarrow> resolve_step" where
  "rn_print_error format args ctx = ctx\<lparr>rc_result := WASM_ERROR, rc_errors := rc_errors ctx @ [(format, args)]\<rparr>"

definition rn_push_label :: "WasmLabel \<Rightarrow> resolve_step" where
  "rn_push_label label ctx = ctx\<lparr>rc_labels := label # rc_labels ctx\<rparr>"

definition rn_pop_label :: resolve_step where
  "rn_pop_label ctx = ctx\<lparr>rc_labels := tl (rc_labels ctx)\<rparr>"

text \<open>
  \<open>check_duplicate_bindings\<close>: the chain that starts at an entry, and the pairs on it with equal
  names. A chain has at most \<open>capacity\<close> entries, which is the fuel of the walk.
\<close>

fun chain_names :: "nat \<Rightarrow> WasmBindingHash \<Rightarrow> nat option \<Rightarrow> WasmStringSlice list" where
  "chain_names 0 bindings a = []"
| "chain_names (Suc fuel) bindings None = []"
| "chain_names (Suc fuel) bindings (Some a) =
     b_name (binding (entries bindings ! a)) # chain_names fuel bindings (entry_next (entries bindings ! a))"

fun report_duplicates :: "string \<Rightarrow> WasmStringSlice list \<Rightarrow> resolve_step" where
  "report_duplicates desc [] ctx = ctx"
| "report_duplicates desc (a # names) ctx =
     report_duplicates desc names
       (fold (\<lambda>b ctx. if wasm_string_slices_are_equal a b
                      then rn_print_error ''redefinition of %s %s'' [ArgStr desc, name_arg a] ctx else ctx) names ctx)"

definition check_duplicate_bindings :: "WasmBindingHash \<Rightarrow> string \<Rightarrow> resolve_step" where
  "check_duplicate_bindings bindings desc ctx =
     fold (\<lambda>i ctx.
         if wasm_hash_entry_is_free (entries bindings ! i) then ctx
         else if entry_prev (entries bindings ! i) \<noteq> None then ctx
         else report_duplicates desc (chain_names (hash_capacity bindings) bindings (Some i)) ctx)
       [0..<hash_capacity bindings] ctx"

text \<open>The search from the innermost label outwards.\<close>

fun find_label :: "nat \<Rightarrow> WasmLabel list \<Rightarrow> WasmStringSlice \<Rightarrow> nat option" where
  "find_label depth [] name = None"
| "find_label depth (label # labels) name =
     (if wasm_string_slices_are_equal label name then Some depth else find_label (Suc depth) labels name)"

fun resolve_label_var :: "WasmVar \<Rightarrow> ResolveContext \<Rightarrow> WasmVar \<times> ResolveContext" where
  "resolve_label_var (VarIndex index) ctx = (VarIndex index, ctx)"
| "resolve_label_var (VarName name) ctx =
     (case find_label 0 (rc_labels ctx) name of
        Some depth \<Rightarrow> (VarIndex (word_of_nat depth), ctx)
      | None \<Rightarrow> (VarName name, rn_print_error ''undefined label variable %s'' [name_arg name] ctx))"

fun resolve_var :: "WasmBindingHash \<Rightarrow> string \<Rightarrow> WasmVar \<Rightarrow> ResolveContext \<Rightarrow> WasmVar \<times> ResolveContext" where
  "resolve_var bindings desc (VarIndex index) ctx = (VarIndex index, ctx)"
| "resolve_var bindings desc (VarName name) ctx =
     (let index = wasm_get_index_from_var bindings (VarName name)
      in if index = - 1
         then (VarName name, rn_print_error ''undefined %s variable %s'' [ArgStr desc, name_arg name] ctx)
         else (VarIndex (word_of_int index), ctx))"

definition resolve_func_var :: "WasmVar \<Rightarrow> ResolveContext \<Rightarrow> WasmVar \<times> ResolveContext" where
  "resolve_func_var var ctx = resolve_var (func_bindings (rc_module ctx)) ''function'' var ctx"

definition resolve_global_var :: "WasmVar \<Rightarrow> ResolveContext \<Rightarrow> WasmVar \<times> ResolveContext" where
  "resolve_global_var var ctx = resolve_var (global_bindings (rc_module ctx)) ''global'' var ctx"

definition resolve_func_type_var :: "WasmVar \<Rightarrow> ResolveContext \<Rightarrow> WasmVar \<times> ResolveContext" where
  "resolve_func_type_var var ctx = resolve_var (func_type_bindings (rc_module ctx)) ''function type'' var ctx"

definition resolve_table_var :: "WasmVar \<Rightarrow> ResolveContext \<Rightarrow> WasmVar \<times> ResolveContext" where
  "resolve_table_var var ctx = resolve_var (table_bindings (rc_module ctx)) ''table'' var ctx"

definition resolve_memory_var :: "WasmVar \<Rightarrow> ResolveContext \<Rightarrow> WasmVar \<times> ResolveContext" where
  "resolve_memory_var var ctx = resolve_var (memory_bindings (rc_module ctx)) ''memory'' var ctx"

fun resolve_local_var :: "WasmVar \<Rightarrow> ResolveContext \<Rightarrow> WasmVar \<times> ResolveContext" where
  "resolve_local_var (VarIndex index) ctx = (VarIndex index, ctx)"
| "resolve_local_var (VarName name) ctx =
     (case rc_func ctx of
        None \<Rightarrow> (VarName name, ctx\<lparr>rc_defined := False\<rparr>)
      | Some func \<Rightarrow>
          (let index = wasm_get_local_index_by_var func (VarName name)
           in if index = - 1
              then (VarName name, rn_print_error ''undefined local variable %s'' [name_arg name] ctx)
              else (VarIndex (word_of_int index), ctx)))"

text \<open>The callbacks.\<close>

fun rn_begin_expr :: "WasmExpr \<Rightarrow> ResolveContext \<Rightarrow> WasmResult \<times> WasmLabel \<times> ResolveContext" where
  "rn_begin_expr (Block label sig es) ctx = (WASM_OK, label, rn_push_label label ctx)"
| "rn_begin_expr (Loop label sig es) ctx = (WASM_OK, label, rn_push_label label ctx)"
| "rn_begin_expr (If label sig true_es false_es) ctx = (WASM_OK, label, rn_push_label label ctx)"
| "rn_begin_expr _ ctx = (WASM_OK, None, ctx)"

definition rn_end_expr :: "WasmExpr \<Rightarrow> ResolveContext \<Rightarrow> WasmResult \<times> ResolveContext" where
  "rn_end_expr expr ctx = (WASM_OK, rn_pop_label ctx)"

fun rn_on_expr :: "WasmExpr \<Rightarrow> ResolveContext \<Rightarrow> WasmResult \<times> WasmExpr \<times> ResolveContext" where
  "rn_on_expr (Br var) ctx = (let (var, ctx) = resolve_label_var var ctx in (WASM_OK, Br var, ctx))"
| "rn_on_expr (BrIf var) ctx = (let (var, ctx) = resolve_label_var var ctx in (WASM_OK, BrIf var, ctx))"
| "rn_on_expr (BrTable targets default_target) ctx =
     (let (targets, ctx) = map_state resolve_label_var targets ctx;
          (default_target, ctx) = resolve_label_var default_target ctx
      in (WASM_OK, BrTable targets default_target, ctx))"
| "rn_on_expr (Call var) ctx = (let (var, ctx) = resolve_func_var var ctx in (WASM_OK, Call var, ctx))"
| "rn_on_expr (CallIndirect var) ctx = (let (var, ctx) = resolve_func_type_var var ctx in (WASM_OK, CallIndirect var, ctx))"
| "rn_on_expr (GetGlobal var) ctx = (let (var, ctx) = resolve_global_var var ctx in (WASM_OK, GetGlobal var, ctx))"
| "rn_on_expr (GetLocal var) ctx = (let (var, ctx) = resolve_local_var var ctx in (WASM_OK, GetLocal var, ctx))"
| "rn_on_expr (SetGlobal var) ctx = (let (var, ctx) = resolve_global_var var ctx in (WASM_OK, SetGlobal var, ctx))"
| "rn_on_expr (SetLocal var) ctx = (let (var, ctx) = resolve_local_var var ctx in (WASM_OK, SetLocal var, ctx))"
| "rn_on_expr (TeeLocal var) ctx = (let (var, ctx) = resolve_local_var var ctx in (WASM_OK, TeeLocal var, ctx))"
| "rn_on_expr expr ctx = (WASM_OK, expr, ctx)"

definition resolve_visitor :: "ResolveContext WasmExprVisitor" where
  "resolve_visitor = \<lparr>vis_on = rn_on_expr, vis_begin = rn_begin_expr,
     vis_after_if_true = (\<lambda>expr ctx. (WASM_OK, ctx)), vis_end = rn_end_expr\<rparr>"

definition resolve_expr_list :: "WasmExpr list \<Rightarrow> ResolveContext \<Rightarrow> WasmExpr list \<times> ResolveContext" where
  "resolve_expr_list es ctx = snd (wasm_visit_expr_list resolve_visitor es ctx)"

definition rn_visit_func :: "WasmFunc \<Rightarrow> ResolveContext \<Rightarrow> WasmFunc \<times> ResolveContext" where
  "rn_visit_func func ctx =
     (let ctx = ctx\<lparr>rc_func := Some func\<rparr>;
          (decl, ctx) = (if has_func_type (func_decl func)
             then (let (var, ctx) = resolve_func_type_var (type_var (func_decl func)) ctx
                   in ((func_decl func)\<lparr>type_var := var\<rparr>, ctx))
             else (func_decl func, ctx));
          ctx = check_duplicate_bindings (param_bindings func) ''parameter'' ctx;
          ctx = check_duplicate_bindings (local_bindings func) ''local'' ctx;
          (_, func, ctx) = wasm_visit_func resolve_visitor (func\<lparr>func_decl := decl\<rparr>) ctx
      in (func, ctx\<lparr>rc_func := None\<rparr>))"

definition rn_visit_export :: "WasmExport \<Rightarrow> ResolveContext \<Rightarrow> WasmExport \<times> ResolveContext" where
  "rn_visit_export export ctx =
     (let (var, ctx) =
        (case export_kind export of
           WASM_EXTERNAL_KIND_FUNC \<Rightarrow> resolve_func_var (export_var export) ctx
         | WASM_EXTERNAL_KIND_TABLE \<Rightarrow> resolve_table_var (export_var export) ctx
         | WASM_EXTERNAL_KIND_MEMORY \<Rightarrow> resolve_memory_var (export_var export) ctx
         | WASM_EXTERNAL_KIND_GLOBAL \<Rightarrow> resolve_global_var (export_var export) ctx)
      in (export\<lparr>export_var := var\<rparr>, ctx))"

definition rn_visit_global :: "WasmGlobal \<Rightarrow> ResolveContext \<Rightarrow> WasmGlobal \<times> ResolveContext" where
  "rn_visit_global global ctx =
     (let (es, ctx) = resolve_expr_list (global_init_expr global) ctx in (global\<lparr>global_init_expr := es\<rparr>, ctx))"

definition rn_visit_elem_segment :: "WasmElemSegment \<Rightarrow> ResolveContext \<Rightarrow> WasmElemSegment \<times> ResolveContext" where
  "rn_visit_elem_segment segment ctx =
     (let (table_var, ctx) = resolve_table_var (elem_table_var segment) ctx;
          (off, ctx) = resolve_expr_list (elem_offset segment) ctx;
          (vars, ctx) = map_state resolve_func_var (elem_vars segment) ctx
      in (\<lparr>elem_table_var = table_var, elem_offset = off, elem_vars = vars\<rparr>, ctx))"

definition rn_visit_data_segment :: "WasmDataSegment \<Rightarrow> ResolveContext \<Rightarrow> WasmDataSegment \<times> ResolveContext" where
  "rn_visit_data_segment segment ctx =
     (let (memory_var, ctx) = resolve_memory_var (data_memory_var segment) ctx;
          (off, ctx) = resolve_expr_list (data_offset segment) ctx
      in (segment\<lparr>data_memory_var := memory_var, data_offset := off\<rparr>, ctx))"

definition check_module_duplicates :: "WasmModule \<Rightarrow> resolve_step" where
  "check_module_duplicates m ctx =
     fold (\<lambda>(bindings, desc) ctx. check_duplicate_bindings bindings desc ctx)
       [(func_bindings m, ''function''), (global_bindings m, ''global''), (export_bindings m, ''export''),
        (func_type_bindings m, ''function type''), (table_bindings m, ''table''), (memory_bindings m, ''memory'')] ctx"

definition rn_visit_module :: "WasmModule \<Rightarrow> ResolveContext \<Rightarrow> WasmModule \<times> ResolveContext" where
  "rn_visit_module m ctx =
     (let ctx = check_module_duplicates m (ctx\<lparr>rc_module := m\<rparr>);
          (fs, ctx) = map_state rn_visit_func (funcs m) ctx;
          (exs, ctx) = map_state rn_visit_export (exports m) ctx;
          (gs, ctx) = map_state rn_visit_global (globals m) ctx;
          (elems, ctx) = map_state rn_visit_elem_segment (elem_segments m) ctx;
          (datas, ctx) = map_state rn_visit_data_segment (data_segments m) ctx;
          (st, ctx) = (case start m of
              None \<Rightarrow> (None, ctx)
            | Some var \<Rightarrow> (let (var, ctx) = resolve_func_var var ctx in (Some var, ctx)))
      in (m\<lparr>funcs := fs, imports_vec := sync_imports (imports_vec m) fs gs, exports := exs, globals := gs,
            elem_segments := elems, data_segments := datas, start := st\<rparr>, ctx))"

text \<open>\<open>module->start\<close> points to the last start field.\<close>

fun set_last_start :: "WasmVar \<Rightarrow> WasmModuleField list \<Rightarrow> WasmModuleField list" where
  "set_last_start var [] = []"
| "set_last_start var (FieldStart old # fs) =
     (if \<exists>v. FieldStart v \<in> set fs then FieldStart old # set_last_start var fs else FieldStart var # fs)"
| "set_last_start var (f # fs) = f # set_last_start var fs"

lemma set_last_start_code [code]:
  "set_last_start var [] = []"
  "set_last_start var (f # fs) =
     (case f of
        FieldStart _ \<Rightarrow>
          if list_ex (\<lambda>g. case g of FieldStart _ \<Rightarrow> True | _ \<Rightarrow> False) fs then f # set_last_start var fs else FieldStart var # fs
      | _ \<Rightarrow> f # set_last_start var fs)"
proof -
  have "list_ex (\<lambda>g. case g of FieldStart _ \<Rightarrow> True | _ \<Rightarrow> False) fs \<longleftrightarrow> (\<exists>v. FieldStart v \<in> set fs)"
    by (induction fs) (auto split: WasmModuleField.splits)
  then show "set_last_start var (f # fs) =
     (case f of
        FieldStart _ \<Rightarrow>
          if list_ex (\<lambda>g. case g of FieldStart _ \<Rightarrow> True | _ \<Rightarrow> False) fs then f # set_last_start var fs else FieldStart var # fs
      | _ \<Rightarrow> f # set_last_start var fs)"
    by (cases f) simp_all
qed simp

definition init_resolve_context :: "WasmModule \<Rightarrow> ResolveContext" where
  "init_resolve_context m = \<lparr>rc_module = m, rc_func = None, rc_labels = [], rc_result = WASM_OK, rc_errors = [], rc_defined = True\<rparr>"

definition wasm_resolve_names_module ::
    "WasmModule \<Rightarrow> WasmModuleField list \<Rightarrow> ResolveContext \<times> WasmModule \<times> WasmModuleField list" where
  "wasm_resolve_names_module m fs =
     (let (m', ctx) = rn_visit_module m (init_resolve_context m)
      in (ctx, m', case start m' of Some var \<Rightarrow> set_last_start var fs | None \<Rightarrow> fs))"

end
