(* ===== verification/Wabt_Resolve_Correct.thy ===== *)
theory Wabt_Resolve_Correct
  imports Wabt_Resolve_Names
begin

text \<open>
  What name resolution computes, as plain functions on the syntax: \<open>None\<close> when some name is not
  bound. The pass, which walks the syntax through the visitor and changes it in place, is shown to
  agree with them.
\<close>

subsection \<open>Resolution as a function\<close>

definition ref_var :: "(WasmStringSlice \<Rightarrow> int) \<Rightarrow> WasmVar \<Rightarrow> WasmVar option" where
  "ref_var look var =
     (case var of VarIndex _ \<Rightarrow> Some var
      | VarName name \<Rightarrow> if look name = - 1 then None else Some (VarIndex (word_of_int (look name))))"

text \<open>A label is the distance to the innermost enclosing block of that name.\<close>

definition ref_label :: "WasmLabel list \<Rightarrow> WasmVar \<Rightarrow> WasmVar option" where
  "ref_label labels var =
     (case var of VarIndex _ \<Rightarrow> Some var
      | VarName name \<Rightarrow>
          (let depth = length (takeWhile (\<lambda>label. label \<noteq> name) labels)
           in if name \<noteq> None \<and> depth < length labels then Some (VarIndex (word_of_nat depth)) else None))"

definition ref_local :: "WasmFunc option \<Rightarrow> WasmVar \<Rightarrow> WasmVar option" where
  "ref_local f var =
     (case f of Some func \<Rightarrow> ref_var (\<lambda>name. wasm_get_local_index_by_var func (VarName name)) var
      | None \<Rightarrow> (case var of VarIndex _ \<Rightarrow> Some var | VarName _ \<Rightarrow> None))"

abbreviation ref_in :: "WasmBindingHash \<Rightarrow> WasmVar \<Rightarrow> WasmVar option" where
  "ref_in bindings \<equiv> ref_var (wasm_find_binding_index_by_name bindings)"

fun ref_expr :: "WasmModule \<Rightarrow> WasmFunc option \<Rightarrow> WasmLabel list \<Rightarrow> WasmExpr \<Rightarrow> WasmExpr option" where
  "ref_expr m f ls (Br var) = map_option Br (ref_label ls var)"
| "ref_expr m f ls (BrIf var) = map_option BrIf (ref_label ls var)"
| "ref_expr m f ls (BrTable targets default_target) =
     (case those (map (ref_label ls) targets) of None \<Rightarrow> None
      | Some targets \<Rightarrow> map_option (BrTable targets) (ref_label ls default_target))"
| "ref_expr m f ls (Call var) = map_option Call (ref_in (func_bindings m) var)"
| "ref_expr m f ls (CallIndirect var) = map_option CallIndirect (ref_in (func_type_bindings m) var)"
| "ref_expr m f ls (GetGlobal var) = map_option GetGlobal (ref_in (global_bindings m) var)"
| "ref_expr m f ls (SetGlobal var) = map_option SetGlobal (ref_in (global_bindings m) var)"
| "ref_expr m f ls (GetLocal var) = map_option GetLocal (ref_local f var)"
| "ref_expr m f ls (SetLocal var) = map_option SetLocal (ref_local f var)"
| "ref_expr m f ls (TeeLocal var) = map_option TeeLocal (ref_local f var)"
| "ref_expr m f ls (Block label sig es) = map_option (Block label sig) (those (map (ref_expr m f (label # ls)) es))"
| "ref_expr m f ls (Loop label sig es) = map_option (Loop label sig) (those (map (ref_expr m f (label # ls)) es))"
| "ref_expr m f ls (If label sig true_es false_es) =
     (case those (map (ref_expr m f (label # ls)) true_es) of None \<Rightarrow> None
      | Some true_es \<Rightarrow> map_option (If label sig true_es) (those (map (ref_expr m f (label # ls)) false_es)))"
| "ref_expr m f ls e = Some e"

abbreviation ref_exprs :: "WasmModule \<Rightarrow> WasmFunc option \<Rightarrow> WasmLabel list \<Rightarrow> WasmExpr list \<Rightarrow> WasmExpr list option" where
  "ref_exprs m f ls es \<equiv> those (map (ref_expr m f ls) es)"

subsection \<open>The pass agrees\<close>

definition rc_ok :: "ResolveContext \<Rightarrow> bool" where
  "rc_ok ctx \<longleftrightarrow> rc_result ctx = WASM_OK \<and> rc_defined ctx"

definition in_scope :: "WasmModule \<Rightarrow> WasmFunc option \<Rightarrow> WasmLabel list \<Rightarrow> ResolveContext \<Rightarrow> bool" where
  "in_scope m f ls ctx \<longleftrightarrow> rc_module ctx = m \<and> rc_func ctx = f \<and> rc_labels ctx = ls"

text \<open>A step gives the specified value and changes nothing else, or reports an error.\<close>

definition resolves :: "'a option \<Rightarrow> 'a \<times> ResolveContext \<Rightarrow> ResolveContext \<Rightarrow> bool" where
  "resolves spec r ctx \<longleftrightarrow>
     (case spec of Some y \<Rightarrow> r = (y, ctx)
      | None \<Rightarrow> \<not> rc_ok (snd r) \<and> in_scope (rc_module ctx) (rc_func ctx) (rc_labels ctx) (snd r))"

definition steps_to :: "WasmModule \<Rightarrow> WasmFunc option \<Rightarrow> WasmLabel list \<Rightarrow> 'a option \<Rightarrow> (ResolveContext \<Rightarrow> 'a \<times> ResolveContext) \<Rightarrow> bool" where
  "steps_to m f ls spec step \<longleftrightarrow> (\<forall>ctx. in_scope m f ls ctx \<longrightarrow> resolves spec (step ctx) ctx)"

lemma not_ok_print [simp]: "\<not> rc_ok (rn_print_error format args ctx)"
  by (simp add: rc_ok_def rn_print_error_def)

lemma in_scope_print [simp]: "in_scope m f ls (rn_print_error format args ctx) = in_scope m f ls ctx"
  by (simp add: in_scope_def rn_print_error_def)

lemma in_scope_self [simp]: "in_scope (rc_module ctx) (rc_func ctx) (rc_labels ctx) ctx"
  by (simp add: in_scope_def)

lemma resolves_scope: "resolves spec r ctx \<Longrightarrow> in_scope m f ls ctx \<Longrightarrow> in_scope m f ls (snd r)"
  by (auto simp: resolves_def in_scope_def split: option.splits)

lemma resolves_bad: "resolves spec r ctx \<Longrightarrow> \<not> rc_ok ctx \<Longrightarrow> \<not> rc_ok (snd r)"
  by (auto simp: resolves_def split: option.splits)

text \<open>Steps one after the other.\<close>

lemma steps_bad:
  "steps_to m f ls spec step \<Longrightarrow> in_scope m f ls ctx \<Longrightarrow> \<not> rc_ok ctx \<Longrightarrow>
    \<not> rc_ok (snd (step ctx)) \<and> in_scope m f ls (snd (step ctx))"
  using resolves_bad resolves_scope by (fastforce simp: steps_to_def)

lemma steps_bind:
  assumes "steps_to m f ls spec step" "\<And>y. steps_to m f ls (spec' y) (step' y)"
  shows "steps_to m f ls (case spec of None \<Rightarrow> None | Some y \<Rightarrow> spec' y) (\<lambda>ctx. let (x, ctx) = step ctx in step' x ctx)"
  unfolding steps_to_def
proof (intro allI impI)
  fix ctx assume scope: "in_scope m f ls ctx"
  then have r: "resolves spec (step ctx) ctx" using assms(1) by (simp add: steps_to_def)
  obtain x ctx' where x: "step ctx = (x, ctx')" by force
  show "resolves (case spec of None \<Rightarrow> None | Some y \<Rightarrow> spec' y) (let (x, ctx) = step ctx in step' x ctx) ctx"
  proof (cases spec)
    case None
    then have "\<not> rc_ok ctx'" "in_scope m f ls ctx'" using r x scope by (auto simp: resolves_def in_scope_def)
    from steps_bad [OF assms(2) this(2,1), of x] show ?thesis using None x scope by (auto simp: resolves_def in_scope_def)
  next
    case (Some y)
    then have "x = y" "ctx' = ctx" using r x by (auto simp: resolves_def)
    then show ?thesis using assms(2) scope x Some by (simp add: steps_to_def)
  qed
qed

lemma steps_map:
  assumes "steps_to m f ls spec step"
  shows "steps_to m f ls (map_option g spec) (\<lambda>ctx. let (x, ctx) = step ctx in (g x, ctx))"
  using assms by (auto simp: steps_to_def resolves_def Let_def split: option.splits prod.splits)

lemma steps_map_state:
  assumes "\<And>x. x \<in> set xs \<Longrightarrow> steps_to m f ls (spec x) (step x)"
  shows "steps_to m f ls (those (map spec xs)) (map_state step xs)"
  using assms
proof (induction xs)
  case (Cons x xs)
  have x: "steps_to m f ls (spec x) (step x)" and xs: "steps_to m f ls (those (map spec xs)) (map_state step xs)" using Cons by auto
  have tail: "steps_to m f ls (map_option ((#) y) (those (map spec xs))) (\<lambda>ctx. let (ys, ctx) = map_state step xs ctx in (y # ys, ctx))" for y
    by (rule steps_map [OF xs])
  have "steps_to m f ls (case spec x of None \<Rightarrow> None | Some y \<Rightarrow> map_option ((#) y) (those (map spec xs)))
    (\<lambda>ctx. let (y, ctx) = step x ctx; (ys, ctx) = map_state step xs ctx in (y # ys, ctx))"
    by (rule steps_bind [OF x tail])
  then show ?case by (simp add: steps_to_def split: option.splits)
qed (simp add: steps_to_def resolves_def)

lemma find_label_takeWhile:
  "find_label d labels name =
     (let k = length (takeWhile (\<lambda>label. label \<noteq> name) labels)
      in if name \<noteq> None \<and> k < length labels then Some (d + k) else None)"
  by (induction d labels name rule: find_label.induct)
    (auto simp: wasm_string_slices_are_equal_def Let_def split: option.splits)

lemma steps_label: "steps_to m f ls (ref_label ls var) (resolve_label_var var)"
  by (cases var) (auto simp: steps_to_def resolves_def ref_label_def find_label_takeWhile in_scope_def Let_def rc_ok_def rn_print_error_def)

lemma steps_var:
  "steps_to m f ls (ref_in (func_bindings m) var) (resolve_func_var var)"
  "steps_to m f ls (ref_in (global_bindings m) var) (resolve_global_var var)"
  "steps_to m f ls (ref_in (func_type_bindings m) var) (resolve_func_type_var var)"
  "steps_to m f ls (ref_in (table_bindings m) var) (resolve_table_var var)"
  "steps_to m f ls (ref_in (memory_bindings m) var) (resolve_memory_var var)"
  by (cases var; auto simp: steps_to_def resolves_def ref_var_def in_scope_def Let_def rc_ok_def rn_print_error_def resolve_func_var_def
      resolve_global_var_def resolve_func_type_var_def resolve_table_var_def resolve_memory_var_def)+

lemma steps_local: "steps_to m f ls (ref_local f var) (resolve_local_var var)"
  by (cases var; cases f) (auto simp: steps_to_def resolves_def ref_local_def ref_var_def in_scope_def Let_def rc_ok_def rn_print_error_def
      simp del: wasm_get_local_index_by_var.simps)


lemma resolve_visitor_simps [simp]:
  "vis_on resolve_visitor = rn_on_expr" "vis_begin resolve_visitor = rn_begin_expr"
  "vis_after_if_true resolve_visitor = (\<lambda>expr ctx. (WASM_OK, ctx))" "vis_end resolve_visitor = rn_end_expr"
  by (simp_all add: resolve_visitor_def)

lemma visit_list_ok:
  "(\<And>e ctx. e \<in> set es \<Longrightarrow> fst (visit_expr resolve_visitor e ctx) = WASM_OK) \<Longrightarrow>
    fst (wasm_visit_expr_list resolve_visitor es ctx) = WASM_OK"
proof (induction es arbitrary: ctx)
  case (Cons e es)
  obtain e' ctx' where "visit_expr resolve_visitor e ctx = (WASM_OK, e', ctx')"
    using Cons.prems [of e ctx] by (cases "visit_expr resolve_visitor e ctx") auto
  then show ?case using Cons.IH [of ctx'] Cons.prems by (simp add: case_prod_beta)
qed simp

lemma visit_list_cases:
  assumes "\<And>e ctx. e \<in> set es \<Longrightarrow> fst (visit_expr resolve_visitor e ctx) = WASM_OK"
  obtains es' ctx' where "wasm_visit_expr_list resolve_visitor es ctx = (WASM_OK, es', ctx')"
  using visit_list_ok [of es ctx, OF assms] by (cases "wasm_visit_expr_list resolve_visitor es ctx") auto

lemma visit_ok: "fst (visit_expr resolve_visitor e ctx) = WASM_OK"
proof (induction e arbitrary: ctx)
  case (Block label sig es)
  obtain es' ctx' where "wasm_visit_expr_list resolve_visitor es (rn_push_label label ctx) = (WASM_OK, es', ctx')"
    by (rule visit_list_cases [of es, OF Block])
  then show ?case by (simp add: rn_end_expr_def)
next
  case (Loop label sig es)
  obtain es' ctx' where "wasm_visit_expr_list resolve_visitor es (rn_push_label label ctx) = (WASM_OK, es', ctx')"
    by (rule visit_list_cases [of es, OF Loop])
  then show ?case by (simp add: rn_end_expr_def)
next
  case (If label sig true_es false_es)
  obtain es' ctx' where t: "wasm_visit_expr_list resolve_visitor true_es (rn_push_label label ctx) = (WASM_OK, es', ctx')"
    by (rule visit_list_cases [of true_es, OF If(1)])
  obtain es2 ctx2 where "wasm_visit_expr_list resolve_visitor false_es ctx' = (WASM_OK, es2, ctx2)"
    by (rule visit_list_cases [of false_es, OF If(2)])
  then show ?case using t by (simp add: rn_end_expr_def)
qed (simp_all add: case_prod_beta)

definition resolve_expr :: "WasmExpr \<Rightarrow> ResolveContext \<Rightarrow> WasmExpr \<times> ResolveContext" where
  "resolve_expr e ctx = snd (visit_expr resolve_visitor e ctx)"

lemma visit_resolve: "visit_expr resolve_visitor e ctx = (WASM_OK, resolve_expr e ctx)"
  "wasm_visit_expr_list resolve_visitor es ctx = (WASM_OK, resolve_expr_list es ctx)"
  by (simp_all add: prod_eq_iff visit_ok visit_list_ok resolve_expr_def resolve_expr_list_def)

lemma resolve_expr_list_map: "resolve_expr_list = map_state resolve_expr"
proof (intro ext)
  show "resolve_expr_list es ctx = map_state resolve_expr es ctx" for es ctx
  proof (induction es arbitrary: ctx)
    case (Cons e es)
    have "wasm_visit_expr_list resolve_visitor (e # es) ctx =
      (WASM_OK, let (e, ctx) = resolve_expr e ctx; (es, ctx) = resolve_expr_list es ctx in (e # es, ctx))"
      by (simp add: visit_resolve split: prod.splits)
    then show ?case using Cons by (simp add: resolve_expr_list_def Let_def)
  qed (simp add: resolve_expr_list_def)
qed

lemma resolve_expr_blocks:
  "resolve_expr (Block label sig es) ctx =
     (let (es, ctx) = map_state resolve_expr es (rn_push_label label ctx) in (Block label sig es, rn_pop_label ctx))"
  "resolve_expr (Loop label sig es) ctx =
     (let (es, ctx) = map_state resolve_expr es (rn_push_label label ctx) in (Loop label sig es, rn_pop_label ctx))"
  "resolve_expr (If label sig true_es false_es) ctx =
     (let (true_es, ctx) = map_state resolve_expr true_es (rn_push_label label ctx);
          (false_es, ctx) = map_state resolve_expr false_es ctx
      in (If label sig true_es false_es, rn_pop_label ctx))"
  unfolding resolve_expr_list_map [symmetric]
  by (simp_all add: resolve_expr_def visit_resolve rn_end_expr_def Let_def case_prod_beta)

lemma steps_scoped:
  assumes "steps_to m f (label # ls) spec step"
  shows "steps_to m f ls spec (\<lambda>ctx. let (x, ctx) = step (rn_push_label label ctx) in (x, rn_pop_label ctx))"
  unfolding steps_to_def
proof (intro allI impI)
  fix ctx assume "in_scope m f ls ctx"
  then have "in_scope m f (label # ls) (rn_push_label label ctx)" by (simp add: in_scope_def rn_push_label_def)
  then have "resolves spec (step (rn_push_label label ctx)) (rn_push_label label ctx)" using assms by (simp add: steps_to_def)
  then show "resolves spec (let (x, ctx) = step (rn_push_label label ctx) in (x, rn_pop_label ctx)) ctx"
    by (auto simp: resolves_def in_scope_def rn_push_label_def rn_pop_label_def rc_ok_def split: option.splits prod.splits)
qed

lemma steps_leaf:
  assumes "steps_to m f ls spec step" "\<And>ctx. resolve_expr e ctx = (let (x, ctx) = step ctx in (g x, ctx))"
  shows "steps_to m f ls (map_option g spec) (resolve_expr e)"
  using steps_map [OF assms(1), of g] by (simp add: steps_to_def assms(2))

lemma steps_resolve_expr: "steps_to m f ls (ref_expr m f ls e) (resolve_expr e)"
proof (induction e arbitrary: ls)
  case (BrTable targets default_target)
  have targets: "steps_to m f ls (those (map (ref_label ls) targets)) (map_state resolve_label_var targets)"
    by (rule steps_map_state [OF steps_label])
  have "steps_to m f ls (case those (map (ref_label ls) targets) of None \<Rightarrow> None
      | Some targets \<Rightarrow> map_option (BrTable targets) (ref_label ls default_target))
    (\<lambda>ctx. let (targets, ctx) = map_state resolve_label_var targets ctx;
               (default_target, ctx) = resolve_label_var default_target ctx
           in (BrTable targets default_target, ctx))"
    by (rule steps_bind [OF targets steps_map [OF steps_label]])
  then show ?case by (simp add: steps_to_def resolve_expr_def Let_def split: prod.splits)
next
  case (Block label sig es)
  have "steps_to m f (label # ls) (ref_exprs m f (label # ls) es) (map_state resolve_expr es)"
    by (rule steps_map_state) (use Block in auto)
  from steps_map [OF steps_scoped [OF this], of "Block label sig"] show ?case
    by (simp add: steps_to_def resolve_expr_blocks Let_def case_prod_beta)
next
  case (Loop label sig es)
  have "steps_to m f (label # ls) (ref_exprs m f (label # ls) es) (map_state resolve_expr es)"
    by (rule steps_map_state) (use Loop in auto)
  from steps_map [OF steps_scoped [OF this], of "Loop label sig"] show ?case
    by (simp add: steps_to_def resolve_expr_blocks Let_def case_prod_beta)
next
  case (If label sig true_es false_es)
  have t: "steps_to m f (label # ls) (ref_exprs m f (label # ls) true_es) (map_state resolve_expr true_es)"
    by (rule steps_map_state) (use If in auto)
  have e: "steps_to m f (label # ls) (ref_exprs m f (label # ls) false_es) (map_state resolve_expr false_es)"
    by (rule steps_map_state) (use If in auto)
  from steps_scoped [OF steps_bind [OF t steps_map [OF e]]] show ?case
    by (simp add: steps_to_def resolve_expr_blocks Let_def case_prod_beta)
next
  case (Br var)
  show ?case unfolding ref_expr.simps
    by (rule steps_leaf [OF steps_label]) (simp add: resolve_expr_def Let_def case_prod_beta)
next
  case (BrIf var)
  show ?case unfolding ref_expr.simps
    by (rule steps_leaf [OF steps_label]) (simp add: resolve_expr_def Let_def case_prod_beta)
next
  case (Call var)
  show ?case unfolding ref_expr.simps
    by (rule steps_leaf [OF steps_var(1)]) (simp add: resolve_expr_def Let_def case_prod_beta)
next
  case (CallIndirect var)
  show ?case unfolding ref_expr.simps
    by (rule steps_leaf [OF steps_var(3)]) (simp add: resolve_expr_def Let_def case_prod_beta)
next
  case (GetGlobal var)
  show ?case unfolding ref_expr.simps
    by (rule steps_leaf [OF steps_var(2)]) (simp add: resolve_expr_def Let_def case_prod_beta)
next
  case (SetGlobal var)
  show ?case unfolding ref_expr.simps
    by (rule steps_leaf [OF steps_var(2)]) (simp add: resolve_expr_def Let_def case_prod_beta)
next
  case (GetLocal var)
  show ?case unfolding ref_expr.simps
    by (rule steps_leaf [OF steps_local]) (simp add: resolve_expr_def Let_def case_prod_beta)
next
  case (SetLocal var)
  show ?case unfolding ref_expr.simps
    by (rule steps_leaf [OF steps_local]) (simp add: resolve_expr_def Let_def case_prod_beta)
next
  case (TeeLocal var)
  show ?case unfolding ref_expr.simps
    by (rule steps_leaf [OF steps_local]) (simp add: resolve_expr_def Let_def case_prod_beta)
qed (simp_all add: steps_to_def resolves_def resolve_expr_def)


subsection \<open>Duplicate names\<close>

text \<open>No chain of the table holds a name twice.\<close>

definition no_duplicates :: "WasmBindingHash \<Rightarrow> bool" where
  "no_duplicates h \<longleftrightarrow>
     (\<forall>i < hash_capacity h. \<not> wasm_hash_entry_is_free (entries h ! i) \<longrightarrow> entry_prev (entries h ! i) = None \<longrightarrow>
        distinct (filter (\<lambda>name. name \<noteq> None) (chain_names (hash_capacity h) h (Some i))))"

definition bad_or_same :: "bool \<Rightarrow> ResolveContext \<Rightarrow> ResolveContext \<Rightarrow> bool" where
  "bad_or_same same ctx ctx' \<longleftrightarrow>
     (if same then ctx' = ctx else \<not> rc_ok ctx' \<and> in_scope (rc_module ctx) (rc_func ctx) (rc_labels ctx) ctx')"

lemma bad_or_same_trans: "bad_or_same a ctx ctx' \<Longrightarrow> bad_or_same b ctx' ctx'' \<Longrightarrow> bad_or_same (a \<and> b) ctx ctx''"
  by (auto simp: bad_or_same_def in_scope_def split: if_splits)

lemma fold_bad_or_same:
  assumes "\<And>x ctx. x \<in> set xs \<Longrightarrow> bad_or_same (P x) ctx (step x ctx)"
  shows "bad_or_same (\<forall>x \<in> set xs. P x) ctx (fold step xs ctx)"
  using assms
proof (induction xs arbitrary: ctx)
  case (Cons x xs)
  then have "bad_or_same (P x) ctx (step x ctx)" "bad_or_same (\<forall>y \<in> set xs. P y) (step x ctx) (fold step xs (step x ctx))" by auto
  from bad_or_same_trans [OF this] show ?case by simp
qed (simp add: bad_or_same_def)

lemma slices_equal_iff: "wasm_string_slices_are_equal a b \<longleftrightarrow> a = b \<and> a \<noteq> None"
  by (auto simp: wasm_string_slices_are_equal_def split: option.splits)

lemma report_duplicates_distinct:
  "bad_or_same (distinct (filter (\<lambda>name. name \<noteq> None) names)) ctx (report_duplicates desc names ctx)"
proof (induction names arbitrary: ctx)
  case (Cons a names)
  let ?step = "\<lambda>b ctx. if wasm_string_slices_are_equal a b
                      then rn_print_error ''redefinition of %s %s'' [ArgStr desc, name_arg a] ctx else ctx"
  have "bad_or_same (\<forall>b \<in> set names. \<not> (a = b \<and> a \<noteq> None)) ctx (fold ?step names ctx)"
    by (rule fold_bad_or_same) (auto simp: bad_or_same_def slices_equal_iff)
  from bad_or_same_trans [OF this Cons.IH]
  have "bad_or_same ((\<forall>b \<in> set names. \<not> (a = b \<and> a \<noteq> None)) \<and> distinct (filter (\<lambda>name. name \<noteq> None) names)) ctx
    (report_duplicates desc (a # names) ctx)" by simp
  moreover have "((\<forall>b \<in> set names. \<not> (a = b \<and> a \<noteq> None)) \<and> distinct (filter (\<lambda>name. name \<noteq> None) names))
    = distinct (filter (\<lambda>name. name \<noteq> None) (a # names))" by auto
  ultimately show ?case by (simp only:)
qed (simp add: bad_or_same_def)

lemma check_duplicates_iff: "bad_or_same (no_duplicates h) ctx (check_duplicate_bindings h desc ctx)"
proof -
  let ?P = "\<lambda>i. \<not> wasm_hash_entry_is_free (entries h ! i) \<longrightarrow> entry_prev (entries h ! i) = None \<longrightarrow>
        distinct (filter (\<lambda>name. name \<noteq> None) (chain_names (hash_capacity h) h (Some i)))"
  have "bad_or_same (\<forall>i \<in> set [0..<hash_capacity h]. ?P i) ctx (check_duplicate_bindings h desc ctx)"
    unfolding check_duplicate_bindings_def
    by (rule fold_bad_or_same) (use report_duplicates_distinct in \<open>auto simp: bad_or_same_def split: if_splits\<close>)
  then show ?thesis by (simp add: no_duplicates_def Ball_def)
qed

lemma steps_same:
  assumes "\<And>ctx. bad_or_same b ctx (g ctx)" "steps_to m f ls spec step"
  shows "steps_to m f ls (if b then spec else None) (\<lambda>ctx. step (g ctx))"
  unfolding steps_to_def
proof (intro allI impI)
  fix ctx assume scope: "in_scope m f ls ctx"
  show "resolves (if b then spec else None) (step (g ctx)) ctx"
  proof (cases b)
    case True
    then show ?thesis using assms scope by (simp add: bad_or_same_def steps_to_def)
  next
    case False
    then have bad: "\<not> rc_ok (g ctx)" "in_scope m f ls (g ctx)" using assms(1) [of ctx] scope by (auto simp: bad_or_same_def in_scope_def)
    from steps_bad [OF assms(2) bad(2,1)] False scope show ?thesis by (auto simp: resolves_def in_scope_def)
  qed
qed

subsection \<open>Modules\<close>

definition ref_decl :: "WasmModule \<Rightarrow> WasmFuncDeclaration \<Rightarrow> WasmFuncDeclaration option" where
  "ref_decl m decl =
     (if has_func_type decl
      then map_option (\<lambda>var. decl\<lparr>type_var := var\<rparr>) (ref_in (func_type_bindings m) (type_var decl))
      else Some decl)"

definition ref_func :: "WasmModule \<Rightarrow> WasmFunc \<Rightarrow> WasmFunc option" where
  "ref_func m func =
     (case ref_decl m (func_decl func) of
        None \<Rightarrow> None
      | Some decl \<Rightarrow>
          if no_duplicates (param_bindings func) \<and> no_duplicates (local_bindings func)
          then map_option (\<lambda>es. func\<lparr>func_decl := decl, first_expr := es\<rparr>) (ref_exprs m (Some func) [] (first_expr func))
          else None)"

definition ref_export :: "WasmModule \<Rightarrow> WasmExport \<Rightarrow> WasmExport option" where
  "ref_export m export =
     map_option (\<lambda>var. export\<lparr>export_var := var\<rparr>)
       (ref_in (case export_kind export of
                  WASM_EXTERNAL_KIND_FUNC \<Rightarrow> func_bindings m | WASM_EXTERNAL_KIND_TABLE \<Rightarrow> table_bindings m
                | WASM_EXTERNAL_KIND_MEMORY \<Rightarrow> memory_bindings m | WASM_EXTERNAL_KIND_GLOBAL \<Rightarrow> global_bindings m)
         (export_var export))"

definition ref_global :: "WasmModule \<Rightarrow> WasmGlobal \<Rightarrow> WasmGlobal option" where
  "ref_global m global =
     map_option (\<lambda>es. global\<lparr>global_init_expr := es\<rparr>) (ref_exprs m None [] (global_init_expr global))"

definition ref_elem :: "WasmModule \<Rightarrow> WasmElemSegment \<Rightarrow> WasmElemSegment option" where
  "ref_elem m segment =
     (case ref_in (table_bindings m) (elem_table_var segment) of None \<Rightarrow> None
      | Some table_var \<Rightarrow>
          (case ref_exprs m None [] (elem_offset segment) of None \<Rightarrow> None
           | Some off \<Rightarrow>
               map_option (\<lambda>vars. \<lparr>elem_table_var = table_var, elem_offset = off, elem_vars = vars\<rparr>)
                 (those (map (ref_in (func_bindings m)) (elem_vars segment)))))"

definition ref_data :: "WasmModule \<Rightarrow> WasmDataSegment \<Rightarrow> WasmDataSegment option" where
  "ref_data m segment =
     (case ref_in (memory_bindings m) (data_memory_var segment) of None \<Rightarrow> None
      | Some memory_var \<Rightarrow>
          map_option (\<lambda>off. segment\<lparr>data_memory_var := memory_var, data_offset := off\<rparr>)
            (ref_exprs m None [] (data_offset segment)))"

definition ref_start :: "WasmModule \<Rightarrow> WasmVar option option" where
  "ref_start m = (case start m of None \<Rightarrow> Some None | Some var \<Rightarrow> map_option Some (ref_in (func_bindings m) var))"

definition module_no_duplicates :: "WasmModule \<Rightarrow> bool" where
  "module_no_duplicates m \<longleftrightarrow>
     no_duplicates (func_bindings m) \<and> no_duplicates (global_bindings m) \<and> no_duplicates (export_bindings m)
     \<and> no_duplicates (func_type_bindings m) \<and> no_duplicates (table_bindings m) \<and> no_duplicates (memory_bindings m)"

definition ref_module :: "WasmModule \<Rightarrow> WasmModule option" where
  "ref_module m =
     (if module_no_duplicates m then
        (case those (map (ref_func m) (funcs m)) of None \<Rightarrow> None
         | Some fs \<Rightarrow>
        (case those (map (ref_export m) (exports m)) of None \<Rightarrow> None
         | Some exs \<Rightarrow>
        (case those (map (ref_global m) (globals m)) of None \<Rightarrow> None
         | Some gs \<Rightarrow>
        (case those (map (ref_elem m) (elem_segments m)) of None \<Rightarrow> None
         | Some elems \<Rightarrow>
        (case those (map (ref_data m) (data_segments m)) of None \<Rightarrow> None
         | Some datas \<Rightarrow>
        map_option (\<lambda>st. m\<lparr>funcs := fs, imports_vec := sync_imports (imports_vec m) fs gs, exports := exs, globals := gs,
            elem_segments := elems, data_segments := datas, start := st\<rparr>) (ref_start m))))))
      else None)"

lemma steps_elem: "steps_to m None [] (ref_elem m segment) (rn_visit_elem_segment segment)"
  unfolding ref_elem_def rn_visit_elem_segment_def resolve_expr_list_map
  by (rule steps_bind [OF steps_var(4)], rule steps_bind [OF steps_map_state [OF steps_resolve_expr]],
      rule steps_map [OF steps_map_state [OF steps_var(1)]])

lemma steps_data: "steps_to m None [] (ref_data m segment) (rn_visit_data_segment segment)"
  unfolding ref_data_def rn_visit_data_segment_def resolve_expr_list_map
  by (rule steps_bind [OF steps_var(5)], rule steps_map [OF steps_map_state [OF steps_resolve_expr]])

lemma steps_global: "steps_to m None [] (ref_global m global) (rn_visit_global global)"
  unfolding ref_global_def rn_visit_global_def resolve_expr_list_map
  by (rule steps_map [OF steps_map_state [OF steps_resolve_expr]])

lemma steps_export: "steps_to m f ls (ref_export m export) (rn_visit_export export)"
  unfolding ref_export_def rn_visit_export_def
  by (cases "export_kind export") (simp_all add: steps_map [OF steps_var(1), simplified Let_def]
      steps_map [OF steps_var(2), simplified Let_def] steps_map [OF steps_var(4), simplified Let_def]
      steps_map [OF steps_var(5), simplified Let_def])

lemma steps_start:
  "steps_to m f ls (ref_start m)
     (\<lambda>ctx. case start m of None \<Rightarrow> (None, ctx) | Some var \<Rightarrow> (let (var, ctx) = resolve_func_var var ctx in (Some var, ctx)))"
  by (cases "start m") (simp_all add: ref_start_def steps_map [OF steps_var(1), simplified Let_def], simp add: steps_to_def resolves_def)


text \<open>\<open>current_func\<close> is set for the duration of \<open>visit_func\<close>.\<close>

lemma steps_in_func:
  assumes "steps_to m (Some func) ls spec step"
  shows "steps_to m None ls spec (\<lambda>ctx. let (x, ctx) = step (ctx\<lparr>rc_func := Some func\<rparr>) in (x, ctx\<lparr>rc_func := None\<rparr>))"
  unfolding steps_to_def
proof (intro allI impI)
  fix ctx assume scope: "in_scope m None ls ctx"
  then have "in_scope m (Some func) ls (ctx\<lparr>rc_func := Some func\<rparr>)" by (simp add: in_scope_def)
  then have "resolves spec (step (ctx\<lparr>rc_func := Some func\<rparr>)) (ctx\<lparr>rc_func := Some func\<rparr>)" using assms by (simp add: steps_to_def)
  then show "resolves spec (let (x, ctx) = step (ctx\<lparr>rc_func := Some func\<rparr>) in (x, ctx\<lparr>rc_func := None\<rparr>)) ctx"
    using scope by (auto simp: resolves_def in_scope_def rc_ok_def split: option.splits prod.splits)
qed

lemma steps_decl:
  "steps_to m f ls (ref_decl m decl)
     (\<lambda>ctx. if has_func_type decl
        then (let (var, ctx) = resolve_func_type_var (type_var decl) ctx in (decl\<lparr>type_var := var\<rparr>, ctx)) else (decl, ctx))"
  by (cases "has_func_type decl") (simp_all add: ref_decl_def steps_map [OF steps_var(3), simplified Let_def], simp add: steps_to_def resolves_def)

lemma steps_func: "steps_to m None [] (ref_func m func) (rn_visit_func func)"
proof -
  let ?dups = "\<lambda>ctx. check_duplicate_bindings (local_bindings func) ''local'' (check_duplicate_bindings (param_bindings func) ''parameter'' ctx)"
  have dups: "bad_or_same (no_duplicates (param_bindings func) \<and> no_duplicates (local_bindings func)) ctx (?dups ctx)" for ctx
    by (rule bad_or_same_trans [OF check_duplicates_iff check_duplicates_iff])
  have body: "steps_to m (Some func) []
      (if no_duplicates (param_bindings func) \<and> no_duplicates (local_bindings func)
       then map_option (\<lambda>es. func\<lparr>func_decl := decl, first_expr := es\<rparr>) (ref_exprs m (Some func) [] (first_expr func)) else None)
      (\<lambda>ctx. let (es, ctx) = map_state resolve_expr (first_expr func) (?dups ctx) in (func\<lparr>func_decl := decl, first_expr := es\<rparr>, ctx))" for decl
    by (rule steps_same [OF dups steps_map [OF steps_map_state [OF steps_resolve_expr]]])
  have "rn_visit_func func = (\<lambda>ctx. let (x, ctx) =
      (let (decl, ctx) = (if has_func_type (func_decl func)
             then (let (var, ctx) = resolve_func_type_var (type_var (func_decl func)) (ctx\<lparr>rc_func := Some func\<rparr>)
                   in ((func_decl func)\<lparr>type_var := var\<rparr>, ctx))
             else (func_decl func, ctx\<lparr>rc_func := Some func\<rparr>));
           (es, ctx) = map_state resolve_expr (first_expr func) (?dups ctx)
       in (func\<lparr>func_decl := decl, first_expr := es\<rparr>, ctx)) in (x, ctx\<lparr>rc_func := None\<rparr>))"
    by (simp add: fun_eq_iff rn_visit_func_def wasm_visit_func_def visit_resolve resolve_expr_list_map Let_def case_prod_beta)
  then show ?thesis unfolding ref_func_def
    using steps_in_func [OF steps_bind [OF steps_decl body]] by (simp add: Let_def case_prod_beta)
qed

lemma check_module_duplicates_iff: "bad_or_same (module_no_duplicates m) ctx (check_module_duplicates m ctx)"
proof -
  let ?tables = "[(func_bindings m, ''function''), (global_bindings m, ''global''), (export_bindings m, ''export''),
        (func_type_bindings m, ''function type''), (table_bindings m, ''table''), (memory_bindings m, ''memory'')]"
  have "bad_or_same (\<forall>x \<in> set ?tables. no_duplicates (fst x)) ctx
    (fold (\<lambda>(bindings, desc) ctx. check_duplicate_bindings bindings desc ctx) ?tables ctx)"
    by (rule fold_bad_or_same) (auto intro: check_duplicates_iff)
  then show ?thesis by (simp add: module_no_duplicates_def check_module_duplicates_def)
qed

lemma steps_module:
  "steps_to m None [] (ref_module m) (rn_visit_module m)"
proof -
  have start: "steps_to m None [] (map_option g (ref_start m))
     (\<lambda>ctx. let (st, ctx) = (case start m of None \<Rightarrow> (None, ctx) | Some var \<Rightarrow> (let (var, ctx) = resolve_func_var var ctx in (Some var, ctx)))
            in (g st, ctx))" for g :: "WasmVar option \<Rightarrow> WasmModule"
    by (rule steps_map [OF steps_start])
  note chain = steps_bind [OF steps_map_state [OF steps_func] steps_bind [OF steps_map_state [OF steps_export]
      steps_bind [OF steps_map_state [OF steps_global] steps_bind [OF steps_map_state [OF steps_elem]
      steps_bind [OF steps_map_state [OF steps_data] start]]]]]
  let ?rest = "\<lambda>ctx. let (fs, ctx) = map_state rn_visit_func (funcs m) ctx;
          (exs, ctx) = map_state rn_visit_export (exports m) ctx;
          (gs, ctx) = map_state rn_visit_global (globals m) ctx;
          (elems, ctx) = map_state rn_visit_elem_segment (elem_segments m) ctx;
          (datas, ctx) = map_state rn_visit_data_segment (data_segments m) ctx;
          (st, ctx) = (case start m of
              None \<Rightarrow> (None, ctx)
            | Some var \<Rightarrow> (let (var, ctx) = resolve_func_var var ctx in (Some var, ctx)))
      in (m\<lparr>funcs := fs, imports_vec := sync_imports (imports_vec m) fs gs, exports := exs, globals := gs,
            elem_segments := elems, data_segments := datas, start := st\<rparr>, ctx)"
  have "steps_to m None [] (ref_module m) (\<lambda>ctx. ?rest (check_module_duplicates m ctx))"
    unfolding ref_module_def by (rule steps_same [OF check_module_duplicates_iff chain])
  moreover have "rn_visit_module m ctx = ?rest (check_module_duplicates m ctx)" if "in_scope m None [] ctx" for ctx
  proof -
    have "ctx\<lparr>rc_module := m\<rparr> = ctx" using that by (simp add: in_scope_def)
    then show ?thesis by (simp add: rn_visit_module_def Let_def)
  qed
  ultimately show ?thesis unfolding steps_to_def by (metis (lifting))
qed

text \<open>Resolution succeeds exactly when the function is defined, and then has its value.\<close>

lemma resolve_module_ok:
  "rc_ok (fst (wasm_resolve_names_module m fs)) \<longleftrightarrow> ref_module m \<noteq> None"
  "ref_module m = Some m' \<Longrightarrow> wasm_resolve_names_module m fs =
     (init_resolve_context m, m', case start m' of Some var \<Rightarrow> set_last_start var fs | None \<Rightarrow> fs)"
proof -
  have "in_scope m None [] (init_resolve_context m)" by (simp add: in_scope_def init_resolve_context_def)
  then have r: "resolves (ref_module m) (rn_visit_module m (init_resolve_context m)) (init_resolve_context m)"
    using steps_module by (simp add: steps_to_def)
  have init: "rc_ok (init_resolve_context m)" by (simp add: rc_ok_def init_resolve_context_def)
  show "rc_ok (fst (wasm_resolve_names_module m fs)) \<longleftrightarrow> ref_module m \<noteq> None"
    using r init by (auto simp: wasm_resolve_names_module_def resolves_def Let_def case_prod_beta split: option.splits)
  show "wasm_resolve_names_module m fs =
     (init_resolve_context m, m', case start m' of Some var \<Rightarrow> set_last_start var fs | None \<Rightarrow> fs)" if "ref_module m = Some m'"
    using r that by (simp add: wasm_resolve_names_module_def resolves_def)
qed

subsection \<open>Resolved modules\<close>

fun is_index :: "WasmVar \<Rightarrow> bool" where
  "is_index (VarIndex _) = True"
| "is_index (VarName _) = False"

fun no_names :: "WasmExpr \<Rightarrow> bool" where
  "no_names (Br var) = is_index var"
| "no_names (BrIf var) = is_index var"
| "no_names (BrTable targets default_target) = (list_all is_index targets \<and> is_index default_target)"
| "no_names (Call var) = is_index var"
| "no_names (CallIndirect var) = is_index var"
| "no_names (GetGlobal var) = is_index var"
| "no_names (SetGlobal var) = is_index var"
| "no_names (GetLocal var) = is_index var"
| "no_names (SetLocal var) = is_index var"
| "no_names (TeeLocal var) = is_index var"
| "no_names (Block _ _ es) = list_all no_names es"
| "no_names (Loop _ _ es) = list_all no_names es"
| "no_names (If _ _ true_es false_es) = (list_all no_names true_es \<and> list_all no_names false_es)"
| "no_names _ = True"

definition no_names_func :: "WasmFunc \<Rightarrow> bool" where
  "no_names_func f \<longleftrightarrow>
     (has_func_type (func_decl f) \<longrightarrow> is_index (type_var (func_decl f))) \<and> list_all no_names (first_expr f)"

definition no_names_module :: "WasmModule \<Rightarrow> bool" where
  "no_names_module m \<longleftrightarrow>
     list_all no_names_func (funcs m) \<and> list_all (\<lambda>ex. is_index (export_var ex)) (exports m)
     \<and> list_all (\<lambda>g. list_all no_names (global_init_expr g)) (globals m)
     \<and> list_all (\<lambda>s. is_index (elem_table_var s) \<and> list_all no_names (elem_offset s) \<and> list_all is_index (elem_vars s)) (elem_segments m)
     \<and> list_all (\<lambda>s. is_index (data_memory_var s) \<and> list_all no_names (data_offset s)) (data_segments m)
     \<and> (case start m of None \<Rightarrow> True | Some var \<Rightarrow> is_index var)"

lemma those_Some: "those xs = Some ys \<longleftrightarrow> xs = map Some ys"
  by (induction xs arbitrary: ys) (auto split: option.splits)

lemma those_map_all:
  assumes "those (map f xs) = Some ys" "\<And>x y. x \<in> set xs \<Longrightarrow> f x = Some y \<Longrightarrow> P y"
  shows "list_all P ys"
  unfolding list_all_iff
proof
  fix y assume "y \<in> set ys"
  moreover have "set (map f xs) = set (map Some ys)" using assms(1) by (simp add: those_Some)
  ultimately have "Some y \<in> f ` set xs" by auto
  then obtain x where "x \<in> set xs" "f x = Some y" by (auto dest: sym)
  then show "P y" by (rule assms(2))
qed

lemma ref_var_index: "ref_var look var = Some var' \<Longrightarrow> is_index var'"
  by (auto simp: ref_var_def split: WasmVar.splits if_splits)

lemma ref_label_index: "ref_label ls var = Some var' \<Longrightarrow> is_index var'"
  by (auto simp: ref_label_def Let_def split: WasmVar.splits if_splits)

lemma ref_local_index: "ref_local f var = Some var' \<Longrightarrow> is_index var'"
  by (auto simp: ref_local_def split: WasmVar.splits option.splits dest: ref_var_index)

lemma ref_expr_no_names: "ref_expr m f ls e = Some e' \<Longrightarrow> no_names e'"
proof (induction e arbitrary: ls e')
  case (BrTable targets default_target)
  then obtain ts d where e: "those (map (ref_label ls) targets) = Some ts" "ref_label ls default_target = Some d" "e' = BrTable ts d"
    by (auto split: option.splits)
  have "list_all is_index ts" using e(1) ref_label_index by (rule those_map_all)
  moreover have "is_index d" using e(2) by (rule ref_label_index)
  ultimately show ?case using e(3) by simp
next
  case (Block label sig es)
  then obtain es' where e: "ref_exprs m f (label # ls) es = Some es'" "e' = Block label sig es'" by auto
  have "list_all no_names es'" using e(1) Block.IH by (rule those_map_all)
  then show ?case using e(2) by simp
next
  case (Loop label sig es)
  then obtain es' where e: "ref_exprs m f (label # ls) es = Some es'" "e' = Loop label sig es'" by auto
  have "list_all no_names es'" using e(1) Loop.IH by (rule those_map_all)
  then show ?case using e(2) by simp
next
  case (If label sig true_es false_es)
  then obtain ts fs where e: "ref_exprs m f (label # ls) true_es = Some ts" "ref_exprs m f (label # ls) false_es = Some fs"
    "e' = If label sig ts fs" by (auto split: option.splits)
  have "list_all no_names ts" using e(1) If.IH(1) by (rule those_map_all)
  moreover have "list_all no_names fs" using e(2) If.IH(2) by (rule those_map_all)
  ultimately show ?case using e(3) by simp
qed (auto dest: ref_label_index ref_local_index ref_var_index)

lemma ref_exprs_no_names: "ref_exprs m f ls es = Some es' \<Longrightarrow> list_all no_names es'"
  by (rule those_map_all [where P = no_names], assumption, rule ref_expr_no_names)

lemma ref_module_no_names:
  assumes "ref_module m = Some m'"
  shows "no_names_module m'"
proof -
  have "list_all no_names_func fs" if "those (map (ref_func m) (funcs m)) = Some fs" for fs
    using that by (rule those_map_all)
      (auto simp: ref_func_def ref_decl_def no_names_func_def split: option.splits if_splits dest: ref_var_index ref_exprs_no_names)
  moreover have "list_all (\<lambda>ex. is_index (export_var ex)) exs" if "those (map (ref_export m) (exports m)) = Some exs" for exs
    using that by (rule those_map_all) (auto simp: ref_export_def dest: ref_var_index)
  moreover have "list_all (\<lambda>g. list_all no_names (global_init_expr g)) gs" if "those (map (ref_global m) (globals m)) = Some gs" for gs
    using that by (rule those_map_all) (auto simp: ref_global_def dest: ref_exprs_no_names)
  moreover have "list_all (\<lambda>s. is_index (elem_table_var s) \<and> list_all no_names (elem_offset s) \<and> list_all is_index (elem_vars s)) elems"
    if "those (map (ref_elem m) (elem_segments m)) = Some elems" for elems
    using that by (rule those_map_all)
      (auto simp: ref_elem_def split: option.splits dest: ref_var_index ref_exprs_no_names those_map_all [where P = is_index, OF _ ref_var_index])
  moreover have "list_all (\<lambda>s. is_index (data_memory_var s) \<and> list_all no_names (data_offset s)) datas"
    if "those (map (ref_data m) (data_segments m)) = Some datas" for datas
    using that by (rule those_map_all) (auto simp: ref_data_def split: option.splits dest: ref_var_index ref_exprs_no_names)
  moreover have "case st of None \<Rightarrow> True | Some var \<Rightarrow> is_index var" if "ref_start m = Some st" for st
    using that by (auto simp: ref_start_def split: option.splits dest: ref_var_index)
  ultimately show ?thesis using assms
    by (auto simp: ref_module_def no_names_module_def split: option.splits if_splits)
qed

end
