(* ===== verification/Wabt_Resolved_Valid.thy ===== *)
theory Wabt_Resolved_Valid
  imports Wabt_Validity Wabt_Resolve_Correct
begin

text \<open>
  The validator takes modules whose names have been resolved: it asserts that the variables it
  looks up are indices. After a successful resolution none of these assertions fails.
\<close>

text \<open>What no check changes: whether the run is defined so far, and the module.\<close>

definition kept :: "ValContext \<Rightarrow> bool \<times> WasmModule" where
  "kept ctx = (v_defined ctx, v_module ctx)"

named_theorems keeps_defined \<open>checks that keep the run defined\<close>

lemma keeps_print [keeps_defined]: "kept (val_print_error format args ctx) = kept ctx"
  by (simp add: kept_def val_print_error_def)

lemma keeps_stack [keeps_defined]:
  "kept (push_type t ctx) = kept ctx" "kept (set_type_stack_size n ctx) = kept ctx"
  "kept (reset_type_stack_to_limit ctx) = kept ctx" "kept (push_any ctx) = kept ctx"
  "kept (val_push_label lt sig ctx) = kept ctx" "kept (val_pop_label ctx) = kept ctx"
  "kept (snd (pop_type ctx)) = kept ctx"
  by (simp_all add: push_type_def set_type_stack_size_def reset_type_stack_to_limit_def push_any_def val_push_label_def val_pop_label_def
      pop_type_def kept_def)

lemma keeps_push_types [keeps_defined]: "kept (push_types ts ctx) = kept ctx"
  by (induction ts arbitrary: ctx) (simp_all add: push_types_def keeps_defined)

lemma keeps_check_type [keeps_defined]:
  "kept (check_type t u desc ctx) = kept ctx" "kept (check_type_index t u desc i kind ctx) = kept ctx"
  "kept (snd (check_type_stack_limit n desc ctx)) = kept ctx"
  "kept (check_type_stack_limit_exact n desc ctx) = kept ctx"
  by (simp_all add: check_type_def check_type_index_def check_type_stack_limit_def check_type_stack_limit_exact_def Let_def keeps_defined)

lemma keeps_lists [keeps_defined]:
  "kept (check_type_indices i ts us desc kind ctx) = kept ctx" "kept (check_type_pairs ts us desc ctx) = kept ctx"
  subgoal by (induction i ts us desc kind ctx rule: check_type_indices.induct) (simp_all add: keeps_defined)
  subgoal by (induction ts us desc ctx rule: check_type_pairs.induct) (simp_all add: keeps_defined)
  done

lemma limit_cases:
  obtains "check_type_stack_limit n desc ctx = (WASM_OK, ctx)"
  | ctx' where "check_type_stack_limit n desc ctx = (WASM_ERROR, ctx')" "kept ctx' = kept ctx"
  by (cases "n > type_stack_avail ctx") (auto simp: check_type_stack_limit_def Let_def keeps_defined)

lemma keeps_pops [keeps_defined]:
  "kept (pop_and_check_1_type t desc ctx) = kept ctx"
  "kept (pop_and_check_2_types t u desc ctx) = kept ctx"
  "kept (check_n_types ts desc ctx) = kept ctx"
  subgoal by (rule limit_cases [of 1 desc ctx]) (simp_all add: pop_and_check_1_type_def case_prod_beta keeps_defined)
  subgoal by (rule limit_cases [of 2 desc ctx]) (simp_all add: pop_and_check_2_types_def Let_def case_prod_beta keeps_defined)
  subgoal by (rule limit_cases [of "length ts" desc ctx]) (simp_all add: check_n_types_def keeps_defined)
  done

lemma keeps_ops [keeps_defined]:
  "kept (check_opcode1 opcode ctx) = kept ctx" "kept (check_opcode2 opcode ctx) = kept ctx"
  "kept (check_call sig desc ctx) = kept ctx" "kept (check_has_memory opcode ctx) = kept ctx"
  "kept (end_block desc (b, ctx)) = kept ctx" "kept (check_types ts us desc kind ctx) = kept ctx"
  by (simp_all add: check_opcode1_def check_opcode2_def check_call_def check_has_memory_def check_types_def Let_def keeps_defined)

lemma keeps_br [keeps_defined]: "is_index var \<Longrightarrow> kept (check_br var desc ctx) = kept ctx"
  by (cases var) (auto simp: check_br_def check_label_var_def val_assert_def keeps_defined split: option.splits)

lemma keeps_br_all [keeps_defined]:
  "list_all is_index vars \<Longrightarrow> kept (fold (\<lambda>var. check_br var desc) vars ctx) = kept ctx"
  by (induction vars arbitrary: ctx) (simp_all add: keeps_defined)

lemma keeps_vars [keeps_defined]:
  "is_index var \<Longrightarrow> kept (snd (check_var n var desc ctx)) = kept ctx"
  "is_index var \<Longrightarrow> kept (snd (check_func_var var ctx)) = kept ctx"
  "is_index var \<Longrightarrow> kept (snd (check_func_type_var var ctx)) = kept ctx"
  "is_index var \<Longrightarrow> kept (snd (check_global_var var ctx)) = kept ctx"
  "is_index var \<Longrightarrow> kept (snd (check_table_var var ctx)) = kept ctx"
  "is_index var \<Longrightarrow> kept (snd (check_memory_var var ctx)) = kept ctx"
  "kept (snd (check_local_var var ctx)) = kept ctx"
  by (cases var; simp add: check_func_var_def check_func_type_var_def check_global_var_def check_table_var_def check_memory_var_def
      check_local_var_def Let_def keeps_defined)+

lemma keeps_access [keeps_defined]:
  assumes "opcode \<in> set (load_opcodes @ store_opcodes)"
  shows "kept (check_memory_access opcode align off ctx) = kept ctx"
  using access_opcode_types [OF assms]
  by (simp add: check_memory_access_def check_offset_def check_align_def val_assert_def Let_def keeps_defined)

lemma keeps_exprs_of:
  "(\<And>e ctx. e \<in> set es \<Longrightarrow> kept (check_expr e ctx) = kept ctx) \<Longrightarrow> kept (snd (check_exprs es ctx)) = kept ctx"
  by (induction es arbitrary: ctx) (simp_all add: Let_def)

lemma keeps_block_of:
  "(\<And>e ctx. e \<in> set es \<Longrightarrow> kept (check_expr e ctx) = kept ctx) \<Longrightarrow>
    kept (end_block desc (check_exprs es ctx)) = kept ctx"
  using keeps_exprs_of [of es ctx] by (cases "check_exprs es ctx") (simp add: keeps_defined del: end_block.simps)

lemma keeps_expr: "no_names e \<Longrightarrow> parsed_expr e \<Longrightarrow> kept (check_expr e ctx) = kept ctx"
proof (induction e arbitrary: ctx)
  case (Block label sig es)
  then have "kept (end_block ''block'' (check_exprs es ctx)) = kept ctx" for ctx
    by (intro keeps_block_of) (auto simp: list_all_iff)
  then show ?case by (simp add: keeps_defined)
next
  case (Loop label sig es)
  then have "kept (end_block ''loop'' (check_exprs es ctx)) = kept ctx" for ctx
    by (intro keeps_block_of) (auto simp: list_all_iff)
  then show ?case by (simp add: keeps_defined)
next
  case (If label sig true_es false_es)
  then have "kept (end_block d (check_exprs true_es ctx)) = kept ctx"
    "kept (end_block d (check_exprs false_es ctx)) = kept ctx" for ctx d
    by (intro keeps_block_of; auto simp: list_all_iff)+
  then show ?case by (simp add: keeps_defined Let_def)
next
  case (Call var)
  then show ?case using keeps_vars(2) [of var ctx] by (cases "check_func_var var ctx") (auto simp: keeps_defined split: option.splits)
next
  case (CallIndirect var)
  let ?ctx = "if length (tables (v_module ctx)) = 0 then val_print_error ''found call_indirect operator, but no table'' [] ctx else ctx"
  have d: "kept ?ctx = kept ctx" by (simp add: keeps_defined)
  show ?case using keeps_vars(3) [of var ?ctx] CallIndirect
    by (cases "check_func_type_var var ?ctx") (auto simp: keeps_defined d Let_def case_prod_beta split: option.splits)
next
  case (GetGlobal var)
  then show ?case using keeps_vars(4) [of var ctx] by (cases "check_global_var var ctx") (auto simp: keeps_defined split: option.splits)
next
  case (SetGlobal var)
  then show ?case using keeps_vars(4) [of var ctx] by (cases "check_global_var var ctx") (auto simp: keeps_defined split: option.splits)
next
  case (GetLocal var)
  then show ?case using keeps_vars(7) [of var ctx] by (cases "check_local_var var ctx") (auto simp: keeps_defined split: option.splits)
next
  case (SetLocal var)
  then show ?case using keeps_vars(7) [of var ctx] by (cases "check_local_var var ctx") (auto simp: keeps_defined split: option.splits)
next
  case (TeeLocal var)
  obtain found ctx' where l: "check_local_var var ctx = (found, ctx')" "kept ctx' = kept ctx"
    using keeps_vars(7) [of var ctx] by (cases "check_local_var var ctx") auto
  show ?case by (rule limit_cases [of 1 "''tee_local''" ctx']) (simp_all add: l keeps_defined)
next
  case Drop
  show ?case by (rule limit_cases [of 1 "''drop''" ctx]) (simp_all add: keeps_defined)
next
  case Select
  let ?ctx = "pop_and_check_1_type WASM_TYPE_I32 ''select'' ctx"
  show ?case by (rule limit_cases [of 2 "''select''" ?ctx]) (simp_all add: keeps_defined case_prod_beta Let_def)
qed (simp_all add: keeps_defined)

text \<open>Functions, initialisers and whole modules.\<close>

lemma keeps_func [keeps_defined]:
  assumes "no_names_func f" "list_all parsed_expr (first_expr f)"
  shows "kept (check_func f ctx) = kept ctx"
proof -
  have decl: "kept (check_func_decl (func_decl f) ctx) = kept ctx" for ctx
    using assms(1) keeps_vars(3) [of "type_var (func_decl f)" ctx]
    by (cases "check_func_type_var (type_var (func_decl f)) ctx")
      (auto simp: check_func_decl_def no_names_func_def check_func_signature_matches_func_type_def keeps_defined split: option.splits)
  have "kept (end_block ''function'' (check_exprs (first_expr f) ctx)) = kept ctx" for ctx
    using assms by (intro keeps_block_of keeps_expr) (auto simp: no_names_func_def list_all_iff)
  moreover have "kept (ctx\<lparr>v_func := g\<rparr>) = kept ctx" for ctx g by (simp add: kept_def)
  ultimately show ?thesis by (simp add: check_func_def check_block_def Let_def keeps_defined decl)
qed

lemma keeps_init [keeps_defined]:
  "list_all no_names es \<Longrightarrow> kept (check_const_init_expr es t desc ctx) = kept ctx"
proof (induction es t desc ctx rule: check_const_init_expr.induct)
  case (3 var t desc ctx)
  then show ?case using keeps_vars(4) [of var ctx]
    by (cases "check_global_var var ctx") (auto simp: keeps_defined check_init_global_def Let_def split: option.splits)
qed (simp_all add: keeps_defined print_const_expr_error_def)


definition import_resolved :: "WasmImport \<Rightarrow> bool" where
  "import_resolved im = (case import_desc im of ImportFunc f \<Rightarrow> has_func_type (func_decl f) \<longrightarrow> is_index (type_var (func_decl f)) | _ \<Rightarrow> True)"

definition field_resolved :: "WasmModule \<Rightarrow> WasmModuleField \<Rightarrow> bool" where
  "field_resolved m f \<longleftrightarrow> field_in_range m f \<and> (\<forall>var. f = FieldStart var \<longrightarrow> is_index var)"

definition parsed_module :: "WasmModule \<Rightarrow> bool" where
  "parsed_module m \<longleftrightarrow> list_all (\<lambda>f. list_all parsed_expr (first_expr f)) (funcs m)"

lemma keeps_limits [keeps_defined]: "kept (check_limits l mx desc ctx) = kept ctx"
  by (simp add: check_limits_def Let_def keeps_defined)

lemma kept_next:
  "kept (ctx\<lparr>v_table_index := n\<rparr>) = kept ctx" "kept (ctx\<lparr>v_memory_index := n\<rparr>) = kept ctx" "kept (ctx\<lparr>v_global_index := n\<rparr>) = kept ctx"
  "kept (ctx\<lparr>v_num_imported_globals := n\<rparr>) = kept ctx"
  by (simp_all add: kept_def)

lemma keeps_field:
  assumes "no_names_module (v_module ctx)" "parsed_module (v_module ctx)" "list_all import_resolved (imports_vec (v_module ctx))"
    "field_resolved (v_module ctx) f"
  shows "kept (check_field seen f ctx) = kept ctx"
proof (cases f)
  case (FieldImport i)
  then have "import_resolved (imports_vec (v_module ctx) ! i)" using assms by (simp add: field_resolved_def field_in_range_def list_all_length)
  then show ?thesis using FieldImport
    by (auto simp: check_field_def check_import_def import_resolved_def check_table_def check_memory_def next_table_def next_memory_def
        next_global_def kept_next Let_def keeps_defined split: WasmImportDesc.splits)
next
  case (FieldExport i)
  then have ix: "is_index (export_var (exports (v_module ctx) ! i))" using assms
    by (simp add: no_names_module_def field_resolved_def field_in_range_def list_all_length)
  then show ?thesis using FieldExport keeps_vars(4) [OF ix, of ctx]
    by (cases "check_global_var (export_var (exports (v_module ctx) ! i)) ctx")
      (auto simp: check_field_def check_export_def Let_def keeps_defined split: WasmExternalKind.splits option.splits)
next
  case (FieldStart var)
  then have ix: "is_index var" using assms(4) by (simp add: field_resolved_def)
  let ?ctx = "if seen then val_print_error ''only one start function allowed'' [] ctx else ctx"
  have d: "kept ?ctx = kept ctx" by (simp add: keeps_defined)
  show ?thesis using FieldStart keeps_vars(2) [OF ix, of ?ctx]
    by (cases "check_func_var var ?ctx") (auto simp: check_field_def check_start_def Let_def d keeps_defined split: option.splits)
qed (use assms in \<open>auto simp: check_field_def field_resolved_def field_in_range_def no_names_module_def parsed_module_def list_all_length
      check_global_def check_table_def check_memory_def next_table_def next_memory_def next_global_def kept_next Let_def keeps_defined\<close>)

lemma keeps_elem [keeps_defined]:
  assumes "is_index (elem_table_var seg)" "list_all no_names (elem_offset seg)" "list_all is_index (elem_vars seg)"
  shows "kept (check_elem_segment seg ctx) = kept ctx"
proof -
  have "kept (fold (\<lambda>var ctx. snd (check_func_var var ctx)) vars c) = kept c" if "list_all is_index vars" for vars c
    using that by (induction vars arbitrary: c) (simp_all add: keeps_defined)
  then show ?thesis using assms keeps_vars(5) [of "elem_table_var seg" ctx]
    by (cases "check_table_var (elem_table_var seg) ctx") (auto simp: check_elem_segment_def keeps_defined split: option.splits)
qed

lemma keeps_data [keeps_defined]:
  assumes "is_index (data_memory_var seg)" "list_all no_names (data_offset seg)"
  shows "kept (check_data_segment seg ctx) = kept ctx"
  using assms keeps_vars(6) [of "data_memory_var seg" ctx]
  by (cases "check_memory_var (data_memory_var seg) ctx") (auto simp: check_data_segment_def keeps_defined split: option.splits)

lemma kept_module: "kept ctx' = kept ctx \<Longrightarrow> v_module ctx' = v_module ctx"
  by (simp add: kept_def)

lemma keeps_fields:
  assumes "no_names_module m" "parsed_module m" "list_all import_resolved (imports_vec m)"
  shows "v_module ctx = m \<Longrightarrow> list_all (field_resolved m) fs \<Longrightarrow> kept (check_fields seen fs ctx) = kept ctx"
    "v_module ctx = m \<Longrightarrow> list_all (field_resolved m) fs \<Longrightarrow> kept (check_elem_segments fs ctx) = kept ctx"
    "v_module ctx = m \<Longrightarrow> list_all (field_resolved m) fs \<Longrightarrow> kept (check_data_segments fs ctx) = kept ctx"
proof -
  show "v_module ctx = m \<Longrightarrow> list_all (field_resolved m) fs \<Longrightarrow> kept (check_fields seen fs ctx) = kept ctx"
  proof (induction fs arbitrary: seen ctx)
    case (Cons f fs)
    have f: "kept (check_field seen f ctx) = kept ctx" using keeps_field [of ctx f seen] assms Cons.prems by simp
    show ?case using Cons.IH [of "check_field seen f ctx"] Cons.prems kept_module [OF f] f by simp
  qed simp
  show "v_module ctx = m \<Longrightarrow> list_all (field_resolved m) fs \<Longrightarrow> kept (check_elem_segments fs ctx) = kept ctx"
  proof (induction fs ctx rule: check_elem_segments.induct)
    case (2 i fs ctx)
    have f: "kept (check_elem_segment (elem_segments (v_module ctx) ! i) ctx) = kept ctx"
      using 2 assms by (intro keeps_elem) (auto simp: no_names_module_def field_resolved_def field_in_range_def list_all_length)
    show ?case using 2 kept_module [OF f] f by simp
  qed simp_all
  show "v_module ctx = m \<Longrightarrow> list_all (field_resolved m) fs \<Longrightarrow> kept (check_data_segments fs ctx) = kept ctx"
  proof (induction fs ctx rule: check_data_segments.induct)
    case (2 i fs ctx)
    have f: "kept (check_data_segment (data_segments (v_module ctx) ! i) ctx) = kept ctx"
      using 2 assms by (intro keeps_data) (auto simp: no_names_module_def field_resolved_def field_in_range_def list_all_length)
    show ?case using 2 kept_module [OF f] f by simp
  qed simp_all
qed

lemma check_module_defined:
  assumes "no_names_module m" "parsed_module m" "list_all import_resolved (imports_vec m)" "list_all (field_resolved m) fs"
  shows "v_defined (check_module m fs ctx) = v_defined ctx"
proof -
  let ?ctx = "ctx\<lparr>v_module := m, v_table_index := 0, v_memory_index := 0, v_global_index := 0, v_num_imported_globals := 0\<rparr>"
  have 1: "kept (check_fields False fs ?ctx) = kept ?ctx" by (rule keeps_fields(1) [OF assms(1-3) _ assms(4)]) simp
  have 2: "kept (check_elem_segments fs (check_fields False fs ?ctx)) = kept (check_fields False fs ?ctx)"
    by (rule keeps_fields(2) [OF assms(1-3) _ assms(4)]) (use kept_module [OF 1] in simp)
  have "kept (check_data_segments fs (check_elem_segments fs (check_fields False fs ?ctx))) = kept ?ctx"
    using keeps_fields(3) [OF assms(1-3) _ assms(4), of "check_elem_segments fs (check_fields False fs ?ctx)"]
      kept_module [OF 2] kept_module [OF 1] 1 2 by simp
  then show ?thesis by (simp add: check_module_def Let_def kept_def)
qed

subsection \<open>Modules that come out of the resolution\<close>

text \<open>The vector of functions starts with the imported ones.\<close>

definition imports_linked :: "WasmModule \<Rightarrow> bool" where
  "imports_linked m \<longleftrightarrow> length (filter (\<lambda>im. \<exists>f. import_desc im = ImportFunc f) (imports_vec m)) \<le> length (funcs m)"

text \<open>The start fields: at most one, the one \<open>module->start\<close> points to.\<close>

definition start_linked :: "WasmModule \<Rightarrow> WasmModuleField list \<Rightarrow> bool" where
  "start_linked m fs \<longleftrightarrow> count_of is_start_field fs \<le> 1 \<and> (\<forall>var. FieldStart var \<in> set fs \<longrightarrow> start m = Some var)"

lemma sync_imports_resolved:
  assumes "length (filter (\<lambda>im. \<exists>f. import_desc im = ImportFunc f) ims) \<le> length fs" "list_all no_names_func fs"
  shows "list_all import_resolved (sync_imports ims fs gs)"
  using assms
proof (induction ims fs gs rule: sync_imports.induct)
  case (2 im ims fs gs)
  then show ?case
    by (cases "import_desc im"; cases fs; cases gs) (auto simp: import_resolved_def no_names_func_def)
qed simp

lemma length_sync_imports [simp]: "length (sync_imports ims fs gs) = length ims"
  by (induction ims fs gs rule: sync_imports.induct) (auto split: WasmImportDesc.splits list.splits)

lemma those_length: "those xs = Some ys \<Longrightarrow> length ys = length xs"
  by (auto simp: those_Some)

lemma ref_expr_parsed: "ref_expr m f ls e = Some e' \<Longrightarrow> parsed_expr e \<Longrightarrow> parsed_expr e'"
proof (induction e arbitrary: ls e')
  case (Block label sig es)
  then obtain es' where e: "ref_exprs m f (label # ls) es = Some es'" "e' = Block label sig es'" by auto
  have "list_all parsed_expr es'" using e(1) by (rule those_map_all) (use Block in \<open>auto simp: list_all_iff\<close>)
  then show ?case using e(2) Block.prems by simp
next
  case (Loop label sig es)
  then obtain es' where e: "ref_exprs m f (label # ls) es = Some es'" "e' = Loop label sig es'" by auto
  have "list_all parsed_expr es'" using e(1) by (rule those_map_all) (use Loop in \<open>auto simp: list_all_iff\<close>)
  then show ?case using e(2) Loop.prems by simp
next
  case (If label sig true_es false_es)
  then obtain ts fs where e: "ref_exprs m f (label # ls) true_es = Some ts" "ref_exprs m f (label # ls) false_es = Some fs"
    "e' = If label sig ts fs" by (auto split: option.splits)
  have "list_all parsed_expr ts" using e(1) by (rule those_map_all) (use If in \<open>auto simp: list_all_iff\<close>)
  moreover have "list_all parsed_expr fs" using e(2) by (rule those_map_all) (use If in \<open>auto simp: list_all_iff\<close>)
  ultimately show ?case using e(3) If.prems by simp
qed (auto split: option.splits)

lemma ref_module_parts:
  assumes "ref_module m = Some m'"
  obtains fs exs gs elems datas st where
    "those (map (ref_func m) (funcs m)) = Some fs" "those (map (ref_export m) (exports m)) = Some exs"
    "those (map (ref_global m) (globals m)) = Some gs" "those (map (ref_elem m) (elem_segments m)) = Some elems"
    "those (map (ref_data m) (data_segments m)) = Some datas" "ref_start m = Some st"
    "m' = m\<lparr>funcs := fs, imports_vec := sync_imports (imports_vec m) fs gs, exports := exs, globals := gs,
            elem_segments := elems, data_segments := datas, start := st\<rparr>"
  using assms by (auto simp: ref_module_def split: option.splits if_splits)

lemma set_last_start_single:
  "count_of is_start_field fs \<le> 1 \<Longrightarrow> f \<in> set (set_last_start var fs) \<Longrightarrow> (f \<in> set fs \<and> \<not> is_start_field f) \<or> f = FieldStart var"
proof (induction var fs rule: set_last_start.induct)
  case (2 var old fs)
  have none: "\<not> is_start_field g" if "g \<in> set fs" for g
    using 2(2) that by (auto simp: count_of_def is_start_field_def filter_empty_conv)
  have "\<not> (\<exists>v. FieldStart v \<in> set fs)"
  proof
    assume "\<exists>v. FieldStart v \<in> set fs"
    then obtain v where "FieldStart v \<in> set fs" by blast
    from none [OF this] show False by (simp add: is_start_field_def)
  qed
  then show ?case using 2(3) none by auto
qed (auto simp: count_of_def is_start_field_def)

lemma resolved_module_checks_defined:
  assumes r: "ref_module m = Some m'" and p: "parsed_module m" "imports_linked m" "list_all (field_in_range m) fs" "start_linked m fs"
  shows "v_defined (check_module m' (case start m' of Some var \<Rightarrow> set_last_start var fs | None \<Rightarrow> fs) ctx) = v_defined ctx"
proof -
  obtain funs exs gs elems datas st where parts:
    "those (map (ref_func m) (funcs m)) = Some funs" "those (map (ref_export m) (exports m)) = Some exs"
    "those (map (ref_global m) (globals m)) = Some gs" "those (map (ref_elem m) (elem_segments m)) = Some elems"
    "those (map (ref_data m) (data_segments m)) = Some datas" "ref_start m = Some st"
    "m' = m\<lparr>funcs := funs, imports_vec := sync_imports (imports_vec m) funs gs, exports := exs, globals := gs,
            elem_segments := elems, data_segments := datas, start := st\<rparr>" using r by (rule ref_module_parts)
  have names: "no_names_module m'" using r by (rule ref_module_no_names)
  have "list_all (\<lambda>f. list_all parsed_expr (first_expr f)) funs" using parts(1)
  proof (rule those_map_all)
    fix f f' assume f: "f \<in> set (funcs m)" "ref_func m f = Some f'"
    then obtain es where es: "ref_exprs m (Some f) [] (first_expr f) = Some es" "first_expr f' = es"
      by (auto simp: ref_func_def split: option.splits if_splits)
    have "list_all parsed_expr es" using es(1)
      by (rule those_map_all) (use f p(1) in \<open>auto simp: parsed_module_def list_all_iff intro: ref_expr_parsed\<close>)
    then show "list_all parsed_expr (first_expr f')" using es by simp
  qed
  then have parsed: "parsed_module m'" using parts(7) by (simp add: parsed_module_def)
  have "length funs = length (funcs m)" using parts(1) by (auto dest: those_length)
  then have ims: "list_all import_resolved (imports_vec m')"
    using sync_imports_resolved [of "imports_vec m" funs gs] p(2) names parts(7) by (simp add: imports_linked_def no_names_module_def)
  have lens: "length funs = length (funcs m)" "length exs = length (exports m)" "length gs = length (globals m)"
    "length elems = length (elem_segments m)" "length datas = length (data_segments m)"
    using parts(1-5) by (auto dest: those_length)
  have range: "field_in_range m' f" if "field_in_range m f" for f
    using that by (cases f) (simp_all add: field_in_range_def parts(7) lens)
  let ?fs = "case start m' of Some var \<Rightarrow> set_last_start var fs | None \<Rightarrow> fs"
  have "list_all (field_resolved m') ?fs"
  proof (cases "start m'")
    case None
    then have "start m = None" using parts(6,7) by (auto simp: ref_start_def split: option.splits)
    then show ?thesis using p(3,4) range None by (auto simp: field_resolved_def start_linked_def list_all_iff)
  next
    case (Some var)
    have "is_index var" using names Some by (simp add: no_names_module_def)
    then show ?thesis using set_last_start_single [of fs _ var] p(3,4) range Some
      by (fastforce simp: field_resolved_def start_linked_def list_all_iff is_start_field_def field_in_range_def [of m' "FieldStart _"])
  qed
  then show ?thesis by (rule check_module_defined [OF names parsed ims])
qed

end
