(* ===== verification/Wabt_Script.thy ===== *)
theory Wabt_Script
  imports Wabt_Resolved_Valid Wabt_Reader_Ast
begin

text \<open>
  Scripts (\<^verbatim>\<open>ast.h\<close>): the commands of a test file, their name resolution
  (\<^verbatim>\<open>resolve-names.c\<close>) and their validation (\<^verbatim>\<open>validator.c\<close>). A module in a script comes
  with its list of fields.
\<close>

subsection \<open>Commands\<close>

datatype WasmRawModule =
    RawText WasmModule "WasmModuleField list"
  | RawBinary WasmStringSlice "byte list"

datatype WasmAction =
    ActionInvoke WasmVar WasmStringSlice "WasmConst list"
  | ActionGet WasmVar WasmStringSlice

datatype WasmCommand =
    CommandModule WasmModule "WasmModuleField list"
  | CommandAction WasmAction
  | CommandRegister WasmStringSlice WasmVar
  | CommandAssertMalformed WasmRawModule WasmStringSlice
  | CommandAssertInvalid WasmRawModule WasmStringSlice
  | CommandAssertUnlinkable WasmRawModule WasmStringSlice
  | CommandAssertUninstantiable WasmRawModule WasmStringSlice
  | CommandAssertReturn WasmAction "WasmConst list"
  | CommandAssertReturnNan WasmAction
  | CommandAssertTrap WasmAction WasmStringSlice

record WasmScript =
  script_commands :: "WasmCommand list"
  module_bindings :: WasmBindingHash

text \<open>The module a variable of the script denotes, and whether the assertion on its command holds.\<close>

definition wasm_get_module_by_var :: "WasmScript \<Rightarrow> WasmVar \<Rightarrow> WasmModule option \<times> bool" where
  "wasm_get_module_by_var script var =
     (case nth_ptr (script_commands script) (wasm_get_index_from_var (module_bindings script) var) of
        None \<Rightarrow> (None, True)
      | Some (CommandModule m fs) \<Rightarrow> (Some m, True)
      | Some _ \<Rightarrow> (None, False))"

subsection \<open>Name resolution\<close>

text \<open>A module with its fields: the start field that \<open>module->start\<close> points to changes with it.\<close>

definition rn_visit_fields :: "WasmModule \<Rightarrow> WasmModuleField list \<Rightarrow> WasmModuleField list" where
  "rn_visit_fields m fs = (case start m of Some var \<Rightarrow> set_last_start var fs | None \<Rightarrow> fs)"

fun visit_raw_module :: "WasmRawModule \<Rightarrow> ResolveContext \<Rightarrow> WasmRawModule \<times> ResolveContext" where
  "visit_raw_module (RawText m fs) ctx =
     (let (m, ctx) = rn_visit_module m ctx in (RawText m (rn_visit_fields m fs), ctx))"
| "visit_raw_module (RawBinary name bytes) ctx = (RawBinary name bytes, ctx)"

fun visit_command :: "WasmCommand \<Rightarrow> ResolveContext \<Rightarrow> WasmCommand \<times> ResolveContext" where
  "visit_command (CommandModule m fs) ctx =
     (let (m, ctx) = rn_visit_module m ctx in (CommandModule m (rn_visit_fields m fs), ctx))"
| "visit_command (CommandAssertUnlinkable raw txt) ctx =
     (let (raw, ctx) = visit_raw_module raw ctx in (CommandAssertUnlinkable raw txt, ctx))"
| "visit_command (CommandAssertUninstantiable raw txt) ctx =
     (let (raw, ctx) = visit_raw_module raw ctx in (CommandAssertUninstantiable raw txt, ctx))"
| "visit_command command ctx = (command, ctx)"

definition wasm_resolve_names_script :: "WasmScript \<Rightarrow> ResolveContext \<times> WasmScript" where
  "wasm_resolve_names_script script =
     (let (commands, ctx) = map_state visit_command (script_commands script) (init_resolve_context empty_module)
      in (ctx, script\<lparr>script_commands := commands\<rparr>))"

subsection \<open>Actions\<close>

datatype ActionResult = ACTION_RESULT_ERROR | ACTION_RESULT_TYPES "WasmType list" | ACTION_RESULT_TYPE WasmType

definition check_const_types :: "WasmType list \<Rightarrow> WasmConst list \<Rightarrow> string \<Rightarrow> val_step" where
  "check_const_types actual expected desc ctx =
     (if length actual = length expected
      then check_type_indices 0 actual (map const_type expected) desc ''result'' ctx
      else val_print_error ''expected %zd results, got %zd'' [ArgInt (int (length expected)), ArgInt (int (length actual))] ctx)"

definition check_const_type :: "WasmType \<Rightarrow> WasmConst list \<Rightarrow> string \<Rightarrow> val_step" where
  "check_const_type actual expected desc ctx =
     check_const_types (if actual = WASM_TYPE_VOID then [] else [actual]) expected desc
       (val_assert (actual \<noteq> WASM_TYPE_ANY) ctx)"

definition check_assert_return_nan_type :: "WasmType \<Rightarrow> string \<Rightarrow> val_step" where
  "check_assert_return_nan_type actual desc ctx =
     (if actual \<noteq> WASM_TYPE_F32 \<and> actual \<noteq> WASM_TYPE_F64
      then val_print_error ''type mismatch at %s. got %s, expected f32 or f64'' [ArgStr desc, type_arg actual] ctx
      else ctx)"

definition check_invoke_args :: "WasmFunc \<Rightarrow> WasmConst list \<Rightarrow> ValContext \<Rightarrow> WasmType list option \<times> ValContext" where
  "check_invoke_args func args ctx =
     (let actual_args = length args; expected_args = wasm_get_num_params func
      in if expected_args \<noteq> actual_args
         then (None, val_print_error ''too %s parameters to function. got %zd, expected %zd''
                 [ArgStr (if actual_args > expected_args then ''many'' else ''few''), ArgInt (int actual_args),
                  ArgInt (int expected_args)] ctx)
         else (Some (result_types (decl_sig (func_decl func))),
               check_type_indices 0 (map const_type args) (param_types (decl_sig (func_decl func))) ''invoke'' ''argument'' ctx))"

text \<open>The export is found by its name alone: its kind is not looked at.\<close>

definition check_invoke :: "WasmScript \<Rightarrow> WasmVar \<Rightarrow> WasmStringSlice \<Rightarrow> WasmConst list \<Rightarrow> ValContext \<Rightarrow> WasmType list option \<times> ValContext" where
  "check_invoke script module_var name args ctx =
     (let (m, ok) = wasm_get_module_by_var script module_var; ctx = val_assert ok ctx
      in case m of
           None \<Rightarrow> (None, val_print_error ''unknown module'' [] ctx)
         | Some m \<Rightarrow>
             (case wasm_get_export_by_name m name of
                None \<Rightarrow> (None, val_print_error ''unknown function export %s'' [slice_arg name] ctx)
              | Some export \<Rightarrow>
                  (case wasm_get_func_by_var m (export_var export) of
                     None \<Rightarrow> (None, ctx)
                   | Some func \<Rightarrow> check_invoke_args func args ctx)))"

definition check_get :: "WasmScript \<Rightarrow> WasmVar \<Rightarrow> WasmStringSlice \<Rightarrow> ValContext \<Rightarrow> WasmType option \<times> ValContext" where
  "check_get script module_var name ctx =
     (let (m, ok) = wasm_get_module_by_var script module_var; ctx = val_assert ok ctx
      in case m of
           None \<Rightarrow> (None, val_print_error ''unknown module'' [] ctx)
         | Some m \<Rightarrow>
             (case wasm_get_export_by_name m name of
                None \<Rightarrow> (None, val_print_error ''unknown global export %s'' [slice_arg name] ctx)
              | Some export \<Rightarrow>
                  (case wasm_get_global_by_var m (export_var export) of
                     None \<Rightarrow> (None, ctx)
                   | Some global \<Rightarrow> (Some (global_type global), ctx))))"

fun check_action :: "WasmScript \<Rightarrow> WasmAction \<Rightarrow> ValContext \<Rightarrow> ActionResult \<times> ValContext" where
  "check_action script (ActionInvoke module_var name args) ctx =
     (case check_invoke script module_var name args ctx of
        (Some types, ctx) \<Rightarrow> (ACTION_RESULT_TYPES types, ctx)
      | (None, ctx) \<Rightarrow> (ACTION_RESULT_ERROR, ctx))"
| "check_action script (ActionGet module_var name) ctx =
     (case check_get script module_var name ctx of
        (Some t, ctx) \<Rightarrow> (ACTION_RESULT_TYPE t, ctx)
      | (None, ctx) \<Rightarrow> (ACTION_RESULT_ERROR, ctx))"

subsection \<open>Commands and scripts\<close>

fun check_command :: "WasmScript \<Rightarrow> WasmCommand \<Rightarrow> val_step" where
  "check_command script (CommandModule m fs) ctx = check_module m fs ctx"
| "check_command script (CommandAction action) ctx = snd (check_action script action ctx)"
| "check_command script (CommandAssertReturn action expected) ctx =
     (case check_action script action ctx of
        (ACTION_RESULT_TYPES types, ctx) \<Rightarrow> check_const_types types expected ''action'' ctx
      | (ACTION_RESULT_TYPE t, ctx) \<Rightarrow> check_const_type t expected ''action'' ctx
      | (ACTION_RESULT_ERROR, ctx) \<Rightarrow> ctx)"
| "check_command script (CommandAssertReturnNan action) ctx =
     (case check_action script action ctx of
        (ACTION_RESULT_TYPES [t], ctx) \<Rightarrow>
          if t \<noteq> WASM_TYPE_ANY then check_assert_return_nan_type t ''action'' ctx else ctx
      | (ACTION_RESULT_TYPES types, ctx) \<Rightarrow>
          val_print_error ''expected 1 result, got %zd'' [ArgInt (int (length types))] ctx
      | (ACTION_RESULT_TYPE t, ctx) \<Rightarrow>
          if t \<noteq> WASM_TYPE_ANY then check_assert_return_nan_type t ''action'' ctx else ctx
      | (ACTION_RESULT_ERROR, ctx) \<Rightarrow> ctx)"
| "check_command script (CommandAssertTrap action txt) ctx = snd (check_action script action ctx)"
| "check_command script command ctx = ctx"

definition wasm_validate_script :: "WasmScript \<Rightarrow> ValContext" where
  "wasm_validate_script script = fold (check_command script) (script_commands script) (init_val_context empty_module)"

subsection \<open>Modules expected to be invalid\<close>

text \<open>\<open>on_read_binary_error\<close>: a reader error is reported with its offset, unless that is unknown.\<close>

definition on_read_binary_error :: "u32 \<times> string \<times> ErrorArg list \<Rightarrow> val_step" where
  "on_read_binary_error = (\<lambda>(off, format, args) ctx.
     if off = WASM_UNKNOWN_OFFSET then val_print_error (''error in binary module: '' @ format) args ctx
     else val_print_error (''error in binary module: @0x%08x: '' @ format) (ArgInt (uint off) # args) ctx)"

text \<open>A raw module as a module with its fields, when it can be read; \<open>junk\<close> is what fresh memory holds.\<close>

fun read_raw_module ::
    "WasmBindingHashEntry \<Rightarrow> WasmRawModule \<Rightarrow> ValContext \<Rightarrow> (WasmModule \<times> WasmModuleField list) option \<times> ValContext" where
  "read_raw_module junk (RawText m fs) ctx = (Some (m, fs), ctx)"
| "read_raw_module junk (RawBinary name bytes) ctx =
     (let opts = \<lparr>read_debug_names = False\<rparr>;
          (r, m, errors, ok) = wasm_read_binary_ast junk bytes opts;
          ctx = fold on_read_binary_error errors (val_assert ok ctx)
      in (case m of
            Some m \<Rightarrow> Some (m, ac_fields (snd (wasm_read_binary bytes s_binary_reader opts (init_ast_context junk))))
          | None \<Rightarrow> None, ctx))"

text \<open>\<open>check_raw_module\<close> replaces the result of the context by that of the resolution.\<close>

definition check_raw_module :: "WasmBindingHashEntry \<Rightarrow> WasmRawModule \<Rightarrow> val_step" where
  "check_raw_module junk raw ctx =
     (case read_raw_module junk raw ctx of
        (None, ctx) \<Rightarrow> ctx
      | (Some (m, fs), ctx) \<Rightarrow>
          (let (rctx, m, fs) = wasm_resolve_names_module m fs;
               ctx = val_assert (rc_defined rctx)
                       (ctx\<lparr>v_result := rc_result rctx, v_errors := v_errors ctx @ rc_errors rctx\<rparr>)
           in if rc_result rctx = WASM_OK then check_module m fs ctx else ctx))"

definition check_invalid_command :: "WasmBindingHashEntry \<Rightarrow> WasmCommand \<Rightarrow> val_step" where
  "check_invalid_command junk command ctx =
     (case command of
        CommandAssertInvalid raw _ \<Rightarrow>
          (let ctx2 = check_raw_module junk raw (init_val_context empty_module)
           in val_assert (v_defined ctx2)
                (if v_result ctx2 = WASM_OK then val_print_error ''expected module to be invalid'' [] ctx else ctx))
      | CommandAssertMalformed raw _ \<Rightarrow>
          (let ctx2 = snd (read_raw_module junk raw (init_val_context empty_module))
           in val_assert (v_defined ctx2)
                (if v_result ctx2 = WASM_OK then val_print_error ''expected module to be malformed'' [] ctx else ctx))
      | _ \<Rightarrow> ctx)"

definition wasm_validate_assert_invalid_and_malformed :: "WasmBindingHashEntry \<Rightarrow> WasmScript \<Rightarrow> ValContext" where
  "wasm_validate_assert_invalid_and_malformed junk script =
     fold (check_invalid_command junk) (script_commands script) (init_val_context empty_module)"


subsection \<open>Accepted scripts\<close>

lemma check_module_labels:
  assumes p: "plain_module m" "list_all (field_in_range m) fs" "v_labels ctx = []" and sane: "list_all (sane_field m) fs"
    and ok: "no_error (check_module m fs ctx)"
  shows "v_labels (check_module m fs ctx) = []" "no_error ctx"
proof -
  have valid: "module_valid m fs" by (rule check_module_sound [OF p sane ok])
  then show "no_error ctx" using check_module_accepts [OF p] ok by simp
  let ?ctx = "ctx\<lparr>v_module := m, v_table_index := 0, v_memory_index := 0, v_global_index := 0, v_num_imported_globals := 0\<rparr>"
  let ?c = "check_fields False fs ?ctx"
  have checked: "\<forall>pre f post. fs = pre @ f # post \<longrightarrow> field_checked m ([] @ pre) f" using valid by (simp add: module_valid_checked)
  have fields: "between_fields m fs ?c"
    using check_fields_accepts [OF p(1,2) between_start [OF p(3)] _ checked, of False] by simp
  have "check_elem_segments fs ?c = ?c" "check_data_segments fs ?c = ?c"
    using decides_elem_segments [OF p(1) fields, of fs] decides_data_segments [OF p(1) fields, of fs] valid
    by (simp_all add: decides_def module_valid_checked)
  then show "v_labels (check_module m fs ctx) = []" using fields by (simp add: check_module_def Let_def between_fields_def)
qed

text \<open>The other commands leave the labels alone, and no command clears an error.\<close>

lemma labels_print [simp]: "v_labels (val_print_error format args ctx) = v_labels ctx" "v_labels (val_assert b ctx) = v_labels ctx"
  by (simp_all add: val_print_error_def val_assert_def)

lemma labels_indices [simp]: "v_labels (check_type_indices i ts us desc kind ctx) = v_labels ctx"
  by (induction i ts us desc kind ctx rule: check_type_indices.induct) (simp_all add: check_type_index_def)

lemma action_labels [simp]: "v_labels (snd (check_action script action ctx)) = v_labels ctx"
  by (cases action) (auto simp: check_invoke_def check_get_def check_invoke_args_def Let_def split: prod.splits option.splits)

lemma action_strict: "no_error (snd (check_action script action ctx)) \<Longrightarrow> no_error ctx"
  by (cases action) (auto simp: check_invoke_def check_get_def check_invoke_args_def Let_def
      split: prod.splits option.splits if_splits dest: strict_indices)

lemma const_types_labels [simp]:
  "v_labels (check_const_types ts cs desc ctx) = v_labels ctx" "v_labels (check_const_type t cs desc ctx) = v_labels ctx"
  "v_labels (check_assert_return_nan_type t desc ctx) = v_labels ctx"
  by (simp_all add: check_const_types_def check_const_type_def check_assert_return_nan_type_def)

lemma const_types_strict:
  "no_error (check_const_types ts cs desc ctx) \<Longrightarrow> no_error ctx" "no_error (check_const_type t cs desc ctx) \<Longrightarrow> no_error ctx"
  "no_error (check_assert_return_nan_type t desc ctx) \<Longrightarrow> no_error ctx"
  by (auto simp: check_const_types_def check_const_type_def check_assert_return_nan_type_def split: if_splits dest: strict_indices)

lemma command_labels:
  assumes "\<forall>m fs. command \<noteq> CommandModule m fs"
  shows "v_labels (check_command script command ctx) = v_labels ctx"
    "no_error (check_command script command ctx) \<Longrightarrow> no_error ctx"
proof -
  show "v_labels (check_command script command ctx) = v_labels ctx"
  proof (cases command)
    case (CommandAssertReturn action expected)
    then show ?thesis using action_labels [of script action ctx]
      by (cases "check_action script action ctx") (simp split: ActionResult.splits)
  next
    case (CommandAssertReturnNan action)
    then show ?thesis using action_labels [of script action ctx]
      by (cases "check_action script action ctx") (simp split: ActionResult.splits list.splits)
  qed (use assms in simp_all)
  show "no_error ctx" if ok: "no_error (check_command script command ctx)"
  proof (cases command)
    case (CommandAssertReturn action expected)
    then show ?thesis using ok action_strict [of script action ctx]
      by (cases "check_action script action ctx") (auto split: ActionResult.splits dest: const_types_strict)
  next
    case (CommandAssertReturnNan action)
    then show ?thesis using ok action_strict [of script action ctx]
      by (cases "check_action script action ctx") (auto split: ActionResult.splits list.splits if_splits dest: const_types_strict)
  qed (use assms ok action_strict in auto)
qed

definition sane_module :: "WasmModule \<Rightarrow> WasmModuleField list \<Rightarrow> bool" where
  "sane_module m fs \<longleftrightarrow> plain_module m \<and> list_all (field_in_range m) fs \<and> list_all (sane_field m) fs"

lemma strict_check_module: "no_error (check_module m fs ctx) \<Longrightarrow> no_error ctx"
  by (auto simp: check_module_def Let_def no_error_def dest!: strict_segments [unfolded no_error_def] strict_check_fields [unfolded no_error_def])

lemma strict_command: "no_error (check_command script command ctx) \<Longrightarrow> no_error ctx"
  by (cases "\<exists>m fs. command = CommandModule m fs") (auto dest: strict_check_module command_labels(2))

lemma strict_commands: "no_error (fold (check_command script) commands ctx) \<Longrightarrow> no_error ctx"
  by (induction commands arbitrary: ctx) (auto dest: strict_command)

lemma commands_sound:
  assumes "\<forall>m fs. CommandModule m fs \<in> set commands \<longrightarrow> sane_module m fs"
    and "v_labels ctx = []" "no_error (fold (check_command script) commands ctx)"
  shows "\<forall>m fs. CommandModule m fs \<in> set commands \<longrightarrow> module_valid m fs"
  using assms
proof (induction commands arbitrary: ctx)
  case (Cons command commands)
  have ok: "no_error (check_command script command ctx)" using Cons.prems(3) by (auto dest: strict_commands)
  show ?case
  proof (cases "\<exists>m fs. command = CommandModule m fs")
    case True
    then obtain m fs where c: "command = CommandModule m fs" by blast
    then have sane: "plain_module m" "list_all (field_in_range m) fs" "list_all (sane_field m) fs"
      using Cons.prems(1) by (auto simp: sane_module_def)
    have ok': "no_error (check_module m fs ctx)" using ok c by simp
    have valid: "module_valid m fs" by (rule check_module_sound [OF sane(1,2) Cons.prems(2) sane(3) ok'])
    have "v_labels (check_module m fs ctx) = []" by (rule check_module_labels(1) [OF sane(1,2) Cons.prems(2) sane(3) ok'])
    from Cons.IH [OF _ this] Cons.prems(1,3) c valid show ?thesis by auto
  next
    case False
    then have "v_labels (check_command script command ctx) = []" using command_labels(1) [of command script ctx] Cons.prems(2) by auto
    from Cons.IH [OF _ this] Cons.prems(1,3) False show ?thesis by auto
  qed
qed simp

lemma validated_script_modules:
  assumes "\<forall>m fs. CommandModule m fs \<in> set (script_commands script) \<longrightarrow> sane_module m fs"
    "no_error (wasm_validate_script script)" "CommandModule m fs \<in> set (script_commands script)"
  shows "module_valid m fs"
  using commands_sound [OF assms(1) _ assms(2) [unfolded wasm_validate_script_def]] assms(3) by (simp add: init_val_context_def)

end
