(* ===== verification/Wabt_Apply_Names.thy ===== *)
theory Wabt_Apply_Names
  imports Wabt_Visitor Wabt_Reader_Ast
begin

text \<open>
  Name application (\<^verbatim>\<open>apply-names.c\<close>): every index that stands for a named item is replaced by
  the name. The vector of labels has its top at the head. \<open>ap_defined\<close> is cleared where an
  assertion fails or a NULL label is compared.
\<close>

record ApplyContext =
  ap_module :: WasmModule
  ap_func :: "WasmFunc option"
  ap_param_names :: "WasmStringSlice list"
  ap_local_names :: "WasmStringSlice list"
  ap_labels :: "WasmLabel list"
  ap_defined :: bool

definition ap_assert :: "bool \<Rightarrow> ApplyContext \<Rightarrow> ApplyContext" where
  "ap_assert b ctx = (if b then ctx else ctx\<lparr>ap_defined := False\<rparr>)"

text \<open>The label a variable refers to; \<open>None\<close> is NULL.\<close>

fun ap_find_label_by_var :: "ApplyContext \<Rightarrow> WasmVar \<Rightarrow> WasmLabel option" where
  "ap_find_label_by_var ctx (VarName name) = List.find (\<lambda>label. wasm_string_slices_are_equal label name) (ap_labels ctx)"
| "ap_find_label_by_var ctx (VarIndex index) =
     (if sint index < 0 \<or> nat (sint index) \<ge> length (ap_labels ctx) then None
      else Some (ap_labels ctx ! nat (sint index)))"

definition use_name_for_var :: "WasmStringSlice option \<Rightarrow> WasmVar \<Rightarrow> ApplyContext \<Rightarrow> WasmVar \<times> ApplyContext" where
  "use_name_for_var name var ctx =
     (let ctx = ap_assert (case (var, name) of
            (VarName n, Some name) \<Rightarrow> wasm_string_slices_are_equal name n
          | (VarName n, None) \<Rightarrow> False
          | _ \<Rightarrow> True) ctx
      in (case name of Some (Some bytes) \<Rightarrow> VarName (wasm_dup_string_slice (Some bytes)) | _ \<Rightarrow> var, ctx))"

definition use_name_of_item :: "'a option \<Rightarrow> ('a \<Rightarrow> WasmStringSlice) \<Rightarrow> WasmVar \<Rightarrow> ApplyContext \<Rightarrow> WasmResult \<times> WasmVar \<times> ApplyContext" where
  "use_name_of_item item name_of var ctx =
     (case item of
        None \<Rightarrow> (WASM_ERROR, var, ctx)
      | Some x \<Rightarrow> (WASM_OK, use_name_for_var (Some (name_of x)) var ctx))"

definition use_name_for_func_type_var :: "WasmVar \<Rightarrow> ApplyContext \<Rightarrow> WasmResult \<times> WasmVar \<times> ApplyContext" where
  "use_name_for_func_type_var var ctx = use_name_of_item (wasm_get_func_type_by_var (ap_module ctx) var) ft_name var ctx"

definition use_name_for_func_var :: "WasmVar \<Rightarrow> ApplyContext \<Rightarrow> WasmResult \<times> WasmVar \<times> ApplyContext" where
  "use_name_for_func_var var ctx = use_name_of_item (wasm_get_func_by_var (ap_module ctx) var) func_name var ctx"

definition use_name_for_global_var :: "WasmVar \<Rightarrow> ApplyContext \<Rightarrow> WasmResult \<times> WasmVar \<times> ApplyContext" where
  "use_name_for_global_var var ctx = use_name_of_item (wasm_get_global_by_var (ap_module ctx) var) global_name var ctx"

definition use_name_for_table_var :: "WasmVar \<Rightarrow> ApplyContext \<Rightarrow> WasmResult \<times> WasmVar \<times> ApplyContext" where
  "use_name_for_table_var var ctx = use_name_of_item (wasm_get_table_by_var (ap_module ctx) var) table_name var ctx"

definition use_name_for_memory_var :: "WasmVar \<Rightarrow> ApplyContext \<Rightarrow> WasmResult \<times> WasmVar \<times> ApplyContext" where
  "use_name_for_memory_var var ctx = use_name_of_item (wasm_get_memory_by_var (ap_module ctx) var) memory_name var ctx"

definition use_name_for_param_and_local_var :: "WasmVar \<Rightarrow> ApplyContext \<Rightarrow> WasmResult \<times> WasmVar \<times> ApplyContext" where
  "use_name_for_param_and_local_var var ctx =
     (let func = the (ap_func ctx);
          local_index = wasm_get_local_index_by_var func var
      in if local_index < 0 \<or> nat local_index \<ge> wasm_get_num_params_and_locals func then (WASM_ERROR, var, ctx)
         else
           (let num_params = wasm_get_num_params func;
                (names, i) = (if nat local_index < num_params then (ap_param_names ctx, nat local_index)
                              else (ap_local_names ctx, nat local_index - num_params));
                ctx = ap_assert (i < length names) ctx;
                name = names ! i
            in case var of
                 VarName n \<Rightarrow> (WASM_OK, var, ap_assert (wasm_string_slices_are_equal name n) ctx)
               | VarIndex _ \<Rightarrow>
                   (case name of
                      Some bytes \<Rightarrow> (WASM_OK, VarName (wasm_dup_string_slice (Some bytes)), ctx)
                    | None \<Rightarrow> (WASM_OK, var, ctx))))"

text \<open>The callbacks.\<close>

definition ap_push_label :: "WasmLabel \<Rightarrow> ApplyContext \<Rightarrow> ApplyContext" where
  "ap_push_label label ctx = ctx\<lparr>ap_labels := label # ap_labels ctx\<rparr>"

fun ap_begin_expr :: "WasmExpr \<Rightarrow> ApplyContext \<Rightarrow> WasmResult \<times> WasmLabel \<times> ApplyContext" where
  "ap_begin_expr (Block label sig es) ctx = (WASM_OK, label, ap_push_label label ctx)"
| "ap_begin_expr (Loop label sig es) ctx = (WASM_OK, label, ap_push_label label ctx)"
| "ap_begin_expr (If label sig true_es false_es) ctx = (WASM_OK, label, ap_push_label label ctx)"
| "ap_begin_expr _ ctx = (WASM_OK, None, ctx)"

definition ap_end_expr :: "WasmExpr \<Rightarrow> ApplyContext \<Rightarrow> WasmResult \<times> ApplyContext" where
  "ap_end_expr expr ctx = (WASM_OK, ctx\<lparr>ap_labels := tl (ap_labels ctx)\<rparr>)"

definition use_label_name :: "WasmVar \<Rightarrow> ApplyContext \<Rightarrow> WasmVar \<times> ApplyContext" where
  "use_label_name var ctx = use_name_for_var (ap_find_label_by_var ctx var) var ctx"

fun ap_on_expr :: "WasmExpr \<Rightarrow> ApplyContext \<Rightarrow> WasmResult \<times> WasmExpr \<times> ApplyContext" where
  "ap_on_expr (Br var) ctx = (let (var, ctx) = use_label_name var ctx in (WASM_OK, Br var, ctx))"
| "ap_on_expr (BrIf var) ctx = (let (var, ctx) = use_label_name var ctx in (WASM_OK, BrIf var, ctx))"
| "ap_on_expr (BrTable targets default_target) ctx =
     (let (targets, ctx) = map_state use_label_name targets ctx;
          (default_target, ctx) = use_label_name default_target ctx
      in (WASM_OK, BrTable targets default_target, ctx))"
| "ap_on_expr (Call var) ctx = (let (r, var, ctx) = use_name_for_func_var var ctx in (r, Call var, ctx))"
| "ap_on_expr (CallIndirect var) ctx = (let (r, var, ctx) = use_name_for_func_type_var var ctx in (r, CallIndirect var, ctx))"
| "ap_on_expr (GetGlobal var) ctx = (let (r, var, ctx) = use_name_for_global_var var ctx in (r, GetGlobal var, ctx))"
| "ap_on_expr (GetLocal var) ctx = (let (r, var, ctx) = use_name_for_param_and_local_var var ctx in (r, GetLocal var, ctx))"
| "ap_on_expr (SetGlobal var) ctx = (let (r, var, ctx) = use_name_for_global_var var ctx in (r, SetGlobal var, ctx))"
| "ap_on_expr (SetLocal var) ctx = (let (r, var, ctx) = use_name_for_param_and_local_var var ctx in (r, SetLocal var, ctx))"
| "ap_on_expr (TeeLocal var) ctx = (let (r, var, ctx) = use_name_for_param_and_local_var var ctx in (r, TeeLocal var, ctx))"
| "ap_on_expr expr ctx = (WASM_OK, expr, ctx)"

definition apply_visitor :: "ApplyContext WasmExprVisitor" where
  "apply_visitor = \<lparr>vis_on = ap_on_expr, vis_begin = ap_begin_expr,
     vis_after_if_true = (\<lambda>expr ctx. (WASM_OK, ctx)), vis_end = ap_end_expr\<rparr>"

subsection \<open>Functions and modules\<close>

definition ap_visit_func :: "WasmFunc \<Rightarrow> ApplyContext \<Rightarrow> WasmResult \<times> WasmFunc \<times> ApplyContext" where
  "ap_visit_func func ctx =
     (let ctx = ctx\<lparr>ap_func := Some func\<rparr>;
          decl = func_decl func;
          (r, decl, ctx) = (if has_func_type decl
             then (let (r, var, ctx) = use_name_for_func_type_var (type_var decl) ctx in (r, decl\<lparr>type_var := var\<rparr>, ctx))
             else (WASM_OK, decl, ctx))
      in if r = WASM_ERROR then (WASM_ERROR, func\<lparr>func_decl := decl\<rparr>, ctx)
         else
           (let ctx = ctx\<lparr>ap_param_names := wasm_make_type_binding_reverse_mapping (param_types (decl_sig decl)) (param_bindings func),
                          ap_local_names := wasm_make_type_binding_reverse_mapping (local_types func) (local_bindings func)\<rparr>;
                (r, func, ctx) = wasm_visit_func apply_visitor (func\<lparr>func_decl := decl\<rparr>) ctx
            in if r = WASM_ERROR then (WASM_ERROR, func, ctx) else (WASM_OK, func, ctx\<lparr>ap_func := None\<rparr>)))"

text \<open>\<open>visit_export\<close> takes the variable of every export for that of a function, and ignores the result.\<close>

definition ap_visit_export :: "WasmExport \<Rightarrow> ApplyContext \<Rightarrow> WasmResult \<times> WasmExport \<times> ApplyContext" where
  "ap_visit_export export ctx =
     (let (_, var, ctx) = use_name_for_func_var (export_var export) ctx in (WASM_OK, export\<lparr>export_var := var\<rparr>, ctx))"

text \<open>A loop with \<open>CHECK_RESULT\<close>: it stops at the first error.\<close>

fun map_check :: "('a \<Rightarrow> 's \<Rightarrow> WasmResult \<times> 'a \<times> 's) \<Rightarrow> 'a list \<Rightarrow> 's \<Rightarrow> WasmResult \<times> 'a list \<times> 's" where
  "map_check f [] s = (WASM_OK, [], s)"
| "map_check f (x # xs) s =
     (case f x s of
        (WASM_ERROR, x, s) \<Rightarrow> (WASM_ERROR, x # xs, s)
      | (WASM_OK, x, s) \<Rightarrow> (case map_check f xs s of (r, xs, s) \<Rightarrow> (r, x # xs, s)))"

definition ap_visit_elem_segment :: "WasmElemSegment \<Rightarrow> ApplyContext \<Rightarrow> WasmResult \<times> WasmElemSegment \<times> ApplyContext" where
  "ap_visit_elem_segment segment ctx =
     (case use_name_for_table_var (elem_table_var segment) ctx of
        (WASM_ERROR, var, ctx) \<Rightarrow> (WASM_ERROR, segment\<lparr>elem_table_var := var\<rparr>, ctx)
      | (WASM_OK, var, ctx) \<Rightarrow>
          (case map_check use_name_for_func_var (elem_vars segment) ctx of
             (r, vars, ctx) \<Rightarrow> (r, segment\<lparr>elem_table_var := var, elem_vars := vars\<rparr>, ctx)))"

definition ap_visit_data_segment :: "WasmDataSegment \<Rightarrow> ApplyContext \<Rightarrow> WasmResult \<times> WasmDataSegment \<times> ApplyContext" where
  "ap_visit_data_segment segment ctx =
     (case use_name_for_memory_var (data_memory_var segment) ctx of
        (r, var, ctx) \<Rightarrow> (r, segment\<lparr>data_memory_var := var\<rparr>, ctx))"

text \<open>The four loops of \<open>visit_module\<close>; an error leaves what the loops before it have changed.\<close>

definition ap_visit_module :: "WasmModule \<Rightarrow> ApplyContext \<Rightarrow> WasmResult \<times> WasmModule \<times> ApplyContext" where
  "ap_visit_module m ctx =
     (case map_check ap_visit_func (funcs m) ctx of
        (r, fs, ctx) \<Rightarrow>
     (let m = m\<lparr>funcs := fs, imports_vec := sync_imports (imports_vec m) fs (globals m)\<rparr>
      in if r = WASM_ERROR then (WASM_ERROR, m, ctx) else
     (case map_check ap_visit_export (exports m) ctx of
        (r, exs, ctx) \<Rightarrow>
     (let m = m\<lparr>exports := exs\<rparr>
      in if r = WASM_ERROR then (WASM_ERROR, m, ctx) else
     (case map_check ap_visit_elem_segment (elem_segments m) ctx of
        (r, elems, ctx) \<Rightarrow>
     (let m = m\<lparr>elem_segments := elems\<rparr>
      in if r = WASM_ERROR then (WASM_ERROR, m, ctx) else
     (case map_check ap_visit_data_segment (data_segments m) ctx of
        (r, datas, ctx) \<Rightarrow> (r, m\<lparr>data_segments := datas\<rparr>, ctx))))))))"

definition wasm_apply_names :: "WasmModule \<Rightarrow> WasmResult \<times> WasmModule \<times> bool" where
  "wasm_apply_names m =
     (case ap_visit_module m
             \<lparr>ap_module = m, ap_func = None, ap_param_names = [], ap_local_names = [], ap_labels = [], ap_defined = True\<rparr> of
        (r, m, ctx) \<Rightarrow> (r, m, ap_defined ctx))"

end
