(* ===== verification/Wabt_Generate_Names.thy ===== *)
theory Wabt_Generate_Names
  imports Wabt_Visitor Wabt_Reader_Ast
begin

text \<open>
  Name generation (\<^verbatim>\<open>generate-names.c\<close>): every item without a name is given one, made of a
  prefix for its kind and its index, and bound to that index. \<open>None\<close> is a failed assertion of
  the name tables; \<open>junk\<close> is what fresh hash entries hold.
\<close>

subsection \<open>The pass\<close>

definition has_name :: "WasmStringSlice \<Rightarrow> bool" where
  "has_name str \<longleftrightarrow> length (slice_bytes str) > 0"

text \<open>\<open>%u\<close>: the decimal digits.\<close>

fun decimal :: "nat \<Rightarrow> byte list" where
  "decimal n = (if n < 10 then [word_of_nat (48 + n)] else decimal (n div 10) @ [word_of_nat (48 + n mod 10)])"

declare decimal.simps [simp del]

definition generated :: "string \<Rightarrow> u32 \<Rightarrow> byte list" where
  "generated prefix index = cstr prefix @ decimal (unat index)"

definition generate_name :: "string \<Rightarrow> u32 \<Rightarrow> WasmStringSlice" where
  "generate_name prefix index = wasm_dup_string_slice (Some (generated prefix index))"

definition maybe_generate_name :: "string \<Rightarrow> u32 \<Rightarrow> WasmStringSlice \<Rightarrow> WasmStringSlice" where
  "maybe_generate_name prefix index str = (if \<not> has_name str then generate_name prefix index else str)"

definition generate_and_bind_name ::
    "WasmBindingHashEntry \<Rightarrow> WasmBindingHash \<Rightarrow> string \<Rightarrow> u32 \<Rightarrow> (WasmStringSlice \<times> WasmBindingHash) option" where
  "generate_and_bind_name junk bindings prefix index =
     (let str = generate_name prefix index
      in case wasm_insert_binding junk bindings str of
           None \<Rightarrow> None
         | Some (bindings, entry) \<Rightarrow> Some (str, set_binding_index bindings entry (sint index)))"

definition maybe_generate_and_bind_name ::
    "WasmBindingHashEntry \<Rightarrow> WasmBindingHash \<Rightarrow> string \<Rightarrow> u32 \<Rightarrow> WasmStringSlice \<Rightarrow> (WasmStringSlice \<times> WasmBindingHash) option" where
  "maybe_generate_and_bind_name junk bindings prefix index str =
     (if \<not> has_name str then generate_and_bind_name junk bindings prefix index else Some (str, bindings))"

text \<open>
  The loops over the items of one kind and over the names of parameters and locals
  (\<open>generate_and_bind_local_names\<close>): the names from position \<open>i\<close> on, and the table.
\<close>

fun name_all ::
    "WasmBindingHashEntry \<Rightarrow> string \<Rightarrow> nat \<Rightarrow> WasmStringSlice list \<Rightarrow> WasmBindingHash \<Rightarrow> (WasmStringSlice list \<times> WasmBindingHash) option" where
  "name_all junk prefix i [] bindings = Some ([], bindings)"
| "name_all junk prefix i (str # strs) bindings =
     (case maybe_generate_and_bind_name junk bindings prefix (u32_of_nat i) str of
        None \<Rightarrow> None
      | Some (str, bindings) \<Rightarrow>
          (case name_all junk prefix (Suc i) strs bindings of
             None \<Rightarrow> None
           | Some (strs, bindings) \<Rightarrow> Some (str # strs, bindings)))"

text \<open>The labels: the visitor's context is the label count.\<close>

fun gn_begin_expr :: "WasmExpr \<Rightarrow> u32 \<Rightarrow> WasmResult \<times> WasmLabel \<times> u32" where
  "gn_begin_expr (Block label sig es) label_count = (WASM_OK, maybe_generate_name ''$B'' label_count label, label_count + 1)"
| "gn_begin_expr (Loop label sig es) label_count = (WASM_OK, maybe_generate_name ''$L'' label_count label, label_count + 1)"
| "gn_begin_expr (If label sig true_es false_es) label_count =
     (WASM_OK, maybe_generate_name ''$L'' label_count label, label_count + 1)"
| "gn_begin_expr _ label_count = (WASM_OK, None, label_count)"

definition generate_visitor :: "u32 WasmExprVisitor" where
  "generate_visitor = \<lparr>vis_on = (\<lambda>expr u. (WASM_OK, expr, u)), vis_begin = gn_begin_expr,
     vis_after_if_true = (\<lambda>expr u. (WASM_OK, u)), vis_end = (\<lambda>expr u. (WASM_OK, u))\<rparr>"

text \<open>\<open>visit_func\<close> after the name of the function itself: parameters, locals, labels.\<close>

definition gn_visit_func :: "WasmBindingHashEntry \<Rightarrow> WasmFunc \<Rightarrow> WasmFunc option" where
  "gn_visit_func junk func =
     (case name_all junk ''$p'' 0
             (wasm_make_type_binding_reverse_mapping (param_types (decl_sig (func_decl func))) (param_bindings func))
             (param_bindings func) of
        None \<Rightarrow> None
      | Some (_, params) \<Rightarrow>
          (case name_all junk ''$l'' 0
                  (wasm_make_type_binding_reverse_mapping (local_types func) (local_bindings func)) (local_bindings func) of
             None \<Rightarrow> None
           | Some (_, locals) \<Rightarrow>
               (case wasm_visit_func generate_visitor (func\<lparr>param_bindings := params, local_bindings := locals\<rparr>) 0 of
                  (r, func, _) \<Rightarrow> Some func)))"

text \<open>Tables and memories are shared with the imports too.\<close>

fun sync_table_memory_imports :: "WasmImport list \<Rightarrow> WasmTable list \<Rightarrow> WasmMemory list \<Rightarrow> WasmImport list" where
  "sync_table_memory_imports [] ts ms = []"
| "sync_table_memory_imports (import # ims) ts ms =
     (case (import_desc import, ts, ms) of
        (ImportTable _, t # ts, ms) \<Rightarrow> import\<lparr>import_desc := ImportTable t\<rparr> # sync_table_memory_imports ims ts ms
      | (ImportMemory _, ts, m # ms) \<Rightarrow> import\<lparr>import_desc := ImportMemory m\<rparr> # sync_table_memory_imports ims ts ms
      | _ \<Rightarrow> import # sync_table_memory_imports ims ts ms)"

definition wasm_generate_names :: "WasmBindingHashEntry \<Rightarrow> WasmModule \<Rightarrow> WasmModule option" where
  "wasm_generate_names junk m =
     (case name_all junk ''$g'' 0 (map global_name (globals m)) (global_bindings m) of None \<Rightarrow> None
      | Some (gnames, gb) \<Rightarrow>
     (case name_all junk ''$t'' 0 (map ft_name (func_types m)) (func_type_bindings m) of None \<Rightarrow> None
      | Some (tnames, tb) \<Rightarrow>
     (case name_all junk ''$f'' 0 (map func_name (funcs m)) (func_bindings m) of None \<Rightarrow> None
      | Some (fnames, fb) \<Rightarrow>
     (case those (map (gn_visit_func junk) (map2 (\<lambda>f n. f\<lparr>func_name := n\<rparr>) (funcs m) fnames)) of None \<Rightarrow> None
      | Some fs \<Rightarrow>
     (case name_all junk ''$T'' 0 (map table_name (tables m)) (table_bindings m) of None \<Rightarrow> None
      | Some (Tnames, Tb) \<Rightarrow>
     (case name_all junk ''$M'' 0 (map memory_name (memories m)) (memory_bindings m) of None \<Rightarrow> None
      | Some (Mnames, Mb) \<Rightarrow>
          (let gs = map2 (\<lambda>g n. g\<lparr>global_name := n\<rparr>) (globals m) gnames;
               ts = map2 (\<lambda>t n. t\<lparr>table_name := n\<rparr>) (tables m) Tnames;
               ms = map2 (\<lambda>mem n. mem\<lparr>memory_name := n\<rparr>) (memories m) Mnames
           in Some (m\<lparr>globals := gs, global_bindings := gb,
                func_types := map2 (\<lambda>t n. t\<lparr>ft_name := n\<rparr>) (func_types m) tnames, func_type_bindings := tb,
                funcs := fs, func_bindings := fb, tables := ts, table_bindings := Tb, memories := ms, memory_bindings := Mb,
                imports_vec := sync_table_memory_imports (sync_imports (imports_vec m) fs gs) ts ms\<rparr>))))))))"

end
