(* ===== verification/Wabt_Findings_Text.thy ===== *)
theory Wabt_Findings_Text
  imports Wabt_Literal Wabt_Findings Wabt_Script Wabt_Apply_Names Wabt_Generate_Names Wabt_Resolved_Valid
begin

text \<open>
  Literals, names and programs on which the text side of the toolkit does not do what it means to,
  evaluated on the model.
\<close>

subsection \<open>Literals\<close>

lemmas literal_defs = parse_float_hex_def parse_hex_def read_exponent_def skip_sign_def take_sign_def cstr_def F32_def
  wasm_parse_hexdigit_def char_distance_def HEX_DIGIT_BITS_def encode_hex_def make_bits_def shift_and_round_to_nearest_def clz_def

text \<open>The letter g is taken for a digit, and a value of 17 hexadecimal digits does not overflow.\<close>

lemma g_is_a_digit: "wasm_parse_hexdigit (chr CHR ''g'') = Some 16"
  by (simp add: wasm_parse_hexdigit_def char_distance_def)

lemma overflow_missed: "wasm_parse_uint64 (cstr ''0x11111111111111111'') = Parsed 0x1111111111111111"
  by (simp add: wasm_parse_uint64_def cstr_def wasm_parse_hexdigit_def char_distance_def Let_def)

text \<open>\<open>0x1.01010101p0\<close> loses its leading one: it is read as \<open>0x0.01010101p0\<close>.\<close>

lemma leading_one_lost: "parse_float_hex (cstr ''0x1.01010101p0'') = Parsed 0x3b808080"
  by (simp add: literal_defs bit_width.simps Let_def)

text \<open>\<open>0x1p-1490\<close> is not zero, since the exponent is cut at \<open>-149\<close>.\<close>

lemma exponent_cut: "parse_float_hex (cstr ''0x1p-1490'') = parse_float_hex (cstr ''0x1p-149'')" "parse_float_hex (cstr ''0x1p-1490'') = Parsed 1"
  by (simp_all add: literal_defs bit_width.simps Let_def)

text \<open>
  Rounding: the digits beyond the seventh are dropped before a tie is broken, and a subnormal
  \<open>2.75\<close> is rounded to \<open>2\<close>. Rounding up to the smallest normal number fails an assertion.
\<close>

lemma sticky_bits_dropped: "parse_float_hex (cstr ''0x1.0000011p0'') = Parsed 0x3f800000"
  by (simp add: literal_defs bit_width.simps Let_def)

lemma rounds_down: "parse_float_hex (cstr ''0x1.6p-148'') = Parsed 2"
  by (simp add: literal_defs bit_width.simps Let_def)

lemma rounding_asserts: "parse_float_hex (cstr ''0x1.ffffffp-127'') = Undefined"
  by (simp add: literal_defs bit_width.simps Let_def)

text \<open>The lexer takes \<open>inf\<close> for an infinity, on which the assertion fails.\<close>

lemma inf_asserts: "parse_float_infinity (cstr ''inf'') = Undefined" "parse_double_infinity (cstr ''inf'') = Undefined"
  by (simp_all add: parse_float_infinity_def parse_double_infinity_def parse_infinity_def skip_sign_def take_sign_def cstr_def)

subsection \<open>The validator\<close>

text \<open>A module with one table, one type and one function with a given body.\<close>

definition module_with :: "WasmExpr list \<Rightarrow> WasmModule" where
  "module_with es = empty_module
     \<lparr>funcs := [\<lparr>func_name = None, func_decl = \<lparr>has_func_type = True, type_var = VarIndex 0,
          decl_sig = \<lparr>param_types = [], result_types = []\<rparr>\<rparr>, local_types = [WASM_TYPE_I32],
          param_bindings = empty_hash, local_bindings = empty_hash, first_expr = es\<rparr>],
      func_types := [\<lparr>ft_name = None, ft_sig = \<lparr>param_types = [], result_types = []\<rparr>\<rparr>],
      tables := [\<lparr>table_name = None, elem_limits = \<lparr>limits_initial = 0, limits_max = 0, limits_has_max = False\<rparr>\<rparr>]\<rparr>"

text \<open>Whether the module is accepted, and whether no assertion failed.\<close>

definition verdict :: "WasmModule \<Rightarrow> WasmModuleField list \<Rightarrow> bool \<times> bool" where
  "verdict m fs = (let ctx = check_module m fs (init_val_context m) in (v_result ctx = WASM_OK, v_defined ctx))"

abbreviation body_verdict :: "WasmExpr list \<Rightarrow> bool \<times> bool" where
  "body_verdict es \<equiv> verdict (module_with es) [FieldFunc 0]"

text \<open>\<open>tee_local\<close> of a value of the wrong type; the test of the stack limit is inverted.\<close>

lemma tee_local_unchecked: "body_verdict [Const (ConstF32 0), TeeLocal (VarIndex 0), Drop] = (True, True)"
  by code_simp

text \<open>\<open>call_indirect\<close> takes its index from an empty stack.\<close>

lemma call_indirect_underflow: "body_verdict [CallIndirect (VarIndex 0)] = (True, True)"
  by code_simp+

text \<open>What follows an unconditional transfer is not looked at, not even the index of a call.\<close>

lemma dead_code_unchecked: "body_verdict [Unreachable, Call (VarIndex 99)] = (True, True)"
  by code_simp

text \<open>The index of a local is cut to 32 bits.\<close>

lemma local_index_cut: "body_verdict [GetLocal (VarIndex 4294967296), Drop] = (True, True)"
  by code_simp

subsection \<open>Names\<close>

text \<open>Two start fields with a name: the first one keeps it, and the validator's assertion fails.\<close>

definition two_starts :: "WasmModule \<times> WasmModuleField list" where
  "two_starts =
     ((module_with [])\<lparr>start := Some (VarName (Some [0x66])),
        func_bindings := the (add_binding sample_junk empty_hash [0x66] 0)\<rparr>,
      [FieldFunc 0, FieldStart (VarName (Some [0x66])), FieldStart (VarName (Some [0x66]))])"

lemma second_start_unresolved:
  "(case wasm_resolve_names_module (fst two_starts) (snd two_starts) of
      (ctx, m, fs) \<Rightarrow> (rc_result ctx = WASM_OK \<and> rc_defined ctx, snd (verdict m fs))) = (True, False)"
  by code_simp

text \<open>A global initialised by a named local: \<open>current_func\<close> is NULL.\<close>

lemma local_in_global:
  "rc_defined (fst (wasm_resolve_names_module
     (empty_module\<lparr>globals := [\<lparr>global_name = None, global_type = WASM_TYPE_I32, global_mutable = False,
        global_init_expr = [GetLocal (VarName (Some [0x78]))]\<rparr>]\<rparr>) [])) = False"
  by code_simp

text \<open>A function called \<open>$f1\<close> in front of one without a name: both are called \<open>$f1\<close> in the end.\<close>

definition clashing_names :: WasmModule where
  "clashing_names =
     (let f = funcs (module_with []) ! 0
      in (module_with [])\<lparr>funcs := [f\<lparr>func_name := Some (cstr ''$f1'')\<rparr>, f],
           func_bindings := the (add_binding sample_junk empty_hash (cstr ''$f1'') 0)\<rparr>)"

lemma generated_name_clashes:
  "(case wasm_generate_names sample_junk clashing_names of
      None \<Rightarrow> None
    | Some m \<Rightarrow> Some (map func_name (funcs m), rc_result (fst (wasm_resolve_names_module m [])))) =
   Some ([Some (cstr ''$f1''), Some (cstr ''$f1'')], WASM_ERROR)"
  by code_simp

text \<open>The export of a memory is given the name of the function of the same index.\<close>

lemma export_takes_function_name:
  "map export_var (exports (fst (snd (wasm_apply_names (clashing_names
     \<lparr>exports := [\<lparr>export_name = None, export_kind = WASM_EXTERNAL_KIND_MEMORY, export_var = VarIndex 0\<rparr>]\<rparr>)))))
   = [VarName (Some (cstr ''$f1''))]"
  by code_simp

text \<open>Two blocks of the same name: a branch to the outer one is made a branch to the inner one.\<close>

lemma shadowed_label_renamed:
  "(case wasm_apply_names (module_with [Block (Some [0x61]) [] [Block (Some [0x61]) [] [Br (VarIndex 1)]]]) of
      (_, m, _) \<Rightarrow> (case wasm_resolve_names_module m [] of (_, m, _) \<Rightarrow> first_expr (funcs m ! 0)))
   = [Block (Some [0x61]) [] [Block (Some [0x61]) [] [Br (VarIndex 0)]]]"
  by code_simp

end
