(* ===== verification/Wabt_Names_Round.thy ===== *)
theory Wabt_Names_Round
  imports Wabt_Resolve_Correct Wabt_Apply_Names
begin

text \<open>
  Applying names and resolving them again gives the module back, when the names lead to the items
  that bear them.
\<close>

subsection \<open>Names that lead back\<close>

definition names_bound :: "WasmStringSlice list \<Rightarrow> WasmBindingHash \<Rightarrow> bool" where
  "names_bound names bindings \<longleftrightarrow>
     length names < 2 ^ 31
     \<and> (\<forall>i < length names. names ! i \<noteq> None \<longrightarrow> wasm_find_binding_index_by_name bindings (names ! i) = int i)"

definition param_names :: "WasmFunc \<Rightarrow> WasmStringSlice list" where
  "param_names f = wasm_make_type_binding_reverse_mapping (param_types (decl_sig (func_decl f))) (param_bindings f)"

definition local_names :: "WasmFunc \<Rightarrow> WasmStringSlice list" where
  "local_names f = wasm_make_type_binding_reverse_mapping (local_types f) (local_bindings f)"

text \<open>Parameters hide locals of the same name, so the names of locals must not be names of parameters.\<close>

definition locals_bound :: "WasmFunc \<Rightarrow> bool" where
  "locals_bound f \<longleftrightarrow>
     names_bound (param_names f) (param_bindings f) \<and> names_bound (local_names f) (local_bindings f)
     \<and> (\<forall>n \<in> set (local_names f). n \<noteq> None \<longrightarrow> wasm_find_binding_index_by_name (param_bindings f) n = - 1)
     \<and> wasm_get_num_params_and_locals f < 2 ^ 31"

definition module_names_bound :: "WasmModule \<Rightarrow> bool" where
  "module_names_bound m \<longleftrightarrow>
     names_bound (map func_name (funcs m)) (func_bindings m) \<and> names_bound (map global_name (globals m)) (global_bindings m)
     \<and> names_bound (map ft_name (func_types m)) (func_type_bindings m)
     \<and> names_bound (map table_name (tables m)) (table_bindings m)
     \<and> names_bound (map memory_name (memories m)) (memory_bindings m)"

text \<open>No block has the name of a block around it.\<close>

fun labels_fresh :: "WasmLabel list \<Rightarrow> WasmExpr \<Rightarrow> bool" where
  "labels_fresh ls (Block label sig es) = ((label = None \<or> label \<notin> set ls) \<and> list_all (labels_fresh (label # ls)) es)"
| "labels_fresh ls (Loop label sig es) = ((label = None \<or> label \<notin> set ls) \<and> list_all (labels_fresh (label # ls)) es)"
| "labels_fresh ls (If label sig true_es false_es) =
     ((label = None \<or> label \<notin> set ls) \<and> list_all (labels_fresh (label # ls)) true_es
      \<and> list_all (labels_fresh (label # ls)) false_es)"
| "labels_fresh ls e = True"

definition labels_distinct :: "WasmLabel list \<Rightarrow> bool" where
  "labels_distinct ls \<longleftrightarrow> distinct (filter (\<lambda>label. label \<noteq> None) ls)"

subsection \<open>Variables\<close>

lemma dup_slice [simp]: "wasm_dup_string_slice (Some bytes) = Some bytes"
  by (simp add: wasm_dup_string_slice_def)

text \<open>
  Indices are looked up by their low 32 bits: a variable with other bits set does not come back,
  so indices are taken to be below \<open>2 ^ 31\<close>.
\<close>

definition small_index :: "WasmVar \<Rightarrow> bool" where
  "small_index var \<longleftrightarrow> (case var of VarIndex i \<Rightarrow> i < 2 ^ 31 | VarName _ \<Rightarrow> False)"

lemma small_index_sint:
  assumes "(i :: u64) < 2 ^ 31"
  shows "sint (ucast i :: u32) = int (unat i)" "sint i = int (unat i)" "word_of_int (int (unat i)) = i"
proof -
  have u: "uint i < 2 ^ 31" using assms by (simp add: word_less_def)
  then have b: "- (2 ^ 31) \<le> uint i" "- (2 ^ 63) \<le> uint i" using uint_ge_0 [of i] by (linarith, intro order_trans [OF _ uint_ge_0]) simp
  have "uint (ucast i :: u32) = uint i" using u by (simp add: unsigned_ucast_eq take_bit_int_eq_self)
  then show "sint (ucast i :: u32) = int (unat i)"
    using signed_take_bit_int_eq_self [OF b(1) u] by (simp add: sint_uint)
  show "sint i = int (unat i)"
    using signed_take_bit_int_eq_self [OF b(2)] u by (simp add: sint_uint)
  show "word_of_int (int (unat i)) = i" by simp
qed

lemma item_round:
  assumes "names_bound (map name_of xs) bindings" "small_index var"
    and "use_name_of_item (nth_ptr xs (wasm_get_index_from_var bindings var)) name_of var ctx = (WASM_OK, var', ctx')"
  shows "ctx' = ctx \<and> ref_in bindings var' = Some var"
proof -
  obtain i where var: "var = VarIndex i" and i: "i < 2 ^ 31" using assms(2) by (cases var) (auto simp: small_index_def)
  note s = small_index_sint [OF i]
  have x: "unat i < length xs" and r: "use_name_for_var (Some (name_of (xs ! unat i))) var ctx = (var', ctx')"
    using assms(3) by (auto simp: use_name_of_item_def nth_ptr_def var s split: if_splits)
  show ?thesis
  proof (cases "name_of (xs ! unat i)")
    case None
    then show ?thesis using r by (auto simp: use_name_for_var_def ap_assert_def ref_var_def var)
  next
    case (Some n)
    then have "wasm_find_binding_index_by_name bindings (Some n) = int (unat i)"
      using assms(1) x by (auto simp: names_bound_def)
    moreover have "var' = VarName (Some n)" "ctx' = ctx"
      using r Some by (auto simp: use_name_for_var_def ap_assert_def var)
    moreover have "int (unat i) \<noteq> - 1" by linarith
    ultimately show ?thesis by (simp add: ref_var_def var)
  qed
qed

lemma label_round:
  assumes "labels_distinct (ap_labels ctx)" "is_index var"
    and "use_label_name var ctx = (var', ctx')"
  shows "ctx' = ctx \<and> ref_label (ap_labels ctx) var' = Some var"
proof -
  obtain i where var: "var = VarIndex i" using assms(2) by (cases var) auto
  let ?ls = "ap_labels ctx"
  show ?thesis
  proof (cases "ap_find_label_by_var ctx var")
    case None
    then show ?thesis using assms(3) by (auto simp: use_label_name_def use_name_for_var_def ap_assert_def ref_label_def var)
  next
    case (Some label)
    then have d: "0 \<le> sint i" "nat (sint i) < length ?ls" "label = ?ls ! nat (sint i)" by (auto simp: var split: if_splits)
    show ?thesis
    proof (cases label)
      case None
      then show ?thesis using Some assms(3) by (auto simp: use_label_name_def use_name_for_var_def ap_assert_def ref_label_def var)
    next
      case (Some n)
      let ?d = "nat (sint i)"
      have first: "?ls ! j \<noteq> label" if "j < ?d" for j
      proof
        assume "?ls ! j = label"
        then have "filter (\<lambda>l. l \<noteq> None) ?ls = filter (\<lambda>l. l \<noteq> None) (take ?d ?ls) @ filter (\<lambda>l. l \<noteq> None) (drop ?d ?ls)"
          by (simp flip: filter_append)
        moreover have "label \<in> set (filter (\<lambda>l. l \<noteq> None) (take ?d ?ls))"
          using that d(1,2) \<open>?ls ! j = label\<close> Some by (simp add: in_set_conv_nth) (metis nth_take)
        moreover have "label \<in> set (filter (\<lambda>l. l \<noteq> None) (drop ?d ?ls))"
          using d(1,2) Some d(3) [symmetric] by (simp flip: Cons_nth_drop_Suc)
        ultimately show False using assms(1) unfolding labels_distinct_def by (metis disjoint_iff distinct_append)
      qed
      have "length (takeWhile (\<lambda>l. l \<noteq> label) ?ls) = ?d"
      proof -
        have "takeWhile (\<lambda>l. l \<noteq> label) ?ls = take ?d ?ls"
          by (rule takeWhile_eq_take_P_nth) (use first d in auto)
        then show ?thesis using d(2) by simp
      qed
      moreover have "(word_of_nat ?d :: u64) = i" using d(1) by (simp flip: of_int_of_nat)
      ultimately show ?thesis using Some d assms(3) \<open>ap_find_label_by_var ctx var = Some label\<close>
        by (auto simp: use_label_name_def use_name_for_var_def ap_assert_def ref_label_def var Let_def)
    qed
  qed
qed

lemma local_round:
  assumes "ap_func ctx = Some f" "ap_param_names ctx = param_names f" "ap_local_names ctx = local_names f"
    and "locals_bound f" "small_index var"
    and "use_name_for_param_and_local_var var ctx = (WASM_OK, var', ctx')"
  shows "ctx' = ctx \<and> ref_local (Some f) var' = Some var"
proof -
  obtain i where var: "var = VarIndex i" and i: "i < 2 ^ 31" using assms(5) by (cases var) (auto simp: small_index_def)
  note s = small_index_sint [OF i]
  let ?n = "wasm_get_num_params f"
  have range: "unat i < ?n + length (local_types f)" using assms(1,6)
    by (auto simp: use_name_for_param_and_local_var_def var s wasm_get_num_params_and_locals_def Let_def split: if_splits)
  have lens: "length (param_names f) = ?n" "length (local_names f) = length (local_types f)"
    by (simp_all add: param_names_def local_names_def wasm_get_num_params_def)
  define name where "name = (if unat i < ?n then param_names f ! unat i else local_names f ! (unat i - ?n))"
  have r: "ctx' = ctx" "var' = (case name of Some bytes \<Rightarrow> VarName (Some bytes) | None \<Rightarrow> var)"
    using assms(1-3,6) range lens
    by (auto simp: use_name_for_param_and_local_var_def var s wasm_get_num_params_and_locals_def Let_def name_def ap_assert_def
        split: if_splits option.splits)
  show ?thesis
  proof (cases name)
    case None
    then show ?thesis using r by (simp add: ref_local_def ref_var_def var)
  next
    case (Some bytes)
    have "wasm_get_local_index_by_var f (VarName (Some bytes)) = int (unat i)"
    proof (cases "unat i < ?n")
      case True
      then have "wasm_find_binding_index_by_name (param_bindings f) (Some bytes) = int (unat i)"
        using assms(4) Some lens by (auto simp: locals_bound_def names_bound_def name_def)
      moreover have "int (unat i) \<noteq> - 1" by linarith
      ultimately show ?thesis by simp
    next
      case False
      then have n: "local_names f ! (unat i - ?n) = Some bytes" "unat i - ?n < length (local_names f)"
        using Some range lens by (auto simp: name_def)
      then have "wasm_find_binding_index_by_name (local_bindings f) (Some bytes) = int (unat i - ?n)"
        using assms(4) by (fastforce simp: locals_bound_def names_bound_def)
      moreover have "wasm_find_binding_index_by_name (param_bindings f) (Some bytes) = - 1"
        using assms(4) n by (metis locals_bound_def nth_mem option.distinct(1))
      moreover have "int (unat i - ?n) \<noteq> - 1" by linarith
      moreover have "int ?n + int (unat i - ?n) = int (unat i)" using False by simp
      ultimately show ?thesis by (simp add: wasm_get_num_params_def)
    qed
    moreover have "int (unat i) \<noteq> - 1" by linarith
    ultimately show ?thesis using r Some by (simp add: ref_local_def ref_var_def var del: wasm_get_local_index_by_var.simps)
  qed
qed

subsection \<open>Expressions\<close>

fun vars_small :: "WasmExpr \<Rightarrow> bool" where
  "vars_small (Br var) = is_index var"
| "vars_small (BrIf var) = is_index var"
| "vars_small (BrTable targets default_target) = (list_all is_index targets \<and> is_index default_target)"
| "vars_small (Call var) = small_index var"
| "vars_small (CallIndirect var) = small_index var"
| "vars_small (GetGlobal var) = small_index var"
| "vars_small (SetGlobal var) = small_index var"
| "vars_small (GetLocal var) = small_index var"
| "vars_small (SetLocal var) = small_index var"
| "vars_small (TeeLocal var) = small_index var"
| "vars_small (Block _ _ es) = list_all vars_small es"
| "vars_small (Loop _ _ es) = list_all vars_small es"
| "vars_small (If _ _ true_es false_es) = (list_all vars_small true_es \<and> list_all vars_small false_es)"
| "vars_small _ = True"

definition ap_in :: "WasmModule \<Rightarrow> WasmFunc \<Rightarrow> WasmLabel list \<Rightarrow> ApplyContext \<Rightarrow> bool" where
  "ap_in m f ls ctx \<longleftrightarrow> ap_module ctx = m \<and> ap_func ctx = Some f \<and> ap_param_names ctx = param_names f
     \<and> ap_local_names ctx = local_names f \<and> ap_labels ctx = ls"

text \<open>What a step of the pass wrote, resolution takes back; the step leaves its context as it was.\<close>

definition undone :: "('a \<Rightarrow> 'a option) \<Rightarrow> ('a \<Rightarrow> ApplyContext \<Rightarrow> WasmResult \<times> 'a \<times> ApplyContext) \<Rightarrow> ApplyContext \<Rightarrow> 'a \<Rightarrow> bool" where
  "undone spec step ctx x \<longleftrightarrow> (\<forall>x' ctx'. step x ctx = (WASM_OK, x', ctx') \<longrightarrow> ctx' = ctx \<and> spec x' = Some x)"

lemma undone_list:
  assumes "\<And>e. e \<in> set es \<Longrightarrow> undone spec (visit_expr v) ctx e"
  shows "undone (\<lambda>es. those (map spec es)) (wasm_visit_expr_list v) ctx es"
  using assms by (induction es) (fastforce simp: undone_def split: prod.splits WasmResult.splits)+

lemma undone_check:
  assumes "\<And>x. x \<in> set xs \<Longrightarrow> undone spec step ctx x"
  shows "undone (\<lambda>xs. those (map spec xs)) (map_check step) ctx xs"
  using assms by (induction xs) (fastforce simp: undone_def split: prod.splits WasmResult.splits)+

lemma undone_labels:
  assumes "labels_distinct (ap_labels ctx)" "list_all is_index vars" "map_state use_label_name vars ctx = (vars', ctx')"
  shows "ctx' = ctx \<and> those (map (ref_label (ap_labels ctx)) vars') = Some vars"
  using assms
proof (induction vars arbitrary: vars' ctx')
  case (Cons var vars)
  obtain v c where v: "use_label_name var ctx = (v, c)" by force
  then have c: "c = ctx" "ref_label (ap_labels ctx) v = Some var" using label_round [OF Cons.prems(1) _ v] Cons.prems(2) by auto
  obtain vs c' where vs: "map_state use_label_name vars ctx = (vs, c')" by force
  then show ?case using Cons.IH [OF Cons.prems(1) _ vs] Cons.prems(2,3) v c by auto
qed simp

lemma apply_visitor_simps [simp]:
  "vis_on apply_visitor = ap_on_expr" "vis_begin apply_visitor = ap_begin_expr"
  "vis_after_if_true apply_visitor = (\<lambda>expr ctx. (WASM_OK, ctx))" "vis_end apply_visitor = ap_end_expr"
  by (simp_all add: apply_visitor_def)

lemma undone_item:
  assumes "names_bound (map name_of xs) bindings" "small_index var"
    "\<And>ctx. ap_module ctx = m \<Longrightarrow> step var ctx = use_name_of_item (nth_ptr xs (wasm_get_index_from_var bindings var)) name_of var ctx"
    "ap_module ctx = m"
  shows "undone (ref_in bindings) step ctx var"
  using item_round [OF assms(1,2)] assms(3) [OF assms(4)] unfolding undone_def by (metis (lifting))

lemma undone_var:
  assumes "ap_module ctx = m" "module_names_bound m" "small_index var"
  shows "undone (ref_in (func_bindings m)) use_name_for_func_var ctx var"
    "undone (ref_in (func_type_bindings m)) use_name_for_func_type_var ctx var"
    "undone (ref_in (global_bindings m)) use_name_for_global_var ctx var"
    "undone (ref_in (table_bindings m)) use_name_for_table_var ctx var"
    "undone (ref_in (memory_bindings m)) use_name_for_memory_var ctx var"
  using assms unfolding module_names_bound_def
  by (auto intro!: undone_item [where m = m] simp: use_name_for_func_var_def wasm_get_func_by_var_def use_name_for_func_type_var_def
      wasm_get_func_type_by_var_def use_name_for_global_var_def wasm_get_global_by_var_def use_name_for_table_var_def
      wasm_get_table_by_var_def use_name_for_memory_var_def wasm_get_memory_by_var_def)

lemma undone_local:
  assumes "ap_in m f ls ctx" "locals_bound f" "small_index var"
  shows "undone (ref_local (Some f)) use_name_for_param_and_local_var ctx var"
  using local_round [OF _ _ _ assms(2,3)] assms(1) unfolding undone_def ap_in_def by blast

lemma undone_leaf:
  assumes "undone spec step ctx x" "\<And>r. r = step x ctx \<Longrightarrow> visit_expr apply_visitor (g x) ctx = (fst r, g (fst (snd r)), snd (snd r))"
    "\<And>x. ref_expr m f ls (g x) = map_option g (spec x)"
  shows "undone (ref_expr m f ls) (visit_expr apply_visitor) ctx (g x)"
  using assms by (cases "step x ctx") (auto simp: undone_def)

lemma undone_label:
  assumes "ap_labels ctx = ls" "labels_distinct ls" "is_index var"
  shows "undone (ref_label ls) (\<lambda>var ctx. (WASM_OK, use_label_name var ctx)) ctx var"
  using label_round [of ctx var] assms by (auto simp: undone_def)

lemma labels_distinct_push: "labels_distinct ls \<Longrightarrow> label = None \<or> label \<notin> set ls \<Longrightarrow> labels_distinct (label # ls)"
  by (auto simp: labels_distinct_def)

lemma ap_in_push: "ap_in m f ls ctx \<Longrightarrow> ap_in m f (label # ls) (ap_push_label label ctx)"
  by (simp add: ap_in_def ap_push_label_def)

lemma ap_pop_push: "(ap_push_label label ctx)\<lparr>ap_labels := tl (ap_labels (ap_push_label label ctx))\<rparr> = ctx"
  by (simp add: ap_push_label_def)

text \<open>Naming the variables of an expression and resolving them gives the expression back.\<close>

lemma undone_expr:
  assumes bound: "module_names_bound m" "locals_bound f"
  shows "ap_in m f ls ctx \<Longrightarrow> labels_distinct ls \<Longrightarrow> labels_fresh ls e \<Longrightarrow> vars_small e \<Longrightarrow>
    undone (ref_expr m (Some f) ls) (visit_expr apply_visitor) ctx e"
proof (induction e arbitrary: ls ctx)
  case (BrTable targets default_target)
  have l: "ap_labels ctx = ls" using BrTable.prems(1) by (simp add: ap_in_def)
  obtain ts c where t: "map_state use_label_name targets ctx = (ts, c)" by force
  have ts: "c = ctx" "those (map (ref_label ls) ts) = Some targets"
    using undone_labels [OF _ _ t] BrTable.prems l by auto
  obtain d c' where d: "use_label_name default_target ctx = (d, c')" by force
  have "c' = ctx" "ref_label ls d = Some default_target" using label_round [OF _ _ d] BrTable.prems l by auto
  then show ?case using t ts d by (simp add: undone_def)
next
  case (Block label sig es)
  let ?ctx = "ap_push_label label ctx"
  have "undone (\<lambda>es. ref_exprs m (Some f) (label # ls) es) (wasm_visit_expr_list apply_visitor) ?ctx es"
    by (rule undone_list) (use Block.IH [OF _ ap_in_push labels_distinct_push] Block.prems in \<open>auto simp: list_all_iff\<close>)
  then show ?case using ap_pop_push [of label ctx]
    by (fastforce simp: undone_def ap_end_expr_def split: prod.splits WasmResult.splits)
next
  case (Loop label sig es)
  let ?ctx = "ap_push_label label ctx"
  have "undone (\<lambda>es. ref_exprs m (Some f) (label # ls) es) (wasm_visit_expr_list apply_visitor) ?ctx es"
    by (rule undone_list) (use Loop.IH [OF _ ap_in_push labels_distinct_push] Loop.prems in \<open>auto simp: list_all_iff\<close>)
  then show ?case using ap_pop_push [of label ctx]
    by (fastforce simp: undone_def ap_end_expr_def split: prod.splits WasmResult.splits)
next
  case (If label sig true_es false_es)
  let ?ctx = "ap_push_label label ctx"
  have t: "undone (\<lambda>es. ref_exprs m (Some f) (label # ls) es) (wasm_visit_expr_list apply_visitor) ?ctx true_es"
    by (rule undone_list) (use If.IH(1) [OF _ ap_in_push labels_distinct_push] If.prems in \<open>auto simp: list_all_iff\<close>)
  have e: "undone (\<lambda>es. ref_exprs m (Some f) (label # ls) es) (wasm_visit_expr_list apply_visitor) ?ctx false_es"
    by (rule undone_list) (use If.IH(2) [OF _ ap_in_push labels_distinct_push] If.prems in \<open>auto simp: list_all_iff\<close>)
  show ?case using t e ap_pop_push [of label ctx]
    by (fastforce simp: undone_def ap_end_expr_def split: prod.splits WasmResult.splits)
next
  case (Br var)
  show ?case by (rule undone_leaf [OF undone_label]) (use Br in \<open>auto simp: ap_in_def split: prod.splits\<close>)
next
  case (BrIf var)
  show ?case by (rule undone_leaf [OF undone_label]) (use BrIf in \<open>auto simp: ap_in_def split: prod.splits\<close>)
next
  case (Call var)
  show ?case by (rule undone_leaf [OF undone_var(1) [OF _ bound(1)]]) (use Call in \<open>auto simp: ap_in_def split: prod.splits\<close>)
next
  case (CallIndirect var)
  show ?case by (rule undone_leaf [OF undone_var(2) [OF _ bound(1)]]) (use CallIndirect in \<open>auto simp: ap_in_def split: prod.splits\<close>)
next
  case (GetGlobal var)
  show ?case by (rule undone_leaf [OF undone_var(3) [OF _ bound(1)]]) (use GetGlobal in \<open>auto simp: ap_in_def split: prod.splits\<close>)
next
  case (SetGlobal var)
  show ?case by (rule undone_leaf [OF undone_var(3) [OF _ bound(1)]]) (use SetGlobal in \<open>auto simp: ap_in_def split: prod.splits\<close>)
next
  case (GetLocal var)
  show ?case by (rule undone_leaf [OF undone_local [OF _ bound(2)]]) (use GetLocal in \<open>auto split: prod.splits\<close>)
next
  case (SetLocal var)
  show ?case by (rule undone_leaf [OF undone_local [OF _ bound(2)]]) (use SetLocal in \<open>auto split: prod.splits\<close>)
next
  case (TeeLocal var)
  show ?case by (rule undone_leaf [OF undone_local [OF _ bound(2)]]) (use TeeLocal in \<open>auto split: prod.splits\<close>)
qed (auto simp: undone_def)

subsection \<open>Modules\<close>

text \<open>Resolution looks at nothing of a module but its binding tables, and at nothing of a function but its locals.\<close>

definition same_tables :: "WasmModule \<Rightarrow> WasmModule \<Rightarrow> bool" where
  "same_tables m m' \<longleftrightarrow> func_bindings m' = func_bindings m \<and> global_bindings m' = global_bindings m
     \<and> export_bindings m' = export_bindings m \<and> func_type_bindings m' = func_type_bindings m
     \<and> table_bindings m' = table_bindings m \<and> memory_bindings m' = memory_bindings m"

lemma ref_expr_cong:
  assumes "same_tables m m'" "ref_local f' = ref_local f"
  shows "ref_expr m' f' ls e = ref_expr m f ls e"
proof (induction e arbitrary: ls)
  case (Block label sig es)
  then have "map (ref_expr m' f' (label # ls)) es = map (ref_expr m f (label # ls)) es" by simp
  then show ?case by (simp only: ref_expr.simps)
next
  case (Loop label sig es)
  then have "map (ref_expr m' f' (label # ls)) es = map (ref_expr m f (label # ls)) es" by simp
  then show ?case by (simp only: ref_expr.simps)
next
  case (If label sig true_es false_es)
  then have "map (ref_expr m' f' (label # ls)) true_es = map (ref_expr m f (label # ls)) true_es"
    "map (ref_expr m' f' (label # ls)) false_es = map (ref_expr m f (label # ls)) false_es" by simp_all
  then show ?case by (simp only: ref_expr.simps)
qed (use assms in \<open>simp_all add: same_tables_def\<close>)

lemma ref_same_tables:
  assumes "same_tables m m'"
  shows "ref_func m' = ref_func m" "ref_export m' = ref_export m" "ref_global m' = ref_global m"
    "ref_elem m' = ref_elem m" "ref_data m' = ref_data m" "module_no_duplicates m' = module_no_duplicates m"
proof -
  have e: "ref_expr m' f ls = ref_expr m f ls" for f ls using ref_expr_cong [OF assms] by (simp add: fun_eq_iff)
  have b: "func_bindings m' = func_bindings m" "global_bindings m' = global_bindings m" "export_bindings m' = export_bindings m"
    "func_type_bindings m' = func_type_bindings m" "table_bindings m' = table_bindings m" "memory_bindings m' = memory_bindings m"
    using assms by (simp_all add: same_tables_def)
  note d = ref_func_def ref_decl_def ref_export_def ref_global_def ref_elem_def ref_data_def module_no_duplicates_def
  show "ref_func m' = ref_func m" "ref_export m' = ref_export m" "ref_global m' = ref_global m"
    "ref_elem m' = ref_elem m" "ref_data m' = ref_data m" "module_no_duplicates m' = module_no_duplicates m"
    unfolding fun_eq_iff d b e by (rule allI refl)+
qed

lemma round_check:
  assumes "\<And>x ctx x' ctx'. x \<in> set xs \<Longrightarrow> I ctx \<Longrightarrow> step x ctx = (WASM_OK, x', ctx') \<Longrightarrow> I ctx' \<and> spec x' = Some x"
  shows "I ctx \<Longrightarrow> map_check step xs ctx = (WASM_OK, xs', ctx') \<Longrightarrow> I ctx' \<and> those (map spec xs') = Some xs"
  using assms
proof (induction xs arbitrary: ctx xs')
  case (Cons x xs)
  obtain y c ys where y: "step x ctx = (WASM_OK, y, c)" and ys: "map_check step xs c = (WASM_OK, ys, ctx')" and "xs' = y # ys"
    using Cons.prems(2) by (auto split: prod.splits WasmResult.splits)
  moreover have "I c \<and> spec y = Some x" using Cons.prems(3) [of x ctx y c] Cons.prems(1) y by simp
  ultimately show ?case using Cons.IH [OF _ ys] Cons.prems(3) by auto
qed simp

definition ap_outside :: "WasmModule \<Rightarrow> ApplyContext \<Rightarrow> bool" where
  "ap_outside m ctx \<longleftrightarrow> ap_module ctx = m \<and> ap_labels ctx = [] \<and> ap_defined ctx"

definition func_named :: "WasmFunc \<Rightarrow> bool" where
  "func_named f \<longleftrightarrow> locals_bound f \<and> (has_func_type (func_decl f) \<longrightarrow> small_index (type_var (func_decl f)))
     \<and> list_all (labels_fresh []) (first_expr f) \<and> list_all vars_small (first_expr f)"

lemma not_error: "r \<noteq> WASM_ERROR \<longleftrightarrow> r = WASM_OK"
  by (cases r) auto

lemma ref_func_no_duplicates: "ref_func m f = Some f' \<Longrightarrow> no_duplicates (param_bindings f) \<and> no_duplicates (local_bindings f)"
  by (auto simp: ref_func_def split: option.splits if_splits)

lemma func_round:
  assumes bound: "module_names_bound m" and named: "func_named func" and resolved: "ref_func m func = Some func"
    and out: "ap_outside m ctx" and visit: "ap_visit_func func ctx = (WASM_OK, func', ctx')"
  shows "ap_outside m ctx' \<and> ref_func m func' = Some func"
proof -
  let ?ctx = "ctx\<lparr>ap_func := Some func\<rparr>" and ?decl = "func_decl func"
  obtain r var ctx1 where t: "use_name_for_func_type_var (type_var ?decl) ?ctx = (r, var, ctx1)" by (metis prod_cases3)
  define decl where "decl = (if has_func_type ?decl then ?decl\<lparr>type_var := var\<rparr> else ?decl)"
  define body where "body = ctx\<lparr>ap_func := Some func, ap_param_names := param_names func, ap_local_names := local_names func\<rparr>"
  have sig: "decl_sig decl = decl_sig ?decl" "has_func_type decl = has_func_type ?decl" by (simp_all add: decl_def)
  have "undone (ref_in (func_type_bindings m)) use_name_for_func_type_var ?ctx (type_var ?decl)" if "has_func_type ?decl"
    using that bound named out by (intro undone_var(2)) (auto simp: func_named_def ap_outside_def)
  then have u: "ctx1 = ?ctx \<and> ref_in (func_type_bindings m) var = Some (type_var ?decl)" if "has_func_type ?decl" "r = WASM_OK"
    using that t by (simp add: undone_def)
  have r: "r = WASM_OK" if "has_func_type ?decl"
    using visit that t by (cases r) (auto simp: ap_visit_func_def)
  obtain es ctx2 where es: "wasm_visit_expr_list apply_visitor (first_expr func) body = (WASM_OK, es, ctx2)"
    and func': "func' = func\<lparr>func_decl := decl, first_expr := es\<rparr>" and ctx': "ctx' = ctx2\<lparr>ap_func := None\<rparr>"
    using visit t u r
    by (cases "has_func_type ?decl")
      (auto simp: not_error ap_visit_func_def wasm_visit_func_def decl_def body_def param_names_def local_names_def Let_def split: prod.splits if_splits)
  have inside: "ap_in m func [] body" using out by (simp add: ap_in_def body_def ap_outside_def)
  have "undone (ref_exprs m (Some func) []) (wasm_visit_expr_list apply_visitor) body (first_expr func)"
    by (rule undone_list, rule undone_expr [OF bound _ inside])
      (use named in \<open>auto simp: func_named_def labels_distinct_def list_all_iff\<close>)
  then have body: "ctx2 = body" "ref_exprs m (Some func) [] es = Some (first_expr func)" using es by (simp_all add: undone_def)
  have "wasm_get_local_index_by_var func' (VarName n) = wasm_get_local_index_by_var func (VarName n)" for n
    by (simp add: func' sig Let_def)
  then have "ref_local (Some func') = ref_local (Some func)"
    by (simp add: fun_eq_iff ref_local_def del: wasm_get_local_index_by_var.simps)
  then have "ref_expr m (Some func') [] = ref_expr m (Some func) []"
    using ref_expr_cong [of m m "Some func'" "Some func"] by (simp add: fun_eq_iff same_tables_def)
  then have "ref_exprs m (Some func') [] (first_expr func') = Some (first_expr func)" using body func' by simp
  moreover have "ref_decl m (func_decl func') = Some ?decl"
    using u r by (auto simp: ref_decl_def func' decl_def)
  ultimately have "ref_func m func' = Some (func'\<lparr>func_decl := ?decl, first_expr := first_expr func\<rparr>)"
    using ref_func_no_duplicates [OF resolved] by (simp add: ref_func_def func')
  then show ?thesis using ctx' body out by (simp add: func' body_def ap_outside_def)
qed

text \<open>
  A module the round trip is shown for: resolved already, every name leads to the item that bears it,
  indices small and every export a function, since \<open>visit_export\<close> takes it for one.
\<close>

definition names_applicable :: "WasmModule \<Rightarrow> bool" where
  "names_applicable m \<longleftrightarrow> ref_module m = Some m \<and> module_names_bound m \<and> list_all func_named (funcs m)
     \<and> list_all (\<lambda>ex. export_kind ex = WASM_EXTERNAL_KIND_FUNC \<and> small_index (export_var ex)
          \<and> wasm_get_func_by_var m (export_var ex) \<noteq> None) (exports m)
     \<and> list_all (\<lambda>s. small_index (elem_table_var s) \<and> list_all small_index (elem_vars s)) (elem_segments m)
     \<and> list_all (\<lambda>s. small_index (data_memory_var s)) (data_segments m)"

lemma length_those: "those xs = Some ys \<Longrightarrow> length ys = length xs"
  by (auto simp: those_Some)

lemma sync_imports_again:
  "length fs' = length fs \<Longrightarrow> length gs' = length gs \<Longrightarrow>
    sync_imports (sync_imports ims fs' gs') fs gs = sync_imports ims fs gs"
  by (induction ims fs' gs' arbitrary: fs gs rule: sync_imports.induct)
    (auto split: WasmImportDesc.splits list.splits simp: length_Suc_conv)

lemma export_round:
  assumes "module_names_bound m" "export_kind ex = WASM_EXTERNAL_KIND_FUNC" "small_index (export_var ex)"
    "wasm_get_func_by_var m (export_var ex) \<noteq> None" "ap_outside m ctx" "ap_visit_export ex ctx = (WASM_OK, ex', ctx')"
  shows "ap_outside m ctx' \<and> ref_export m ex' = Some ex"
proof -
  have m: "ap_module ctx = m" using assms(5) by (simp add: ap_outside_def)
  obtain var c where v: "use_name_for_func_var (export_var ex) ctx = (WASM_OK, var, c)"
    using assms(4) by (auto simp: use_name_for_func_var_def use_name_of_item_def m use_name_for_var_def Let_def)
  then have "c = ctx" "ref_in (func_bindings m) var = Some (export_var ex)"
    using undone_var(1) [OF m assms(1,3)] by (simp_all add: undone_def)
  then show ?thesis using assms(2,5,6) v by (auto simp: ap_visit_export_def ref_export_def)
qed

lemma elem_round:
  assumes "module_names_bound m" "small_index (elem_table_var s)" "\<forall>x \<in> set (elem_vars s). small_index x"
    "ref_elem m s = Some s" "ap_outside m ctx" "ap_visit_elem_segment s ctx = (WASM_OK, s', ctx')"
  shows "ap_outside m ctx' \<and> ref_elem m s' = Some s"
proof -
  have m: "ap_module ctx = m" using assms(5) by (simp add: ap_outside_def)
  obtain var c where v: "use_name_for_table_var (elem_table_var s) ctx = (WASM_OK, var, c)"
    using assms(6) by (auto simp: ap_visit_elem_segment_def split: prod.splits WasmResult.splits)
  then have c: "c = ctx" "ref_in (table_bindings m) var = Some (elem_table_var s)"
    using undone_var(4) [OF m assms(1,2)] by (simp_all add: undone_def)
  obtain vs c' where vs: "map_check use_name_for_func_var (elem_vars s) ctx = (WASM_OK, vs, c')"
    and s': "s' = s\<lparr>elem_table_var := var, elem_vars := vs\<rparr>" "ctx' = c'"
    using assms(6) v c by (auto simp: ap_visit_elem_segment_def split: prod.splits)
  have "undone (\<lambda>vs. those (map (ref_in (func_bindings m)) vs)) (map_check use_name_for_func_var) ctx (elem_vars s)"
    by (rule undone_check, rule undone_var(1) [OF m assms(1)]) (use assms(3) in simp)
  then have "c' = ctx" "those (map (ref_in (func_bindings m)) vs) = Some (elem_vars s)" using vs by (simp_all add: undone_def)
  then show ?thesis using c s' assms(4,5) by (auto simp: ref_elem_def split: option.splits)
qed

lemma data_round:
  assumes "module_names_bound m" "small_index (data_memory_var s)" "ref_data m s = Some s" "ap_outside m ctx"
    "ap_visit_data_segment s ctx = (WASM_OK, s', ctx')"
  shows "ap_outside m ctx' \<and> ref_data m s' = Some s"
proof -
  have m: "ap_module ctx = m" using assms(4) by (simp add: ap_outside_def)
  obtain var where v: "use_name_for_memory_var (data_memory_var s) ctx = (WASM_OK, var, ctx')" "s' = s\<lparr>data_memory_var := var\<rparr>"
    using assms(5) by (auto simp: ap_visit_data_segment_def split: prod.splits)
  then have "ctx' = ctx" "ref_in (memory_bindings m) var = Some (data_memory_var s)"
    using undone_var(5) [OF m assms(1,2)] by (simp_all add: undone_def)
  then show ?thesis using v assms(3,4) by (cases s) (auto simp: ref_data_def split: option.splits)
qed

text \<open>Every member of a resolved module is resolved.\<close>

lemma those_self: "those (map f xs) = Some xs \<longleftrightarrow> (\<forall>x \<in> set xs. f x = Some x)"
  by (induction xs) (auto split: option.splits)

lemma ref_module_self:
  assumes "ref_module m = Some m"
  shows "module_no_duplicates m" "those (map (ref_func m) (funcs m)) = Some (funcs m)" "those (map (ref_global m) (globals m)) = Some (globals m)"
    "those (map (ref_elem m) (elem_segments m)) = Some (elem_segments m)" "those (map (ref_data m) (data_segments m)) = Some (data_segments m)"
    "ref_start m = Some (start m)" "sync_imports (imports_vec m) (funcs m) (globals m) = imports_vec m"
proof -
  obtain fs exs gs elems datas st where p: "module_no_duplicates m" "those (map (ref_func m) (funcs m)) = Some fs"
    "those (map (ref_export m) (exports m)) = Some exs" "those (map (ref_global m) (globals m)) = Some gs"
    "those (map (ref_elem m) (elem_segments m)) = Some elems" "those (map (ref_data m) (data_segments m)) = Some datas"
    "ref_start m = Some st"
    and e: "m\<lparr>funcs := fs, imports_vec := sync_imports (imports_vec m) fs gs, exports := exs, globals := gs,
            elem_segments := elems, data_segments := datas, start := st\<rparr> = m"
    using assms by (auto simp: ref_module_def split: if_splits option.splits)
  have "funcs m = fs" "globals m = gs" "elem_segments m = elems" "data_segments m = datas" "start m = st"
    "imports_vec m = sync_imports (imports_vec m) fs gs"
    by (subst e [symmetric], simp)+
  then show "module_no_duplicates m" "those (map (ref_func m) (funcs m)) = Some (funcs m)" "those (map (ref_global m) (globals m)) = Some (globals m)"
    "those (map (ref_elem m) (elem_segments m)) = Some (elem_segments m)" "those (map (ref_data m) (data_segments m)) = Some (data_segments m)"
    "ref_start m = Some (start m)" "sync_imports (imports_vec m) (funcs m) (globals m) = imports_vec m"
    using p by simp_all
qed

lemma apply_then_resolve:
  assumes "names_applicable m" "wasm_apply_names m = (WASM_OK, m', d)"
  shows "d \<and> ref_module m' = Some m"
proof -
  note self = ref_module_self [of m]
  have ref: "ref_module m = Some m" and bound: "module_names_bound m" and named: "list_all func_named (funcs m)"
    using assms(1) by (simp_all add: names_applicable_def)
  define ctx where "ctx = \<lparr>ap_module = m, ap_func = None, ap_param_names = [], ap_local_names = [], ap_labels = [], ap_defined = True\<rparr>"
  have out: "ap_outside m ctx" by (simp add: ap_outside_def ctx_def)
  obtain fs ctx1 exs ctx2 elems ctx3 datas ctx4 where
    fs: "map_check ap_visit_func (funcs m) ctx = (WASM_OK, fs, ctx1)" and
    exs: "map_check ap_visit_export (exports m) ctx1 = (WASM_OK, exs, ctx2)" and
    elems: "map_check ap_visit_elem_segment (elem_segments m) ctx2 = (WASM_OK, elems, ctx3)" and
    datas: "map_check ap_visit_data_segment (data_segments m) ctx3 = (WASM_OK, datas, ctx4)" and
    m': "m' = m\<lparr>funcs := fs, imports_vec := sync_imports (imports_vec m) fs (globals m), exports := exs, elem_segments := elems,
           data_segments := datas\<rparr>" and d: "d = ap_defined ctx4"
    using assms(2) by (auto simp: wasm_apply_names_def ap_visit_module_def not_error Let_def ctx_def split: prod.splits if_splits)
  have f: "ap_outside m ctx1 \<and> those (map (ref_func m) fs) = Some (funcs m)"
    using out fs by (rule round_check [rotated])
      (use named self(2) [OF ref] in \<open>auto dest: func_round [OF bound] simp: list_all_iff those_self\<close>)
  then have x: "ap_outside m ctx2 \<and> those (map (ref_export m) exs) = Some (exports m)"
    using exs by (intro round_check [where I = "ap_outside m" and step = ap_visit_export])
      (use assms(1) in \<open>auto dest: export_round [OF bound] simp: names_applicable_def list_all_iff\<close>)
  have elem: "small_index (elem_table_var s) \<and> (\<forall>x \<in> set (elem_vars s). small_index x) \<and> ref_elem m s = Some s"
    if "s \<in> set (elem_segments m)" for s
    using assms(1) self(4) [OF ref] that by (simp add: names_applicable_def list_all_iff those_self)
  have data: "small_index (data_memory_var s) \<and> ref_data m s = Some s" if "s \<in> set (data_segments m)" for s
    using assms(1) self(5) [OF ref] that by (simp add: names_applicable_def list_all_iff those_self)
  from x have e: "ap_outside m ctx3 \<and> those (map (ref_elem m) elems) = Some (elem_segments m)"
    using elems elem_round [OF bound] elem by (intro round_check [where I = "ap_outside m" and step = ap_visit_elem_segment]) blast+
  then have dd: "ap_outside m ctx4 \<and> those (map (ref_data m) datas) = Some (data_segments m)"
    using datas data_round [OF bound] data by (intro round_check [where I = "ap_outside m" and step = ap_visit_data_segment]) blast+
  have tables: "same_tables m m'" by (simp add: same_tables_def m')
  have start: "ref_start m' = Some (start m)" using self(6) [OF ref] by (cases "start m") (simp_all add: ref_start_def m')
  have ims: "sync_imports (imports_vec m') (funcs m) (globals m) = imports_vec m"
    using sync_imports_again [of fs "funcs m" "globals m" "globals m"] self(7) [OF ref] length_those [of "map (ref_func m) fs"] f
    by (simp add: m')
  have parts: "funcs m' = fs" "exports m' = exs" "globals m' = globals m" "elem_segments m' = elems" "data_segments m' = datas"
    by (simp_all add: m')
  have "ref_module m' = Some (m'\<lparr>funcs := funcs m, imports_vec := imports_vec m, exports := exports m,
      globals := globals m, elem_segments := elem_segments m, data_segments := data_segments m, start := start m\<rparr>)"
    using f x e dd start self(1,3) [OF ref] by (simp add: ref_module_def ref_same_tables [OF tables] parts ims)
  moreover have "m'\<lparr>funcs := funcs m, imports_vec := imports_vec m, exports := exports m,
      globals := globals m, elem_segments := elem_segments m, data_segments := data_segments m, start := start m\<rparr> = m"
    by (simp add: m')
  ultimately show ?thesis using dd by (simp add: d ap_outside_def)
qed

end
