(* ===== verification/Wabt_Names_Generated.thy ===== *)
theory Wabt_Names_Generated
  imports Wabt_Generate_Names Wabt_Hash_Correct
begin

text \<open>
  Generated names are distinct and lead to the items they are generated for: the loop over the
  names of one kind of item keeps the invariant of the name table.
\<close>

subsection \<open>Decimal digits\<close>

fun digits_value :: "byte list \<Rightarrow> nat" where
  "digits_value ds = foldl (\<lambda>v d. 10 * v + (unat d - 48)) 0 ds"

lemma decimal_value: "digits_value (decimal n) = n"
proof (induction n rule: decimal.induct)
  case (1 n)
  show ?case
  proof (cases "n < 10")
    case True
    then have "unat (word_of_nat (48 + n) :: byte) = 48 + n" using True by (subst unat_of_nat) simp
    then show ?thesis using True by (simp add: decimal.simps [of n] del: of_nat_add)
  next
    case False
    have "unat (word_of_nat (48 + n mod 10) :: byte) = 48 + n mod 10"
      using mod_less_divisor [of 10 n] by (subst unat_of_nat) simp
    then show ?thesis using False 1 by (simp add: decimal.simps [of n] del: of_nat_add)
  qed
qed

lemma generated_inj: "generated prefix i = generated prefix j \<longleftrightarrow> i = j"
proof
  assume "generated prefix i = generated prefix j"
  then have "unat i = unat j" using decimal_value by (metis generated_def same_append_eq)
  then show "i = j" by (simp add: word_unat_eq_iff)
qed simp

subsection \<open>One kind of item\<close>

lemma generate_add:
  "generate_and_bind_name junk h prefix index =
     map_option (Pair (Some (generated prefix index))) (add_binding junk h (generated prefix index) (sint index))"
  by (auto simp: generate_and_bind_name_def add_binding_def generate_name_def wasm_dup_string_slice_def Let_def split: option.splits)

text \<open>The names that are there lead to their items, and those to be generated are not taken.\<close>

definition names_clear :: "string \<Rightarrow> nat \<Rightarrow> WasmStringSlice list \<Rightarrow> WasmBindingHash \<Rightarrow> bool" where
  "names_clear prefix i strs h \<longleftrightarrow>
     hash_inv h \<and> i + length strs < 2 ^ 31
     \<and> (\<forall>j < length strs.
          if has_name (strs ! j) then wasm_find_binding_index_by_name h (strs ! j) = int (i + j)
          else wasm_find_binding_index_by_name h (Some (generated prefix (u32_of_nat (i + j)))) = - 1)"

lemma u32_small:
  assumes "k < 2 ^ 31"
  shows "sint (u32_of_nat k) = int k" "unat (u32_of_nat k) = k"
proof -
  show u: "unat (u32_of_nat k) = k" using assms by (intro unat_u32_of_nat) simp
  then have "uint (u32_of_nat k) = int k" by (metis uint_nat)
  then show "sint (u32_of_nat k) = int k" using assms by (simp add: sint_uint signed_take_bit_int_eq_self)
qed

lemma generated_other: "i < 2 ^ 31 \<Longrightarrow> j < 2 ^ 31 \<Longrightarrow> generated prefix (u32_of_nat i) = generated prefix (u32_of_nat j) \<longleftrightarrow> i = j"
  by (metis generated_inj u32_small(2))

lemma has_name_Some: "has_name str \<longleftrightarrow> (\<exists>b bs. str = Some (b # bs))"
  by (cases str) (auto simp: has_name_def slice_bytes_def neq_Nil_conv)

lemma has_name_generated: "prefix \<noteq> [] \<Longrightarrow> has_name (Some (generated prefix i))"
  by (simp add: has_name_def generated_def cstr_def slice_bytes_def)

abbreviation index_of :: "WasmBindingHash \<Rightarrow> byte list \<Rightarrow> int" where
  "index_of h n \<equiv> wasm_find_binding_index_by_name h (Some n)"

definition named_all :: "string \<Rightarrow> nat \<Rightarrow> WasmStringSlice list \<Rightarrow> WasmBindingHash \<Rightarrow> WasmStringSlice list \<Rightarrow> WasmBindingHash \<Rightarrow> bool" where
  "named_all prefix i strs h names h' \<longleftrightarrow>
     hash_inv h' \<and> length names = length strs
     \<and> (\<forall>j < length strs. has_name (names ! j) \<and> wasm_find_binding_index_by_name h' (names ! j) = int (i + j)
          \<and> names ! j = (if has_name (strs ! j) then strs ! j else Some (generated prefix (u32_of_nat (i + j)))))
     \<and> (\<forall>n. index_of h n \<noteq> - 1 \<longrightarrow> index_of h' n = index_of h n)"

lemma name_all_ok:
  "prefix \<noteq> [] \<Longrightarrow> names_clear prefix i strs h \<Longrightarrow>
    \<exists>names h'. name_all junk prefix i strs h = Some (names, h') \<and> named_all prefix i strs h names h'"
proof (induction strs arbitrary: i h)
  case Nil
  then show ?case by (auto simp: named_all_def names_clear_def)
next
  case (Cons str strs)
  have clear: "hash_inv h" "i + length strs < 2 ^ 31 - 1" using Cons.prems by (simp_all add: names_clear_def)
  have at: "if has_name ((str # strs) ! j) then wasm_find_binding_index_by_name h ((str # strs) ! j) = int (i + j)
          else index_of h (generated prefix (u32_of_nat (i + j))) = - 1" if "j < Suc (length strs)" for j
    using Cons.prems(2) that unfolding names_clear_def by (metis (no_types, lifting) length_Cons)
  note head = at [of 0, simplified] and tail = at [of "Suc _", simplified]
  define str1 where "str1 = (if has_name str then str else Some (generated prefix (u32_of_nat i)))"
  obtain h1 where h1: "maybe_generate_and_bind_name junk h prefix (u32_of_nat i) str = Some (str1, h1)" "hash_inv h1"
      "wasm_find_binding_index_by_name h1 str1 = int i"
      "\<And>n. (if has_name str then h1 = h else index_of h1 n = (if n = generated prefix (u32_of_nat i) then int i else index_of h n))"
  proof (cases "has_name str")
    case True
    then show ?thesis using that [of h] head clear by (simp add: maybe_generate_and_bind_name_def str1_def)
  next
    case False
    have i: "sint (u32_of_nat i) = int i" using clear(2) by (intro u32_small) simp
    have none: "index_of h (generated prefix (u32_of_nat i)) = - 1" using head False by simp
    obtain h1 where h1: "add_binding junk h (generated prefix (u32_of_nat i)) (int i) = Some h1" "hash_inv h1"
      "\<And>n. index_of h1 n = (if n = generated prefix (u32_of_nat i) then int i else index_of h n)"
      using add_binding_ok [OF clear(1) none, of "int i" junk] by auto
    then show ?thesis using that [of h1] False by (simp add: maybe_generate_and_bind_name_def generate_add i str1_def)
  qed
  have keep: "index_of h1 n = index_of h n" if "index_of h n \<noteq> - 1" for n
    using h1(4) [of n] head that by (auto split: if_splits)
  have "names_clear prefix (Suc i) strs h1" unfolding names_clear_def
  proof (intro conjI allI impI)
    fix j assume j: "j < length strs"
    show "if has_name (strs ! j) then wasm_find_binding_index_by_name h1 (strs ! j) = int (Suc i + j)
          else index_of h1 (generated prefix (u32_of_nat (Suc i + j))) = - 1"
    proof (cases "has_name (strs ! j)")
      case True
      then obtain n where n: "strs ! j = Some n" by (auto simp: has_name_Some)
      then show ?thesis using tail [OF j] keep [of n] True by simp
    next
      case False
      have "generated prefix (u32_of_nat (Suc i + j)) \<noteq> generated prefix (u32_of_nat i)"
        using generated_other [of "Suc i + j" i prefix] clear(2) j by simp
      then show ?thesis using tail [OF j] h1(4) [of "generated prefix (u32_of_nat (Suc i + j))"] False
        by (auto split: if_splits)
    qed
  qed (use h1(2) clear(2) in auto)
  from Cons.IH [OF Cons.prems(1) this] obtain names h' where
    ih: "name_all junk prefix (Suc i) strs h1 = Some (names, h')" "named_all prefix (Suc i) strs h1 names h'" by blast
  have "has_name str1" using has_name_generated [OF Cons.prems(1)] by (simp add: str1_def)
  then obtain n1 where n1: "str1 = Some n1" "has_name str1" by (auto simp: has_name_Some)
  have "index_of h' n1 = int i" using ih(2) h1(3) n1 by (auto simp: named_all_def)
  then have "named_all prefix i (str # strs) h (str1 # names) h'"
    using ih(2) n1 keep unfolding named_all_def by (auto simp: nth_Cons str1_def algebra_simps split: nat.splits)
  then show ?case using ih(1) h1(1) by auto
qed

subsection \<open>Modules\<close>

text \<open>A module whose own names lead to their items and do not look like generated ones.\<close>

definition names_free :: "WasmModule \<Rightarrow> bool" where
  "names_free m \<longleftrightarrow>
     names_clear ''$g'' 0 (map global_name (globals m)) (global_bindings m)
     \<and> names_clear ''$t'' 0 (map ft_name (func_types m)) (func_type_bindings m)
     \<and> names_clear ''$f'' 0 (map func_name (funcs m)) (func_bindings m)
     \<and> names_clear ''$T'' 0 (map table_name (tables m)) (table_bindings m)
     \<and> names_clear ''$M'' 0 (map memory_name (memories m)) (memory_bindings m)
     \<and> list_all (\<lambda>f. names_clear ''$p'' 0 (wasm_make_type_binding_reverse_mapping (param_types (decl_sig (func_decl f))) (param_bindings f)) (param_bindings f)
          \<and> names_clear ''$l'' 0 (wasm_make_type_binding_reverse_mapping (local_types f) (local_bindings f)) (local_bindings f)) (funcs m)"

definition all_named :: "WasmStringSlice list \<Rightarrow> WasmBindingHash \<Rightarrow> bool" where
  "all_named names h \<longleftrightarrow> (\<forall>j < length names. has_name (names ! j) \<and> wasm_find_binding_index_by_name h (names ! j) = int j)"

lemma named_all_named: "named_all prefix 0 strs h names h' \<Longrightarrow> all_named names h' \<and> length names = length strs"
  unfolding named_all_def all_named_def by (metis add_0)

lemma map_map2_name:
  assumes "length names = length xs" "\<And>x n. name_of (set_name x n) = n"
  shows "map name_of (map2 set_name xs names) = names"
  using assms by (simp add: list_eq_iff_nth_eq)

lemma gn_visit_func_ok:
  assumes "names_clear ''$p'' 0 (wasm_make_type_binding_reverse_mapping (param_types (decl_sig (func_decl f))) (param_bindings f)) (param_bindings f)"
    "names_clear ''$l'' 0 (wasm_make_type_binding_reverse_mapping (local_types f) (local_bindings f)) (local_bindings f)"
  shows "\<exists>f'. gn_visit_func junk f = Some f' \<and> func_name f' = func_name f"
proof -
  obtain ps pb where p: "name_all junk ''$p'' 0 (wasm_make_type_binding_reverse_mapping (param_types (decl_sig (func_decl f))) (param_bindings f))
      (param_bindings f) = Some (ps, pb)" using name_all_ok [OF _ assms(1), of junk] by auto
  obtain ls lb where l: "name_all junk ''$l'' 0 (wasm_make_type_binding_reverse_mapping (local_types f) (local_bindings f))
      (local_bindings f) = Some (ls, lb)" using name_all_ok [OF _ assms(2), of junk] by auto
  show ?thesis using p l by (simp add: gn_visit_func_def wasm_visit_func_def split: prod.splits)
qed

text \<open>
  Generation does not fail, and after it every item of the module has a name, which leads to its
  index.
\<close>

lemma generated_names_lead_back:
  assumes "names_free m"
  shows "\<exists>m'. wasm_generate_names junk m = Some m'
    \<and> length (funcs m') = length (funcs m) \<and> length (globals m') = length (globals m) \<and> length (func_types m') = length (func_types m)
    \<and> length (tables m') = length (tables m) \<and> length (memories m') = length (memories m)
    \<and> all_named (map func_name (funcs m')) (func_bindings m') \<and> all_named (map global_name (globals m')) (global_bindings m')
    \<and> all_named (map ft_name (func_types m')) (func_type_bindings m') \<and> all_named (map table_name (tables m')) (table_bindings m')
    \<and> all_named (map memory_name (memories m')) (memory_bindings m')"
proof -
  have c: "names_clear ''$g'' 0 (map global_name (globals m)) (global_bindings m)"
     "names_clear ''$t'' 0 (map ft_name (func_types m)) (func_type_bindings m)"
     "names_clear ''$f'' 0 (map func_name (funcs m)) (func_bindings m)"
     "names_clear ''$T'' 0 (map table_name (tables m)) (table_bindings m)"
     "names_clear ''$M'' 0 (map memory_name (memories m)) (memory_bindings m)"
    using assms by (simp_all add: names_free_def)
  obtain gn gb where g: "name_all junk ''$g'' 0 (map global_name (globals m)) (global_bindings m) = Some (gn, gb)"
    "all_named gn gb \<and> length gn = length (globals m)" using name_all_ok [OF _ c(1), of junk] named_all_named by fastforce
  obtain tn tb where t: "name_all junk ''$t'' 0 (map ft_name (func_types m)) (func_type_bindings m) = Some (tn, tb)"
    "all_named tn tb \<and> length tn = length (func_types m)" using name_all_ok [OF _ c(2), of junk] named_all_named by fastforce
  obtain fn fb where f: "name_all junk ''$f'' 0 (map func_name (funcs m)) (func_bindings m) = Some (fn, fb)"
    "all_named fn fb \<and> length fn = length (funcs m)" using name_all_ok [OF _ c(3), of junk] named_all_named by fastforce
  obtain Tn Tb where T: "name_all junk ''$T'' 0 (map table_name (tables m)) (table_bindings m) = Some (Tn, Tb)"
    "all_named Tn Tb \<and> length Tn = length (tables m)" using name_all_ok [OF _ c(4), of junk] named_all_named by fastforce
  obtain Mn Mb where M: "name_all junk ''$M'' 0 (map memory_name (memories m)) (memory_bindings m) = Some (Mn, Mb)"
    "all_named Mn Mb \<and> length Mn = length (memories m)" using name_all_ok [OF _ c(5), of junk] named_all_named by fastforce
  let ?fs = "map2 (\<lambda>f n. f\<lparr>func_name := n\<rparr>) (funcs m) fn"
  have "\<exists>f'. gn_visit_func junk x = Some f' \<and> func_name f' = func_name x" if "x \<in> set ?fs" for x
  proof (rule gn_visit_func_ok)
    obtain f0 n where x: "f0 \<in> set (funcs m)" "x = f0\<lparr>func_name := n\<rparr>" using \<open>x \<in> set ?fs\<close> by (auto dest: set_zip_leftD)
    then show "names_clear ''$p'' 0 (wasm_make_type_binding_reverse_mapping (param_types (decl_sig (func_decl x))) (param_bindings x)) (param_bindings x)"
      "names_clear ''$l'' 0 (wasm_make_type_binding_reverse_mapping (local_types x) (local_bindings x)) (local_bindings x)"
      using assms by (auto simp: names_free_def list_all_iff)
  qed
  then have "\<exists>fs. those (map (gn_visit_func junk) xs) = Some fs \<and> map func_name fs = map func_name xs" if "set xs \<subseteq> set ?fs" for xs
    using that by (induction xs) fastforce+
  from this [of ?fs] obtain fs where fs: "those (map (gn_visit_func junk) ?fs) = Some fs" "map func_name fs = map func_name ?fs" by auto
  have fn: "map func_name fs = fn" unfolding fs(2) using f(2) by (intro map_map2_name) simp_all
  have "length fs = length (funcs m)" using arg_cong [OF fn, of length] f(2) by simp
  moreover have "map global_name (map2 (\<lambda>g n. g\<lparr>global_name := n\<rparr>) (globals m) gn) = gn"
    "map ft_name (map2 (\<lambda>t n. t\<lparr>ft_name := n\<rparr>) (func_types m) tn) = tn"
    "map table_name (map2 (\<lambda>t n. t\<lparr>table_name := n\<rparr>) (tables m) Tn) = Tn"
    "map memory_name (map2 (\<lambda>mem n. mem\<lparr>memory_name := n\<rparr>) (memories m) Mn) = Mn"
    using g(2) t(2) T(2) M(2) by (intro map_map2_name; simp)+
  ultimately show ?thesis unfolding wasm_generate_names_def g(1) t(1) f(1) T(1) M(1)
    using g(2) t(2) f(2) T(2) M(2) fs(1) fn by (simp add: Let_def del: map_map)
qed

end
