(* ===== verification/Wabt_Float.thy ===== *)
theory Wabt_Float
  imports Wabt_Literal
begin

text \<open>
  The floating point operations of C that the interpreter uses (\<open>+ - * /\<close>, comparisons, casts,
  \<open>ceil\<close>, \<open>floor\<close>, \<open>trunc\<close>, \<open>nearbyint\<close>, \<open>sqrt\<close>), on the bits of IEEE 754 numbers in the
  default rounding mode. A finite number is a whole number of units, a unit being the smallest
  subnormal; every operation is exact on integers and rounds once. Which NaN an operation on NaNs
  yields is the hardware's choice, a parameter.
\<close>

unbundle bit_operations_syntax

subsection \<open>Numbers as multiples of the smallest one\<close>

definition f_neg :: "'a :: len word FloatFormat \<Rightarrow> 'a word \<Rightarrow> bool" where
  "f_neg F b = bit b (SIGN_SHIFT F)"

definition f_exp :: "'a :: len word FloatFormat \<Rightarrow> 'a word \<Rightarrow> nat" where
  "f_exp F b = unat (drop_bit (nat (SIG_BITS F)) b AND EXP_MASK F)"

definition f_sig :: "'a :: len word FloatFormat \<Rightarrow> 'a word \<Rightarrow> int" where
  "f_sig F b = uint (b AND SIG_MASK F)"

definition f_is_nan :: "'a :: len word FloatFormat \<Rightarrow> 'a word \<Rightarrow> bool" where
  "f_is_nan F b \<longleftrightarrow> f_exp F b = unat (EXP_MASK F) \<and> f_sig F b \<noteq> 0"

definition f_is_inf :: "'a :: len word FloatFormat \<Rightarrow> 'a word \<Rightarrow> bool" where
  "f_is_inf F b \<longleftrightarrow> f_exp F b = unat (EXP_MASK F) \<and> f_sig F b = 0"

text \<open>\<open>f_one\<close> units are the number 1. The value of an infinity lies beyond that of every number.\<close>

definition f_scale :: "'a :: len word FloatFormat \<Rightarrow> nat" where
  "f_scale F = nat (EXP_BIAS F + SIG_BITS F - 1)"

definition f_one :: "'a :: len word FloatFormat \<Rightarrow> int" where
  "f_one F = 2 ^ f_scale F"

definition f_mag :: "'a :: len word FloatFormat \<Rightarrow> 'a word \<Rightarrow> int" where
  "f_mag F b = (if f_exp F b = 0 then f_sig F b else (2 ^ nat (SIG_BITS F) + f_sig F b) * 2 ^ (f_exp F b - 1))"

definition f_val :: "'a :: len word FloatFormat \<Rightarrow> 'a word \<Rightarrow> int" where
  "f_val F b = (if f_neg F b then - f_mag F b else f_mag F b)"

subsection \<open>Rounding\<close>

definition round_half_even :: "int \<Rightarrow> int \<Rightarrow> int" where
  "round_half_even n d =
     (let q = n div d; r = n mod d in if 2 * r < d \<or> 2 * r = d \<and> even q then q else q + 1)"

function binary_digits :: "int \<Rightarrow> nat" where
  "binary_digits n = (if n \<le> 0 then 0 else Suc (binary_digits (n div 2)))"
  by pat_completeness auto
termination by (relation "measure nat") auto

declare binary_digits.simps [simp del]

text \<open>
  The number next to \<open>n / d\<close> units. Codes without sign are consecutive, across the binades too,
  so the code of \<open>m * 2 ^ s\<close> units is \<open>m\<close> plus \<open>s\<close> times the size of a binade.
\<close>

definition f_inf_code :: "'a :: len word FloatFormat \<Rightarrow> int" where
  "f_inf_code F = uint (EXP_MASK F) * 2 ^ nat (SIG_BITS F)"

definition f_signed :: "'a :: len word FloatFormat \<Rightarrow> bool \<Rightarrow> int \<Rightarrow> 'a word" where
  "f_signed F neg code = word_of_int (of_bool neg * 2 ^ SIGN_SHIFT F + code)"

definition f_round :: "'a :: len word FloatFormat \<Rightarrow> bool \<Rightarrow> int \<Rightarrow> int \<Rightarrow> 'a word" where
  "f_round F neg n d =
     (let s = binary_digits (n div d) - nat (SIG_PLUS_ONE_BITS F);
          code = int s * 2 ^ nat (SIG_BITS F) + round_half_even n (d * 2 ^ s)
      in f_signed F neg (min code (f_inf_code F)))"

definition f_infinity :: "'a :: len word FloatFormat \<Rightarrow> bool \<Rightarrow> 'a word" where
  "f_infinity F neg = f_signed F neg (f_inf_code F)"

definition f_zero :: "'a :: len word FloatFormat \<Rightarrow> bool \<Rightarrow> 'a word" where
  "f_zero F neg = f_signed F neg 0"

subsection \<open>Arithmetic\<close>

text \<open>\<open>nan\<close> is the NaN the hardware makes of the operands.\<close>

type_synonym 'w nan_choice = "'w list \<Rightarrow> 'w"

definition f_add :: "'a :: len word FloatFormat \<Rightarrow> 'a word nan_choice \<Rightarrow> 'a word \<Rightarrow> 'a word \<Rightarrow> 'a word" where
  "f_add F nan a b =
     (if f_is_nan F a \<or> f_is_nan F b then nan [a, b]
      else if f_is_inf F a then if f_is_inf F b \<and> f_neg F a \<noteq> f_neg F b then nan [a, b] else a
      else if f_is_inf F b then b
      else (let v = f_val F a + f_val F b
            in if v = 0 then f_zero F (f_neg F a \<and> f_neg F b) else f_round F (v < 0) \<bar>v\<bar> 1))"

definition f_negate :: "'a :: len word FloatFormat \<Rightarrow> 'a word \<Rightarrow> 'a word" where
  "f_negate F b = b XOR push_bit (SIGN_SHIFT F) 1"

definition f_sub :: "'a :: len word FloatFormat \<Rightarrow> 'a word nan_choice \<Rightarrow> 'a word \<Rightarrow> 'a word \<Rightarrow> 'a word" where
  "f_sub F nan a b =
     (if f_is_nan F a \<or> f_is_nan F b then nan [a, b] else f_add F (\<lambda>_. nan [a, b]) a (f_negate F b))"

definition f_mul :: "'a :: len word FloatFormat \<Rightarrow> 'a word nan_choice \<Rightarrow> 'a word \<Rightarrow> 'a word \<Rightarrow> 'a word" where
  "f_mul F nan a b =
     (let neg = (f_neg F a \<noteq> f_neg F b)
      in if f_is_nan F a \<or> f_is_nan F b then nan [a, b]
         else if f_is_inf F a \<or> f_is_inf F b
         then if f_mag F a = 0 \<or> f_mag F b = 0 then nan [a, b] else f_infinity F neg
         else f_round F neg (f_mag F a * f_mag F b) (f_one F))"

definition f_div :: "'a :: len word FloatFormat \<Rightarrow> 'a word nan_choice \<Rightarrow> 'a word \<Rightarrow> 'a word \<Rightarrow> 'a word" where
  "f_div F nan a b =
     (let neg = (f_neg F a \<noteq> f_neg F b)
      in if f_is_nan F a \<or> f_is_nan F b then nan [a, b]
         else if f_is_inf F a then if f_is_inf F b then nan [a, b] else f_infinity F neg
         else if f_is_inf F b then f_zero F neg
         else if f_mag F b = 0 then if f_mag F a = 0 then nan [a, b] else f_infinity F neg
         else f_round F neg (f_mag F a * f_one F) (f_mag F b))"

text \<open>The whole part of a square root, bit by bit; the rest only matters for not being zero.\<close>

primrec isqrt_loop :: "nat \<Rightarrow> int \<Rightarrow> int \<Rightarrow> int" where
  "isqrt_loop 0 n r = r"
| "isqrt_loop (Suc k) n r = isqrt_loop k n (if (r + 2 ^ k) * (r + 2 ^ k) \<le> n then r + 2 ^ k else r)"

definition isqrt :: "int \<Rightarrow> int" where
  "isqrt n = isqrt_loop (Suc (binary_digits n div 2)) n 0"

definition f_sqrt :: "'a :: len word FloatFormat \<Rightarrow> 'a word nan_choice \<Rightarrow> 'a word \<Rightarrow> 'a word" where
  "f_sqrt F nan a =
     (if f_is_nan F a then nan [a]
      else if f_mag F a = 0 then a
      else if f_neg F a then nan [a]
      else if f_is_inf F a then a
      else (let n = f_mag F a * f_one F; r = isqrt n in f_round F False (2 * r + of_bool (r * r \<noteq> n)) 2))"

text \<open>\<open>ceil\<close>, \<open>floor\<close>, \<open>trunc\<close> and \<open>nearbyint\<close>: the sign of the argument stays, on zero too.\<close>

definition f_whole :: "'a :: len word FloatFormat \<Rightarrow> 'a word nan_choice \<Rightarrow> (int \<Rightarrow> int \<Rightarrow> int) \<Rightarrow> 'a word \<Rightarrow> 'a word" where
  "f_whole F nan whole a =
     (if f_is_nan F a then nan [a]
      else if f_is_inf F a then a
      else f_round F (f_neg F a) (\<bar>whole (f_val F a) (f_one F)\<bar> * f_one F) 1)"

definition whole_floor :: "int \<Rightarrow> int \<Rightarrow> int" where "whole_floor v one = v div one"
definition whole_ceil :: "int \<Rightarrow> int \<Rightarrow> int" where "whole_ceil v one = - (- v div one)"
definition whole_trunc :: "int \<Rightarrow> int \<Rightarrow> int" where "whole_trunc v one = sgn v * (\<bar>v\<bar> div one)"
definition whole_nearest :: "int \<Rightarrow> int \<Rightarrow> int" where "whole_nearest v one = sgn v * round_half_even \<bar>v\<bar> one"

subsection \<open>Comparisons and casts\<close>

definition f_eq :: "'a :: len word FloatFormat \<Rightarrow> 'a word \<Rightarrow> 'a word \<Rightarrow> bool" where
  "f_eq F a b \<longleftrightarrow> \<not> f_is_nan F a \<and> \<not> f_is_nan F b \<and> f_val F a = f_val F b"

definition f_less :: "'a :: len word FloatFormat \<Rightarrow> 'a word \<Rightarrow> 'a word \<Rightarrow> bool" where
  "f_less F a b \<longleftrightarrow> \<not> f_is_nan F a \<and> \<not> f_is_nan F b \<and> f_val F a < f_val F b"

definition f_less_eq :: "'a :: len word FloatFormat \<Rightarrow> 'a word \<Rightarrow> 'a word \<Rightarrow> bool" where
  "f_less_eq F a b \<longleftrightarrow> \<not> f_is_nan F a \<and> \<not> f_is_nan F b \<and> f_val F a \<le> f_val F b"

text \<open>To an integer: the part before the point; where it does not fit, C leaves the cast undefined.\<close>

definition f_to_int :: "'a :: len word FloatFormat \<Rightarrow> 'a word \<Rightarrow> int option" where
  "f_to_int F a = (if f_is_nan F a \<or> f_is_inf F a then None else Some (whole_trunc (f_val F a) (f_one F)))"

definition f_of_int :: "'a :: len word FloatFormat \<Rightarrow> int \<Rightarrow> 'a word" where
  "f_of_int F n = f_round F (n < 0) (\<bar>n\<bar> * f_one F) 1"

text \<open>\<open>(double)\<close> of a float and \<open>(float)\<close> of a double that is not a NaN.\<close>

definition f_promote :: "(u32 \<Rightarrow> u64) \<Rightarrow> u32 \<Rightarrow> u64" where
  "f_promote nan a =
     (if f_is_nan F32 a then nan a
      else if f_is_inf F32 a then f_infinity F64 (f_neg F32 a)
      else f_round F64 (f_neg F32 a) (f_mag F32 a * 2 ^ (f_scale F64 - f_scale F32)) 1)"

definition f_demote :: "u64 \<Rightarrow> u32" where
  "f_demote a =
     (if f_is_inf F64 a then f_infinity F32 (f_neg F64 a)
      else f_round F32 (f_neg F64 a) (f_mag F64 a) (2 ^ (f_scale F64 - f_scale F32)))"

end
