(* ===== verification/Wabt_Interpreter.thy ===== *)
theory Wabt_Interpreter
  imports Wabt_Float Wabt_Binary_Reader Wabt_Binding_Hash "HOL-Library.Signed_Division"
begin

text \<open>
  The stack machine (\<^verbatim>\<open>interpreter.c\<close>). The bytecode of all modules lies in one instruction
  stream; a thread has an array of 64 bit slots for values, an array of return addresses, and the
  number of entries in use of each. A slot is the C union of the value types: writing a 32 bit
  value leaves the upper half of the slot as it was.

  An instruction either goes on, or stops with a result of the interpreter, or is \<open>Wrong\<close>: an
  assertion fails, or memory is touched outside of the arrays. The floating point hardware, the
  allocator and the host functions are parameters, fields of \<open>Machine\<close>; a host function is taken
  not to touch the machine itself. The buffer \<open>host_args\<close> only carries arguments to a host
  function and is not part of the state.
\<close>

unbundle bit_operations_syntax

subsection \<open>State\<close>

datatype WasmInterpreterResult =
    WASM_INTERPRETER_OK | WASM_INTERPRETER_RETURNED | TRAP_MEMORY_ACCESS_OUT_OF_BOUNDS | TRAP_INTEGER_OVERFLOW
  | TRAP_INTEGER_DIVIDE_BY_ZERO | TRAP_INVALID_CONVERSION_TO_INTEGER | TRAP_UNDEFINED_TABLE_INDEX
  | TRAP_UNINITIALIZED_TABLE_ELEMENT | TRAP_UNREACHABLE | TRAP_INDIRECT_CALL_SIGNATURE_MISMATCH
  | TRAP_CALL_STACK_EXHAUSTED | TRAP_VALUE_STACK_EXHAUSTED | TRAP_HOST_RESULT_TYPE_MISMATCH | TRAP_HOST_TRAPPED
  | WASM_INTERPRETER_ARGUMENT_TYPE_MISMATCH | WASM_INTERPRETER_UNKNOWN_EXPORT | WASM_INTERPRETER_EXPORT_KIND_MISMATCH

definition WASM_INVALID_INDEX :: u32 where "WASM_INVALID_INDEX = - 1"
definition WASM_INVALID_OFFSET :: u32 where "WASM_INVALID_OFFSET = - 1"
definition WASM_TABLE_ENTRY_SIZE :: u32 where "WASM_TABLE_ENTRY_SIZE = 9"
definition WASM_PAGE_SIZE :: u32 where "WASM_PAGE_SIZE = 0x10000"

text \<open>The opcodes of the machine itself follow those of the binary format.\<close>

abbreviation (input) WASM_OPCODE_ALLOCA :: WasmOpcode where "WASM_OPCODE_ALLOCA \<equiv> 0xc0"
abbreviation (input) WASM_OPCODE_BR_UNLESS :: WasmOpcode where "WASM_OPCODE_BR_UNLESS \<equiv> 0xc1"
abbreviation (input) WASM_OPCODE_CALL_HOST :: WasmOpcode where "WASM_OPCODE_CALL_HOST \<equiv> 0xc2"
abbreviation (input) WASM_OPCODE_DATA :: WasmOpcode where "WASM_OPCODE_DATA \<equiv> 0xc3"
abbreviation (input) WASM_OPCODE_DROP_KEEP :: WasmOpcode where "WASM_OPCODE_DROP_KEEP \<equiv> 0xc4"

type_synonym WasmInterpreterValue = u64

record WasmInterpreterTypedValue =
  tv_type :: WasmType
  tv_value :: WasmInterpreterValue

record WasmInterpreterFuncSignature =
  isig_param_types :: "WasmType list"
  isig_result_types :: "WasmType list"

record WasmInterpreterTable =
  tbl_limits :: WasmLimits
  tbl_func_indexes :: "u32 list"

record WasmInterpreterMemory =
  mem_data :: "byte list"
  mem_page_limits :: WasmLimits
  mem_byte_size :: u32

record WasmInterpreterGlobal =
  glob_typed_value :: WasmInterpreterTypedValue
  glob_mutable :: bool

text \<open>A host function is known by the number of its callback.\<close>

record DefinedFunc =
  def_offset :: u32
  def_local_decl_count :: u32
  def_local_count :: u32
  def_param_and_local_types :: "WasmType list"

record HostFunc =
  host_module_name :: WasmStringSlice
  host_field_name :: WasmStringSlice
  host_callback :: "nat option"

datatype FuncBody = Defined DefinedFunc | Host HostFunc

record WasmInterpreterFunc =
  fn_sig_index :: u32
  fn_body :: FuncBody

definition fn_is_host :: "WasmInterpreterFunc \<Rightarrow> bool" where
  "fn_is_host f = (case fn_body f of Host _ \<Rightarrow> True | Defined _ \<Rightarrow> False)"

datatype ImportBody = ImpFunc u32 | ImpTable WasmLimits | ImpMemory WasmLimits | ImpGlobal WasmType bool

record WasmInterpreterImport =
  imp_module_name :: WasmStringSlice
  imp_field_name :: WasmStringSlice
  imp_kind :: WasmExternalKind
  imp_body :: "ImportBody option"

record WasmInterpreterExport =
  exp_name :: WasmStringSlice
  exp_kind :: WasmExternalKind
  exp_index :: u32

text \<open>A host module has the number of its import delegate.\<close>

record DefinedModule =
  mod_imports :: "WasmInterpreterImport list"
  mod_start_func_index :: u32
  mod_istream_start :: nat
  mod_istream_end :: nat

datatype ModuleBody = DefinedMod DefinedModule | HostMod "nat option"

record WasmInterpreterModule =
  mod_name :: WasmStringSlice
  mod_exports :: "WasmInterpreterExport list"
  mod_export_bindings :: WasmBindingHash
  mod_memory_index :: u32
  mod_table_index :: u32
  mod_body :: ModuleBody

record WasmInterpreterEnvironment =
  env_modules :: "WasmInterpreterModule list"
  env_sigs :: "WasmInterpreterFuncSignature list"
  env_funcs :: "WasmInterpreterFunc list"
  env_memories :: "WasmInterpreterMemory list"
  env_tables :: "WasmInterpreterTable list"
  env_globals :: "WasmInterpreterGlobal list"
  env_istream :: "byte list"
  env_module_bindings :: WasmBindingHash
  env_registered_module_bindings :: WasmBindingHash

text \<open>A thread is its stacks and the \<open>pc\<close> at which it goes on.\<close>

record ThreadState =
  t_env :: WasmInterpreterEnvironment
  t_value_stack :: "WasmInterpreterValue list"
  t_value_stack_top :: nat
  t_call_stack :: "u32 list"
  t_call_stack_top :: nat

record WasmInterpreterThread = ThreadState +
  t_pc :: u32

text \<open>Inside the run loop \<open>pc\<close> is a local variable, which \<open>thread->pc\<close> only takes over in the end.\<close>

record RunState = ThreadState +
  local_pc :: nat

record Machine =
  nan32 :: "u32 list \<Rightarrow> u32"
  nan64 :: "u64 list \<Rightarrow> u64"
  nan_promote :: "u32 \<Rightarrow> u64"
  realloc_ok :: "u32 \<Rightarrow> bool"
  callback :: "nat \<Rightarrow> WasmInterpreterFuncSignature \<Rightarrow> WasmInterpreterTypedValue list
                 \<Rightarrow> WasmResult \<times> WasmInterpreterTypedValue list"

definition wasm_init_interpreter_thread :: "WasmInterpreterEnvironment \<Rightarrow> u32 \<Rightarrow> u32 \<Rightarrow> u32 \<Rightarrow> WasmInterpreterThread" where
  "wasm_init_interpreter_thread env value_stack_size call_stack_size pc =
     \<lparr>t_env = env, t_value_stack = replicate (unat value_stack_size) 0, t_value_stack_top = 0,
      t_call_stack = replicate (unat call_stack_size) 0, t_call_stack_top = 0, t_pc = pc\<rparr>"

subsection \<open>Steps\<close>

datatype Stop = Stopped WasmInterpreterResult | Wrong

type_synonym 'a exec = "RunState \<Rightarrow> (Stop \<times> RunState) + ('a \<times> RunState)"

definition ebind :: "'a exec \<Rightarrow> ('a \<Rightarrow> 'b exec) \<Rightarrow> 'b exec" where
  "ebind m f s = (case m s of Inl e \<Rightarrow> Inl e | Inr (x, s) \<Rightarrow> f x s)"

abbreviation ethen :: "unit exec \<Rightarrow> 'b exec \<Rightarrow> 'b exec" where
  "ethen m k \<equiv> ebind m (\<lambda>_. k)"

definition eret :: "'a \<Rightarrow> 'a exec" where "eret x s = Inr (x, s)"
definition trap :: "WasmInterpreterResult \<Rightarrow> 'a exec" where "trap r s = Inl (Stopped r, s)"
definition wrong :: "'a exec" where "wrong s = Inl (Wrong, s)"
definition trap_if :: "bool \<Rightarrow> WasmInterpreterResult \<Rightarrow> unit exec" where "trap_if c r = (if c then trap r else eret ())"
definition eassert :: "bool \<Rightarrow> unit exec" where "eassert c = (if c then eret () else wrong)"
definition eget :: "(RunState \<Rightarrow> 'a) \<Rightarrow> 'a exec" where "eget f s = Inr (f s, s)"
definition eupdate :: "(RunState \<Rightarrow> RunState) \<Rightarrow> unit exec" where "eupdate f s = Inr ((), f s)"

text \<open>The value stack. Slots above the top are part of the array still.\<close>

definition push_with :: "(WasmInterpreterValue \<Rightarrow> WasmInterpreterValue) \<Rightarrow> unit exec" where
  "push_with f s =
     (let top = t_value_stack_top s
      in if top \<ge> length (t_value_stack s) then trap TRAP_VALUE_STACK_EXHAUSTED s
         else eupdate (\<lambda>s. s\<lparr>t_value_stack := (t_value_stack s)[top := f (t_value_stack s ! top)], t_value_stack_top := top + 1\<rparr>) s)"

definition low_half :: "u32 \<Rightarrow> WasmInterpreterValue \<Rightarrow> WasmInterpreterValue" where
  "low_half w v = (v AND 0xffffffff00000000) OR ucast w"

definition push :: "WasmInterpreterValue \<Rightarrow> unit exec" where "push v = push_with (\<lambda>_. v)"
definition push_i32 :: "u32 \<Rightarrow> unit exec" where "push_i32 w = push_with (low_half w)"
definition push_i64 :: "u64 \<Rightarrow> unit exec" where "push_i64 w = push w"

definition pop :: "WasmInterpreterValue exec" where
  "pop s =
     (let top = t_value_stack_top s
      in if top = 0 \<or> top > length (t_value_stack s) then wrong s
         else Inr (t_value_stack s ! (top - 1), s\<lparr>t_value_stack_top := top - 1\<rparr>))"

definition pop_i32 :: "u32 exec" where "pop_i32 = ebind pop (\<lambda>v. eret (ucast v))"
definition pop_i64 :: "u64 exec" where "pop_i64 = pop"

definition pick_slot :: "u32 \<Rightarrow> nat exec" where
  "pick_slot depth s =
     (let top = t_value_stack_top s; d = unat depth
      in if d > top \<or> top - d \<ge> length (t_value_stack s) then wrong s else Inr (top - d, s))"

definition pick :: "u32 \<Rightarrow> WasmInterpreterValue exec" where
  "pick depth = ebind (pick_slot depth) (\<lambda>i. eget (\<lambda>s. t_value_stack s ! i))"

definition set_pick :: "u32 \<Rightarrow> WasmInterpreterValue \<Rightarrow> unit exec" where
  "set_pick depth v = ebind (pick_slot depth) (\<lambda>i. eupdate (\<lambda>s. s\<lparr>t_value_stack := (t_value_stack s)[i := v]\<rparr>))"

definition drop_keep :: "u32 \<Rightarrow> byte \<Rightarrow> unit exec" where
  "drop_keep drop_count keep =
     ethen (eassert (keep \<le> 1))
     (ethen (if keep = 1 then ebind (pick 1) (set_pick (drop_count + 1)) else eret ())
     (ebind (eget t_value_stack_top) (\<lambda>top.
      ethen (eassert (unat drop_count \<le> top))
      (eupdate (\<lambda>s. s\<lparr>t_value_stack_top := top - unat drop_count\<rparr>)))))"

text \<open>The instruction stream.\<close>

definition istream_bytes :: "nat \<Rightarrow> nat \<Rightarrow> byte list exec" where
  "istream_bytes at n s =
     (if at + n \<le> length (env_istream (t_env s)) then Inr (take n (drop at (env_istream (t_env s))), s) else wrong s)"

definition read_bytes :: "nat \<Rightarrow> byte list exec" where
  "read_bytes n =
     ebind (eget local_pc) (\<lambda>pc. ebind (istream_bytes pc n) (\<lambda>bs. ethen (eupdate (\<lambda>s. s\<lparr>local_pc := pc + n\<rparr>)) (eret bs)))"

definition read_u8 :: "byte exec" where "read_u8 = ebind (read_bytes 1) (\<lambda>bs. eret (bs ! 0))"
definition read_u32 :: "u32 exec" where "read_u32 = ebind (read_bytes 4) (\<lambda>bs. eret (le_word 4 bs))"
definition read_u64 :: "u64 exec" where "read_u64 = ebind (read_bytes 8) (\<lambda>bs. eret (le_word 8 bs))"

definition goto :: "u32 \<Rightarrow> unit exec" where
  "goto off = eupdate (\<lambda>s. s\<lparr>local_pc := unat off\<rparr>)"

definition read_table_entry_at :: "nat \<Rightarrow> (u32 \<times> u32 \<times> byte) exec" where
  "read_table_entry_at entry =
     ebind (istream_bytes entry 9) (\<lambda>bs. eret (le_word 4 bs, le_word 4 (drop 4 bs), bs ! 8))"

text \<open>Calls.\<close>

definition push_call :: "unit exec" where
  "push_call s =
     (let top = t_call_stack_top s
      in if top \<ge> length (t_call_stack s) then trap TRAP_CALL_STACK_EXHAUSTED s
         else Inr ((), s\<lparr>t_call_stack := (t_call_stack s)[top := u32_of_nat (local_pc s)], t_call_stack_top := top + 1\<rparr>))"

definition pop_call :: "u32 exec" where
  "pop_call s =
     (let top = t_call_stack_top s
      in if top = 0 \<or> top > length (t_call_stack s) then wrong s
         else Inr (t_call_stack s ! (top - 1), s\<lparr>t_call_stack_top := top - 1\<rparr>))"

definition wasm_func_signatures_are_equal :: "WasmInterpreterEnvironment \<Rightarrow> u32 \<Rightarrow> u32 \<Rightarrow> bool" where
  "wasm_func_signatures_are_equal env i j \<longleftrightarrow> i = j \<or> env_sigs env ! unat i = env_sigs env ! unat j"

definition nth_checked :: "'a list \<Rightarrow> u32 \<Rightarrow> 'a exec" where
  "nth_checked xs i = (if unat i < length xs then eret (xs ! unat i) else wrong)"

text \<open>\<open>wasm_call_host\<close>: arguments are popped last first, results pushed in order.\<close>

fun pop_args :: "WasmType list \<Rightarrow> WasmInterpreterTypedValue list \<Rightarrow> WasmInterpreterTypedValue list exec" where
  "pop_args [] args = eret args"
| "pop_args (t # ts) args = ebind pop (\<lambda>v. pop_args ts (\<lparr>tv_type = t, tv_value = v\<rparr> # args))"

fun push_results :: "WasmType list \<Rightarrow> WasmInterpreterTypedValue list \<Rightarrow> unit exec" where
  "push_results [] vs = eret ()"
| "push_results (t # ts) [] = wrong"
| "push_results (t # ts) (v # vs) =
     ethen (trap_if (tv_type v \<noteq> t) TRAP_HOST_RESULT_TYPE_MISMATCH) (ethen (push (tv_value v)) (push_results ts vs))"

definition wasm_call_host :: "Machine \<Rightarrow> WasmInterpreterFunc \<Rightarrow> unit exec" where
  "wasm_call_host M func =
     (case fn_body func of
        Defined _ \<Rightarrow> wrong
      | Host h \<Rightarrow>
          ebind (eget (env_sigs \<circ> t_env)) (\<lambda>sigs.
          ebind (nth_checked sigs (fn_sig_index func)) (\<lambda>sig.
          ebind (pop_args (rev (isig_param_types sig)) []) (\<lambda>args.
            (case host_callback h of
               None \<Rightarrow> wrong
             | Some cb \<Rightarrow>
                 (case callback M cb sig args of
                    (r, results) \<Rightarrow>
                      ethen (trap_if (r \<noteq> WASM_OK) TRAP_HOST_TRAPPED) (push_results (isig_result_types sig) results)))))))"

text \<open>The instructions that call the host drop the result of \<open>wasm_call_host\<close>.\<close>

definition ignore_result :: "unit exec \<Rightarrow> unit exec" where
  "ignore_result m s = (case m s of Inl (Stopped _, s') \<Rightarrow> Inr ((), s') | r \<Rightarrow> r)"

end
