(* ===== verification/Wabt_Interpreter_Run.thy ===== *)
theory Wabt_Interpreter_Run
  imports Wabt_Interpreter
begin

text \<open>
  The instructions of the stack machine and the loop that runs them
  (\<^verbatim>\<open>wasm_run_interpreter\<close>). The switch over the opcode is a table from opcodes to steps, in
  the order of the code; the macros that its cases share are functions of the operation.
\<close>

unbundle bit_operations_syntax

subsection \<open>Control, variables and calls\<close>

definition op_select :: "unit exec" where
  "op_select = ebind pop_i32 (\<lambda>cond. ebind pop (\<lambda>f. ebind pop (\<lambda>t. push (if cond \<noteq> 0 then t else f))))"

definition op_br :: "unit exec" where
  "op_br = ebind read_u32 goto"

definition op_br_if :: "unit exec" where
  "op_br_if = ebind read_u32 (\<lambda>new_pc. ebind pop_i32 (\<lambda>c. if c \<noteq> 0 then goto new_pc else eret ()))"

definition op_br_unless :: "unit exec" where
  "op_br_unless = ebind read_u32 (\<lambda>new_pc. ebind pop_i32 (\<lambda>c. if c = 0 then goto new_pc else eret ()))"

definition op_br_table :: "unit exec" where
  "op_br_table =
     ebind read_u32 (\<lambda>num_targets. ebind read_u32 (\<lambda>table_offset. ebind pop_i32 (\<lambda>key.
       let key_offset = (if key \<ge> num_targets then num_targets else key) * WASM_TABLE_ENTRY_SIZE
       in ebind (read_table_entry_at (unat table_offset + unat key_offset)) (\<lambda>(new_pc, drop_count, keep_count).
          ethen (drop_keep drop_count keep_count) (goto new_pc)))))"

definition op_return :: "nat \<Rightarrow> unit exec" where
  "op_return call_stack_return_top =
     ebind (eget t_call_stack_top) (\<lambda>top.
       if top = call_stack_return_top then trap WASM_INTERPRETER_RETURNED else ebind pop_call goto)"

definition op_get_global :: "unit exec" where
  "op_get_global =
     ebind read_u32 (\<lambda>index. ebind (eget (env_globals \<circ> t_env)) (\<lambda>gs.
     ebind (nth_checked gs index) (\<lambda>g. push (tv_value (glob_typed_value g)))))"

definition op_set_global :: "unit exec" where
  "op_set_global =
     ebind read_u32 (\<lambda>index. ebind (eget (env_globals \<circ> t_env)) (\<lambda>gs.
     ebind (nth_checked gs index) (\<lambda>g. ebind pop (\<lambda>v.
     eupdate (\<lambda>s. s\<lparr>t_env := (t_env s)\<lparr>env_globals :=
       gs[unat index := g\<lparr>glob_typed_value := (glob_typed_value g)\<lparr>tv_value := v\<rparr>\<rparr>]\<rparr>\<rparr>)))))"

definition op_get_local :: "unit exec" where
  "op_get_local = ebind read_u32 (\<lambda>d. ebind (pick d) push)"

definition op_set_local :: "unit exec" where
  "op_set_local = ebind pop (\<lambda>v. ebind read_u32 (\<lambda>d. set_pick d v))"

definition op_tee_local :: "unit exec" where
  "op_tee_local = ebind read_u32 (\<lambda>d. ebind (pick 1) (set_pick d))"

definition op_call :: "unit exec" where
  "op_call = ebind read_u32 (\<lambda>off. ethen push_call (goto off))"

definition op_call_indirect :: "Machine \<Rightarrow> unit exec" where
  "op_call_indirect M =
     ebind read_u32 (\<lambda>table_index. ebind (eget t_env) (\<lambda>env.
     ebind (nth_checked (env_tables env) table_index) (\<lambda>table.
     ebind read_u32 (\<lambda>sig_index.
     ethen (eassert (unat sig_index < length (env_sigs env)))
     (ebind pop_i32 (\<lambda>entry_index.
     ethen (trap_if (unat entry_index \<ge> length (tbl_func_indexes table)) TRAP_UNDEFINED_TABLE_INDEX)
     (let func_index = tbl_func_indexes table ! unat entry_index
      in ethen (trap_if (func_index = WASM_INVALID_INDEX) TRAP_UNINITIALIZED_TABLE_ELEMENT)
         (ebind (nth_checked (env_funcs env) func_index) (\<lambda>func.
          ethen (eassert (fn_sig_index func = sig_index \<or> unat (fn_sig_index func) < length (env_sigs env)))
          (ethen (trap_if (\<not> wasm_func_signatures_are_equal env (fn_sig_index func) sig_index) TRAP_INDIRECT_CALL_SIGNATURE_MISMATCH)
          (case fn_body func of
             Host _ \<Rightarrow> ignore_result (wasm_call_host M func)
           | Defined d \<Rightarrow> ethen push_call (goto (def_offset d)))))))))))))"

definition op_call_host :: "Machine \<Rightarrow> unit exec" where
  "op_call_host M =
     ebind read_u32 (\<lambda>func_index. ebind (eget (env_funcs \<circ> t_env)) (\<lambda>fs.
     ebind (nth_checked fs func_index) (\<lambda>func. ignore_result (wasm_call_host M func))))"

definition op_alloca :: "unit exec" where
  "op_alloca =
     ebind (eget t_value_stack_top) (\<lambda>old_top.
     ebind read_u32 (\<lambda>n.
     ethen (eupdate (\<lambda>s. s\<lparr>t_value_stack_top := old_top + unat n\<rparr>))
     (ebind (eget (length \<circ> t_value_stack)) (\<lambda>len.
     ethen (trap_if (old_top + unat n \<ge> len) TRAP_VALUE_STACK_EXHAUSTED)
     (eupdate (\<lambda>s. s\<lparr>t_value_stack := overwrite (t_value_stack s) old_top (replicate (unat n) 0)\<rparr>))))))"

definition op_drop_keep :: "unit exec" where
  "op_drop_keep = ebind read_u32 (\<lambda>drop_count. ebind read_u8 (\<lambda>keep_count. drop_keep drop_count keep_count))"

definition control_cases :: "Machine \<Rightarrow> nat \<Rightarrow> (WasmOpcode \<times> unit exec) list" where
  "control_cases M call_stack_return_top =
    [(WASM_OPCODE_SELECT, op_select),
     (WASM_OPCODE_BR, op_br),
     (WASM_OPCODE_BR_IF, op_br_if),
     (WASM_OPCODE_BR_TABLE, op_br_table),
     (WASM_OPCODE_RETURN, op_return call_stack_return_top),
     (WASM_OPCODE_UNREACHABLE, trap TRAP_UNREACHABLE),
     (WASM_OPCODE_I32_CONST, ebind read_u32 push_i32),
     (WASM_OPCODE_I64_CONST, ebind read_u64 push_i64),
     (WASM_OPCODE_F32_CONST, ebind read_u32 push_i32),
     (WASM_OPCODE_F64_CONST, ebind read_u64 push_i64),
     (WASM_OPCODE_GET_GLOBAL, op_get_global),
     (WASM_OPCODE_SET_GLOBAL, op_set_global),
     (WASM_OPCODE_GET_LOCAL, op_get_local),
     (WASM_OPCODE_SET_LOCAL, op_set_local),
     (WASM_OPCODE_TEE_LOCAL, op_tee_local),
     (WASM_OPCODE_CALL, op_call),
     (WASM_OPCODE_CALL_INDIRECT, op_call_indirect M),
     (WASM_OPCODE_CALL_HOST, op_call_host M)]"

definition misc_cases :: "(WasmOpcode \<times> unit exec) list" where
  "misc_cases =
    [(WASM_OPCODE_ALLOCA, op_alloca),
     (WASM_OPCODE_BR_UNLESS, op_br_unless),
     (WASM_OPCODE_DROP, ebind pop (\<lambda>_. eret ())),
     (WASM_OPCODE_DROP_KEEP, op_drop_keep),
     (WASM_OPCODE_DATA, wrong),
     (WASM_OPCODE_NOP, eret ())]"

subsection \<open>Memory\<close>

text \<open>\<open>GET_MEMORY\<close>, then the address: computed in 64 bits, from the operand and the constant.\<close>

definition get_memory :: "(nat \<times> WasmInterpreterMemory) exec" where
  "get_memory =
     ebind read_u32 (\<lambda>index. ebind (eget (env_memories \<circ> t_env)) (\<lambda>ms.
     ebind (nth_checked ms index) (\<lambda>memory. eret (unat index, memory))))"

definition effective_address :: "u64 exec" where
  "effective_address = ebind pop_i32 (\<lambda>address. ebind read_u32 (\<lambda>off. eret (ucast address + ucast off)))"

definition in_memory :: "WasmInterpreterMemory \<Rightarrow> u64 \<Rightarrow> nat \<Rightarrow> unit exec" where
  "in_memory memory off n =
     ethen (trap_if (off + word_of_nat n > ucast (mem_byte_size memory)) TRAP_MEMORY_ACCESS_OUT_OF_BOUNDS)
     (eassert (unat (ucast off :: u32) + n \<le> length (mem_data memory)))"

definition op_load :: "nat \<Rightarrow> (u64 \<Rightarrow> unit exec) \<Rightarrow> unit exec" where
  "op_load n push_value =
     ebind get_memory (\<lambda>(_, memory). ebind effective_address (\<lambda>off.
     ethen (in_memory memory off n)
     (push_value (le_word n (take n (drop (unat (ucast off :: u32)) (mem_data memory)))))))"

definition set_memory_bytes :: "nat \<Rightarrow> WasmInterpreterMemory \<Rightarrow> nat \<Rightarrow> byte list \<Rightarrow> unit exec" where
  "set_memory_bytes index memory at bs =
     eupdate (\<lambda>s. s\<lparr>t_env := (t_env s)\<lparr>env_memories :=
       (env_memories (t_env s))[index := memory\<lparr>mem_data := overwrite (mem_data memory) at bs\<rparr>]\<rparr>\<rparr>)"

definition op_store :: "nat \<Rightarrow> u64 exec \<Rightarrow> unit exec" where
  "op_store n pop_value =
     ebind get_memory (\<lambda>(index, memory). ebind pop_value (\<lambda>v. ebind effective_address (\<lambda>off.
     ethen (in_memory memory off n)
     (set_memory_bytes index memory (unat (ucast off :: u32)) (le_bytes n v)))))"

definition pop_i32_wide :: "u64 exec" where
  "pop_i32_wide = ebind pop_i32 (\<lambda>w. eret (ucast w))"

text \<open>The value that is loaded: zero or sign extended from its \<open>n\<close> bytes.\<close>

definition push_u32 :: "u64 \<Rightarrow> unit exec" where "push_u32 v = push_i32 (ucast v)"
definition push_s32 :: "nat \<Rightarrow> u64 \<Rightarrow> unit exec" where "push_s32 n v = push_i32 (ucast (signed_take_bit (8 * n - 1) v))"
definition push_s64 :: "nat \<Rightarrow> u64 \<Rightarrow> unit exec" where "push_s64 n v = push_i64 (signed_take_bit (8 * n - 1) v)"

definition load_cases :: "(WasmOpcode \<times> unit exec) list" where
  "load_cases =
    [(WASM_OPCODE_I32_LOAD8_S, op_load 1 (push_s32 1)),
     (WASM_OPCODE_I32_LOAD8_U, op_load 1 push_u32),
     (WASM_OPCODE_I32_LOAD16_S, op_load 2 (push_s32 2)),
     (WASM_OPCODE_I32_LOAD16_U, op_load 2 push_u32),
     (WASM_OPCODE_I64_LOAD8_S, op_load 1 (push_s64 1)),
     (WASM_OPCODE_I64_LOAD8_U, op_load 1 push_i64),
     (WASM_OPCODE_I64_LOAD16_S, op_load 2 (push_s64 2)),
     (WASM_OPCODE_I64_LOAD16_U, op_load 2 push_i64),
     (WASM_OPCODE_I64_LOAD32_S, op_load 4 (push_s64 4)),
     (WASM_OPCODE_I64_LOAD32_U, op_load 4 push_i64),
     (WASM_OPCODE_I32_LOAD, op_load 4 push_u32),
     (WASM_OPCODE_I64_LOAD, op_load 8 push_i64),
     (WASM_OPCODE_F32_LOAD, op_load 4 push_u32),
     (WASM_OPCODE_F64_LOAD, op_load 8 push_i64)]"

definition store_cases :: "(WasmOpcode \<times> unit exec) list" where
  "store_cases =
    [(WASM_OPCODE_I32_STORE8, op_store 1 pop_i32_wide),
     (WASM_OPCODE_I32_STORE16, op_store 2 pop_i32_wide),
     (WASM_OPCODE_I64_STORE8, op_store 1 pop_i64),
     (WASM_OPCODE_I64_STORE16, op_store 2 pop_i64),
     (WASM_OPCODE_I64_STORE32, op_store 4 pop_i64),
     (WASM_OPCODE_I32_STORE, op_store 4 pop_i32_wide),
     (WASM_OPCODE_I64_STORE, op_store 8 pop_i64),
     (WASM_OPCODE_F32_STORE, op_store 4 pop_i32_wide),
     (WASM_OPCODE_F64_STORE, op_store 8 pop_i64)]"

definition op_current_memory :: "unit exec" where
  "op_current_memory = ebind get_memory (\<lambda>(_, memory). push_i32 (ucast (limits_initial (mem_page_limits memory))))"

text \<open>
  \<open>grow_memory\<close>. The new size in pages is computed in 32 bits; when it wraps around to a smaller
  one, the length given to \<open>memset\<close> wraps too, and it writes far outside of the memory.
\<close>

definition op_grow_memory :: "Machine \<Rightarrow> unit exec" where
  "op_grow_memory M =
     ebind get_memory (\<lambda>(index, memory). ebind pop_i32 (\<lambda>grow_pages.
       let limits = mem_page_limits memory;
           old_page_size = ucast (limits_initial limits) :: u32;
           old_byte_size = mem_byte_size memory;
           new_page_size = old_page_size + grow_pages;
           max_page_size = (if limits_has_max limits then ucast (limits_max limits) else WASM_MAX_PAGES);
           new_byte_size = new_page_size * WASM_PAGE_SIZE
       in if new_page_size > max_page_size then push_i32 (- 1)
          else if (ucast new_page_size :: u64) * ucast WASM_PAGE_SIZE > 0xffffffff then push_i32 (- 1)
          else if \<not> realloc_ok M new_byte_size then push_i32 (- 1)
          else ethen (eassert (old_byte_size \<le> new_byte_size))
               (ethen (eupdate (\<lambda>s. s\<lparr>t_env := (t_env s)\<lparr>env_memories := (env_memories (t_env s))[index :=
                   memory\<lparr>mem_data := take (unat old_byte_size) (mem_data memory) @ replicate (unat (new_byte_size - old_byte_size)) 0,
                     mem_page_limits := limits\<lparr>limits_initial := ucast new_page_size\<rparr>, mem_byte_size := new_byte_size\<rparr>]\<rparr>\<rparr>))
               (push_i32 old_page_size))))"

definition memory_cases :: "Machine \<Rightarrow> (WasmOpcode \<times> unit exec) list" where
  "memory_cases M = [(WASM_OPCODE_CURRENT_MEMORY, op_current_memory), (WASM_OPCODE_GROW_MEMORY, op_grow_memory M)]"

subsection \<open>Integers\<close>

text \<open>The operations on one width, over the pushes and pops of that width.\<close>

definition binop :: "'w exec \<Rightarrow> ('r \<Rightarrow> unit exec) \<Rightarrow> ('w \<Rightarrow> 'w \<Rightarrow> 'r) \<Rightarrow> unit exec" where
  "binop pop_value push_value f = ebind pop_value (\<lambda>rhs. ebind pop_value (\<lambda>lhs. push_value (f lhs rhs)))"

definition unop :: "'w exec \<Rightarrow> ('r \<Rightarrow> unit exec) \<Rightarrow> ('w \<Rightarrow> 'r) \<Rightarrow> unit exec" where
  "unop pop_value push_value f = ebind pop_value (\<lambda>v. push_value (f v))"

definition push_bool :: "bool \<Rightarrow> unit exec" where
  "push_bool b = push_i32 (of_bool b)"

text \<open>Shift counts are taken modulo the width, which is a power of two.\<close>

definition shift_amount :: "'a :: len word \<Rightarrow> nat" where
  "shift_amount rhs = unat (rhs AND word_of_nat (LENGTH('a) - 1))"

definition int_shl :: "'a :: len word \<Rightarrow> 'a word \<Rightarrow> 'a word" where
  "int_shl lhs rhs = push_bit (shift_amount rhs) lhs"

definition int_shr_u :: "'a :: len word \<Rightarrow> 'a word \<Rightarrow> 'a word" where
  "int_shr_u lhs rhs = drop_bit (shift_amount rhs) lhs"

definition int_shr_s :: "'a :: len word \<Rightarrow> 'a word \<Rightarrow> 'a word" where
  "int_shr_s lhs rhs = signed_drop_bit (shift_amount rhs) lhs"

definition int_rotl :: "'a :: len word \<Rightarrow> 'a word \<Rightarrow> 'a word" where
  "int_rotl lhs rhs =
     (let amount = shift_amount rhs
      in if amount \<noteq> 0 then push_bit amount lhs OR drop_bit (LENGTH('a) - amount) lhs else lhs)"

definition int_rotr :: "'a :: len word \<Rightarrow> 'a word \<Rightarrow> 'a word" where
  "int_rotr lhs rhs =
     (let amount = shift_amount rhs
      in if amount \<noteq> 0 then drop_bit amount lhs OR push_bit (LENGTH('a) - amount) lhs else lhs)"

text \<open>Division: the results of C, after the tests that keep it defined.\<close>

definition div_u :: "('a :: len word) exec \<Rightarrow> ('a word \<Rightarrow> unit exec) \<Rightarrow> ('a word \<Rightarrow> 'a word \<Rightarrow> 'a word) \<Rightarrow> unit exec" where
  "div_u pop_value push_value f =
     ebind pop_value (\<lambda>rhs. ebind pop_value (\<lambda>lhs.
     ethen (trap_if (rhs = 0) TRAP_INTEGER_DIVIDE_BY_ZERO) (push_value (f lhs rhs))))"

definition signed_min :: "'a :: len word" where
  "signed_min = push_bit (LENGTH('a) - 1) 1"

definition div_s :: "('a :: len word) exec \<Rightarrow> ('a word \<Rightarrow> unit exec) \<Rightarrow> unit exec" where
  "div_s pop_value push_value =
     ebind pop_value (\<lambda>rhs. ebind pop_value (\<lambda>lhs.
     ethen (trap_if (rhs = 0) TRAP_INTEGER_DIVIDE_BY_ZERO)
     (ethen (trap_if (lhs = signed_min \<and> rhs = - 1) TRAP_INTEGER_OVERFLOW)
     (push_value (word_of_int (sint lhs sdiv sint rhs))))))"

definition rem_s :: "('a :: len word) exec \<Rightarrow> ('a word \<Rightarrow> unit exec) \<Rightarrow> unit exec" where
  "rem_s pop_value push_value =
     ebind pop_value (\<lambda>rhs. ebind pop_value (\<lambda>lhs.
     ethen (trap_if (rhs = 0) TRAP_INTEGER_DIVIDE_BY_ZERO)
     (push_value (if lhs = signed_min \<and> rhs = - 1 then 0 else word_of_int (sint lhs smod sint rhs)))))"

text \<open>\<open>wasm_clz\<close> and the others are defined on nonzero words; the instructions add the case of zero.\<close>

definition int_clz :: "'a :: len word \<Rightarrow> 'a word" where
  "int_clz v = (if v \<noteq> 0 then word_of_int (clz v) else word_of_nat (LENGTH('a)))"

fun ctz_from :: "nat \<Rightarrow> nat \<Rightarrow> 'a :: len word \<Rightarrow> nat" where
  "ctz_from 0 i v = i"
| "ctz_from (Suc k) i v = (if bit v i then i else ctz_from k (Suc i) v)"

definition int_ctz :: "'a :: len word \<Rightarrow> 'a word" where
  "int_ctz v = (if v \<noteq> 0 then word_of_nat (ctz_from (LENGTH('a)) 0 v) else word_of_nat (LENGTH('a)))"

definition int_popcnt :: "'a :: len word \<Rightarrow> 'a word" where
  "int_popcnt v = word_of_nat (length (filter (bit v) [0..<LENGTH('a)]))"

definition i32_cases :: "(WasmOpcode \<times> unit exec) list" where
  "i32_cases =
    [(WASM_OPCODE_I32_ADD, binop pop_i32 push_i32 (+)),
     (WASM_OPCODE_I32_SUB, binop pop_i32 push_i32 (-)),
     (WASM_OPCODE_I32_MUL, binop pop_i32 push_i32 (*)),
     (WASM_OPCODE_I32_DIV_S, div_s pop_i32 push_i32),
     (WASM_OPCODE_I32_DIV_U, div_u pop_i32 push_i32 (div)),
     (WASM_OPCODE_I32_REM_S, rem_s pop_i32 push_i32),
     (WASM_OPCODE_I32_REM_U, div_u pop_i32 push_i32 (mod)),
     (WASM_OPCODE_I32_AND, binop pop_i32 push_i32 (AND)),
     (WASM_OPCODE_I32_OR, binop pop_i32 push_i32 (OR)),
     (WASM_OPCODE_I32_XOR, binop pop_i32 push_i32 (XOR)),
     (WASM_OPCODE_I32_SHL, binop pop_i32 push_i32 int_shl),
     (WASM_OPCODE_I32_SHR_U, binop pop_i32 push_i32 int_shr_u),
     (WASM_OPCODE_I32_SHR_S, binop pop_i32 push_i32 int_shr_s),
     (WASM_OPCODE_I32_EQ, binop pop_i32 push_bool (=)),
     (WASM_OPCODE_I32_NE, binop pop_i32 push_bool (\<noteq>)),
     (WASM_OPCODE_I32_LT_S, binop pop_i32 push_bool (<s)),
     (WASM_OPCODE_I32_LE_S, binop pop_i32 push_bool (\<le>s)),
     (WASM_OPCODE_I32_LT_U, binop pop_i32 push_bool (<)),
     (WASM_OPCODE_I32_LE_U, binop pop_i32 push_bool (\<le>)),
     (WASM_OPCODE_I32_GT_S, binop pop_i32 push_bool (\<lambda>a b. b <s a)),
     (WASM_OPCODE_I32_GE_S, binop pop_i32 push_bool (\<lambda>a b. b \<le>s a)),
     (WASM_OPCODE_I32_GT_U, binop pop_i32 push_bool (>)),
     (WASM_OPCODE_I32_GE_U, binop pop_i32 push_bool (\<ge>)),
     (WASM_OPCODE_I32_CLZ, unop pop_i32 push_i32 int_clz),
     (WASM_OPCODE_I32_CTZ, unop pop_i32 push_i32 int_ctz),
     (WASM_OPCODE_I32_POPCNT, unop pop_i32 push_i32 int_popcnt),
     (WASM_OPCODE_I32_EQZ, unop pop_i32 push_bool (\<lambda>v. v = 0))]"

definition i64_cases :: "(WasmOpcode \<times> unit exec) list" where
  "i64_cases =
    [(WASM_OPCODE_I64_ADD, binop pop_i64 push_i64 (+)),
     (WASM_OPCODE_I64_SUB, binop pop_i64 push_i64 (-)),
     (WASM_OPCODE_I64_MUL, binop pop_i64 push_i64 (*)),
     (WASM_OPCODE_I64_DIV_S, div_s pop_i64 push_i64),
     (WASM_OPCODE_I64_DIV_U, div_u pop_i64 push_i64 (div)),
     (WASM_OPCODE_I64_REM_S, rem_s pop_i64 push_i64),
     (WASM_OPCODE_I64_REM_U, div_u pop_i64 push_i64 (mod)),
     (WASM_OPCODE_I64_AND, binop pop_i64 push_i64 (AND)),
     (WASM_OPCODE_I64_OR, binop pop_i64 push_i64 (OR)),
     (WASM_OPCODE_I64_XOR, binop pop_i64 push_i64 (XOR)),
     (WASM_OPCODE_I64_SHL, binop pop_i64 push_i64 int_shl),
     (WASM_OPCODE_I64_SHR_U, binop pop_i64 push_i64 int_shr_u),
     (WASM_OPCODE_I64_SHR_S, binop pop_i64 push_i64 int_shr_s),
     (WASM_OPCODE_I64_EQ, binop pop_i64 push_bool (=)),
     (WASM_OPCODE_I64_NE, binop pop_i64 push_bool (\<noteq>)),
     (WASM_OPCODE_I64_LT_S, binop pop_i64 push_bool (<s)),
     (WASM_OPCODE_I64_LE_S, binop pop_i64 push_bool (\<le>s)),
     (WASM_OPCODE_I64_LT_U, binop pop_i64 push_bool (<)),
     (WASM_OPCODE_I64_LE_U, binop pop_i64 push_bool (\<le>)),
     (WASM_OPCODE_I64_GT_S, binop pop_i64 push_bool (\<lambda>a b. b <s a)),
     (WASM_OPCODE_I64_GE_S, binop pop_i64 push_bool (\<lambda>a b. b \<le>s a)),
     (WASM_OPCODE_I64_GT_U, binop pop_i64 push_bool (>)),
     (WASM_OPCODE_I64_GE_U, binop pop_i64 push_bool (\<ge>)),
     (WASM_OPCODE_I64_CLZ, unop pop_i64 push_i64 int_clz),
     (WASM_OPCODE_I64_CTZ, unop pop_i64 push_i64 int_ctz),
     (WASM_OPCODE_I64_POPCNT, unop pop_i64 push_i64 int_popcnt)]"

definition late_int_cases :: "(WasmOpcode \<times> unit exec) list" where
  "late_int_cases =
    [(WASM_OPCODE_I32_ROTR, binop pop_i32 push_i32 int_rotr),
     (WASM_OPCODE_I32_ROTL, binop pop_i32 push_i32 int_rotl),
     (WASM_OPCODE_I64_ROTR, binop pop_i64 push_i64 int_rotr),
     (WASM_OPCODE_I64_ROTL, binop pop_i64 push_i64 int_rotl),
     (WASM_OPCODE_I64_EQZ, unop pop_i64 push_bool (\<lambda>v. v = 0))]"

subsection \<open>Floats\<close>

text \<open>The tests on the bits of a float.\<close>

definition is_nan_f32 :: "u32 \<Rightarrow> bool" where
  "is_nan_f32 b \<longleftrightarrow> b > 0x7f800000 \<and> b < 0x80000000 \<or> b > 0xff800000"
definition is_zero_f32 :: "u32 \<Rightarrow> bool" where
  "is_zero_f32 b \<longleftrightarrow> b = 0 \<or> b = 0x80000000"
definition is_in_range_i32_trunc_s_f32 :: "u32 \<Rightarrow> bool" where
  "is_in_range_i32_trunc_s_f32 b \<longleftrightarrow> b < 0x4f000000 \<or> b \<ge> 0x80000000 \<and> b \<le> 0xcf000000"
definition is_in_range_i64_trunc_s_f32 :: "u32 \<Rightarrow> bool" where
  "is_in_range_i64_trunc_s_f32 b \<longleftrightarrow> b < 0x5f000000 \<or> b \<ge> 0x80000000 \<and> b \<le> 0xdf000000"
definition is_in_range_i32_trunc_u_f32 :: "u32 \<Rightarrow> bool" where
  "is_in_range_i32_trunc_u_f32 b \<longleftrightarrow> b < 0x4f800000 \<or> b \<ge> 0x80000000 \<and> b < 0xbf800000"
definition is_in_range_i64_trunc_u_f32 :: "u32 \<Rightarrow> bool" where
  "is_in_range_i64_trunc_u_f32 b \<longleftrightarrow> b < 0x5f800000 \<or> b \<ge> 0x80000000 \<and> b < 0xbf800000"

definition is_nan_f64 :: "u64 \<Rightarrow> bool" where
  "is_nan_f64 b \<longleftrightarrow> b > 0x7ff0000000000000 \<and> b < 0x8000000000000000 \<or> b > 0xfff0000000000000"
definition is_zero_f64 :: "u64 \<Rightarrow> bool" where
  "is_zero_f64 b \<longleftrightarrow> b = 0 \<or> b = 0x8000000000000000"
definition is_in_range_i32_trunc_s_f64 :: "u64 \<Rightarrow> bool" where
  "is_in_range_i32_trunc_s_f64 b \<longleftrightarrow> b \<le> 0x41dfffffffc00000 \<or> b \<ge> 0x8000000000000000 \<and> b \<le> 0xc1e0000000000000"
definition is_in_range_i32_trunc_u_f64 :: "u64 \<Rightarrow> bool" where
  "is_in_range_i32_trunc_u_f64 b \<longleftrightarrow> b \<le> 0x41efffffffe00000 \<or> b \<ge> 0x8000000000000000 \<and> b < 0xbff0000000000000"
definition is_in_range_i64_trunc_s_f64 :: "u64 \<Rightarrow> bool" where
  "is_in_range_i64_trunc_s_f64 b \<longleftrightarrow> b < 0x43e0000000000000 \<or> b \<ge> 0x8000000000000000 \<and> b \<le> 0xc3e0000000000000"
definition is_in_range_i64_trunc_u_f64 :: "u64 \<Rightarrow> bool" where
  "is_in_range_i64_trunc_u_f64 b \<longleftrightarrow> b < 0x43f0000000000000 \<or> b \<ge> 0x8000000000000000 \<and> b < 0xbff0000000000000"
definition is_in_range_f64_demote_f32 :: "u64 \<Rightarrow> bool" where
  "is_in_range_f64_demote_f32 b \<longleftrightarrow> b \<le> 0x47efffffe0000000 \<or> b \<ge> 0x8000000000000000 \<and> b \<le> 0xc7efffffe0000000"
definition is_in_range_f64_demote_f32_round_to_f32_max :: "u64 \<Rightarrow> bool" where
  "is_in_range_f64_demote_f32_round_to_f32_max b \<longleftrightarrow> b > 0x47efffffe0000000 \<and> b < 0x47effffff0000000"
definition is_in_range_f64_demote_f32_round_to_neg_f32_max :: "u64 \<Rightarrow> bool" where
  "is_in_range_f64_demote_f32_round_to_neg_f32_max b \<longleftrightarrow> b > 0xc7efffffe0000000 \<and> b < 0xc7effffff0000000"

text \<open>What the float macros differ in between the two widths: the tests and the masks.\<close>

record 'w FloatMacros =
  fm_format :: "'w FloatFormat"
  fm_is_nan :: "'w \<Rightarrow> bool"
  fm_is_zero :: "'w \<Rightarrow> bool"
  fm_quiet_nan :: 'w
  fm_quiet_nan_bit :: 'w
  fm_inf :: 'w
  fm_sign_mask :: 'w

definition MF32 :: "u32 FloatMacros" where
  "MF32 = \<lparr>fm_format = F32, fm_is_nan = is_nan_f32, fm_is_zero = is_zero_f32, fm_quiet_nan = 0x7fc00000,
     fm_quiet_nan_bit = 0x00400000, fm_inf = 0x7f800000, fm_sign_mask = 0x80000000\<rparr>"

definition MF64 :: "u64 FloatMacros" where
  "MF64 = \<lparr>fm_format = F64, fm_is_nan = is_nan_f64, fm_is_zero = is_zero_f64, fm_quiet_nan = 0x7ff8000000000000,
     fm_quiet_nan_bit = 0x0008000000000000, fm_inf = 0x7ff0000000000000, fm_sign_mask = 0x8000000000000000\<rparr>"

definition float_div :: "'a :: len word FloatMacros \<Rightarrow> 'a word nan_choice \<Rightarrow> 'a word \<Rightarrow> 'a word \<Rightarrow> 'a word" where
  "float_div m nan lhs rhs =
     (if fm_is_zero m rhs
      then if fm_is_nan m lhs then lhs OR fm_quiet_nan m
           else if fm_is_zero m lhs then fm_quiet_nan m
           else ((lhs AND fm_sign_mask m) XOR (rhs AND fm_sign_mask m)) OR fm_inf m
      else f_div (fm_format m) nan lhs rhs)"

text \<open>
  \<open>MINMAX_FLOAT\<close>, with the comparison of the bits and of the numbers. If the signs differ the
  bits compare the other way round.
\<close>

definition float_minmax ::
    "'a :: len word FloatMacros \<Rightarrow> ('a word \<Rightarrow> 'a word \<Rightarrow> bool) \<Rightarrow> ('a word \<Rightarrow> 'a word \<Rightarrow> bool) \<Rightarrow> 'a word \<Rightarrow> 'a word \<Rightarrow> 'a word" where
  "float_minmax m bits_op float_op lhs rhs =
     (if fm_is_nan m lhs then lhs OR fm_quiet_nan_bit m
      else if fm_is_nan m rhs then rhs OR fm_quiet_nan_bit m
      else if (lhs XOR rhs) AND fm_sign_mask m \<noteq> 0 then if \<not> bits_op lhs rhs then lhs else rhs
      else if float_op lhs rhs then lhs else rhs)"

definition float_min :: "'a :: len word FloatMacros \<Rightarrow> 'a word \<Rightarrow> 'a word \<Rightarrow> 'a word" where
  "float_min m = float_minmax m (<) (f_less (fm_format m))"

definition float_max :: "'a :: len word FloatMacros \<Rightarrow> 'a word \<Rightarrow> 'a word \<Rightarrow> 'a word" where
  "float_max m = float_minmax m (>) (\<lambda>a b. f_less (fm_format m) b a)"

definition float_copysign :: "'a :: len word FloatMacros \<Rightarrow> 'a word \<Rightarrow> 'a word \<Rightarrow> 'a word" where
  "float_copysign m lhs rhs = (lhs AND NOT (fm_sign_mask m)) OR (rhs AND fm_sign_mask m)"

text \<open>\<open>abs\<close> and \<open>neg\<close> change the slot on top in place.\<close>

definition on_top :: "(WasmInterpreterValue \<Rightarrow> WasmInterpreterValue) \<Rightarrow> unit exec" where
  "on_top f = ebind (pick 1) (\<lambda>v. set_pick 1 (f v))"

definition f32_cases :: "Machine \<Rightarrow> (WasmOpcode \<times> unit exec) list" where
  "f32_cases M =
    [(WASM_OPCODE_F32_ADD, binop pop_i32 push_i32 (f_add F32 (nan32 M))),
     (WASM_OPCODE_F32_SUB, binop pop_i32 push_i32 (f_sub F32 (nan32 M))),
     (WASM_OPCODE_F32_MUL, binop pop_i32 push_i32 (f_mul F32 (nan32 M))),
     (WASM_OPCODE_F32_DIV, binop pop_i32 push_i32 (float_div MF32 (nan32 M))),
     (WASM_OPCODE_F32_MIN, binop pop_i32 push_i32 (float_min MF32)),
     (WASM_OPCODE_F32_MAX, binop pop_i32 push_i32 (float_max MF32)),
     (WASM_OPCODE_F32_ABS, on_top (\<lambda>v. low_half (ucast v AND NOT 0x80000000) v)),
     (WASM_OPCODE_F32_NEG, on_top (\<lambda>v. low_half (ucast v XOR 0x80000000) v)),
     (WASM_OPCODE_F32_COPYSIGN, binop pop_i32 push_i32 (float_copysign MF32)),
     (WASM_OPCODE_F32_CEIL, unop pop_i32 push_i32 (f_whole F32 (nan32 M) whole_ceil)),
     (WASM_OPCODE_F32_FLOOR, unop pop_i32 push_i32 (f_whole F32 (nan32 M) whole_floor)),
     (WASM_OPCODE_F32_TRUNC, unop pop_i32 push_i32 (f_whole F32 (nan32 M) whole_trunc)),
     (WASM_OPCODE_F32_NEAREST, unop pop_i32 push_i32 (f_whole F32 (nan32 M) whole_nearest)),
     (WASM_OPCODE_F32_SQRT, unop pop_i32 push_i32 (f_sqrt F32 (nan32 M))),
     (WASM_OPCODE_F32_EQ, binop pop_i32 push_bool (f_eq F32)),
     (WASM_OPCODE_F32_NE, binop pop_i32 push_bool (\<lambda>a b. \<not> f_eq F32 a b)),
     (WASM_OPCODE_F32_LT, binop pop_i32 push_bool (f_less F32)),
     (WASM_OPCODE_F32_LE, binop pop_i32 push_bool (f_less_eq F32)),
     (WASM_OPCODE_F32_GT, binop pop_i32 push_bool (\<lambda>a b. f_less F32 b a)),
     (WASM_OPCODE_F32_GE, binop pop_i32 push_bool (\<lambda>a b. f_less_eq F32 b a))]"

definition f64_cases :: "Machine \<Rightarrow> (WasmOpcode \<times> unit exec) list" where
  "f64_cases M =
    [(WASM_OPCODE_F64_ADD, binop pop_i64 push_i64 (f_add F64 (nan64 M))),
     (WASM_OPCODE_F64_SUB, binop pop_i64 push_i64 (f_sub F64 (nan64 M))),
     (WASM_OPCODE_F64_MUL, binop pop_i64 push_i64 (f_mul F64 (nan64 M))),
     (WASM_OPCODE_F64_DIV, binop pop_i64 push_i64 (float_div MF64 (nan64 M))),
     (WASM_OPCODE_F64_MIN, binop pop_i64 push_i64 (float_min MF64)),
     (WASM_OPCODE_F64_MAX, binop pop_i64 push_i64 (float_max MF64)),
     (WASM_OPCODE_F64_ABS, on_top (\<lambda>v. v AND NOT 0x8000000000000000)),
     (WASM_OPCODE_F64_NEG, on_top (\<lambda>v. v XOR 0x8000000000000000)),
     (WASM_OPCODE_F64_COPYSIGN, binop pop_i64 push_i64 (float_copysign MF64)),
     (WASM_OPCODE_F64_CEIL, unop pop_i64 push_i64 (f_whole F64 (nan64 M) whole_ceil)),
     (WASM_OPCODE_F64_FLOOR, unop pop_i64 push_i64 (f_whole F64 (nan64 M) whole_floor)),
     (WASM_OPCODE_F64_TRUNC, unop pop_i64 push_i64 (f_whole F64 (nan64 M) whole_trunc)),
     (WASM_OPCODE_F64_NEAREST, unop pop_i64 push_i64 (f_whole F64 (nan64 M) whole_nearest)),
     (WASM_OPCODE_F64_SQRT, unop pop_i64 push_i64 (f_sqrt F64 (nan64 M))),
     (WASM_OPCODE_F64_EQ, binop pop_i64 push_bool (f_eq F64)),
     (WASM_OPCODE_F64_NE, binop pop_i64 push_bool (\<lambda>a b. \<not> f_eq F64 a b)),
     (WASM_OPCODE_F64_LT, binop pop_i64 push_bool (f_less F64)),
     (WASM_OPCODE_F64_LE, binop pop_i64 push_bool (f_less_eq F64)),
     (WASM_OPCODE_F64_GT, binop pop_i64 push_bool (\<lambda>a b. f_less F64 b a)),
     (WASM_OPCODE_F64_GE, binop pop_i64 push_bool (\<lambda>a b. f_less_eq F64 b a))]"

text \<open>Conversions. A cast of a number that does not fit is \<open>Wrong\<close>; the tests come before it.\<close>

definition cast_to_int :: "int \<Rightarrow> int \<Rightarrow> int option \<Rightarrow> int exec" where
  "cast_to_int lo hi v = (case v of Some n \<Rightarrow> if lo \<le> n \<and> n \<le> hi then eret n else wrong | None \<Rightarrow> wrong)"

definition op_trunc ::
    "('a :: len word) exec \<Rightarrow> ('a word \<Rightarrow> bool) \<Rightarrow> ('a word \<Rightarrow> bool) \<Rightarrow> 'a word FloatFormat \<Rightarrow> int \<Rightarrow> int \<Rightarrow> (int \<Rightarrow> unit exec) \<Rightarrow> unit exec" where
  "op_trunc pop_value is_nan in_range F lo hi push_value =
     ebind pop_value (\<lambda>v.
     ethen (trap_if (is_nan v) TRAP_INVALID_CONVERSION_TO_INTEGER)
     (ethen (trap_if (\<not> in_range v) TRAP_INTEGER_OVERFLOW)
     (ebind (cast_to_int lo hi (f_to_int F v)) push_value)))"

definition push_int32 :: "int \<Rightarrow> unit exec" where "push_int32 n = push_i32 (word_of_int n)"
definition push_int64 :: "int \<Rightarrow> unit exec" where "push_int64 n = push_i64 (word_of_int n)"

abbreviation (input) "S32_MIN \<equiv> - (2 ^ 31) :: int"
abbreviation (input) "S32_MAX \<equiv> 2 ^ 31 - 1 :: int"
abbreviation (input) "U32_MAX \<equiv> 2 ^ 32 - 1 :: int"
abbreviation (input) "S64_MIN \<equiv> - (2 ^ 63) :: int"
abbreviation (input) "S64_MAX \<equiv> 2 ^ 63 - 1 :: int"
abbreviation (input) "U64_MAX \<equiv> 2 ^ 64 - 1 :: int"

definition demote_f64 :: "u64 \<Rightarrow> u32" where
  "demote_f64 v =
     (if is_in_range_f64_demote_f32 v then f_demote v
      else if is_in_range_f64_demote_f32_round_to_f32_max v then 0x7f7fffff
      else if is_in_range_f64_demote_f32_round_to_neg_f32_max v then 0xff7fffff
      else (let sign = ucast (drop_bit 32 v) AND 0x80000000;
                tag = (if is_nan_f64 v then 0x00400000 OR (ucast (drop_bit (52 - 23) v) AND 0x7fffff) else 0)
            in sign OR 0x7f800000 OR tag))"

definition convert_cases :: "Machine \<Rightarrow> (WasmOpcode \<times> unit exec) list" where
  "convert_cases M =
    [(WASM_OPCODE_I32_TRUNC_S_F32, op_trunc pop_i32 is_nan_f32 is_in_range_i32_trunc_s_f32 F32 S32_MIN S32_MAX push_int32),
     (WASM_OPCODE_I32_TRUNC_S_F64, op_trunc pop_i64 is_nan_f64 is_in_range_i32_trunc_s_f64 F64 S32_MIN S32_MAX push_int32),
     (WASM_OPCODE_I32_TRUNC_U_F32, op_trunc pop_i32 is_nan_f32 is_in_range_i32_trunc_u_f32 F32 0 U32_MAX push_int32),
     (WASM_OPCODE_I32_TRUNC_U_F64, op_trunc pop_i64 is_nan_f64 is_in_range_i32_trunc_u_f64 F64 0 U32_MAX push_int32),
     (WASM_OPCODE_I32_WRAP_I64, unop pop_i64 push_i32 ucast),
     (WASM_OPCODE_I64_TRUNC_S_F32, op_trunc pop_i32 is_nan_f32 is_in_range_i64_trunc_s_f32 F32 S64_MIN S64_MAX push_int64),
     (WASM_OPCODE_I64_TRUNC_S_F64, op_trunc pop_i64 is_nan_f64 is_in_range_i64_trunc_s_f64 F64 S64_MIN S64_MAX push_int64),
     (WASM_OPCODE_I64_TRUNC_U_F32, op_trunc pop_i32 is_nan_f32 is_in_range_i64_trunc_u_f32 F32 0 U64_MAX push_int64),
     (WASM_OPCODE_I64_TRUNC_U_F64, op_trunc pop_i64 is_nan_f64 is_in_range_i64_trunc_u_f64 F64 0 U64_MAX push_int64),
     (WASM_OPCODE_I64_EXTEND_S_I32, unop pop_i32 push_i64 scast),
     (WASM_OPCODE_I64_EXTEND_U_I32, unop pop_i32 push_i64 ucast),
     (WASM_OPCODE_F32_CONVERT_S_I32, unop pop_i32 push_i32 (\<lambda>v. f_of_int F32 (sint v))),
     (WASM_OPCODE_F32_CONVERT_U_I32, unop pop_i32 push_i32 (\<lambda>v. f_of_int F32 (uint v))),
     (WASM_OPCODE_F32_CONVERT_S_I64, unop pop_i64 push_i32 (\<lambda>v. f_of_int F32 (sint v))),
     (WASM_OPCODE_F32_CONVERT_U_I64, unop pop_i64 push_i32 (\<lambda>v. f_of_int F32 (uint v))),
     (WASM_OPCODE_F32_DEMOTE_F64, unop pop_i64 push_i32 demote_f64),
     (WASM_OPCODE_F32_REINTERPRET_I32, unop pop_i32 push_i32 id),
     (WASM_OPCODE_F64_CONVERT_S_I32, unop pop_i32 push_i64 (\<lambda>v. f_of_int F64 (sint v))),
     (WASM_OPCODE_F64_CONVERT_U_I32, unop pop_i32 push_i64 (\<lambda>v. f_of_int F64 (uint v))),
     (WASM_OPCODE_F64_CONVERT_S_I64, unop pop_i64 push_i64 (\<lambda>v. f_of_int F64 (sint v))),
     (WASM_OPCODE_F64_CONVERT_U_I64, unop pop_i64 push_i64 (\<lambda>v. f_of_int F64 (uint v))),
     (WASM_OPCODE_F64_PROMOTE_F32, unop pop_i32 push_i64 (f_promote (nan_promote M))),
     (WASM_OPCODE_F64_REINTERPRET_I64, unop pop_i64 push_i64 id),
     (WASM_OPCODE_I32_REINTERPRET_F32, unop pop_i32 push_i32 id),
     (WASM_OPCODE_I64_REINTERPRET_F64, unop pop_i64 push_i64 id)]"

subsection \<open>The run loop\<close>

definition interpreter_cases :: "Machine \<Rightarrow> nat \<Rightarrow> (WasmOpcode \<times> unit exec) list" where
  "interpreter_cases M call_stack_return_top =
     control_cases M call_stack_return_top @ load_cases @ store_cases @ memory_cases M @ i32_cases @ i64_cases
     @ f32_cases M @ f64_cases M @ convert_cases M @ late_int_cases @ misc_cases"

definition execute :: "Machine \<Rightarrow> nat \<Rightarrow> unit exec" where
  "execute M call_stack_return_top =
     ebind read_u8 (\<lambda>opcode.
       case map_of (interpreter_cases M call_stack_return_top) (unat opcode) of Some step \<Rightarrow> step | None \<Rightarrow> wrong)"

text \<open>
  What a run comes to: \<open>thread->pc\<close> is written where the loop is left in the ordinary way, on the
  return from the outermost function too, but not by a trap.
\<close>

datatype Outcome = Failed_Assertion | Outcome WasmInterpreterResult WasmInterpreterThread

definition leave_run :: "u32 \<Rightarrow> RunState \<Rightarrow> WasmInterpreterThread" where
  "leave_run pc s = ThreadState.extend (ThreadState.truncate s) (WasmInterpreterThread.fields pc)"

definition save_pc :: "RunState \<Rightarrow> WasmInterpreterThread" where
  "save_pc s = leave_run (u32_of_nat (local_pc s)) s"

text \<open>\<open>old_pc\<close> is \<open>thread->pc\<close>, as it was when the loop was entered.\<close>

fun run_loop :: "Machine \<Rightarrow> nat \<Rightarrow> u32 \<Rightarrow> nat \<Rightarrow> RunState \<Rightarrow> Outcome" where
  "run_loop M call_stack_return_top old_pc 0 s = Outcome WASM_INTERPRETER_OK (save_pc s)"
| "run_loop M call_stack_return_top old_pc (Suc n) s =
     (case execute M call_stack_return_top s of
        Inr (_, s') \<Rightarrow> run_loop M call_stack_return_top old_pc n s'
      | Inl (Stopped r, s') \<Rightarrow> Outcome r (if r = WASM_INTERPRETER_RETURNED then save_pc s' else leave_run old_pc s')
      | Inl (Wrong, _) \<Rightarrow> Failed_Assertion)"

definition enter_run :: "WasmInterpreterThread \<Rightarrow> RunState" where
  "enter_run t = ThreadState.extend (ThreadState.truncate t) (RunState.fields (unat (t_pc t)))"

definition wasm_run_interpreter :: "Machine \<Rightarrow> u32 \<Rightarrow> nat \<Rightarrow> WasmInterpreterThread \<Rightarrow> Outcome" where
  "wasm_run_interpreter M num_instructions call_stack_return_top t =
     (if call_stack_return_top < length (t_call_stack t)
      then run_loop M call_stack_return_top (t_pc t) (unat num_instructions) (enter_run t) else Failed_Assertion)"

end
