(* ===== verification/Wabt_Interpreter_Inv.thy ===== *)
theory Wabt_Interpreter_Inv
  imports Wabt_Interpreter_Run
begin

text \<open>
  What every instruction keeps: the stacks stay inside their arrays, the program and the shape of
  the environment stay what they are, and a memory has as many bytes as its pages make, never more
  than its maximum and never fewer than before.
\<close>

unbundle bit_operations_syntax

subsection \<open>The invariant\<close>

definition wf_memory :: "WasmInterpreterMemory \<Rightarrow> bool" where
  "wf_memory mem \<longleftrightarrow>
     length (mem_data mem) = unat (mem_byte_size mem)
     \<and> unat (mem_byte_size mem) = unat (limits_initial (mem_page_limits mem)) * 65536
     \<and> (limits_has_max (mem_page_limits mem) \<longrightarrow> limits_initial (mem_page_limits mem) \<le> limits_max (mem_page_limits mem))"

definition wf_state :: "('a) ThreadState_scheme \<Rightarrow> bool" where
  "wf_state s \<longleftrightarrow>
     t_value_stack_top s \<le> length (t_value_stack s) \<and> t_call_stack_top s \<le> length (t_call_stack s)
     \<and> length (env_istream (t_env s)) < 2 ^ 32 \<and> list_all wf_memory (env_memories (t_env s))"

definition same_program :: "('a) ThreadState_scheme \<Rightarrow> ('b) ThreadState_scheme \<Rightarrow> bool" where
  "same_program s s' \<longleftrightarrow>
     (let env = t_env s; env' = t_env s'
      in env_istream env' = env_istream env \<and> env_sigs env' = env_sigs env \<and> env_funcs env' = env_funcs env
         \<and> env_tables env' = env_tables env \<and> env_modules env' = env_modules env
         \<and> list_all2 (\<lambda>m m'. mem_byte_size m \<le> mem_byte_size m') (env_memories env) (env_memories env')
         \<and> map (tv_type \<circ> glob_typed_value) (env_globals env') = map (tv_type \<circ> glob_typed_value) (env_globals env)
         \<and> map glob_mutable (env_globals env') = map glob_mutable (env_globals env)
         \<and> length (t_value_stack s') = length (t_value_stack s) \<and> length (t_call_stack s') = length (t_call_stack s))"

lemma same_program_refl: "same_program s s"
  by (simp add: same_program_def list.rel_refl)

definition run_inv :: "RunState \<Rightarrow> RunState \<Rightarrow> bool" where
  "run_inv s0 s \<longleftrightarrow> wf_state s \<and> local_pc s < 2 ^ 32 \<and> same_program s0 s"

text \<open>
  \<open>m\<close> keeps the invariant when it goes on or returns for good, and its result has \<open>Q\<close>. It never
  stops with the result that stands for going on.
\<close>

definition keeps :: "RunState \<Rightarrow> ('a \<Rightarrow> bool) \<Rightarrow> 'a exec \<Rightarrow> bool" where
  "keeps s0 Q m \<longleftrightarrow>
     (\<forall>s x s'. run_inv s0 s \<longrightarrow> m s = Inr (x, s') \<longrightarrow> run_inv s0 s' \<and> Q x)
     \<and> (\<forall>s r s'. run_inv s0 s \<longrightarrow> m s = Inl (Stopped r, s') \<longrightarrow>
          r \<noteq> WASM_INTERPRETER_OK \<and> (r = WASM_INTERPRETER_RETURNED \<longrightarrow> run_inv s0 s'))"

abbreviation any :: "'a \<Rightarrow> bool" where "any \<equiv> \<lambda>_. True"

named_theorems kept \<open>instructions that keep the invariant\<close>

lemma keepsD:
  "keeps s0 Q m \<Longrightarrow> run_inv s0 s \<Longrightarrow> m s = Inr (x, s') \<Longrightarrow> run_inv s0 s' \<and> Q x"
  "keeps s0 Q m \<Longrightarrow> run_inv s0 s \<Longrightarrow> m s = Inl (Stopped r, s') \<Longrightarrow>
     r \<noteq> WASM_INTERPRETER_OK \<and> (r = WASM_INTERPRETER_RETURNED \<longrightarrow> run_inv s0 s')"
  unfolding keeps_def by blast+

lemma keeps_bind:
  assumes "keeps s0 Q m" "\<And>x. Q x \<Longrightarrow> keeps s0 R (f x)"
  shows "keeps s0 R (ebind m f)"
  unfolding keeps_def
proof (intro conjI allI impI)
  fix s y s'
  assume i: "run_inv s0 s" and e: "ebind m f s = Inr (y, s')"
  from e obtain x t where m: "m s = Inr (x, t)" and f: "f x t = Inr (y, s')"
    by (auto simp: ebind_def split: sum.splits)
  note t = keepsD(1) [OF assms(1) i m]
  from keepsD(1) [OF assms(2) _ f] t show "run_inv s0 s'" "R y" by blast+
next
  fix s r s'
  assume i: "run_inv s0 s" and e: "ebind m f s = Inl (Stopped r, s')"
  have "r \<noteq> WASM_INTERPRETER_OK \<and> (r = WASM_INTERPRETER_RETURNED \<longrightarrow> run_inv s0 s')"
  proof (cases "m s")
    case (Inl p)
    then have "m s = Inl (Stopped r, s')" using e by (simp add: ebind_def)
    then show ?thesis by (rule keepsD(2) [OF assms(1) i])
  next
    case (Inr p)
    then obtain x t where m: "m s = Inr (x, t)" by (cases p) simp
    then have f: "f x t = Inl (Stopped r, s')" using e by (simp add: ebind_def)
    note t = keepsD(1) [OF assms(1) i m]
    from keepsD(2) [OF assms(2) _ f] t show ?thesis by blast
  qed
  then show "r \<noteq> WASM_INTERPRETER_OK" "r = WASM_INTERPRETER_RETURNED \<Longrightarrow> run_inv s0 s'" by blast+
qed

lemma keeps_then [kept]: "keeps s0 any m \<Longrightarrow> (\<And>x. keeps s0 R (f x)) \<Longrightarrow> keeps s0 R (ebind m f)"
  by (rule keeps_bind)

lemma keeps_any: "keeps s0 Q m \<Longrightarrow> keeps s0 any m"
  unfolding keeps_def by blast

lemma keeps_simple [kept]:
  "keeps s0 any (eret x)" "r \<noteq> WASM_INTERPRETER_OK \<Longrightarrow> keeps s0 Q (trap r)" "keeps s0 Q wrong"
  "r \<noteq> WASM_INTERPRETER_OK \<Longrightarrow> keeps s0 any (trap_if c r)" "keeps s0 any (eassert c)" "keeps s0 any (eget f)"
  by (simp_all add: keeps_def eret_def trap_def wrong_def trap_if_def eassert_def eget_def)

lemma traps [kept]:
  "WASM_INTERPRETER_RETURNED \<noteq> WASM_INTERPRETER_OK" "TRAP_MEMORY_ACCESS_OUT_OF_BOUNDS \<noteq> WASM_INTERPRETER_OK"
  "TRAP_INTEGER_OVERFLOW \<noteq> WASM_INTERPRETER_OK" "TRAP_INTEGER_DIVIDE_BY_ZERO \<noteq> WASM_INTERPRETER_OK"
  "TRAP_INVALID_CONVERSION_TO_INTEGER \<noteq> WASM_INTERPRETER_OK" "TRAP_UNDEFINED_TABLE_INDEX \<noteq> WASM_INTERPRETER_OK"
  "TRAP_UNINITIALIZED_TABLE_ELEMENT \<noteq> WASM_INTERPRETER_OK" "TRAP_UNREACHABLE \<noteq> WASM_INTERPRETER_OK"
  "TRAP_INDIRECT_CALL_SIGNATURE_MISMATCH \<noteq> WASM_INTERPRETER_OK" "TRAP_HOST_RESULT_TYPE_MISMATCH \<noteq> WASM_INTERPRETER_OK"
  "TRAP_HOST_TRAPPED \<noteq> WASM_INTERPRETER_OK"
  by simp_all

lemma keeps_if [kept]: "(c \<Longrightarrow> keeps s0 Q m) \<Longrightarrow> (\<not> c \<Longrightarrow> keeps s0 Q n) \<Longrightarrow> keeps s0 Q (if c then m else n)"
  by simp

lemma keeps_push_with [kept]: "keeps s0 any (push_with f)"
  by (auto simp: keeps_def push_with_def Let_def trap_def eupdate_def run_inv_def wf_state_def same_program_def split: if_splits)

lemma keeps_pushes [kept]:
  "keeps s0 any (push v)" "keeps s0 any (push_i32 w)" "keeps s0 any (push_i64 x)" "keeps s0 any (push_bool b)"
  "keeps s0 any (push_u32 v)" "keeps s0 any (push_s32 n v)" "keeps s0 any (push_s64 n v)" "keeps s0 any (push_int32 i)" "keeps s0 any (push_int64 i)"
  by (simp_all add: push_def push_i32_def push_i64_def push_bool_def push_u32_def push_s32_def push_s64_def
      push_int32_def push_int64_def keeps_push_with)

lemma keeps_pop [kept]: "keeps s0 any pop"
  by (auto simp: keeps_def pop_def Let_def wrong_def run_inv_def wf_state_def same_program_def split: if_splits)

lemma keeps_typed_pops [kept]: "keeps s0 any pop_i32" "keeps s0 any pop_i64" "keeps s0 any pop_i32_wide"
  by (auto simp: pop_i32_def pop_i64_def pop_i32_wide_def intro!: kept)

lemma keeps_pick [kept]: "keeps s0 any (pick d)" "keeps s0 any (set_pick d v)"
  by (auto simp: keeps_def pick_def set_pick_def pick_slot_def ebind_def eget_def eupdate_def Let_def wrong_def
      run_inv_def wf_state_def same_program_def split: if_splits sum.splits)

lemma keeps_drop_keep [kept]: "keeps s0 any (drop_keep n k)"
proof -
  have drop: "keeps s0 any (ebind (eget t_value_stack_top) (\<lambda>top. ethen (eassert (unat n \<le> top))
      (eupdate (\<lambda>s. s\<lparr>t_value_stack_top := top - unat n\<rparr>))))"
    by (auto simp: keeps_def ebind_def eget_def eassert_def eret_def wrong_def eupdate_def run_inv_def wf_state_def same_program_def
        split: if_splits)
  show ?thesis unfolding drop_keep_def by (intro kept drop)
qed

lemma keeps_istream [kept]: "keeps s0 any (istream_bytes at n)" "keeps s0 any (read_table_entry_at e)"
  by (auto simp: keeps_def istream_bytes_def wrong_def read_table_entry_at_def ebind_def eret_def split: if_splits)

lemma keeps_read_bytes [kept]: "keeps s0 any (read_bytes n)"
  by (auto simp: keeps_def read_bytes_def ebind_def eget_def istream_bytes_def wrong_def eupdate_def eret_def
      run_inv_def wf_state_def same_program_def split: if_splits)

lemma keeps_reads [kept]: "keeps s0 any read_u8" "keeps s0 any read_u32" "keeps s0 any read_u64"
  by (auto simp: read_u8_def read_u32_def read_u64_def intro!: kept)

lemma keeps_goto [kept]: "keeps s0 any (goto off)"
  using unsigned_less [of off]
  by (auto simp: keeps_def goto_def eupdate_def run_inv_def wf_state_def same_program_def)

lemma keeps_call [kept]: "keeps s0 any push_call" "keeps s0 any pop_call"
  by (auto simp: keeps_def push_call_def pop_call_def Let_def trap_def wrong_def run_inv_def wf_state_def same_program_def split: if_splits)

lemma keeps_nth [kept]: "keeps s0 any (nth_checked xs i)"
  by (simp add: keeps_def nth_checked_def eret_def wrong_def)

lemma keeps_host [kept]: "keeps s0 any (pop_args ts args)" "keeps s0 any (push_results us vs)"
  by (induction ts args rule: pop_args.induct) (auto intro!: kept, induction us vs rule: push_results.induct, auto intro!: kept)

lemma keeps_case_prod [kept]: "(\<And>a b. keeps s0 Q (f a b)) \<Longrightarrow> keeps s0 Q (case p of (a, b) \<Rightarrow> f a b)"
  by (cases p) simp

lemma keeps_case_option [kept]:
  "keeps s0 Q m \<Longrightarrow> (\<And>x. keeps s0 Q (f x)) \<Longrightarrow> keeps s0 Q (case opt of None \<Rightarrow> m | Some x \<Rightarrow> f x)"
  by (cases opt) simp_all

lemma keeps_case_body [kept]:
  "(\<And>d. keeps s0 Q (f d)) \<Longrightarrow> (\<And>h. keeps s0 Q (g h)) \<Longrightarrow> keeps s0 Q (case b of Defined d \<Rightarrow> f d | Host h \<Rightarrow> g h)"
  by (cases b) simp_all

text \<open>A call of a host function keeps the invariant even where it traps, since its trap is dropped.\<close>

definition stays :: "RunState \<Rightarrow> 'a exec \<Rightarrow> bool" where
  "stays s0 m \<longleftrightarrow> (\<forall>s. run_inv s0 s \<longrightarrow> run_inv s0 (case m s of Inl (_, s') \<Rightarrow> s' | Inr (_, s') \<Rightarrow> s'))"

lemma stays_bind:
  assumes "stays s0 m" "\<And>x. stays s0 (f x)"
  shows "stays s0 (ebind m f)"
  unfolding stays_def
proof (intro allI impI)
  fix s assume i: "run_inv s0 s"
  show "run_inv s0 (case ebind m f s of Inl (_, s') \<Rightarrow> s' | Inr (_, s') \<Rightarrow> s')"
  proof (cases "m s")
    case (Inl e)
    then show ?thesis using assms(1) i by (auto simp: stays_def ebind_def split: prod.splits)
  next
    case (Inr r)
    then have "run_inv s0 (snd r)" using assms(1) i by (auto simp: stays_def split: prod.splits)
    then show ?thesis using assms(2) Inr by (auto simp: stays_def ebind_def split: prod.splits)
  qed
qed

lemma stays_simple:
  "stays s0 (eret x)" "stays s0 (trap r)" "stays s0 wrong" "stays s0 (trap_if c r)" "stays s0 (eget f)" "stays s0 (nth_checked xs i)"
  by (simp_all add: stays_def eret_def trap_def wrong_def trap_if_def eget_def nth_checked_def)

lemma stays_stack: "stays s0 (push v)" "stays s0 pop"
  by (auto simp: stays_def push_def push_with_def pop_def Let_def trap_def wrong_def eupdate_def run_inv_def wf_state_def same_program_def
      split: if_splits)

lemma stays_host: "stays s0 (pop_args ts args)" "stays s0 (push_results us vs)"
  by (induction ts args rule: pop_args.induct) (auto intro!: stays_bind stays_simple stays_stack,
      induction us vs rule: push_results.induct, auto intro!: stays_bind stays_simple stays_stack)

lemma stays_call_host: "stays s0 (wasm_call_host M func)"
proof -
  have "stays s0 (case callback M cb sig args of (r, results) \<Rightarrow>
      ethen (trap_if (r \<noteq> WASM_OK) TRAP_HOST_TRAPPED) (push_results ts results))" for cb sig args ts
    by (cases "callback M cb sig args") (auto intro!: stays_bind stays_simple stays_host)
  then show ?thesis
    by (cases "fn_body func"; cases "host_callback (case fn_body func of Host h \<Rightarrow> h)")
      (auto simp: wasm_call_host_def intro!: stays_bind stays_simple stays_host split: option.splits)
qed

lemma keeps_ignore_result: "stays s0 m \<Longrightarrow> keeps s0 any (ignore_result m)"
  unfolding keeps_def
proof (intro conjI allI impI)
  fix s r s'
  assume "ignore_result m s = Inl (Stopped r, s')"
  then have False by (auto simp: ignore_result_def split: sum.splits prod.splits Stop.splits)
  then show "r \<noteq> WASM_INTERPRETER_OK" "run_inv s0 s'" by blast+
next
  fix s x s'
  assume "stays s0 m" "run_inv s0 s" and e: "ignore_result m s = Inr (x, s')"
  then have i: "run_inv s0 (case m s of Inl (_, s') \<Rightarrow> s' | Inr (_, s') \<Rightarrow> s')" by (simp add: stays_def)
  show "run_inv s0 s'"
  proof (cases "m s")
    case (Inl r)
    then show ?thesis using e i by (cases r; cases "fst r") (simp_all add: ignore_result_def)
  next
    case (Inr r)
    then show ?thesis using e i by (cases r) (simp add: ignore_result_def)
  qed
qed simp

lemmas keeps_call_host [kept] = keeps_ignore_result [OF stays_call_host]

subsection \<open>The instructions\<close>

text \<open>What is known of a memory that was looked up stays true while the environment is as it was.\<close>

definition known_memory :: "RunState \<Rightarrow> nat \<times> WasmInterpreterMemory \<Rightarrow> bool" where
  "known_memory s0 p \<longleftrightarrow> fst p < length (env_memories (t_env s0)) \<and> wf_memory (snd p)
     \<and> mem_byte_size (env_memories (t_env s0) ! fst p) \<le> mem_byte_size (snd p)"

lemma keeps_get_memory: "keeps s0 (known_memory s0) get_memory"
  unfolding get_memory_def
proof (rule keeps_then)
  show "keeps s0 any read_u32" by (intro kept)
  show "keeps s0 (known_memory s0) (ebind (eget (env_memories \<circ> t_env)) (\<lambda>ms. ebind (nth_checked ms index) (\<lambda>memory. eret (unat index, memory))))"
    for index
    by (auto simp: keeps_def ebind_def eget_def nth_checked_def eret_def wrong_def known_memory_def run_inv_def wf_state_def
        same_program_def Let_def list_all2_conv_all_nth list_all_length split: if_splits)
qed

lemma keeps_put_memory:
  assumes "known_memory s0 (i, old)" "wf_memory new" "mem_byte_size old \<le> mem_byte_size new"
  shows "keeps s0 any (eupdate (\<lambda>s. s\<lparr>t_env := (t_env s)\<lparr>env_memories := (env_memories (t_env s))[i := new]\<rparr>\<rparr>))"
  using assms
  by (auto simp: keeps_def eupdate_def known_memory_def run_inv_def wf_state_def same_program_def Let_def list_all2_conv_all_nth
      list_all_length nth_list_update)

lemma keeps_in_memory [kept]: "keeps s0 any (in_memory mem off n)" "keeps s0 any effective_address"
  unfolding in_memory_def effective_address_def by (intro kept)+

lemma keeps_load [kept]: "(\<And>v. keeps s0 any (f v)) \<Longrightarrow> keeps s0 any (op_load n f)"
  unfolding op_load_def by (rule keeps_bind [OF keeps_get_memory]) (intro kept; simp)

lemma keeps_store:
  assumes "keeps s0 any m"
  shows "keeps s0 any (op_store n m)"
proof -
  have put: "keeps s0 any (ethen (in_memory mem off n) (set_memory_bytes i mem (unat (ucast off :: u32)) (le_bytes n v)))"
    if "known_memory s0 (i, mem)" for i mem off v
  proof (cases "unat (ucast off :: u32) + n \<le> length (mem_data mem)")
    case True
    have "keeps s0 any (set_memory_bytes i mem (unat (ucast off :: u32)) (le_bytes n v))"
      unfolding set_memory_bytes_def
      by (rule keeps_put_memory [OF that]) (use that True in \<open>simp_all add: known_memory_def wf_memory_def length_overwrite\<close>)
    then show ?thesis by (intro kept)
  next
    case False
    then show ?thesis
      by (auto simp: in_memory_def keeps_def ebind_def eassert_def wrong_def trap_if_def trap_def eret_def split: if_splits)
  qed
  then have "keeps s0 any (case p of (i, mem) \<Rightarrow> ebind m (\<lambda>v. ebind effective_address (\<lambda>off.
      ethen (in_memory mem off n) (set_memory_bytes i mem (unat (ucast off :: u32)) (le_bytes n v)))))"
    if "known_memory s0 p" for p
  proof -
    obtain i mem where p: "p = (i, mem)" by force
    have "known_memory s0 (i, mem)" using that p by simp
    then have "keeps s0 any (ebind effective_address (\<lambda>off.
        ethen (in_memory mem off n) (set_memory_bytes i mem (unat (ucast off :: u32)) (le_bytes n v))))" for v
      by (rule keeps_then [OF keeps_in_memory(2) put])
    with assms show ?thesis unfolding p prod.case by (rule keeps_then)
  qed
  then show ?thesis unfolding op_store_def by (rule keeps_bind [OF keeps_get_memory])
qed

lemma unat_widen [simp]: "unat (ucast (w :: u32) :: u64) = unat w"
proof -
  have "unat w < 2 ^ LENGTH(32)" by (rule unsigned_less)
  then show ?thesis by (simp add: unsigned_ucast_eq take_bit_nat_eq_self_iff)
qed

lemma unat_narrow: "unat (ucast (w :: u64) :: u32) \<le> unat w"
  by (simp add: unsigned_ucast_eq take_bit_nat_less_eq_self)

lemma grown_memory:
  fixes mem :: WasmInterpreterMemory and pages :: u32
  assumes "wf_memory mem" "(ucast pages :: u64) * ucast WASM_PAGE_SIZE \<le> 0xffffffff" "mem_byte_size mem \<le> pages * WASM_PAGE_SIZE"
    and "limits_has_max (mem_page_limits mem) \<Longrightarrow> pages \<le> ucast (limits_max (mem_page_limits mem))"
  shows "wf_memory (mem\<lparr>mem_data := take (unat (mem_byte_size mem)) (mem_data mem) @ replicate (unat (pages * WASM_PAGE_SIZE - mem_byte_size mem)) 0,
      mem_page_limits := (mem_page_limits mem)\<lparr>limits_initial := ucast pages\<rparr>, mem_byte_size := pages * WASM_PAGE_SIZE\<rparr>)"
proof -
  have "unat pages < 2 ^ LENGTH(32)" by (rule unsigned_less)
  then have "unat pages * 65536 < 2 ^ 64" by simp
  then have "unat ((ucast pages :: u64) * ucast WASM_PAGE_SIZE) = unat pages * 65536"
    by (simp add: WASM_PAGE_SIZE_def unat_word_ariths)
  then have small: "unat pages * 65536 < 2 ^ 32" using assms(2) by (simp add: word_le_nat_alt)
  then have size: "unat (pages * WASM_PAGE_SIZE) = unat pages * 65536" by (simp add: WASM_PAGE_SIZE_def unat_word_ariths)
  have max: "(ucast pages :: u64) \<le> m" if "pages \<le> ucast m" for m :: u64
    using that unat_narrow [of m] by (simp add: word_le_nat_alt)
  have "unat (mem_byte_size mem) \<le> unat (pages * WASM_PAGE_SIZE)" using assms(3) by (simp add: word_le_nat_alt)
  then show ?thesis using assms(1,3,4) max size
    by (auto simp: wf_memory_def unat_sub)
qed

lemma keeps_grow [kept]: "keeps s0 any (op_grow_memory M)"
proof -
  have "keeps s0 any (case p of (index, memory) \<Rightarrow> ebind pop_i32 (\<lambda>grow_pages.
       let limits = mem_page_limits memory;
           old_page_size = ucast (limits_initial limits) :: u32;
           old_byte_size = mem_byte_size memory;
           new_page_size = old_page_size + grow_pages;
           max_page_size = (if limits_has_max limits then ucast (limits_max limits) else WASM_MAX_PAGES);
           new_byte_size = new_page_size * WASM_PAGE_SIZE
       in if new_page_size > max_page_size then push_i32 (- 1)
          else if (ucast new_page_size :: u64) * ucast WASM_PAGE_SIZE > 0xffffffff then push_i32 (- 1)
          else if \<not> realloc_ok M new_byte_size then push_i32 (- 1)
          else ethen (eassert (old_byte_size \<le> new_byte_size))
               (ethen (eupdate (\<lambda>s. s\<lparr>t_env := (t_env s)\<lparr>env_memories := (env_memories (t_env s))[index :=
                   memory\<lparr>mem_data := take (unat old_byte_size) (mem_data memory) @ replicate (unat (new_byte_size - old_byte_size)) 0,
                     mem_page_limits := limits\<lparr>limits_initial := ucast new_page_size\<rparr>, mem_byte_size := new_byte_size\<rparr>]\<rparr>\<rparr>))
               (push_i32 old_page_size))))"
    if "known_memory s0 p" for p
  proof -
    obtain i mem where p: "p = (i, mem)" by force
    have put: "keeps s0 any (ethen (eassert (mem_byte_size mem \<le> pages * WASM_PAGE_SIZE))
        (ethen (eupdate (\<lambda>s. s\<lparr>t_env := (t_env s)\<lparr>env_memories := (env_memories (t_env s))[i :=
           mem\<lparr>mem_data := take (unat (mem_byte_size mem)) (mem_data mem) @ replicate (unat (pages * WASM_PAGE_SIZE - mem_byte_size mem)) 0,
               mem_page_limits := (mem_page_limits mem)\<lparr>limits_initial := ucast pages\<rparr>, mem_byte_size := pages * WASM_PAGE_SIZE\<rparr>]\<rparr>\<rparr>))
         (push_i32 w)))"
      if "\<not> 0xffffffff < (ucast pages :: u64) * ucast WASM_PAGE_SIZE"
        "limits_has_max (mem_page_limits mem) \<Longrightarrow> pages \<le> ucast (limits_max (mem_page_limits mem))" for pages :: u32 and w
    proof (cases "mem_byte_size mem \<le> pages * WASM_PAGE_SIZE")
      case True
      then have "wf_memory (mem\<lparr>mem_data := take (unat (mem_byte_size mem)) (mem_data mem) @ replicate (unat (pages * WASM_PAGE_SIZE - mem_byte_size mem)) 0,
               mem_page_limits := (mem_page_limits mem)\<lparr>limits_initial := ucast pages\<rparr>, mem_byte_size := pages * WASM_PAGE_SIZE\<rparr>)"
        using grown_memory [of mem pages] that \<open>known_memory s0 p\<close> p by (simp add: known_memory_def)
      then show ?thesis using True \<open>known_memory s0 p\<close> p
        by (intro keeps_then keeps_put_memory kept) simp_all
    next
      case False
      then show ?thesis by (simp add: keeps_def ebind_def eassert_def wrong_def)
    qed
    show ?thesis unfolding p prod.case Let_def
      by (rule keeps_then, intro kept, (rule keeps_if, intro kept)+, rule put) (simp_all split: if_splits)
  qed
  then show ?thesis unfolding op_grow_memory_def by (rule keeps_bind [OF keeps_get_memory])
qed

text \<open>The rest of the instructions is made of steps that keep the invariant.\<close>

lemma keeps_binop [kept]:
  "keeps s0 any p \<Longrightarrow> (\<And>v. keeps s0 any (f v)) \<Longrightarrow> keeps s0 any (binop p f g)"
  "keeps s0 any p \<Longrightarrow> (\<And>v. keeps s0 any (f v)) \<Longrightarrow> keeps s0 any (unop p f h)"
  "keeps s0 any q \<Longrightarrow> (\<And>v. keeps s0 any (k v)) \<Longrightarrow> keeps s0 any (div_u q k d)"
  "keeps s0 any q \<Longrightarrow> (\<And>v. keeps s0 any (k v)) \<Longrightarrow> keeps s0 any (div_s q k)"
  "keeps s0 any q \<Longrightarrow> (\<And>v. keeps s0 any (k v)) \<Longrightarrow> keeps s0 any (rem_s q k)"
  "keeps s0 any (on_top t)"
  unfolding binop_def unop_def div_u_def div_s_def rem_s_def on_top_def by (intro kept; assumption?)+

lemma keeps_trunc [kept]:
  "keeps s0 any p \<Longrightarrow> (\<And>v. keeps s0 any (f v)) \<Longrightarrow> keeps s0 any (op_trunc p nan rng F lo hi f)"
  unfolding op_trunc_def cast_to_int_def by (intro kept; assumption?)

lemma keeps_control [kept]:
  "keeps s0 any op_select" "keeps s0 any op_br" "keeps s0 any op_br_if" "keeps s0 any op_br_unless" "keeps s0 any op_br_table"
  "keeps s0 any (op_return t)" "keeps s0 any op_get_global" "keeps s0 any op_get_local" "keeps s0 any op_set_local"
  "keeps s0 any op_tee_local" "keeps s0 any op_call" "keeps s0 any (op_call_host M)" "keeps s0 any op_drop_keep"
  "keeps s0 any op_current_memory"
  unfolding op_select_def op_br_def op_br_if_def op_br_unless_def op_br_table_def op_return_def op_get_global_def op_get_local_def
    op_set_local_def op_tee_local_def op_call_def op_call_host_def op_drop_keep_def op_current_memory_def Let_def
  by (intro kept keeps_any [OF keeps_get_memory])+

lemma keeps_call_indirect [kept]: "keeps s0 any (op_call_indirect M)"
  unfolding op_call_indirect_def Let_def by (intro kept)

definition known_globals :: "RunState \<Rightarrow> WasmInterpreterGlobal list \<Rightarrow> bool" where
  "known_globals s0 gs \<longleftrightarrow>
     map (tv_type \<circ> glob_typed_value) gs = map (tv_type \<circ> glob_typed_value) (env_globals (t_env s0))
     \<and> map glob_mutable gs = map glob_mutable (env_globals (t_env s0))"

lemma map_update_same: "i < length xs \<Longrightarrow> f x = f (xs ! i) \<Longrightarrow> map f (xs[i := x]) = map f xs"
  by (metis length_map list_update_id map_update nth_map)

lemma keeps_set_global [kept]: "keeps s0 any op_set_global"
  unfolding op_set_global_def
proof (rule keeps_then)
  show "keeps s0 any read_u32" by (rule kept)
  fix index :: u32
  have gs: "keeps s0 (known_globals s0) (eget (env_globals \<circ> t_env))"
    by (simp add: keeps_def eget_def known_globals_def run_inv_def same_program_def Let_def)
  have "keeps s0 any (eupdate (\<lambda>s. s\<lparr>t_env := (t_env s)\<lparr>env_globals :=
       gs[unat index := (gs ! unat index)\<lparr>glob_typed_value := (glob_typed_value (gs ! unat index))\<lparr>tv_value := v\<rparr>\<rparr>]\<rparr>\<rparr>))"
    if "known_globals s0 gs" "unat index < length gs" for gs v
    using that by (auto simp: keeps_def eupdate_def run_inv_def wf_state_def same_program_def Let_def known_globals_def map_update_same)
  moreover have "keeps s0 (\<lambda>g. unat index < length gs \<and> g = gs ! unat index) (nth_checked gs index)" for gs :: "WasmInterpreterGlobal list"
    by (simp add: keeps_def nth_checked_def eret_def wrong_def)
  ultimately show "keeps s0 any (ebind (eget (env_globals \<circ> t_env)) (\<lambda>gs. ebind (nth_checked gs index) (\<lambda>g. ebind pop (\<lambda>v.
     eupdate (\<lambda>s. s\<lparr>t_env := (t_env s)\<lparr>env_globals :=
       gs[unat index := g\<lparr>glob_typed_value := (glob_typed_value g)\<lparr>tv_value := v\<rparr>\<rparr>]\<rparr>\<rparr>)))))"
    by (intro keeps_bind [OF gs] keeps_bind [where Q = "\<lambda>g. unat index < length gs \<and> g = gs ! unat index" for gs] keeps_then [OF keeps_pop])
      simp_all
qed

lemma keeps_alloca [kept]: "keeps s0 any op_alloca"
proof -
  have room: "keeps s0 any (ethen (eupdate (\<lambda>s. s\<lparr>t_value_stack_top := old_top + unat n\<rparr>))
     (ebind (eget (length \<circ> t_value_stack)) (\<lambda>len.
      ethen (trap_if (old_top + unat n \<ge> len) TRAP_VALUE_STACK_EXHAUSTED)
      (eupdate (\<lambda>s. s\<lparr>t_value_stack := overwrite (t_value_stack s) old_top (replicate (unat n) 0)\<rparr>)))))" for old_top n
    by (auto simp: keeps_def ebind_def eupdate_def eget_def trap_if_def trap_def eret_def run_inv_def wf_state_def same_program_def
        length_overwrite split: if_splits)
  show ?thesis unfolding op_alloca_def by (intro keeps_then keeps_simple keeps_reads room)
qed

lemma keeps_cases:
  assumes "(opcode, step) \<in> set (interpreter_cases M t)"
  shows "keeps s0 any step"
proof -
  have "\<forall>(c, m) \<in> set (control_cases M t). keeps s0 any m" "\<forall>(c, m) \<in> set misc_cases. keeps s0 any m"
    by (simp_all add: control_cases_def misc_cases_def kept)
  moreover have "\<forall>(c, m) \<in> set load_cases. keeps s0 any m" "\<forall>(c, m) \<in> set (memory_cases M). keeps s0 any m"
    by (simp_all add: load_cases_def memory_cases_def kept)
  moreover have "\<forall>(c, m) \<in> set store_cases. keeps s0 any m" by (simp add: store_cases_def kept keeps_store)
  moreover have "\<forall>(c, m) \<in> set i32_cases. keeps s0 any m" "\<forall>(c, m) \<in> set i64_cases. keeps s0 any m"
    "\<forall>(c, m) \<in> set late_int_cases. keeps s0 any m"
    by (simp_all add: i32_cases_def i64_cases_def late_int_cases_def kept)
  moreover have "\<forall>(c, m) \<in> set (f32_cases M). keeps s0 any m" "\<forall>(c, m) \<in> set (f64_cases M). keeps s0 any m"
    by (simp_all add: f32_cases_def f64_cases_def kept)
  moreover have "\<forall>(c, m) \<in> set (convert_cases M). keeps s0 any m" by (simp add: convert_cases_def kept)
  ultimately show ?thesis using assms by (auto simp: interpreter_cases_def)
qed

lemma keeps_execute: "keeps s0 any (execute M t)"
  unfolding execute_def
proof (rule keeps_then)
  show "keeps s0 any read_u8" by (rule kept)
  show "keeps s0 any (case map_of (interpreter_cases M t) (unat opcode) of Some step \<Rightarrow> step | None \<Rightarrow> wrong)" for opcode
    by (cases "map_of (interpreter_cases M t) (unat opcode)") (auto intro: kept keeps_cases dest: map_of_SomeD)
qed

subsection \<open>Whole runs\<close>

lemma wf_save_pc [simp]: "wf_state (save_pc s) = wf_state s" "same_program s0 (save_pc s) = same_program s0 s"
  "wf_state (leave_run pc s) = wf_state s"
  "same_program s0 (leave_run pc s) = same_program s0 s"
  by (simp_all add: wf_state_def same_program_def save_pc_def leave_run_def ThreadState.extend_def ThreadState.truncate_def WasmInterpreterThread.fields_def)

lemma run_loop_inv:
  assumes "run_inv s0 s" "run_loop M rt pc n s = Outcome r t" "r = WASM_INTERPRETER_OK \<or> r = WASM_INTERPRETER_RETURNED"
  shows "wf_state t \<and> same_program s0 t"
  using assms
proof (induction n arbitrary: s)
  case 0
  then show ?case by (auto simp: run_inv_def)
next
  case (Suc n)
  show ?case
  proof (cases "execute M rt s")
    case (Inl p)
    then obtain s' where e: "execute M rt s = Inl (Stopped r, s')" and t: "t = save_pc s' \<or> t = leave_run pc s'"
      using Suc.prems(2) by (auto split: prod.splits Stop.splits if_splits)
    from keepsD(2) [OF keeps_execute Suc.prems(1) e] Suc.prems(3) t show ?thesis by (auto simp: run_inv_def)
  next
    case (Inr p)
    then obtain s' where e: "execute M rt s = Inr ((), s')" by (cases p) simp
    with Suc.prems(2) have "run_loop M rt pc n s' = Outcome r t" by simp
    moreover have "run_inv s0 s'" using keepsD(1) [OF keeps_execute Suc.prems(1) e] by simp
    ultimately show ?thesis using Suc.IH Suc.prems(3) by blast
  qed
qed

lemma enter_run_simps [simp]:
  "t_env (enter_run t) = t_env t" "t_value_stack (enter_run t) = t_value_stack t" "t_value_stack_top (enter_run t) = t_value_stack_top t"
  "t_call_stack (enter_run t) = t_call_stack t" "t_call_stack_top (enter_run t) = t_call_stack_top t" "local_pc (enter_run t) = unat (t_pc t)"
  by (simp_all add: enter_run_def ThreadState.extend_def ThreadState.truncate_def RunState.fields_def)

lemma run_interpreter_inv:
  assumes "wf_state t" "wasm_run_interpreter M n rt t = Outcome r t'" "r = WASM_INTERPRETER_OK \<or> r = WASM_INTERPRETER_RETURNED"
  shows "wf_state t' \<and> same_program t t'"
proof -
  have "unat (t_pc t) < 2 ^ LENGTH(32)" by (rule unsigned_less)
  then have "run_inv (enter_run t) (enter_run t)" using assms(1) by (simp add: run_inv_def wf_state_def same_program_refl)
  from run_loop_inv [OF this _ assms(3)] assms(2) have "wf_state t' \<and> same_program (enter_run t) t'"
    by (auto simp: wasm_run_interpreter_def split: if_splits)
  then show ?thesis by (simp add: same_program_def)
qed

end
