(* ===== verification/Wabt_Interpreter_Tool.thy ===== *)
theory Wabt_Interpreter_Tool
  imports Wabt_Interpreter_Run
begin

text \<open>
  How the interpreter tool calls functions (\<^verbatim>\<open>tools/wasm-interp.c\<close>): arguments onto the stack,
  the code in slices of a number of instructions (one when tracing) until it returns or traps, the
  results off the stack. The loop over the slices need not end, so it is a partial function.
\<close>

definition INSTRUCTION_QUANTUM :: u32 where "INSTRUCTION_QUANTUM = 1000"

definition wasm_push_thread_value :: "WasmInterpreterValue \<Rightarrow> WasmInterpreterThread \<Rightarrow> WasmInterpreterResult \<times> WasmInterpreterThread" where
  "wasm_push_thread_value v t =
     (if t_value_stack_top t \<ge> length (t_value_stack t) then (TRAP_VALUE_STACK_EXHAUSTED, t)
      else (WASM_INTERPRETER_OK,
        t\<lparr>t_value_stack := (t_value_stack t)[t_value_stack_top t := v], t_value_stack_top := t_value_stack_top t + 1\<rparr>))"

fun push_arg_values ::
    "WasmType list \<Rightarrow> WasmInterpreterTypedValue list \<Rightarrow> WasmInterpreterThread \<Rightarrow> WasmInterpreterResult \<times> WasmInterpreterThread" where
  "push_arg_values (p # ps) (a # args) t =
     (if p \<noteq> tv_type a then (WASM_INTERPRETER_ARGUMENT_TYPE_MISMATCH, t)
      else case wasm_push_thread_value (tv_value a) t of
             (r, t) \<Rightarrow> if r \<noteq> WASM_INTERPRETER_OK then (r, t\<lparr>t_value_stack_top := 0\<rparr>) else push_arg_values ps args t)"
| "push_arg_values ps args t = (WASM_INTERPRETER_OK, t)"

definition push_args ::
    "WasmInterpreterFuncSignature \<Rightarrow> WasmInterpreterTypedValue list \<Rightarrow> WasmInterpreterThread \<Rightarrow> WasmInterpreterResult \<times> WasmInterpreterThread" where
  "push_args sig args t =
     (if length (isig_param_types sig) \<noteq> length args then (WASM_INTERPRETER_ARGUMENT_TYPE_MISMATCH, t)
      else push_arg_values (isig_param_types sig) args t)"

text \<open>The results, when the stack is as deep as the signature has results.\<close>

definition copy_results :: "WasmInterpreterFuncSignature \<Rightarrow> WasmInterpreterThread \<Rightarrow> WasmInterpreterTypedValue list option" where
  "copy_results sig t =
     (if length (isig_result_types sig) = t_value_stack_top t \<and> t_value_stack_top t \<le> length (t_value_stack t)
      then Some (map (\<lambda>i. \<lparr>tv_type = isig_result_types sig ! i, tv_value = t_value_stack t ! i\<rparr>) [0..<length (isig_result_types sig)])
      else None)"

text \<open>\<open>None\<close> is a loop that does not end.\<close>

partial_function (option) run_slices :: "Machine \<Rightarrow> u32 \<Rightarrow> nat \<Rightarrow> WasmInterpreterThread \<Rightarrow> Outcome option" where
  "run_slices M quantum rt t =
     (case wasm_run_interpreter M quantum rt t of
        Failed_Assertion \<Rightarrow> Some Failed_Assertion
      | Outcome r t \<Rightarrow>
          if r = WASM_INTERPRETER_OK then run_slices M quantum rt t
          else Some (Outcome (if r \<noteq> WASM_INTERPRETER_RETURNED then r else WASM_INTERPRETER_OK) t))"

definition run_defined_function :: "Machine \<Rightarrow> bool \<Rightarrow> u32 \<Rightarrow> WasmInterpreterThread \<Rightarrow> Outcome option" where
  "run_defined_function M trace off t =
     run_slices M (if trace then 1 else INSTRUCTION_QUANTUM) (t_call_stack_top t) (t\<lparr>t_pc := off\<rparr>)"

text \<open>\<open>wasm_call_host\<close> outside of the run loop, where its result counts.\<close>

definition call_host_function :: "Machine \<Rightarrow> WasmInterpreterFunc \<Rightarrow> WasmInterpreterThread \<Rightarrow> Outcome" where
  "call_host_function M func t =
     (case wasm_call_host M func (enter_run t) of
        Inr (_, s) \<Rightarrow> Outcome WASM_INTERPRETER_OK (leave_run (t_pc t) s)
      | Inl (Stopped r, s) \<Rightarrow> Outcome r (leave_run (t_pc t) s)
      | Inl (Wrong, _) \<Rightarrow> Failed_Assertion)"

definition reset_stacks :: "WasmInterpreterThread \<Rightarrow> WasmInterpreterThread" where
  "reset_stacks t = t\<lparr>t_value_stack_top := 0, t_call_stack_top := 0\<rparr>"

datatype CallOutcome = Call_Failed_Assertion | Called WasmInterpreterResult "WasmInterpreterTypedValue list" WasmInterpreterThread

definition run_function ::
    "Machine \<Rightarrow> bool \<Rightarrow> u32 \<Rightarrow> WasmInterpreterTypedValue list \<Rightarrow> WasmInterpreterThread \<Rightarrow> CallOutcome option" where
  "run_function M trace func_index args t =
     (let env = t_env t
      in if unat func_index \<ge> length (env_funcs env) \<or> unat (fn_sig_index (env_funcs env ! unat func_index)) \<ge> length (env_sigs env)
         then Some Call_Failed_Assertion
         else (let func = env_funcs env ! unat func_index; sig = env_sigs env ! unat (fn_sig_index func)
               in case push_args sig args t of
                    (r, t) \<Rightarrow>
                      if r \<noteq> WASM_INTERPRETER_OK then Some (Called r [] (reset_stacks t))
                      else map_option
                        (\<lambda>outcome. case outcome of
                             Failed_Assertion \<Rightarrow> Call_Failed_Assertion
                           | Outcome r t \<Rightarrow>
                               if r \<noteq> WASM_INTERPRETER_OK then Called r [] (reset_stacks t)
                               else (case copy_results sig t of
                                       None \<Rightarrow> Call_Failed_Assertion | Some results \<Rightarrow> Called r results (reset_stacks t)))
                        (case fn_body func of
                           Host _ \<Rightarrow> Some (call_host_function M func t)
                         | Defined d \<Rightarrow> run_defined_function M trace (def_offset d) t)))"

definition run_start_function :: "Machine \<Rightarrow> bool \<Rightarrow> DefinedModule \<Rightarrow> WasmInterpreterThread \<Rightarrow> CallOutcome option" where
  "run_start_function M trace module t =
     (if mod_start_func_index module = WASM_INVALID_INDEX then Some (Called WASM_INTERPRETER_OK [] t)
      else map_option (\<lambda>c. case c of Called r (v # vs) t \<Rightarrow> Call_Failed_Assertion | c \<Rightarrow> c)
             (run_function M trace (mod_start_func_index module) [] t))"

definition wasm_get_interpreter_export_by_name :: "WasmInterpreterModule \<Rightarrow> WasmStringSlice \<Rightarrow> WasmInterpreterExport option option" where
  "wasm_get_interpreter_export_by_name module name =
     (let field_index = wasm_find_binding_index_by_name (mod_export_bindings module) name
      in if field_index < 0 then Some None
         else if nat field_index < length (mod_exports module) then Some (Some (mod_exports module ! nat field_index)) else None)"

definition run_export_by_name ::
    "Machine \<Rightarrow> bool \<Rightarrow> WasmInterpreterModule \<Rightarrow> WasmStringSlice \<Rightarrow> WasmInterpreterTypedValue list \<Rightarrow> WasmInterpreterThread \<Rightarrow> CallOutcome option" where
  "run_export_by_name M trace module name args t =
     (case wasm_get_interpreter_export_by_name module name of
        None \<Rightarrow> Some Call_Failed_Assertion
      | Some None \<Rightarrow> Some (Called WASM_INTERPRETER_UNKNOWN_EXPORT [] t)
      | Some (Some e) \<Rightarrow>
          if exp_kind e \<noteq> WASM_EXTERNAL_KIND_FUNC then Some (Called WASM_INTERPRETER_EXPORT_KIND_MISMATCH [] t)
          else run_function M trace (exp_index e) args t)"

definition get_global_export_by_name ::
    "WasmInterpreterModule \<Rightarrow> WasmStringSlice \<Rightarrow> WasmInterpreterThread \<Rightarrow> CallOutcome" where
  "get_global_export_by_name module name t =
     (case wasm_get_interpreter_export_by_name module name of
        None \<Rightarrow> Call_Failed_Assertion
      | Some None \<Rightarrow> Called WASM_INTERPRETER_UNKNOWN_EXPORT [] t
      | Some (Some e) \<Rightarrow>
          if exp_kind e \<noteq> WASM_EXTERNAL_KIND_GLOBAL then Called WASM_INTERPRETER_EXPORT_KIND_MISMATCH [] t
          else if unat (exp_index e) < length (env_globals (t_env t))
          then Called WASM_INTERPRETER_OK [glob_typed_value (env_globals (t_env t) ! unat (exp_index e))] t
          else Call_Failed_Assertion)"

text \<open>The host function of the tool: it prints its arguments and returns zeros of the right types.\<close>

definition default_host_callback ::
    "WasmInterpreterFuncSignature \<Rightarrow> WasmInterpreterTypedValue list \<Rightarrow> WasmResult \<times> WasmInterpreterTypedValue list" where
  "default_host_callback sig args = (WASM_OK, map (\<lambda>t. \<lparr>tv_type = t, tv_value = 0\<rparr>) (isig_result_types sig))"

end
