(* ===== verification/Wabt_Interpreter_Slices.thy ===== *)
theory Wabt_Interpreter_Slices
  imports Wabt_Interpreter_Inv Wabt_Interpreter_Tool
begin

text \<open>
  How many instructions are run at a time makes no difference to what a program does: a run cut
  into slices resumes exactly where it was. Only after a trap does the thread still hold the
  \<open>pc\<close> of the last slice.
\<close>

subsection \<open>Resuming\<close>

lemma enter_save_pc:
  assumes "local_pc s < 2 ^ 32"
  shows "enter_run (save_pc s) = s"
proof -
  have "unat (u32_of_nat (local_pc s)) = local_pc s" using assms by (simp add: unat_of_nat)
  then show ?thesis
    by (simp add: enter_run_def save_pc_def leave_run_def ThreadState.truncate_def ThreadState.extend_def
        RunState.fields_def WasmInterpreterThread.fields_def)
qed

text \<open>The state after \<open>n\<close> instructions, or where the run ended before.\<close>

fun steps :: "Machine \<Rightarrow> nat \<Rightarrow> nat \<Rightarrow> RunState \<Rightarrow> (Stop \<times> RunState) + RunState" where
  "steps M rt 0 s = Inr s"
| "steps M rt (Suc n) s = (case execute M rt s of Inl e \<Rightarrow> Inl e | Inr (_, s') \<Rightarrow> steps M rt n s')"

lemma steps_add: "steps M rt (a + b) s = (case steps M rt a s of Inl e \<Rightarrow> Inl e | Inr s' \<Rightarrow> steps M rt b s')"
  by (induction a arbitrary: s) (auto split: sum.splits prod.splits)

definition ended :: "u32 \<Rightarrow> Stop \<times> RunState \<Rightarrow> Outcome" where
  "ended pc e = (case e of
     (Stopped r, s) \<Rightarrow> Outcome r (if r = WASM_INTERPRETER_RETURNED then save_pc s else leave_run pc s)
   | (Wrong, _) \<Rightarrow> Failed_Assertion)"

lemma run_loop_steps:
  "run_loop M rt pc n s = (case steps M rt n s of Inr s' \<Rightarrow> Outcome WASM_INTERPRETER_OK (save_pc s') | Inl e \<Rightarrow> ended pc e)"
  by (induction n arbitrary: s) (auto simp: ended_def split: sum.splits prod.splits Stop.splits)

lemma steps_inv:
  assumes "run_inv s0 s"
  shows "steps M rt n s = Inr s' \<Longrightarrow> run_inv s0 s'"
    and "steps M rt n s = Inl (Stopped r, s') \<Longrightarrow> r \<noteq> WASM_INTERPRETER_OK"
proof -
  have "(steps M rt n s = Inr s' \<longrightarrow> run_inv s0 s') \<and> (steps M rt n s = Inl (Stopped r, s') \<longrightarrow> r \<noteq> WASM_INTERPRETER_OK)"
    using assms
  proof (induction n arbitrary: s)
    case (Suc n)
    show ?case
    proof (cases "execute M rt s")
      case (Inl e)
      then show ?thesis using keepsD(2) [OF keeps_execute Suc.prems, of M rt r s'] by auto
    next
      case (Inr p)
      then have "run_inv s0 (snd p)" using keepsD(1) [OF keeps_execute Suc.prems, of M rt "fst p" "snd p"] by (metis prod.collapse)
      from Suc.IH [OF this] show ?thesis using Inr by (simp split: prod.splits)
    qed
  qed auto
  then show "steps M rt n s = Inr s' \<Longrightarrow> run_inv s0 s'" "steps M rt n s = Inl (Stopped r, s') \<Longrightarrow> r \<noteq> WASM_INTERPRETER_OK"
    by blast+
qed

text \<open>The end of an execution, if it has one, with what the tool makes of it.\<close>

definition reported :: "Outcome \<Rightarrow> Outcome" where
  "reported oc = (case oc of Failed_Assertion \<Rightarrow> Failed_Assertion
     | Outcome r t \<Rightarrow> Outcome (if r \<noteq> WASM_INTERPRETER_RETURNED then r else WASM_INTERPRETER_OK) t)"

definition forget_pc :: "Outcome \<Rightarrow> Outcome" where
  "forget_pc oc = (case oc of Failed_Assertion \<Rightarrow> Failed_Assertion | Outcome r t \<Rightarrow> Outcome r (t\<lparr>t_pc := 0\<rparr>))"

definition whole_run :: "Machine \<Rightarrow> nat \<Rightarrow> RunState \<Rightarrow> Outcome option" where
  "whole_run M rt s =
     (if \<exists>n e. steps M rt n s = Inl e then Some (forget_pc (reported (ended 0 (THE e. \<exists>n. steps M rt n s = Inl e)))) else None)"

lemma steps_end_unique:
  assumes "steps M rt a s = Inl e" "steps M rt b s = Inl e'"
  shows "e = e'"
proof -
  have "steps M rt (a + c) s = Inl e" "steps M rt (b + c) s = Inl e'" for c using assms by (simp_all add: steps_add)
  from this(1) [of b] this(2) [of a] show ?thesis by (simp add: add.commute)
qed

lemma whole_run_end:
  assumes "steps M rt n s = Inl e"
  shows "whole_run M rt s = Some (forget_pc (reported (ended 0 e)))"
proof -
  have "(THE e. \<exists>n. steps M rt n s = Inl e) = e" using assms steps_end_unique by blast
  moreover have "\<exists>n e. steps M rt n s = Inl e" using assms by blast
  ultimately show ?thesis by (simp only: whole_run_def if_True)
qed

lemma whole_run_go_on:
  assumes "steps M rt n s = Inr s'"
  shows "whole_run M rt s = whole_run M rt s'"
proof -
  have step: "steps M rt (n + k) s = steps M rt k s'" for k by (simp add: steps_add assms)
  show ?thesis
  proof (cases "\<exists>k e. steps M rt k s' = Inl e")
    case True
    then obtain k e where "steps M rt k s' = Inl e" by blast
    with step [of k] show ?thesis by (simp add: whole_run_end)
  next
    case False
    have "steps M rt k s \<noteq> Inl e" for k e
    proof
      assume "steps M rt k s = Inl e"
      then have "steps M rt (k + n) s = Inl e" by (simp add: steps_add)
      then have "steps M rt k s' = Inl e" using step [of k] by (simp add: add.commute)
      then show False using False by blast
    qed
    then have "\<not> (\<exists>k e. steps M rt k s = Inl e)" by blast
    with False show ?thesis by (simp only: whole_run_def if_False)
  qed
qed

subsection \<open>Slices of any size\<close>

lemma enter_run_inv: "wf_state t \<Longrightarrow> run_inv (enter_run t) (enter_run t)"
proof -
  assume "wf_state t"
  moreover have "unat (t_pc t) < 2 ^ LENGTH(32)" by (rule unsigned_less)
  ultimately show ?thesis by (simp add: run_inv_def wf_state_def same_program_refl)
qed

text \<open>One slice: the end of the run, or a thread from which the run goes on.\<close>

lemma slice_cases:
  assumes wf: "wf_state t" and rt: "rt < length (t_call_stack t)"
  obtains (ends) e where "steps M rt (unat q) (enter_run t) = Inl e" "wasm_run_interpreter M q rt t = ended (t_pc t) e"
      "\<And>r t'. ended (t_pc t) e = Outcome r t' \<Longrightarrow> r \<noteq> WASM_INTERPRETER_OK"
  | (goes_on) t' where "steps M rt (unat q) (enter_run t) = Inr (enter_run t')" "wasm_run_interpreter M q rt t = Outcome WASM_INTERPRETER_OK t'"
      "wf_state t'" "rt < length (t_call_stack t')"
proof (cases "steps M rt (unat q) (enter_run t)")
  case (Inl e)
  moreover have "r \<noteq> WASM_INTERPRETER_OK" if "ended (t_pc t) e = Outcome r t'" for r t'
    using that steps_inv(2) [OF enter_run_inv [OF wf], of M rt "unat q" r] Inl
    by (auto simp: ended_def split: prod.splits Stop.splits)
  ultimately show thesis using rt by (intro ends) (simp_all add: wasm_run_interpreter_def run_loop_steps)
next
  case (Inr s')
  have i: "run_inv (enter_run t) s'" by (rule steps_inv(1) [OF enter_run_inv [OF wf] Inr])
  then have "enter_run (save_pc s') = s'" by (intro enter_save_pc) (simp add: run_inv_def)
  moreover have "wf_state (save_pc s')" using i by (simp add: run_inv_def)
  moreover have "length (t_call_stack (save_pc s')) = length (t_call_stack t)"
    using i by (simp add: run_inv_def same_program_def Let_def save_pc_def leave_run_def ThreadState.extend_def ThreadState.truncate_def
        WasmInterpreterThread.fields_def)
  ultimately show thesis using Inr rt by (intro goes_on [of "save_pc s'"]) (simp_all add: wasm_run_interpreter_def run_loop_steps)
qed

lemma forget_reported: "forget_pc (reported (ended pc e)) = forget_pc (reported (ended 0 e))"
  by (auto simp: forget_pc_def reported_def ended_def leave_run_def save_pc_def ThreadState.extend_def ThreadState.truncate_def
      WasmInterpreterThread.fields_def split: prod.splits Stop.splits)

lemma run_slices_end:
  assumes "steps M rt n (enter_run t) = Inl e" "0 < q" "wf_state t" "rt < length (t_call_stack t)"
  shows "map_option forget_pc (run_slices M q rt t) = Some (forget_pc (reported (ended 0 e)))"
  using assms
proof (induction n arbitrary: t rule: less_induct)
  case (less n)
  from less.prems(3,4) show ?case
  proof (cases rule: slice_cases [where M = M and q = q])
    case (ends e')
    have "e' = e" by (rule steps_end_unique [OF ends(1) less.prems(1)])
    then show ?thesis using ends(2,3) forget_reported [of "t_pc t" e]
      by (subst run_slices.simps) (auto simp: reported_def split: Outcome.splits)
  next
    case (goes_on t')
    have "unat q < n"
    proof (rule ccontr)
      assume "\<not> unat q < n"
      then have "unat q = n + (unat q - n)" by simp
      then have "steps M rt (unat q) (enter_run t) = Inl e" using steps_add [of M rt n "unat q - n" "enter_run t"] less.prems(1) by simp
      with goes_on(1) show False by simp
    qed
    then have "steps M rt (n - unat q) (enter_run t') = Inl e"
      using steps_add [of M rt "unat q" "n - unat q" "enter_run t"] goes_on(1) less.prems(1) by simp
    moreover have "n - unat q < n" using less.prems(2) \<open>unat q < n\<close> by (simp add: unat_gt_0 word_gt_0)
    ultimately have "map_option forget_pc (run_slices M q rt t') = Some (forget_pc (reported (ended 0 e)))"
      using less.IH goes_on(3,4) less.prems(2) by blast
    then show ?thesis using goes_on(2) by (subst run_slices.simps) simp
  qed
qed

lemma run_slices_ends:
  assumes "run_slices M q rt t = Some oc" "wf_state t" "rt < length (t_call_stack t)"
  shows "\<exists>n e. steps M rt n (enter_run t) = Inl e"
proof -
  have "wf_state t \<longrightarrow> rt < length (t_call_stack t) \<longrightarrow> (\<exists>n e. steps M rt n (enter_run t) = Inl e)"
    if "run_slices M q rt t = Some oc" for oc t
  proof (rule run_slices.raw_induct [OF _ that, where P = "\<lambda>M q rt t _. wf_state t \<longrightarrow> rt < length (t_call_stack t) \<longrightarrow>
      (\<exists>n e. steps M rt n (enter_run t) = Inl e)"], intro impI)
    fix run M q rt t oc
    assume IH: "\<And>M q rt t oc. run M q rt t = Some oc \<Longrightarrow>
        wf_state t \<longrightarrow> rt < length (t_call_stack t) \<longrightarrow> (\<exists>n e. steps M rt n (enter_run t) = Inl e)"
      and body: "(case wasm_run_interpreter M q rt t of Failed_Assertion \<Rightarrow> Some Failed_Assertion
        | Outcome r t \<Rightarrow> if r = WASM_INTERPRETER_OK then run M q rt t
            else Some (Outcome (if r \<noteq> WASM_INTERPRETER_RETURNED then r else WASM_INTERPRETER_OK) t)) = Some oc"
      and wf: "wf_state t" "rt < length (t_call_stack t)"
    from wf show "\<exists>n e. steps M rt n (enter_run t) = Inl e"
    proof (cases rule: slice_cases [where M = M and q = q])
      case (goes_on t')
      then obtain n e where "steps M rt n (enter_run t') = Inl e" using IH [of M q rt t' oc] body by auto
      then have "steps M rt (unat q + n) (enter_run t) = Inl e" using goes_on(1) by (simp add: steps_add)
      then show ?thesis by blast
    qed blast
  qed
  then show ?thesis using assms by blast
qed

lemma run_slices_whole:
  assumes "0 < q" "wf_state t" "rt < length (t_call_stack t)"
  shows "map_option forget_pc (run_slices M q rt t) = whole_run M rt (enter_run t)"
proof (cases "\<exists>n e. steps M rt n (enter_run t) = Inl e")
  case True
  then obtain n e where e: "steps M rt n (enter_run t) = Inl e" by blast
  show ?thesis unfolding run_slices_end [OF e assms] whole_run_end [OF e] by (rule refl)
next
  case False
  then have "run_slices M q rt t = None" using run_slices_ends [OF _ assms(2,3)] by (cases "run_slices M q rt t") blast+
  then show ?thesis using False by (simp add: whole_run_def)
qed

end
