(* ===== verification/Wabt_Literal_Round.thy ===== *)
theory Wabt_Literal_Round
  imports Wabt_Literal
begin

text \<open>
  Reading a hexadecimal literal that was written gives the number back, bit for bit. The argument
  is made once, for every format with the proportions of the two IEEE ones.
\<close>

unbundle bit_operations_syntax

text \<open>The kind of literal the lexer takes a written number for.\<close>

definition hex_literal_type :: "'a :: len word FloatFormat \<Rightarrow> 'a word \<Rightarrow> WasmLiteralType" where
  "hex_literal_type F bits =
     (if uint (drop_bit (nat (SIG_BITS F)) bits AND EXP_MASK F) - EXP_BIAS F = MAX_EXP F
      then if bits AND SIG_MASK F = 0 then WASM_LITERAL_TYPE_INFINITY else WASM_LITERAL_TYPE_NAN
      else WASM_LITERAL_TYPE_HEXFLOAT)"

subsection \<open>Digits\<close>

definition hexchar :: "nat \<Rightarrow> byte" where
  "hexchar d = cstr ''0123456789abcdef'' ! d"

lemma less_16: "(d :: nat) < 16 \<longleftrightarrow> d \<in> {0, 1, 2, 3, 4, 5, 6, 7, 8, 9, 10, 11, 12, 13, 14, 15}"
  unfolding insert_iff empty_iff by presburger

lemma hexchar_ok:
  assumes "d < 16"
  shows "wasm_parse_hexdigit (hexchar d) = Some (word_of_nat d)" "hexchar d \<noteq> chr CHR ''.''" "hexchar d \<noteq> chr CHR ''p''"
  using assms unfolding less_16
  by (auto simp: hexchar_def cstr_def wasm_parse_hexdigit_def char_distance_def)

lemma less_10: "0 \<le> (n :: int) \<and> n < 10 \<longleftrightarrow> n \<in> {0, 1, 2, 3, 4, 5, 6, 7, 8, 9}"
  unfolding insert_iff empty_iff by presburger

lemma digit_char_ok:
  assumes "0 \<le> n" "n < 10"
  shows "char_distance (digit_char n) CHR ''0'' = word_of_int n" "digit_char n \<noteq> chr CHR ''-''" "digit_char n \<noteq> chr CHR ''+''"
  using assms less_10 [of n] by (auto simp: digit_char_def char_distance_def)

lemma scan_digit:
  assumes "0 \<le> n" "n < 10"
  shows "scan_exponent limit add (digit_char n # cs) x =
    (if x * 10 + n + add \<ge> limit then Some (x * 10 + n) else scan_exponent limit add cs (x * 10 + n))"
proof -
  have "uint (word_of_int n :: u32) = n" using assms by (simp add: uint_word_of_int)
  moreover from this have "\<not> (word_of_int n :: u32) > 9" using assms by (simp add: word_less_def)
  ultimately show ?thesis using digit_char_ok(1) [OF assms] by simp
qed

declare scan_exponent.simps(2) [simp del]

abbreviation is_digit :: "int \<Rightarrow> bool" where
  "is_digit n \<equiv> 0 \<le> n \<and> n < 10"

lemma scan_digits:
  "is_digit a \<Longrightarrow> scan_exponent limit add [digit_char a] 0 = Some a"
  "is_digit a \<Longrightarrow> is_digit b \<Longrightarrow> a + add < limit \<Longrightarrow>
    scan_exponent limit add [digit_char a, digit_char b] 0 = Some (10 * a + b)"
  "is_digit a \<Longrightarrow> is_digit b \<Longrightarrow> is_digit c \<Longrightarrow> 10 * a + b + add < limit \<Longrightarrow>
    scan_exponent limit add [digit_char a, digit_char b, digit_char c] 0 = Some (100 * a + 10 * b + c)"
  "is_digit a \<Longrightarrow> is_digit b \<Longrightarrow> is_digit c \<Longrightarrow> is_digit d \<Longrightarrow> 100 * a + 10 * b + c + add < limit \<Longrightarrow>
    scan_exponent limit add [digit_char a, digit_char b, digit_char c, digit_char d] 0 = Some (1000 * a + 100 * b + 10 * c + d)"
  by (simp_all add: scan_digit)

lemma decimal_parts:
  fixes e :: int
  assumes "0 \<le> e"
  obtains q d where "e = 10 * q + d" "is_digit d" "0 \<le> q" "e div 10 = q" "e mod 10 = d"
  using that [of "e div 10" "e mod 10"] assms by simp

lemma scan_float_exp:
  assumes "0 \<le> e" "e < 200" "e div 10 + add < limit"
  shows "scan_exponent limit add (write_float_exp e) 0 = Some e"
proof -
  have one: "cstr ''1'' = [digit_char 1]" by (simp add: cstr_def digit_char_def)
  obtain q d where e: "e = 10 * q + d" "is_digit d" "0 \<le> q" "e div 10 = q" "e mod 10 = d" by (rule decimal_parts [OF assms(1)])
  obtain p c where q: "q = 10 * p + c" "is_digit c" "0 \<le> p" "q div 10 = p" "q mod 10 = c" by (rule decimal_parts [OF e(3)])
  have p: "p < 2" using assms(2) e q by linarith
  have w: "write_float_exp e = (if p = 1 then [digit_char 1] else []) @ (if p = 1 \<or> c \<noteq> 0 then [digit_char c] else []) @ [digit_char d]"
  proof -
    have "e \<ge> 100 \<longleftrightarrow> p = 1" "e \<ge> 10 \<longleftrightarrow> p = 1 \<or> c \<noteq> 0" using e(1,2) q(1-3) p by linarith+
    then show ?thesis unfolding write_float_exp_def e(4,5) q(5) one by simp
  qed
  have lim: "q + add < limit" using assms(3) e(4) by simp
  consider "p = 1" | "p = 0" "c \<noteq> 0" | "p = 0" "c = 0" using p q(3) by linarith
  then show ?thesis
    by cases (use w e(1,2) q(1,2) lim in \<open>simp_all add: scan_digits\<close>)
qed

lemma scan_double_exp:
  assumes "0 \<le> e" "e < 2000" "e div 10 + add < limit"
  shows "scan_exponent limit add (write_double_exp e) 0 = Some e"
proof -
  have one: "cstr ''1'' = [digit_char 1]" by (simp add: cstr_def digit_char_def)
  obtain q d where e: "e = 10 * q + d" "is_digit d" "0 \<le> q" "e div 10 = q" "e mod 10 = d" by (rule decimal_parts [OF assms(1)])
  obtain p c where q: "q = 10 * p + c" "is_digit c" "0 \<le> p" "q div 10 = p" "q mod 10 = c" by (rule decimal_parts [OF e(3)])
  obtain r b where p: "p = 10 * r + b" "is_digit b" "0 \<le> r" "p div 10 = r" "p mod 10 = b" by (rule decimal_parts [OF q(3)])
  have r: "r < 2" using assms(2) e(1,2) q(1,2) p(1,2) by linarith
  have hundred: "e div 100 = p" using zdiv_zmult2_eq [of 10 e 10] e(4) q(4) by simp
  have w: "write_double_exp e = (if r = 1 then [digit_char 1] else []) @ (if r = 1 \<or> b \<noteq> 0 then [digit_char b] else [])
      @ (if r = 1 \<or> b \<noteq> 0 \<or> c \<noteq> 0 then [digit_char c] else []) @ [digit_char d]"
  proof -
    have "e \<ge> 1000 \<longleftrightarrow> r = 1" "e \<ge> 100 \<longleftrightarrow> r = 1 \<or> b \<noteq> 0" "e \<ge> 10 \<longleftrightarrow> r = 1 \<or> b \<noteq> 0 \<or> c \<noteq> 0"
      using e(1,2) q(1-3) p(1-3) r by linarith+
    then show ?thesis unfolding write_double_exp_def hundred e(4,5) q(5) p(5) one by simp
  qed
  have lim: "q + add < limit" using assms(3) e(4) by simp
  consider "r = 1" | "r = 0" "b \<noteq> 0" | "r = 0" "b = 0" "c \<noteq> 0" | "r = 0" "b = 0" "c = 0" using r p(3) by linarith
  then show ?thesis
    by cases (use w e(1,2) q(1,2) p(1,2) lim in \<open>simp_all add: scan_digits\<close>)
qed

subsection \<open>Nybbles\<close>

fun hexval :: "nat list \<Rightarrow> nat" where
  "hexval [] = 0"
| "hexval (d # ds) = d * 16 ^ length ds + hexval ds"

lemma hexval_less: "\<forall>d \<in> set ds. d < 16 \<Longrightarrow> hexval ds < 16 ^ length ds"
proof (induction ds)
  case (Cons d ds)
  then have "d * 16 ^ length ds + hexval ds < (d + 1) * 16 ^ length ds" by simp
  also have "\<dots> \<le> 16 * 16 ^ length ds" using Cons.prems by (intro mult_right_mono) auto
  finally show ?case by simp
qed simp

lemma power_16s: "4 * k \<le> n \<Longrightarrow> 16 ^ k * (2 :: nat) ^ (n - 4 * k) = 2 ^ n"
proof -
  assume n: "4 * k \<le> n"
  have "16 ^ k * (2 :: nat) ^ (n - 4 * k) = 2 ^ (4 * k + (n - 4 * k))" by (simp add: power_add power_mult)
  then show ?thesis using n by simp
qed

lemma power_16: "4 * Suc k \<le> n \<Longrightarrow> 2 ^ (n - 4 * k) = 16 * (2 :: nat) ^ (n - 4 * Suc k)"
  using power_16s [of 1 "n - 4 * k"] by (simp add: algebra_simps)

subsection \<open>Formats\<close>

text \<open>A sign bit, an exponent of \<open>e\<close> bits and a significand of \<open>p\<close> bits.\<close>

locale float_format =
  fixes F :: "'a :: len word FloatFormat" and p e :: nat
  assumes word_length: "LENGTH('a) = Suc (e + p)" "WORD_BITS F = int (LENGTH('a))" "4 dvd LENGTH('a)"
    and fields: "SIGN_SHIFT F = e + p" "SIG_BITS F = int p" "SIG_MASK F = mask p" "EXP_MASK F = mask e"
      "SIG_PLUS_ONE_BITS F = int (Suc p)" "SIG_PLUS_ONE_MASK F = mask (Suc p)"
    and exponents: "EXP_BIAS F = 2 ^ (e - 1) - 1" "MIN_EXP F = 1 - 2 ^ (e - 1)" "MAX_EXP F = 2 ^ (e - 1)"
    and quiet: "QUIET_NAN_TAG F \<noteq> 0" "QUIET_NAN_TAG F \<le> mask p"
    and proportions: "8 \<le> e" "1 < p" "p mod 4 = 0 \<or> p mod 4 = 3"
begin

lemma word_nybbles: "4 * (LENGTH('a) div 4) = LENGTH('a)" "4 \<le> LENGTH('a)" "2 ^ LENGTH('a) = 16 * (2 :: nat) ^ (LENGTH('a) - 4)"
proof -
  show "4 * (LENGTH('a) div 4) = LENGTH('a)" using word_length(3) by simp
  show four: "4 \<le> LENGTH('a)" using proportions(1) word_length(1) by linarith
  have "(2 :: nat) ^ (4 + (LENGTH('a) - 4)) = 16 * 2 ^ (LENGTH('a) - 4)" by (simp only: power_add) simp
  then show "2 ^ LENGTH('a) = 16 * (2 :: nat) ^ (LENGTH('a) - 4)" using four by simp
qed

lemma unat_less: "unat (w :: 'a word) < 16 * 2 ^ (LENGTH('a) - 4)"
proof -
  have "unat w < 2 ^ LENGTH('a)" by (rule unsigned_less)
  then show ?thesis unfolding word_nybbles(3) .
qed

lemma top_less: "unat (w :: 'a word) div 2 ^ (LENGTH('a) - 4) < 16"
  using unat_less [of w] by (metis less_mult_imp_div_less)

lemma unat_top_nybble: "unat (top_nybble F w) = unat w div 2 ^ (LENGTH('a) - 4)"
proof -
  have m: "(0xf :: 'a word) = mask 4" by (simp add: mask_eq_exp_minus_1)
  have "top_nybble F w = take_bit 4 (drop_bit (LENGTH('a) - 4) w)"
    unfolding top_nybble_def m take_bit_eq_mask word_length(2) by simp
  then have "unat (top_nybble F w) = take_bit 4 (unat w div 2 ^ (LENGTH('a) - 4))"
    by (simp only: unsigned_take_bit_eq unat_drop_bit_eq) (simp only: drop_bit_eq_div)
  then show ?thesis using top_less [of w] by (simp add: take_bit_nat_eq_self)
qed

lemma unat_next_nybbles: "unat (push_bit 4 (w :: 'a word)) = 16 * (unat w mod 2 ^ (LENGTH('a) - 4))"
proof -
  have "unat (push_bit 4 w) = (unat w * 2 ^ 4) mod 2 ^ LENGTH('a)"
    by (simp only: unsigned_push_bit_eq) (simp only: push_bit_eq_mult take_bit_eq_mod)
  also have "unat w * 2 ^ 4 = 16 * unat w" by simp
  also have "16 * unat w mod 2 ^ LENGTH('a) = 16 * (unat w mod 2 ^ (LENGTH('a) - 4))"
    unfolding word_nybbles(3) by (rule mult_mod_right [symmetric])
  finally show ?thesis .
qed

lemma hex_digit_top: "hex_digit (top_nybble F w) = hexchar (unat w div 2 ^ (LENGTH('a) - 4))"
  by (simp add: hex_digit_def hexchar_def unat_top_nybble)

text \<open>The digits of a word with \<open>j\<close> nybbles in use at the top.\<close>

lemma write_sig_digits:
  assumes "j \<le> n" "4 * j \<le> LENGTH('a)" "2 ^ (LENGTH('a) - 4 * j) dvd unat (w :: 'a word)"
  shows "\<exists>ds. write_sig F n w = map hexchar ds \<and> length ds \<le> j \<and> (\<forall>d \<in> set ds. d < 16)
    \<and> hexval ds * 2 ^ (LENGTH('a) - 4 * length ds) = unat w \<and> (ds \<noteq> [] \<longrightarrow> last ds \<noteq> 0)"
  using assms
proof (induction j arbitrary: n w)
  case 0
  then have "unat w = 0" using unsigned_less [of w] by (metis diff_zero dvd_imp_le gr0I mult_0_right not_less)
  then have "w = 0" by (simp add: unat_eq_0)
  then have "write_sig F n w = []" by (cases n) simp_all
  then show ?case using \<open>w = 0\<close> by auto
next
  case (Suc j)
  let ?W = "LENGTH('a)"
  obtain m where n: "n = Suc m" "j \<le> m" using Suc.prems(1) by (cases n) auto
  show ?case
  proof (cases "w = 0")
    case True
    then show ?thesis using n by auto
  next
    case False
    let ?d = "unat w div 2 ^ (?W - 4)"
    have split: "2 ^ (?W - 4 * j) = 16 * (2 :: nat) ^ (?W - 4 * Suc j)" by (rule power_16) (use Suc.prems(2) in simp)
    have "2 ^ (?W - 4 * Suc j) dvd (2 :: nat) ^ (?W - 4)" by (rule le_imp_power_dvd) simp
    then have "2 ^ (?W - 4 * Suc j) dvd unat w mod 2 ^ (?W - 4)" using Suc.prems(3) by (rule dvd_mod [rotated])
    then have "2 ^ (?W - 4 * j) dvd unat (push_bit 4 w)" unfolding unat_next_nybbles split by (rule mult_dvd_mono [OF dvd_refl])
    from Suc.IH [OF n(2) _ this] Suc.prems(2) obtain ds where
      ds: "write_sig F m (push_bit 4 w) = map hexchar ds" "length ds \<le> j" "\<forall>d \<in> set ds. d < 16"
        "hexval ds * 2 ^ (?W - 4 * length ds) = unat (push_bit 4 w)" "ds \<noteq> [] \<longrightarrow> last ds \<noteq> 0" by auto
    have len: "4 * Suc (length ds) \<le> ?W" using ds(2) Suc.prems(2) by simp
    have s16: "2 ^ (?W - 4 * length ds) = 16 * (2 :: nat) ^ (?W - 4 * Suc (length ds))" by (rule power_16 [OF len])
    have rest: "hexval ds * 2 ^ (?W - 4 * Suc (length ds)) = unat w mod 2 ^ (?W - 4)"
      using ds(4) unfolding unat_next_nybbles s16 by simp
    have "16 ^ length ds * 2 ^ (?W - 4 * Suc (length ds)) = (2 :: nat) ^ (?W - 4)"
      using power_16s [of "length ds" "?W - 4"] len by simp
    then have "hexval (?d # ds) * 2 ^ (?W - 4 * length (?d # ds)) = ?d * 2 ^ (?W - 4) + unat w mod 2 ^ (?W - 4)"
      using rest by (simp add: add_mult_distrib mult.assoc)
    then have val: "hexval (?d # ds) * 2 ^ (?W - 4 * length (?d # ds)) = unat w"
      by (simp only: div_mult_mod_eq)
    have "last (?d # ds) \<noteq> 0"
    proof (cases "ds = []")
      case True
      then have "unat w mod 2 ^ (?W - 4) = 0" using rest by simp
      moreover have "unat w \<noteq> 0" using False by (simp add: unat_eq_0)
      ultimately show ?thesis using True by auto
    next
      case False
      then show ?thesis using ds(5) by simp
    qed
    then show ?thesis using val ds(1-3) top_less [of w] n False
      by (intro exI [of _ "?d # ds"]) (simp add: hex_digit_top)
  qed
qed

text \<open>
  Scanning digits after the point. A significand \<open>S\<close> with \<open>z\<close> pending zeros stands for
  \<open>S * 16 ^ z\<close>.
\<close>

definition scanning :: "'a word HexScan \<Rightarrow> nat \<Rightarrow> nat \<Rightarrow> int \<Rightarrow> bool" where
  "scanning h S z E \<longleftrightarrow> seen_dot h \<and> significand h = word_of_nat S \<and> 0 < S \<and> significand_shift h = int (4 * z)
     \<and> significand_exponent h - int (4 * z) = E"

lemma word_of_nat_nz: "0 < n \<Longrightarrow> n < 2 ^ LENGTH('a) \<Longrightarrow> (word_of_nat n :: 'a word) \<noteq> 0"
  by (simp add: word_of_nat_eq_0_iff) (metis dvd_imp_le not_less)

lemma scan_nybbles:
  assumes "\<forall>d \<in> set ds. d < 16" "scanning h S z E" "(S + 1) * 16 ^ (z + length ds) \<le> 2 ^ LENGTH('a)"
    "significand_bits h + int (4 * (z + length ds)) \<le> int p + 5"
  shows "\<exists>h' S' z'. scan_significand F (map hexchar ds @ rest) h = scan_significand F rest h'
    \<and> scanning h' S' z' (E - int (4 * length ds)) \<and> S' * 16 ^ z' = S * 16 ^ (z + length ds) + hexval ds
    \<and> (if ds = [] then z' = z else last ds \<noteq> 0 \<longrightarrow> z' = 0)"
  using assms
proof (induction ds arbitrary: h S z E)
  case Nil
  then show ?case by auto
next
  case (Cons d ds)
  have d: "d < 16" using Cons.prems(1) by simp
  have h: "seen_dot h" "significand h = word_of_nat S" "0 < S" "significand_shift h = int (4 * z)"
    "significand_exponent h = E + int (4 * z)" using Cons.prems(2) by (simp_all add: scanning_def)
  have "S + 1 \<le> (S + 1) * 16 ^ (z + length (d # ds))" by (rule le_trans [OF _ mult_le_mono2 [of 1]]) (simp, rule one_le_power, simp)
  then have S: "significand h \<noteq> 0" using h(2,3) word_of_nat_nz Cons.prems(3) by simp
  show ?case
  proof (cases "d = 0")
    case True
    let ?h = "h\<lparr>significand_shift := significand_shift h + HEX_DIGIT_BITS\<rparr>"
    have step: "scan_significand F (map hexchar (d # ds) @ rest) h = scan_significand F (map hexchar ds @ rest) ?h"
      using hexchar_ok [OF d] True by (simp add: Let_def)
    have scan: "scanning ?h S (Suc z) (E - 4)" using h by (simp add: scanning_def HEX_DIGIT_BITS_def)
    have fits: "(S + 1) * 16 ^ (Suc z + length ds) \<le> 2 ^ LENGTH('a)" "significand_bits ?h + int (4 * (Suc z + length ds)) \<le> int p + 5"
      using Cons.prems(3,4) by simp_all
    from Cons.IH [OF _ scan fits] Cons.prems(1) obtain h' S' z' where
      ih: "scan_significand F (map hexchar ds @ rest) ?h = scan_significand F rest h'"
        "scanning h' S' z' (E - 4 - int (4 * length ds))" "S' * 16 ^ z' = S * 16 ^ (Suc z + length ds) + hexval ds"
        "if ds = [] then z' = Suc z else last ds \<noteq> 0 \<longrightarrow> z' = 0" by auto
    then show ?thesis using step True
      by (intro exI [of _ h'] exI [of _ S'] exI [of _ z']) (auto simp: algebra_simps split: if_splits)
  next
    case False
    let ?S = "S * 16 ^ Suc z + d"
    let ?h = "h\<lparr>significand := push_bit (nat (significand_shift h + HEX_DIGIT_BITS)) (significand h) + ucast (word_of_nat d :: u32),
       significand_exponent := significand_exponent h - (significand_shift h + HEX_DIGIT_BITS),
       significand_shift := 0, significand_bits := significand_bits h + HEX_DIGIT_BITS\<rparr>"
    have nz: "(word_of_nat d :: u32) \<noteq> 0" using d False unfolding less_16 by auto
    have room: "significand_bits h + (significand_shift h + HEX_DIGIT_BITS) \<le> SIG_BITS F + 1 + HEX_DIGIT_BITS"
      using Cons.prems(4) h(4) by (simp add: fields HEX_DIGIT_BITS_def)
    have step: "scan_significand F (map hexchar (d # ds) @ rest) h = scan_significand F (map hexchar ds @ rest) ?h"
      using hexchar_ok [OF d] nz S h(1) room by (simp add: Let_def)
    have "(2 :: 'a word) ^ (4 * z + 4) = 16 ^ Suc z" by (simp add: power_add power_mult)
    then have "push_bit (nat (significand_shift h + HEX_DIGIT_BITS)) (significand h) = word_of_nat (S * 16 ^ Suc z)"
      unfolding h HEX_DIGIT_BITS_def push_bit_eq_mult by (simp add: nat_add_distrib nat_mult_distrib)
    moreover have "ucast (word_of_nat d :: u32) = (word_of_nat d :: 'a word)" using d unfolding less_16 by auto
    ultimately have scan: "scanning ?h ?S 0 (E - 4)" using h d False by (simp add: scanning_def HEX_DIGIT_BITS_def)
    have "1 \<le> (16 :: nat) ^ z" by (rule one_le_power) simp
    then have "d + 1 \<le> 16 ^ Suc z" using d unfolding power_Suc by linarith
    then have "?S + 1 \<le> (S + 1) * 16 ^ Suc z" by simp
    then have "(?S + 1) * 16 ^ length ds \<le> (S + 1) * 16 ^ Suc z * 16 ^ length ds" by (rule mult_right_mono) simp
    also have "\<dots> = (S + 1) * 16 ^ (z + length (d # ds))" by (simp add: power_add algebra_simps)
    finally have fits: "(?S + 1) * 16 ^ (0 + length ds) \<le> 2 ^ LENGTH('a)" using Cons.prems(3) by simp
    have "significand_bits ?h + int (4 * (0 + length ds)) \<le> int p + 5" using Cons.prems(4) by (simp add: HEX_DIGIT_BITS_def)
    from Cons.IH [OF _ scan fits this] Cons.prems(1) obtain h' S' z' where
      ih: "scan_significand F (map hexchar ds @ rest) ?h = scan_significand F rest h'"
        "scanning h' S' z' (E - 4 - int (4 * length ds))" "S' * 16 ^ z' = ?S * 16 ^ (0 + length ds) + hexval ds"
        "if ds = [] then z' = 0 else last ds \<noteq> 0 \<longrightarrow> z' = 0" by auto
    then show ?thesis using step
      by (intro exI [of _ h'] exI [of _ S'] exI [of _ z']) (auto simp: power_add algebra_simps split: if_splits)
  qed
qed

subsection \<open>The representation\<close>

definition bias :: int where
  "bias = 2 ^ (e - 1) - 1"

lemma exps: "EXP_BIAS F = bias" "MIN_EXP F = - bias" "MAX_EXP F = bias + 1"
  by (simp_all add: exponents bias_def)

lemma exp_mask: "int (mask e) = 2 * bias + 1"
proof -
  have "(2 :: int) ^ e = 2 * 2 ^ (e - 1)" using proportions(1) by (cases e) simp_all
  then show ?thesis by (simp add: of_nat_mask_eq mask_eq_exp_minus_1 bias_def)
qed

definition exp_field :: "'a word \<Rightarrow> int" where
  "exp_field bits = uint (drop_bit p bits AND mask e) - bias"

lemma exp_field_range: "- bias \<le> exp_field bits" "exp_field bits \<le> bias + 1"
proof -
  have "uint (drop_bit p bits AND mask e) \<le> mask e"
    unfolding take_bit_eq_mask [symmetric] by (simp add: unsigned_take_bit_eq take_bit_int_less_eq_mask)
  moreover have "mask e = 2 * bias + 1" using exp_mask by (simp add: of_nat_mask_eq)
  ultimately show "- bias \<le> exp_field bits" "exp_field bits \<le> bias + 1"
    using uint_ge_0 [of "drop_bit p bits AND mask e"] by (simp_all add: exp_field_def)
qed

text \<open>The three fields of a representation make it up.\<close>

lemma make_bits_fields:
  "make_bits F (drop_bit (SIGN_SHIFT F) bits \<noteq> 0) (exp_field bits) (bits AND SIG_MASK F) = Parsed bits"
proof -
  have "push_bit (e + p) (of_bool (drop_bit (e + p) bits \<noteq> 0)) OR push_bit p (drop_bit p bits AND mask e) OR (bits AND mask p) = bits"
  proof (rule bit_word_eqI)
    fix i assume i: "i < LENGTH('a)"
    have sign: "drop_bit (e + p) bits \<noteq> 0 \<longleftrightarrow> bit bits (e + p)"
    proof
      assume "drop_bit (e + p) bits \<noteq> 0"
      then obtain j where "bit bits (e + p + j)" by (auto simp: bit_eq_iff bit_simps)
      then show "bit bits (e + p)" using word_length(1) bit_imp_le_length [of bits "e + p + j"] by (cases j) auto
    next
      assume "bit bits (e + p)"
      then have "bit (drop_bit (e + p) bits) 0" by (simp add: bit_simps)
      then show "drop_bit (e + p) bits \<noteq> 0" by (metis bit_0_eq bot_apply bot_bool_def)
    qed
    show "bit (push_bit (e + p) (of_bool (drop_bit (e + p) bits \<noteq> 0)) OR push_bit p (drop_bit p bits AND mask e) OR (bits AND mask p)) i
      = bit bits i"
      using i word_length(1) unfolding sign by (cases "i = e + p") (auto simp: bit_simps)
  qed
  moreover have "word_of_int (exp_field bits + EXP_BIAS F) = drop_bit p bits AND mask e" by (simp add: exp_field_def exps)
  moreover have "bits AND mask p \<le> mask p" by (rule word_and_le1)
  ultimately show ?thesis using exp_field_range [of bits] by (simp add: make_bits_def fields exps)
qed

lemma unat_small: "n < 2 ^ LENGTH('a) \<Longrightarrow> unat (word_of_nat n :: 'a word) = n"
  by (simp add: unat_of_nat)

text \<open>A shift that loses nothing rounds nothing.\<close>

lemma shift_exact:
  assumes "0 < s" "m * 2 ^ s + 2 ^ (s - 1) < 2 ^ LENGTH('a)"
  shows "shift_and_round_to_nearest (word_of_nat (m * 2 ^ s) :: 'a word) s = word_of_nat m"
proof -
  let ?w = "word_of_nat (m * 2 ^ s) :: 'a word"
  have half: "(2 :: nat) ^ (s - 1) < 2 ^ s" using assms(1) by (intro power_strict_increasing) simp_all
  have plus: "?w + push_bit (s - 1) 1 = word_of_nat (m * 2 ^ s + 2 ^ (s - 1))" by (simp add: push_bit_eq_mult)
  have div: "(m * 2 ^ s + 2 ^ (s - 1)) div 2 ^ s = m" using half by simp
  have "unat (drop_bit s (?w + push_bit (s - 1) 1)) = m"
    unfolding plus unat_drop_bit_eq unat_small [OF assms(2)] using div by (simp add: drop_bit_eq_div)
  moreover have "unat (drop_bit s ?w) = m"
  proof -
    have "m * 2 ^ s < 2 ^ LENGTH('a)" using assms(2) by simp
    then show ?thesis unfolding unat_drop_bit_eq by (simp only: unat_small) (simp add: drop_bit_eq_div)
  qed
  ultimately have "unat (shift_and_round_to_nearest ?w s) = m" unfolding shift_and_round_to_nearest_def by (simp split: if_split)
  moreover have "m < 2 ^ LENGTH('a)"
    by (rule le_less_trans [OF _ assms(2)]) (rule trans_le_add1, simp)
  ultimately show ?thesis by (simp add: word_unat_eq_iff unat_small)
qed

subsection \<open>Encoding what was scanned\<close>

lemma bit_width_bounds:
  assumes "2 ^ k \<le> n" "n < 2 ^ Suc k"
  shows "bit_width n = Suc k"
  using assms
proof (induction k arbitrary: n)
  case 0
  then have "n = 1" by simp
  then show ?case by (simp add: bit_width.simps)
next
  case (Suc k)
  then have "bit_width (n div 2) = Suc k" by (intro Suc.IH) simp_all
  moreover have "n \<noteq> 0" using Suc.prems(1) by (intro notI) simp
  ultimately show ?case by (simp add: bit_width.simps [of n])
qed

lemma width_clz:
  assumes "2 ^ k \<le> n" "n < 2 ^ Suc k" "k < LENGTH('a)"
  shows "WORD_BITS F - clz (word_of_nat n :: 'a word) = int (Suc k)"
proof -
  have "n < 2 ^ LENGTH('a)" using assms(2,3) by (meson Suc_leI less_le_trans one_le_numeral power_increasing)
  then have "unat (word_of_nat n :: 'a word) = n" by (rule unat_small)
  then show ?thesis using bit_width_bounds [OF assms(1,2)] by (simp add: clz_def word_length(2))
qed

lemma and_mask_small: "n < 2 ^ p \<Longrightarrow> (word_of_nat n :: 'a word) AND mask p = word_of_nat n"
  by (simp add: take_bit_eq_mask [symmetric] take_bit_of_nat take_bit_nat_eq_self)

text \<open>
  A normal number: the significand \<open>S\<close> is \<open>2 ^ p + sig\<close> up to a power of two.
\<close>

lemma encode_normal:
  assumes "- bias < x" "x < bias + 1" "sig < 2 ^ p" "Suc k + 1 < LENGTH('a)"
    and val: "S * 2 ^ p = (2 ^ p + sig) * 2 ^ k"
  shows "encode_hex F neg (word_of_nat S) (int (Suc k)) x = make_bits F neg x (word_of_nat sig)"
proof -
  have small: "2 ^ p + sig < (2 :: nat) ^ LENGTH('a)"
  proof -
    have "2 ^ p + sig < (2 :: nat) ^ Suc p" using assms(3) by simp
    also have "\<dots> \<le> 2 ^ LENGTH('a)" using word_length(1) proportions(1) by (intro power_increasing) simp_all
    finally show ?thesis .
  qed
  have msk: "word_of_nat (2 ^ p + sig) AND mask p = (word_of_nat sig :: 'a word)"
  proof -
    have "take_bit p (2 ^ p + sig) = sig" using assms(3) by (simp add: take_bit_eq_mod)
    then show ?thesis unfolding take_bit_eq_mask [symmetric] take_bit_of_nat by simp
  qed
  consider "k < p" | "k = p" | "p < k" by linarith
  then show ?thesis
  proof cases
    case 1
    then have "2 ^ p = 2 ^ (p - k) * (2 :: nat) ^ k" by (simp flip: power_add)
    then have S: "S * 2 ^ (p - k) = 2 ^ p + sig" using val by (metis mult.assoc mult_cancel2 power_eq_0_iff zero_neq_numeral)
    have "push_bit (p - k) (word_of_nat S :: 'a word) = word_of_nat (S * 2 ^ (p - k))" by (simp add: push_bit_eq_mult)
    then show ?thesis using 1 assms(1,2) msk unfolding S
      by (simp add: encode_hex_def exps fields nat_diff_distrib del: of_nat_add)
  next
    case 2
    then have "S = 2 ^ p + sig" using val by simp
    then show ?thesis using 2 assms(1,2) msk by (simp add: encode_hex_def exps fields del: of_nat_add)
  next
    case 3
    then have "2 ^ k = 2 ^ (k - p) * (2 :: nat) ^ p" by (simp flip: power_add)
    then have S: "S = (2 ^ p + sig) * 2 ^ (k - p)" using val by (metis mult.assoc mult_cancel2 power_eq_0_iff zero_neq_numeral)
    have "shift_and_round_to_nearest (word_of_nat S :: 'a word) (k - p) = word_of_nat (2 ^ p + sig)" unfolding S
    proof (rule shift_exact)
      have "(2 ^ p + sig) * 2 ^ (k - p) + 2 ^ (k - p - 1) < 2 ^ Suc p * 2 ^ (k - p) + (2 :: nat) ^ (k - p)"
        using assms(3) 3 by (intro add_strict_mono mult_strict_right_mono power_strict_increasing) simp_all
      also have "\<dots> \<le> 2 ^ Suc k + 2 ^ Suc k" using 3
        by (intro add_mono) (simp flip: power_add, rule power_increasing, simp_all)
      also have "\<dots> \<le> 2 ^ LENGTH('a)" using power_increasing [of "Suc (Suc k)" "LENGTH('a)" "2 :: nat"] assms(4) by simp
      finally show "(2 ^ p + sig) * 2 ^ (k - p) + 2 ^ (k - p - 1) < 2 ^ LENGTH('a)" .
    qed (use 3 in simp)
    moreover have "\<not> (word_of_nat (2 ^ p + sig) :: 'a word) > mask (Suc p)"
    proof -
      have "take_bit (Suc p) (2 ^ p + sig) = 2 ^ p + sig" using assms(3) by (intro take_bit_nat_eq_self) simp
      then have "(word_of_nat (2 ^ p + sig) :: 'a word) AND mask (Suc p) = word_of_nat (2 ^ p + sig)"
        unfolding take_bit_eq_mask [symmetric] take_bit_of_nat by simp
      then show ?thesis by (metis not_less word_and_le1)
    qed
    ultimately show ?thesis using 3 assms(1,2) msk
      by (simp add: encode_hex_def exps fields nat_diff_distrib Let_def del: of_nat_add)
  qed
qed

text \<open>
  A subnormal number, with \<open>lz\<close> zeros before its first bit: \<open>S\<close> is \<open>sig * 2 ^ (lz + 1)\<close> up to a power of two.
\<close>

lemma encode_subnormal:
  assumes "0 < sig" "2 ^ (p - 1 - lz) \<le> sig" "sig < 2 ^ (p - lz)" "lz < p" "Suc k + 1 < LENGTH('a)"
    and val: "S * 2 ^ p = sig * 2 ^ (lz + 1) * 2 ^ k"
  shows "encode_hex F neg (word_of_nat S) (int (Suc k)) (- bias - int lz) = make_bits F neg (- bias) (word_of_nat sig)"
proof -
  have sig_p: "sig * 2 ^ lz < 2 ^ p"
  proof -
    have "sig * 2 ^ lz < 2 ^ (p - lz) * 2 ^ lz" using assms(3) by simp
    then show ?thesis using assms(4) by (simp flip: power_add)
  qed
  have len: "Suc p < LENGTH('a)" using word_length(1) proportions(1) by simp
  have room: "(2 :: nat) ^ Suc p \<le> 2 ^ LENGTH('a)" using len by (intro power_increasing) simp_all
  have p: "2 ^ p = 2 * (2 :: nat) ^ (p - 1)" using proportions(2) by (cases p) simp_all
  have S: "S * 2 ^ (p - 1) = sig * 2 ^ lz * 2 ^ k" using val unfolding p by simp
  let ?norm = "if int (Suc k) > int p then shift_and_round_to_nearest (word_of_nat S) (nat (int (Suc k) - int p))
     else if int (Suc k) < int p then push_bit (nat (int p - int (Suc k))) (word_of_nat S) else (word_of_nat S :: 'a word)"
  have norm: "?norm = word_of_nat (sig * 2 ^ lz)"
  proof -
    consider "Suc k < p" | "Suc k = p" | "p < Suc k" by linarith
    then show ?thesis
    proof cases
      case 1
      then have "2 ^ (p - 1) = 2 ^ (p - Suc k) * (2 :: nat) ^ k" by (simp flip: power_add)
      then have "S * 2 ^ (p - Suc k) = sig * 2 ^ lz" using S by (metis mult.assoc mult_cancel2 power_eq_0_iff zero_neq_numeral)
      moreover have "push_bit (p - Suc k) (word_of_nat S :: 'a word) = word_of_nat (S * 2 ^ (p - Suc k))" by (simp add: push_bit_eq_mult)
      ultimately have "push_bit (p - Suc k) (word_of_nat S :: 'a word) = word_of_nat (sig * 2 ^ lz)" by (simp only:)
      moreover have "nat (int p - int (Suc k)) = p - Suc k" by simp
      moreover have "\<not> int p < int (Suc k)" "int (Suc k) < int p" using 1 by linarith+
      ultimately show ?thesis by (simp only: if_True if_False simp_thms)
    next
      case 2
      then have "S = sig * 2 ^ lz" using S by auto
      then show ?thesis using 2 by simp
    next
      case 3
      then have "2 ^ k = 2 ^ (Suc k - p) * (2 :: nat) ^ (p - 1)" using proportions(2) by (simp flip: power_add)
      then have S': "S = sig * 2 ^ lz * 2 ^ (Suc k - p)" using S by (metis mult.assoc mult_cancel2 power_eq_0_iff zero_neq_numeral)
      have "shift_and_round_to_nearest (word_of_nat S :: 'a word) (Suc k - p) = word_of_nat (sig * 2 ^ lz)" unfolding S'
      proof (rule shift_exact)
        have "sig * 2 ^ lz * 2 ^ (Suc k - p) + 2 ^ (Suc k - p - 1) < 2 ^ p * 2 ^ (Suc k - p) + (2 :: nat) ^ (Suc k - p)"
          using sig_p 3 by (intro add_strict_mono mult_strict_right_mono power_strict_increasing) simp_all
        also have "\<dots> \<le> 2 ^ Suc k + 2 ^ Suc k" using 3
          by (intro add_mono) (simp flip: power_add, rule power_increasing, simp_all)
        also have "\<dots> \<le> 2 ^ LENGTH('a)" using power_increasing [of "Suc (Suc k)" "LENGTH('a)" "2 :: nat"] assms(5) by simp
        finally show "sig * 2 ^ lz * 2 ^ (Suc k - p) + 2 ^ (Suc k - p - 1) < 2 ^ LENGTH('a)" .
      qed (use 3 in simp)
      moreover have "nat (int (Suc k) - int p) = Suc k - p" "int p < int (Suc k)" using 3 by linarith+
      ultimately show ?thesis by (simp only: if_True simp_thms)
    qed
  qed
  have shifted: "(if int lz \<noteq> 0 then shift_and_round_to_nearest (word_of_nat (sig * 2 ^ lz)) (nat (int lz)) AND mask p
      else word_of_nat (sig * 2 ^ lz)) = (word_of_nat sig :: 'a word)"
  proof (cases "lz = 0")
    case False
    have "(2 :: nat) ^ (lz - 1) \<le> 2 ^ p" using assms(4) by (intro power_increasing) simp_all
    then have "sig * 2 ^ lz + 2 ^ (lz - 1) < 2 ^ Suc p" using sig_p unfolding power_Suc by linarith
    then have "sig * 2 ^ lz + 2 ^ (lz - 1) < 2 ^ LENGTH('a)" using room by linarith
    then have "shift_and_round_to_nearest (word_of_nat (sig * 2 ^ lz)) lz = (word_of_nat sig :: 'a word)"
      using False by (intro shift_exact) simp_all
    moreover have "sig < 2 ^ p" using sig_p by (rule le_less_trans [rotated]) simp
    ultimately show ?thesis using False and_mask_small by simp
  qed simp
  have nz: "(word_of_nat sig :: 'a word) \<noteq> 0"
  proof (rule word_of_nat_nz [OF assms(1)])
    have "sig < 2 ^ p" using sig_p by (rule le_less_trans [rotated]) simp
    then show "sig < 2 ^ LENGTH('a)" using room by simp
  qed
  have "bias > 0" using proportions(1) power_increasing [of 7 "e - 1" "2 :: int"] by (simp add: bias_def)
  moreover have "shift_and_round_to_nearest (word_of_nat sig * 2 ^ lz) lz AND mask p = (word_of_nat sig :: 'a word)" if "lz \<noteq> 0"
    using shifted that by simp
  ultimately show ?thesis using assms(4) nz unfolding encode_hex_def exps fields
    by (cases "lz = 0") (simp_all add: norm [simplified] Let_def)
qed

end

subsection \<open>Reading what was written\<close>

text \<open>The exponent is written in decimal, and is read whole although the reader may stop early.\<close>

locale float_text = float_format F p e for F :: "'a :: len word FloatFormat" and p e +
  fixes write_exp :: "int \<Rightarrow> byte list"
  assumes scan_exp: "0 \<le> x \<Longrightarrow> x \<le> 2 ^ (e - 1) + int p \<Longrightarrow> x div 10 + add < limit \<Longrightarrow>
      scan_exponent limit add (write_exp x) 0 = Some x"
    and margin: "(2 ^ (e - 1) + int p) div 10 + int p + 1 < 2 ^ (e - 1)"
begin

abbreviation signed_exp :: "int \<Rightarrow> byte list" where
  "signed_exp x \<equiv> (if x < 0 then cstr ''-'' @ write_exp (- x) else cstr ''+'' @ write_exp x)"

definition sign_text :: "bool \<Rightarrow> byte list" where
  "sign_text neg = (if neg then cstr ''-'' else [])"

lemma skip_sign_text: "c \<noteq> chr CHR ''-'' \<Longrightarrow> c \<noteq> chr CHR ''+'' \<Longrightarrow> skip_sign (sign_text neg @ c # cs) = Some (neg, c # cs)"
  by (cases neg) (simp_all add: skip_sign_def take_sign_def sign_text_def cstr_def)

lemma starts_with_append: "string_starts_with (ps @ cs) ps"
  by (induction ps) (auto elim: string_starts_with.elims)

lemma parse_scanned:
  assumes "scan_significand F body
      \<lparr>seen_dot = False, significand = 0, significand_shift = 0, significand_bits = 0, significand_exponent = 0\<rparr> = (chr CHR ''p'' # s, h)"
  shows "parse_hex F (sign_text neg @ cstr ''0x'' @ body) =
    (if significand h = 0 then make_bits F neg (MIN_EXP F) 0
     else read_exponent F neg (significand h)
       (if \<not> seen_dot h then significand_exponent h + significand_shift h else significand_exponent h) s)"
proof -
  have "skip_sign (sign_text neg @ cstr ''0x'' @ body) = Some (neg, cstr ''0x'' @ body)"
    using skip_sign_text [of "chr CHR ''0''" neg "chr CHR ''x'' # body"] by (simp add: cstr_def)
  moreover have "drop 2 (cstr ''0x'' @ body) = body" by (simp add: cstr_def)
  ultimately show ?thesis using assms starts_with_append [of "cstr ''0x''" body] by (simp add: parse_hex_def)
qed

lemma exp_bound:
  assumes "- (bias + int p) \<le> x" "x \<le> bias" "4 * k \<le> Suc p"
  shows "(if x < 0 then scan_exponent (MAX_EXP F) (int (4 * k)) (write_exp (- x)) 0 = Some (- x)
          else scan_exponent (MAX_EXP F) (- int (4 * k)) (write_exp x) 0 = Some x)"
proof -
  have "y div 10 + int (4 * k) < MAX_EXP F" if "y \<le> 2 ^ (e - 1) + int p" for y
    using zdiv_mono1 [OF that, of 10] margin assms(3) by (simp add: exponents)
  moreover have "y div 10 - int (4 * k) < MAX_EXP F" if "y \<le> 2 ^ (e - 1) + int p" for y
    using zdiv_mono1 [OF that, of 10] margin assms(3) by (simp add: exponents)
  ultimately show ?thesis using assms(1,2) scan_exp [of "- x"] scan_exp [of x] by (simp add: bias_def)
qed

text \<open>A number with a leading one and hexadecimal digits \<open>ds\<close> after the point.\<close>

lemma parse_number:
  assumes ds: "\<forall>d \<in> set ds. d < 16" "ds \<noteq> [] \<longrightarrow> last ds \<noteq> 0" "4 * length ds \<le> Suc p" "\<not> dot \<longrightarrow> ds = []"
    and x: "- (bias + int p) \<le> x" "x \<le> bias"
  shows "parse_hex F (sign_text neg @ cstr ''0x'' @ cstr ''1'' @ (if dot then cstr ''.'' @ map hexchar ds else []) @ cstr ''p'' @ signed_exp x)
    = encode_hex F neg (word_of_nat (16 ^ length ds + hexval ds)) (int (Suc (4 * length ds))) x"
proof -
  let ?k = "length ds" and ?S = "16 ^ length ds + hexval ds"
  let ?rest = "cstr ''p'' @ signed_exp x"
  define h0 :: "'a word HexScan" where
    "h0 = \<lparr>seen_dot = False, significand = 0, significand_shift = 0, significand_bits = 0, significand_exponent = 0\<rparr>"
  define h1 :: "'a word HexScan" where
    "h1 = \<lparr>seen_dot = False, significand = 1, significand_shift = 0, significand_bits = 4, significand_exponent = 0\<rparr>"
  have stop: "scan_significand F ?rest h = (?rest, h)" for h
    by (simp add: cstr_def wasm_parse_hexdigit_def char_distance_def)
  have one: "scan_significand F (cstr ''1'' @ cs) h0 = scan_significand F cs h1" for cs
    by (simp add: cstr_def wasm_parse_hexdigit_def char_distance_def Let_def h0_def h1_def HEX_DIGIT_BITS_def fields)
  have dotted: "scan_significand F (cstr ''.'' @ cs) h1 = scan_significand F cs (h1\<lparr>seen_dot := True\<rparr>)" for cs
    by (simp add: cstr_def h1_def)
  have len: "4 * ?k + 2 < LENGTH('a)" using ds(3) word_length(1) proportions(1) by simp
  obtain h where h: "scan_significand F (cstr ''1'' @ (if dot then cstr ''.'' @ map hexchar ds else []) @ ?rest) h0 = (?rest, h)"
    "significand h = word_of_nat ?S"
    "(if \<not> seen_dot h then significand_exponent h + significand_shift h else significand_exponent h) = - int (4 * ?k)"
  proof (cases dot)
    case False
    then have "ds = []" using ds(4) by simp
    then show ?thesis using that [of h1] False one stop by (simp add: h1_def)
  next
    case True
    have "scanning (h1\<lparr>seen_dot := True\<rparr>) 1 0 0" by (simp add: scanning_def h1_def)
    moreover have "(1 + 1) * 16 ^ (0 + ?k) \<le> (2 :: nat) ^ LENGTH('a)"
      using power_increasing [of "Suc (4 * ?k)" "LENGTH('a)" "2 :: nat"] len by (simp add: power_mult)
    moreover have "significand_bits (h1\<lparr>seen_dot := True\<rparr>) + int (4 * (0 + ?k)) \<le> int p + 5" using ds(3) by (simp add: h1_def)
    ultimately obtain h' S' z' where
      h': "scan_significand F (map hexchar ds @ ?rest) (h1\<lparr>seen_dot := True\<rparr>) = scan_significand F ?rest h'"
        "scanning h' S' z' (0 - int (4 * ?k))" "S' * 16 ^ z' = 1 * 16 ^ (0 + ?k) + hexval ds"
        "if ds = [] then z' = 0 else last ds \<noteq> 0 \<longrightarrow> z' = 0"
      using scan_nybbles [OF ds(1), of "h1\<lparr>seen_dot := True\<rparr>" 1 0 0 ?rest] by blast
    have "z' = 0" using h'(4) ds(2) by (simp split: if_splits)
    then show ?thesis using that [of h'] h'(1-3) True one dotted stop by (auto simp: scanning_def)
  qed
  have S: "2 ^ (4 * ?k) \<le> ?S" "?S < 2 ^ Suc (4 * ?k)" using hexval_less [OF ds(1)] by (simp_all add: power_mult)
  have width: "WORD_BITS F - clz (word_of_nat ?S :: 'a word) = int (Suc (4 * ?k))"
    by (rule width_clz [OF S]) (use len in simp)
  have nz: "(word_of_nat ?S :: 'a word) \<noteq> 0"
  proof (rule word_of_nat_nz)
    have "(2 :: nat) ^ Suc (4 * ?k) \<le> 2 ^ LENGTH('a)" using len by (intro power_increasing) simp_all
    then show "?S < 2 ^ LENGTH('a)" using S(2) by simp
  qed simp
  have parse: "parse_hex F (sign_text neg @ cstr ''0x'' @ cstr ''1'' @ (if dot then cstr ''.'' @ map hexchar ds else []) @ ?rest) =
    read_exponent F neg (word_of_nat ?S) (- int (4 * ?k)) (signed_exp x)"
    using parse_scanned [of _ "signed_exp x" h neg] h nz unfolding h0_def by (simp add: cstr_def)
  show ?thesis unfolding parse
    using exp_bound [OF x ds(3)] width by (auto simp: read_exponent_def cstr_def Let_def split: if_splits)
qed

lemma cancel_scale:
  assumes "a * 2 ^ (LENGTH('a) - 4 * k) = b * 2 ^ (LENGTH('a) - p)" "4 * k \<le> LENGTH('a)"
  shows "a * 2 ^ p = b * (2 :: nat) ^ (4 * k)"
proof -
  have W: "2 ^ (LENGTH('a) - 4 * k) * 2 ^ (4 * k) = (2 :: nat) ^ LENGTH('a)" using assms(2) by (simp flip: power_add)
  have P: "2 ^ p * 2 ^ (LENGTH('a) - p) = (2 :: nat) ^ LENGTH('a)" using word_length(1) by (simp flip: power_add)
  have "a * 2 ^ p * 2 ^ (LENGTH('a) - p) = a * 2 ^ LENGTH('a)" by (simp only: mult.assoc P)
  also have "\<dots> = b * 2 ^ (LENGTH('a) - p) * 2 ^ (4 * k)" by (simp only: W [symmetric] assms(1) mult.assoc [symmetric])
  also have "\<dots> = b * 2 ^ (4 * k) * 2 ^ (LENGTH('a) - p)" by (simp only: mult.assoc mult.commute mult.left_commute)
  finally show ?thesis by simp
qed

text \<open>The digits of a word whose top \<open>p\<close> bits are in use.\<close>

lemma top_digits:
  assumes "2 ^ (LENGTH('a) - p) dvd unat (w :: 'a word)"
  obtains ds where "write_sig F (nat (WORD_BITS F) div 4) w = map hexchar ds" "\<forall>d \<in> set ds. d < 16" "ds \<noteq> [] \<longrightarrow> last ds \<noteq> 0"
    "4 * length ds \<le> Suc p" "hexval ds * 2 ^ (LENGTH('a) - 4 * length ds) = unat w"
proof -
  define j where "j = (p + 3) div 4"
  have j: "p \<le> 4 * j" "4 * j \<le> Suc p" unfolding j_def using proportions(3) by presburger+
  have len: "4 * j \<le> LENGTH('a)" using j word_length(1) proportions(1) by simp
  have "j \<le> nat (WORD_BITS F) div 4" using len word_length(2) by simp
  moreover have "2 ^ (LENGTH('a) - 4 * j) dvd unat w"
    by (rule dvd_trans [OF le_imp_power_dvd assms]) (use j in simp)
  ultimately show ?thesis using write_sig_digits [of j "nat (WORD_BITS F) div 4" w] len j(2) that by fastforce
qed

lemma sig_word:
  fixes sig :: "'a word"
  assumes "unat sig < 2 ^ p"
  shows "unat (push_bit (LENGTH('a) - p) sig) = unat sig * 2 ^ (LENGTH('a) - p)"
proof -
  have "unat sig * 2 ^ (LENGTH('a) - p) < 2 ^ p * 2 ^ (LENGTH('a) - p)" using assms by simp
  also have "\<dots> = 2 ^ LENGTH('a)" using word_length(1) by (simp flip: power_add)
  finally show ?thesis
    by (simp only: unsigned_push_bit_eq) (simp add: push_bit_eq_mult take_bit_nat_eq_self)
qed

lemma width_minus: "nat (WORD_BITS F - SIG_BITS F) = LENGTH('a) - p"
  using word_length by (simp add: fields nat_diff_distrib)

lemma write_exp_range: "0 < bias" "int p \<le> bias"
proof -
  have "0 \<le> (2 ^ (e - 1) + int p) div 10" by (simp add: pos_imp_zdiv_nonneg_iff)
  then show "int p \<le> bias" using margin unfolding bias_def by linarith
  then show "0 < bias" using proportions(2) by simp
qed

lemma normal_round:
  fixes sig :: "'a word"
  assumes "unat sig < 2 ^ p" "- bias < x" "x \<le> bias"
  shows "parse_hex F (sign_text neg @ write_hex_number F write_exp x sig) = make_bits F neg x sig"
proof -
  have x: "- (bias + int p) \<le> x" "x \<noteq> - bias" using assms(2) by simp_all
  have small: "4 * k \<le> Suc p \<Longrightarrow> Suc (4 * k) + 1 < LENGTH('a)" for k using word_length(1) proportions(1) by simp
  show ?thesis
  proof (cases "sig = 0")
    case True
    have "parse_hex F (sign_text neg @ write_hex_number F write_exp x sig) = encode_hex F neg (word_of_nat 1) (int (Suc 0)) x"
      using parse_number [of "[]" False x neg] x assms(3) True by (simp add: write_hex_number_def write_fraction_def exps)
    also have "\<dots> = make_bits F neg x (word_of_nat 0)"
      by (rule encode_normal) (use assms(2,3) small [of 0] in simp_all)
    finally show ?thesis using True by simp
  next
    case False
    let ?w = "push_bit (LENGTH('a) - p) sig"
    have w: "unat ?w = unat sig * 2 ^ (LENGTH('a) - p)" by (rule sig_word [OF assms(1)])
    have nz: "?w \<noteq> 0" using w False by (metis mult_is_0 power_not_zero unat_eq_0 zero_neq_numeral)
    obtain ds where ds: "write_sig F (nat (WORD_BITS F) div 4) ?w = map hexchar ds" "\<forall>d \<in> set ds. d < 16" "ds \<noteq> [] \<longrightarrow> last ds \<noteq> 0"
      "4 * length ds \<le> Suc p" "hexval ds * 2 ^ (LENGTH('a) - 4 * length ds) = unat ?w" using top_digits [of ?w] w by auto
    have "hexval ds * 2 ^ p = unat sig * 2 ^ (4 * length ds)"
      by (rule cancel_scale) (use ds(4,5) w small [OF ds(4)] in simp_all)
    then have val: "(16 ^ length ds + hexval ds) * 2 ^ p = (2 ^ p + unat sig) * 2 ^ (4 * length ds)"
      by (simp add: add_mult_distrib power_mult)
    have "write_hex_number F write_exp x sig = cstr ''0x'' @ cstr ''1'' @ (cstr ''.'' @ map hexchar ds) @ cstr ''p'' @ signed_exp x"
      using x False nz ds(1) by (simp add: write_hex_number_def write_fraction_def width_minus exps Let_def)
    then have "parse_hex F (sign_text neg @ write_hex_number F write_exp x sig) =
      encode_hex F neg (word_of_nat (16 ^ length ds + hexval ds)) (int (Suc (4 * length ds))) x"
      using parse_number [OF ds(2-4), of True x neg] x assms(3) by simp
    also have "\<dots> = make_bits F neg x (word_of_nat (unat sig))"
      by (rule encode_normal [OF assms(2) _ assms(1) small [OF ds(4)] val]) (use assms(3) in simp)
    finally show ?thesis by simp
  qed
qed

lemma bit_width_ge: "0 < n \<Longrightarrow> 2 ^ (bit_width n - 1) \<le> n \<and> n < 2 ^ bit_width n \<and> 0 < bit_width n"
proof (induction n rule: bit_width.induct)
  case (1 n)
  show ?case
  proof (cases "n = 1")
    case False
    then have h: "2 ^ (bit_width (n div 2) - 1) \<le> n div 2" "n div 2 < 2 ^ bit_width (n div 2)" "0 < bit_width (n div 2)"
      using 1 by auto
    have w: "bit_width n = Suc (bit_width (n div 2))" using 1(2) by (simp add: bit_width.simps [of n])
    have "2 ^ bit_width (n div 2) = 2 * (2 :: nat) ^ (bit_width (n div 2) - 1)" using h(3) by (cases "bit_width (n div 2)") simp_all
    then show ?thesis using h w by simp linarith
  qed (simp add: bit_width.simps)
qed

lemma subnormal_round:
  fixes sig :: "'a word"
  assumes "unat sig < 2 ^ p" "sig \<noteq> 0"
  shows "parse_hex F (sign_text neg @ write_hex_number F write_exp (- bias) sig) = make_bits F neg (- bias) sig"
proof -
  let ?W = "LENGTH('a)" and ?s = "unat sig" and ?w = "push_bit (LENGTH('a) - p) sig"
  have pos: "0 < ?s" using assms(2) by (simp add: unat_gt_0)
  define b where "b = bit_width ?s"
  have b: "2 ^ (b - 1) \<le> ?s" "?s < 2 ^ b" "0 < b" using bit_width_ge [OF pos] by (simp_all add: b_def)
  have "(2 :: nat) ^ (b - 1) < 2 ^ p" using b(1) assms(1) by linarith
  then have bp: "b \<le> p" by (simp add: power_strict_increasing_iff)
  define lz where "lz = p - b"
  have lz: "lz < p" "p - 1 - lz = b - 1" "p - lz = b" using b(3) bp by (simp_all add: lz_def)
  have Wp: "p + 9 \<le> ?W" using word_length(1) proportions(1) by simp
  have w: "unat ?w = ?s * 2 ^ (?W - p)" by (rule sig_word [OF assms(1)])
  have nz: "?w \<noteq> 0" using w pos by (metis mult_is_0 nat_less_le power_not_zero unsigned_0 zero_neq_numeral)
  have clz: "clz ?w = int lz"
  proof -
    have pw: "2 ^ (b - 1 + (?W - p)) = (2 :: nat) ^ (b - 1) * 2 ^ (?W - p)" "2 ^ Suc (b - 1 + (?W - p)) = (2 :: nat) ^ b * 2 ^ (?W - p)"
      using b(3) by (simp only: power_add, cases b) (simp_all add: power_add)
    have "2 ^ (b - 1 + (?W - p)) \<le> unat ?w" "unat ?w < 2 ^ Suc (b - 1 + (?W - p))" unfolding pw w using b by simp_all
    then have "bit_width (unat ?w) = Suc (b - 1 + (?W - p))" by (rule bit_width_bounds)
    then show ?thesis using b(3) bp Wp by (simp add: clz_def lz_def)
  qed
  let ?v = "push_bit (lz + 1) ?w"
  have high: "2 ^ p \<le> ?s * 2 ^ (lz + 1)" "?s * 2 ^ (lz + 1) < 2 * 2 ^ p"
  proof -
    have "2 ^ (b - 1) * 2 ^ (lz + 1) = (2 :: nat) ^ p" "2 ^ b * 2 ^ (lz + 1) = 2 * (2 :: nat) ^ p"
      using b(3) bp by (simp_all add: lz_def flip: power_add power_Suc)
    moreover have "?s * 2 ^ (lz + 1) < 2 ^ b * 2 ^ (lz + 1)" by (rule mult_less_mono1 [OF b(2)]) simp
    ultimately show "2 ^ p \<le> ?s * 2 ^ (lz + 1)" "?s * 2 ^ (lz + 1) < 2 * 2 ^ p"
      using mult_le_mono1 [OF b(1), of "2 ^ (lz + 1)"] by (simp_all only:)
  qed
  have W: "2 ^ ?W = 2 ^ p * (2 :: nat) ^ (?W - p)" using Wp by (simp flip: power_add)
  have v: "unat ?v = (?s * 2 ^ (lz + 1) - 2 ^ p) * 2 ^ (?W - p)"
  proof -
    have "unat ?v = (?s * 2 ^ (?W - p) * 2 ^ (lz + 1)) mod 2 ^ ?W"
      by (simp only: unsigned_push_bit_eq [of "lz + 1"] w) (simp only: push_bit_eq_mult take_bit_eq_mod)
    also have "\<dots> = (?s * 2 ^ (lz + 1)) * 2 ^ (?W - p) mod (2 ^ p * 2 ^ (?W - p))" by (simp only: W mult.assoc mult.commute mult.left_commute)
    also have "\<dots> = (?s * 2 ^ (lz + 1)) mod 2 ^ p * 2 ^ (?W - p)" by (rule mult_mod_left [symmetric])
    also have "(?s * 2 ^ (lz + 1)) mod 2 ^ p = ?s * 2 ^ (lz + 1) - 2 ^ p"
      using high by (simp only: mod_if [of "?s * 2 ^ (lz + 1)" "2 ^ p"]) (simp add: mod_if)
    finally show ?thesis .
  qed
  obtain ds where ds: "write_sig F (nat (WORD_BITS F) div 4) ?v = map hexchar ds" "\<forall>d \<in> set ds. d < 16" "ds \<noteq> [] \<longrightarrow> last ds \<noteq> 0"
    "4 * length ds \<le> Suc p" "hexval ds * 2 ^ (?W - 4 * length ds) = unat ?v" using top_digits [of ?v] v by auto
  have len: "4 * length ds \<le> ?W" "Suc (4 * length ds) + 1 < ?W" using ds(4) Wp by simp_all
  have "hexval ds * 2 ^ p = (?s * 2 ^ (lz + 1) - 2 ^ p) * 2 ^ (4 * length ds)"
    by (rule cancel_scale) (use ds(5) v len in simp_all)
  then have val: "(16 ^ length ds + hexval ds) * 2 ^ p = ?s * 2 ^ (lz + 1) * 2 ^ (4 * length ds)"
    using high(1) by (simp add: add_mult_distrib diff_mult_distrib power_mult)
  have x: "- (bias + int p) \<le> - bias - int lz" "- bias - int lz \<le> bias" using lz(1) write_exp_range by simp_all
  have shift: "nat (int lz + 1) = lz + 1" "int lz < WORD_BITS F - 1" using lz(1) Wp word_length(2) by simp_all
  have "write_hex_number F write_exp (- bias) sig =
      cstr ''0x'' @ cstr ''1'' @ (cstr ''.'' @ map hexchar ds) @ cstr ''p'' @ signed_exp (- bias - int lz)"
    using assms(2) nz ds(1) clz shift by (simp add: write_hex_number_def write_fraction_def width_minus exps Let_def del: push_bit_push_bit push_bit_Suc)
  then have "parse_hex F (sign_text neg @ write_hex_number F write_exp (- bias) sig) =
      encode_hex F neg (word_of_nat (16 ^ length ds + hexval ds)) (int (Suc (4 * length ds))) (- bias - int lz)"
    using parse_number [OF ds(2-4) _ x, where dot = True and neg = neg] by (simp only: simp_thms if_True not_True_eq_False)
  also have "\<dots> = make_bits F neg (- bias) (word_of_nat ?s)"
    by (rule encode_subnormal [OF pos _ _ lz(1) len(2) val]) (use b lz in simp_all)
  finally show ?thesis by simp
qed

lemma zero_round: "parse_hex F (sign_text neg @ write_hex_number F write_exp (- bias) 0) = make_bits F neg (- bias) 0"
proof -
  let ?h = "\<lparr>seen_dot = False, significand = 0, significand_shift = 4, significand_bits = 0, significand_exponent = 0\<rparr> :: 'a word HexScan"
  have "scan_significand F (cstr ''0p+0'')
      \<lparr>seen_dot = False, significand = 0, significand_shift = 0, significand_bits = 0, significand_exponent = 0\<rparr>
    = (chr CHR ''p'' # cstr ''+0'', ?h)"
    by (simp add: cstr_def wasm_parse_hexdigit_def char_distance_def HEX_DIGIT_BITS_def)
  then have "parse_hex F (sign_text neg @ cstr ''0x'' @ cstr ''0p+0'') = make_bits F neg (MIN_EXP F) 0"
    by (simp only: parse_scanned) simp
  moreover have "write_hex_number F write_exp (- bias) 0 = cstr ''0x'' @ cstr ''0p+0''"
    by (simp add: write_hex_number_def write_fraction_def exps cstr_def)
  ultimately show ?thesis by (simp add: exps)
qed

text \<open>The payload of a NaN.\<close>

lemma nan_tag_digits:
  assumes "\<forall>d \<in> set ds. d < 16" "acc * 16 ^ length ds + hexval ds < 2 ^ p" "0 < acc * 16 ^ length ds + hexval ds"
  shows "parse_nan_tag F (map hexchar ds) (word_of_nat acc) = Parsed (word_of_nat (acc * 16 ^ length ds + hexval ds))"
  using assms
proof (induction ds arbitrary: acc)
  case Nil
  have "(2 :: nat) ^ p < 2 ^ LENGTH('a)" using word_length(1) by (intro power_strict_increasing) simp_all
  then have "(word_of_nat acc :: 'a word) \<noteq> 0" using Nil.prems(2,3) by (intro word_of_nat_nz) (simp, simp only: list.size power_0 hexval.simps)
  then show ?case by simp
next
  case (Cons d ds)
  have d: "d < 16" using Cons.prems(1) by simp
  have val: "acc * 16 ^ length (d # ds) + hexval (d # ds) = (acc * 16 + d) * 16 ^ length ds + hexval ds" by (simp add: algebra_simps)
  have "acc * 16 + d \<le> (acc * 16 + d) * 16 ^ length ds" by simp
  then have "acc * 16 + d < 2 ^ p" using Cons.prems(2) val by linarith
  then have "(word_of_nat (acc * 16 + d) :: 'a word) AND mask p = word_of_nat (acc * 16 + d)" by (rule and_mask_small)
  then have le: "\<not> (word_of_nat (acc * 16 + d) :: 'a word) > mask p" by (metis not_less word_and_le1)
  have "ucast (word_of_nat d :: u32) = (word_of_nat d :: 'a word)" using d unfolding less_16 by auto
  then have step: "word_of_nat acc * 16 + ucast (word_of_nat d :: u32) = (word_of_nat (acc * 16 + d) :: 'a word)" by simp
  have "parse_nan_tag F (map hexchar (d # ds)) (word_of_nat acc) = parse_nan_tag F (map hexchar ds) (word_of_nat (acc * 16 + d))"
    using hexchar_ok(1) [OF d] le by (simp only: list.map parse_nan_tag.simps option.case Let_def step fields if_False)
  moreover have "parse_nan_tag F (map hexchar ds) (word_of_nat (acc * 16 + d)) =
      Parsed (word_of_nat ((acc * 16 + d) * 16 ^ length ds + hexval ds))"
    by (rule Cons.IH [OF _ Cons.prems(2,3) [unfolded val]]) (use Cons.prems(1) in simp)
  ultimately show ?case unfolding val by (simp only:)
qed

lemma write_nybbles_digits:
  assumes "4 * n \<le> LENGTH('a)"
  shows "\<exists>ds. write_nybbles F n w = map hexchar ds \<and> length ds = n \<and> (\<forall>d \<in> set ds. d < 16)
    \<and> hexval ds = unat w div 2 ^ (LENGTH('a) - 4 * n)"
  using assms
proof (induction n arbitrary: w)
  case 0
  have "unat w < 2 ^ LENGTH('a)" by (rule unsigned_less)
  then show ?case by simp
next
  case (Suc n)
  let ?W = "LENGTH('a)" and ?d = "unat w div 2 ^ (LENGTH('a) - 4)" and ?r = "unat w mod 2 ^ (LENGTH('a) - 4)"
  obtain ds where ds: "write_nybbles F n (push_bit 4 w) = map hexchar ds" "length ds = n" "\<forall>d \<in> set ds. d < 16"
    "hexval ds = unat (push_bit 4 w) div 2 ^ (?W - 4 * n)" using Suc.IH [of "push_bit 4 w"] Suc.prems by auto
  have split: "2 ^ (?W - 4 * n) = 16 * (2 :: nat) ^ (?W - 4 * Suc n)" by (rule power_16 [OF Suc.prems])
  have tail: "hexval ds = ?r div 2 ^ (?W - 4 * Suc n)" unfolding ds(4) unat_next_nybbles split by simp
  have top: "2 ^ (?W - 4) = 16 ^ n * (2 :: nat) ^ (?W - 4 * Suc n)" using power_16s [of n "?W - 4"] Suc.prems by simp
  have "unat w = (?d * 16 ^ n) * 2 ^ (?W - 4 * Suc n) + ?r"
    unfolding mult.assoc top [symmetric] by (simp only: div_mult_mod_eq)
  then have "unat w div 2 ^ (?W - 4 * Suc n) = ?d * 16 ^ n + ?r div 2 ^ (?W - 4 * Suc n)"
    by (metis add.commute div_mult_self3 power_not_zero zero_neq_numeral)
  then show ?case using ds(1-3) tail top_less [of w]
    by (intro exI [of _ "?d # ds"]) (simp add: hex_digit_top)
qed

lemma skip_zero_digits:
  "4 * n \<le> LENGTH('a) \<Longrightarrow> unat (w :: 'a word) = V * 2 ^ (LENGTH('a) - 4 * n) \<Longrightarrow>
    skip_zero_nybbles F n w = (m, w') \<Longrightarrow> 4 * m \<le> LENGTH('a) \<and> unat w' = V * 2 ^ (LENGTH('a) - 4 * m)"
proof (induction n arbitrary: w)
  case (Suc n)
  show ?case
  proof (cases "top_nybble F w = 0")
    case True
    then have "unat w div 2 ^ (LENGTH('a) - 4) = 0" using unat_top_nybble [of w] by simp
    then have "unat (push_bit 4 w) = 16 * unat w" unfolding unat_next_nybbles by (simp add: div_eq_0_iff)
    then have "unat (push_bit 4 w) = V * 2 ^ (LENGTH('a) - 4 * n)" using Suc.prems(2) power_16 [OF Suc.prems(1)] by simp
    then show ?thesis using Suc.IH [of "push_bit 4 w"] Suc.prems(1,3) True by simp
  next
    case False
    then have "m = Suc n" "w' = w" using Suc.prems(3) by simp_all
    then show ?thesis using Suc.prems(1,2) by (simp only: simp_thms)
  qed
qed simp

lemma payload_round:
  fixes sig :: "'a word"
  assumes "unat sig < 2 ^ p" "sig \<noteq> 0"
  shows "parse_nan_tag F (case skip_zero_nybbles F (nat (WORD_BITS F) div 4) sig of (n, sig) \<Rightarrow> write_nybbles F n sig) 0 = Parsed sig"
    and "(case skip_zero_nybbles F (nat (WORD_BITS F) div 4) sig of (n, sig) \<Rightarrow> write_nybbles F n sig) \<noteq> []"
proof -
  obtain m w where mw: "skip_zero_nybbles F (nat (WORD_BITS F) div 4) sig = (m, w)" by force
  have n: "nat (WORD_BITS F) div 4 = LENGTH('a) div 4" using word_length(2) by simp
  have m: "4 * m \<le> LENGTH('a)" "unat w = unat sig * 2 ^ (LENGTH('a) - 4 * m)"
    using skip_zero_digits [of "LENGTH('a) div 4" sig "unat sig" m w] mw word_nybbles(1) by (simp_all add: n)
  obtain ds where ds: "write_nybbles F m w = map hexchar ds" "length ds = m" "\<forall>d \<in> set ds. d < 16" "hexval ds = unat sig"
    using write_nybbles_digits [OF m(1), of w] m(2) by auto
  have pos: "0 < unat sig" using assms(2) by (simp add: unat_gt_0)
  show "parse_nan_tag F (case skip_zero_nybbles F (nat (WORD_BITS F) div 4) sig of (n, sig) \<Rightarrow> write_nybbles F n sig) 0 = Parsed sig"
    using nan_tag_digits [OF ds(3), of 0] ds(1,4) assms(1) pos by (simp add: mw)
  have "ds \<noteq> []" using ds(4) pos by auto
  then show "(case skip_zero_nybbles F (nat (WORD_BITS F) div 4) sig of (n, sig) \<Rightarrow> write_nybbles F n sig) \<noteq> []" using ds(1) by (simp add: mw)
qed

subsection \<open>Every representation\<close>

lemma parse_nan_text:
  "parse_nan F bad (sign_text neg @ cstr ''nan'') = make_bits F neg (MAX_EXP F) (QUIET_NAN_TAG F)"
  "parse_nan_tag F tag 0 = Parsed sig \<Longrightarrow> parse_nan F bad (sign_text neg @ cstr ''nan'' @ cstr '':0x'' @ tag) = make_bits F neg (MAX_EXP F) sig"
proof -
  have skip: "skip_sign (sign_text neg @ cstr ''nan'' @ cs) = Some (neg, cstr ''nan'' @ cs)" for cs
    using skip_sign_text [of "chr CHR ''n''" neg "cstr ''an'' @ cs"] by (simp add: cstr_def)
  show "parse_nan F bad (sign_text neg @ cstr ''nan'') = make_bits F neg (MAX_EXP F) (QUIET_NAN_TAG F)"
    using skip [of "[]"] starts_with_append [of "cstr ''nan''" "[]"] by (simp add: parse_nan_def) (simp add: cstr_def)
  show "parse_nan F bad (sign_text neg @ cstr ''nan'' @ cstr '':0x'' @ tag) = make_bits F neg (MAX_EXP F) sig"
    if "parse_nan_tag F tag 0 = Parsed sig"
  proof -
    have "drop 3 (cstr ''nan'' @ cs) = cs" "drop 3 (cstr '':0x'' @ cs) = cs" "cstr '':0x'' @ cs \<noteq> []" for cs by (simp_all add: cstr_def)
    then show ?thesis unfolding parse_nan_def skip option.case prod.case Let_def starts_with_append
      by (simp only: that simp_thms if_False Parsed.case starts_with_append)
  qed
qed

lemma parse_infinity_text: "parse_infinity F (sign_text neg @ cstr ''infinity'') = make_bits F neg (MAX_EXP F) 0"
proof -
  have "skip_sign (sign_text neg @ cstr ''infinity'') = Some (neg, cstr ''infinity'')"
    using skip_sign_text [of "chr CHR ''i''" neg "cstr ''nfinity''"] by (simp add: cstr_def)
  then show ?thesis using starts_with_append [of "cstr ''infinity''" "[]"] by (simp add: parse_infinity_def)
qed

lemma write_hex_round:
  "case hex_literal_type F bits of
     WASM_LITERAL_TYPE_INFINITY \<Rightarrow> parse_infinity F (write_hex F write_exp bits) = Parsed bits
   | WASM_LITERAL_TYPE_NAN \<Rightarrow> parse_nan F bad (write_hex F write_exp bits) = Parsed bits
   | _ \<Rightarrow> parse_hex F (write_hex F write_exp bits) = Parsed bits"
proof -
  let ?sig = "bits AND mask p" and ?neg = "drop_bit (SIGN_SHIFT F) bits \<noteq> 0" and ?x = "exp_field bits"
  have fits: "unat ?sig < 2 ^ p"
    by (simp add: take_bit_eq_mask [symmetric] unsigned_take_bit_eq take_bit_nat_less_exp)
  have made: "make_bits F ?neg ?x ?sig = Parsed bits" using make_bits_fields [of bits] by (simp add: fields)
  have exp: "uint (drop_bit (nat (SIG_BITS F)) bits AND EXP_MASK F) - EXP_BIAS F = ?x" by (simp add: exp_field_def fields exps)
  have out: "write_hex F write_exp bits = sign_text ?neg @
      (if ?x = MAX_EXP F
       then (if ?sig = 0 then cstr ''infinity''
             else cstr ''nan'' @ (if ?sig \<noteq> QUIET_NAN_TAG F
               then cstr '':0x'' @ (case skip_zero_nybbles F (nat (WORD_BITS F) div 4) ?sig of (n, sig) \<Rightarrow> write_nybbles F n sig) else []))
       else write_hex_number F write_exp ?x ?sig)"
    unfolding write_hex_def Let_def exp fields(3) sign_text_def by (rule refl)
  have kind: "hex_literal_type F bits =
     (if ?x = MAX_EXP F then if ?sig = 0 then WASM_LITERAL_TYPE_INFINITY else WASM_LITERAL_TYPE_NAN else WASM_LITERAL_TYPE_HEXFLOAT)"
    unfolding hex_literal_type_def exp fields(3) by (rule refl)
  show ?thesis
  proof (cases "?x = MAX_EXP F")
    case True
    note pay = payload_round(1) [OF fits]
    show ?thesis
    proof (cases "?sig = 0")
      case False
      then show ?thesis using True made parse_nan_text(1) [of bad ?neg] parse_nan_text(2) [OF pay, of bad ?neg]
        unfolding kind out by auto
    qed (use True made parse_infinity_text [of ?neg] in \<open>simp add: kind out\<close>)
  next
    case False
    then have x: "?x \<le> bias" using exp_field_range [of bits] by (simp add: exps)
    have "parse_hex F (sign_text ?neg @ write_hex_number F write_exp ?x ?sig) = make_bits F ?neg ?x ?sig"
    proof (cases "?x = - bias")
      case True
      then show ?thesis using zero_round [of ?neg] subnormal_round [OF fits] by (cases "?sig = 0") simp_all
    next
      case False
      then show ?thesis using normal_round [OF fits _ x] exp_field_range(1) [of bits] by simp
    qed
    then show ?thesis using False made by (simp add: kind out)
  qed
qed

text \<open>The fuel of \<open>write_sig\<close> is enough: more of it changes nothing.\<close>

lemma write_sig_enough:
  assumes "j \<le> n" "4 * j \<le> LENGTH('a)" "2 ^ (LENGTH('a) - 4 * j) dvd unat (w :: 'a word)"
  shows "write_sig F n w = write_sig F j w"
  using assms
proof (induction j arbitrary: n w)
  case 0
  then have "unat w = 0" using unsigned_less [of w] by (metis diff_zero dvd_imp_le gr0I mult_0_right not_less)
  then show ?case by (cases n) (simp_all add: unat_eq_0)
next
  case (Suc j)
  let ?W = "LENGTH('a)"
  obtain m where n: "n = Suc m" "j \<le> m" using Suc.prems(1) by (cases n) auto
  have "2 ^ (?W - 4 * Suc j) dvd (2 :: nat) ^ (?W - 4)" by (rule le_imp_power_dvd) simp
  then have "2 ^ (?W - 4 * Suc j) dvd unat w mod 2 ^ (?W - 4)" using Suc.prems(3) by (rule dvd_mod [rotated])
  then have "2 ^ (?W - 4 * j) dvd unat (push_bit 4 w)"
    unfolding unat_next_nybbles power_16 [OF Suc.prems(2)] by (rule mult_dvd_mono [OF dvd_refl])
  from Suc.IH [OF n(2) _ this] Suc.prems(2) show ?case by (simp add: n)
qed

end

interpretation f32: float_text F32 23 8 write_float_exp
  by unfold_locales (simp_all add: F32_def mask_eq_exp_minus_1 scan_float_exp word_le_def)

interpretation f64: float_text F64 52 11 write_double_exp
  by unfold_locales (simp_all add: F64_def mask_eq_exp_minus_1 scan_double_exp word_le_def)

text \<open>What is written fits the buffers.\<close>

lemma length_write_sig: "length (write_sig F n w) \<le> n"
  by (induction n arbitrary: w) auto

lemma length_write_nybbles: "length (write_nybbles F n w) = n"
  by (induction n arbitrary: w) auto

lemma skip_zero_le: "fst (skip_zero_nybbles F n w) \<le> n"
  by (induction n arbitrary: w) (auto intro: le_SucI)

lemma length_write_fraction: "length (fst (write_fraction F x w)) \<le> 1 + nat (WORD_BITS F) div 4"
  by (simp add: write_fraction_def cstr_def case_prod_beta length_write_sig)

lemma length_write_hex:
  assumes "\<And>x. length (write_exp x) \<le> k" "2 \<le> k"
  shows "length (write_hex F write_exp bits) \<le> 7 + nat (WORD_BITS F) div 4 + k"
proof -
  let ?n = "nat (WORD_BITS F) div 4"
  have tag: "length (case skip_zero_nybbles F ?n w of (n, sig) \<Rightarrow> write_nybbles F n sig) \<le> ?n" for w :: "'a word"
    using skip_zero_le [of F ?n w] by (simp add: length_write_nybbles case_prod_beta)
  have number: "length (write_hex_number F write_exp x sig) \<le> 6 + ?n + k" for x and sig :: "'a word"
  proof -
    obtain digits x' where w: "write_fraction F x (push_bit (nat (WORD_BITS F - SIG_BITS F)) sig) = (digits, x')" by force
    then have "length digits \<le> 1 + ?n" using length_write_fraction [of F x] by (metis fst_conv)
    then show ?thesis using assms(1) [of x'] assms(1) [of "- x'"] assms(2) by (simp add: write_hex_number_def w cstr_def Let_def)
  qed
  have sign: "length ((if b then cstr ''-'' else []) @ cs) \<le> 7 + ?n + k" if "length cs \<le> 6 + ?n + k" for b cs
    using that by (simp add: cstr_def)
  show ?thesis unfolding write_hex_def Let_def
    by (rule sign) (use tag [of "bits AND SIG_MASK F"] number assms(2) in \<open>auto simp: cstr_def intro: trans_le_add1\<close>)
qed

subsection \<open>Integer literals\<close>

definition dec_char :: "nat \<Rightarrow> byte" where
  "dec_char d = digit_char (int d)"

fun decval :: "nat list \<Rightarrow> nat" where
  "decval [] = 0"
| "decval (d # ds) = d * 10 ^ length ds + decval ds"

lemma dec_char_ok: "d < 10 \<Longrightarrow> char_distance (dec_char d) CHR ''0'' = word_of_nat d"
  using digit_char_ok(1) [of "int d"] by (simp add: dec_char_def)

lemma less_10_nat: "(d :: nat) < 10 \<longleftrightarrow> d \<in> {0, 1, 2, 3, 4, 5, 6, 7, 8, 9}"
  unfolding insert_iff empty_iff by presburger

lemma parse_dec_digits_value:
  assumes "\<forall>d \<in> set ds. d < 10" "v * 10 ^ length ds + decval ds < 2 ^ 64"
  shows "parse_dec_digits (map dec_char ds) (word_of_nat v) = Parsed (word_of_nat (v * 10 ^ length ds + decval ds))"
  using assms
proof (induction ds arbitrary: v)
  case (Cons d ds)
  have d: "d < 10" using Cons.prems(1) by simp
  have val: "v * 10 ^ length (d # ds) + decval (d # ds) = (v * 10 + d) * 10 ^ length ds + decval ds" by (simp add: algebra_simps)
  have "v * 10 + d \<le> (v * 10 + d) * 10 ^ length ds" by simp
  then have small: "v * 10 + d < 2 ^ 64" using Cons.prems(2) val by linarith
  then have u: "unat (word_of_nat (v * 10 + d) :: u64) = v * 10 + d" "unat (word_of_nat v :: u64) = v" by (simp_all only: unat_of_nat) simp_all
  have le: "\<not> (word_of_nat v :: u64) > word_of_nat (v * 10 + d)" unfolding word_less_nat_alt u by simp
  have digit: "\<not> (word_of_nat d :: u32) > 9" and cast: "ucast (word_of_nat d :: u32) = (word_of_nat d :: u64)"
    using d unfolding less_10_nat by auto
  have step: "(word_of_nat v :: u64) * 10 + ucast (word_of_nat d :: u32) = word_of_nat (v * 10 + d)" by (simp add: cast)
  have "parse_dec_digits (map dec_char (d # ds)) (word_of_nat v) = parse_dec_digits (map dec_char ds) (word_of_nat (v * 10 + d))"
    using digit le by (simp only: list.map parse_dec_digits.simps dec_char_ok [OF d] Let_def step if_False)
  moreover have "parse_dec_digits (map dec_char ds) (word_of_nat (v * 10 + d)) =
      Parsed (word_of_nat ((v * 10 + d) * 10 ^ length ds + decval ds))"
    by (rule Cons.IH [OF _ Cons.prems(2) [unfolded val]]) (use Cons.prems(1) in simp)
  ultimately show ?case unfolding val by (simp only:)
qed simp

lemma dec_char_not:
  assumes "d < 10"
  shows "dec_char d \<noteq> chr CHR ''x''" "dec_char d \<noteq> chr CHR ''-''" "dec_char d \<noteq> chr CHR ''+''"
  using assms unfolding less_10_nat by (auto simp: dec_char_def digit_char_def)

lemma parse_uint64_dec:
  assumes "ds \<noteq> []" "\<forall>d \<in> set ds. d < 10" "decval ds < 2 ^ 64"
  shows "wasm_parse_uint64 (map dec_char ds) = Parsed (word_of_nat (decval ds))"
proof -
  have "map dec_char ds ! 1 \<noteq> chr CHR ''x''" if "1 < length ds"
    using that assms(2) dec_char_not(1) [of "ds ! 1"] by simp
  then show ?thesis using parse_dec_digits_value [of ds 0] assms by (simp add: wasm_parse_uint64_def)
qed

lemma parse_int32_dec:
  assumes "ds \<noteq> []" "\<forall>d \<in> set ds. d < 10" "decval ds < 2 ^ 64"
  shows "wasm_parse_int32 (map dec_char ds) parse_type = (if decval ds < 2 ^ 32 then Parsed (word_of_nat (decval ds)) else Failed)"
    and "wasm_parse_int32 (chr CHR ''-'' # map dec_char ds) WASM_PARSE_SIGNED_AND_UNSIGNED =
      (if decval ds \<le> 2 ^ 31 then Parsed (- word_of_nat (decval ds)) else Failed)"
proof -
  let ?v = "word_of_nat (decval ds) :: u64"
  have u: "unat ?v = decval ds" using assms(3) by (simp add: unat_of_nat)
  have cast: "ucast ?v = (word_of_nat (decval ds) :: u32)" 
  proof -
    have "(word_of_nat (unat ?v) :: u32) = ucast ?v" by simp
    then show ?thesis by (simp only: u)
  qed
  obtain c cs where c: "map dec_char ds = c # cs" "c \<noteq> chr CHR ''-''" "c \<noteq> chr CHR ''+''"
    using assms(1,2) dec_char_not by (cases ds) auto
  have sign: "take_sign (map dec_char ds) = Some (False, False, map dec_char ds)" using c by (simp add: take_sign_def)
  have "?v > 0xffffffff \<longleftrightarrow> \<not> decval ds < 2 ^ 32" by (simp add: word_less_nat_alt u) linarith
  then show "wasm_parse_int32 (map dec_char ds) parse_type = (if decval ds < 2 ^ 32 then Parsed (word_of_nat (decval ds)) else Failed)"
    by (simp add: wasm_parse_int32_def sign parse_uint64_dec [OF assms] cast)
  have big: "?v > 0x7fffffff + 1 \<longleftrightarrow> \<not> decval ds \<le> 2 ^ 31" by (simp add: word_less_nat_alt u not_le)
  have neg: "ucast (0xffffffff - ?v + 1) = - (word_of_nat (decval ds) :: u32)"
  proof -
    have narrow: "ucast (word_of_int x :: u64) = (word_of_int x :: u32)" for x by transfer simp
    have "0xffffffff - ?v + 1 = word_of_int (0x100000000 - int (decval ds))" by simp
    then show ?thesis by (simp only: narrow) simp
  qed
  show "wasm_parse_int32 (chr CHR ''-'' # map dec_char ds) WASM_PARSE_SIGNED_AND_UNSIGNED =
      (if decval ds \<le> 2 ^ 31 then Parsed (- word_of_nat (decval ds)) else Failed)"
    using big neg by (simp add: wasm_parse_int32_def take_sign_def parse_uint64_dec [OF assms])
qed

end
