(* ===== verification/Wabt_Float_Order.thy ===== *)
theory Wabt_Float_Order
  imports Wabt_Interpreter_Run Wabt_Literal_Round
begin

text \<open>
  The order of the bits of floats is the order of the numbers, sign apart. So the tests of the
  interpreter on bits decide what they mean to decide on numbers: whether a number is a NaN, or has
  an integer part that fits, or is the smaller one.
\<close>

unbundle bit_operations_syntax

subsection \<open>Codes and magnitudes\<close>

text \<open>The code of a float is its bits without the sign, the magnitude its number of units.\<close>

definition f_code :: "'a :: len word FloatFormat \<Rightarrow> 'a word \<Rightarrow> int" where
  "f_code F b = uint b mod 2 ^ SIGN_SHIFT F"

definition magnitude :: "nat \<Rightarrow> int \<Rightarrow> int" where
  "magnitude p c = (if c div 2 ^ p = 0 then c mod 2 ^ p else (2 ^ p + c mod 2 ^ p) * 2 ^ nat (c div 2 ^ p - 1))"

lemma int_div_less: "0 < d \<Longrightarrow> x < k * d \<Longrightarrow> x div d < (k :: int)"
proof (rule ccontr)
  assume "0 < d" "x < k * d" "\<not> x div d < k"
  then have "k * d \<le> x div d * d" by (intro mult_right_mono) simp_all
  also have "\<dots> \<le> x" using \<open>0 < d\<close> by (metis div_mult_mod_eq le_add_same_cancel1 pos_mod_sign)
  finally show False using \<open>x < k * d\<close> by simp
qed

lemma magnitude_power: "0 < k \<Longrightarrow> magnitude p (k * 2 ^ p) = 2 ^ (p + nat (k - 1))"
  by (simp add: magnitude_def power_add)

lemma magnitude_parts:
  assumes "0 \<le> r" "r < 2 ^ p"
  shows "magnitude p (q * 2 ^ p + r) = (if q = 0 then r else (2 ^ p + r) * 2 ^ nat (q - 1))"
proof -
  have "r div 2 ^ p = 0" "r mod 2 ^ p = r" using assms by simp_all
  then have "(q * 2 ^ p + r) div 2 ^ p = q" "(q * 2 ^ p + r) mod 2 ^ p = r" by simp_all
  then show ?thesis by (simp add: magnitude_def)
qed

lemma magnitude_next: "0 < k \<Longrightarrow> 0 < p \<Longrightarrow> magnitude p (k * 2 ^ p + 1) = 2 ^ (p + nat (k - 1)) + 2 ^ nat (k - 1)"
proof -
  assume k: "0 < k" "0 < p"
  have "(1 :: int) < 2 ^ p" using k by (simp add: one_less_power)
  then show ?thesis using k magnitude_parts [of 1 p k] by (simp add: power_add algebra_simps)
qed

lemma magnitude_step: "0 \<le> c \<Longrightarrow> magnitude p c < magnitude p (c + 1)"
proof -
  assume c: "0 \<le> c"
  define q r where "q = c div 2 ^ p" "r = c mod 2 ^ p"
  have qr: "c = q * 2 ^ p + r" "0 \<le> r" "r < 2 ^ p" "0 \<le> q"
    using c div_mult_mod_eq [of c "2 ^ p"] by (simp_all add: q_r_def pos_imp_zdiv_nonneg_iff)
  show ?thesis
  proof (cases "r + 1 < 2 ^ p")
    case True
    then show ?thesis using magnitude_parts [of r p q] magnitude_parts [of "r + 1" p q] qr by (simp add: add.assoc)
  next
    case False
    then have r: "r = 2 ^ p - 1" using qr by simp
    have "c + 1 = (q + 1) * 2 ^ p" using qr(1) r by (simp add: algebra_simps)
    then have nxt: "magnitude p (c + 1) = 2 ^ (p + nat q)" using magnitude_power [of "q + 1" p] qr(4) by simp
    show ?thesis
    proof (cases "q = 0")
      case True
      then show ?thesis using magnitude_parts [of r p q] qr r nxt by simp
    next
      case False
      then have "nat q = Suc (nat (q - 1))" using qr(4) by simp
      then show ?thesis using False magnitude_parts [of r p q] qr r nxt by (simp add: power_add)
    qed
  qed
qed

lemma magnitude_less: "0 \<le> a \<Longrightarrow> a < b \<Longrightarrow> magnitude p a < magnitude p b"
proof (induction "nat (b - a)" arbitrary: b rule: less_induct)
  case less
  show ?case
  proof (cases "b = a + 1")
    case True
    then show ?thesis using magnitude_step less.prems by simp
  next
    case False
    then have "magnitude p a < magnitude p (b - 1)" using less.hyps [of "b - 1"] less.prems by simp
    also have "\<dots> < magnitude p b" using magnitude_step [of "b - 1" p] less.prems by simp
    finally show ?thesis .
  qed
qed

lemma magnitude_mono:
  assumes "0 \<le> a" "0 \<le> b"
  shows "magnitude p a < magnitude p b \<longleftrightarrow> a < b" "magnitude p a \<le> magnitude p b \<longleftrightarrow> a \<le> b" "magnitude p a = magnitude p b \<longleftrightarrow> a = b"
  using magnitude_less [of a b p] magnitude_less [of b a p] assms by (cases a b rule: linorder_cases; force)+

lemma magnitude_nonneg: "0 \<le> c \<Longrightarrow> 0 \<le> magnitude p c"
  by (simp add: magnitude_def)

text \<open>A float fits a range of integers if its part before the point lies in there.\<close>

definition fits :: "'a :: len word FloatFormat \<Rightarrow> 'a word \<Rightarrow> int \<Rightarrow> int \<Rightarrow> bool" where
  "fits F b lo hi \<longleftrightarrow> (case f_to_int F b of Some n \<Rightarrow> lo \<le> n \<and> n \<le> hi | None \<Rightarrow> False)"

context float_format
begin

lemma f_code_range: "0 \<le> f_code F b" "f_code F b < 2 ^ (e + p)"
  by (simp_all add: f_code_def fields)

lemma f_neg_code: "f_neg F b \<longleftrightarrow> odd (uint b div 2 ^ (e + p))"
  proof -
  have "bit b (e + p) \<longleftrightarrow> bit (uint b) (e + p)" by (auto simp: bit_unsigned_iff possible_bit_def dest: bit_imp_le_length)
  then show ?thesis by (simp only: f_neg_def fields bit_iff_odd [of "uint b"])
qed

lemma uint_f_code: "uint b = of_bool (f_neg F b) * 2 ^ (e + p) + f_code F b"
proof -
  have "uint b < 2 ^ LENGTH('a)" by (rule uint_lt2p)
  then have "uint b < 2 * 2 ^ (e + p)" using word_length(1) by simp
  then have "uint b div 2 ^ (e + p) < 2" by (simp add: int_div_less)
  moreover have "0 \<le> uint b div 2 ^ (e + p)" by (simp add: pos_imp_zdiv_nonneg_iff)
  ultimately have "uint b div 2 ^ (e + p) = 0 \<or> uint b div 2 ^ (e + p) = 1" by linarith
  then have "uint b div 2 ^ (e + p) = of_bool (f_neg F b)" using f_neg_code [of b] by auto
  then show ?thesis using div_mult_mod_eq [of "uint b" "2 ^ (e + p)"] by (simp add: f_code_def fields)
qed

lemma f_fields_code: "int (f_exp F b) = f_code F b div 2 ^ p" "f_sig F b = f_code F b mod 2 ^ p"
proof -
  have "f_code F b = take_bit (e + p) (uint b)" by (simp add: f_code_def fields take_bit_eq_mod)
  moreover have "f_code F b div 2 ^ p = drop_bit p (f_code F b)" "f_code F b mod 2 ^ p = take_bit p (f_code F b)"
    by (simp_all add: drop_bit_eq_div take_bit_eq_mod)
  moreover have "int (f_exp F b) = take_bit e (drop_bit p (uint b))"
  proof -
    have "int (f_exp F b) = uint (take_bit e (drop_bit p b))"
      by (simp only: f_exp_def fields nat_int uint_nat [symmetric] take_bit_eq_mask [symmetric])
    also have "\<dots> = take_bit e (drop_bit p (take_bit LENGTH('a) (uint b)))" by (simp only: unsigned_take_bit_eq unsigned_drop_bit_eq)
    also have "take_bit LENGTH('a) (uint b) = uint b" by (rule take_bit_int_eq_self) (simp, rule uint_lt2p)
    finally show ?thesis .
  qed
  moreover have "f_sig F b = take_bit p (uint b)"
    by (simp add: f_sig_def fields unsigned_take_bit_eq flip: take_bit_eq_mask)
  ultimately show "int (f_exp F b) = f_code F b div 2 ^ p" "f_sig F b = f_code F b mod 2 ^ p"
    by (simp_all add: drop_bit_take_bit)
qed

lemma f_mag_code: "f_mag F b = magnitude p (f_code F b)"
proof -
  have "f_exp F b = 0 \<longleftrightarrow> f_code F b div 2 ^ p = 0" using f_fields_code(1) [of b] by linarith
  moreover have "f_exp F b - 1 = nat (f_code F b div 2 ^ p - 1)" using f_fields_code(1) [of b] by linarith
  ultimately show ?thesis by (simp add: f_mag_def magnitude_def f_fields_code(2) fields)
qed

lemma exp_mask_value: "int (unat (EXP_MASK F)) = 2 ^ e - 1" "uint (EXP_MASK F) = 2 ^ e - 1"
proof -
  have "min LENGTH('a) e = e" using word_length(1) by simp
  then have "uint (mask e :: 'a word) = mask e" by (simp only: uint_mask_eq)
  then   show "uint (EXP_MASK F) = 2 ^ e - 1" by (simp only: fields mask_eq_exp_minus_1)
  then show "int (unat (EXP_MASK F)) = 2 ^ e - 1" by (simp only: uint_nat)
qed

lemma f_nan_code: "f_is_nan F b \<longleftrightarrow> (2 ^ e - 1) * 2 ^ p < f_code F b" "f_is_inf F b \<longleftrightarrow> f_code F b = (2 ^ e - 1) * 2 ^ p"
proof -
  define q r where "q = f_code F b div 2 ^ p" "r = f_code F b mod 2 ^ p"
  have c: "f_code F b = q * 2 ^ p + r" using div_mult_mod_eq [of "f_code F b" "2 ^ p"] by (simp add: q_r_def)
  have r: "0 \<le> r" "r < 2 ^ p" by (simp_all add: q_r_def)
  have "q < 2 ^ e" using f_code_range(2) [of b] by (simp add: q_r_def power_add int_div_less)
  then have q: "q \<le> 2 ^ e - 1" by simp
  have cls: "f_is_nan F b \<longleftrightarrow> q = 2 ^ e - 1 \<and> r \<noteq> 0" "f_is_inf F b \<longleftrightarrow> q = 2 ^ e - 1 \<and> r = 0"
    by (simp_all only: f_is_nan_def f_is_inf_def q_r_def f_fields_code(2) of_nat_eq_iff [where 'a = int, symmetric] f_fields_code(1) exp_mask_value(1))
  have "q * 2 ^ p + r < (2 ^ e - 1) * 2 ^ p" if "q < 2 ^ e - 1"
  proof -
    have "(q + 1) * 2 ^ p \<le> (2 ^ e - 1) * (2 :: int) ^ p" using that by (intro mult_right_mono) simp_all
    then show ?thesis using r by (simp add: algebra_simps)
  qed
  then show "f_is_nan F b \<longleftrightarrow> (2 ^ e - 1) * 2 ^ p < f_code F b" "f_is_inf F b \<longleftrightarrow> f_code F b = (2 ^ e - 1) * 2 ^ p"
    using cls c q r by (cases "q = 2 ^ e - 1"; force)+
qed

subsection \<open>Powers of two, and what has an integer part that fits\<close>

lemma one_power: "f_one F = 2 ^ nat (EXP_BIAS F + int p - 1)" "0 \<le> EXP_BIAS F"
  by (simp_all add: f_one_def f_scale_def fields exponents)

lemma magnitude_two_power: "magnitude p ((int k + EXP_BIAS F) * 2 ^ p) = 2 ^ k * f_one F" if "0 < EXP_BIAS F"
proof -
  have "p + nat (int k + EXP_BIAS F - 1) = k + nat (EXP_BIAS F + int p - 1)" using that by linarith
  then show ?thesis using that magnitude_power [of "int k + EXP_BIAS F" p] by (simp add: one_power power_add)
qed

lemma bias_positive: "0 < EXP_BIAS F"
proof -
  have "(2 :: int) ^ 1 \<le> 2 ^ (e - 1)" using proportions(1) by (intro power_increasing) simp_all
  then show ?thesis by (simp add: exponents)
qed

lemma f_mag_two_power:
  "f_mag F b < 2 ^ k * f_one F \<longleftrightarrow> f_code F b < (int k + EXP_BIAS F) * 2 ^ p"
  "f_mag F b \<le> 2 ^ k * f_one F \<longleftrightarrow> f_code F b \<le> (int k + EXP_BIAS F) * 2 ^ p"
  using magnitude_mono [of "f_code F b" "(int k + EXP_BIAS F) * 2 ^ p" p] f_code_range(1) [of b] bias_positive
  by (simp_all add: f_mag_code magnitude_two_power)

text \<open>From \<open>2 ^ p\<close> on there are no fractions.\<close>

lemma f_mag_whole:
  assumes "p \<le> k"
  shows "f_mag F b < (2 ^ k + 1) * f_one F \<longleftrightarrow> f_code F b \<le> (int k + EXP_BIAS F) * 2 ^ p"
proof -
  let ?c = "(int k + EXP_BIAS F) * 2 ^ p"
  have "nat (EXP_BIAS F + int p - 1) \<le> nat (int k + EXP_BIAS F - 1)" using assms by simp
  then have "f_one F \<le> 2 ^ nat (int k + EXP_BIAS F - 1)" unfolding one_power by (rule power_increasing) simp
  moreover have "magnitude p (?c + 1) = 2 ^ k * f_one F + 2 ^ nat (int k + EXP_BIAS F - 1)"
    using magnitude_next [of "int k + EXP_BIAS F" p] magnitude_power [of "int k + EXP_BIAS F" p] magnitude_two_power [of k] bias_positive proportions(2) by simp
  ultimately have above: "(2 ^ k + 1) * f_one F \<le> magnitude p (?c + 1)" by (simp add: algebra_simps)
  have "f_mag F b < (2 ^ k + 1) * f_one F" if "f_code F b \<le> ?c"
  proof -
    have "f_mag F b \<le> 2 ^ k * f_one F" using that f_mag_two_power(2) by simp
    also have "\<dots> < (2 ^ k + 1) * f_one F" by (rule mult_strict_right_mono) (simp_all add: one_power)
    finally show ?thesis .
  qed
  moreover have "f_code F b \<le> ?c" if "f_mag F b < (2 ^ k + 1) * f_one F"
  proof (rule ccontr)
    assume "\<not> f_code F b \<le> ?c"
    then have "magnitude p (?c + 1) \<le> f_mag F b"
      unfolding f_mag_code using magnitude_mono(2) [of "?c + 1" "f_code F b" p] bias_positive f_code_range(1) [of b] by simp
    then show False using above that by simp
  qed
  ultimately show ?thesis by blast
qed

lemma f_mag_nonneg: "0 \<le> f_mag F b"
  by (simp add: f_mag_code magnitude_nonneg f_code_range)

lemma f_trunc: "whole_trunc (f_val F b) (f_one F) = (if f_neg F b then - (f_mag F b div f_one F) else f_mag F b div f_one F)"
  using f_mag_nonneg [of b] by (auto simp: whole_trunc_def f_val_def sgn_if)

lemma trunc_bound: "f_mag F b div f_one F < n \<longleftrightarrow> f_mag F b < n * f_one F"
proof -
  have "0 < f_one F" by (simp add: one_power)
  then show ?thesis
    by (metis int_div_less not_less zdiv_mono1 nonzero_mult_div_cancel_right order_less_irrefl)
qed

lemma code_infinity: "(int k + EXP_BIAS F) * 2 ^ p < (2 ^ e - 1) * 2 ^ p" if "int k < EXP_BIAS F"
proof -
  have "2 * 2 ^ (e - 1) = (2 :: int) ^ e" using proportions(1) by (cases e) simp_all
  then show ?thesis using that exponents(1) by simp
qed

lemma finite_below:
  assumes "f_code F b \<le> (int k + EXP_BIAS F) * 2 ^ p" "int k < EXP_BIAS F"
  shows "f_to_int F b = Some (if f_neg F b then - (f_mag F b div f_one F) else f_mag F b div f_one F)"
proof -
  have "f_code F b < (2 ^ e - 1) * 2 ^ p" using assms(1) code_infinity [OF assms(2)] by (rule le_less_trans)
  then show ?thesis using f_trunc [of b] by (auto simp: f_to_int_def f_nan_code)
qed

lemma fits_signed_if:
  assumes "int k < EXP_BIAS F"
    and "\<not> f_neg F b \<and> f_code F b < (int k + EXP_BIAS F) * 2 ^ p \<or> f_neg F b \<and> f_code F b \<le> (int k + EXP_BIAS F) * 2 ^ p"
  shows "fits F b (- (2 ^ k)) (2 ^ k - 1)"
proof -
  have i: "f_to_int F b = Some (if f_neg F b then - (f_mag F b div f_one F) else f_mag F b div f_one F)"
    using assms by (intro finite_below) auto
  have "0 \<le> f_mag F b div f_one F" using f_mag_nonneg [of b] by (simp add: one_power pos_imp_zdiv_nonneg_iff)
  moreover have "(0 :: int) < 2 ^ k" by simp
  moreover have "f_mag F b div f_one F < 2 ^ k" if "\<not> f_neg F b" using that assms(2) by (simp add: trunc_bound f_mag_two_power)
  moreover have "f_mag F b div f_one F < 2 ^ k + 1" if "f_neg F b"
  proof -
    have "f_mag F b \<le> 2 ^ k * f_one F" using that assms(2) f_mag_two_power by simp
    moreover have "0 < f_one F" by (simp add: one_power)
    ultimately show ?thesis by (simp add: trunc_bound algebra_simps)
  qed
  ultimately have "- (2 ^ k) \<le> (if f_neg F b then - (f_mag F b div f_one F) else f_mag F b div f_one F) \<and>
    (if f_neg F b then - (f_mag F b div f_one F) else f_mag F b div f_one F) \<le> 2 ^ k - 1" by (cases "f_neg F b"; simp; linarith)
  then show ?thesis using i by (simp add: fits_def)
qed

lemma fits_signed:
  assumes "int k < EXP_BIAS F" "p \<le> k" "\<not> f_is_nan F b"
  shows "fits F b (- (2 ^ k)) (2 ^ k - 1) \<longleftrightarrow>
    \<not> f_neg F b \<and> f_code F b < (int k + EXP_BIAS F) * 2 ^ p \<or> f_neg F b \<and> f_code F b \<le> (int k + EXP_BIAS F) * 2 ^ p"
proof
  assume fit: "fits F b (- (2 ^ k)) (2 ^ k - 1)"
  then have i: "f_to_int F b = Some (if f_neg F b then - (f_mag F b div f_one F) else f_mag F b div f_one F)"
    using assms(3) f_trunc [of b] by (auto simp: fits_def f_to_int_def split: if_splits)
  have "f_mag F b div f_one F < 2 ^ k" if "\<not> f_neg F b" using that fit i by (simp add: fits_def)
  moreover have "f_mag F b div f_one F < 2 ^ k + 1" if "f_neg F b" using that fit i by (simp add: fits_def)
  ultimately show "\<not> f_neg F b \<and> f_code F b < (int k + EXP_BIAS F) * 2 ^ p \<or> f_neg F b \<and> f_code F b \<le> (int k + EXP_BIAS F) * 2 ^ p"
    by (simp only: trunc_bound f_mag_two_power f_mag_whole [OF assms(2)]) blast
qed (rule fits_signed_if [OF assms(1)])

lemma fits_unsigned:
  assumes "int k < EXP_BIAS F" "\<not> f_is_nan F b"
  shows "fits F b 0 (2 ^ k - 1) \<longleftrightarrow>
    \<not> f_neg F b \<and> f_code F b < (int k + EXP_BIAS F) * 2 ^ p \<or> f_neg F b \<and> f_code F b < EXP_BIAS F * 2 ^ p"
proof
  assume fit: "fits F b 0 (2 ^ k - 1)"
  then have i: "f_to_int F b = Some (if f_neg F b then - (f_mag F b div f_one F) else f_mag F b div f_one F)"
    using assms(2) f_trunc [of b] by (auto simp: fits_def f_to_int_def split: if_splits)
  have "f_mag F b div f_one F < 2 ^ k" if "\<not> f_neg F b" using that fit i by (simp add: fits_def)
  moreover have "f_mag F b div f_one F < 2 ^ 0" if "f_neg F b" using that fit i by (simp add: fits_def)
  ultimately show "\<not> f_neg F b \<and> f_code F b < (int k + EXP_BIAS F) * 2 ^ p \<or> f_neg F b \<and> f_code F b < EXP_BIAS F * 2 ^ p"
    unfolding trunc_bound f_mag_two_power by auto
next
  assume small: "\<not> f_neg F b \<and> f_code F b < (int k + EXP_BIAS F) * 2 ^ p \<or> f_neg F b \<and> f_code F b < EXP_BIAS F * 2 ^ p"
  moreover have "EXP_BIAS F * 2 ^ p \<le> (int k + EXP_BIAS F) * 2 ^ p" by (rule mult_right_mono) simp_all
  ultimately have "f_code F b \<le> (int k + EXP_BIAS F) * 2 ^ p" by linarith
  then have i: "f_to_int F b = Some (if f_neg F b then - (f_mag F b div f_one F) else f_mag F b div f_one F)"
    by (rule finite_below [OF _ assms(1)])
  have "0 \<le> f_mag F b div f_one F" using f_mag_nonneg [of b] by (simp add: one_power pos_imp_zdiv_nonneg_iff)
  moreover have "f_mag F b div f_one F < 2 ^ k" if "\<not> f_neg F b" using that small by (simp add: trunc_bound f_mag_two_power)
  moreover have "f_mag F b div f_one F < 2 ^ 0" if "f_neg F b" using that small unfolding trunc_bound f_mag_two_power by simp
  then have "f_mag F b div f_one F = 0" if "f_neg F b" using that f_mag_nonneg [of b] by (simp add: one_power pos_imp_zdiv_nonneg_iff order_antisym)
  ultimately show "fits F b 0 (2 ^ k - 1)" using i by (auto simp: fits_def)
qed

end

subsection \<open>What the tests on bits say\<close>

lemma bits_f32: "uint b = of_bool (f_neg F32 b) * 2 ^ 31 + f_code F32 b" "0 \<le> f_code F32 b" "f_code F32 b < 2 ^ 31"
  using f32.uint_f_code [of b] f32.f_code_range [of b] by simp_all

lemma bits_f64: "uint b = of_bool (f_neg F64 b) * 2 ^ 63 + f_code F64 b" "0 \<le> f_code F64 b" "f_code F64 b < 2 ^ 63"
  using f64.uint_f_code [of b] f64.f_code_range [of b] by simp_all

lemma is_nan_f32: "is_nan_f32 b \<longleftrightarrow> f_is_nan F32 b"
  using bits_f32 [of b] by (cases "f_neg F32 b"; auto simp: is_nan_f32_def f32.f_nan_code word_less_def)

lemma is_nan_f64: "is_nan_f64 b \<longleftrightarrow> f_is_nan F64 b"
  using bits_f64 [of b] by (cases "f_neg F64 b"; auto simp: is_nan_f64_def f64.f_nan_code word_less_def)

lemma in_range_f32:
  assumes "\<not> f_is_nan F32 b"
  shows "is_in_range_i32_trunc_s_f32 b \<longleftrightarrow> fits F32 b (- (2 ^ 31)) (2 ^ 31 - 1)"
    and "is_in_range_i64_trunc_s_f32 b \<longleftrightarrow> fits F32 b (- (2 ^ 63)) (2 ^ 63 - 1)"
    and "is_in_range_i32_trunc_u_f32 b \<longleftrightarrow> fits F32 b 0 (2 ^ 32 - 1)"
    and "is_in_range_i64_trunc_u_f32 b \<longleftrightarrow> fits F32 b 0 (2 ^ 64 - 1)"
proof -
  have bias: "EXP_BIAS F32 = 127" by (simp add: F32_def)
  note s = f32.fits_signed [OF _ _ assms] and u = f32.fits_unsigned [OF _ assms]
  note w = word_less_def word_le_def and defs = is_in_range_i32_trunc_s_f32_def is_in_range_i64_trunc_s_f32_def
    is_in_range_i32_trunc_u_f32_def is_in_range_i64_trunc_u_f32_def
  show "is_in_range_i32_trunc_s_f32 b \<longleftrightarrow> fits F32 b (- (2 ^ 31)) (2 ^ 31 - 1)"
    using bits_f32 [of b] by (subst s) (auto simp: bias defs w)
  show "is_in_range_i64_trunc_s_f32 b \<longleftrightarrow> fits F32 b (- (2 ^ 63)) (2 ^ 63 - 1)"
    using bits_f32 [of b] by (subst s) (auto simp: bias defs w)
  show "is_in_range_i32_trunc_u_f32 b \<longleftrightarrow> fits F32 b 0 (2 ^ 32 - 1)"
    using bits_f32 [of b] by (subst u) (auto simp: bias defs w)
  show "is_in_range_i64_trunc_u_f32 b \<longleftrightarrow> fits F32 b 0 (2 ^ 64 - 1)"
    using bits_f32 [of b] by (subst u) (auto simp: bias defs w)
qed

lemma in_range_f64:
  assumes "\<not> f_is_nan F64 b"
  shows "is_in_range_i64_trunc_s_f64 b \<longleftrightarrow> fits F64 b (- (2 ^ 63)) (2 ^ 63 - 1)"
    and "is_in_range_i64_trunc_u_f64 b \<longleftrightarrow> fits F64 b 0 (2 ^ 64 - 1)"
    and "is_in_range_i32_trunc_s_f64 b \<Longrightarrow> fits F64 b (- (2 ^ 31)) (2 ^ 31 - 1)"
    and "is_in_range_i32_trunc_u_f64 b \<Longrightarrow> fits F64 b 0 (2 ^ 32 - 1)"
proof -
  have bias: "EXP_BIAS F64 = 1023" by (simp add: F64_def)
  note s = f64.fits_signed [OF _ _ assms] and u = f64.fits_unsigned [OF _ assms]
  note w = word_less_def word_le_def
  show "is_in_range_i64_trunc_s_f64 b \<longleftrightarrow> fits F64 b (- (2 ^ 63)) (2 ^ 63 - 1)"
    using bits_f64 [of b] by (subst s) (auto simp: bias is_in_range_i64_trunc_s_f64_def w)
  show "is_in_range_i64_trunc_u_f64 b \<longleftrightarrow> fits F64 b 0 (2 ^ 64 - 1)"
    using bits_f64 [of b] by (subst u) (auto simp: bias is_in_range_i64_trunc_u_f64_def w)
  show "is_in_range_i32_trunc_s_f64 b \<Longrightarrow> fits F64 b (- (2 ^ 31)) (2 ^ 31 - 1)"
    using bits_f64 [of b] by (intro f64.fits_signed_if; cases "f_neg F64 b"; auto simp: bias is_in_range_i32_trunc_s_f64_def w)
  show "is_in_range_i32_trunc_u_f64 b \<Longrightarrow> fits F64 b 0 (2 ^ 32 - 1)"
    using bits_f64 [of b] by (subst u; cases "f_neg F64 b"; auto simp: bias is_in_range_i32_trunc_u_f64_def w)
qed

subsection \<open>Truncation\<close>

text \<open>What a truncation should do with a float.\<close>

definition truncated :: "'a :: len word FloatFormat \<Rightarrow> int \<Rightarrow> int \<Rightarrow> 'a word \<Rightarrow> int exec" where
  "truncated F lo hi v =
     (if f_is_nan F v then trap TRAP_INVALID_CONVERSION_TO_INTEGER
      else if fits F v lo hi then eret (the (f_to_int F v)) else trap TRAP_INTEGER_OVERFLOW)"

lemma cast_fits: "fits F v lo hi \<Longrightarrow> cast_to_int lo hi (f_to_int F v) = eret (the (f_to_int F v))"
  by (auto simp: fits_def cast_to_int_def split: option.splits)

lemma exec_simps [simp]: "ebind (trap r) f = trap r" "ebind (eret x) f = f x" "trap_if True r = trap r" "trap_if False r = eret ()"
  by (auto simp: ebind_def trap_def eret_def trap_if_def)

lemma op_trunc_is:
  assumes "\<And>v. is_nan v \<longleftrightarrow> f_is_nan F v"
    and "\<And>v. \<not> f_is_nan F v \<Longrightarrow> in_range v \<longleftrightarrow> fits F v lo hi"
  shows "op_trunc get_value is_nan in_range F lo hi put = ebind get_value (\<lambda>v. ebind (truncated F lo hi v) put)"
proof -
  have "ethen (trap_if (is_nan v) TRAP_INVALID_CONVERSION_TO_INTEGER) (ethen (trap_if (\<not> in_range v) TRAP_INTEGER_OVERFLOW)
      (ebind (cast_to_int lo hi (f_to_int F v)) put)) = ebind (truncated F lo hi v) put" for v
    using assms [of v] by (cases "f_is_nan F v"; cases "fits F v lo hi") (simp_all add: truncated_def cast_fits)
  then show ?thesis by (simp add: op_trunc_def)
qed

lemma op_trunc_sound:
  assumes "\<And>v. is_nan v \<longleftrightarrow> f_is_nan F v"
    and "\<And>v. \<not> f_is_nan F v \<Longrightarrow> in_range v \<Longrightarrow> fits F v lo hi"
  shows "op_trunc (eret v) is_nan in_range F lo hi put \<in> {ebind (truncated F lo hi v) put, trap TRAP_INTEGER_OVERFLOW}"
  using assms [of v] by (cases "f_is_nan F v"; cases "in_range v") (simp_all add: op_trunc_def truncated_def cast_fits)

lemma truncations:
  "op_trunc pop_i32 is_nan_f32 is_in_range_i32_trunc_s_f32 F32 S32_MIN S32_MAX put = ebind pop_i32 (\<lambda>v. ebind (truncated F32 S32_MIN S32_MAX v) put) \<and>
   op_trunc pop_i32 is_nan_f32 is_in_range_i32_trunc_u_f32 F32 0 U32_MAX put = ebind pop_i32 (\<lambda>v. ebind (truncated F32 0 U32_MAX v) put) \<and>
   op_trunc pop_i32 is_nan_f32 is_in_range_i64_trunc_s_f32 F32 S64_MIN S64_MAX put = ebind pop_i32 (\<lambda>v. ebind (truncated F32 S64_MIN S64_MAX v) put) \<and>
   op_trunc pop_i32 is_nan_f32 is_in_range_i64_trunc_u_f32 F32 0 U64_MAX put = ebind pop_i32 (\<lambda>v. ebind (truncated F32 0 U64_MAX v) put) \<and>
   op_trunc pop_i64 is_nan_f64 is_in_range_i64_trunc_s_f64 F64 S64_MIN S64_MAX put = ebind pop_i64 (\<lambda>v. ebind (truncated F64 S64_MIN S64_MAX v) put) \<and>
   op_trunc pop_i64 is_nan_f64 is_in_range_i64_trunc_u_f64 F64 0 U64_MAX put = ebind pop_i64 (\<lambda>v. ebind (truncated F64 0 U64_MAX v) put) \<and>
   op_trunc (eret v) is_nan_f64 is_in_range_i32_trunc_s_f64 F64 S32_MIN S32_MAX put \<in> {ebind (truncated F64 S32_MIN S32_MAX v) put, trap TRAP_INTEGER_OVERFLOW} \<and>
   op_trunc (eret v) is_nan_f64 is_in_range_i32_trunc_u_f64 F64 0 U32_MAX put \<in> {ebind (truncated F64 0 U32_MAX v) put, trap TRAP_INTEGER_OVERFLOW}"
  by (intro conjI; (rule op_trunc_is | rule op_trunc_sound);
      (simp add: is_nan_f32 is_nan_f64 in_range_f32 in_range_f64; fail | rule in_range_f64; assumption))

subsection \<open>Minimum and maximum\<close>

definition same_sign :: "'a :: len word FloatMacros \<Rightarrow> 'a word \<Rightarrow> 'a word \<Rightarrow> bool" where
  "same_sign m a b \<longleftrightarrow> (f_neg (fm_format m) a \<longleftrightarrow> f_neg (fm_format m) b)"

lemma signs_differ:
  assumes "fm_sign_mask m = push_bit (SIGN_SHIFT (fm_format m)) 1"
  shows "(a XOR b) AND fm_sign_mask m \<noteq> 0 \<longleftrightarrow> \<not> same_sign m a b"
  unfolding assms bit_iff_and_push_bit_not_eq_0 [symmetric] by (simp add: bit_xor_iff same_sign_def f_neg_def)

lemma f_val_sign: "f_neg F a \<Longrightarrow> 0 \<le> f_mag F a \<Longrightarrow> f_val F a \<le> 0" "\<not> f_neg F a \<Longrightarrow> 0 \<le> f_mag F a \<Longrightarrow> 0 \<le> f_val F a"
  by (simp_all add: f_val_def)

text \<open>The smaller number, and the negative zero of two zeros; the bits decide where the signs differ.\<close>

lemma float_min_is:
  assumes "fm_sign_mask m = push_bit (SIGN_SHIFT F) 1" "F = fm_format m"
    and "\<not> fm_is_nan m a" "\<not> fm_is_nan m b" "\<not> f_is_nan F a" "\<not> f_is_nan F b"
    and "\<And>x. 0 \<le> f_mag F x" "\<And>x y. \<not> f_neg F x \<Longrightarrow> f_neg F y \<Longrightarrow> x < y"
  shows "float_min m a b \<in> {a, b} \<and> f_val F (float_min m a b) = min (f_val F a) (f_val F b)
      \<and> (f_neg F (float_min m a b) \<longleftrightarrow> f_neg F a \<or> f_neg F b)"
    and "float_max m a b \<in> {a, b} \<and> f_val F (float_max m a b) = max (f_val F a) (f_val F b)
      \<and> (f_neg F (float_max m a b) \<longleftrightarrow> f_neg F a \<and> f_neg F b)"
proof -
  have s: "(a XOR b) AND fm_sign_mask m \<noteq> 0 \<longleftrightarrow> (f_neg F a \<longleftrightarrow> \<not> f_neg F b)"
    using signs_differ [of m a b] assms(1,2) by (simp add: same_sign_def)
  have order: "f_neg F x \<Longrightarrow> \<not> f_neg F y \<Longrightarrow> f_val F x \<le> f_val F y \<and> y < x \<and> \<not> x < y" for x y
    using f_val_sign [of F x] f_val_sign [of F y] assms(7,8) by (meson less_asym order_trans)
  show "float_min m a b \<in> {a, b} \<and> f_val F (float_min m a b) = min (f_val F a) (f_val F b)
      \<and> (f_neg F (float_min m a b) \<longleftrightarrow> f_neg F a \<or> f_neg F b)"
    using s order [of a b] order [of b a] assms(2-6)
    by (cases "f_neg F a"; cases "f_neg F b") (auto simp: float_min_def float_minmax_def f_less_def min_def)
  show "float_max m a b \<in> {a, b} \<and> f_val F (float_max m a b) = max (f_val F a) (f_val F b)
      \<and> (f_neg F (float_max m a b) \<longleftrightarrow> f_neg F a \<and> f_neg F b)"
    using s order [of a b] order [of b a] assms(2-6)
    by (cases "f_neg F a"; cases "f_neg F b") (auto simp: float_max_def float_minmax_def f_less_def max_def)
qed

lemma negative_above_f32: "\<not> f_neg F32 x \<Longrightarrow> f_neg F32 y \<Longrightarrow> x < y"
  using bits_f32 [of x] bits_f32 [of y] by (simp add: word_less_def)

lemma negative_above_f64: "\<not> f_neg F64 x \<Longrightarrow> f_neg F64 y \<Longrightarrow> x < y"
  using bits_f64 [of x] bits_f64 [of y] by (simp add: word_less_def)

lemma minmax_f32:
  assumes "\<not> f_is_nan F32 a" "\<not> f_is_nan F32 b"
  shows "float_min MF32 a b \<in> {a, b} \<and> f_val F32 (float_min MF32 a b) = min (f_val F32 a) (f_val F32 b)
      \<and> (f_neg F32 (float_min MF32 a b) \<longleftrightarrow> f_neg F32 a \<or> f_neg F32 b)"
    and "float_max MF32 a b \<in> {a, b} \<and> f_val F32 (float_max MF32 a b) = max (f_val F32 a) (f_val F32 b)
      \<and> (f_neg F32 (float_max MF32 a b) \<longleftrightarrow> f_neg F32 a \<and> f_neg F32 b)"
  by (rule float_min_is; simp add: MF32_def is_nan_f32 assms f32.f_mag_nonneg negative_above_f32 F32_def [THEN arg_cong, of SIGN_SHIFT])+

lemma minmax_f64:
  assumes "\<not> f_is_nan F64 a" "\<not> f_is_nan F64 b"
  shows "float_min MF64 a b \<in> {a, b} \<and> f_val F64 (float_min MF64 a b) = min (f_val F64 a) (f_val F64 b)
      \<and> (f_neg F64 (float_min MF64 a b) \<longleftrightarrow> f_neg F64 a \<or> f_neg F64 b)"
    and "float_max MF64 a b \<in> {a, b} \<and> f_val F64 (float_max MF64 a b) = max (f_val F64 a) (f_val F64 b)
      \<and> (f_neg F64 (float_max MF64 a b) \<longleftrightarrow> f_neg F64 a \<and> f_neg F64 b)"
  by (rule float_min_is; simp add: MF64_def is_nan_f64 assms f64.f_mag_nonneg negative_above_f64 F64_def [THEN arg_cong, of SIGN_SHIFT])+

end
