(* ===== verification/Wabt_Interpreter_Facts.thy ===== *)
theory Wabt_Interpreter_Facts
  imports Wabt_Interpreter_Inv Wabt_Literal_Round
begin

text \<open>
  What single instructions compute: a load or store traps exactly if one of its bytes lies outside
  of the memory, whatever the sum of address and offset is; a load after a store yields what was
  stored; division, remainder, rotation and bit counts are the mathematical ones.
\<close>

unbundle bit_operations_syntax

subsection \<open>Loads and stores\<close>

text \<open>
  At the instruction, \<open>pc\<close> is at the index of the memory and the offset, and \<open>k\<close> slots below the
  top lies the address.
\<close>

definition memory_operands :: "nat \<Rightarrow> RunState \<Rightarrow> u32 \<Rightarrow> u32 \<Rightarrow> bool" where
  "memory_operands k s index off \<longleftrightarrow>
     (\<exists>rest. drop (local_pc s) (env_istream (t_env s)) = le_bytes 4 index @ le_bytes 4 off @ rest)
     \<and> unat index < length (env_memories (t_env s)) \<and> k < t_value_stack_top s"

definition accessed :: "nat \<Rightarrow> RunState \<Rightarrow> u32 \<Rightarrow> nat" where
  "accessed k s off = unat (ucast (t_value_stack s ! (t_value_stack_top s - 1 - k)) :: u32) + unat off"

definition after_operands :: "nat \<Rightarrow> RunState \<Rightarrow> RunState" where
  "after_operands k s = s\<lparr>local_pc := local_pc s + 8, t_value_stack_top := t_value_stack_top s - 1 - k\<rparr>"

lemma read_u32_at:
  assumes "drop (local_pc s) (env_istream (t_env s)) = le_bytes 4 w @ rest"
  shows "read_u32 s = Inr (w, s\<lparr>local_pc := local_pc s + 4\<rparr>)"
    and "drop (local_pc s + 4) (env_istream (t_env s)) = rest"
proof -
  let ?is = "env_istream (t_env s)"
  have "length (drop (local_pc s) ?is) = 4 + length rest" by (simp add: assms)
  then have "local_pc s + 4 \<le> length ?is" by simp
  moreover have "le_word 4 (take 4 (drop (local_pc s) ?is)) = w"
    using le_word_le_bytes_full [of 4 w "[]"] by (simp add: assms)
  ultimately show "read_u32 s = Inr (w, s\<lparr>local_pc := local_pc s + 4\<rparr>)"
    by (simp add: read_u32_def read_bytes_def istream_bytes_def ebind_def eget_def eupdate_def eret_def)
  have "drop (local_pc s + 4) ?is = drop 4 (drop (local_pc s) ?is)" by (simp add: add.commute)
  then show "drop (local_pc s + 4) ?is = rest" by (simp add: assms)
qed

text \<open>The sum does not wrap around.\<close>

lemma unat_sum:
  fixes a b :: u32
  shows "unat (ucast a + ucast b :: u64) = unat a + unat b"
proof -
  have "unat a < 2 ^ LENGTH(32)" "unat b < 2 ^ LENGTH(32)" by (rule unsigned_less)+
  then show ?thesis by (simp add: unat_word_ariths unat_widen)
qed

lemma in_memory_is:
  fixes a b :: u32
  assumes "wf_memory mem" "n \<le> 8"
  shows "in_memory mem (ucast a + ucast b) n s
      = (if unat a + unat b + n \<le> unat (mem_byte_size mem) then Inr ((), s) else Inl (Stopped TRAP_MEMORY_ACCESS_OUT_OF_BOUNDS, s))"
    and "unat a + unat b + n \<le> unat (mem_byte_size mem) \<Longrightarrow> unat (ucast (ucast a + ucast b :: u64) :: u32) = unat a + unat b"
proof -
  have less: "unat a < 2 ^ LENGTH(32)" "unat b < 2 ^ LENGTH(32)" "unat (mem_byte_size mem) < 2 ^ LENGTH(32)" by (rule unsigned_less)+
  have n: "unat (word_of_nat n :: u64) = n" using assms(2) by (simp add: unat_of_nat)
  have sum: "unat (ucast a + ucast b + word_of_nat n :: u64) = unat a + unat b + n"
    using less assms(2) by (simp add: unat_word_ariths(1) [of "ucast a + ucast b"] unat_sum n)
  have low: "unat (ucast (ucast a + ucast b :: u64) :: u32) = unat a + unat b" if "unat a + unat b + n \<le> unat (mem_byte_size mem)"
    using that less by (simp add: unsigned_ucast_eq unat_sum take_bit_nat_eq_self)
  then show "unat a + unat b + n \<le> unat (mem_byte_size mem) \<Longrightarrow> unat (ucast (ucast a + ucast b :: u64) :: u32) = unat a + unat b" .
  show "in_memory mem (ucast a + ucast b) n s
      = (if unat a + unat b + n \<le> unat (mem_byte_size mem) then Inr ((), s) else Inl (Stopped TRAP_MEMORY_ACCESS_OUT_OF_BOUNDS, s))"
    using assms(1) low sum
    by (auto simp: in_memory_def ebind_def trap_if_def trap_def eret_def eassert_def wf_memory_def word_less_nat_alt unat_widen)
qed

lemma wf_memory_at: "wf_state s \<Longrightarrow> i < length (env_memories (t_env s)) \<Longrightarrow> wf_memory (env_memories (t_env s) ! i)"
  by (simp add: wf_state_def list_all_length)

text \<open>Memory, address and offset, read in the order of the code; a store pops its value between.\<close>

lemma get_memory_is:
  assumes "memory_operands k s index off"
  shows "get_memory s = Inr ((unat index, env_memories (t_env s) ! unat index), s\<lparr>local_pc := local_pc s + 4\<rparr>)"
proof -
  obtain rest where "drop (local_pc s) (env_istream (t_env s)) = le_bytes 4 index @ le_bytes 4 off @ rest"
    using assms by (auto simp: memory_operands_def)
  from read_u32_at(1) [OF this] show ?thesis
    using assms by (simp add: get_memory_def ebind_def eget_def nth_checked_def eret_def memory_operands_def)
qed

lemma effective_address_is:
  assumes "memory_operands k s index off" "wf_state s"
  shows "effective_address (s\<lparr>local_pc := local_pc s + 4, t_value_stack_top := t_value_stack_top s - k\<rparr>)
      = Inr (ucast (ucast (t_value_stack s ! (t_value_stack_top s - 1 - k)) :: u32) + ucast off, after_operands k s)"
proof -
  obtain rest where d: "drop (local_pc s) (env_istream (t_env s)) = le_bytes 4 index @ le_bytes 4 off @ rest"
    using assms by (auto simp: memory_operands_def)
  define t where "t = s\<lparr>local_pc := local_pc s + 4, t_value_stack_top := t_value_stack_top s - 1 - k\<rparr>"
  have "drop (local_pc t) (env_istream (t_env t)) = le_bytes 4 off @ rest" using read_u32_at(2) [OF d] by (simp add: t_def)
  from read_u32_at(1) [OF this] show ?thesis
    using assms by (auto simp: effective_address_def ebind_def pop_i32_def pop_def eret_def memory_operands_def wf_state_def t_def
        after_operands_def Let_def algebra_simps diff_diff_left)
qed

lemma op_load_is:
  assumes "wf_state s" "memory_operands 0 s index off" "n \<le> 8"
    and "memory = env_memories (t_env s) ! unat index" "address = accessed 0 s off"
  shows "op_load n push_value s =
    (if address + n \<le> length (mem_data memory) then push_value (le_word n (take n (drop address (mem_data memory)))) (after_operands 0 s)
     else Inl (Stopped TRAP_MEMORY_ACCESS_OUT_OF_BOUNDS, after_operands 0 s))"
proof -
  have w: "wf_memory memory" using assms by (simp add: wf_memory_at memory_operands_def)
  define a where "a = (ucast (t_value_stack s ! (t_value_stack_top s - 1)) :: u32)"
  have ea: "effective_address (s\<lparr>local_pc := local_pc s + 4\<rparr>) = Inr (ucast a + ucast off, after_operands 0 s)"
    using effective_address_is [OF assms(2,1)] by (simp add: a_def)
  have at: "address = unat a + unat off" by (simp add: assms(5) accessed_def a_def)
  have "op_load n push_value s = ethen (in_memory memory (ucast a + ucast off) n)
      (push_value (le_word n (take n (drop (unat (ucast (ucast a + ucast off :: u64) :: u32)) (mem_data memory))))) (after_operands 0 s)"
    by (simp add: op_load_def ebind_def [of get_memory] get_memory_is [OF assms(2)] ebind_def [of effective_address] ea assms(4))
  then show ?thesis using in_memory_is [OF w assms(3), of a off] w by (simp add: ebind_def at wf_memory_def)
qed

text \<open>A value to store is a whole slot, or its lower half.\<close>

definition stored_values :: "(u64 exec \<times> (u64 \<Rightarrow> u64)) set" where
  "stored_values = {(pop_i64, id), (pop_i32_wide, \<lambda>v. ucast (ucast v :: u32))}"

lemma stored_values_pop:
  "(pop_value, f) \<in> stored_values \<Longrightarrow> 0 < t_value_stack_top s \<Longrightarrow> t_value_stack_top s \<le> length (t_value_stack s) \<Longrightarrow>
     pop_value s = Inr (f (t_value_stack s ! (t_value_stack_top s - 1)), s\<lparr>t_value_stack_top := t_value_stack_top s - 1\<rparr>)"
  by (auto simp: stored_values_def pop_i64_def pop_i32_wide_def pop_i32_def pop_def Let_def ebind_def eret_def)

definition with_memory :: "nat \<Rightarrow> WasmInterpreterMemory \<Rightarrow> RunState \<Rightarrow> RunState" where
  "with_memory i memory s = s\<lparr>t_env := (t_env s)\<lparr>env_memories := (env_memories (t_env s))[i := memory]\<rparr>\<rparr>"

lemma op_store_is:
  assumes "wf_state s" "memory_operands 1 s index off" "n \<le> 8" "(pop_value, f) \<in> stored_values"
    and "memory = env_memories (t_env s) ! unat index" "address = accessed 1 s off" "v = f (t_value_stack s ! (t_value_stack_top s - 1))"
  shows "op_store n pop_value s =
    (if address + n \<le> length (mem_data memory)
     then Inr ((), with_memory (unat index) (memory\<lparr>mem_data := overwrite (mem_data memory) address (le_bytes n v)\<rparr>) (after_operands 1 s))
     else Inl (Stopped TRAP_MEMORY_ACCESS_OUT_OF_BOUNDS, after_operands 1 s))"
proof -
  have w: "wf_memory memory" using assms by (simp add: wf_memory_at memory_operands_def)
  define a where "a = (ucast (t_value_stack s ! (t_value_stack_top s - 2)) :: u32)"
  have pop: "pop_value (s\<lparr>local_pc := local_pc s + 4\<rparr>) = Inr (v, s\<lparr>local_pc := local_pc s + 4, t_value_stack_top := t_value_stack_top s - 1\<rparr>)"
    using stored_values_pop [OF assms(4), of "s\<lparr>local_pc := local_pc s + 4\<rparr>"] assms(1,2,7) by (simp add: memory_operands_def wf_state_def)
  have ea: "effective_address (s\<lparr>local_pc := local_pc s + 4, t_value_stack_top := t_value_stack_top s - 1\<rparr>) = Inr (ucast a + ucast off, after_operands 1 s)"
    using effective_address_is [OF assms(2,1)] by (simp add: a_def numeral_2_eq_2)
  have at: "address = unat a + unat off" by (simp add: assms(6) accessed_def a_def numeral_2_eq_2)
  have "op_store n pop_value s = ethen (in_memory memory (ucast a + ucast off) n)
      (set_memory_bytes (unat index) memory (unat (ucast (ucast a + ucast off :: u64) :: u32)) (le_bytes n v)) (after_operands 1 s)"
    by (simp add: op_store_def ebind_def [of get_memory] get_memory_is [OF assms(2)] ebind_def [of pop_value] pop
        ebind_def [of effective_address] ea [simplified] flip: assms(5))
  then show ?thesis using in_memory_is [OF w assms(3), of a off] w
    by (simp add: ebind_def at wf_memory_def set_memory_bytes_def eupdate_def with_memory_def)
qed

lemma overwritten:
  assumes "at + length bs \<le> length xs"
  shows "take (length bs) (drop at (overwrite xs at bs)) = bs"
    and "pos + m \<le> at \<or> at + length bs \<le> pos \<Longrightarrow> take m (drop pos (overwrite xs at bs)) = take m (drop pos xs)"
    and "length (overwrite xs at bs) = length xs"
proof -
  show "take (length bs) (drop at (overwrite xs at bs)) = bs" "length (overwrite xs at bs) = length xs"
    using assms by (simp_all add: overwrite_def)
  let ?ys = "overwrite xs at bs"
  assume "pos + m \<le> at \<or> at + length bs \<le> pos"
  then show "take m (drop pos ?ys) = take m (drop pos xs)"
  proof
    assume le: "pos + m \<le> at"
    have "take at ?ys = take at xs" using assms by (simp add: overwrite_def)
    then have "take (pos + m) ?ys = take (pos + m) xs" using le by (metis min.absorb2 min.commute take_take)
    then show ?thesis by (simp add: take_drop add.commute)
  next
    assume le: "at + length bs \<le> pos"
    have "drop (at + length bs) ?ys = drop (at + length bs) xs" using assms by (simp add: overwrite_def)
    then have "drop pos ?ys = drop pos xs" using le by (metis drop_drop le_add_diff_inverse2)
    then show ?thesis by simp
  qed
qed

lemma load_after_store:
  assumes "wf_state s" "memory_operands 1 s index off" "n \<le> 8" "(pop_value, f) \<in> stored_values"
    and "op_store n pop_value s = Inr ((), s')"
    and "wf_state t" "t_env t = t_env s'" "memory_operands 0 t index' off'" "m \<le> 8"
  shows "index' = index \<and> accessed 0 t off' = accessed 1 s off \<and> m = n
      \<longrightarrow> op_load m push_value t = push_value (take_bit (8 * n) (f (t_value_stack s ! (t_value_stack_top s - 1)))) (after_operands 0 t)"
    and "index' \<noteq> index \<or> accessed 0 t off' + m \<le> accessed 1 s off \<or> accessed 1 s off + n \<le> accessed 0 t off'
      \<longrightarrow> (\<forall>memory. memory = env_memories (t_env s) ! unat index' \<longrightarrow>
           op_load m push_value t = (if accessed 0 t off' + m \<le> length (mem_data memory)
             then push_value (le_word m (take m (drop (accessed 0 t off') (mem_data memory)))) (after_operands 0 t)
             else Inl (Stopped TRAP_MEMORY_ACCESS_OUT_OF_BOUNDS, after_operands 0 t)))"
proof -
  define a where "a = accessed 1 s off"
  define memory where "memory = env_memories (t_env s) ! unat index"
  define v where "v = f (t_value_stack s ! (t_value_stack_top s - 1))"
  from assms(5) have fit: "a + n \<le> length (mem_data memory)"
    and s': "s' = with_memory (unat index) (memory\<lparr>mem_data := overwrite (mem_data memory) a (le_bytes n v)\<rparr>) (after_operands 1 s)"
    by (auto simp: op_store_is [OF assms(1-4) memory_def a_def v_def] split: if_splits)
  have mems: "env_memories (t_env t) = (env_memories (t_env s))[unat index := memory\<lparr>mem_data := overwrite (mem_data memory) a (le_bytes n v)\<rparr>]"
    by (simp add: assms(7) s' with_memory_def after_operands_def)
  have i: "unat index < length (env_memories (t_env s))" using assms(2) by (simp add: memory_operands_def)
  note load = op_load_is [OF assms(6,8,9) refl refl, of push_value]
  note o = overwritten [of a "le_bytes n v" "mem_data memory", simplified, OF fit]
  have read: "le_word n (le_bytes n v) = take_bit (8 * n) v" using le_word_le_bytes [of n n v "[]"] by simp
  show "index' = index \<and> accessed 0 t off' = accessed 1 s off \<and> m = n
      \<longrightarrow> op_load m push_value t = push_value (take_bit (8 * n) (f (t_value_stack s ! (t_value_stack_top s - 1)))) (after_operands 0 t)"
  proof (fold a_def v_def, intro impI, elim conjE)
    assume same: "index' = index" "accessed 0 t off' = a" "m = n"
    have "mem_data (env_memories (t_env t) ! unat index') = overwrite (mem_data memory) a (le_bytes n v)"
      using i by (simp add: mems same)
    then have "op_load m push_value t = push_value (le_word n (take n (drop a (overwrite (mem_data memory) a (le_bytes n v))))) (after_operands 0 t)"
      using fit by (simp only: load) (simp add: same o)
    also have "le_word n (take n (drop a (overwrite (mem_data memory) a (le_bytes n v)))) = take_bit (8 * n) v"
      using o(1) read by simp
    finally show "op_load m push_value t = push_value (take_bit (8 * n) v) (after_operands 0 t)" .
  qed
  show "index' \<noteq> index \<or> accessed 0 t off' + m \<le> accessed 1 s off \<or> accessed 1 s off + n \<le> accessed 0 t off'
      \<longrightarrow> (\<forall>memory. memory = env_memories (t_env s) ! unat index' \<longrightarrow>
           op_load m push_value t = (if accessed 0 t off' + m \<le> length (mem_data memory)
             then push_value (le_word m (take m (drop (accessed 0 t off') (mem_data memory)))) (after_operands 0 t)
             else Inl (Stopped TRAP_MEMORY_ACCESS_OUT_OF_BOUNDS, after_operands 0 t)))"
  proof (intro impI allI)
    fix mem
    assume apart: "index' \<noteq> index \<or> accessed 0 t off' + m \<le> accessed 1 s off \<or> accessed 1 s off + n \<le> accessed 0 t off'"
      and mem: "mem = env_memories (t_env s) ! unat index'"
    have "mem_data (env_memories (t_env t) ! unat index') = (if index' = index then overwrite (mem_data memory) a (le_bytes n v) else mem_data mem)"
      using i by (auto simp: mems mem nth_list_update memory_def simp flip: word_unat_eq_iff)
    then have "length (mem_data (env_memories (t_env t) ! unat index')) = length (mem_data mem)"
      "take m (drop (accessed 0 t off') (mem_data (env_memories (t_env t) ! unat index'))) = take m (drop (accessed 0 t off') (mem_data mem))"
      using apart o(2) [of "accessed 0 t off'" m] o(3) mem by (auto simp: memory_def [symmetric] a_def)
    then show "op_load m push_value t = (if accessed 0 t off' + m \<le> length (mem_data mem)
        then push_value (le_word m (take m (drop (accessed 0 t off') (mem_data mem)))) (after_operands 0 t)
        else Inl (Stopped TRAP_MEMORY_ACCESS_OUT_OF_BOUNDS, after_operands 0 t))" by (simp only: load)
  qed
qed

subsection \<open>Integers\<close>

lemma sint_word_of_int:
  "- (2 ^ (LENGTH('a) - 1)) \<le> i \<Longrightarrow> i < 2 ^ (LENGTH('a) - 1) \<Longrightarrow> sint (word_of_int i :: 'a :: len word) = i"
  by (simp add: sint_sbintrunc' signed_take_bit_int_eq_self)

lemma signed_min_iff: "lhs = signed_min \<longleftrightarrow> sint (lhs :: 'a :: len word) = - (2 ^ (LENGTH('a) - 1))"
proof -
  have "(2 :: 'a word) ^ LENGTH('a) = 0" by simp
  moreover have "(2 :: 'a word) ^ LENGTH('a) = 2 ^ (LENGTH('a) - 1) + 2 ^ (LENGTH('a) - 1)"
    by (cases "LENGTH('a)") simp_all
  ultimately have "signed_min = (- (2 ^ (LENGTH('a) - 1)) :: 'a word)" by (simp add: signed_min_def push_bit_eq_mult eq_neg_iff_add_eq_0)
  also have "\<dots> = word_of_int (- (2 ^ (LENGTH('a) - 1)))" by simp
  finally have m: "signed_min = (word_of_int (- (2 ^ (LENGTH('a) - 1))) :: 'a word)" .
  have "sint (word_of_int (- (2 ^ (LENGTH('a) - 1))) :: 'a word) = - (2 ^ (LENGTH('a) - 1))"
    by (rule sint_word_of_int) simp_all
  then have "sint (signed_min :: 'a word) = - (2 ^ (LENGTH('a) - 1))" by (simp only: m)
  then show ?thesis by (metis signed_word_eqI)
qed

text \<open>C only leaves the quotient undefined that the code tests for.\<close>

lemma quotient_fits:
  fixes lhs rhs :: "'a :: len word"
  shows "lhs = signed_min \<and> rhs = - 1 \<longleftrightarrow> 2 ^ (LENGTH('a) - 1) \<le> sint lhs sdiv sint rhs"
    and "- (2 ^ (LENGTH('a) - 1)) \<le> sint lhs sdiv sint rhs"
proof -
  let ?m = "2 ^ (LENGTH('a) - 1) :: int"
  have l: "- ?m \<le> sint lhs" "sint lhs < ?m" by (rule sint_ge, rule sint_lt)
  have r: "rhs = - 1 \<longleftrightarrow> sint rhs = - 1" by (metis signed_word_eqI sint_n1)
  have q: "- \<bar>sint lhs\<bar> \<le> sint lhs sdiv sint rhs" "sint lhs sdiv sint rhs \<le> \<bar>sint lhs\<bar>"
    using sdiv_int_range [of "sint lhs" "sint rhs"] by simp_all
  show "- ?m \<le> sint lhs sdiv sint rhs" using q(1) l by linarith
  show "lhs = signed_min \<and> rhs = - 1 \<longleftrightarrow> ?m \<le> sint lhs sdiv sint rhs"
  proof
    assume "lhs = signed_min \<and> rhs = - 1"
    then show "?m \<le> sint lhs sdiv sint rhs" by (simp add: signed_min_iff r)
  next
    assume "?m \<le> sint lhs sdiv sint rhs"
    then have "sint lhs = - ?m" "sint lhs sdiv sint rhs = - sint lhs" using q(2) l by linarith+
    moreover have "sint lhs \<noteq> 0" using calculation(1) by simp
    ultimately have "sint rhs = - 1" using int_sdiv_negated_is_minus1 by blast
    with \<open>sint lhs = - ?m\<close> show "lhs = signed_min \<and> rhs = - 1" by (simp add: signed_min_iff r)
  qed
qed

lemma div_s_is:
  "div_s pop_value push_value = ebind pop_value (\<lambda>rhs. ebind pop_value (\<lambda>lhs :: 'a :: len word.
     if rhs = 0 then trap TRAP_INTEGER_DIVIDE_BY_ZERO
     else if sint lhs sdiv sint rhs < 2 ^ (LENGTH('a) - 1) then push_value (word_of_int (sint lhs sdiv sint rhs))
     else trap TRAP_INTEGER_OVERFLOW))"
proof -
  have "ethen (trap_if (rhs = 0) TRAP_INTEGER_DIVIDE_BY_ZERO) (ethen (trap_if (lhs = signed_min \<and> rhs = - 1) TRAP_INTEGER_OVERFLOW)
        (push_value (word_of_int (sint lhs sdiv sint rhs))))
      = (if rhs = 0 then trap TRAP_INTEGER_DIVIDE_BY_ZERO
         else if sint lhs sdiv sint rhs < 2 ^ (LENGTH('a) - 1) then push_value (word_of_int (sint lhs sdiv sint rhs))
         else trap TRAP_INTEGER_OVERFLOW)" for lhs rhs :: "'a word"
    using quotient_fits(1) [of lhs rhs] by (auto simp: trap_if_def ebind_def trap_def eret_def)
  then show ?thesis by (simp only: div_s_def)
qed

lemma rem_s_is:
  "rem_s pop_value push_value = ebind pop_value (\<lambda>rhs. ebind pop_value (\<lambda>lhs :: 'a :: len word.
     if rhs = 0 then trap TRAP_INTEGER_DIVIDE_BY_ZERO else push_value (word_of_int (sint lhs smod sint rhs))))"
proof -
  have "sint lhs smod sint rhs = 0" if "rhs = - 1" for lhs rhs :: "'a word" using that by (simp add: signed_modulo_int_def)
  then have "ethen (trap_if (rhs = 0) TRAP_INTEGER_DIVIDE_BY_ZERO)
        (push_value (if lhs = signed_min \<and> rhs = - 1 then 0 else word_of_int (sint lhs smod sint rhs)))
      = (if rhs = 0 then trap TRAP_INTEGER_DIVIDE_BY_ZERO else push_value (word_of_int (sint lhs smod sint rhs)))" for lhs rhs :: "'a word"
    by (auto simp: trap_if_def ebind_def trap_def eret_def)
  then show ?thesis by (simp only: rem_s_def)
qed

text \<open>The results are in range, so the words are read back as these numbers.\<close>

lemma quotient_read: "sint lhs sdiv sint rhs < 2 ^ (LENGTH('a) - 1) \<Longrightarrow>
    sint (word_of_int (sint lhs sdiv sint rhs) :: 'a :: len word) = sint (lhs :: 'a word) sdiv sint (rhs :: 'a word)"
  using quotient_fits(2) [of lhs rhs] by (simp add: sint_word_of_int)

lemma remainder_read:
  fixes lhs rhs :: "'a :: len word"
  assumes "rhs \<noteq> 0"
  shows "sint (word_of_int (sint lhs smod sint rhs) :: 'a word) = sint lhs smod sint rhs"
proof -
  have "sint rhs \<noteq> 0" using assms by (metis signed_word_eqI signed_0)
  then have "sint lhs smod sint rhs \<in> {- \<bar>sint rhs\<bar> + 1 .. \<bar>sint rhs\<bar> - 1}" by (rule smod_int_range)
  moreover have "- (2 ^ (LENGTH('a) - 1)) \<le> sint rhs" "sint rhs < 2 ^ (LENGTH('a) - 1)" by (rule sint_ge, rule sint_lt)
  ultimately show ?thesis by (intro sint_word_of_int) auto
qed

subsection \<open>Rotations and bit counts\<close>

lemma shift_amount_mod:
  fixes rhs :: "'a :: len word"
  assumes "LENGTH('a) = 2 ^ k"
  shows "shift_amount rhs = unat rhs mod LENGTH('a)"
proof -
  have "(word_of_nat (LENGTH('a) - 1) :: 'a word) = mask k" by (simp add: assms mask_eq_exp_minus_1 of_nat_diff)
  then have "shift_amount rhs = unat (take_bit k rhs)" by (simp add: shift_amount_def take_bit_eq_mask)
  also have "\<dots> = take_bit k (unat rhs)" by (simp only: unsigned_take_bit_eq)
  finally show ?thesis by (simp only: take_bit_eq_mod assms)
qed

lemma rotations:
  fixes lhs rhs :: "'a :: len word"
  assumes "LENGTH('a) = 2 ^ k"
  shows "int_rotl lhs rhs = word_rotl (unat rhs) lhs" "int_rotr lhs rhs = word_rotr (unat rhs) lhs"
proof -
  define q where "q = unat rhs mod LENGTH('a)"
  have q: "q < LENGTH('a)" by (simp add: q_def)
  have amount: "shift_amount rhs = q" by (simp add: shift_amount_mod [OF assms] q_def)
  have "(n + unat rhs) mod LENGTH('a) = (n + q) mod LENGTH('a)" for n unfolding q_def by presburger
  then have "bit (word_rotr (unat rhs) lhs) n \<longleftrightarrow> n < LENGTH('a) \<and> bit lhs ((n + q) mod LENGTH('a))" for n
    by (simp add: bit_word_rotr_iff)
  moreover have "bit (int_rotr lhs rhs) n \<longleftrightarrow> bit lhs ((n + q) mod LENGTH('a))" if "n < LENGTH('a)" for n
    using q that by (cases "LENGTH('a) \<le> q + n")
      (auto simp: int_rotr_def amount Let_def bit_simps le_mod_geq ac_simps dest: bit_imp_le_length)
  ultimately show "int_rotr lhs rhs = word_rotr (unat rhs) lhs" by (intro bit_word_eqI) blast
  have "bit (int_rotl lhs rhs) n \<longleftrightarrow> bit lhs ((n + (LENGTH('a) - q)) mod LENGTH('a))" if "n < LENGTH('a)" for n
    using q that by (cases "q \<le> n")
      (auto simp: int_rotl_def amount Let_def bit_simps le_mod_geq ac_simps dest: bit_imp_le_length)
  then show "int_rotl lhs rhs = word_rotl (unat rhs) lhs"
    by (intro bit_word_eqI) (simp add: bit_word_rotl_iff flip: q_def)
qed

lemma bit_unat: "bit (v :: 'a :: len word) i \<longleftrightarrow> odd (unat v div 2 ^ i)"
proof -
  have "bit v i \<longleftrightarrow> bit (unat v) i" by (auto simp: bit_unsigned_iff possible_bit_def dest: bit_imp_le_length)
  then show ?thesis by (simp only: bit_iff_odd)
qed

text \<open>The bits left of the first one are zero, and the first one is set.\<close>

lemma clz_is:
  fixes v :: "'a :: len word"
  assumes "v \<noteq> 0"
  shows "\<exists>n < LENGTH('a). int_clz v = word_of_nat n \<and> bit v (LENGTH('a) - 1 - n) \<and> (\<forall>i. LENGTH('a) - 1 - n < i \<longrightarrow> \<not> bit v i)"
proof -
  define w where "w = bit_width (unat v)"
  have "0 < unat v" using assms by (simp add: unat_gt_0)
  then have b: "2 ^ (w - 1) \<le> unat v" "unat v < 2 ^ w" "0 < w" using f32.bit_width_ge [of "unat v"] by (simp_all add: w_def)
  have "unat v < 2 ^ LENGTH('a)" by (rule unsigned_less)
  with b(1) have "(2 :: nat) ^ (w - 1) < 2 ^ LENGTH('a)" by (rule le_less_trans)
  then have le: "w \<le> LENGTH('a)" using b(3) by (simp add: power_strict_increasing_iff)
  have "unat v div 2 ^ (w - 1) = 1"
  proof -
    have "unat v < 2 * 2 ^ (w - 1)" using b(2,3) by (cases w) simp_all
    then show ?thesis using b(1) by (intro div_nat_eqI) simp_all
  qed
  then have "bit v (w - 1)" by (simp add: bit_unat)
  moreover have "\<not> bit v i" if "w - 1 < i" for i
  proof -
    have "w \<le> i" using that b(3) by simp
    then have "unat v < 2 ^ i" using b(2) by (meson less_le_trans one_le_numeral power_increasing)
    then have "unat v div 2 ^ i = 0" by simp
    then show ?thesis by (simp add: bit_unat)
  qed
  moreover have "int_clz v = word_of_nat (LENGTH('a) - w)"
    using assms le by (simp add: int_clz_def clz_def of_nat_diff flip: w_def)
  moreover have "LENGTH('a) - w < LENGTH('a)" using b(3) le by simp
  moreover have "LENGTH('a) - 1 - (LENGTH('a) - w) = w - 1" using b(3) le by simp
  ultimately show ?thesis by metis
qed

lemma ctz_from_is:
  "\<exists>j. i \<le> j \<and> j < i + k \<and> bit v j \<Longrightarrow>
     i \<le> ctz_from k i v \<and> ctz_from k i v < i + k \<and> bit v (ctz_from k i v) \<and> (\<forall>j. i \<le> j \<longrightarrow> j < ctz_from k i v \<longrightarrow> \<not> bit v j)"
proof (induction k arbitrary: i)
  case 0
  then show ?case by auto
next
  case (Suc k)
  show ?case
  proof (cases "bit v i")
    case False
    then obtain j where "Suc i \<le> j" "j < Suc i + k" "bit v j"
      using Suc.prems by (metis Suc_leI add_Suc_right add_Suc le_neq_implies_less)
    then have "\<exists>j. Suc i \<le> j \<and> j < Suc i + k \<and> bit v j" by blast
    from Suc.IH [OF this] False show ?thesis by (auto simp: Suc_le_eq) (metis nat_less_le)
  qed auto
qed

lemma ctz_is:
  fixes v :: "'a :: len word"
  assumes "v \<noteq> 0"
  shows "\<exists>n < LENGTH('a). int_ctz v = word_of_nat n \<and> bit v n \<and> (\<forall>i < n. \<not> bit v i)"
proof -
  have "\<exists>j. 0 \<le> j \<and> j < 0 + LENGTH('a) \<and> bit v j" using assms by (metis add_0 bit_0_eq bit_imp_le_length bit_word_eqI bot_apply bot_bool_def le0)
  from ctz_from_is [OF this] assms show ?thesis by (intro exI [of _ "ctz_from LENGTH('a) 0 v"]) (simp add: int_ctz_def)
qed

end
