(* ===== verification/Wabt_Findings_Interp.thy ===== *)
theory Wabt_Findings_Interp
  imports Wabt_Interpreter_Slices Wabt_Float_Order Wabt_Interpreter_Facts
begin

text \<open>
  A small machine on which the theorems about the interpreter are evaluated, and inputs on which
  its code misbehaves.
\<close>

unbundle bit_operations_syntax

definition sample_machine :: Machine where
  "sample_machine = \<lparr>nan32 = (\<lambda>_. 0x7fc00000), nan64 = (\<lambda>_. 0x7ff8000000000000), nan_promote = (\<lambda>_. 0x7ff8000000000000),
     realloc_ok = (\<lambda>_. True), callback = (\<lambda>_. default_host_callback)\<rparr>"

definition sample_memory :: WasmInterpreterMemory where
  "sample_memory = \<lparr>mem_data = [], mem_page_limits = \<lparr>limits_initial = 0, limits_max = 1, limits_has_max = True\<rparr>, mem_byte_size = 0\<rparr>"

definition sample_env :: "byte list \<Rightarrow> WasmInterpreterEnvironment" where
  "sample_env code = \<lparr>env_modules = [], env_sigs = [], env_funcs = [], env_memories = [sample_memory], env_tables = [], env_globals = [],
     env_istream = code, env_module_bindings = empty_hash, env_registered_module_bindings = empty_hash\<rparr>"

definition sample_thread :: "byte list \<Rightarrow> nat \<Rightarrow> WasmInterpreterThread" where
  "sample_thread code slots = \<lparr>t_env = sample_env code, t_value_stack = replicate slots 0, t_value_stack_top = 0,
     t_call_stack = [0], t_call_stack_top = 0, t_pc = 0\<rparr>"

text \<open>Two constants, their sum, and back.\<close>

definition sample_code :: "byte list" where
  "sample_code = [0x41, 2, 0, 0, 0, 0x41, 3, 0, 0, 0, 0x6a, 0x0f]"

lemma wf_sample_thread: "length code < 2 ^ 32 \<Longrightarrow> wf_state (sample_thread code n)"
  by (simp add: wf_state_def sample_thread_def sample_env_def sample_memory_def wf_memory_def)

text \<open>Where the opcodes of the samples lead.\<close>

lemma sample_opcodes:
  "map_of (interpreter_cases M rt) 0x41 = Some (ebind read_u32 push_i32)"
  "map_of (interpreter_cases M rt) 0x6a = Some (binop pop_i32 push_i32 (+))"
  "map_of (interpreter_cases M rt) 0x0f = Some (op_return rt)"
  by (simp_all add: interpreter_cases_def control_cases_def load_cases_def store_cases_def memory_cases_def i32_cases_def map_add_def)

lemmas step_defs = execute_def ebind_def read_u8_def read_u32_def read_bytes_def istream_bytes_def eget_def eupdate_def eret_def trap_def
  push_i32_def push_with_def low_half_def pop_i32_def pop_def binop_def op_return_def Let_def

lemmas thread_defs = wasm_run_interpreter_def sample_thread_def sample_env_def enter_run_def save_pc_def leave_run_def
  ThreadState.truncate_def ThreadState.extend_def RunState.fields_def WasmInterpreterThread.fields_def

lemma run_loop_numeral:
  "run_loop M rt pc (numeral k) s = (case execute M rt s of
     Inr (_, s') \<Rightarrow> run_loop M rt pc (pred_numeral k) s'
   | Inl (Stopped r, s') \<Rightarrow> Outcome r (if r = WASM_INTERPRETER_RETURNED then save_pc s' else leave_run pc s')
   | Inl (Wrong, _) \<Rightarrow> Failed_Assertion)"
  by (simp add: numeral_eq_Suc)

lemma le_word_4: "le_word 4 bs = push_bit 24 (ucast (bs ! 3)) OR push_bit 16 (ucast (bs ! 2)) OR push_bit 8 (ucast (bs ! 1)) OR ucast (bs ! 0)"
  by (simp add: numeral_eq_Suc)

lemma replicate_two: "replicate 2 x = [x, x]"
  by (simp add: numeral_2_eq_2)

lemma sample_run:
  "wasm_run_interpreter sample_machine 10 0 (sample_thread sample_code 2)
   = Outcome WASM_INTERPRETER_RETURNED ((sample_thread sample_code 2)\<lparr>t_value_stack := [5, 3], t_value_stack_top := 1, t_pc := 12\<rparr>)"
  by (simp add: thread_defs step_defs sample_opcodes sample_code_def run_loop_numeral le_word_4 replicate_two)

subsection \<open>Findings\<close>

text \<open>Locals that fill the stack exactly: the test is made on the new top, with \<open>>=\<close>.\<close>

lemma alloca_exactly_full:
  "op_alloca (enter_run (sample_thread [2, 0, 0, 0] 2)) =
     Inl (Stopped TRAP_VALUE_STACK_EXHAUSTED, (enter_run (sample_thread [2, 0, 0, 0] 2))\<lparr>local_pc := 4, t_value_stack_top := 2\<rparr>)"
  by (simp add: op_alloca_def thread_defs step_defs le_word_4 trap_if_def)

text \<open>After a trap at offset 5 the thread still says that it is at 0.\<close>

lemma trap_keeps_old_pc:
  "wasm_run_interpreter sample_machine 2 0 (sample_thread [0x41, 7, 0, 0, 0, 0x00] 1)
     = Outcome TRAP_UNREACHABLE ((sample_thread [0x41, 7, 0, 0, 0, 0x00] 1)\<lparr>t_value_stack := [7], t_value_stack_top := 1\<rparr>)"
proof -
  have "map_of (interpreter_cases M rt) 0 = Some (trap TRAP_UNREACHABLE)" for M rt
    by (simp add: interpreter_cases_def control_cases_def load_cases_def map_add_def)
  then show ?thesis by (simp add: thread_defs step_defs sample_opcodes run_loop_numeral le_word_4)
qed

text \<open>Growing a memory of one page by \<open>0xffffffff\<close> pages: the size wraps to none, and the rest is undefined.\<close>

definition one_page_thread :: "byte list \<Rightarrow> RunState" where
  "one_page_thread code = (enter_run (sample_thread code 1))\<lparr>
     t_env := (sample_env code)\<lparr>env_memories := [\<lparr>mem_data = replicate 65536 0,
       mem_page_limits = \<lparr>limits_initial = 1, limits_max = 0, limits_has_max = False\<rparr>, mem_byte_size = 65536\<rparr>]\<rparr>,
     t_value_stack := [0xffffffff], t_value_stack_top := 1\<rparr>"

lemma wf_one_page: "wf_state (one_page_thread [0, 0, 0, 0, 4, 0, 0, 0])"
  by (simp add: wf_state_def one_page_thread_def thread_defs wf_memory_def)

lemma operands_one_page: "memory_operands 0 (one_page_thread [0, 0, 0, 0, 4, 0, 0, 0]) 0 4"
  by (simp add: memory_operands_def one_page_thread_def thread_defs le_bytes_def upt_rec)

lemma accessed_one_page: "accessed 0 (one_page_thread [0, 0, 0, 0, 4, 0, 0, 0]) 4 = 0x100000003"
  by (simp add: accessed_def one_page_thread_def thread_defs)

lemma one_page_memory: "length (mem_data (env_memories (t_env (one_page_thread code)) ! 0)) = 65536"
  by (simp add: one_page_thread_def)

text \<open>A store of four bytes at 12, and a load from there.\<close>

definition sample_storing :: RunState where
  "sample_storing = (one_page_thread [0, 0, 0, 0, 4, 0, 0, 0])\<lparr>t_value_stack := [8, 0xaa12345678], t_value_stack_top := 2\<rparr>"

definition sample_memory_stored :: WasmInterpreterMemory where
  "sample_memory_stored = (env_memories (t_env sample_storing) ! 0)\<lparr>mem_data := overwrite (replicate 65536 0) 12 (le_bytes 4 (0xaa12345678 :: u64))\<rparr>"

definition sample_loading :: RunState where
  "sample_loading = (with_memory 0 sample_memory_stored (after_operands 1 sample_storing))\<lparr>local_pc := 0, t_value_stack_top := 1\<rparr>"

lemma sample_storing:
  "wf_state sample_storing" "memory_operands 1 sample_storing 0 4" "(pop_i64, id) \<in> stored_values"
  by (simp_all add: wf_state_def sample_storing_def one_page_thread_def thread_defs wf_memory_def memory_operands_def le_bytes_def upt_rec
      stored_values_def)

lemma sample_storing_value: "t_value_stack sample_storing ! (t_value_stack_top sample_storing - 1) = 0xaa12345678"
  by (simp add: sample_storing_def)

lemma sample_storing_accessed: "accessed 1 sample_storing 4 = 12" "accessed 0 sample_loading 4 = 12"
  by (simp_all add: accessed_def sample_storing_def sample_loading_def with_memory_def after_operands_def)

lemma sample_stored: "op_store 4 pop_i64 sample_storing = Inr ((), with_memory 0 sample_memory_stored (after_operands 1 sample_storing))"
proof -
  have m: "env_memories (t_env sample_storing) ! unat 0 = sample_memory_stored\<lparr>mem_data := replicate 65536 0\<rparr>"
    by (simp add: sample_memory_stored_def sample_storing_def one_page_thread_def)
  show ?thesis using op_store_is [OF sample_storing(1,2) _ sample_storing(3) refl refl refl, of 4]
    unfolding m sample_storing_accessed sample_storing_value by (simp add: sample_memory_stored_def)
qed

lemma sample_loading:
  "wf_state sample_loading" "t_env sample_loading = t_env (with_memory 0 sample_memory_stored (after_operands 1 sample_storing))"
  "memory_operands 0 sample_loading 0 4"
  by (simp_all add: wf_state_def sample_loading_def with_memory_def after_operands_def sample_storing_def one_page_thread_def thread_defs
      wf_memory_def memory_operands_def sample_memory_stored_def length_overwrite le_bytes_def upt_rec)

lemma sample_loading_accessed: "accessed 0 sample_loading 4 = accessed 1 sample_storing 4"
  by (simp only: sample_storing_accessed)

lemma grow_memory_wraps: "fst (projl (op_grow_memory sample_machine (one_page_thread [0, 0, 0, 0]))) = Wrong"
  by (simp add: op_grow_memory_def get_memory_def nth_checked_def one_page_thread_def thread_defs step_defs le_word_4
      sample_machine_def WASM_PAGE_SIZE_def WASM_MAX_PAGES_def eassert_def wrong_def)

text \<open>A host function that traps: the program goes on.\<close>

lemma host_trap_swallowed:
  assumes "callback M cb sig args = (WASM_ERROR, [])"
  shows "ignore_result (case callback M cb sig args of
      (r, results) \<Rightarrow> ethen (trap_if (r \<noteq> WASM_OK) TRAP_HOST_TRAPPED) (push_results ts results)) s = Inr ((), s)"
  by (simp add: assms ignore_result_def ebind_def trap_if_def trap_def)

text \<open>\<open>i32.trunc_s/f64\<close> of 2147483647.5 traps, though the integer part fits.\<close>

lemma trunc_too_strict:
  "\<not> is_in_range_i32_trunc_s_f64 0x41dfffffffe00000" "f_to_int F64 0x41dfffffffe00000 = Some 2147483647"
  by (simp_all add: is_in_range_i32_trunc_s_f64_def f_to_int_def f_is_nan_def f_is_inf_def f_exp_def f_sig_def F64_def
      whole_trunc_def f_val_def f_neg_def f_mag_def f_one_def f_scale_def)

end
