(* ===== verification/Spec2Isabelle.thy ===== *)
theory Spec2Isabelle
  imports Wabt_Findings_Text Wabt_Names_Round Wabt_Names_Generated Wabt_Findings_Interp
begin

text \<open>
  A verification of the core of the WebAssembly binary toolkit under \<^verbatim>\<open>src/src\<close>: the
  binary format writer and reader, the codecs and the growing output buffer they stand on, the
  abstract syntax with its name tables, the validator, the three passes over names, number
  literals, and the interpreter.

  \<^bold>\<open>The program.\<close> The tools turn a module's abstract syntax (\<^verbatim>\<open>ast.h\<close>) into bytes with
  \<open>wasm_write_binary_module\<close> (\<^verbatim>\<open>binary-writer.c\<close>), which writes through a stream
  (\<^verbatim>\<open>stream.c\<close>) into a writer (\<^verbatim>\<open>writer.c\<close>); names are looked up in binding hashes
  (\<^verbatim>\<open>binding-hash.c\<close>). \<open>wasm_read_binary\<close> (\<^verbatim>\<open>binary-reader.c\<close>) walks bytes and calls the
  members of a reader object (\<^verbatim>\<open>binary-reader.h\<close>); the one of \<^verbatim>\<open>binary-reader-ast.c\<close> builds a
  module from these calls. A module that comes from text has names: \<open>wasm_resolve_names_module\<close>
  (\<^verbatim>\<open>resolve-names.c\<close>) replaces them by indices, \<open>wasm_validate_script\<close> (\<^verbatim>\<open>validator.c\<close>) checks
  its types. For output as text, \<open>wasm_generate_names\<close> and \<open>wasm_apply_names\<close>
  (\<^verbatim>\<open>generate-names.c\<close>, \<^verbatim>\<open>apply-names.c\<close>) go the other way. The passes walk expressions with the
  visitor of \<^verbatim>\<open>ast.c\<close>. Numbers in the text are read and written by \<^verbatim>\<open>literal.c\<close>.
  The interpreter (\<^verbatim>\<open>interpreter.c\<close>) runs the code of a stack machine; \<^verbatim>\<open>tools/wasm-interp.c\<close> calls
  functions in it, a number of instructions at a time.

  \<^bold>\<open>The theories.\<close>
  \<^item> \<open>Wabt_Prelude\<close>: types and lemmas on bytes, words and lists that all parts share.
  \<^item> \<open>Wabt_Leb128\<close>: the LEB128 encoders and decoders; the locale \<open>codec\<close> states that a decoder
    recognises an encoding whatever follows it, and is interpreted for the four pairs in use.
  \<^item> \<open>Wabt_Common\<close>: types, external kinds, limits, string slices and the opcode table of
    \<^verbatim>\<open>common.h\<close>.
  \<^item> \<open>Wabt_Writer\<close>: the memory writer and the stream; the locale \<open>byte_writer\<close> is what a stream
    needs of a writer, interpreted for the memory writer.
  \<^item> \<open>Wabt_Binding_Hash\<close>: the name tables. \<open>Wabt_Ast\<close>: modules, expressions and queries.
  \<^item> \<open>Wabt_Binary_Writer\<close>: the writer, section by section. \<open>Wabt_Binary_Format\<close>: the format as
    a function \<open>enc_module\<close> from modules to bytes, with no stream, offset or patching in it.
    \<open>Wabt_Writer_Correct\<close>: inside \<open>byte_writer\<close>, the writer produces \<open>enc_module\<close>.
  \<^item> \<open>Wabt_Reader_Events\<close>: one event per member of the reader object. \<open>Wabt_Binary_Reader\<close>: the
    reader; an error is a value of the model, and so is a read outside the data.
  \<^item> \<open>Wabt_Reads\<close>, \<open>Wabt_Round_Expr\<close>, \<open>Wabt_Round_Items\<close>, \<open>Wabt_Round_Trip\<close>: what the reader
    does on the bytes of \<open>enc_module\<close>, from scalars to expressions, items and sections.
  \<^item> \<open>Wabt_Hash_Correct\<close>: the structural invariant of the name tables; the locale \<open>name_table\<close> is
    what the users of a table rely on, interpreted for the binding hash.
  \<^item> \<open>Wabt_Reader_Ast\<close>: the reader object that builds a module. \<open>Wabt_Ast_Builder\<close>: its label stack
    rebuilds the expressions. \<open>Wabt_Ast_Read_Back\<close>: section by section, it builds \<open>resolved_module\<close>.
    \<open>Wabt_Ast_Stable\<close>: that module has the encoding of the one it came from.
  \<^item> \<open>Wabt_Sample\<close>, \<open>Wabt_Whole_Module\<close>: whole modules, and samples on which the theorems are
    evaluated. \<open>Wabt_Findings\<close>, \<open>Wabt_Findings_Text\<close>: inputs on which the code misbehaves,
    evaluated.
  \<^item> \<open>Wabt_Validator\<close>: \<^verbatim>\<open>validator.c\<close> over modules. \<open>Wabt_Typing\<close>: the typing rules as an
    inductive relation, and the checker accepts what they allow; \<open>Wabt_Typing_Sound\<close>: it accepts
    nothing else. \<open>Wabt_Validity\<close>: the same for the fields of a module.
  \<^item> \<open>Wabt_Visitor\<close>: the expression visitor. \<open>Wabt_Resolve_Names\<close>: the resolver;
    \<open>Wabt_Resolve_Correct\<close>: it computes \<open>ref_module\<close>, scoping as a function. \<open>Wabt_Resolved_Valid\<close>:
    what it yields meets the assumptions of the validator. \<open>Wabt_Script\<close>: scripts and their
    commands, resolved and validated.
  \<^item> \<open>Wabt_Generate_Names\<close>, \<open>Wabt_Names_Generated\<close>: fresh names and where they lead.
    \<open>Wabt_Apply_Names\<close>, \<open>Wabt_Names_Round\<close>: names for indices, which the resolver undoes.
  \<^item> \<open>Wabt_Literal\<close>: numbers, one model for both float widths over the record \<open>FloatFormat\<close> of their
    constants. \<open>Wabt_Literal_Round\<close>: the locale \<open>float_format\<close> states how the constants fit
    together, \<open>float_text\<close> what the exponent writer promises; both are interpreted for 32 and 64 bits.
  \<^item> \<open>Wabt_Float\<close>: the floating point operations of C, on bits. \<open>Wabt_Interpreter\<close>: threads, the
    stacks, calls. \<open>Wabt_Interpreter_Run\<close>: the instructions, one table per group of cases of the
    switch, and the run loop. \<open>Wabt_Interpreter_Tool\<close>: the calls of the tool.
  \<^item> \<open>Wabt_Interpreter_Inv\<close>: what every instruction keeps, by rules for the steps it is made of
    (the collection \<open>kept\<close>). \<open>Wabt_Interpreter_Slices\<close>: slices make no difference.
    \<open>Wabt_Interpreter_Facts\<close>: loads, stores, division, rotations, bit counts. \<open>Wabt_Float_Order\<close>:
    the order of floats is that of their bits, hence the tests of the truncations, minimum and
    maximum. \<open>Wabt_Findings_Interp\<close>: samples and findings.

  \<^bold>\<open>State and errors.\<close> A C struct is a record, a tagged union a datatype. A stream operation
  returns the updated stream. A reading operation returns the updated \<open>Context\<close> with a value, or
  a fault with the context at that point, which is what \<open>longjmp\<close> leaves. 32 and 64 bit values are
  words; sizes and offsets (\<open>size_t\<close>) are natural numbers. Where C code follows pointers into a
  tree, a pointer is a path, and what C leaves undefined sets a flag that the theorems show to
  stay down. In the interpreter an assertion that fails, or an access outside of an array, ends the
  step with \<open>Wrong\<close>; the record \<open>Machine\<close> holds what the code does not determine: the NaNs that
  arithmetic makes, whether \<open>realloc\<close> succeeds, and the host functions.

  \<^bold>\<open>Loops.\<close> The loops of the writer follow lists. The loop over sections and the loop over the
  instructions of a body are functions with termination proofs: each round consumes input. The
  walks along the chains of a binding hash have the capacity of the table as fuel, which no chain
  without a cycle exceeds. The loop that writes the digits of a significand has the number of
  nybbles of the word as fuel; \<open>nybble_loop_ends\<close> shows that more changes nothing. A slice of the
  interpreter is bounded by its number of instructions; the loop over slices need not end and is
  a partial function, with no value where it does not.

  \<^bold>\<open>Not modelled.\<close> Allocation and destruction, files and printing (the log stream, the logging
  reader, error messages beyond their format and arguments), source locations, the generated lexer
  and parser, and the tools' command lines. Decimal floats are read by the C library: \<open>strtof\<close> and
  \<open>strtod\<close> are parameters. Of the
  interpreter, the reader that compiles modules to its code (\<^verbatim>\<open>binary-reader-interpreter.c\<close>),
  tracing and the JSON commands of the tool.
\<close>

unbundle bit_operations_syntax

subsection \<open>Whole modules\<close>

definition empty_module_bytes :: "byte list" where
  "empty_module_bytes = [0x00, 0x61, 0x73, 0x6d, 0x0d, 0x00, 0x00, 0x00]"

lemma read_empty_module:
  "\<not> isl (read_module (init_context empty_module_bytes (plain_reader (\<lambda>_ _ _ u. u) record_event)
     \<lparr>read_debug_names = False\<rparr> []))"
  by code_simp

lemma not_isl_unit_iff: "\<not> isl r \<longleftrightarrow> (\<exists>x. r = Inr ((), x))"
  by (cases r) auto

lemmas header_defs = wasm_read_binary_def read_module_def read_header_def rbind_def in_u32_def in_size_def
  init_context_def raise_error_unless_def raise_error_def rret_def get_user_context_def










text \<open>
  C6. When the reader succeeds it has consumed the data to its last byte: no trailing bytes are
  ignored and the data itself is unchanged.
\<close>

theorem reader_consumes_all:
  assumes "read_module (init_context data reader opts u) = Inr (x, ctx)"
  shows "c_data ctx = data \<and> c_offset ctx = length data"
  using assms read_module_result [of "init_context data reader opts u"] by (auto simp: init_context_def wf_ctx_def)

theorem reader_consumes_all_witness:
  "\<exists>ctx. read_module (init_context empty_module_bytes (plain_reader (\<lambda>_ _ _ u. u) record_event)
       \<lparr>read_debug_names = False\<rparr> []) = Inr ((), ctx) \<and> c_offset ctx = length empty_module_bytes"
proof -
  from read_empty_module obtain ctx where "read_module (init_context empty_module_bytes
      (plain_reader (\<lambda>_ _ _ u. u) record_event) \<lparr>read_debug_names = False\<rparr> []) = Inr ((), ctx)"
    by (auto simp: not_isl_unit_iff)
  with reader_consumes_all [OF this] show ?thesis by blast
qed

text \<open>
  C7. Data of at least four bytes that does not start with the magic number is rejected after
  those four bytes with the error "bad magic value", and no callback but on_error has been made.
\<close>

theorem bad_magic_rejected:
  assumes "4 \<le> length data" and "le_word 4 (take 4 data) \<noteq> WASM_BINARY_MAGIC"
  shows "wasm_read_binary data reader opts u =
    (WASM_ERROR, on_error reader \<lparr>uc_data = data, uc_size = length data, uc_offset = 4\<rparr> ''bad magic value'' [] u)"
  using assms by (simp add: header_defs)

theorem bad_magic_rejected_witness:
  "wasm_read_binary [0, 0, 0, 0, 0] (plain_reader (\<lambda>uc _ _ u. [uc_offset uc]) (\<lambda>ev u. (WASM_OK, u)))
     \<lparr>read_debug_names = False\<rparr> [] = (WASM_ERROR, [4])"
proof -
  have "le_word 4 (take 4 [0, 0, 0, 0, 0]) \<noteq> WASM_BINARY_MAGIC" by code_simp
  then show ?thesis by (simp add: bad_magic_rejected plain_reader_def)
qed

text \<open>
  C8. A file with the right magic number and another version is rejected after eight bytes with
  an error that names both versions.
\<close>

theorem bad_version_rejected:
  assumes "8 \<le> length data" and "le_word 4 (take 4 data) = WASM_BINARY_MAGIC"
    and "le_word 4 (take 4 (drop 4 data)) \<noteq> WASM_BINARY_VERSION"
  shows "wasm_read_binary data reader opts u =
    (WASM_ERROR, on_error reader \<lparr>uc_data = data, uc_size = length data, uc_offset = 8\<rparr>
       ''bad wasm file version: %#x (expected %#x)''
       [ArgInt (uint (le_word 4 (take 4 (drop 4 data)) :: u32)), ArgInt (uint WASM_BINARY_VERSION)] u)"
  using assms by (simp add: header_defs)

theorem bad_version_rejected_witness:
  "wasm_read_binary [0x00, 0x61, 0x73, 0x6d, 1, 0, 0, 0]
     (plain_reader (\<lambda>uc _ args u. [(uc_offset uc, length args)]) (\<lambda>ev u. (WASM_OK, u)))
     \<lparr>read_debug_names = False\<rparr> [] = (WASM_ERROR, [(8, 2)])"
proof -
  let ?data = "[0x00, 0x61, 0x73, 0x6d, 1, 0, 0, 0]"
  have "le_word 4 (take 4 ?data) = WASM_BINARY_MAGIC" "le_word 4 (take 4 (drop 4 ?data)) \<noteq> WASM_BINARY_VERSION"
    by code_simp+
  then show ?thesis by (subst bad_version_rejected) (simp_all add: plain_reader_def)
qed

text \<open>
  C9. Data shorter than the eight bytes of the header is never accepted.
\<close>

theorem short_header_rejected:
  assumes "length data < 8"
  shows "fst (wasm_read_binary data reader opts u) = WASM_ERROR"
  using assms by (simp add: header_defs)

theorem short_header_rejected_witness:
  "fst (wasm_read_binary [0x00, 0x61, 0x73, 0x6d, 0x0d, 0x00, 0x00]
     (plain_reader (\<lambda>_ _ _ u. u) record_event) \<lparr>read_debug_names = False\<rparr> []) = WASM_ERROR"
  by (rule short_header_rejected) simp

subsection \<open>Validation\<close>







lemma init_val_context_ok [simp]: "no_error (init_val_context m)" "v_labels (init_val_context m) = []"
  by (simp_all add: init_val_context_def no_error_def)







subsection \<open>Names\<close>










text \<open>
  C13. The resolver, a walk over the tree that keeps a stack of labels and overwrites variables
  in place, computes the specification of scoping (a function from modules to optional modules
  in which a label name means the innermost enclosing label and other names their index in the
  table): it succeeds, without a failed assertion, exactly when every name is bound and no table
  binds a name twice, and then yields that module and nothing else is changed or reported.
\<close>

theorem resolver_agrees:
  "case wasm_resolve_names_module m fs of
     (ctx, m', fs') \<Rightarrow> if rc_ok ctx then ref_module m = Some m' \<and> ctx = init_resolve_context m else ref_module m = None"
proof (cases "ref_module m")
  case None
  then show ?thesis using resolve_module_ok(1) [of m fs] by (simp add: case_prod_beta)
next
  case (Some m')
  from resolve_module_ok(2) [OF this, of fs] resolve_module_ok(1) [of m fs] Some show ?thesis by (simp add: case_prod_beta)
qed









subsection \<open>The interpreter\<close>





text \<open>
  C20. A load of up to eight bytes yields the little endian value of the bytes at address plus
  offset, computed without wrap-around, when all of them lie in the memory, and traps as out of
  bounds when one does not; it never reads outside of the memory.
\<close>

theorem load_exact:
  assumes "wf_state s" and "memory_operands 0 s index off" and "n \<le> 8"
  shows "op_load n push_value s = (let memory = env_memories (t_env s) ! unat index; address = accessed 0 s off
    in if address + n \<le> length (mem_data memory)
       then push_value (le_word n (take n (drop address (mem_data memory)))) (after_operands 0 s)
       else Inl (Stopped TRAP_MEMORY_ACCESS_OUT_OF_BOUNDS, after_operands 0 s))"
  using op_load_is [OF assms refl refl] by (simp add: Let_def)

theorem load_exact_witness:
  "op_load 4 push_u32 (one_page_thread [0, 0, 0, 0, 4, 0, 0, 0])
   = Inl (Stopped TRAP_MEMORY_ACCESS_OUT_OF_BOUNDS, after_operands 0 (one_page_thread [0, 0, 0, 0, 4, 0, 0, 0]))"
  using load_exact [OF wf_one_page operands_one_page, of 4 push_u32]
  by (simp add: one_page_memory accessed_one_page)

text \<open>
  C21. A load at the address of an earlier store, reached by whatever split into address and
  offset, yields the bytes that were stored: the value cut to the width of the store.
\<close>

theorem store_then_load:
  assumes "wf_state s" and "memory_operands 1 s index off" and "n \<le> 8" and "(pop_value, f) \<in> stored_values"
    and "op_store n pop_value s = Inr ((), s')"
    and "wf_state t" and "t_env t = t_env s'" and "memory_operands 0 t index off'"
    and "accessed 0 t off' = accessed 1 s off"
  shows "op_load n push_value t
    = push_value (take_bit (8 * n) (f (t_value_stack s ! (t_value_stack_top s - 1)))) (after_operands 0 t)"
  using load_after_store(1) [OF assms(1-8) assms(3), of push_value] assms(9) by simp

theorem store_then_load_witness:
  "op_load 4 push_i64 sample_loading = push_i64 0x12345678 (after_operands 0 sample_loading)"
  using store_then_load [OF sample_storing(1,2) _ sample_storing(3) sample_stored sample_loading sample_loading_accessed, of push_i64]
  unfolding sample_storing_value by simp

text \<open>
  C22. Signed division traps on a zero divisor and on exactly the quotient that does not fit the
  width, and otherwise pushes the quotient rounded towards zero; the remainder traps only on
  zero and has the sign of the dividend, at both widths.
\<close>

theorem division_exact:
  fixes p :: "('a :: len word) exec"
  shows "div_s p put = ebind p (\<lambda>rhs. ebind p (\<lambda>lhs.
      if rhs = 0 then trap TRAP_INTEGER_DIVIDE_BY_ZERO
      else let q = sint lhs sdiv sint rhs
           in if q < 2 ^ (LENGTH('a) - 1) then put (word_of_int q) else trap TRAP_INTEGER_OVERFLOW))
    \<and> rem_s p put = ebind p (\<lambda>rhs. ebind p (\<lambda>lhs.
      if rhs = 0 then trap TRAP_INTEGER_DIVIDE_BY_ZERO else put (word_of_int (sint lhs smod sint rhs))))"
  by (simp only: div_s_is rem_s_is Let_def conj_absorb simp_thms)

text \<open>
  C23. The rotations built of two shifts are the rotations of the word library for every count,
  multiples of the width included, at both widths.
\<close>

theorem rotations_exact:
  "int_rotl (a :: u32) b = word_rotl (unat b) a \<and> int_rotr a b = word_rotr (unat b) a
   \<and> int_rotl (c :: u64) d = word_rotl (unat d) c \<and> int_rotr c d = word_rotr (unat d) c"
  using rotations [of 5 a b] rotations [of 6 c d] by simp

text \<open>
  C24. The tests on the bits of a float decide what they mean to: six of the eight truncations
  trap on NaN, trap as overflow exactly if the part before the point does not fit the target,
  and otherwise push it; the two from doubles to 32 bits never push a wrong value but may trap
  as overflow without need.
\<close>

theorem truncations_exact:
  "op_trunc pop_i32 is_nan_f32 is_in_range_i32_trunc_s_f32 F32 S32_MIN S32_MAX put = ebind pop_i32 (\<lambda>v. ebind (truncated F32 S32_MIN S32_MAX v) put) \<and>
   op_trunc pop_i32 is_nan_f32 is_in_range_i32_trunc_u_f32 F32 0 U32_MAX put = ebind pop_i32 (\<lambda>v. ebind (truncated F32 0 U32_MAX v) put) \<and>
   op_trunc pop_i32 is_nan_f32 is_in_range_i64_trunc_s_f32 F32 S64_MIN S64_MAX put = ebind pop_i32 (\<lambda>v. ebind (truncated F32 S64_MIN S64_MAX v) put) \<and>
   op_trunc pop_i32 is_nan_f32 is_in_range_i64_trunc_u_f32 F32 0 U64_MAX put = ebind pop_i32 (\<lambda>v. ebind (truncated F32 0 U64_MAX v) put) \<and>
   op_trunc pop_i64 is_nan_f64 is_in_range_i64_trunc_s_f64 F64 S64_MIN S64_MAX put = ebind pop_i64 (\<lambda>v. ebind (truncated F64 S64_MIN S64_MAX v) put) \<and>
   op_trunc pop_i64 is_nan_f64 is_in_range_i64_trunc_u_f64 F64 0 U64_MAX put = ebind pop_i64 (\<lambda>v. ebind (truncated F64 0 U64_MAX v) put) \<and>
   op_trunc (eret v) is_nan_f64 is_in_range_i32_trunc_s_f64 F64 S32_MIN S32_MAX put \<in> {ebind (truncated F64 S32_MIN S32_MAX v) put, trap TRAP_INTEGER_OVERFLOW} \<and>
   op_trunc (eret v) is_nan_f64 is_in_range_i32_trunc_u_f64 F64 0 U32_MAX put \<in> {ebind (truncated F64 0 U32_MAX v) put, trap TRAP_INTEGER_OVERFLOW}"
  by (rule truncations)

text \<open>
  C25. On 32 bit numbers, the minimum and maximum are one of the operands, with the smaller and
  the larger value, and of zeros of different sign the minimum is the negative and the maximum
  the positive one, though the signs are compared as integers.
\<close>

theorem float_min_exact:
  assumes "\<not> f_is_nan F32 a" and "\<not> f_is_nan F32 b"
  shows "float_min MF32 a b \<in> {a, b} \<and> f_val F32 (float_min MF32 a b) = min (f_val F32 a) (f_val F32 b)
      \<and> (f_neg F32 (float_min MF32 a b) \<longleftrightarrow> f_neg F32 a \<or> f_neg F32 b)
    \<and> float_max MF32 a b \<in> {a, b} \<and> f_val F32 (float_max MF32 a b) = max (f_val F32 a) (f_val F32 b)
      \<and> (f_neg F32 (float_max MF32 a b) \<longleftrightarrow> f_neg F32 a \<and> f_neg F32 b)"
  using minmax_f32 [OF assms] by blast

theorem float_min_exact_witness:
  "f_val F32 (float_min MF32 0x80000000 0) = 0 \<and> f_neg F32 (float_min MF32 0x80000000 0)"
proof -
  have "\<not> f_is_nan F32 0x80000000" "\<not> f_is_nan F32 0" by (simp_all add: is_nan_f32_def flip: is_nan_f32)
  moreover have "f_val F32 0x80000000 = 0" "f_val F32 0 = 0" "f_neg F32 0x80000000"
    by (simp_all add: f_val_def f_mag_def f_exp_def f_sig_def f_neg_def F32_def bit_numeral_word_iff)
  ultimately show ?thesis using float_min_exact [of "0x80000000" 0] by auto
qed

subsection \<open>Literals\<close>

lemma hex_text_length: "length (write_hex F32 write_float_exp b) \<le> 18" "length (write_hex F64 write_double_exp d) \<le> 27"
proof -
  have "length (write_float_exp x) \<le> 3" "length (write_double_exp x) \<le> 4" for x
    by (simp_all add: write_float_exp_def write_double_exp_def cstr_def)
  then show "length (write_hex F32 write_float_exp b) \<le> 18" "length (write_hex F64 write_double_exp d) \<le> 27"
    using length_write_hex [of write_float_exp 3 F32 b] length_write_hex [of write_double_exp 4 F64 d]
    by (simp_all add: F32_def F64_def)
qed

text \<open>
  C26. Every 32 bit pattern, normal and subnormal numbers, both zeroes, infinities and all NaN
  payloads included, is read back bit for bit from the text written for it, whatever strtof
  does, provided the buffer has room for 19 bytes.
\<close>

theorem float_hex_round_trip:
  assumes "19 \<le> room"
  shows "wasm_parse_float strtof (hex_literal_type F32 bits) (butlast (wasm_write_float_hex room bits)) = Parsed bits"
proof -
  have "length (write_hex F32 write_float_exp bits) < room"
    using hex_text_length(1) [of bits] assms by simp
  then have "butlast (wasm_write_float_hex room bits) = write_hex F32 write_float_exp bits"
    by (simp add: wasm_write_float_hex_def copy_out_def)
  moreover have "hex_literal_type F32 bits \<noteq> WASM_LITERAL_TYPE_INT" "hex_literal_type F32 bits \<noteq> WASM_LITERAL_TYPE_FLOAT"
    by (simp_all add: hex_literal_type_def)
  ultimately show ?thesis using f32.write_hex_round [of bits Undefined]
    by (cases "hex_literal_type F32 bits") (simp_all add: parse_float_hex_def parse_float_infinity_def parse_float_nan_def)
qed

theorem float_hex_round_trip_witness:
  "wasm_parse_float (\<lambda>_. (0, 0, True)) WASM_LITERAL_TYPE_HEXFLOAT (butlast (wasm_write_float_hex 20 0x00000001)) = Parsed 0x00000001"
  using float_hex_round_trip [of 20 "\<lambda>_. (0, 0, True)" 1] by (simp add: hex_literal_type_def F32_def)

text \<open>
  C27. The same for 64 bit patterns, with room for 28 bytes.
\<close>

theorem double_hex_round_trip:
  assumes "28 \<le> room"
  shows "wasm_parse_double strtod (hex_literal_type F64 bits) (butlast (wasm_write_double_hex room bits)) = Parsed bits"
proof -
  have "length (write_hex F64 write_double_exp bits) < room"
    using hex_text_length(2) [of bits] assms by simp
  then have "butlast (wasm_write_double_hex room bits) = write_hex F64 write_double_exp bits"
    by (simp add: wasm_write_double_hex_def copy_out_def)
  moreover have "hex_literal_type F64 bits \<noteq> WASM_LITERAL_TYPE_INT" "hex_literal_type F64 bits \<noteq> WASM_LITERAL_TYPE_FLOAT"
    by (simp_all add: hex_literal_type_def)
  ultimately show ?thesis using f64.write_hex_round [of bits Failed]
    by (cases "hex_literal_type F64 bits") (simp_all add: parse_double_hex_def parse_double_infinity_def parse_double_nan_def)
qed

theorem double_hex_round_trip_witness:
  "wasm_parse_double (\<lambda>_. (0, 0, True)) WASM_LITERAL_TYPE_HEXFLOAT (butlast (wasm_write_double_hex 40 1)) = Parsed 1"
  using double_hex_round_trip [of 40 "\<lambda>_. (0, 0, True)" 1] by (simp add: hex_literal_type_def F64_def)

text \<open>
  C28. The text written for a bit pattern, with its terminating NUL, fits the buffers on the
  writer's stack (WASM_MAX_FLOAT_HEX, 20 bytes, and WASM_MAX_DOUBLE_HEX, 40 bytes).
\<close>

theorem hex_text_fits:
  "length (write_hex F32 write_float_exp b32) + 1 < 20 \<and> length (write_hex F64 write_double_exp b64) + 1 < 40"
  using hex_text_length(1) [of b32] hex_text_length(2) [of b64] by simp

text \<open>
  C29. The loop that writes the fraction until the significand is zero ends: no value needs more
  than eight rounds at 32 bits and sixteen at 64, so more fuel than that never changes the
  digits.
\<close>

theorem nybble_loop_ends:
  assumes "8 \<le> n" and "16 \<le> k"
  shows "write_sig F32 n w = write_sig F32 8 w \<and> write_sig F64 k v = write_sig F64 16 v"
  using f32.write_sig_enough [OF assms(1), of w] f64.write_sig_enough [OF assms(2), of v] by simp

theorem nybble_loop_ends_witness:
  "write_sig F32 100 0xffffffff = write_sig F32 8 0xffffffff \<and> write_sig F64 100 3 = write_sig F64 16 3"
  by (rule nybble_loop_ends) simp_all

text \<open>
  C30. Decimal literals below 2^64: the parser of 32 bit integers returns exactly the number, or
  fails when it does not fit; with a minus sign it accepts exactly down to -2^31 and returns the
  two's complement.
\<close>

theorem int32_literals:
  assumes "ds \<noteq> []" and "\<forall>d \<in> set ds. d < 10" and "decval ds < 2 ^ 64"
  shows "wasm_parse_int32 (map dec_char ds) parse_type = (if decval ds < 2 ^ 32 then Parsed (word_of_nat (decval ds)) else Failed)
    \<and> wasm_parse_int32 (chr CHR ''-'' # map dec_char ds) WASM_PARSE_SIGNED_AND_UNSIGNED =
      (if decval ds \<le> 2 ^ 31 then Parsed (- word_of_nat (decval ds)) else Failed)"
  using parse_int32_dec [OF assms] by blast

theorem int32_literals_witness:
  "wasm_parse_int32 (map dec_char [4, 2]) WASM_PARSE_UNSIGNED_ONLY = Parsed 42"
  using int32_literals [of "[4, 2]" WASM_PARSE_UNSIGNED_ONLY] by simp

subsection \<open>LEB128\<close>

text \<open>
  C31. Decoding an encoded 32 bit value returns it and consumes exactly its bytes, whatever
  bytes follow, and an encoding has at most five bytes.
\<close>

theorem u32_leb128_roundtrip:
  "wasm_read_u32_leb128 (u32_leb128_bytes (w :: u32) @ rest) = Some (w, length (u32_leb128_bytes w))
   \<and> length (u32_leb128_bytes w) \<le> 5"
  using u32_leb.dec_enc length_u32_leb128_bytes by blast

text \<open>
  C32. Decoding an encoded signed 32 bit value returns it, sign included, and consumes exactly
  its bytes, at most five.
\<close>

theorem i32_leb128_roundtrip:
  "wasm_read_i32_leb128 (i32_leb128_bytes w @ rest) = Some (w, length (i32_leb128_bytes w))
   \<and> length (i32_leb128_bytes w) \<le> 5"
  using i32_leb.dec_enc length_i32_leb128_bytes by blast

text \<open>
  C33. Decoding an encoded signed 64 bit value returns it, sign included, and consumes exactly
  its bytes, at most ten.
\<close>

theorem i64_leb128_roundtrip:
  "read_i64_leb128 (i64_leb128_bytes w @ rest) = Inr (w, length (i64_leb128_bytes w))
   \<and> length (i64_leb128_bytes w) \<le> 10"
  using read_i64_leb128_bytes length_i64_leb128_bytes by blast

text \<open>
  C34. The five byte encoding used where a size is patched in later decodes to the value as
  well.
\<close>

theorem fixed_leb128_roundtrip:
  "wasm_read_u32_leb128 (fixed_u32_leb128_bytes w @ rest) = Some (w, 5)"
  using fixed_leb.dec_enc by simp

text \<open>
  C35. What the decoder accepts it reads exactly: it looks at between one and five bytes, never
  past the end of the input, and the value returned is the sum of the seven bit groups as
  integers, with nothing lost to the 32 bit width.
\<close>

theorem u32_leb128_exact:
  assumes "wasm_read_u32_leb128 p = Some (v, n)"
  shows "0 < n \<and> n \<le> 5 \<and> n \<le> length p \<and> uint v = leb_value p n"
  using wasm_read_u32_leb128_bounds [OF assms] wasm_read_u32_leb128_value [OF assms] by blast

theorem u32_leb128_exact_witness:
  "(300 :: int) = leb_value [0xac, 0x02, 0xff] 2"
proof -
  have "wasm_read_u32_leb128 [0xac, 0x02, 0xff] = Some (300, 2)" by code_simp
  from u32_leb128_exact [OF this] show ?thesis by simp
qed

text \<open>
  C36. A five byte encoding with bits beyond the 32nd is rejected rather than truncated.
\<close>

theorem u32_leb128_overlong_rejected:
  assumes "5 \<le> length p" and "\<forall>i < 4. p ! i AND 0x80 \<noteq> 0" and "p ! 4 AND 0xf0 \<noteq> 0"
  shows "wasm_read_u32_leb128 p = None"
  using assms by (auto simp: wasm_read_u32_leb128_def leb_ends_at_def less_Suc_eq numeral_eq_Suc split: if_splits)

theorem u32_leb128_overlong_rejected_witness:
  "wasm_read_u32_leb128 [0x80, 0x80, 0x80, 0x80, 0x10] = None"
proof (rule u32_leb128_overlong_rejected)
  show "\<forall>i < 4. [0x80, 0x80, 0x80, 0x80, 0x10] ! i AND (0x80 :: byte) \<noteq> 0" by code_simp
qed simp_all

text \<open>
  C37. The size computed before a section is moved is the number of bytes the encoder then
  writes.
\<close>

theorem leb128_size_exact:
  "size_u32_leb128 w = length (u32_leb128_bytes w)"
  by (rule size_u32_leb128_length)

subsection \<open>Name tables\<close>

text \<open>
  C38. On a table that satisfies the structural invariant (acyclic collision chains that hold
  every binding of their bucket, a doubly linked free list of exactly the free entries),
  inserting a name that is not in it never runs out of entries or follows a bad link, keeps the
  invariant, and changes the result of exactly the lookup of that name.
\<close>

theorem insert_then_find:
  assumes "hash_inv h" and "wasm_find_binding_index_by_name h (Some n) = - 1" and "0 \<le> ix"
  shows "\<exists>h'. add_binding junk h n ix = Some h' \<and> hash_inv h'
    \<and> (\<forall>k. wasm_find_binding_index_by_name h' (Some k) = (if k = n then ix else wasm_find_binding_index_by_name h (Some k)))"
  using bindings.add_law [OF assms, of junk] by (auto simp: fun_eq_iff)

theorem insert_then_find_witness:
  "\<exists>h'. add_binding sample_junk empty_hash [0x61] 7 = Some h' \<and> wasm_find_binding_index_by_name h' (Some [0x61]) = 7"
  using insert_then_find [OF hash_inv_empty find_empty_hash [of "Some [0x61]"], of 7 sample_junk] by auto

text \<open>
  C39. A table filled from empty with distinct names, in order and through every growth of the
  table, is the map from each name to its position: each lookup returns the position, and every
  other name is not found.
\<close>

theorem names_indexed:
  assumes "distinct ns"
  shows "\<exists>h. bindings.add_all junk empty_hash 0 ns = Some h
    \<and> (\<forall>i < length ns. wasm_find_binding_index_by_name h (Some (ns ! i)) = int i)
    \<and> (\<forall>n. n \<notin> set ns \<longrightarrow> wasm_find_binding_index_by_name h (Some n) = - 1)"
  by (rule bindings.index_all [OF assms, of junk]) (intro exI conjI allI impI; assumption?; simp)

theorem names_indexed_witness:
  "\<exists>h. bindings.add_all sample_junk empty_hash 0 [[0x61], [0x62], []] = Some h
     \<and> wasm_find_binding_index_by_name h (Some [0x62]) = 1 \<and> wasm_find_binding_index_by_name h (Some [0x63]) = - 1"
proof -
  let ?ns = "[[0x61], [0x62], []] :: byte list list"
  have "distinct ?ns" by simp
  from names_indexed [OF this, of sample_junk] obtain h where h: "bindings.add_all sample_junk empty_hash 0 ?ns = Some h"
    and at: "\<forall>i < length ?ns. wasm_find_binding_index_by_name h (Some (?ns ! i)) = int i"
    and out: "\<forall>n. n \<notin> set ?ns \<longrightarrow> wasm_find_binding_index_by_name h (Some n) = - 1" by blast
  have "wasm_find_binding_index_by_name h (Some (?ns ! 1)) = 1" using at [rule_format, of 1] by simp
  moreover have "wasm_find_binding_index_by_name h (Some [0x63]) = - 1" by (rule out [rule_format]) simp
  ultimately show ?thesis using h by simp
qed

end
